(* ===== verification/Prelude.thy ===== *)
theory Prelude
  imports Main
begin

text \<open>
  The vocabulary the component theories share: the exceptions of the Python sources as the
  values of one datatype, results that are an exception or a value, the sequencing of
  fallible computations, and list lemmas that Isabelle's library does not have.

  A Python function that raises becomes a function into \<open>py_error + 'a\<close>: \<open>Inl\<close> is the
  exception that leaves the call, \<open>Inr\<close> the value it returns. Every exception class of the
  modelled sources is a constructor; the message is kept where it is a constant of the
  source, and the variable parts of a formatted message are not.
\<close>

section \<open>Exceptions and results\<close>

datatype py_error =
    ValueError string
  | TypeError string
  | AssertionError
  | IndexError
  | KeyError string
  | AttributeError string
  | ArithmeticError string
  | AccountingIntegrityError string
  | ExperimentIntegrityError string
  | TransportUnavailableError
  | TransportError string
  | MalformedReplyError string
  | InstrumentParseError string
  | InvalidTransitionError
  | AuditIntegrityError string
  | BudgetIntegrityError string
  | AutonomyIntegrityError string
  | DuplicateCloseoutAttributionError string
  | PolicyViolationError
  | SnapshotIntegrityError string
  | CloseoutAttributionIntegrityError string
  | OSError
  | RuntimeError string
  | ValidationError string
  | UnknownTradeIdeaError string
  | DuplicateTradeIdeaError string
  | PreApprovalBrokerTicketError
  | PositionOperationAdmissionError string
  | ExecutionJournalIntegrityError string
  | PaperReceiptConflictError string
  | PaperOnlyLaneError
  | IdeaNotExecutableError string
  | PaperExecutionError string
  | WriteError string
  | SqliteError string
  | ReplayScoringError string

type_synonym 'a result = "py_error + 'a"

text \<open>\<open>rbind m f\<close> runs \<open>f\<close> on the value of \<open>m\<close>; an exception of \<open>m\<close> propagates.\<close>

fun rbind :: "'e + 'a \<Rightarrow> ('a \<Rightarrow> 'e + 'b) \<Rightarrow> 'e + 'b" where
  "rbind (Inl e) f = Inl e"
| "rbind (Inr a) f = f a"

text \<open>\<open>raise_if c e\<close> is the statement \<^verbatim>\<open>if c: raise e\<close>.\<close>

definition raise_if :: "bool \<Rightarrow> 'e \<Rightarrow> 'e + unit" where
  "raise_if c e = (if c then Inl e else Inr ())"

text \<open>A loop that runs a fallible body for every element, collecting the results.\<close>

fun rmap :: "('a \<Rightarrow> 'e + 'b) \<Rightarrow> 'a list \<Rightarrow> 'e + 'b list" where
  "rmap f [] = Inr []"
| "rmap f (x # xs) = rbind (f x) (\<lambda>y. rbind (rmap f xs) (\<lambda>ys. Inr (y # ys)))"

text \<open>A loop that threads a state through a fallible body.\<close>

fun rfold :: "('s \<Rightarrow> 'a \<Rightarrow> 'e + 's) \<Rightarrow> 's \<Rightarrow> 'a list \<Rightarrow> 'e + 's" where
  "rfold f s [] = Inr s"
| "rfold f s (x # xs) = rbind (f s x) (\<lambda>s'. rfold f s' xs)"

definition is_ok :: "'e + 'a \<Rightarrow> bool" where
  "is_ok r = (case r of Inl _ \<Rightarrow> False | Inr _ \<Rightarrow> True)"

section \<open>Named collections\<close>

named_theorems inv_simps \<open>unfolding of the component invariants\<close>
named_theorems op_defs \<open>definitions of the component operations\<close>

section \<open>Lemmas on results\<close>

lemma rbind_Inr_iff [simp]: "rbind m f = Inr y \<longleftrightarrow> (\<exists>x. m = Inr x \<and> f x = Inr y)"
  by (cases m) auto

lemma rbind_Inl_iff: "rbind m f = Inl e \<longleftrightarrow> m = Inl e \<or> (\<exists>x. m = Inr x \<and> f x = Inl e)"
  by (cases m) auto

lemma raise_if_Inr_iff [simp]: "raise_if c e = Inr u \<longleftrightarrow> \<not> c"
  by (simp add: raise_if_def)

lemma raise_if_Inl_iff [simp]: "raise_if c e = Inl e' \<longleftrightarrow> c \<and> e' = e"
  by (auto simp: raise_if_def)

lemma raise_if_True [simp]: "raise_if True e = Inl e"
  and raise_if_False [simp]: "raise_if False e = Inr ()"
  by (simp_all add: raise_if_def)

lemma rbind_assoc: "rbind (rbind m f) g = rbind m (\<lambda>x. rbind (f x) g)"
  by (cases m) auto

lemma rbind_cong [fundef_cong]:
  "m = m' \<Longrightarrow> (\<And>x. m' = Inr x \<Longrightarrow> f x = f' x) \<Longrightarrow> rbind m f = rbind m' f'"
  by (cases m') auto

lemma is_ok_simps [simp]: "is_ok (Inr x)" "\<not> is_ok (Inl e)"
  by (simp_all add: is_ok_def)

lemma is_ok_iff: "is_ok r \<longleftrightarrow> (\<exists>x. r = Inr x)"
  by (cases r) auto

lemma rmap_length: "rmap f xs = Inr ys \<Longrightarrow> length ys = length xs"
  by (induction xs arbitrary: ys) auto

lemma rmap_nth: "rmap f xs = Inr ys \<Longrightarrow> i < length xs \<Longrightarrow> f (xs ! i) = Inr (ys ! i)"
proof (induction xs arbitrary: ys i)
  case (Cons x xs)
  then show ?case by (cases i) auto
qed simp

lemma rmap_Inr_iff:
  "rmap f xs = Inr ys \<longleftrightarrow> list_all2 (\<lambda>x y. f x = Inr y) xs ys"
proof (induction xs arbitrary: ys)
  case (Cons x xs)
  then show ?case by (cases ys) auto
qed auto

lemma rfold_append: "rfold f s (xs @ ys) = rbind (rfold f s xs) (\<lambda>s'. rfold f s' ys)"
  by (induction xs arbitrary: s) (auto simp: rbind_assoc)

lemma rfold_snoc: "rfold f s (xs @ [x]) = rbind (rfold f s xs) (\<lambda>s'. f s' x)"
  by (simp add: rfold_append, cases "rfold f s xs") (auto intro: rbind_cong simp: rbind.simps split: sum.splits, (metis old.sum.exhaust rbind.simps))

text \<open>An invariant that a fallible loop body keeps holds of the loop's result.\<close>

lemma rfold_invariant:
  assumes "rfold f s xs = Inr s'" and "P s"
    and "\<And>s x t. x \<in> set xs \<Longrightarrow> P s \<Longrightarrow> f s x = Inr t \<Longrightarrow> P t"
  shows "P s'"
  using assms
proof (induction xs arbitrary: s)
  case (Cons x xs)
  from Cons.prems(1) obtain t where t: "f s x = Inr t" "rfold f t xs = Inr s'" by auto
  show ?case
  proof (rule Cons.IH)
    show "rfold f t xs = Inr s'" by (rule t(2))
    show "P t" using Cons.prems t(1) by auto
    show "\<And>s y u. y \<in> set xs \<Longrightarrow> P s \<Longrightarrow> f s y = Inr u \<Longrightarrow> P u"
      using Cons.prems(3) by auto
  qed
qed simp

section \<open>Lemmas on lists\<close>

lemma last_filter_snoc:
  "filter P (xs @ [x]) \<noteq> [] \<Longrightarrow> P x \<Longrightarrow> last (filter P (xs @ [x])) = x"
  by simp

lemma list_all_nth_iff: "list_all P xs \<longleftrightarrow> (\<forall>i < length xs. P (xs ! i))"
  by (auto simp: list_all_iff all_set_conv_all_nth)

end
