(* ===== verification/Decimal28.thy ===== *)
theory Decimal28
  imports Complex_Main Prelude
begin

text \<open>
  Python's \<^verbatim>\<open>decimal.Decimal\<close> in the default context the sources run under: 28 significant
  digits, rounding half to even. A finite \<open>Decimal\<close> is modelled by its value, a rational
  number; the arithmetic operators round the exact result to 28 significant digits, as the
  decimal specification says, and comparisons are exact. The exponent of a \<open>Decimal\<close> (its
  trailing zeros), the sign of zero and the exponent limits are not modelled. NaN and the
  infinities are the constructor \<open>NonFinite\<close> of the values that reach the sources from
  outside and are tested there with \<^verbatim>\<open>is_finite\<close>.

  The lemmas show that rounding is monotone, odd, idempotent, keeps the sign, has a relative
  error of at most half a unit in the 28th digit, and leaves a multiple of a power of ten
  with at most 28 digits unchanged; the accounting theorems of the components rest on these.
\<close>

section \<open>Definitions\<close>

type_synonym dec = rat

datatype py_decimal = Finite dec | NonFinite

fun is_finite :: "py_decimal \<Rightarrow> bool" where
  "is_finite (Finite _) = True"
| "is_finite NonFinite = False"

definition prec :: int where "prec = 28"

text \<open>The number of decimal digits of a non-negative integer (one for zero).\<close>

function ndigits :: "int \<Rightarrow> int" where
  "ndigits n = (if n < 10 then 1 else 1 + ndigits (n div 10))"
  by pat_completeness auto
termination
  by (relation "measure nat") auto

declare ndigits.simps [simp del]

text \<open>
  The exponent of the most significant digit of a non-zero value
  (\<^verbatim>\<open>Decimal.adjusted\<close>): the power of ten just below its magnitude.
\<close>

definition adjusted :: "dec \<Rightarrow> int" where
  "adjusted x =
     (let (p, q) = quotient_of \<bar>x\<bar>;
          e = ndigits p - ndigits q
      in if 10 powi e \<le> \<bar>x\<bar> then e else e - 1)"

text \<open>Rounding to an integer, half to even (\<^verbatim>\<open>ROUND_HALF_EVEN\<close>).\<close>

definition half_even :: "rat \<Rightarrow> int" where
  "half_even x =
     (let f = \<lfloor>x\<rfloor>; d = x - of_int f
      in if d < 1 / 2 then f else if 1 / 2 < d then f + 1 else if even f then f else f + 1)"

text \<open>Rounding to \<open>n\<close> significant digits, and to 28 of them.\<close>

definition round_digits :: "int \<Rightarrow> rat \<Rightarrow> dec" where
  "round_digits n x =
     (if x = 0 then 0
      else let u = 10 powi (adjusted x - (n - 1)) in of_int (half_even (x / u)) * u)"

definition dround :: "rat \<Rightarrow> dec" where
  "dround x =
     (if x = 0 then 0
      else let u = 10 powi (adjusted x - (prec - 1)) in of_int (half_even (x / u)) * u)"

definition dadd :: "dec \<Rightarrow> dec \<Rightarrow> dec" where "dadd x y = dround (x + y)"
definition dsub :: "dec \<Rightarrow> dec \<Rightarrow> dec" where "dsub x y = dround (x - y)"
definition dmul :: "dec \<Rightarrow> dec \<Rightarrow> dec" where "dmul x y = dround (x * y)"
definition dabs :: "dec \<Rightarrow> dec" where "dabs x = dround \<bar>x\<bar>"
definition dneg :: "dec \<Rightarrow> dec" where "dneg x = dround (- x)"

text \<open>
  \<^verbatim>\<open>x ** 2\<close>: CPython multiplies with three guard digits (the digits of the exponent plus
  two) and rounds the product once more to the context's precision.
\<close>

definition dsquare :: "dec \<Rightarrow> dec" where
  "dsquare x = dround (round_digits (prec + 3) (x * x))"

text \<open>
  Division raises \<^verbatim>\<open>DivisionByZero\<close> (\<^verbatim>\<open>InvalidOperation\<close> for 0/0), both of them
  \<^verbatim>\<open>ArithmeticError\<close>. \<open>dquot\<close> is the quotient where the divisor is a non-zero constant.
\<close>

definition dquot :: "dec \<Rightarrow> dec \<Rightarrow> dec" where "dquot x y = dround (x / y)"

definition ddiv :: "dec \<Rightarrow> dec \<Rightarrow> dec result" where
  "ddiv x y = (if y = 0 then Inl (ArithmeticError ''division by zero'') else Inr (dquot x y))"

text \<open>\<^verbatim>\<open>to_integral_value\<close> is exact: it applies no precision.\<close>

definition integral_down :: "dec \<Rightarrow> dec" where
  "integral_down x = (if 0 \<le> x then of_int \<lfloor>x\<rfloor> else of_int \<lceil>x\<rceil>)"

definition integral_half_even :: "dec \<Rightarrow> dec" where
  "integral_half_even x = of_int (half_even x)"

text \<open>\<^verbatim>\<open>sum(values, Decimal(0))\<close>: a left fold of rounded additions.\<close>

definition dsum :: "dec list \<Rightarrow> dec" where
  "dsum xs = foldl dadd 0 xs"

text \<open>
  \<^verbatim>\<open>Decimal.sqrt\<close>: the square root rounded half to even to 28 digits, over an integer
  square root.
\<close>

function isqrt :: "int \<Rightarrow> int" where
  "isqrt n =
     (if n \<le> 0 then 0
      else let r = 2 * isqrt (n div 4) in if (r + 1) * (r + 1) \<le> n then r + 1 else r)"
  by pat_completeness auto
termination
  by (relation "measure nat") auto

declare isqrt.simps [simp del]

definition dsqrt :: "dec \<Rightarrow> dec" where
  "dsqrt x =
     (if x \<le> 0 then 0
      else let e = adjusted x div 2 - (prec - 1);
               y = x / 10 powi (2 * e);
               r = isqrt \<lfloor>y\<rfloor>;
               m = (of_int r + 1 / 2) * (of_int r + 1 / 2) :: rat;
               n = (if m < y then r + 1 else if y < m then r else if even r then r else r + 1)
           in of_int n * 10 powi e)"

text \<open>A value on the grid of multiples of \<open>10\<close> to the power \<open>k\<close>.\<close>

definition on_grid :: "int \<Rightarrow> rat \<Rightarrow> bool" where
  "on_grid k x \<longleftrightarrow> (\<exists>m::int. x = of_int m * 10 powi k)"

text \<open>A value that rounding leaves alone.\<close>

definition exact :: "rat \<Rightarrow> bool" where
  "exact x \<longleftrightarrow> dround x = x"

section \<open>Powers of ten and digit counts\<close>

lemma powi10_pos [simp]: "(0::rat) < 10 powi e"
  by (simp add: zero_less_power_int)

lemma powi10_nonzero [simp]: "(10::rat) powi e \<noteq> 0"
  by simp

lemma powi10_mono: "e \<le> f \<Longrightarrow> (10::rat) powi e \<le> 10 powi f"
  by (rule power_int_increasing) auto

lemma powi10_add: "(10::rat) powi (e + f) = 10 powi e * 10 powi f"
  by (simp add: power_int_add)

lemma powi10_diff: "(10::rat) powi (e - f) = 10 powi e / 10 powi f"
  by (simp add: power_int_diff)

lemma ndigits_pos: "0 < ndigits n"
proof (induction n rule: ndigits.induct)
  case (1 n)
  then show ?case by (cases "n < 10") (auto simp: ndigits.simps[of n])
qed

lemma ndigits_bounds:
  "0 < n \<Longrightarrow> (10::rat) powi (ndigits n - 1) \<le> of_int n \<and> of_int n < (10::rat) powi ndigits n"
proof (induction n rule: ndigits.induct)
  case (1 n)
  show ?case
  proof (cases "n < 10")
    case True
    then show ?thesis using 1 by (subst (1 2) ndigits.simps) simp
  next
    case False
    let ?d = "ndigits (n div 10)"
    from False have "0 < n div 10" by simp
    with 1 False have IH: "(10::rat) powi (?d - 1) \<le> of_int (n div 10)"
      "of_int (n div 10) < (10::rat) powi ?d" by auto
    have d: "of_int n = 10 * (of_int (n div 10) :: rat) + of_int (n mod 10)"
      by (metis of_int_add of_int_mult of_int_numeral mult_div_mod_eq)
    have m: "0 \<le> (of_int (n mod 10) :: rat)" by simp
    have p: "(10::rat) powi (?d - 1) * 10 = 10 powi ?d" using powi10_add[of "?d - 1" 1] by simp
    have "(10::rat) powi ?d \<le> of_int n" using IH(1) d m p by linarith
    moreover have "of_int n < (10::rat) powi (1 + ?d)"
    proof -
      have nd: "0 \<le> ?d" using ndigits_pos[of "n div 10"] by simp
      have pw: "(10::rat) powi ?d = of_int (10 ^ nat ?d)" using nd by (simp add: power_int_def)
      have "n div 10 < 10 ^ nat ?d" using IH(2) unfolding pw of_int_less_iff .
      then have "n < 10 * 10 ^ nat ?d" by linarith
      then have "(of_int n :: rat) < of_int (10 * 10 ^ nat ?d)" by (simp only: of_int_less_iff)
      then show ?thesis using pw powi10_add[of 1 ?d] by simp
    qed
    ultimately show ?thesis using False by (simp add: ndigits.simps[of n])
  qed
qed

lemma adjusted_bounds:
  assumes "x \<noteq> 0"
  shows "10 powi adjusted x \<le> \<bar>x\<bar>" and "\<bar>x\<bar> < 10 powi (adjusted x + 1)"
proof -
  obtain p q where pq: "quotient_of \<bar>x\<bar> = (p, q)" by fastforce
  have q: "0 < q" using quotient_of_denom_pos[OF pq] .
  have x: "\<bar>x\<bar> = of_int p / of_int q" using quotient_of_div[OF pq] .
  have p: "0 < p"
  proof (rule ccontr)
    assume "\<not> 0 < p"
    then have "of_int p / of_int q \<le> (0::rat)" using q by (simp add: divide_le_0_iff)
    with x assms show False by simp
  qed
  let ?a = "ndigits p" and ?b = "ndigits q"
  note P = ndigits_bounds[OF p, THEN conjunct1] ndigits_bounds[OF p, THEN conjunct2]
  note Q = ndigits_bounds[OF q, THEN conjunct1] ndigits_bounds[OF q, THEN conjunct2]
  let ?e = "?a - ?b"
  have lo: "(10::rat) powi (?e - 1) \<le> \<bar>x\<bar>"
  proof -
    have "(10::rat) powi (?a - 1) / 10 powi ?b \<le> of_int p / of_int q"
      using P Q p q by (intro frac_le) auto
    also have "(10::rat) powi (?a - 1) / 10 powi ?b = 10 powi (?e - 1)"
      by (simp only: powi10_diff[symmetric]) (simp add: algebra_simps)
    finally show ?thesis by (simp only: x)
  qed
  have hi: "\<bar>x\<bar> < (10::rat) powi (?e + 1)"
  proof -
    have "of_int p / of_int q < (10::rat) powi ?a / 10 powi (?b - 1)"
      using P Q p q by (intro frac_less) auto
    also have "(10::rat) powi ?a / 10 powi (?b - 1) = 10 powi (?e + 1)"
      by (simp only: powi10_diff[symmetric]) (simp add: algebra_simps)
    finally show ?thesis by (simp only: x)
  qed
  have adj: "adjusted x = (if 10 powi ?e \<le> \<bar>x\<bar> then ?e else ?e - 1)"
    by (simp add: adjusted_def pq Let_def)
  show "10 powi adjusted x \<le> \<bar>x\<bar>" using lo by (simp add: adj)
  show "\<bar>x\<bar> < 10 powi (adjusted x + 1)" using hi by (simp add: adj)
qed

lemma adjusted_unique:
  assumes "10 powi e \<le> \<bar>x\<bar>" and "\<bar>x\<bar> < 10 powi (e + 1)"
  shows "adjusted x = e"
proof -
  have x: "x \<noteq> 0"
  proof
    assume "x = 0"
    with assms(1) have "(10::rat) powi e \<le> 0" by simp
    with powi10_pos[of e] show False by linarith
  qed
  note b = adjusted_bounds[OF x]
  have "\<not> adjusted x + 1 \<le> e" using powi10_mono[of "adjusted x + 1" e] assms b by linarith
  moreover have "\<not> e + 1 \<le> adjusted x" using powi10_mono[of "e + 1" "adjusted x"] assms b by linarith
  ultimately show ?thesis by linarith
qed

lemma adjusted_uminus [simp]: "adjusted (- x) = adjusted x"
  by (simp add: adjusted_def)

lemma adjusted_mono: "x \<noteq> 0 \<Longrightarrow> \<bar>x\<bar> \<le> \<bar>y\<bar> \<Longrightarrow> adjusted x \<le> adjusted y"
proof -
  assume x: "x \<noteq> 0" and le: "\<bar>x\<bar> \<le> \<bar>y\<bar>"
  then have y: "y \<noteq> 0" by auto
  have "\<not> adjusted y + 1 \<le> adjusted x"
    using powi10_mono[of "adjusted y + 1" "adjusted x"] adjusted_bounds[OF x] adjusted_bounds[OF y] le
    by linarith
  then show ?thesis by linarith
qed

section \<open>Rounding to an integer\<close>

lemma half_even_of_int [simp]: "half_even (of_int m) = m"
  by (simp add: half_even_def)

lemma half_even_cases: "half_even x = \<lfloor>x\<rfloor> \<or> half_even x = \<lfloor>x\<rfloor> + 1"
  by (auto simp: half_even_def Let_def)

lemma half_even_error: "\<bar>of_int (half_even x) - x\<bar> \<le> 1 / 2"
proof -
  have "of_int \<lfloor>x\<rfloor> \<le> x" "x < of_int \<lfloor>x\<rfloor> + 1" by linarith+
  then show ?thesis by (auto simp: half_even_def Let_def abs_le_iff)
qed

lemma half_even_mono: "x \<le> y \<Longrightarrow> half_even x \<le> half_even y"
proof -
  assume le: "x \<le> y"
  show ?thesis
  proof (cases "\<lfloor>x\<rfloor> = \<lfloor>y\<rfloor>")
    case True
    with le show ?thesis by (auto simp: half_even_def Let_def)
  next
    case False
    with floor_mono[OF le] have "\<lfloor>x\<rfloor> + 1 \<le> \<lfloor>y\<rfloor>" by linarith
    then show ?thesis using half_even_cases[of x] half_even_cases[of y] by linarith
  qed
qed

lemma half_even_uminus: "half_even (- x) = - half_even x"
proof (cases "x = of_int \<lfloor>x\<rfloor>")
  case True
  then have "half_even (- x) = half_even (of_int (- \<lfloor>x\<rfloor>))" by simp
  also have "\<dots> = - \<lfloor>x\<rfloor>" by (simp only: half_even_of_int)
  also have "\<lfloor>x\<rfloor> = half_even x" using half_even_of_int[of "\<lfloor>x\<rfloor>"] True by simp
  finally show ?thesis .
next
  case False
  then have "of_int \<lfloor>x\<rfloor> < x" "x < of_int \<lfloor>x\<rfloor> + 1" by linarith+
  then have f: "\<lfloor>- x\<rfloor> = - \<lfloor>x\<rfloor> - 1" by (simp add: floor_eq_iff)
  show ?thesis by (auto simp: half_even_def f Let_def)
qed

lemma half_even_le_of_int: "x \<le> of_int m \<Longrightarrow> half_even x \<le> m"
  using half_even_mono[of x "of_int m"] by simp

lemma half_even_ge_of_int: "of_int m \<le> x \<Longrightarrow> m \<le> half_even x"
  using half_even_mono[of "of_int m" x] by simp

section \<open>Rounding to 28 digits\<close>

lemma dround_0 [simp]: "dround 0 = 0"
  by (simp add: dround_def)

lemma dround_uminus [simp]: "dround (- x) = - dround x"
  by (simp add: dround_def Let_def half_even_uminus flip: minus_divide_left)

text \<open>The rounded coefficient has 28 digits, or is the next power of ten.\<close>

lemma dround_coefficient:
  assumes "0 < x"
  shows "10 ^ 27 \<le> half_even (x / 10 powi (adjusted x - 27))"
    and "half_even (x / 10 powi (adjusted x - 27)) \<le> 10 ^ 28"
proof -
  let ?e = "adjusted x - 27"
  have x: "x \<noteq> 0" "\<bar>x\<bar> = x" using assms by auto
  note b = adjusted_bounds[OF x(1), unfolded x(2)]
  have "(10::rat) powi adjusted x = 10 ^ 27 * 10 powi ?e"
    using powi10_add[of 27 ?e] by simp
  with b(1) have "10 ^ 27 \<le> x / 10 powi ?e" by (simp add: pos_le_divide_eq)
  then show "10 ^ 27 \<le> half_even (x / 10 powi ?e)" by (intro half_even_ge_of_int) simp
  have "(10::rat) powi (adjusted x + 1) = 10 ^ 28 * 10 powi ?e"
    using powi10_add[of 28 ?e] by (simp add: algebra_simps)
  with b(2) have "x / 10 powi ?e \<le> 10 ^ 28" by (simp add: pos_divide_le_eq)
  then show "half_even (x / 10 powi ?e) \<le> 10 ^ 28" by (intro half_even_le_of_int) simp
qed

lemma dround_decade:
  assumes "0 < x"
  shows "10 powi adjusted x \<le> dround x" and "dround x \<le> 10 powi (adjusted x + 1)"
proof -
  let ?e = "adjusted x - 27" and ?n = "half_even (x / 10 powi (adjusted x - 27))"
  have r: "dround x = of_int ?n * 10 powi ?e" using assms by (simp add: dround_def prec_def Let_def)
  have n: "(10 ^ 27 :: rat) \<le> of_int ?n" "of_int ?n \<le> (10 ^ 28 :: rat)"
    using dround_coefficient[OF assms] by (metis of_int_le_iff of_int_numeral of_int_power)+
  have "(10::rat) powi adjusted x = 10 ^ 27 * 10 powi ?e" using powi10_add[of 27 ?e] by simp
  also have "\<dots> \<le> of_int ?n * 10 powi ?e" using n(1) by (intro mult_right_mono) (auto intro: less_imp_le)
  finally show "10 powi adjusted x \<le> dround x" by (simp only: r)
  have "of_int ?n * 10 powi ?e \<le> 10 ^ 28 * (10::rat) powi ?e"
    using n(2) by (intro mult_right_mono) (auto intro: less_imp_le)
  also have "\<dots> = (10::rat) powi (adjusted x + 1)" using powi10_add[of 28 ?e] by (simp add: algebra_simps)
  finally show "dround x \<le> 10 powi (adjusted x + 1)" by (simp only: r)
qed

lemma dround_pos: "0 < x \<Longrightarrow> 0 < dround x"
  using dround_decade(1)[of x] powi10_pos[of "adjusted x"] by linarith

lemma dround_nonneg [simp]: "0 \<le> dround x \<longleftrightarrow> 0 \<le> x"
proof (cases x "0 :: rat" rule: linorder_cases)
  case less
  then have "0 < dround (- x)" by (intro dround_pos) simp
  with less show ?thesis by simp
next
  case greater
  then show ?thesis using dround_pos[of x] by simp
qed simp

lemma dround_mono_pos:
  assumes "0 < x" and "x \<le> y"
  shows "dround x \<le> dround y"
proof -
  have y: "0 < y" using assms by linarith
  have le: "adjusted x \<le> adjusted y" using assms by (intro adjusted_mono) auto
  show ?thesis
  proof (cases "adjusted x = adjusted y")
    case True
    have "x / 10 powi (adjusted y - 27) \<le> y / 10 powi (adjusted y - 27)"
      using assms(2) by (intro divide_right_mono) (auto intro: less_imp_le)
    then have "(of_int (half_even (x / 10 powi (adjusted y - 27))) :: rat)
        \<le> of_int (half_even (y / 10 powi (adjusted y - 27)))"
      by (simp add: half_even_mono)
    then show ?thesis
      using assms y True
      by (simp add: dround_def prec_def Let_def mult_right_mono less_imp_le)
  next
    case False
    with le have "adjusted x + 1 \<le> adjusted y" by linarith
    from powi10_mono[OF this] show ?thesis
      using dround_decade(2)[OF assms(1)] dround_decade(1)[OF y] by linarith
  qed
qed

lemma dround_mono: "x \<le> y \<Longrightarrow> dround x \<le> dround y"
proof -
  assume le: "x \<le> y"
  consider "0 < x" | "x \<le> 0" "0 \<le> y" | "y < 0" by linarith
  then show ?thesis
  proof cases
    case 1 then show ?thesis using le by (rule dround_mono_pos)
  next
    case 2
    then have "dround x \<le> 0" using dround_nonneg[of "- x"] by simp
    moreover have "0 \<le> dround y" using 2 by simp
    ultimately show ?thesis by linarith
  next
    case 3
    then have "dround (- y) \<le> dround (- x)" using le by (intro dround_mono_pos) auto
    then show ?thesis by simp
  qed
qed

lemma dround_pos_iff [simp]: "0 < dround x \<longleftrightarrow> 0 < x"
  using dround_nonneg[of "- x"] by (auto simp: not_le[symmetric])

lemma dround_eq_0_iff [simp]: "dround x = 0 \<longleftrightarrow> x = 0"
proof (cases x "0::rat" rule: linorder_cases)
  case less
  then have "0 < dround (- x)" by (intro dround_pos) simp
  with less show ?thesis by simp
next
  case greater
  then have "dround x \<noteq> 0" using dround_pos[of x] by (auto simp del: dround_pos_iff)
  with greater show ?thesis by simp
qed simp

lemma dround_le_0_iff [simp]: "dround x \<le> 0 \<longleftrightarrow> x \<le> 0"
  using dround_pos_iff[of x] by linarith

lemma dround_less_0_iff [simp]: "dround x < 0 \<longleftrightarrow> x < 0"
  using dround_nonneg[of x] by linarith

section \<open>Exact values\<close>

text \<open>A multiple of a power of ten with at most 28 digits is exact.\<close>

lemma dround_exact:
  assumes m: "\<bar>m\<bar> \<le> 10 ^ 28"
  shows "dround (of_int m * 10 powi k) = of_int m * 10 powi k"
proof (cases "m = 0")
  case False
  let ?x = "of_int m * 10 powi k :: rat"
  have x: "?x \<noteq> 0" using False by simp
  have abs: "\<bar>?x\<bar> = of_int \<bar>m\<bar> * 10 powi k" by (simp add: abs_mult)
  have "(of_int \<bar>m\<bar> :: rat) \<le> 10 ^ 28" using m by (metis of_int_le_iff of_int_numeral of_int_power)
  then have "\<bar>?x\<bar> \<le> 10 ^ 28 * 10 powi k" unfolding abs by (intro mult_right_mono) (auto intro: less_imp_le)
  also have "\<dots> = (10::rat) powi (k + 28)" using powi10_add[of k 28] by (simp add: algebra_simps)
  finally have le: "(10::rat) powi adjusted ?x \<le> 10 powi (k + 28)" using adjusted_bounds(1)[OF x] by linarith
  have adj: "adjusted ?x \<le> k + 28"
  proof (rule ccontr)
    assume "\<not> ?thesis"
    then have "k + 28 < adjusted ?x" by simp
    then have "(10::rat) powi (k + 28) < 10 powi adjusted ?x" by (intro power_int_strict_increasing) auto
    with le show False by linarith
  qed
  show ?thesis
  proof (cases "adjusted ?x = k + 28")
    case True
    \<comment> \<open>the coefficient is the power of ten itself\<close>
    have "(10::rat) powi (k + 28) \<le> \<bar>?x\<bar>" using adjusted_bounds(1)[OF x] True by simp
    then have "(10::rat) ^ 28 * 10 powi k \<le> of_int \<bar>m\<bar> * 10 powi k"
      using powi10_add[of k 28] abs by (simp add: algebra_simps)
    then have "(10::rat) ^ 28 \<le> of_int \<bar>m\<bar>" using powi10_pos[of k] by (simp add: mult_le_cancel_right)
    then have "(10::int) ^ 28 \<le> \<bar>m\<bar>" by (metis of_int_le_iff of_int_numeral of_int_power)
    with m have m28: "m = 10 ^ 28 \<or> m = - (10 ^ 28)" by linarith
    have u: "adjusted ?x - (prec - 1) = k + 1" using True by (simp add: prec_def)
    have "?x / 10 powi (k + 1) = of_int (if m = 10 ^ 28 then 10 ^ 27 else - (10 ^ 27))"
      using m28 by (auto simp: power_int_add field_simps)
    then have "half_even (?x / 10 powi (k + 1)) = (if m = 10 ^ 28 then 10 ^ 27 else - (10 ^ 27))"
      by (simp only: half_even_of_int)
    then show ?thesis using x m28 by (auto simp: dround_def u Let_def power_int_add)
  next
    case False
    define e where "e = adjusted ?x - (prec - 1)"
    have "e \<le> k" using adj False by (simp add: e_def prec_def)
    then obtain j :: nat where k: "k = e + int j" by (metis zle_iff_zadd)
    have "?x / 10 powi e = of_int (m * 10 ^ j)" by (simp add: k powi10_add)
    then have "half_even (?x / 10 powi e) = m * 10 ^ j" by (simp only: half_even_of_int)
    then have "dround ?x = of_int (m * 10 ^ j) * 10 powi e" using x by (simp add: dround_def e_def Let_def)
    then show ?thesis by (simp add: k powi10_add)
  qed
qed simp

lemma exact_dround [simp]: "dround (dround x) = dround x"
proof (cases "0 < x")
  case True
  then have "0 \<le> half_even (x / 10 powi (adjusted x - 27))"
    using dround_coefficient(1)[of x] by (meson order_trans zero_le_numeral zero_le_power)
  with True dround_coefficient(2)[of x] show ?thesis
    by (subst (1 2) dround_def) (simp add: prec_def Let_def dround_exact)
next
  case False
  show ?thesis
  proof (cases "x = 0")
    case False2: False
    with False have p: "0 < - x" by simp
    then have "0 \<le> half_even ((- x) / 10 powi (adjusted (- x) - 27))"
      using dround_coefficient(1)[of "- x"] by (meson order_trans zero_le_numeral zero_le_power)
    with p dround_coefficient(2)[of "- x"] have "dround (dround (- x)) = dround (- x)"
      by (subst (1 2) dround_def) (simp add: prec_def Let_def dround_exact del: adjusted_uminus)
    then show ?thesis by simp
  qed simp
qed

lemma on_grid_exact:
  assumes "on_grid k x" and "\<bar>x\<bar> \<le> 10 powi (k + 28)"
  shows "dround x = x"
proof -
  obtain m :: int where x: "x = of_int m * 10 powi k" using assms(1) by (auto simp: on_grid_def)
  have "of_int \<bar>m\<bar> * 10 powi k \<le> (10 ^ 28 :: rat) * 10 powi k"
    using assms(2) powi10_add[of k 28] by (simp add: x abs_mult algebra_simps)
  then have "(of_int \<bar>m\<bar> :: rat) \<le> 10 ^ 28" by (rule mult_right_le_imp_le) simp
  then have "\<bar>m\<bar> \<le> 10 ^ 28" by (metis of_int_le_iff of_int_numeral of_int_power)
  then show ?thesis unfolding x by (rule dround_exact)
qed

lemma on_grid_add: "on_grid k x \<Longrightarrow> on_grid k y \<Longrightarrow> on_grid k (x + y)"
  by (auto simp: on_grid_def) (metis distrib_right of_int_add)

lemma on_grid_uminus: "on_grid k x \<Longrightarrow> on_grid k (- x)"
  by (auto simp: on_grid_def) (metis mult_minus_left of_int_minus)

lemma on_grid_diff: "on_grid k x \<Longrightarrow> on_grid k y \<Longrightarrow> on_grid k (x - y)"
  using on_grid_add[of k x "- y"] on_grid_uminus[of k y] by simp

lemma on_grid_mult: "on_grid j x \<Longrightarrow> on_grid k y \<Longrightarrow> on_grid (j + k) (x * y)"
  by (auto simp: on_grid_def powi10_add) (metis (no_types, opaque_lifting) mult.assoc mult.left_commute of_int_mult)

lemma on_grid_0 [simp]: "on_grid k 0"
  by (auto simp: on_grid_def intro: exI[of _ 0])

lemma on_grid_mono: "on_grid k x \<Longrightarrow> j \<le> k \<Longrightarrow> on_grid j x"
proof -
  assume "on_grid k x" and le: "j \<le> k"
  then obtain m :: int where x: "x = of_int m * 10 powi k" by (auto simp: on_grid_def)
  obtain d :: nat where k: "k = j + int d" using le by (metis zle_iff_zadd)
  have "x = of_int (m * 10 ^ d) * 10 powi j" by (simp add: x k powi10_add)
  then show ?thesis unfolding on_grid_def by blast
qed

text \<open>Membership in the grid can be computed.\<close>

lemma on_grid_code [code]: "on_grid k x \<longleftrightarrow> snd (quotient_of (x / 10 powi k)) = 1"
proof
  assume "on_grid k x"
  then obtain m :: int where "x / 10 powi k = of_int m" by (auto simp: on_grid_def)
  then show "snd (quotient_of (x / 10 powi k)) = 1" by (simp add: quotient_of_int)
next
  assume a: "snd (quotient_of (x / 10 powi k)) = 1"
  obtain p q where pq: "quotient_of (x / 10 powi k) = (p, q)" by (cases "quotient_of (x / 10 powi k)")
  then have "x / 10 powi k = of_int p" using a quotient_of_div[OF pq] by simp
  then have "x = of_int p * 10 powi k" by (simp add: divide_eq_eq)
  then show "on_grid k x" by (auto simp: on_grid_def)
qed

section \<open>The rounding error\<close>

lemma dround_error: "\<bar>dround x - x\<bar> \<le> \<bar>x\<bar> / (2 * 10 ^ 27)"
proof (cases "x = 0")
  case False
  define e where "e = adjusted x - 27"
  have r: "dround x = of_int (half_even (x / 10 powi e)) * 10 powi e"
    using False by (simp add: dround_def prec_def e_def Let_def)
  have "dround x - x = (of_int (half_even (x / 10 powi e)) - x / 10 powi e) * 10 powi e"
    by (simp add: r left_diff_distrib)
  then have "\<bar>dround x - x\<bar> = \<bar>of_int (half_even (x / 10 powi e)) - x / 10 powi e\<bar> * 10 powi e"
    by (simp add: abs_mult)
  also have "\<dots> \<le> 1 / 2 * 10 powi e"
    using half_even_error by (intro mult_right_mono) (auto intro: less_imp_le)
  also have "(10::rat) powi e = 10 powi adjusted x / 10 ^ 27"
    using powi10_diff[of "adjusted x" 27] by (simp add: e_def)
  also have "1 / 2 * ((10::rat) powi adjusted x / 10 ^ 27) \<le> \<bar>x\<bar> / (2 * 10 ^ 27)"
    using adjusted_bounds(1)[OF False] by (simp add: field_simps)
  finally show ?thesis .
qed simp

section \<open>Scaling by powers of ten\<close>

lemma adjusted_scale: "x \<noteq> 0 \<Longrightarrow> adjusted (x * 10 powi k) = adjusted x + k"
proof (rule adjusted_unique)
  assume x: "x \<noteq> 0"
  have a: "\<bar>x * 10 powi k\<bar> = \<bar>x\<bar> * 10 powi k" by (simp add: abs_mult)
  show "10 powi (adjusted x + k) \<le> \<bar>x * 10 powi k\<bar>"
    unfolding a powi10_add using adjusted_bounds(1)[OF x] by (intro mult_right_mono) (auto intro: less_imp_le)
  have "\<bar>x\<bar> * 10 powi k < 10 powi (adjusted x + 1) * 10 powi k"
    using adjusted_bounds(2)[OF x] by (intro mult_strict_right_mono) auto
  also have "\<dots> = 10 powi (adjusted x + k + 1)"
    by (simp only: powi10_add[symmetric]) (simp add: algebra_simps)
  finally show "\<bar>x * 10 powi k\<bar> < 10 powi (adjusted x + k + 1)" unfolding a .
qed

lemma dround_scale: "dround (x * 10 powi k) = dround x * 10 powi k"
proof (cases "x = 0")
  case False
  define e where "e = adjusted x - (prec - 1)"
  have adj: "adjusted (x * 10 powi k) - (prec - 1) = e + k"
    using adjusted_scale[OF False] by (simp add: e_def)
  have q: "x * 10 powi k / 10 powi (e + k) = x / 10 powi e" by (simp add: powi10_add)
  have "dround (x * 10 powi k) = of_int (half_even (x * 10 powi k / 10 powi (e + k))) * 10 powi (e + k)"
    using False adj by (simp add: dround_def Let_def)
  also have "\<dots> = of_int (half_even (x / 10 powi e)) * 10 powi e * 10 powi k"
    unfolding q by (simp add: powi10_add)
  also have "\<dots> = dround x * 10 powi k" using False by (simp add: dround_def e_def Let_def)
  finally show ?thesis .
qed simp

lemma dround_div_pow10: "dround (x / 10 ^ n) = dround x / 10 ^ n"
  using dround_scale[of x "- int n"] by (simp add: power_int_minus divide_inverse)

lemma dround_mult_pow10: "dround (x * 10 ^ n) = dround x * 10 ^ n"
  using dround_scale[of x "int n"] by simp

section \<open>Bounds through several roundings\<close>

text \<open>
  The contract bounds rest on: a rounding with a relative error of at most \<open>d\<close>. What holds of
  any such rounding is proved once; \<open>dround\<close> is one.
\<close>

locale rounding =
  fixes rnd :: "rat \<Rightarrow> rat" and d :: rat
  assumes d_range: "0 \<le> d" "d < 1"
    and rnd_error: "\<bar>rnd x - x\<bar> \<le> d * \<bar>x\<bar>"
begin

lemma rnd_le: "0 \<le> x \<Longrightarrow> rnd x \<le> (1 + d) * x"
  using rnd_error[of x] by (simp add: algebra_simps)

lemma rnd_ge: "0 \<le> x \<Longrightarrow> (1 - d) * x \<le> rnd x"
  using rnd_error[of x] by (simp add: algebra_simps)

lemma rnd_nonneg: "0 \<le> x \<Longrightarrow> 0 \<le> rnd x"
  using rnd_ge[of x] d_range by (meson diff_ge_0_iff_ge less_imp_le mult_nonneg_nonneg order_trans)

lemma rnd_le_trans: "0 \<le> x \<Longrightarrow> x \<le> y \<Longrightarrow> rnd x \<le> (1 + d) * y"
  using rnd_le[of x] d_range by (meson add_nonneg_nonneg mult_left_mono order_trans zero_le_one)

text \<open>A quotient, rounded, against a divisor that was itself rounded.\<close>

lemma rnd_quotient_le:
  assumes "0 \<le> x" "0 < y" "0 < z" "(1 - e) * z \<le> y" "e < 1"
  shows "rnd (x / y) \<le> (1 + d) / (1 - e) * (x / z)"
proof -
  have "0 < (1 - e) * z" using assms by simp
  then have "x / y \<le> x / ((1 - e) * z)" using assms by (intro divide_left_mono) auto
  then have "rnd (x / y) \<le> (1 + d) * (x / ((1 - e) * z))" using assms by (intro rnd_le_trans) auto
  then show ?thesis by simp
qed

text \<open>Rounding down to a multiple of an increment, with both operations rounded.\<close>

lemma rnd_increment_le:
  assumes "0 \<le> m" "0 < inc"
  shows "rnd (of_int \<lfloor>rnd (m / inc)\<rfloor> * inc) \<le> (1 + d) * (1 + d) * m"
proof -
  have n: "0 \<le> rnd (m / inc)" using assms by (intro rnd_nonneg) auto
  have "of_int \<lfloor>rnd (m / inc)\<rfloor> * inc \<le> rnd (m / inc) * inc"
    using assms by (intro mult_right_mono) auto
  also have "\<dots> \<le> (1 + d) * (m / inc) * inc"
    using assms rnd_le[of "m / inc"] by (intro mult_right_mono) auto
  also have "\<dots> = (1 + d) * m" using assms by simp
  finally have "rnd (of_int \<lfloor>rnd (m / inc)\<rfloor> * inc) \<le> (1 + d) * ((1 + d) * m)"
    using n assms by (intro rnd_le_trans) auto
  then show ?thesis by (simp add: mult.assoc)
qed

end

definition ulp :: rat where "ulp = 1 / (2 * 10 ^ 27)"

interpretation dec: rounding dround ulp
  by unfold_locales (use dround_error in \<open>auto simp: ulp_def\<close>)

end
