(* ===== verification/Py_Values.thy ===== *)
theory Py_Values
  imports Decimal28 "HOL-Library.List_Lexorder" "HOL-Library.Char_ord" "HOL-Library.Product_Lexorder" "HOL-Library.Multiset"
begin

text \<open>
  The Python values the components exchange: text, moments in time, JSON objects.

  Text is a list of characters (code points below 256). A moment is a \<open>datetime\<close>: naive
  ones carry a wall-clock reading, aware ones the instant in UTC; both are counted in
  microseconds from the epoch. Where the sources admit only aware times, the model uses the
  instant alone (\<open>instant\<close>). A JSON value is a \<open>json\<close> tree. In the objects the program
  writes and reads back, a text that \<^verbatim>\<open>Decimal\<close> reads is the leaf \<open>JDec\<close> and a text that
  \<^verbatim>\<open>fromisoformat\<close> reads as an aware time the leaf \<open>JTime\<close>, both by value; every other
  text is \<open>JStr\<close> (a text that \<^verbatim>\<open>fromisoformat\<close> reads as a naive time is \<open>JNaive\<close> where a
  time is read), and a number with a fraction is \<open>JNum\<close>. Where a component reads a decimal
  out of free text, \<open>decimal_of_text\<close> is the constructor of \<^verbatim>\<open>Decimal\<close>.
\<close>

section \<open>Text\<close>

text \<open>\<^verbatim>\<open>str.isspace\<close> on code points below 256.\<close>

definition is_space :: "char \<Rightarrow> bool" where
  "is_space c \<longleftrightarrow> (let n = of_char c :: nat in
     (9 \<le> n \<and> n \<le> 13) \<or> (28 \<le> n \<and> n \<le> 32) \<or> n = 133 \<or> n = 160)"

text \<open>\<^verbatim>\<open>not text.strip()\<close>.\<close>

definition is_blank :: "string \<Rightarrow> bool" where
  "is_blank s = list_all is_space s"

definition in_range :: "nat \<Rightarrow> nat \<Rightarrow> char \<Rightarrow> bool" where
  "in_range lo hi c \<longleftrightarrow> (let n = of_char c in lo \<le> n \<and> n \<le> hi)"

definition is_digit :: "char \<Rightarrow> bool" where "is_digit = in_range 48 57"
definition is_upper :: "char \<Rightarrow> bool" where "is_upper = in_range 65 90"
definition is_lower :: "char \<Rightarrow> bool" where "is_lower = in_range 97 122"

text \<open>\<^verbatim>\<open>str.upper\<close> and \<^verbatim>\<open>str.lower\<close> on ASCII text.\<close>

definition char_upper :: "char \<Rightarrow> char" where
  "char_upper c = (if is_lower c then char_of (of_char c - 32 :: nat) else c)"

definition char_lower :: "char \<Rightarrow> char" where
  "char_lower c = (if is_upper c then char_of (of_char c + 32 :: nat) else c)"

definition str_upper :: "string \<Rightarrow> string" where "str_upper = map char_upper"
definition str_lower :: "string \<Rightarrow> string" where "str_lower = map char_lower"

text \<open>Decimal digits of a natural number, as \<^verbatim>\<open>str(int)\<close> writes them.\<close>

fun str_nat :: "nat \<Rightarrow> string" where
  "str_nat n =
     (if n < 10 then [char_of (48 + n)] else str_nat (n div 10) @ [char_of (48 + n mod 10)])"

declare str_nat.simps [simp del]

definition str_int :: "int \<Rightarrow> string" where
  "str_int n = (if n < 0 then ''-'' @ str_nat (nat (- n)) else str_nat (nat n))"

text \<open>The number a string of decimal digits stands for.\<close>

definition str_val :: "string \<Rightarrow> nat" where
  "str_val s = foldl (\<lambda>a c. 10 * a + (of_char c - 48)) 0 s"

text \<open>
  \<^verbatim>\<open>Decimal(text)\<close>: surrounding blanks and underscores are ignored; an optional sign,
  digits with an optional point, an optional exponent; or an infinity or a NaN.
  \<open>None\<close> is \<^verbatim>\<open>InvalidOperation\<close>.
\<close>

definition strip :: "string \<Rightarrow> string" where
  "strip s = rev (dropWhile is_space (rev (dropWhile is_space s)))"

definition read_exponent :: "string \<Rightarrow> int option" where
  "read_exponent s =
     (case s of
        [] \<Rightarrow> Some 0
      | c # cs \<Rightarrow>
          if c \<noteq> CHR ''e'' \<and> c \<noteq> CHR ''E'' then None
          else let neg = (cs \<noteq> [] \<and> hd cs = CHR ''-'');
                   ds = (if cs \<noteq> [] \<and> (hd cs = CHR ''-'' \<or> hd cs = CHR ''+'') then tl cs else cs)
               in if ds = [] \<or> \<not> list_all is_digit ds then None
                  else Some ((if neg then - 1 else 1) * int (str_val ds)))"

definition read_magnitude :: "string \<Rightarrow> py_decimal option" where
  "read_magnitude s =
     (let low = str_lower s;
          whole = takeWhile is_digit s;
          rest = dropWhile is_digit s;
          frac = (if rest \<noteq> [] \<and> hd rest = CHR ''.'' then takeWhile is_digit (tl rest) else []);
          tail = (if rest \<noteq> [] \<and> hd rest = CHR ''.'' then dropWhile is_digit (tl rest) else rest)
      in if low = ''inf'' \<or> low = ''infinity'' then Some NonFinite
         else if (take 3 low = ''nan'' \<and> list_all is_digit (drop 3 low))
               \<or> (take 4 low = ''snan'' \<and> list_all is_digit (drop 4 low)) then Some NonFinite
         else if whole @ frac = [] then None
         else map_option (\<lambda>e. Finite (of_nat (str_val (whole @ frac)) * 10 powi (e - int (length frac))))
                (read_exponent tail))"

definition decimal_of_text :: "string \<Rightarrow> py_decimal option" where
  "decimal_of_text text =
     (let s = filter (\<lambda>c. c \<noteq> CHR ''_'') (strip text);
          neg = (s \<noteq> [] \<and> hd s = CHR ''-'');
          body = (if s \<noteq> [] \<and> (hd s = CHR ''-'' \<or> hd s = CHR ''+'') then tl s else s)
      in map_option (\<lambda>d. case d of NonFinite \<Rightarrow> NonFinite | Finite x \<Rightarrow> Finite (if neg then - x else x))
           (read_magnitude body))"

section \<open>Time\<close>

type_synonym instant = int

datatype py_datetime = Naive int | Aware instant

definition seconds :: "int \<Rightarrow> int" where "seconds n = n * 1000000"
definition hours :: "int \<Rightarrow> int" where "hours n = n * 3600000000"
definition days :: "int \<Rightarrow> int" where "days n = n * 86400000000"

section \<open>JSON\<close>

datatype json =
    JNull
  | JBool bool
  | JInt int
  | JNum py_decimal
  | JStr string
  | JDec py_decimal
  | JTime instant
  | JNaive int
  | JArr "json list"
  | JObj "(string \<times> json) list"

type_synonym payload = "(string \<times> json) list"

text \<open>\<^verbatim>\<open>payload[key]\<close> and \<^verbatim>\<open>payload.get(key)\<close>, which gives \<open>None\<close> for a null too.\<close>

definition jget :: "payload \<Rightarrow> string \<Rightarrow> json result" where
  "jget p k = (case map_of p k of None \<Rightarrow> Inl (KeyError k) | Some v \<Rightarrow> Inr v)"

definition jopt :: "payload \<Rightarrow> string \<Rightarrow> json option" where
  "jopt p k = (case map_of p k of None \<Rightarrow> None | Some JNull \<Rightarrow> None | Some v \<Rightarrow> Some v)"

text \<open>The truth value of a JSON value.\<close>

fun jtrue :: "json \<Rightarrow> bool" where
  "jtrue JNull = False"
| "jtrue (JBool b) = b"
| "jtrue (JInt n) = (n \<noteq> 0)"
| "jtrue (JNum d) = (d \<noteq> Finite 0)"
| "jtrue (JStr s) = (s \<noteq> [])"
| "jtrue (JArr xs) = (xs \<noteq> [])"
| "jtrue (JObj p) = (p \<noteq> [])"
| "jtrue _ = True"

text \<open>\<^verbatim>\<open>Decimal(str(value))\<close> of a JSON leaf.\<close>

fun jdecimal :: "json \<Rightarrow> py_decimal result" where
  "jdecimal (JDec d) = Inr d"
| "jdecimal (JInt n) = Inr (Finite (of_int n))"
| "jdecimal (JNum d) = Inr d"
| "jdecimal _ = Inl (ArithmeticError ''InvalidOperation'')"

fun jint :: "json \<Rightarrow> int result" where
  "jint (JInt n) = Inr n"
| "jint _ = Inl (TypeError ''int'')"

fun jstr :: "json \<Rightarrow> string result" where
  "jstr (JStr s) = Inr s"
| "jstr _ = Inl (TypeError ''str'')"

fun jbool :: "json \<Rightarrow> bool result" where
  "jbool (JBool b) = Inr b"
| "jbool _ = Inl (TypeError ''bool'')"

fun jtime :: "json \<Rightarrow> instant result" where
  "jtime (JTime t) = Inr t"
| "jtime _ = Inl (ValueError ''fromisoformat'')"

text \<open>\<^verbatim>\<open>datetime.fromisoformat(value)\<close> where naive times are admitted, and \<^verbatim>\<open>isoformat\<close>.\<close>

fun jdatetime :: "json \<Rightarrow> py_datetime result" where
  "jdatetime (JTime t) = Inr (Aware t)"
| "jdatetime (JNaive t) = Inr (Naive t)"
| "jdatetime (JStr _) = Inl (ValueError ''fromisoformat'')"
| "jdatetime (JDec _) = Inl (ValueError ''fromisoformat'')"
| "jdatetime _ = Inl (TypeError ''fromisoformat: argument must be str'')"

fun isoformat :: "py_datetime \<Rightarrow> json" where
  "isoformat (Aware t) = JTime t"
| "isoformat (Naive t) = JNaive t"

text \<open>
  \<^verbatim>\<open>int(value)\<close>: an integer, a boolean as 0 or 1, a number truncated towards zero, or a text
  of digits with an optional sign.
\<close>

definition int_of_text :: "string \<Rightarrow> int result" where
  "int_of_text text =
     (let s = strip text;
          neg = (s \<noteq> [] \<and> hd s = CHR ''-'');
          ds = (if s \<noteq> [] \<and> (hd s = CHR ''-'' \<or> hd s = CHR ''+'') then tl s else s)
      in if ds = [] \<or> \<not> list_all is_digit ds then Inl (ValueError ''invalid literal for int()'')
         else Inr ((if neg then - 1 else 1) * int (str_val ds)))"

fun py_int :: "json \<Rightarrow> int result" where
  "py_int (JInt n) = Inr n"
| "py_int (JBool b) = Inr (if b then 1 else 0)"
| "py_int (JNum (Finite x)) = Inr (if x < 0 then \<lceil>x\<rceil> else \<lfloor>x\<rfloor>)"
| "py_int (JNum NonFinite) = Inl (ValueError ''cannot convert float NaN to integer'')"
| "py_int (JStr s) = int_of_text s"
| "py_int (JDec _) = Inl (ValueError ''invalid literal for int()'')"
| "py_int (JTime _) = Inl (ValueError ''invalid literal for int()'')"
| "py_int (JNaive _) = Inl (ValueError ''invalid literal for int()'')"
| "py_int _ = Inl (TypeError ''int() argument'')"

definition jdec_option :: "py_decimal option \<Rightarrow> json" where
  "jdec_option x = (case x of None \<Rightarrow> JNull | Some d \<Rightarrow> JDec d)"

definition jstr_option :: "string option \<Rightarrow> json" where
  "jstr_option x = (case x of None \<Rightarrow> JNull | Some s \<Rightarrow> JStr s)"

definition jint_option :: "int option \<Rightarrow> json" where
  "jint_option x = (case x of None \<Rightarrow> JNull | Some n \<Rightarrow> JInt n)"

text \<open>\<^verbatim>\<open>Enum(value)\<close>: the member with this value, or \<^verbatim>\<open>ValueError\<close>.\<close>

definition enum_of :: "('a \<Rightarrow> string) \<Rightarrow> 'a list \<Rightarrow> string \<Rightarrow> 'a result" where
  "enum_of val members s =
     (case find (\<lambda>x. val x = s) members of
        None \<Rightarrow> Inl (ValueError ''not a valid enum value'') | Some x \<Rightarrow> Inr x)"

text \<open>A reader applied where the value is present and not null.\<close>

definition ropt :: "('a \<Rightarrow> 'b result) \<Rightarrow> 'a option \<Rightarrow> 'b option result" where
  "ropt f x = (case x of None \<Rightarrow> Inr None | Some v \<Rightarrow> rbind (f v) (\<lambda>y. Inr (Some y)))"

section \<open>Lemmas\<close>

lemma jdec_option_read [simp]:
  "(case jdec_option x of JNull \<Rightarrow> None | v \<Rightarrow> Some v) = map_option JDec x"
  by (cases x) (simp_all add: jdec_option_def)

lemma jdatetime_isoformat [simp]: "jdatetime (isoformat t) = Inr t"
  by (cases t) simp_all

lemma ropt_simps [simp]:
  "ropt f None = Inr None" "ropt f (Some v) = rbind (f v) (\<lambda>y. Inr (Some y))"
  by (simp_all add: ropt_def)

lemma ropt_map_option:
  "(\<And>y. f (g y) = Inr y) \<Longrightarrow> ropt f (map_option g x) = Inr x"
  by (cases x) auto

lemma enum_of_val:
  assumes "x \<in> set members" and "inj_on val (set members)"
  shows "enum_of val members (val x) = Inr x"
proof -
  have "find (\<lambda>y. val y = val x) members = Some x"
    using assms
  proof (induction members)
    case (Cons y ys)
    then show ?case by (auto simp: inj_on_def)
  qed simp
  then show ?thesis by (simp add: enum_of_def)
qed

lemma is_blank_Nil [simp]: "is_blank []"
  by (simp add: is_blank_def)

lemma str_nat_digits: "set (str_nat n) \<subseteq> {c. is_digit c}"
proof (induction n rule: str_nat.induct)
  case (1 n)
  have d: "is_digit (char_of (48 + k))" if "k < 10" for k :: nat
    using that by (simp add: is_digit_def in_range_def)
  show ?case
  proof (cases "n < 10")
    case True
    then show ?thesis by (subst str_nat.simps) (simp add: d)
  next
    case False
    then show ?thesis using 1 by (subst str_nat.simps) (auto simp: d)
  qed
qed

lemma str_val_str_nat [simp]: "str_val (str_nat n) = n"
proof (induction n rule: str_nat.induct)
  case (1 n)
  show ?case
  proof (cases "n < 10")
    case True
    then show ?thesis by (subst str_nat.simps) (simp add: str_val_def)
  next
    case False
    with 1 have "foldl (\<lambda>a c. 10 * a + (of_char c - 48)) 0 (str_nat (n div 10)) = n div 10"
      by (simp add: str_val_def)
    with False show ?thesis by (subst str_nat.simps) (simp add: str_val_def)
  qed
qed

lemma str_nat_inject [simp]: "str_nat m = str_nat n \<longleftrightarrow> m = n"
  by (metis str_val_str_nat)

end
