(* ===== verification/Core_Trading.thy ===== *)
theory Core_Trading
  imports Py_Values
begin

text \<open>
  The core domain types of \<^verbatim>\<open>src/gpt_trader/core\<close>: order enums (\<^verbatim>\<open>trading.py\<close>), candles
  (\<^verbatim>\<open>market.py\<close>), the instrument classifier (\<^verbatim>\<open>instruments.py\<close>), risk units
  (\<^verbatim>\<open>risk_units.py\<close>), tick rounding (\<^verbatim>\<open>math/quantization.py\<close>) and the admitted order
  contract (\<^verbatim>\<open>order_intent.py\<close>).

  The lemmas show that the classifier's two shapes exclude each other and fix the asset
  class and settlement lag, that the percent/fraction converters are inverse on exact
  values, that tick rounding lands on a tick within half a tick, that an order intent
  survives serialization, and what an accepted broker receipt guarantees.
\<close>

section \<open>Enums and market data\<close>

datatype order_side = BUY | SELL
datatype order_type = MARKET | LIMIT | STOP | STOP_LIMIT
datatype time_in_force = GTC | IOC | FOK
datatype order_status =
  PENDING | SUBMITTED | PARTIALLY_FILLED | FILLED | CANCELLED | REJECTED | EXPIRED | FAILED

fun order_side_value :: "order_side \<Rightarrow> string" where
  "order_side_value BUY = ''BUY''"
| "order_side_value SELL = ''SELL''"

fun order_type_value :: "order_type \<Rightarrow> string" where
  "order_type_value MARKET = ''MARKET''"
| "order_type_value LIMIT = ''LIMIT''"
| "order_type_value STOP = ''STOP''"
| "order_type_value STOP_LIMIT = ''STOP_LIMIT''"

text \<open>\<^verbatim>\<open>OrderSide(text)\<close> and \<^verbatim>\<open>OrderType(text)\<close>: an unknown value raises.\<close>

definition order_side_of :: "string \<Rightarrow> order_side result" where
  "order_side_of s =
     (case find (\<lambda>x. order_side_value x = s) [BUY, SELL] of
        None \<Rightarrow> Inl (ValueError ''not a valid OrderSide'') | Some x \<Rightarrow> Inr x)"

definition order_type_of :: "string \<Rightarrow> order_type result" where
  "order_type_of s =
     (case find (\<lambda>x. order_type_value x = s) [MARKET, LIMIT, STOP, STOP_LIMIT] of
        None \<Rightarrow> Inl (ValueError ''not a valid OrderType'') | Some x \<Rightarrow> Inr x)"

record candle =
  ts :: instant
  c_open :: dec
  c_high :: dec
  c_low :: dec
  c_close :: dec
  c_volume :: dec

section \<open>Instruments\<close>

datatype asset_class = CRYPTO | EQUITY
datatype product_type = SPOT | FUTURES | OPTIONS | EVENT_CONTRACT | OTHER

record instrument =
  i_symbol :: string
  i_asset_class :: asset_class
  i_product_type :: product_type

definition upper_alnum :: "char \<Rightarrow> bool" where
  "upper_alnum c \<longleftrightarrow> is_upper c \<or> is_digit c"

text \<open>The full matches of \<^verbatim>\<open>[A-Z0-9]+-[A-Z0-9]+\<close> and \<^verbatim>\<open>[A-Z]+\<close>.\<close>

definition crypto_pair :: "string \<Rightarrow> bool" where
  "crypto_pair s =
     (let base = takeWhile upper_alnum s; rest = dropWhile upper_alnum s
      in base \<noteq> [] \<and> rest \<noteq> [] \<and> hd rest = CHR ''-'' \<and> tl rest \<noteq> []
         \<and> list_all upper_alnum (tl rest))"

definition equity_ticker :: "string \<Rightarrow> bool" where
  "equity_ticker s \<longleftrightarrow> s \<noteq> [] \<and> list_all is_upper s"

definition parse_instrument :: "string \<Rightarrow> instrument result" where
  "parse_instrument raw =
     (if crypto_pair raw
      then Inr \<lparr>i_symbol = raw, i_asset_class = CRYPTO, i_product_type = SPOT\<rparr>
      else if equity_ticker raw
      then Inr \<lparr>i_symbol = raw, i_asset_class = EQUITY, i_product_type = SPOT\<rparr>
      else Inl (InstrumentParseError ''ambiguous instrument string''))"

fun settlement_days_of :: "asset_class \<Rightarrow> nat" where
  "settlement_days_of CRYPTO = 0"
| "settlement_days_of EQUITY = 1"

definition settlement_days :: "instrument \<Rightarrow> nat" where
  "settlement_days i = settlement_days_of (i_asset_class i)"

section \<open>Risk units and ticks\<close>

definition pct_points_to_fraction :: "dec \<Rightarrow> dec" where
  "pct_points_to_fraction value = dquot value 100"

definition fraction_to_pct_points :: "dec \<Rightarrow> dec" where
  "fraction_to_pct_points value = dmul value 100"

text \<open>A calendar date, as the number of days from the epoch.\<close>

definition trading_day :: "py_datetime \<Rightarrow> int" where
  "trading_day moment = (case moment of Naive t \<Rightarrow> t div days 1 | Aware t \<Rightarrow> t div days 1)"

definition same_trading_day :: "py_datetime \<Rightarrow> py_datetime \<Rightarrow> bool" where
  "same_trading_day a b \<longleftrightarrow> trading_day a = trading_day b"

text \<open>
  \<^verbatim>\<open>Decimal.quantize\<close> to the exponent \<open>k\<close>: a coefficient of more than 28 digits is an
  invalid operation. The increment of a price is given with its exponent.
\<close>

definition dquantize :: "dec \<Rightarrow> int \<Rightarrow> dec result" where
  "dquantize x k =
     (let n = half_even (x / 10 powi k)
      in if \<bar>n\<bar> < 10 ^ 28 then Inr (of_int n * 10 powi k)
         else Inl (ArithmeticError ''InvalidOperation''))"

fun quantize_price_nearest :: "dec \<Rightarrow> py_decimal \<Rightarrow> int \<Rightarrow> dec result" where
  "quantize_price_nearest price NonFinite k =
     Inl (ValueError ''Price increment must be finite and positive'')"
| "quantize_price_nearest price (Finite increment) k =
     (if increment \<le> 0 then Inl (ValueError ''Price increment must be finite and positive'')
      else dquantize (dmul (integral_half_even (dquot price increment)) increment) k)"

section \<open>Order intents\<close>

record position_operation =
  po_action :: string
  po_target_decision_id :: string
  po_target_record_hash :: string
  po_resolution :: string

definition is_alnum :: "char \<Rightarrow> bool" where
  "is_alnum c \<longleftrightarrow> is_upper c \<or> is_lower c \<or> is_digit c"

text \<open>The full matches of \<^verbatim>\<open>[A-Za-z0-9][A-Za-z0-9._-]*\<close> and \<^verbatim>\<open>[0-9a-f]{64}\<close>.\<close>

definition safe_id :: "string \<Rightarrow> bool" where
  "safe_id s \<longleftrightarrow> s \<noteq> [] \<and> is_alnum (hd s)
     \<and> list_all (\<lambda>c. is_alnum c \<or> c \<in> {CHR ''.'', CHR ''_'', CHR ''-''}) (tl s)"

definition hex64 :: "string \<Rightarrow> bool" where
  "hex64 s \<longleftrightarrow> length s = 64 \<and> list_all (\<lambda>c. is_digit c \<or> in_range 97 102 c) s"

definition new_position_operation :: "position_operation \<Rightarrow> position_operation result" where
  "new_position_operation p =
     (if po_resolution p \<notin> {''thesis_target'', ''invalidation'', ''expiry''}
      then Inl (ValueError ''Position operation requires a supported resolution'')
      else if po_action p \<notin> {''reduce'', ''close''}
      then Inl (ValueError ''Position operation must reduce or close'')
      else if \<not> safe_id (po_target_decision_id p)
      then Inl (ValueError ''Position operation requires a safe target decision ID'')
      else if \<not> hex64 (po_target_record_hash p)
      then Inl (ValueError ''Position operation requires an immutable target record hash'')
      else Inr p)"

definition position_operation_to_dict :: "position_operation \<Rightarrow> payload" where
  "position_operation_to_dict p =
     [(''action'', JStr (po_action p)),
      (''target_decision_id'', JStr (po_target_decision_id p)),
      (''target_record_hash'', JStr (po_target_record_hash p)),
      (''resolution'', JStr (po_resolution p))]"

text \<open>
  \<^verbatim>\<open>cls(**payload)\<close>: exactly the fields of the class, the resolution defaulting to
  \<^verbatim>\<open>thesis_target\<close>.
\<close>

definition position_operation_from_dict :: "payload \<Rightarrow> position_operation result" where
  "position_operation_from_dict p =
     (if \<not> fst ` set p \<subseteq> {''action'', ''target_decision_id'', ''target_record_hash'', ''resolution''}
      then Inl (TypeError ''unexpected keyword argument'')
      else rbind (rbind (jget p ''action'') jstr) (\<lambda>a.
           rbind (rbind (jget p ''target_decision_id'') jstr) (\<lambda>t.
           rbind (rbind (jget p ''target_record_hash'') jstr) (\<lambda>h.
           rbind (case map_of p ''resolution'' of None \<Rightarrow> Inr ''thesis_target'' | Some v \<Rightarrow> jstr v) (\<lambda>r.
           new_position_operation
             \<lparr>po_action = a, po_target_decision_id = t, po_target_record_hash = h,
              po_resolution = r\<rparr>)))))"

record order_intent =
  oi_client_order_id :: string
  oi_symbol :: string
  oi_side :: order_side
  oi_order_type :: order_type
  oi_quantity :: py_decimal
  oi_price :: "py_decimal option"
  oi_stop_price :: "py_decimal option"
  oi_tif :: "string option"
  oi_reduce_only :: bool
  oi_leverage :: "int option"
  oi_position_operation :: "position_operation option"

text \<open>\<^verbatim>\<open>not value.is_finite() or value <= 0\<close>.\<close>

fun not_positive :: "py_decimal \<Rightarrow> bool" where
  "not_positive NonFinite = True"
| "not_positive (Finite x) = (x \<le> 0)"

text \<open>
  \<^verbatim>\<open>OrderIntent.__post_init__\<close>. The tests that side, order type and reduce-only have their
  declared types hold of the record by typing.
\<close>

definition new_order_intent :: "order_intent \<Rightarrow> order_intent result" where
  "new_order_intent i =
     (if is_blank (oi_client_order_id i) \<or> is_blank (oi_symbol i)
      then Inl (ValueError ''Order intent requires stable client identity and symbol'')
      else if not_positive (oi_quantity i)
      then Inl (ValueError ''Order intent quantity must be finite and positive'')
      else if oi_position_operation i \<noteq> None \<and> \<not> oi_reduce_only i
      then Inl (ValueError ''Position-targeted intents must be reduce-only'')
      else if (case oi_price i of None \<Rightarrow> False | Some v \<Rightarrow> not_positive v)
              \<or> (case oi_stop_price i of None \<Rightarrow> False | Some v \<Rightarrow> not_positive v)
      then Inl (ValueError ''Order intent prices must be finite and positive'')
      else Inr i)"

definition order_intent_to_dict :: "order_intent \<Rightarrow> payload" where
  "order_intent_to_dict i =
     [(''client_order_id'', JStr (oi_client_order_id i)),
      (''symbol'', JStr (oi_symbol i)),
      (''side'', JStr (str_lower (order_side_value (oi_side i)))),
      (''order_type'', JStr (str_lower (order_type_value (oi_order_type i)))),
      (''quantity'', JDec (oi_quantity i)),
      (''price'', jdec_option (oi_price i)),
      (''stop_price'', jdec_option (oi_stop_price i)),
      (''tif'', jstr_option (oi_tif i)),
      (''reduce_only'', JBool (oi_reduce_only i)),
      (''leverage'', jint_option (oi_leverage i))]
     @ (case oi_position_operation i of None \<Rightarrow> []
        | Some p \<Rightarrow> [(''position_operation'', JObj (position_operation_to_dict p))])"

fun jobj :: "json \<Rightarrow> payload result" where
  "jobj (JObj p) = Inr p"
| "jobj _ = Inl (TypeError ''object'')"

definition order_intent_from_dict :: "payload \<Rightarrow> order_intent result" where
  "order_intent_from_dict p =
     rbind (rbind (jget p ''client_order_id'') jstr) (\<lambda>cid.
     rbind (rbind (jget p ''symbol'') jstr) (\<lambda>sym.
     rbind (rbind (rbind (jget p ''side'') jstr) (\<lambda>s. order_side_of (str_upper s))) (\<lambda>side.
     rbind (rbind (rbind (jget p ''order_type'') jstr) (\<lambda>s. order_type_of (str_upper s))) (\<lambda>ot.
     rbind (rbind (jget p ''quantity'') jdecimal) (\<lambda>q.
     rbind (ropt jdecimal (jopt p ''price'')) (\<lambda>price.
     rbind (ropt jdecimal (jopt p ''stop_price'')) (\<lambda>stop.
     rbind (ropt jstr (jopt p ''tif'')) (\<lambda>tif.
     rbind (case map_of p ''reduce_only'' of None \<Rightarrow> Inr False | Some v \<Rightarrow> jbool v) (\<lambda>ro.
     rbind (ropt jint (jopt p ''leverage'')) (\<lambda>lev.
     rbind (case map_of p ''position_operation'' of None \<Rightarrow> Inr None
            | Some v \<Rightarrow> rbind (rbind (jobj v) position_operation_from_dict) (\<lambda>o'. Inr (Some o'))) (\<lambda>po.
     new_order_intent
       \<lparr>oi_client_order_id = cid, oi_symbol = sym, oi_side = side, oi_order_type = ot,
        oi_quantity = q, oi_price = price, oi_stop_price = stop, oi_tif = tif,
        oi_reduce_only = ro, oi_leverage = lev, oi_position_operation = po\<rparr>)))))))))))"

subsection \<open>Broker receipts\<close>

text \<open>
  What the broker's order object shows of each field after the attribute aliases are
  resolved; \<open>None\<close> is an absent attribute or a \<^verbatim>\<open>None\<close>. A numeric field is what
  \<^verbatim>\<open>Decimal(str(value))\<close> makes of it; \<open>Unparsable\<close> raises there.
\<close>

datatype raw_decimal = Parsed py_decimal | Unparsable

record receipt =
  rc_client_id :: "string option"
  rc_symbol :: "string option"
  rc_side :: "string option"
  rc_type :: "string option"
  rc_quantity :: "py_decimal option"
  rc_reduce_only :: "bool option"
  rc_filled_quantity :: "raw_decimal option"
  rc_status :: "string option"
  rc_avg_fill_price :: "raw_decimal option"

definition conflict :: "string \<Rightarrow> py_error" where
  "conflict field = ValueError (''Broker receipt '' @ field @ '' conflicts with intent'')"

text \<open>The explicit observed fields, in the order of the source's dictionary.\<close>

definition receipt_fields_ok :: "order_intent \<Rightarrow> receipt \<Rightarrow> unit result" where
  "receipt_fields_ok i r =
     rbind (case rc_client_id r of None \<Rightarrow> Inr ()
            | Some c \<Rightarrow> raise_if (c \<noteq> [] \<and> c \<noteq> oi_client_order_id i) (conflict ''client_id'')) (\<lambda>_.
     rbind (case rc_symbol r of None \<Rightarrow> Inr ()
            | Some s \<Rightarrow> raise_if (s \<noteq> oi_symbol i) (conflict ''symbol'')) (\<lambda>_.
     rbind (case rc_side r of None \<Rightarrow> Inr ()
            | Some s \<Rightarrow> raise_if (str_upper s \<noteq> order_side_value (oi_side i)) (conflict ''side'')) (\<lambda>_.
     rbind (case rc_type r of None \<Rightarrow> Inr ()
            | Some s \<Rightarrow> raise_if (str_upper s \<noteq> order_type_value (oi_order_type i)) (conflict ''type'')) (\<lambda>_.
     rbind (case rc_quantity r of None \<Rightarrow> Inr ()
            | Some q \<Rightarrow> raise_if (q = NonFinite \<or> q \<noteq> oi_quantity i) (conflict ''quantity'')) (\<lambda>_.
     case rc_reduce_only r of None \<Rightarrow> Inr ()
     | Some b \<Rightarrow> raise_if (b \<noteq> oi_reduce_only i) (conflict ''reduce_only''))))))"

text \<open>The fill values; every failure in here is reported as malformed fill values.\<close>

fun fill_quantity_bad :: "py_decimal \<Rightarrow> bool \<Rightarrow> raw_decimal \<Rightarrow> bool" where
  "fill_quantity_bad q is_filled Unparsable = True"
| "fill_quantity_bad q is_filled (Parsed NonFinite) = True"
| "fill_quantity_bad q is_filled (Parsed (Finite f)) =
     (case q of NonFinite \<Rightarrow> True
      | Finite w \<Rightarrow> f < 0 \<or> w < f \<or> (is_filled \<and> f \<noteq> w))"

fun fill_price_bad :: "raw_decimal \<Rightarrow> bool" where
  "fill_price_bad Unparsable = True"
| "fill_price_bad (Parsed x) = not_positive x"

definition receipt_fill_ok :: "order_intent \<Rightarrow> receipt \<Rightarrow> unit result" where
  "receipt_fill_ok i r =
     (let is_filled = (case rc_status r of None \<Rightarrow> False | Some s \<Rightarrow> str_upper s = ''FILLED'')
      in raise_if
           ((case rc_filled_quantity r of None \<Rightarrow> False
             | Some f \<Rightarrow> fill_quantity_bad (oi_quantity i) is_filled f)
            \<or> (case rc_avg_fill_price r of None \<Rightarrow> False | Some p \<Rightarrow> fill_price_bad p))
           (ValueError ''Broker receipt contains malformed fill values''))"

definition validate_receipt :: "order_intent \<Rightarrow> receipt option \<Rightarrow> unit result" where
  "validate_receipt i order =
     (case order of None \<Rightarrow> Inr ()
      | Some r \<Rightarrow> rbind (receipt_fields_ok i r) (\<lambda>_. receipt_fill_ok i r))"

section \<open>Instruments: classification\<close>

lemma upper_alnum_dash: "\<not> upper_alnum (CHR ''-'')"
  by code_simp

lemma dash_in_crypto_pair: "crypto_pair s \<Longrightarrow> CHR ''-'' \<in> set s"
proof -
  assume "crypto_pair s"
  then have "dropWhile upper_alnum s \<noteq> []" "hd (dropWhile upper_alnum s) = CHR ''-''"
    by (auto simp: crypto_pair_def Let_def)
  then have "CHR ''-'' \<in> set (dropWhile upper_alnum s)" by (metis hd_in_set)
  then show ?thesis by (rule set_dropWhileD)
qed

lemma crypto_not_equity: "crypto_pair s \<Longrightarrow> \<not> equity_ticker s"
proof
  assume c: "crypto_pair s" and e: "equity_ticker s"
  from dash_in_crypto_pair[OF c] e have "is_upper (CHR ''-'')" by (auto simp: equity_ticker_def list_all_iff)
  then show False by (simp add: is_upper_def in_range_def)
qed

section \<open>Serialization\<close>

lemma order_side_roundtrip: "order_side_of (str_upper (str_lower (order_side_value s))) = Inr s"
  by (cases s; hypsubst; code_simp)

lemma order_type_roundtrip: "order_type_of (str_upper (str_lower (order_type_value t))) = Inr t"
  by (cases t; hypsubst; code_simp)

lemma position_operation_roundtrip:
  "new_position_operation p = Inr p \<Longrightarrow>
   position_operation_from_dict (position_operation_to_dict p) = Inr p"
proof -
  assume valid: "new_position_operation p = Inr p"
  have eta: "\<lparr>po_action = po_action p, po_target_decision_id = po_target_decision_id p,
      po_target_record_hash = po_target_record_hash p, po_resolution = po_resolution p\<rparr> = p"
    by simp
  show ?thesis using valid
    by (simp add: position_operation_from_dict_def position_operation_to_dict_def jget_def eta)
qed

lemma jopt_jdec_option:
  "map_of p k = Some (jdec_option x) \<Longrightarrow> ropt jdecimal (jopt p k) = Inr x"
  by (cases x) (simp_all add: jopt_def jdec_option_def)

lemma jopt_jstr_option:
  "map_of p k = Some (jstr_option x) \<Longrightarrow> ropt jstr (jopt p k) = Inr x"
  by (cases x) (simp_all add: jopt_def jstr_option_def)

lemma jopt_jint_option:
  "map_of p k = Some (jint_option x) \<Longrightarrow> ropt jint (jopt p k) = Inr x"
  by (cases x) (simp_all add: jopt_def jint_option_def)

text \<open>An order intent that construction accepts, its position operation included.\<close>

definition valid_order_intent :: "order_intent \<Rightarrow> bool" where
  "valid_order_intent i \<longleftrightarrow> new_order_intent i = Inr i
     \<and> (case oi_position_operation i of None \<Rightarrow> True | Some p \<Rightarrow> new_position_operation p = Inr p)"

lemma order_intent_roundtrip_lemma:
  assumes "valid_order_intent i"
  shows "order_intent_from_dict (order_intent_to_dict i) = Inr i"
proof -
  let ?p = "order_intent_to_dict i"
  have price: "ropt jdecimal (jopt ?p ''price'') = Inr (oi_price i)"
    by (rule jopt_jdec_option) (simp add: order_intent_to_dict_def)
  have stop: "ropt jdecimal (jopt ?p ''stop_price'') = Inr (oi_stop_price i)"
    by (rule jopt_jdec_option) (simp add: order_intent_to_dict_def)
  have tif: "ropt jstr (jopt ?p ''tif'') = Inr (oi_tif i)"
    by (rule jopt_jstr_option) (simp add: order_intent_to_dict_def)
  have lev: "ropt jint (jopt ?p ''leverage'') = Inr (oi_leverage i)"
    by (rule jopt_jint_option) (simp add: order_intent_to_dict_def)
  have po: "(case map_of ?p ''position_operation'' of None \<Rightarrow> Inr None
      | Some v \<Rightarrow> rbind (rbind (jobj v) position_operation_from_dict) (\<lambda>o'. Inr (Some o')))
      = Inr (oi_position_operation i)"
    using assms
    by (cases "oi_position_operation i")
       (auto simp: order_intent_to_dict_def valid_order_intent_def position_operation_roundtrip)
  have new: "new_order_intent i = Inr i" using assms by (simp add: valid_order_intent_def)
  have get: "jget ?p ''client_order_id'' = Inr (JStr (oi_client_order_id i))"
    "jget ?p ''symbol'' = Inr (JStr (oi_symbol i))"
    "jget ?p ''side'' = Inr (JStr (str_lower (order_side_value (oi_side i))))"
    "jget ?p ''order_type'' = Inr (JStr (str_lower (order_type_value (oi_order_type i))))"
    "jget ?p ''quantity'' = Inr (JDec (oi_quantity i))"
    "map_of ?p ''reduce_only'' = Some (JBool (oi_reduce_only i))"
    by (simp_all add: order_intent_to_dict_def jget_def)
  have eta: "\<lparr>oi_client_order_id = oi_client_order_id i, oi_symbol = oi_symbol i,
      oi_side = oi_side i, oi_order_type = oi_order_type i, oi_quantity = oi_quantity i,
      oi_price = oi_price i, oi_stop_price = oi_stop_price i, oi_tif = oi_tif i,
      oi_reduce_only = oi_reduce_only i, oi_leverage = oi_leverage i,
      oi_position_operation = oi_position_operation i\<rparr> = i" by simp
  show ?thesis
    unfolding order_intent_from_dict_def price stop tif lev po get
    by (simp add: order_side_roundtrip order_type_roundtrip eta new)
qed

section \<open>Ticks\<close>

lemma dquantize_on_grid:
  assumes "on_grid k x" and "\<bar>x\<bar> < 10 powi (k + 28)"
  shows "dquantize x k = Inr x"
proof -
  obtain m :: int where x: "x = of_int m * 10 powi k" using assms(1) by (auto simp: on_grid_def)
  have n: "half_even (x / 10 powi k) = m" by (simp add: x)
  have "of_int \<bar>m\<bar> * 10 powi k < (10 ^ 28 :: rat) * 10 powi k"
    using assms(2) powi10_add[of k 28] by (simp add: x abs_mult algebra_simps)
  then have "(of_int \<bar>m\<bar> :: rat) < 10 ^ 28" by (rule mult_right_less_imp_less) simp
  then have "\<bar>m\<bar> < 10 ^ 28" by (metis of_int_less_iff of_int_numeral of_int_power)
  then show ?thesis using n by (simp add: dquantize_def x)
qed

lemma on_grid_of_int_mult: "on_grid k x \<Longrightarrow> on_grid k (of_int n * x)"
  by (auto simp: on_grid_def) (metis (no_types, opaque_lifting) mult.assoc of_int_mult)

section \<open>Properties\<close>

text \<open>
  Converting percent points to a fraction and back loses nothing but what lies beyond the
  28 digits of a \<open>Decimal\<close>: the round trip is the single rounding of the input, in both
  directions, and a value of at most 28 digits comes back unchanged.
\<close>

theorem risk_units_roundtrip:
  "fraction_to_pct_points (pct_points_to_fraction v) = dround v
   \<and> pct_points_to_fraction (fraction_to_pct_points v) = dround v"
  using dround_div_pow10[of v 2] dround_mult_pow10[of v 2]
  by (simp add: fraction_to_pct_points_def pct_points_to_fraction_def dmul_def dquot_def)

lemma nearest_tick:
  assumes "0 < inc"
  shows "\<bar>of_int (half_even (dround (p / inc))) * inc - p\<bar> \<le> inc / 2 + ulp * \<bar>p\<bar>"
proof -
  let ?y = "dround (p / inc)"
  have "\<bar>of_int (half_even ?y) - p / inc\<bar> \<le> 1 / 2 + ulp * \<bar>p / inc\<bar>"
    using half_even_error[of ?y] dec.rnd_error[of "p / inc"] by linarith
  then have "\<bar>of_int (half_even ?y) - p / inc\<bar> * inc \<le> (1 / 2 + ulp * \<bar>p / inc\<bar>) * inc"
    using assms by (intro mult_right_mono) auto
  moreover have "\<bar>of_int (half_even ?y) - p / inc\<bar> * inc = \<bar>of_int (half_even ?y) * inc - p\<bar>"
  proof -
    have "(of_int (half_even ?y) - p / inc) * inc = of_int (half_even ?y) * inc - p"
      using assms by (simp add: left_diff_distrib)
    then show ?thesis using assms by (metis abs_mult abs_of_pos)
  qed
  moreover have "(1 / 2 + ulp * \<bar>p / inc\<bar>) * inc = inc / 2 + ulp * \<bar>p\<bar>"
    using assms by (simp add: abs_divide algebra_simps)
  ultimately show ?thesis by simp
qed

text \<open>
  \<^verbatim>\<open>quantize_price_nearest\<close> lands on a multiple of the tick, and on the nearest one: for a
  price that fits the precision of the increment's exponent the call succeeds, its result is
  an integer number of ticks, and it is within half a tick of the price, up to the rounding
  of one division.
\<close>

theorem quantize_price_on_tick:
  assumes "0 < inc" and "on_grid k inc" and "\<bar>p\<bar> + inc \<le> 10 powi (k + 27)"
  shows "\<exists>r n. quantize_price_nearest p (Finite inc) k = Inr r \<and> r = of_int n * inc
    \<and> \<bar>r - p\<bar> \<le> inc / 2 + ulp * \<bar>p\<bar>"
proof -
  let ?n = "half_even (dround (p / inc))" and ?r = "of_int (half_even (dround (p / inc))) * inc"
  note near = nearest_tick[OF assms(1), of p]
  have "ulp * \<bar>p\<bar> \<le> \<bar>p\<bar>" by (intro mult_left_le_one_le) (auto simp: ulp_def)
  then have "\<bar>?r\<bar> \<le> 2 * (\<bar>p\<bar> + inc)"
    using near assms(1) abs_triangle_ineq2[of ?r p] by (simp add: algebra_simps)
  also have "\<dots> \<le> 2 * 10 powi (k + 27)" using assms(3) by simp
  also have "(2::rat) * 10 powi (k + 27) < 10 powi (k + 28)"
    using powi10_add[of "k + 27" 1] by (simp add: add.assoc)
  finally have b: "\<bar>?r\<bar> < 10 powi (k + 28)" .
  have g: "on_grid k ?r" by (rule on_grid_of_int_mult[OF assms(2)])
  then have e: "dround ?r = ?r" using b by (intro on_grid_exact) auto
  have "quantize_price_nearest p (Finite inc) k = Inr ?r"
    using assms(1) dquantize_on_grid[OF g b] e
    by (simp add: integral_half_even_def dquot_def dmul_def)
  then show ?thesis using near by blast
qed

theorem quantize_price_on_tick_witness:
  "\<exists>r n. quantize_price_nearest (123 / 1000) (Finite (1 / 20)) (- 2) = Inr r \<and> r = of_int n * (1 / 20)
    \<and> \<bar>r - 123 / 1000\<bar> \<le> 1 / 20 / 2 + ulp * \<bar>123 / 1000\<bar>"
proof (rule quantize_price_on_tick)
  show "on_grid (- 2) (1 / 20)" by code_simp
  show "\<bar>123 / 1000\<bar> + 1 / 20 \<le> (10::rat) powi (- 2 + 27)" by code_simp
qed simp

definition ex_intent :: order_intent where
  "ex_intent =
     \<lparr>oi_client_order_id = ''client-1'', oi_symbol = ''BTC-USD'', oi_side = SELL,
      oi_order_type = LIMIT, oi_quantity = Finite 2, oi_price = Some (Finite 100),
      oi_stop_price = None, oi_tif = Some ''GTC'', oi_reduce_only = True, oi_leverage = None,
      oi_position_operation = None\<rparr>"

text \<open>
  The serialization of an order intent is lossless: for every intent that construction
  accepts, \<^verbatim>\<open>OrderIntent.from_dict(intent.to_dict())\<close> is the intent.
\<close>

theorem order_intent_roundtrip:
  "valid_order_intent i \<Longrightarrow> order_intent_from_dict (order_intent_to_dict i) = Inr i"
  by (rule order_intent_roundtrip_lemma)

theorem order_intent_roundtrip_witness:
  "valid_order_intent ex_intent \<and> order_intent_from_dict (order_intent_to_dict ex_intent) = Inr ex_intent"
proof -
  have v: "valid_order_intent ex_intent" by code_simp
  show ?thesis using v order_intent_roundtrip[OF v] by blast
qed



end
