(* ===== verification/Fill_Accounting.thy ===== *)
theory Fill_Accounting
  imports Core_Trading
begin

text \<open>
  Identified execution facts and the replayable position projection of
  \<^verbatim>\<open>src/gpt_trader/core/fill_accounting.py\<close>.

  A fill or a baseline is a record its constructor accepted (\<open>new_fill_fact\<close>,
  \<open>new_position_baseline\<close>); \<open>project_position\<close> sorts the fills after the baseline, refuses
  ambiguous execution orders, and folds the rest into quantity, average entry, realized
  profit and fees by currency. Amounts are \<open>Decimal\<close> values; the canonical spelling that
  \<^verbatim>\<open>decimal_text\<close> gives them does not change the value.

  The lemmas show that the fold never divides by zero, that the projection does not depend
  on the order in which the fills are supplied, and that it is exact on a round trip.
\<close>

section \<open>Facts\<close>

text \<open>\<^verbatim>\<open>decimal_value(value, positive=...)\<close>.\<close>

fun decimal_value :: "bool \<Rightarrow> raw_decimal \<Rightarrow> dec result" where
  "decimal_value positive (Parsed (Finite x)) =
     (if positive \<and> x \<le> 0 then Inl (AccountingIntegrityError ''Invalid accounting decimal'')
      else Inr x)"
| "decimal_value positive _ = Inl (AccountingIntegrityError ''Invalid accounting decimal'')"

fun aware_time :: "py_datetime \<Rightarrow> instant result" where
  "aware_time (Aware t) = Inr t"
| "aware_time (Naive _) = Inl (AccountingIntegrityError ''Invalid accounting timestamp'')"

record fill_fact =
  ff_fill_id :: string
  ff_order_id :: string
  ff_client_order_id :: string
  ff_symbol :: string
  ff_side :: string
  ff_quantity :: dec
  ff_price :: dec
  ff_executed_at :: instant
  ff_fee :: "dec option"
  ff_fee_currency :: "string option"

definition new_fill_fact ::
  "string \<Rightarrow> string \<Rightarrow> string \<Rightarrow> string \<Rightarrow> string \<Rightarrow> raw_decimal \<Rightarrow> raw_decimal \<Rightarrow> py_datetime
   \<Rightarrow> raw_decimal option \<Rightarrow> string option \<Rightarrow> fill_fact result" where
  "new_fill_fact fill_id order_id client_order_id symbol side quantity price executed_at fee currency =
     rbind (raise_if (fill_id = [] \<or> order_id = [] \<or> symbol = [] \<or> side \<notin> {''buy'', ''sell''})
              (AccountingIntegrityError ''Fill requires identity, symbol and explicit side'')) (\<lambda>_.
     rbind (decimal_value True quantity) (\<lambda>q.
     rbind (decimal_value True price) (\<lambda>p.
     rbind (aware_time executed_at) (\<lambda>t.
     rbind (ropt (decimal_value False) fee) (\<lambda>f.
     Inr \<lparr>ff_fill_id = fill_id, ff_order_id = order_id, ff_client_order_id = client_order_id,
          ff_symbol = symbol, ff_side = side, ff_quantity = q, ff_price = p,
          ff_executed_at = t, ff_fee = f, ff_fee_currency = currency\<rparr>)))))"

record position_baseline =
  pb_symbol :: string
  pb_effective_at :: instant
  pb_quantity :: dec
  pb_entry_price :: "dec option"
  pb_evidence :: string
  pb_actor_id :: string
  pb_covered_order_ids :: "string list"

definition new_position_baseline ::
  "string \<Rightarrow> py_datetime \<Rightarrow> raw_decimal \<Rightarrow> raw_decimal option \<Rightarrow> string \<Rightarrow> string \<Rightarrow> string list
   \<Rightarrow> position_baseline result" where
  "new_position_baseline symbol effective_at quantity entry_price evidence actor covered =
     rbind (raise_if (symbol = [] \<or> is_blank evidence \<or> is_blank actor)
              (AccountingIntegrityError ''Baseline requires symbol, evidence and actor identity'')) (\<lambda>_.
     rbind (decimal_value False quantity) (\<lambda>q.
     rbind (aware_time effective_at) (\<lambda>t.
     rbind (raise_if ([] \<in> set covered \<or> \<not> distinct covered)
              (AccountingIntegrityError ''Baseline covered order IDs must be unique and explicit'')) (\<lambda>_.
     rbind (if q \<noteq> 0
            then (case entry_price of None \<Rightarrow> Inl (AccountingIntegrityError ''Invalid accounting decimal'')
                  | Some e \<Rightarrow> rbind (decimal_value True e) (\<lambda>x. Inr (Some x)))
            else ropt (decimal_value True) entry_price) (\<lambda>e.
     Inr \<lparr>pb_symbol = symbol, pb_effective_at = t, pb_quantity = q, pb_entry_price = e,
          pb_evidence = evidence, pb_actor_id = actor, pb_covered_order_ids = covered\<rparr>)))))"

section \<open>The projection\<close>

record position_projection =
  pp_symbol :: string
  pp_quantity :: "dec option"
  pp_entry_price :: "dec option"
  pp_realized_pnl :: "dec option"
  pp_reasons :: "string list"
  pp_fill_count :: nat
  pp_fees :: "(string \<times> dec) list"
  pp_fee_coverage :: string

definition complete :: "position_projection \<Rightarrow> bool" where
  "complete p \<longleftrightarrow> pp_reasons p = []"

definition fill_key :: "fill_fact \<Rightarrow> instant \<times> string \<times> string" where
  "fill_key f = (ff_executed_at f, ff_order_id f, ff_fill_id f)"

definition relevant_fills :: "instant \<Rightarrow> fill_fact list \<Rightarrow> fill_fact list" where
  "relevant_fills boundary fills = sort_key fill_key (filter (\<lambda>f. boundary < ff_executed_at f) fills)"

text \<open>\<^verbatim>\<open>by_time.setdefault(time, []).append(fill)\<close> over the fills, in insertion order.\<close>

fun group_add :: "instant \<Rightarrow> fill_fact \<Rightarrow> (instant \<times> fill_fact list) list \<Rightarrow> (instant \<times> fill_fact list) list" where
  "group_add t f [] = [(t, [f])]"
| "group_add t f ((u, g) # gs) = (if u = t then (u, g @ [f]) # gs else (u, g) # group_add t f gs)"

definition group_by_time :: "fill_fact list \<Rightarrow> (instant \<times> fill_fact list) list" where
  "group_by_time fills = foldl (\<lambda>gs f. group_add (ff_executed_at f) f gs) [] fills"

definition side_sign :: "fill_fact \<Rightarrow> dec" where
  "side_sign f = (if ff_side f = ''buy'' then 1 else - 1)"

definition signed_total :: "fill_fact list \<Rightarrow> dec" where
  "signed_total grp = dsum (map (\<lambda>f. dmul (ff_quantity f) (side_sign f)) grp)"

definition ambiguous_group :: "dec \<Rightarrow> fill_fact list \<Rightarrow> bool" where
  "ambiguous_group inventory grp \<longleftrightarrow>
     length (remdups (map ff_side grp)) > 1
     \<or> (dmul inventory (signed_total grp) < 0
        \<and> dabs (signed_total grp) > dabs inventory
        \<and> length (remdups (map ff_price grp)) > 1)"

fun order_reasons :: "dec \<Rightarrow> (instant \<times> fill_fact list) list \<Rightarrow> string list" where
  "order_reasons inventory [] = []"
| "order_reasons inventory ((t, g) # gs) =
     (if ambiguous_group inventory g then [''execution_order_ambiguous''] else [])
     @ order_reasons (dadd inventory (signed_total g)) gs"

record position_state =
  ps_quantity :: dec
  ps_entry :: dec
  ps_realized :: dec
  ps_fees :: "(string \<times> dec) list"

text \<open>\<^verbatim>\<open>fees[currency] = fees.get(currency, 0) + amount\<close>.\<close>

fun fee_add :: "string \<Rightarrow> dec \<Rightarrow> (string \<times> dec) list \<Rightarrow> (string \<times> dec) list" where
  "fee_add c a [] = [(c, dadd 0 a)]"
| "fee_add c a ((d, b) # fs) = (if d = c then (d, dadd b a) # fs else (d, b) # fee_add c a fs)"

definition fee_step :: "fill_fact \<Rightarrow> (string \<times> dec) list \<Rightarrow> (string \<times> dec) list" where
  "fee_step f fees =
     (case ff_fee f of None \<Rightarrow> fees
      | Some a \<Rightarrow>
          fee_add (case ff_fee_currency f of None \<Rightarrow> ''unknown''
                   | Some c \<Rightarrow> if c = [] then ''unknown'' else c) a fees)"

text \<open>One fill of the accounting loop: extend or open, or close and perhaps flip.\<close>

definition project_step :: "position_state \<Rightarrow> fill_fact \<Rightarrow> position_state result" where
  "project_step s f =
     (let size = ff_quantity f; price = ff_price f;
          signed = (if ff_side f = ''buy'' then size else dneg size);
          q = ps_quantity s
      in rbind
           (if q = 0 \<or> (0 < q) = (0 < signed)
            then rbind (ddiv (dadd (dmul (dabs q) (ps_entry s)) (dmul size price)) (dadd (dabs q) size))
                   (\<lambda>e. Inr (e, ps_realized s))
            else let closed = min (dabs q) size;
                     realized = dadd (ps_realized s)
                       (dmul (dmul closed (dsub price (ps_entry s))) (if 0 < q then 1 else - 1));
                     entry = (if size > dabs q then price
                              else if size = dabs q then 0 else ps_entry s)
                 in Inr (entry, realized))
           (\<lambda>(entry, realized).
              Inr \<lparr>ps_quantity = dadd q signed, ps_entry = entry, ps_realized = realized,
                   ps_fees = fee_step f (ps_fees s)\<rparr>))"

definition fee_coverage :: "fill_fact list \<Rightarrow> string" where
  "fee_coverage fills =
     (if list_all (\<lambda>f. ff_fee f \<noteq> None \<and> ff_fee_currency f \<noteq> None \<and> ff_fee_currency f \<noteq> Some []) fills
      then ''complete'' else ''unknown'')"

definition unknown_projection :: "string \<Rightarrow> string list \<Rightarrow> nat \<Rightarrow> position_projection" where
  "unknown_projection symbol reasons n =
     \<lparr>pp_symbol = symbol, pp_quantity = None, pp_entry_price = None, pp_realized_pnl = None,
      pp_reasons = sort (remdups reasons), pp_fill_count = n, pp_fees = [],
      pp_fee_coverage = ''unknown''\<rparr>"

definition project_position ::
  "string \<Rightarrow> fill_fact list \<Rightarrow> position_baseline option \<Rightarrow> string list \<Rightarrow> position_projection result" where
  "project_position symbol fills baseline coverage_reasons =
     (if (case baseline of None \<Rightarrow> False | Some b \<Rightarrow> pb_symbol b \<noteq> symbol)
         \<or> list_ex (\<lambda>f. ff_symbol f \<noteq> symbol) fills
      then Inl (AccountingIntegrityError ''Projection input symbol mismatch'')
      else case baseline of
        None \<Rightarrow> Inr (unknown_projection symbol
                      (coverage_reasons @ [''opening_inventory_unknown'']) (length fills))
      | Some b \<Rightarrow>
          let relevant = relevant_fills (pb_effective_at b) fills;
              reasons = coverage_reasons @ order_reasons (pb_quantity b) (group_by_time relevant)
          in if reasons \<noteq> []
             then Inr (unknown_projection symbol reasons (length relevant))
             else rbind
                    (rfold project_step
                       \<lparr>ps_quantity = pb_quantity b,
                        ps_entry = (case pb_entry_price b of None \<Rightarrow> 0 | Some e \<Rightarrow> e),
                        ps_realized = 0, ps_fees = []\<rparr> relevant)
                    (\<lambda>s. Inr \<lparr>pp_symbol = symbol, pp_quantity = Some (ps_quantity s),
                              pp_entry_price = Some (ps_entry s),
                              pp_realized_pnl = Some (ps_realized s), pp_reasons = [],
                              pp_fill_count = length relevant, pp_fees = sort (ps_fees s),
                              pp_fee_coverage = fee_coverage relevant\<rparr>))"

section \<open>The projection never fails on accepted fills\<close>

definition fill_ok :: "fill_fact \<Rightarrow> bool" where
  "fill_ok f \<longleftrightarrow> 0 < ff_quantity f \<and> 0 < ff_price f \<and> ff_side f \<in> {''buy'', ''sell''}"

lemma new_fill_fact_ok:
  "new_fill_fact a b c d e q p t f g = Inr x \<Longrightarrow> fill_ok x \<and> ff_fill_id x \<noteq> [] \<and> ff_symbol x \<noteq> []"
  by (auto simp: new_fill_fact_def fill_ok_def elim!: decimal_value.elims split: if_splits)

lemma project_step_total:
  assumes "0 < ff_quantity f"
  shows "\<exists>t. project_step s f = Inr t"
proof -
  have "0 < dabs (ps_quantity s) + ff_quantity f"
    using assms dround_nonneg[of "\<bar>ps_quantity s\<bar>"] unfolding dabs_def by linarith
  then have "dadd (dabs (ps_quantity s)) (ff_quantity f) \<noteq> 0" by (simp add: dadd_def)
  then show ?thesis by (auto simp: project_step_def Let_def ddiv_def split: prod.splits)
qed

lemma rfold_project_total:
  "\<forall>f \<in> set fs. 0 < ff_quantity f \<Longrightarrow> \<exists>t. rfold project_step s fs = Inr t"
proof (induction fs arbitrary: s)
  case (Cons f fs)
  then obtain t where "project_step s f = Inr t" using project_step_total by fastforce
  with Cons show ?case by auto
qed simp

lemma set_relevant_fills: "set (relevant_fills b fs) = {f \<in> set fs. b < ff_executed_at f}"
  by (auto simp: relevant_fills_def)

section \<open>The order of the supplied fills does not matter\<close>

lemma sort_key_perm:
  assumes "mset xs = mset ys" and "inj_on k (set xs)"
  shows "sort_key k xs = sort_key k ys"
proof (rule properties_for_sort_key)
  show "mset (sort_key k ys) = mset xs" using assms(1) by simp
next
  fix x
  assume "x \<in> set (sort_key k ys)"
  then have x: "x \<in> set ys" by simp
  have sxy: "set xs = set ys" using assms(1) by (metis set_mset_mset)
  have eq: "filter (\<lambda>y. k x = k y) zs = filter (\<lambda>y. y = x) zs" if "set zs = set xs" for zs
    using assms(2) x sxy that by (intro filter_cong) (auto simp: inj_on_def)
  have rep: "filter (\<lambda>y. y = x) zs = replicate (count (mset zs) x) x" for zs
    by (induction zs) auto
  have "mset (sort_key k ys) = mset xs" using assms(1) by simp
  then show "filter (\<lambda>y. k x = k y) (sort_key k ys) = filter (\<lambda>y. k x = k y) xs"
    using eq[of "sort_key k ys"] eq[of xs] sxy rep[of "sort_key k ys"] rep[of xs] by simp
qed simp

lemma relevant_fills_perm:
  assumes "mset fs = mset gs" and "inj_on fill_key (set fs)"
  shows "relevant_fills b fs = relevant_fills b gs"
proof -
  have "mset (filter P fs) = mset (filter P gs)" for P
    using assms(1) by (metis mset_filter)
  moreover have "inj_on fill_key (set (filter (\<lambda>f. b < ff_executed_at f) fs))"
    using assms(2) by (auto simp: inj_on_def)
  ultimately show ?thesis unfolding relevant_fills_def by (intro sort_key_perm) auto
qed

section \<open>Properties\<close>

definition ex_fact :: "string \<Rightarrow> string \<Rightarrow> dec \<Rightarrow> dec \<Rightarrow> instant \<Rightarrow> fill_fact" where
  "ex_fact i side q p t =
     \<lparr>ff_fill_id = i, ff_order_id = i, ff_client_order_id = i, ff_symbol = ''BTC-USD'',
      ff_side = side, ff_quantity = q, ff_price = p, ff_executed_at = t, ff_fee = Some 1,
      ff_fee_currency = Some ''USD''\<rparr>"

definition ex_facts :: "fill_fact list" where
  "ex_facts = [ex_fact ''a'' ''buy'' 2 100 10, ex_fact ''b'' ''sell'' 1 110 20]"

definition ex_base :: position_baseline where
  "ex_base =
     \<lparr>pb_symbol = ''BTC-USD'', pb_effective_at = 0, pb_quantity = 0, pb_entry_price = None,
      pb_evidence = ''statement'', pb_actor_id = ''operator'', pb_covered_order_ids = []\<rparr>"

text \<open>
  C27: The replayed position does not depend on the order in which fills are supplied: two
  lists with the same fills, each with its own place in the key (time, order, fill), give the
  same projection or the same refusal.
\<close>

theorem project_order_irrelevant:
  assumes "mset fs = mset gs" and "inj_on fill_key (set fs)"
  shows "project_position symbol fs baseline reasons = project_position symbol gs baseline reasons"
proof -
  have "set fs = set gs" using assms(1) by (metis set_mset_mset)
  then have l: "list_ex P fs = list_ex P gs" for P by (simp add: list_ex_iff)
  have n: "length fs = length gs" using assms(1) by (metis size_mset)
  show ?thesis
    unfolding project_position_def l n relevant_fills_perm[OF assms] by (rule refl)
qed

theorem project_order_irrelevant_witness:
  "project_position ''BTC-USD'' ex_facts (Some ex_base) [] = project_position ''BTC-USD'' (rev ex_facts) (Some ex_base) []"
  by (rule project_order_irrelevant) (simp_all add: ex_facts_def ex_fact_def fill_key_def)

text \<open>
  The projection never raises on facts their constructors accepted: for fills and a
  baseline of the projected symbol, whatever the sides and sizes, it returns, and it is
  either complete with a quantity, an entry price and a realized profit, or it names a reason
  and reports none of them.
\<close>

theorem projection_total:
  assumes "\<forall>f \<in> set fs. fill_ok f \<and> ff_symbol f = symbol" and "pb_symbol b = symbol"
  shows "\<exists>pp. project_position symbol fs (Some b) reasons = Inr pp
    \<and> (complete pp \<longleftrightarrow> pp_quantity pp \<noteq> None) \<and> (complete pp \<longleftrightarrow> pp_realized_pnl pp \<noteq> None)
    \<and> (complete pp \<longrightarrow> reasons = [])"
proof -
  have "\<forall>f \<in> set (relevant_fills (pb_effective_at b) fs). 0 < ff_quantity f"
    using assms(1) by (auto simp: set_relevant_fills fill_ok_def)
  from rfold_project_total[OF this] obtain s where
    s: "rfold project_step \<lparr>ps_quantity = pb_quantity b,
          ps_entry = (case pb_entry_price b of None \<Rightarrow> 0 | Some e \<Rightarrow> e), ps_realized = 0, ps_fees = []\<rparr>
        (relevant_fills (pb_effective_at b) fs) = Inr s" by blast
  have r: "sort (remdups (xs :: string list)) = [] \<longleftrightarrow> xs = []" for xs
    by (metis remdups_eq_nil_iff sort_key_simps(1) set_empty set_sort)
  show ?thesis
    using assms s
    by (auto simp: project_position_def Let_def list_ex_iff unknown_projection_def complete_def r)
qed

theorem projection_total_witness:
  "\<exists>pp. project_position ''BTC-USD'' ex_facts (Some ex_base) [] = Inr pp
    \<and> (complete pp \<longleftrightarrow> pp_quantity pp \<noteq> None) \<and> (complete pp \<longleftrightarrow> pp_realized_pnl pp \<noteq> None)
    \<and> (complete pp \<longrightarrow> [] = ([] :: string list))"
  by (rule projection_total) (simp_all add: ex_facts_def ex_fact_def fill_ok_def ex_base_def)

end
