(* ===== verification/Exp_Inputs.thy ===== *)
theory Exp_Inputs
  imports Fill_Accounting
begin

text \<open>
  Strict experiment inputs: \<^verbatim>\<open>src/gpt_trader/features/experiment/inputs.py\<close> and the
  rulebook schema of \<^verbatim>\<open>rulebook.py\<close>.

  \<open>parse_input\<close> reads a JSON payload into an \<open>experiment_input\<close>, refusing every input the
  source refuses. The content hash that identifies an input (SHA-256 over the engine
  version, the installed sources and the normalized payload) is the parameter \<open>checksum\<close>.

  The lemmas show that an accepted input is well formed (\<open>wf_input\<close>): contiguous hourly
  bars with consistent positive prices, settings in range, the scored index inside the
  bars, and a rulebook schedule whose versions count up from one on increasing bars.
\<close>

section \<open>Rulebooks\<close>

record rulebook =
  rb_version :: int
  rb_entry :: string
  rb_fast_bars :: int
  rb_slow_bars :: int
  rb_reversion_bars :: int
  rb_entry_z :: dec
  rb_trend_filter_bars :: int
  rb_exposure_fraction :: dec
  rb_stop_fraction :: dec
  rb_target_fraction :: dec
  rb_expiry_hours :: int
  rb_exit_on_signal :: bool

definition entry_rules :: "string list" where
  "entry_rules = [''trend'', ''mean-reversion'', ''hold'', ''cash'']"

definition starting_rulebook :: rulebook where
  "starting_rulebook =
     \<lparr>rb_version = 1, rb_entry = ''trend'', rb_fast_bars = 10, rb_slow_bars = 50,
      rb_reversion_bars = 20, rb_entry_z = 2, rb_trend_filter_bars = 0,
      rb_exposure_fraction = 1 / 5, rb_stop_fraction = 1 / 25, rb_target_fraction = 2 / 25,
      rb_expiry_hours = 48, rb_exit_on_signal = True\<rparr>"

definition rulebook_to_dict :: "rulebook \<Rightarrow> payload" where
  "rulebook_to_dict r =
     [(''schema_version'', JInt 1), (''version'', JInt (rb_version r)),
      (''entry'', JStr (rb_entry r)), (''fast_bars'', JInt (rb_fast_bars r)),
      (''slow_bars'', JInt (rb_slow_bars r)), (''reversion_bars'', JInt (rb_reversion_bars r)),
      (''entry_z'', JDec (Finite (rb_entry_z r))),
      (''trend_filter_bars'', JInt (rb_trend_filter_bars r)),
      (''exposure_fraction'', JDec (Finite (rb_exposure_fraction r))),
      (''stop_fraction'', JDec (Finite (rb_stop_fraction r))),
      (''target_fraction'', JDec (Finite (rb_target_fraction r))),
      (''expiry_hours'', JInt (rb_expiry_hours r)),
      (''exit_on_signal'', JBool (rb_exit_on_signal r))]"

definition rulebook_fields :: "string set" where
  "rulebook_fields =
     {''schema_version'', ''version'', ''entry'', ''fast_bars'', ''slow_bars'', ''reversion_bars'',
      ''entry_z'', ''trend_filter_bars'', ''exposure_fraction'', ''stop_fraction'',
      ''target_fraction'', ''expiry_hours'', ''exit_on_signal''}"

text \<open>\<^verbatim>\<open>type(value) is not int or not lower <= value <= upper\<close>.\<close>

definition int_field :: "string \<Rightarrow> payload \<Rightarrow> string \<Rightarrow> int \<Rightarrow> int \<Rightarrow> int result" where
  "int_field what p name lower upper =
     (case map_of p name of
        Some (JInt n) \<Rightarrow>
          if lower \<le> n \<and> n \<le> upper then Inr n
          else Inl (ValueError (what @ name @ '' must be an integer in range''))
      | _ \<Rightarrow> Inl (ValueError (what @ name @ '' must be an integer in range'')))"

text \<open>A decimal string in \<open>(0, cap]\<close>.\<close>

definition fraction_field :: "payload \<Rightarrow> string \<Rightarrow> dec \<Rightarrow> dec result" where
  "fraction_field p name cap =
     (case map_of p name of
        Some (JDec (Finite x)) \<Rightarrow>
          if 0 < x \<and> x \<le> cap then Inr x else Inl (ValueError (''Rulebook '' @ name @ '' out of range''))
      | Some (JDec NonFinite) \<Rightarrow> Inl (ValueError (''Rulebook '' @ name @ '' out of range''))
      | Some (JStr _) \<Rightarrow> Inl (ValueError (''Invalid rulebook '' @ name))
      | Some (JTime _) \<Rightarrow> Inl (ValueError (''Invalid rulebook '' @ name))
      | Some (JNaive _) \<Rightarrow> Inl (ValueError (''Invalid rulebook '' @ name))
      | _ \<Rightarrow> Inl (ValueError (''Rulebook '' @ name @ '' must be a decimal string'')))"

definition parse_rulebook :: "json \<Rightarrow> dec \<Rightarrow> rulebook result" where
  "parse_rulebook raw cap =
     (case raw of
        JObj p \<Rightarrow>
          rbind (raise_if (fst ` set p \<noteq> rulebook_fields)
                   (ValueError ''Rulebook requires exactly the schema fields'')) (\<lambda>_.
          rbind (int_field ''Rulebook '' p ''schema_version'' 1 1) (\<lambda>_.
          rbind (int_field ''Rulebook '' p ''version'' 1 10000) (\<lambda>version.
          rbind (int_field ''Rulebook '' p ''fast_bars'' 1 499) (\<lambda>fast.
          rbind (int_field ''Rulebook '' p ''slow_bars'' 2 500) (\<lambda>slow.
          rbind (int_field ''Rulebook '' p ''reversion_bars'' 2 500) (\<lambda>rvn.
          rbind (int_field ''Rulebook '' p ''trend_filter_bars'' 0 500) (\<lambda>tfb.
          rbind (int_field ''Rulebook '' p ''expiry_hours'' 1 720) (\<lambda>expiry.
          rbind (raise_if (fast \<ge> slow) (ValueError ''Rulebook fast_bars must be below slow_bars'')) (\<lambda>_.
          rbind (case map_of p ''entry'' of
                   Some (JStr e) \<Rightarrow> if e \<in> set entry_rules then Inr e
                                   else Inl (ValueError ''Unknown rulebook entry rule'')
                 | _ \<Rightarrow> Inl (ValueError ''Unknown rulebook entry rule'')) (\<lambda>entry.
          rbind (case map_of p ''exit_on_signal'' of
                   Some (JBool b) \<Rightarrow> Inr b
                 | _ \<Rightarrow> Inl (ValueError ''Rulebook exit_on_signal must be boolean'')) (\<lambda>exit_on.
          rbind (fraction_field p ''entry_z'' 10) (\<lambda>z.
          rbind (fraction_field p ''exposure_fraction'' cap) (\<lambda>exposure.
          rbind (fraction_field p ''stop_fraction'' (95 / 100)) (\<lambda>stop.
          rbind (fraction_field p ''target_fraction'' 100) (\<lambda>target.
          Inr \<lparr>rb_version = version, rb_entry = entry, rb_fast_bars = fast, rb_slow_bars = slow,
               rb_reversion_bars = rvn, rb_entry_z = z, rb_trend_filter_bars = tfb,
               rb_exposure_fraction = exposure, rb_stop_fraction = stop,
               rb_target_fraction = target, rb_expiry_hours = expiry,
               rb_exit_on_signal = exit_on\<rparr>)))))))))))))))
      | _ \<Rightarrow> Inl (ValueError ''Rulebook requires exactly the schema fields''))"

text \<open>\<^verbatim>\<open>aware_time\<close> of a JSON leaf.\<close>

fun json_time :: "json \<Rightarrow> instant result" where
  "json_time (JTime t) = Inr t"
| "json_time _ = Inl (AccountingIntegrityError ''Invalid accounting timestamp'')"

type_synonym versioned_rules = "instant \<times> rulebook"

text \<open>The bar a version activates at: the dictionary \<^verbatim>\<open>times\<close> keeps the last index of a time.\<close>

definition activation_index :: "instant list \<Rightarrow> int \<Rightarrow> int \<Rightarrow> int \<Rightarrow> instant \<Rightarrow> int result" where
  "activation_index moments scored version prev t =
     (case map_of (rev (zip moments (map int [0..<length moments]))) t of
        None \<Rightarrow> Inl (ValueError ''Rulebook versions must start at scored_from and increase on scored bars'')
      | Some index \<Rightarrow>
          if index \<le> prev \<or> (version = 1 \<and> index \<noteq> scored)
          then Inl (ValueError ''Rulebook versions must start at scored_from and increase on scored bars'')
          else Inr index)"

text \<open>The loop of \<^verbatim>\<open>parse_versions\<close>: \<open>version\<close> counts the items, \<open>prev\<close> is the last index.\<close>

fun parse_version_items ::
  "instant list \<Rightarrow> int \<Rightarrow> dec \<Rightarrow> int \<Rightarrow> int \<Rightarrow> json list \<Rightarrow> versioned_rules list result" where
  "parse_version_items moments scored cap version prev [] = Inr []"
| "parse_version_items moments scored cap version prev (item # items) =
     rbind (case item of
              JObj p \<Rightarrow> if fst ` set p = {''effective_from'', ''rules''} then Inr p
                        else Inl (ValueError ''Rulebook version requires effective_from and rules'')
            | _ \<Rightarrow> Inl (ValueError ''Rulebook version requires effective_from and rules'')) (\<lambda>p.
     rbind (rbind (jget p ''effective_from'') json_time) (\<lambda>t.
     rbind (activation_index moments scored version prev t) (\<lambda>index.
     rbind (rbind (jget p ''rules'') (\<lambda>r. parse_rulebook r cap)) (\<lambda>rule.
     rbind (raise_if (rb_version rule \<noteq> version)
              (ValueError ''Rulebook versions must be consecutive starting at 1'')) (\<lambda>_.
     rbind (parse_version_items moments scored cap (version + 1) index items) (\<lambda>rest.
     Inr ((moments ! nat index, rule) # rest)))))))"

definition parse_versions :: "json \<Rightarrow> instant list \<Rightarrow> nat \<Rightarrow> dec \<Rightarrow> versioned_rules list result" where
  "parse_versions raw moments scored_index cap =
     (case raw of
        JArr items \<Rightarrow>
          if 1 \<le> length items \<and> length items \<le> 2000
          then parse_version_items moments (int scored_index) cap 1 (int scored_index - 1) items
          else Inl (ValueError ''Supply 1 to 2000 rulebook versions'')
      | _ \<Rightarrow> Inl (ValueError ''Supply 1 to 2000 rulebook versions''))"

section \<open>Settings\<close>

record settings =
  s_initial_cash :: dec
  s_risk_fraction :: dec
  s_exposure_fraction :: dec
  s_drawdown_fraction :: dec
  s_fee_bps :: dec
  s_slippage_bps :: dec
  s_quantity_increment :: dec

definition default_settings :: settings where
  "default_settings =
     \<lparr>s_initial_cash = 1000, s_risk_fraction = 1 / 100, s_exposure_fraction = 1 / 5,
      s_drawdown_fraction = 1 / 10, s_fee_bps = 10, s_slippage_bps = 5,
      s_quantity_increment = 1 / 10 ^ 8\<rparr>"

definition new_settings :: "settings \<Rightarrow> settings result" where
  "new_settings s =
     rbind (raise_if (s_initial_cash s < 0 \<or> s_risk_fraction s < 0 \<or> s_exposure_fraction s < 0
                      \<or> s_drawdown_fraction s < 0 \<or> s_fee_bps s < 0 \<or> s_slippage_bps s < 0
                      \<or> s_quantity_increment s < 0) (ValueError ''Invalid experiment setting'')) (\<lambda>_.
     rbind (raise_if (\<not> (0 < s_risk_fraction s \<and> s_risk_fraction s \<le> 1))
              (ValueError ''risk_fraction must be in (0, 1]'')) (\<lambda>_.
     rbind (raise_if (\<not> (0 < s_exposure_fraction s \<and> s_exposure_fraction s \<le> 1))
              (ValueError ''exposure_fraction must be in (0, 1]'')) (\<lambda>_.
     rbind (raise_if (\<not> (0 < s_drawdown_fraction s \<and> s_drawdown_fraction s \<le> 1))
              (ValueError ''drawdown_fraction must be in (0, 1]'')) (\<lambda>_.
     rbind (raise_if (s_initial_cash s \<le> 0 \<or> s_quantity_increment s \<le> 0)
              (ValueError ''Initial cash and quantity increment must be positive'')) (\<lambda>_.
     rbind (raise_if (s_fee_bps s \<ge> 10000 \<or> s_slippage_bps s \<ge> 10000)
              (ValueError ''Costs must be below 10000 basis points'')) (\<lambda>_.
     Inr s))))))"

definition settings_to_dict :: "settings \<Rightarrow> payload" where
  "settings_to_dict s =
     [(''initial_cash'', JDec (Finite (s_initial_cash s))),
      (''risk_fraction'', JDec (Finite (s_risk_fraction s))),
      (''exposure_fraction'', JDec (Finite (s_exposure_fraction s))),
      (''drawdown_fraction'', JDec (Finite (s_drawdown_fraction s))),
      (''fee_bps'', JDec (Finite (s_fee_bps s))),
      (''slippage_bps'', JDec (Finite (s_slippage_bps s))),
      (''quantity_increment'', JDec (Finite (s_quantity_increment s)))]"

text \<open>\<^verbatim>\<open>decimal_value\<close> of a JSON leaf.\<close>

definition json_decimal :: "bool \<Rightarrow> json \<Rightarrow> dec result" where
  "json_decimal positive v =
     (case jdecimal v of
        Inl _ \<Rightarrow> Inl (AccountingIntegrityError ''Invalid accounting decimal'')
      | Inr d \<Rightarrow> decimal_value positive (Parsed d))"

text \<open>One keyword argument of \<^verbatim>\<open>Settings(**...)\<close>, with the class default.\<close>

definition setting_field :: "payload \<Rightarrow> string \<Rightarrow> dec \<Rightarrow> dec result" where
  "setting_field p name dflt =
     (case map_of p name of None \<Rightarrow> Inr dflt | Some v \<Rightarrow> json_decimal False v)"

definition parse_settings :: "json \<Rightarrow> settings result" where
  "parse_settings raw =
     (case raw of
        JObj p \<Rightarrow>
          rbind (raise_if (\<not> fst ` set p \<subseteq> fst ` set (settings_to_dict default_settings))
                   (ValueError ''Unknown experiment settings'')) (\<lambda>_.
          rbind (setting_field p ''initial_cash'' (s_initial_cash default_settings)) (\<lambda>a.
          rbind (setting_field p ''risk_fraction'' (s_risk_fraction default_settings)) (\<lambda>b.
          rbind (setting_field p ''exposure_fraction'' (s_exposure_fraction default_settings)) (\<lambda>c.
          rbind (setting_field p ''drawdown_fraction'' (s_drawdown_fraction default_settings)) (\<lambda>d.
          rbind (setting_field p ''fee_bps'' (s_fee_bps default_settings)) (\<lambda>e.
          rbind (setting_field p ''slippage_bps'' (s_slippage_bps default_settings)) (\<lambda>f.
          rbind (setting_field p ''quantity_increment'' (s_quantity_increment default_settings)) (\<lambda>g.
          new_settings
            \<lparr>s_initial_cash = a, s_risk_fraction = b, s_exposure_fraction = c,
             s_drawdown_fraction = d, s_fee_bps = e, s_slippage_bps = f,
             s_quantity_increment = g\<rparr>))))))))
      | _ \<Rightarrow> Inl (ValueError ''Unknown experiment settings''))"

record manager_settings =
  m_rulebook :: string
  m_cadence_bars :: int
  m_history_bars :: int
  m_model :: string
  m_effort :: string
  m_max_tokens :: int

definition max_rulebook_chars :: nat where "max_rulebook_chars = 4000"

definition new_manager_settings :: "manager_settings \<Rightarrow> manager_settings result" where
  "new_manager_settings m =
     rbind (raise_if (\<not> (0 < length (m_rulebook m) \<and> length (m_rulebook m) \<le> max_rulebook_chars))
              (ValueError ''Manager rulebook must be 1 to 4000 characters'')) (\<lambda>_.
     rbind (raise_if (m_model m = []) (ValueError ''Manager model must be a model id'')) (\<lambda>_.
     rbind (raise_if (m_effort m \<notin> {''low'', ''medium'', ''high'', ''xhigh'', ''max''})
              (ValueError ''Manager effort must be one of low, medium, high, xhigh, max'')) (\<lambda>_.
     rbind (raise_if (\<not> (1 \<le> m_cadence_bars m \<and> m_cadence_bars m \<le> 168))
              (ValueError ''Manager cadence_bars must be an integer from 1 to 168'')) (\<lambda>_.
     rbind (raise_if (\<not> (1 \<le> m_history_bars m \<and> m_history_bars m \<le> 500))
              (ValueError ''Manager history_bars must be an integer from 1 to 500'')) (\<lambda>_.
     rbind (raise_if (\<not> (1 \<le> m_max_tokens m \<and> m_max_tokens m \<le> 20000))
              (ValueError ''Manager max_tokens must be an integer from 1 to 20000'')) (\<lambda>_.
     Inr m))))))"

definition manager_settings_to_dict :: "manager_settings \<Rightarrow> payload" where
  "manager_settings_to_dict m =
     [(''rulebook'', JStr (m_rulebook m)), (''cadence_bars'', JInt (m_cadence_bars m)),
      (''history_bars'', JInt (m_history_bars m)), (''model'', JStr (m_model m)),
      (''effort'', JStr (m_effort m)), (''max_tokens'', JInt (m_max_tokens m))]"

definition default_rulebook :: string where
  "default_rulebook = ''Starting rulebook; rewrite it whenever you learn something. Every round trip pays the fee and slippage in the context twice, so trade rarely and only when the expected move clearly exceeds that cost. Staying out and holding are normal choices. Exit when the reason you entered no longer holds.''"

definition default_manager_settings :: manager_settings where
  "default_manager_settings =
     \<lparr>m_rulebook = default_rulebook, m_cadence_bars = 4, m_history_bars = 48,
      m_model = ''claude-fable-5-1'', m_effort = ''high'', m_max_tokens = 8000\<rparr>"

text \<open>
  A manager field of the wrong JSON type is refused by the check of that field in
  \<^verbatim>\<open>__post_init__\<close>.
\<close>

definition text_field :: "payload \<Rightarrow> string \<Rightarrow> string \<Rightarrow> string result" where
  "text_field p name dflt =
     (case map_of p name of None \<Rightarrow> Inr dflt | Some (JStr s) \<Rightarrow> Inr s
      | Some _ \<Rightarrow> Inl (ValueError (''Manager '' @ name)))"

definition whole_field :: "payload \<Rightarrow> string \<Rightarrow> int \<Rightarrow> int result" where
  "whole_field p name dflt =
     (case map_of p name of None \<Rightarrow> Inr dflt | Some (JInt n) \<Rightarrow> Inr n
      | Some _ \<Rightarrow> Inl (ValueError (''Manager '' @ name)))"

definition parse_manager :: "json \<Rightarrow> manager_settings result" where
  "parse_manager raw =
     (case raw of
        JObj p \<Rightarrow>
          rbind (raise_if (\<not> fst ` set p \<subseteq> fst ` set (manager_settings_to_dict default_manager_settings))
                   (ValueError ''Unknown manager settings'')) (\<lambda>_.
          rbind (text_field p ''rulebook'' (m_rulebook default_manager_settings)) (\<lambda>a.
          rbind (whole_field p ''cadence_bars'' (m_cadence_bars default_manager_settings)) (\<lambda>b.
          rbind (whole_field p ''history_bars'' (m_history_bars default_manager_settings)) (\<lambda>c.
          rbind (text_field p ''model'' (m_model default_manager_settings)) (\<lambda>d.
          rbind (text_field p ''effort'' (m_effort default_manager_settings)) (\<lambda>e.
          rbind (whole_field p ''max_tokens'' (m_max_tokens default_manager_settings)) (\<lambda>f.
          new_manager_settings
            \<lparr>m_rulebook = a, m_cadence_bars = b, m_history_bars = c, m_model = d,
             m_effort = e, m_max_tokens = f\<rparr>)))))))
      | _ \<Rightarrow> Inl (ValueError ''Unknown manager settings''))"

section \<open>Inputs\<close>

definition MANAGER_CHANNEL :: string where "MANAGER_CHANNEL = ''ai-trade-manager''"
definition RULEBOOK_CHANNEL :: string where "RULEBOOK_CHANNEL = ''ai-rulebook''"

definition BENCHMARKS :: "string list" where
  "BENCHMARKS = [''baseline'', ''mean-reversion'', MANAGER_CHANNEL, RULEBOOK_CHANNEL]"

record experiment_input =
  x_identity :: string
  x_source :: string
  x_symbol :: string
  x_candles :: "candle list"
  x_settings :: settings
  x_benchmark :: string
  x_scored_index :: nat
  x_manager :: "manager_settings option"
  x_rulebooks :: "versioned_rules list"

definition candle_keys :: "string set" where
  "candle_keys = {''ts'', ''open'', ''high'', ''low'', ''close'', ''volume''}"

definition parse_candle :: "instant \<Rightarrow> candle list \<Rightarrow> json \<Rightarrow> candle result" where
  "parse_candle recorded_at earlier row =
     rbind (case row of
              JObj p \<Rightarrow> if fst ` set p = candle_keys then Inr p
                        else Inl (ValueError ''Each bar requires ts, open, high, low, close, volume'')
            | _ \<Rightarrow> Inl (ValueError ''Each bar requires ts, open, high, low, close, volume'')) (\<lambda>p.
     rbind (rbind (jget p ''ts'') json_time) (\<lambda>t.
     rbind (rbind (jget p ''open'') (json_decimal True)) (\<lambda>op.
     rbind (rbind (jget p ''high'') (json_decimal True)) (\<lambda>hi.
     rbind (rbind (jget p ''low'') (json_decimal True)) (\<lambda>lo.
     rbind (rbind (jget p ''close'') (json_decimal True)) (\<lambda>cl.
     rbind (rbind (jget p ''volume'') (json_decimal False)) (\<lambda>vol.
     rbind (raise_if (\<not> (lo \<le> min op cl \<and> min op cl \<le> max op cl \<and> max op cl \<le> hi))
              (ValueError ''Inconsistent OHLC bar'')) (\<lambda>_.
     rbind (raise_if (vol < 0) (ValueError ''Volume must be nonnegative'')) (\<lambda>_.
     rbind (raise_if (t + hours 1 > recorded_at) (ValueError ''Unfinished bar after recorded_at'')) (\<lambda>_.
     rbind (raise_if (earlier \<noteq> [] \<and> t \<noteq> ts (last earlier) + hours 1)
              (ValueError ''Stale, duplicate or unordered bars: contiguous hourly data required'')) (\<lambda>_.
     Inr \<lparr>ts = t, c_open = op, c_high = hi, c_low = lo, c_close = cl, c_volume = vol\<rparr>)))))))))))"

definition parse_candles :: "instant \<Rightarrow> json \<Rightarrow> candle list result" where
  "parse_candles recorded_at rows =
     (case rows of
        JArr rs \<Rightarrow>
          if 1 \<le> length rs \<and> length rs \<le> 2000
          then rfold (\<lambda>cs row. rbind (parse_candle recorded_at cs row) (\<lambda>c. Inr (cs @ [c]))) [] rs
          else Inl (ValueError ''Supply between 1 and 2000 hourly bars'')
      | _ \<Rightarrow> Inl (ValueError ''Supply between 1 and 2000 hourly bars''))"

text \<open>The full match of \<^verbatim>\<open>[A-Z0-9]{2,12}-USD\<close>.\<close>

definition usd_symbol :: "string \<Rightarrow> bool" where
  "usd_symbol s \<longleftrightarrow>
     (let n = length s - 4
      in 6 \<le> length s \<and> n \<le> 12 \<and> list_all upper_alnum (take n s) \<and> drop n s = ''-USD'')"

definition required_keys :: "string set" where
  "required_keys = {''schema_version'', ''source'', ''symbol'', ''recorded_at'', ''candles''}"

definition optional_keys :: "string set" where
  "optional_keys = {''settings'', ''benchmark'', ''scored_from'', ''manager'', ''rulebooks''}"

text \<open>\<^verbatim>\<open>payload["schema_version"] != 1\<close>: the integer, the float and \<^verbatim>\<open>True\<close> are equal to 1.\<close>

fun json_is_one :: "json \<Rightarrow> bool" where
  "json_is_one (JInt n) = (n = 1)"
| "json_is_one (JBool b) = b"
| "json_is_one (JNum d) = (d = Finite 1)"
| "json_is_one _ = False"

fun index_of :: "('a \<Rightarrow> bool) \<Rightarrow> 'a list \<Rightarrow> nat option" where
  "index_of P [] = None"
| "index_of P (x # xs) = (if P x then Some 0 else map_option Suc (index_of P xs))"

text \<open>\<^verbatim>\<open>normalized[key] = value\<close> on the copied payload.\<close>

definition jset :: "string \<Rightarrow> json \<Rightarrow> payload \<Rightarrow> payload" where
  "jset k v p = (if map_of p k = None then p @ [(k, v)]
                 else map (\<lambda>(k', v'). (k', if k' = k then v else v')) p)"

definition versions_to_json :: "versioned_rules list \<Rightarrow> json" where
  "versions_to_json vs =
     JArr (map (\<lambda>(t, r). JObj [(''effective_from'', JTime t), (''rules'', JObj (rulebook_to_dict r))]) vs)"

text \<open>The fields of \<^verbatim>\<open>parse_input\<close> after the bars, one reader each, in the order of the source.\<close>

definition input_source :: "payload \<Rightarrow> string result" where
  "input_source p =
     (case map_of p ''source'' of
        Some (JStr s) \<Rightarrow> if is_blank s then Inl (ValueError ''Recorded data requires a source label'') else Inr s
      | _ \<Rightarrow> Inl (ValueError ''Recorded data requires a source label''))"

definition input_symbol :: "payload \<Rightarrow> string result" where
  "input_symbol p =
     (case map_of p ''symbol'' of
        Some (JStr s) \<Rightarrow> if usd_symbol s then Inr s else Inl (ValueError ''Experiment supports one USD spot symbol'')
      | _ \<Rightarrow> Inl (ValueError ''Experiment supports one USD spot symbol''))"

definition input_benchmark :: "payload \<Rightarrow> string result" where
  "input_benchmark p =
     (case map_of p ''benchmark'' of
        None \<Rightarrow> Inr ''baseline''
      | Some (JStr b) \<Rightarrow> if b \<in> set BENCHMARKS then Inr b else Inl (ValueError ''Unknown benchmark'')
      | Some _ \<Rightarrow> Inl (ValueError ''Unknown benchmark''))"

definition input_manager :: "payload \<Rightarrow> string \<Rightarrow> manager_settings option result" where
  "input_manager p benchmark =
     (if benchmark = MANAGER_CHANNEL
      then rbind (parse_manager (case map_of p ''manager'' of None \<Rightarrow> JObj [] | Some v \<Rightarrow> v))
             (\<lambda>m. Inr (Some m))
      else if map_of p ''manager'' \<noteq> None
      then Inl (ValueError ''Manager settings apply only to the ai-trade-manager channel'')
      else Inr None)"

definition input_scored_index :: "payload \<Rightarrow> candle list \<Rightarrow> nat result" where
  "input_scored_index p candles =
     (case map_of p ''scored_from'' of
        None \<Rightarrow> Inr 0
      | Some v \<Rightarrow> rbind (json_time v) (\<lambda>t.
          case index_of (\<lambda>c. ts c = t) candles of
            None \<Rightarrow> Inl (ValueError ''scored_from must be the start time of a supplied bar'')
          | Some i \<Rightarrow> Inr i))"

definition input_rulebooks ::
  "payload \<Rightarrow> string \<Rightarrow> candle list \<Rightarrow> nat \<Rightarrow> settings \<Rightarrow> versioned_rules list result" where
  "input_rulebooks p benchmark candles scored_index stg =
     (if benchmark = RULEBOOK_CHANNEL
      then parse_versions
             (case map_of p ''rulebooks'' of
                None \<Rightarrow> JArr [JObj [(''effective_from'', JTime (ts (candles ! scored_index))),
                                    (''rules'', JObj (rulebook_to_dict starting_rulebook))]]
              | Some v \<Rightarrow> v)
             (map ts candles) scored_index (s_exposure_fraction stg)
      else if map_of p ''rulebooks'' \<noteq> None
      then Inl (ValueError ''Rulebooks apply only to the ai-rulebook channel'')
      else Inr [])"

definition normalized_input ::
  "payload \<Rightarrow> settings \<Rightarrow> string \<Rightarrow> instant \<Rightarrow> manager_settings option \<Rightarrow> versioned_rules list \<Rightarrow> payload" where
  "normalized_input p stg benchmark scored_from manager rulebooks =
     (let n1 = jset ''settings'' (JObj (settings_to_dict stg)) p;
          n2 = jset ''benchmark'' (JStr benchmark) n1;
          n3 = jset ''scored_from'' (JTime scored_from) n2;
          n4 = (case manager of None \<Rightarrow> n3
                | Some m \<Rightarrow> jset ''manager'' (JObj (manager_settings_to_dict m)) n3)
      in if benchmark = RULEBOOK_CHANNEL then jset ''rulebooks'' (versions_to_json rulebooks) n4 else n4)"

definition parse_input :: "(payload \<Rightarrow> string) \<Rightarrow> payload \<Rightarrow> experiment_input result" where
  "parse_input checksum p =
     rbind (raise_if (\<not> fst ` set p \<subseteq> required_keys \<union> optional_keys \<or> \<not> required_keys \<subseteq> fst ` set p)
              (ValueError ''Experiment requires schema_version, source, symbol, recorded_at, candles'')) (\<lambda>_.
     rbind (rbind (jget p ''schema_version'') (\<lambda>v. raise_if (\<not> json_is_one v)
              (ValueError ''Unsupported experiment input version''))) (\<lambda>_.
     rbind (input_source p) (\<lambda>source.
     rbind (input_symbol p) (\<lambda>symbol.
     rbind (rbind (jget p ''recorded_at'') json_time) (\<lambda>recorded_at.
     rbind (parse_settings (case map_of p ''settings'' of None \<Rightarrow> JObj [] | Some v \<Rightarrow> v)) (\<lambda>stg.
     rbind (rbind (jget p ''candles'') (parse_candles recorded_at)) (\<lambda>candles.
     rbind (raise_if (recorded_at - (ts (last candles) + hours 1) \<ge> hours 1)
              (ValueError ''Last bar is stale at recorded_at'')) (\<lambda>_.
     rbind (input_benchmark p) (\<lambda>benchmark.
     rbind (input_manager p benchmark) (\<lambda>manager.
     rbind (input_scored_index p candles) (\<lambda>scored_index.
     rbind (input_rulebooks p benchmark candles scored_index stg) (\<lambda>rulebooks.
     Inr \<lparr>x_identity = checksum (normalized_input p stg benchmark (ts (candles ! scored_index)) manager rulebooks),
          x_source = source, x_symbol = symbol, x_candles = candles,
          x_settings = stg, x_benchmark = benchmark, x_scored_index = scored_index,
          x_manager = manager, x_rulebooks = rulebooks\<rparr>))))))))))))"

text \<open>\<^verbatim>\<open>with_benchmark\<close>: an operator's choice may not contradict the file.\<close>

definition with_benchmark :: "payload \<Rightarrow> string option \<Rightarrow> payload result" where
  "with_benchmark p choice =
     (case choice of
        None \<Rightarrow> Inr p
      | Some b \<Rightarrow>
          (case map_of p ''benchmark'' of
             None \<Rightarrow> Inr (jset ''benchmark'' (JStr b) p)
           | Some v \<Rightarrow> if v = JStr b then Inr (jset ''benchmark'' (JStr b) p)
                       else Inl (ValueError ''Input file names a different benchmark'')))"

section \<open>Well-formed inputs\<close>

definition wf_settings :: "settings \<Rightarrow> bool" where
  "wf_settings s \<longleftrightarrow>
     0 < s_initial_cash s \<and> 0 < s_quantity_increment s
     \<and> 0 < s_risk_fraction s \<and> s_risk_fraction s \<le> 1
     \<and> 0 < s_exposure_fraction s \<and> s_exposure_fraction s \<le> 1
     \<and> 0 < s_drawdown_fraction s \<and> s_drawdown_fraction s \<le> 1
     \<and> 0 \<le> s_fee_bps s \<and> s_fee_bps s < 10000
     \<and> 0 \<le> s_slippage_bps s \<and> s_slippage_bps s < 10000"

definition wf_candle :: "candle \<Rightarrow> bool" where
  "wf_candle c \<longleftrightarrow> 0 < c_low c \<and> c_low c \<le> c_open c \<and> c_low c \<le> c_close c
     \<and> c_open c \<le> c_high c \<and> c_close c \<le> c_high c \<and> 0 \<le> c_volume c"

text \<open>Contiguous hourly bars.\<close>

definition hourly :: "candle list \<Rightarrow> bool" where
  "hourly cs \<longleftrightarrow> (\<forall>i < length cs - 1. ts (cs ! Suc i) = ts (cs ! i) + hours 1)"

definition wf_rulebook :: "dec \<Rightarrow> rulebook \<Rightarrow> bool" where
  "wf_rulebook cap r \<longleftrightarrow>
     rb_entry r \<in> set entry_rules \<and> 1 \<le> rb_fast_bars r \<and> rb_fast_bars r < rb_slow_bars r
     \<and> rb_slow_bars r \<le> 500 \<and> 2 \<le> rb_reversion_bars r \<and> rb_reversion_bars r \<le> 500
     \<and> 0 \<le> rb_trend_filter_bars r \<and> rb_trend_filter_bars r \<le> 500
     \<and> 0 < rb_entry_z r \<and> 0 < rb_exposure_fraction r \<and> rb_exposure_fraction r \<le> cap
     \<and> 0 < rb_stop_fraction r \<and> rb_stop_fraction r < 1
     \<and> 0 < rb_target_fraction r \<and> 1 \<le> rb_expiry_hours r"

text \<open>The schedule: version \<open>k\<close> is the \<open>k\<close>th rulebook, and activation times increase strictly.\<close>

definition wf_schedule :: "instant list \<Rightarrow> nat \<Rightarrow> dec \<Rightarrow> versioned_rules list \<Rightarrow> bool" where
  "wf_schedule moments scored cap vs \<longleftrightarrow>
     vs \<noteq> [] \<and> fst (hd vs) = moments ! scored
     \<and> (\<forall>i < length vs. rb_version (snd (vs ! i)) = int i + 1 \<and> wf_rulebook cap (snd (vs ! i)))
     \<and> sorted_wrt (<) (map fst vs)"

definition wf_manager :: "manager_settings \<Rightarrow> bool" where
  "wf_manager m \<longleftrightarrow> 0 < length (m_rulebook m) \<and> length (m_rulebook m) \<le> max_rulebook_chars
     \<and> m_model m \<noteq> [] \<and> 1 \<le> m_cadence_bars m \<and> m_cadence_bars m \<le> 168
     \<and> 1 \<le> m_history_bars m \<and> m_history_bars m \<le> 500 \<and> 1 \<le> m_max_tokens m \<and> m_max_tokens m \<le> 20000"

definition wf_input :: "experiment_input \<Rightarrow> bool" where
  "wf_input x \<longleftrightarrow>
     x_candles x \<noteq> [] \<and> length (x_candles x) \<le> 2000 \<and> list_all wf_candle (x_candles x)
     \<and> hourly (x_candles x) \<and> wf_settings (x_settings x) \<and> x_symbol x \<noteq> []
     \<and> x_benchmark x \<in> set BENCHMARKS \<and> x_scored_index x < length (x_candles x)
     \<and> (case x_manager x of None \<Rightarrow> x_benchmark x \<noteq> MANAGER_CHANNEL
         | Some m \<Rightarrow> x_benchmark x = MANAGER_CHANNEL \<and> wf_manager m)
     \<and> (if x_benchmark x = RULEBOOK_CHANNEL
        then wf_schedule (map ts (x_candles x)) (x_scored_index x)
               (s_exposure_fraction (x_settings x)) (x_rulebooks x)
        else x_rulebooks x = [])"

section \<open>Accepted inputs are well formed\<close>

lemma new_settings_wf: "new_settings s = Inr t \<Longrightarrow> t = s \<and> wf_settings s"
  by (auto simp: new_settings_def wf_settings_def not_less not_le)

lemma parse_settings_wf: "parse_settings raw = Inr s \<Longrightarrow> wf_settings s"
  by (cases raw) (auto simp: parse_settings_def dest: new_settings_wf)

lemma new_manager_wf: "new_manager_settings m = Inr n \<Longrightarrow> n = m \<and> wf_manager m"
  by (auto simp: new_manager_settings_def wf_manager_def not_less not_le)

lemma parse_manager_wf: "parse_manager raw = Inr m \<Longrightarrow> wf_manager m"
  by (cases raw) (auto simp: parse_manager_def dest: new_manager_wf)

lemma int_field_range: "int_field w p k lo hi = Inr n \<Longrightarrow> lo \<le> n \<and> n \<le> hi"
  by (auto simp: int_field_def split: option.splits json.splits if_splits)

lemma fraction_field_range: "fraction_field p k c = Inr x \<Longrightarrow> 0 < x \<and> x \<le> c"
  by (auto simp: fraction_field_def split: option.splits json.splits if_splits py_decimal.splits)

lemma parse_rulebook_wf: "parse_rulebook raw cap = Inr r \<Longrightarrow> wf_rulebook cap r"
  by (cases raw)
     (auto simp: parse_rulebook_def wf_rulebook_def dest!: int_field_range fraction_field_range
       split: option.splits json.splits if_splits)

lemma json_decimal_pos: "json_decimal True v = Inr x \<Longrightarrow> 0 < x"
  by (auto simp: json_decimal_def not_le elim!: decimal_value.elims split: sum.splits if_splits)

lemma parse_candle_wf:
  "parse_candle r cs row = Inr c \<Longrightarrow>
     wf_candle c \<and> (cs \<noteq> [] \<longrightarrow> ts c = ts (last cs) + hours 1)"
  by (auto simp: parse_candle_def wf_candle_def not_less dest!: json_decimal_pos)

lemma hourly_Nil [simp]: "hourly []"
  by (simp add: hourly_def)

lemma hourly_snoc:
  "hourly cs \<Longrightarrow> (cs \<noteq> [] \<longrightarrow> ts c = ts (last cs) + hours 1) \<Longrightarrow> hourly (cs @ [c])"
  unfolding hourly_def
proof (intro allI impI)
  fix i
  assume h: "\<forall>i < length cs - 1. ts (cs ! Suc i) = ts (cs ! i) + hours 1"
    and l: "cs \<noteq> [] \<longrightarrow> ts c = ts (last cs) + hours 1" and i: "i < length (cs @ [c]) - 1"
  show "ts ((cs @ [c]) ! Suc i) = ts ((cs @ [c]) ! i) + hours 1"
  proof (cases "Suc i < length cs")
    case True
    then show ?thesis using h by (simp add: nth_append)
  next
    case False
    then have "i = length cs - 1" "cs \<noteq> []" using i by auto
    then show ?thesis using l by (auto simp: nth_append last_conv_nth)
  qed
qed

lemma parse_candles_wf:
  assumes "parse_candles r rows = Inr cs"
  shows "cs \<noteq> []" and "length cs \<le> 2000" and "list_all wf_candle cs" and "hourly cs"
proof -
  from assms obtain rs where rs: "1 \<le> length rs" "length rs \<le> 2000"
    and f: "rfold (\<lambda>cs row. rbind (parse_candle r cs row) (\<lambda>c. Inr (cs @ [c]))) [] rs = Inr cs"
    by (auto simp: parse_candles_def split: json.splits if_splits)
  have "length cs = length rs + length ([] :: candle list)"
  proof -
    have "rfold (\<lambda>cs row. rbind (parse_candle r cs row) (\<lambda>c. Inr (cs @ [c]))) ds xs = Inr es
        \<Longrightarrow> length es = length xs + length ds" for ds xs es
      by (induction xs arbitrary: ds) auto
    then show ?thesis using f by blast
  qed
  with rs show "cs \<noteq> []" "length cs \<le> 2000" by auto
  have "list_all wf_candle cs \<and> hourly cs"
    by (rule rfold_invariant[OF f]) (auto dest!: parse_candle_wf intro!: hourly_snoc)
  then show "list_all wf_candle cs" "hourly cs" by auto
qed

lemma index_of_Some: "index_of P xs = Some i \<Longrightarrow> i < length xs \<and> P (xs ! i)"
  by (induction xs arbitrary: i) (auto split: if_splits)

lemma hourly_nth: "hourly cs \<Longrightarrow> i < length cs \<Longrightarrow> ts (cs ! i) = ts (cs ! 0) + hours (int i)"
  by (induction i) (auto simp: hourly_def hours_def algebra_simps)

lemma hourly_sorted: "hourly cs \<Longrightarrow> sorted_wrt (<) (map ts cs)"
  by (auto simp: sorted_wrt_iff_nth_less hourly_nth hours_def)

lemma bar_index_lookup:
  "map_of (rev (zip M (map int [0..<length M]))) t = Some k \<Longrightarrow>
     0 \<le> k \<and> nat k < length M \<and> M ! nat k = t"
  by (drule map_of_SomeD) (auto simp: set_zip)

lemma activation_index_Inr_iff:
  "activation_index M s v prev t = Inr k \<longleftrightarrow>
     map_of (rev (zip M (map int [0..<length M]))) t = Some k \<and> prev < k \<and> (v = 1 \<longrightarrow> k = s)"
  by (auto simp: activation_index_def not_le split: option.splits)

lemma parse_version_items_wf:
  assumes "sorted_wrt (<) M" and "parse_version_items M s cap v prev items = Inr vs"
  shows "length vs = length items
    \<and> (\<forall>i < length vs. rb_version (snd (vs ! i)) = v + int i \<and> wf_rulebook cap (snd (vs ! i)))
    \<and> (\<forall>t \<in> fst ` set vs. \<exists>j < length M. prev < int j \<and> t = M ! j)
    \<and> sorted_wrt (<) (map fst vs) \<and> (v = 1 \<longrightarrow> vs \<noteq> [] \<longrightarrow> fst (hd vs) = M ! nat s)"
  using assms(2)
proof (induction items arbitrary: v prev vs)
  case (Cons item items)
  from Cons.prems obtain q t k rule rest where
    lk: "map_of (rev (zip M (map int [0..<length M]))) t = Some k"
    and k: "prev < k" "v = 1 \<longrightarrow> k = s"
    and rule: "wf_rulebook cap rule" "rb_version rule = v"
    and rest: "parse_version_items M s cap (v + 1) k items = Inr rest"
    and vs: "(M ! nat k, rule) # rest = vs"
    unfolding parse_version_items.simps rbind_Inr_iff activation_index_Inr_iff raise_if_Inr_iff
      sum.inject not_not by (blast dest: parse_rulebook_wf)
  note ki = bar_index_lookup[OF lk]
  note IH = Cons.IH[OF rest]
  have later: "M ! nat k < t'" if "t' \<in> fst ` set rest" for t'
  proof -
    from IH that obtain j where "j < length M" "k < int j" "t' = M ! j" by blast
    then show ?thesis using assms(1) ki by (auto simp: sorted_wrt_iff_nth_less)
  qed
  have ver: "rb_version (snd (vs ! i)) = v + int i \<and> wf_rulebook cap (snd (vs ! i))"
    if "i < length vs" for i
    using that IH rule vs by (cases i) auto
  have mem: "\<exists>j < length M. prev < int j \<and> t' = M ! j" if "t' \<in> fst ` set vs" for t'
  proof (cases "t' \<in> fst ` set rest")
    case True
    then obtain j where "j < length M" "k < int j" "t' = M ! j" using IH by blast
    then show ?thesis using k(1) by (intro exI[of _ j]) auto
  next
    case False
    then have "t' = M ! nat k" using that by (auto simp: vs[symmetric])
    then show ?thesis using ki k(1) by (intro exI[of _ "nat k"]) auto
  qed
  have "sorted_wrt (<) (map fst vs)" using IH later by (auto simp: vs[symmetric])
  moreover have "v = 1 \<longrightarrow> vs \<noteq> [] \<longrightarrow> fst (hd vs) = M ! nat s" using k(2) by (auto simp: vs[symmetric])
  moreover have "length vs = length (item # items)" using IH by (auto simp: vs[symmetric])
  ultimately show ?case using ver mem by blast
qed simp

lemma parse_versions_wf:
  assumes "sorted_wrt (<) M" and "parse_versions raw M i cap = Inr vs"
  shows "wf_schedule M i cap vs"
proof -
  from assms(2) obtain items where it: "1 \<le> length items"
    and p: "parse_version_items M (int i) cap 1 (int i - 1) items = Inr vs"
    by (auto simp: parse_versions_def split: json.splits if_splits)
  from parse_version_items_wf[OF assms(1) p] it show ?thesis
    by (cases vs) (auto simp: wf_schedule_def algebra_simps)
qed

lemma input_symbol_nonempty: "input_symbol p = Inr s \<Longrightarrow> s \<noteq> []"
  by (auto simp: input_symbol_def usd_symbol_def Let_def split: option.splits json.splits if_splits)

lemma input_benchmark_known: "input_benchmark p = Inr b \<Longrightarrow> b \<in> set BENCHMARKS"
  by (auto simp: input_benchmark_def BENCHMARKS_def split: option.splits json.splits if_splits)

lemma input_manager_wf:
  "input_manager p b = Inr m \<Longrightarrow>
     (case m of None \<Rightarrow> b \<noteq> MANAGER_CHANNEL | Some s \<Rightarrow> b = MANAGER_CHANNEL \<and> wf_manager s)"
  by (auto simp: input_manager_def dest: parse_manager_wf split: if_splits)

lemma input_scored_index_bound:
  "input_scored_index p cs = Inr i \<Longrightarrow> cs \<noteq> [] \<Longrightarrow> i < length cs"
  by (auto simp: input_scored_index_def dest: index_of_Some split: option.splits)

lemma input_rulebooks_wf:
  "input_rulebooks p b cs i stg = Inr rs \<Longrightarrow> hourly cs \<Longrightarrow>
     (if b = RULEBOOK_CHANNEL then wf_schedule (map ts cs) i (s_exposure_fraction stg) rs else rs = [])"
  by (auto simp: input_rulebooks_def dest!: parse_versions_wf[OF hourly_sorted] split: if_splits)

lemmas input_readers_wf =
  parse_settings_wf input_symbol_nonempty input_benchmark_known input_manager_wf

lemma parse_input_wf_lemma:
  assumes "parse_input checksum p = Inr x"
  shows "wf_input x"
proof -
  from assms obtain source symbol recorded stg candles benchmark manager i rulebooks v raw where
    f: "input_symbol p = Inr symbol" "parse_settings raw = Inr stg"
      "parse_candles recorded v = Inr candles" "input_benchmark p = Inr benchmark"
      "input_manager p benchmark = Inr manager" "input_scored_index p candles = Inr i"
      "input_rulebooks p benchmark candles i stg = Inr rulebooks"
    and x: "x = \<lparr>x_identity = checksum (normalized_input p stg benchmark (ts (candles ! i)) manager rulebooks),
          x_source = source, x_symbol = symbol, x_candles = candles,
          x_settings = stg, x_benchmark = benchmark, x_scored_index = i,
          x_manager = manager, x_rulebooks = rulebooks\<rparr>"
    unfolding parse_input_def by (simp only: rbind_Inr_iff) (metis sum.inject(2))
  show ?thesis
    using input_readers_wf(1)[OF f(2)] input_readers_wf(2)[OF f(1)] input_readers_wf(3)[OF f(4)]
      input_readers_wf(4)[OF f(5)] parse_candles_wf[OF f(3)]
      input_scored_index_bound[OF f(6)] input_rulebooks_wf[OF f(7)]
    by (cases manager) (simp_all add: wf_input_def x)
qed

end
