(* ===== verification/Exp_Rules.thy ===== *)
theory Exp_Rules
  imports Exp_Inputs
begin

text \<open>
  The account state of an experiment (\<^verbatim>\<open>initial_state\<close> of
  \<^verbatim>\<open>src/gpt_trader/features/experiment/ledger.py\<close>) and the rulebook channel:
  \<^verbatim>\<open>evaluate\<close> of \<^verbatim>\<open>rulebook.py\<close>.

  The state dictionary is the record \<open>account\<close>; the decimal strings it holds are their
  values, since \<^verbatim>\<open>Decimal(str(x))\<close> is \<open>x\<close>. A plan's levels are optional: the benchmark
  channels write \<^verbatim>\<open>str(None)\<close> for a missing level, which a later read refuses.

  The lemmas show that a decision touches only the pending plan and the control record, that
  an exit is requested only while holding and an entry only while flat and not halted, and
  that a proposed plan brackets the close it was made at.
\<close>

section \<open>State\<close>

record plan =
  pl_decision_id :: string
  pl_lower :: "dec option"
  pl_upper :: "dec option"
  pl_stop :: "dec option"
  pl_target :: "dec option"
  pl_expires_at :: instant
  pl_size_fraction :: "dec option"
  pl_thesis :: string

record manager_control =
  mc_rulebook :: string
  mc_rulebook_version :: int
  mc_exit_pending :: bool

record rulebook_control =
  rc_version :: int
  rc_exit_pending :: bool

record account =
  st_cash :: dec
  st_quantity :: dec
  st_cost_basis :: dec
  st_realized_net :: dec
  st_fees :: dec
  st_peak_equity :: dec
  st_halted :: bool
  st_position :: "plan option"
  st_pending :: "plan option"
  st_manager :: "manager_control option"
  st_rulebook :: "rulebook_control option"

definition initial_state :: "experiment_input \<Rightarrow> account" where
  "initial_state x =
     \<lparr>st_cash = s_initial_cash (x_settings x), st_quantity = 0, st_cost_basis = 0,
      st_realized_net = 0, st_fees = 0, st_peak_equity = s_initial_cash (x_settings x),
      st_halted = False, st_position = None, st_pending = None,
      st_manager = map_option (\<lambda>m. \<lparr>mc_rulebook = m_rulebook m, mc_rulebook_version = 1,
                                    mc_exit_pending = False\<rparr>) (x_manager x),
      st_rulebook = (if x_benchmark x = RULEBOOK_CHANNEL
                     then Some \<lparr>rc_version = 0, rc_exit_pending = False\<rparr> else None)\<rparr>"

text \<open>\<^verbatim>\<open>Decimal(plan[name])\<close>, where the text may be \<^verbatim>\<open>None\<close>.\<close>

definition plan_level :: "dec option \<Rightarrow> dec result" where
  "plan_level x = (case x of None \<Rightarrow> Inl (ArithmeticError ''InvalidOperation'') | Some d \<Rightarrow> Inr d)"

section \<open>Slices and means\<close>

text \<open>\<^verbatim>\<open>xs[-n:]\<close> and \<^verbatim>\<open>xs[-n - 1 : -1]\<close> for a positive \<open>n\<close>.\<close>

definition last_n :: "nat \<Rightarrow> 'a list \<Rightarrow> 'a list" where
  "last_n n xs = drop (length xs - n) xs"

definition prior_n :: "nat \<Rightarrow> 'a list \<Rightarrow> 'a list" where
  "prior_n n xs = butlast (drop (length xs - (n + 1)) xs)"

definition mean :: "dec list \<Rightarrow> dec result" where
  "mean xs = ddiv (dsum xs) (of_nat (length xs))"

section \<open>Rule evaluation\<close>

text \<open>The schedule item in force at a bar: the loop stops at the first later activation.\<close>

definition active_rules :: "versioned_rules list \<Rightarrow> instant \<Rightarrow> versioned_rules result" where
  "active_rules vs t =
     (case vs of [] \<Rightarrow> Inl IndexError
      | v # rest \<Rightarrow> Inr (last (v # takeWhile (\<lambda>i. fst i \<le> t) rest)))"

definition closes_until :: "experiment_input \<Rightarrow> nat \<Rightarrow> dec list" where
  "closes_until x sequence = map c_close (drop (sequence - 500) (take (sequence + 1) (x_candles x)))"

definition bars_needed :: "rulebook \<Rightarrow> bool \<Rightarrow> int" where
  "bars_needed r holding =
     max (if rb_entry r = ''trend'' then rb_slow_bars r + 1 else 1)
       (max (if rb_entry r = ''mean-reversion'' then rb_reversion_bars r else 1)
            (if \<not> holding \<and> rb_entry r \<noteq> ''cash'' then rb_trend_filter_bars r else 0))"

text \<open>The pair \<^verbatim>\<open>enter, exit_\<close>.\<close>

definition rule_signal :: "rulebook \<Rightarrow> dec list \<Rightarrow> (bool \<times> bool) result" where
  "rule_signal r closes =
     (let close = last closes in
      if rb_entry r = ''cash'' then Inr (False, True)
      else if rb_entry r = ''hold'' then Inr (True, False)
      else if rb_entry r = ''trend''
      then rbind (mean (last_n (nat (rb_fast_bars r)) closes)) (\<lambda>fast.
           rbind (mean (last_n (nat (rb_slow_bars r)) closes)) (\<lambda>slow.
           rbind (mean (prior_n (nat (rb_fast_bars r)) closes)) (\<lambda>prior_fast.
           rbind (mean (prior_n (nat (rb_slow_bars r)) closes)) (\<lambda>prior_slow.
           Inr (slow < fast \<and> prior_fast \<le> prior_slow, fast \<le> slow)))))
      else let window = last_n (nat (rb_reversion_bars r)) closes in
           rbind (mean window) (\<lambda>average.
           rbind (mean (map (\<lambda>v. dsquare (dsub v average)) window)) (\<lambda>variance.
           let deviation = dsqrt variance in
           Inr (0 < deviation \<and> close \<le> dsub average (dmul (rb_entry_z r) deviation),
                average \<le> close))))"

text \<open>The entry filter: a close at or below its own average cancels the signal.\<close>

definition trend_filtered :: "rulebook \<Rightarrow> dec list \<Rightarrow> bool \<Rightarrow> bool result" where
  "trend_filtered r closes enter =
     (if rb_trend_filter_bars r = 0 then Inr enter
      else rbind (mean (last_n (nat (rb_trend_filter_bars r)) closes)) (\<lambda>average.
           Inr (if last closes \<le> average then False else enter)))"

definition rulebook_plan :: "experiment_input \<Rightarrow> nat \<Rightarrow> rulebook \<Rightarrow> dec \<Rightarrow> plan" where
  "rulebook_plan x sequence r close =
     (let stop = dmul close (dsub 1 (rb_stop_fraction r));
          target = dmul close (dadd 1 (rb_target_fraction r))
      in \<lparr>pl_decision_id = take 16 (x_identity x) @ ''-'' @ str_nat sequence @ ''-rulebook-''
                            @ str_nat (nat (rb_version r)),
          pl_lower = Some stop, pl_upper = Some target, pl_stop = Some stop,
          pl_target = Some target,
          pl_expires_at = ts (x_candles x ! sequence) + hours (1 + rb_expiry_hours r),
          pl_size_fraction = Some (rb_exposure_fraction r),
          pl_thesis = ''ai-rulebook v'' @ str_nat (nat (rb_version r)) @ '': '' @ rb_entry r\<rparr>)"

type_synonym rule_outcome =
  "account \<times> string \<times> plan option \<times> versioned_rules option"

definition evaluate :: "experiment_input \<Rightarrow> nat \<Rightarrow> account \<Rightarrow> rule_outcome result" where
  "evaluate x sequence st =
     (let candle = x_candles x ! sequence in
      rbind (active_rules (x_rulebooks x) (ts candle)) (\<lambda>active.
      rbind (case st_rulebook st of None \<Rightarrow> Inl (KeyError ''rulebook'') | Some c \<Rightarrow> Inr c) (\<lambda>control.
      let r = snd active;
          activation = (if rc_version control \<noteq> rb_version r then Some active else None);
          control1 = control\<lparr>rc_version := rb_version r\<rparr>;
          st1 = st\<lparr>st_rulebook := Some control1\<rparr>;
          closes = closes_until x sequence;
          close = last closes;
          holding = st_position st \<noteq> None
      in if int (length closes) < bars_needed r holding
         then Inr (st1, ''ai-rulebook: collecting history'', None, activation)
         else rbind (rule_signal r closes) (\<lambda>(enter, exit').
           if holding
           then if exit' \<and> (rb_entry r = ''cash'' \<or> rb_exit_on_signal r)
                then Inr (st1\<lparr>st_rulebook := Some (control1\<lparr>rc_exit_pending := True\<rparr>)\<rparr>,
                          ''ai-rulebook: exit at next open'', None, activation)
                else Inr (st1, ''ai-rulebook: keep position'', None, activation)
           else if st_halted st
           then Inr (st1, ''new entries halted by drawdown limit'', None, activation)
           else rbind (trend_filtered r closes enter) (\<lambda>go.
             if \<not> go then Inr (st1, ''ai-rulebook: stay in cash'', None, activation)
             else let proposal = rulebook_plan x sequence r close
                  in Inr (st1\<lparr>st_pending := Some proposal\<rparr>,
                          ''ai-rulebook: consider entry at next open'', Some proposal, activation))))))"

section \<open>Lemmas\<close>

lemma last_n_nonempty: "xs \<noteq> [] \<Longrightarrow> 0 < n \<Longrightarrow> last_n n xs \<noteq> []"
  by (cases xs) (auto simp: last_n_def)

lemma prior_n_nonempty: "2 \<le> length xs \<Longrightarrow> 0 < n \<Longrightarrow> prior_n n xs \<noteq> []"
  by (auto simp: prior_n_def butlast_conv_take)

lemma mean_total: "xs \<noteq> [] \<Longrightarrow> mean xs = Inr (dquot (dsum xs) (of_nat (length xs)))"
  by (simp add: mean_def ddiv_def)

lemma rule_signal_total:
  assumes "wf_rulebook cap r" and "closes \<noteq> []"
    and "bars_needed r holding \<le> int (length closes)"
  shows "is_ok (rule_signal r closes)"
proof -
  have *: "rb_entry r = ''trend'' \<Longrightarrow> 2 \<le> length closes"
    using assms by (auto simp: bars_needed_def wf_rulebook_def split: if_splits)
  show ?thesis using assms * unfolding rule_signal_def Let_def wf_rulebook_def
    by (simp add: mean_total last_n_nonempty prior_n_nonempty)
qed

lemma trend_filtered_total:
  "wf_rulebook cap r \<Longrightarrow> closes \<noteq> [] \<Longrightarrow> is_ok (trend_filtered r closes enter)"
  by (auto simp: trend_filtered_def wf_rulebook_def mean_total last_n_nonempty)

lemma closes_until_nonempty:
  "sequence < length (x_candles x) \<Longrightarrow> closes_until x sequence \<noteq> []"
  by (auto simp: closes_until_def)

lemma active_rules_wf:
  assumes "wf_schedule M i cap vs" and "active_rules vs t = Inr a"
  shows "wf_rulebook cap (snd a)"
proof -
  from assms obtain v rest where vs: "vs = v # rest" by (auto simp: wf_schedule_def neq_Nil_conv)
  have "a \<in> set vs" using assms(2) unfolding vs active_rules_def
    by (auto dest: set_takeWhileD split: if_splits)
       (metis last_in_set set_takeWhileD)
  then show ?thesis using assms(1) by (auto simp: wf_schedule_def in_set_conv_nth)
qed

text \<open>What a rule decision may change: nothing but the control record and the pending plan.\<close>

datatype rule_effect = Idle | RequestExit | Enter plan

fun apply_effect :: "rule_effect \<Rightarrow> int \<Rightarrow> account \<Rightarrow> account" where
  "apply_effect Idle v st = st\<lparr>st_rulebook := map_option (rc_version_update (\<lambda>_. v)) (st_rulebook st)\<rparr>"
| "apply_effect RequestExit v st =
     st\<lparr>st_rulebook := map_option (\<lambda>c. c\<lparr>rc_version := v, rc_exit_pending := True\<rparr>) (st_rulebook st)\<rparr>"
| "apply_effect (Enter p) v st =
     st\<lparr>st_rulebook := map_option (rc_version_update (\<lambda>_. v)) (st_rulebook st), st_pending := Some p\<rparr>"

lemma evaluate_cases:
  assumes "evaluate x n st = Inr (st', label, prop, act)"
  obtains eff a where "active_rules (x_rulebooks x) (ts (x_candles x ! n)) = Inr a"
    and "st' = apply_effect eff (rb_version (snd a)) st"
    and "st_rulebook st \<noteq> None"
    and "eff = RequestExit \<Longrightarrow> st_position st \<noteq> None"
    and "\<And>p. eff = Enter p \<Longrightarrow> st_position st = None \<and> \<not> st_halted st
            \<and> p = rulebook_plan x n (snd a) (last (closes_until x n))"
    and "prop = (case eff of Enter p \<Rightarrow> Some p | _ \<Rightarrow> None)"
proof -
  from assms obtain a c where a: "active_rules (x_rulebooks x) (ts (x_candles x ! n)) = Inr a"
    and c: "st_rulebook st = Some c"
    by (auto simp: evaluate_def Let_def split: option.splits)
  let ?v = "rb_version (snd a)" and ?p = "rulebook_plan x n (snd a) (last (closes_until x n))"
  have "(st' = apply_effect Idle ?v st \<and> prop = None)
      \<or> (st' = apply_effect RequestExit ?v st \<and> st_position st \<noteq> None \<and> prop = None)
      \<or> (st' = apply_effect (Enter ?p) ?v st \<and> st_position st = None \<and> \<not> st_halted st \<and> prop = Some ?p)"
    using assms unfolding evaluate_def Let_def a c option.case rbind.simps
    by (cases "rule_signal (snd a) (closes_until x n)"; cases "st_position st"; cases "st_halted st")
       (simp_all add: c split: if_splits prod.splits, auto)
  then show ?thesis
  proof (elim disjE conjE)
    assume "st' = apply_effect Idle ?v st" "prop = None"
    then show ?thesis using that[OF a, of Idle] c by simp
  next
    assume "st' = apply_effect RequestExit ?v st" "st_position st \<noteq> None" "prop = None"
    then show ?thesis using that[OF a, of RequestExit] c by simp
  next
    assume "st' = apply_effect (Enter ?p) ?v st" "st_position st = None" "\<not> st_halted st" "prop = Some ?p"
    then show ?thesis using that[OF a, of "Enter ?p"] c by simp
  qed
qed

lemma evaluate_total:
  assumes "wf_input x" and "x_benchmark x = RULEBOOK_CHANNEL" and "n < length (x_candles x)"
    and "st_rulebook st \<noteq> None"
  shows "is_ok (evaluate x n st)"
proof -
  from assms(1,2) have wf: "wf_schedule (map ts (x_candles x)) (x_scored_index x)
      (s_exposure_fraction (x_settings x)) (x_rulebooks x)"
    by (simp add: wf_input_def)
  then obtain a where a: "active_rules (x_rulebooks x) (ts (x_candles x ! n)) = Inr a"
    by (cases "x_rulebooks x") (auto simp: wf_schedule_def active_rules_def)
  note r = active_rules_wf[OF wf a]
  note ne = closes_until_nonempty[OF assms(3)]
  show ?thesis
  proof (cases "int (length (closes_until x n)) < bars_needed (snd a) (st_position st \<noteq> None)")
    case True
    then show ?thesis using a assms(4) by (auto simp: evaluate_def Let_def)
  next
    case False
    then obtain en ex where s: "rule_signal (snd a) (closes_until x n) = Inr (en, ex)"
      using rule_signal_total[OF r ne, of "st_position st \<noteq> None"] by (auto simp: is_ok_iff not_less)
    from trend_filtered_total[OF r ne, of en] obtain go where
      "trend_filtered (snd a) (closes_until x n) en = Inr go" by (auto simp: is_ok_iff)
    then show ?thesis using a assms(4) False s by (auto simp: evaluate_def Let_def)
  qed
qed

end
