(* ===== verification/Exp_Manager.thy ===== *)
theory Exp_Manager
  imports Exp_Rules
begin

text \<open>
  The AI trade manager channel: \<^verbatim>\<open>src/gpt_trader/features/experiment/trade_manager.py\<close>.

  A transport is a model id and a function from the request to a reply or an exception;
  \<open>RecordedTransport\<close> is the one that replays a journaled turn. The JSON parser
  \<^verbatim>\<open>json.loads\<close> is the parameter \<open>loads\<close>, called with the source's own hook for the pairs of
  an object; it yields the tree, the hook's exception, or \<open>ValueError\<close> for a text that is
  not JSON. Everything the reply is then held to is modelled.

  The lemmas show what an accepted decision guarantees for the account it was asked for,
  that no reply, however malformed, makes a trade it should not, that the entry size is
  clamped to the exposure cap, and that a turn replayed from its own record gives the same
  outcome as the live turn.
\<close>

section \<open>Replies and transports\<close>

record transport_reply =
  tr_model :: string
  tr_text :: string
  tr_stop_reason :: string
  tr_input_tokens :: int
  tr_output_tokens :: int
  tr_latency_ms :: int
  tr_input_usd_per_million :: dec
  tr_output_usd_per_million :: dec

fun reply_price :: "py_decimal \<Rightarrow> dec result" where
  "reply_price (Finite x) =
     (if x < 0 then Inl (ValueError ''Transport reply price must be a nonnegative Decimal'') else Inr x)"
| "reply_price NonFinite = Inl (ValueError ''Transport reply price must be a nonnegative Decimal'')"

definition new_transport_reply ::
  "string \<Rightarrow> string \<Rightarrow> string \<Rightarrow> int \<Rightarrow> int \<Rightarrow> int \<Rightarrow> py_decimal \<Rightarrow> py_decimal \<Rightarrow> transport_reply result" where
  "new_transport_reply model reply_text stop_reason input_tokens output_tokens latency_ms input_usd output_usd =
     rbind (raise_if (model = []) (ValueError ''Transport reply requires a model id'')) (\<lambda>_.
     rbind (raise_if (input_tokens < 0 \<or> output_tokens < 0 \<or> latency_ms < 0)
              (ValueError ''Transport reply counts must be a nonnegative integer'')) (\<lambda>_.
     rbind (reply_price input_usd) (\<lambda>iu.
     rbind (reply_price output_usd) (\<lambda>ou.
     Inr \<lparr>tr_model = model, tr_text = reply_text, tr_stop_reason = stop_reason,
          tr_input_tokens = input_tokens, tr_output_tokens = output_tokens,
          tr_latency_ms = latency_ms, tr_input_usd_per_million = iu,
          tr_output_usd_per_million = ou\<rparr>))))"

definition cost_usd :: "transport_reply \<Rightarrow> dec" where
  "cost_usd r =
     dquot (dadd (dmul (of_int (tr_input_tokens r)) (tr_input_usd_per_million r))
                 (dmul (of_int (tr_output_tokens r)) (tr_output_usd_per_million r))) 1000000"

record transport =
  tp_model :: string
  tp_decide :: "payload \<Rightarrow> transport_reply result"

text \<open>The evidence of one decision turn.\<close>

record turn =
  tn_model :: string
  tn_request :: payload
  tn_response :: "(string \<times> string) option"
  tn_usage :: "(int \<times> int) option"
  tn_latency_ms :: "int option"
  tn_pricing :: "(dec \<times> dec) option"
  tn_cost_usd :: dec
  tn_error :: "string option"
  tn_outcome :: string
  tn_reason :: string
  tn_rulebook_version :: int
  tn_rulebook :: "string option"

text \<open>
  \<^verbatim>\<open>RecordedTransport\<close>. Subscripting a missing part of the record is Python's
  \<^verbatim>\<open>TypeError\<close>.
\<close>

definition recorded_decide :: "turn option \<Rightarrow> payload \<Rightarrow> transport_reply result" where
  "recorded_decide t request =
     (case t of
        None \<Rightarrow> Inl (ExperimentIntegrityError ''Replay requires a model turn the journal lacks'')
      | Some tn \<Rightarrow>
          if request \<noteq> tn_request tn
          then Inl (ExperimentIntegrityError ''Rebuilt model request differs from the journal'')
          else (case tn_error tn of
             Some e \<Rightarrow> Inl (TransportError e)
           | None \<Rightarrow>
               (case (tn_response tn, tn_usage tn, tn_latency_ms tn, tn_pricing tn) of
                  (Some (txt, stop), Some (ins, outs), Some latency, Some (iu, ou)) \<Rightarrow>
                    new_transport_reply (tn_model tn) txt stop ins outs latency (Finite iu) (Finite ou)
                | _ \<Rightarrow> Inl (TypeError ''NoneType''))))"

definition RecordedTransport :: "turn option \<Rightarrow> transport" where
  "RecordedTransport t =
     \<lparr>tp_model = (case t of None \<Rightarrow> [] | Some tn \<Rightarrow> tn_model tn), tp_decide = recorded_decide t\<rparr>"

section \<open>Requests\<close>

definition CONTEXT_VERSION :: string where "CONTEXT_VERSION = ''ai-trade-manager-context/2''"
definition MAX_REASON_CHARS :: nat where "MAX_REASON_CHARS = 500"
definition MAX_EXPIRY_HOURS :: int where "MAX_EXPIRY_HOURS = 720"
definition REFUSAL_STOP_REASONS :: "string list" where "REFUSAL_STOP_REASONS = [''refusal'']"

definition newline :: string where "newline = [CHR 0x0A]"

definition INSTRUCTIONS :: "string \<Rightarrow> string" where
  \<open>INSTRUCTIONS symbol =
     ''You manage one simulated USD spot account trading '' @ symbol @ '' on hourly bars.'' @ newline
     @ concat (map (\<lambda>l. l @ newline)
     [''You decide alone; no person approves your trades. The simulator fills any entry or'',
      ''exit at the next bar's open with the fees and slippage in the context, sizes an'',
      ''entry no larger than the exposure cap and the stop risk allow, halts new entries'',
      ''after the drawdown limit, and keeps the stop you set at entry as a hard exit.'',
      ''You see only bars that have closed. Holding cash and keeping a position are'',
      ''normal choices; every round trip pays the costs twice. Your result is read once,'',
      ''at the window's end in the context, net of every cost and with anything still'',
      ''held valued at its sale price after costs. It is compared with cash, with'',
      ''holding the coin at the exposure cap from the window's first bar, and with the'',
      ''fixed trading rules run beside you, all on the same account size, costs and limits.'',
      '''',
      ''Reply with one JSON object and nothing else:'',
      ''{'',
      ''  "action": "hold" | "enter" | "exit",'',
      ''  "reason": "<at most 500 characters>",'',
      ''  "rulebook": "<optional: your rewritten rulebook, at most 4000 characters>",'',
      ''  "size_fraction": "<enter only: fraction of equity to commit, above 0>",'',
      ''  "stop": "<enter only: price below the last close>",'',
      ''  "target": "<enter only: price above the last close>",'',
      ''  "expires_in_hours": <enter only: whole hours from 1 to 720>'',
      ''}'',
      ''"hold" stays out while flat and keeps the position while holding. "enter" is'',
      ''valid only while flat and "exit" only while holding. Your rulebook is yours to''])
     @ ''keep: it is sent back to you on every turn, and you may rewrite it on any turn.''\<close>

definition candle_to_dict :: "candle \<Rightarrow> json" where
  "candle_to_dict c =
     JObj [(''ts'', JTime (ts c)), (''open'', JDec (Finite (c_open c))),
           (''high'', JDec (Finite (c_high c))), (''low'', JDec (Finite (c_low c))),
           (''close'', JDec (Finite (c_close c))), (''volume'', JDec (Finite (c_volume c)))]"

definition jd :: "dec \<Rightarrow> json" where "jd x = JDec (Finite x)"

definition level_text :: "dec option \<Rightarrow> json" where
  "level_text x = (case x of None \<Rightarrow> JStr ''None'' | Some d \<Rightarrow> jd d)"

definition build_request :: "experiment_input \<Rightarrow> nat \<Rightarrow> account \<Rightarrow> payload result" where
  "build_request x sequence st =
     (case (x_manager x, st_manager st) of
        (None, _) \<Rightarrow> Inl AssertionError
      | (_, None) \<Rightarrow> Inl (KeyError ''manager'')
      | (Some m, Some control) \<Rightarrow>
     (let stg = x_settings x;
          candle = x_candles x ! sequence;
          quantity = st_quantity st;
          first = nat (int sequence - m_history_bars m + 1);
          position =
            (case st_position st of
               None \<Rightarrow> JNull
             | Some p \<Rightarrow>
                 JObj [(''cost_basis_with_fee'', jd (st_cost_basis st)),
                       (''unrealized_net_at_last_close'',
                          jd (dsub (dmul quantity (c_close candle)) (st_cost_basis st))),
                       (''stop'', level_text (pl_stop p)), (''target'', level_text (pl_target p)),
                       (''expires_at'', JTime (pl_expires_at p))]);
          context' = JObj
            [(''symbol'', JStr (x_symbol x)),
             (''decision_time'', JTime (ts candle + hours 1)),
             (''window'', JObj [(''starts_at'', JTime (ts (x_candles x ! x_scored_index x))),
                                (''ends_at'', JTime (ts (last (x_candles x)) + hours 1))]),
             (''bars'', JArr (map candle_to_dict (drop first (take (sequence + 1) (x_candles x))))),
             (''account'', JObj
                [(''cash'', jd (st_cash st)), (''quantity'', jd (st_quantity st)),
                 (''equity_at_last_close'', jd (dadd (st_cash st) (dmul quantity (c_close candle)))),
                 (''position'', position)]),
             (''costs'', JObj
                [(''fee_bps'', jd (s_fee_bps stg)), (''slippage_bps'', jd (s_slippage_bps stg)),
                 (''round_trip_bps'', jd (dmul 2 (dadd (s_fee_bps stg) (s_slippage_bps stg))))]),
             (''limits'', JObj
                [(''exposure_fraction'', jd (s_exposure_fraction stg)),
                 (''stop_risk_fraction'', jd (s_risk_fraction stg)),
                 (''drawdown_halt_fraction'', jd (s_drawdown_fraction stg)),
                 (''peak_equity'', jd (st_peak_equity st))]),
             (''rulebook'', JObj
                [(''version'', JInt (mc_rulebook_version control)),
                 (''text'', JStr (mc_rulebook control))])]
      in Inr [(''context_version'', JStr CONTEXT_VERSION),
              (''instructions'', JStr (INSTRUCTIONS (x_symbol x))),
              (''context'', context')]))"

section \<open>Reading a reply\<close>

record decision =
  dc_action :: string
  dc_reason :: string
  dc_rulebook :: "string option"
  dc_size_fraction :: "dec option"
  dc_stop :: "dec option"
  dc_target :: "dec option"
  dc_expires_in_hours :: "int option"

definition plain_decision :: "string \<Rightarrow> string \<Rightarrow> string option \<Rightarrow> decision" where
  "plain_decision action reason rb =
     \<lparr>dc_action = action, dc_reason = reason, dc_rulebook = rb, dc_size_fraction = None,
      dc_stop = None, dc_target = None, dc_expires_in_hours = None\<rparr>"

fun above_zero :: "string \<Rightarrow> py_decimal \<Rightarrow> dec result" where
  "above_zero name (Finite x) =
     (if x \<le> 0 then Inl (MalformedReplyError (name @ '' must be above 0'')) else Inr x)"
| "above_zero name NonFinite = Inl (MalformedReplyError (name @ '' must be above 0''))"

text \<open>\<^verbatim>\<open>_price\<close>: an integer, a decimal number or a text that \<^verbatim>\<open>Decimal\<close> reads; never a boolean.\<close>

fun reply_number :: "json \<Rightarrow> string \<Rightarrow> dec result" where
  "reply_number (JInt n) name = above_zero name (Finite (of_int n))"
| "reply_number (JNum d) name = above_zero name d"
| "reply_number (JDec d) name = above_zero name d"
| "reply_number (JStr s) name =
     (case decimal_of_text s of
        None \<Rightarrow> Inl (MalformedReplyError (name @ '' must be a number''))
      | Some d \<Rightarrow> above_zero name d)"
| "reply_number _ name = Inl (MalformedReplyError (name @ '' must be a number''))"

text \<open>The hook of \<^verbatim>\<open>json.loads\<close>: an object that repeats a field is refused.\<close>

definition unique_keys :: "payload \<Rightarrow> json result" where
  "unique_keys pairs =
     (if distinct (map fst pairs) then Inr (JObj pairs)
      else Inl (MalformedReplyError ''reply repeats a field''))"

type_synonym loader = "(payload \<Rightarrow> json result) \<Rightarrow> string \<Rightarrow> json result"

definition entry_keys :: "string set" where
  "entry_keys = {''size_fraction'', ''stop'', ''target'', ''expires_in_hours''}"

definition load_reply :: "loader \<Rightarrow> string \<Rightarrow> payload result" where
  "load_reply loads reply_text =
     (case loads unique_keys reply_text of
        Inr (JObj p) \<Rightarrow> Inr p
      | Inr _ \<Rightarrow> Inl (MalformedReplyError ''reply is not one JSON object'')
      | Inl (ValueError _) \<Rightarrow> Inl (MalformedReplyError ''reply is not one JSON object'')
      | Inl e \<Rightarrow> Inl e)"

text \<open>\<^verbatim>\<open>not isinstance(value, str) or not 0 < len(value) <= limit\<close>.\<close>

definition text_within :: "nat \<Rightarrow> json option \<Rightarrow> string option" where
  "text_within limit v =
     (case v of Some (JStr s) \<Rightarrow> if 0 < length s \<and> length s \<le> limit then Some s else None
      | _ \<Rightarrow> None)"

definition enter_decision :: "payload \<Rightarrow> string \<Rightarrow> string option \<Rightarrow> dec \<Rightarrow> decision result" where
  "enter_decision p reason rb last_close =
     rbind (raise_if (\<not> entry_keys \<subseteq> fst ` set p)
              (MalformedReplyError ''enter requires size_fraction, stop, target and expires_in_hours'')) (\<lambda>_.
     rbind (rbind (jget p ''size_fraction'') (\<lambda>v. reply_number v ''size_fraction'')) (\<lambda>size_fraction.
     rbind (rbind (jget p ''stop'') (\<lambda>v. reply_number v ''stop'')) (\<lambda>stop.
     rbind (rbind (jget p ''target'') (\<lambda>v. reply_number v ''target'')) (\<lambda>target.
     rbind (raise_if (\<not> (stop < last_close \<and> last_close < target))
              (MalformedReplyError ''enter requires stop < last close < target'')) (\<lambda>_.
     rbind (case map_of p ''expires_in_hours'' of
              Some (JInt h) \<Rightarrow>
                if 1 \<le> h \<and> h \<le> MAX_EXPIRY_HOURS then Inr h
                else Inl (MalformedReplyError ''expires_in_hours must be a whole number from 1 to 720'')
            | _ \<Rightarrow> Inl (MalformedReplyError ''expires_in_hours must be a whole number from 1 to 720'')) (\<lambda>h.
     Inr \<lparr>dc_action = ''enter'', dc_reason = reason, dc_rulebook = rb,
          dc_size_fraction = Some size_fraction, dc_stop = Some stop, dc_target = Some target,
          dc_expires_in_hours = Some h\<rparr>))))))"

definition reply_action :: "payload \<Rightarrow> string result" where
  "reply_action p =
     (case map_of p ''action'' of
        Some (JStr a) \<Rightarrow> if a \<in> {''hold'', ''enter'', ''exit''} then Inr a
                        else Inl (MalformedReplyError ''action must be hold, enter or exit'')
      | _ \<Rightarrow> Inl (MalformedReplyError ''action must be hold, enter or exit''))"

definition reply_reason :: "payload \<Rightarrow> string result" where
  "reply_reason p =
     (case text_within MAX_REASON_CHARS (map_of p ''reason'') of
        Some r \<Rightarrow> Inr r
      | None \<Rightarrow> Inl (MalformedReplyError ''reason must be 1 to 500 characters''))"

definition reply_rulebook :: "payload \<Rightarrow> string option result" where
  "reply_rulebook p =
     (if jopt p ''rulebook'' = None then Inr None
      else case text_within max_rulebook_chars (jopt p ''rulebook'') of
        Some r \<Rightarrow> Inr (Some r)
      | None \<Rightarrow> Inl (MalformedReplyError ''rulebook must be 1 to 4000 characters''))"

definition plain_reply :: "payload \<Rightarrow> bool \<Rightarrow> string \<Rightarrow> string \<Rightarrow> string option \<Rightarrow> decision result" where
  "plain_reply p holding action reason rb =
     rbind (raise_if (entry_keys \<inter> fst ` set p \<noteq> {})
              (MalformedReplyError ''entry fields are valid only with enter'')) (\<lambda>_.
     rbind (raise_if (action = ''exit'' \<and> \<not> holding)
              (MalformedReplyError ''exit is valid only while holding a position'')) (\<lambda>_.
     Inr (plain_decision action reason rb)))"

definition parse_reply :: "loader \<Rightarrow> string \<Rightarrow> bool \<Rightarrow> dec \<Rightarrow> decision result" where
  "parse_reply loads reply_text holding last_close =
     rbind (load_reply loads reply_text) (\<lambda>p.
     rbind (raise_if (\<not> fst ` set p \<subseteq> {''action'', ''reason'', ''rulebook''} \<union> entry_keys)
              (MalformedReplyError ''unknown reply fields'')) (\<lambda>_.
     rbind (reply_action p) (\<lambda>action.
     rbind (reply_reason p) (\<lambda>reason.
     rbind (reply_rulebook p) (\<lambda>rb.
     if action \<noteq> ''enter'' then plain_reply p holding action reason rb
     else rbind (raise_if holding (MalformedReplyError ''enter is valid only while flat'')) (\<lambda>_.
          enter_decision p reason rb last_close))))))"

section \<open>A decision turn\<close>

datatype outcome = Failed string | Refused string | Accepted decision | Malformed string

text \<open>
  The outcome of asking the transport: \<^verbatim>\<open>TransportError\<close> and \<^verbatim>\<open>MalformedReplyError\<close> are
  caught, every other exception leaves the turn.
\<close>

definition read_outcome ::
  "loader \<Rightarrow> transport_reply result \<Rightarrow> bool \<Rightarrow> dec \<Rightarrow> (transport_reply option \<times> outcome) result" where
  "read_outcome loads answer holding last_close =
     (case answer of
        Inl (TransportError e) \<Rightarrow> Inr (None, Failed (if e = [] then ''TransportError'' else e))
      | Inl e \<Rightarrow> Inl e
      | Inr reply \<Rightarrow>
          if tr_stop_reason reply \<in> set REFUSAL_STOP_REASONS
          then Inr (Some reply, Refused (tr_stop_reason reply))
          else (case parse_reply loads (tr_text reply) holding last_close of
             Inr d \<Rightarrow> Inr (Some reply, Accepted d)
           | Inl (MalformedReplyError m) \<Rightarrow> Inr (Some reply, Malformed m)
           | Inl e \<Rightarrow> Inl e))"

fun outcome_name :: "outcome \<Rightarrow> string" where
  "outcome_name (Failed _) = ''failed''"
| "outcome_name (Refused _) = ''refused''"
| "outcome_name (Accepted _) = ''accepted''"
| "outcome_name (Malformed _) = ''malformed''"

fun outcome_why :: "outcome \<Rightarrow> string" where
  "outcome_why (Failed e) = ''transport failed: '' @ e"
| "outcome_why (Refused s) = ''model refused (stop reason '' @ s @ '')''"
| "outcome_why (Accepted d) = dc_reason d"
| "outcome_why (Malformed m) = ''malformed reply: '' @ m"

definition make_turn ::
  "string \<Rightarrow> payload \<Rightarrow> transport_reply option \<Rightarrow> outcome \<Rightarrow> int \<Rightarrow> string option \<Rightarrow> turn" where
  "make_turn model request reply oc version rewritten =
     \<lparr>tn_model = (case reply of None \<Rightarrow> model | Some r \<Rightarrow> tr_model r), tn_request = request,
      tn_response = map_option (\<lambda>r. (tr_text r, tr_stop_reason r)) reply,
      tn_usage = map_option (\<lambda>r. (tr_input_tokens r, tr_output_tokens r)) reply,
      tn_latency_ms = map_option tr_latency_ms reply,
      tn_pricing = map_option (\<lambda>r. (tr_input_usd_per_million r, tr_output_usd_per_million r)) reply,
      tn_cost_usd = (case reply of None \<Rightarrow> 0 | Some r \<Rightarrow> cost_usd r),
      tn_error = (case oc of Failed e \<Rightarrow> Some e | _ \<Rightarrow> None),
      tn_outcome = outcome_name oc, tn_reason = outcome_why oc,
      tn_rulebook_version = version, tn_rulebook = rewritten\<rparr>"

definition manager_plan :: "experiment_input \<Rightarrow> nat \<Rightarrow> decision \<Rightarrow> dec \<Rightarrow> int \<Rightarrow> plan" where
  "manager_plan x sequence d size_fraction h =
     \<lparr>pl_decision_id = take 16 (x_identity x) @ ''-'' @ str_nat sequence @ ''-manager'',
      pl_lower = dc_stop d, pl_upper = dc_target d, pl_stop = dc_stop d, pl_target = dc_target d,
      pl_expires_at = ts (x_candles x ! sequence) + hours (1 + h),
      pl_size_fraction = Some size_fraction, pl_thesis = dc_reason d\<rparr>"

text \<open>The rewrite of the manager's own rulebook: its control record, action and new text.\<close>

definition rewrite_rulebook ::
  "manager_control \<Rightarrow> decision \<Rightarrow> manager_control \<times> string list \<times> string option" where
  "rewrite_rulebook c d =
     (case dc_rulebook d of
        None \<Rightarrow> (c, [], None)
      | Some r \<Rightarrow>
          if r = mc_rulebook c then (c, [], None)
          else let v = mc_rulebook_version c + 1
               in (c\<lparr>mc_rulebook := r, mc_rulebook_version := v\<rparr>,
                   [''rulebook rewritten to version '' @ str_nat (nat v)], Some r))"

text \<open>An accepted decision applied to the state: label, proposal and actions.\<close>

definition apply_decision ::
  "experiment_input \<Rightarrow> nat \<Rightarrow> account \<Rightarrow> manager_control \<Rightarrow> decision
   \<Rightarrow> (account \<times> string \<times> plan option \<times> string list) result" where
  "apply_decision x sequence st control d =
     (if dc_action d = ''hold''
      then Inr (st\<lparr>st_manager := Some control\<rparr>,
                if st_position st \<noteq> None then ''ai-trade-manager: keep position''
                else ''ai-trade-manager: stay out'', None, [])
      else if dc_action d = ''exit''
      then Inr (st\<lparr>st_manager := Some (control\<lparr>mc_exit_pending := True\<rparr>)\<rparr>,
                ''ai-trade-manager: exit at next open'', None, [])
      else case (dc_size_fraction d, dc_expires_in_hours d) of
             (Some sf, Some h) \<Rightarrow>
               let cap = s_exposure_fraction (x_settings x);
                   p = manager_plan x sequence d (min sf cap) h
               in Inr (st\<lparr>st_manager := Some control, st_pending := Some p\<rparr>,
                       ''ai-trade-manager: consider entry at next open'', Some p,
                       if cap < sf then [''entry size clamped to the exposure cap''] else [])
           | _ \<Rightarrow> Inl AssertionError)"

type_synonym manage_outcome =
  "account \<times> string \<times> plan option \<times> turn option \<times> string list"

text \<open>The turn after the transport has answered: apply the decision, if any, and write the evidence.\<close>

definition settle_turn ::
  "experiment_input \<Rightarrow> nat \<Rightarrow> account \<Rightarrow> string \<Rightarrow> payload \<Rightarrow> manager_control
   \<Rightarrow> transport_reply option \<Rightarrow> outcome \<Rightarrow> manage_outcome result" where
  "settle_turn x sequence st model request control reply oc =
     (case oc of
        Accepted d \<Rightarrow>
          (case rewrite_rulebook control d of (control1, acts, rewritten) \<Rightarrow>
             rbind (apply_decision x sequence st control1 d) (\<lambda>(st1, label, proposal, acts').
             Inr (st1, label, proposal,
                  Some (make_turn model request reply oc (mc_rulebook_version control1) rewritten),
                  acts @ acts')))
      | _ \<Rightarrow>
          Inr (st, ''ai-trade-manager '' @ outcome_name oc @ '' reply: no trade'', None,
               Some (make_turn model request reply oc (mc_rulebook_version control) None), []))"

definition turn_due :: "experiment_input \<Rightarrow> manager_settings \<Rightarrow> nat \<Rightarrow> bool \<Rightarrow> bool" where
  "turn_due x m sequence filled \<longleftrightarrow>
     filled \<or> (int sequence - int (x_scored_index x)) mod m_cadence_bars m = 0"

definition manage ::
  "loader \<Rightarrow> experiment_input \<Rightarrow> nat \<Rightarrow> account \<Rightarrow> transport option \<Rightarrow> bool \<Rightarrow> manage_outcome result" where
  "manage loads x sequence st tp filled =
     (case x_manager x of
        None \<Rightarrow> Inl AssertionError
      | Some m \<Rightarrow>
     let holding = st_position st \<noteq> None
     in if \<not> turn_due x m sequence filled
        then Inr (st, if holding then ''hold existing position''
                      else ''ai-trade-manager: between decision turns'', None, None, [])
        else (case tp of
           None \<Rightarrow> Inl TransportUnavailableError
         | Some t \<Rightarrow>
             rbind (build_request x sequence st) (\<lambda>request.
             rbind (read_outcome loads (tp_decide t request) holding (c_close (x_candles x ! sequence)))
               (\<lambda>(reply, oc).
             rbind (case st_manager st of None \<Rightarrow> Inl (KeyError ''manager'') | Some c \<Rightarrow> Inr c) (\<lambda>control.
             settle_turn x sequence st (tp_model t) request control reply oc)))))"

section \<open>What an accepted decision guarantees\<close>

definition decision_ok :: "bool \<Rightarrow> dec \<Rightarrow> decision \<Rightarrow> bool" where
  "decision_ok holding last_close d \<longleftrightarrow>
     0 < length (dc_reason d) \<and> length (dc_reason d) \<le> MAX_REASON_CHARS
     \<and> (\<forall>r. dc_rulebook d = Some r \<longrightarrow> 0 < length r \<and> length r \<le> max_rulebook_chars)
     \<and> (dc_action d = ''enter'' \<and> \<not> holding
          \<and> (\<exists>sf stop target h. dc_size_fraction d = Some sf \<and> 0 < sf
               \<and> dc_stop d = Some stop \<and> 0 < stop \<and> stop < last_close
               \<and> dc_target d = Some target \<and> last_close < target
               \<and> dc_expires_in_hours d = Some h \<and> 1 \<le> h \<and> h \<le> MAX_EXPIRY_HOURS)
        \<or> dc_action d = ''exit'' \<and> holding
          \<and> dc_size_fraction d = None \<and> dc_stop d = None \<and> dc_target d = None
        \<or> dc_action d = ''hold''
          \<and> dc_size_fraction d = None \<and> dc_stop d = None \<and> dc_target d = None)"

lemma above_zero_Inr: "above_zero name d = Inr x \<Longrightarrow> 0 < x"
  by (cases d) (auto split: if_splits)

lemma reply_number_pos: "reply_number v name = Inr x \<Longrightarrow> 0 < x"
  by (cases v) (auto dest!: above_zero_Inr split: option.splits simp del: above_zero.simps)

lemma text_within_length: "text_within n v = Some s \<Longrightarrow> 0 < length s \<and> length s \<le> n"
  by (auto simp: text_within_def split: option.splits json.splits if_splits)

lemma enter_decision_ok:
  assumes "enter_decision p reason rb last_close = Inr d"
    and "0 < length reason" "length reason \<le> MAX_REASON_CHARS"
    and "\<forall>r. rb = Some r \<longrightarrow> 0 < length r \<and> length r \<le> max_rulebook_chars"
  shows "decision_ok False last_close d"
proof -
  from assms(1) obtain sf stop target h where
    "0 < sf" "0 < stop" "stop < last_close" "last_close < target" "1 \<le> h" "h \<le> MAX_EXPIRY_HOURS"
    "d = \<lparr>dc_action = ''enter'', dc_reason = reason, dc_rulebook = rb,
          dc_size_fraction = Some sf, dc_stop = Some stop, dc_target = Some target,
          dc_expires_in_hours = Some h\<rparr>"
    by (auto simp: enter_decision_def dest!: reply_number_pos
        split: option.splits json.splits if_splits)
  then show ?thesis using assms(2-4) by (simp add: decision_ok_def)
qed

lemma reply_fields_ok:
  "reply_action p = Inr a \<Longrightarrow> a = ''hold'' \<or> a = ''enter'' \<or> a = ''exit''"
  "reply_reason p = Inr r \<Longrightarrow> 0 < length r \<and> length r \<le> MAX_REASON_CHARS"
  "reply_rulebook p = Inr rb \<Longrightarrow> \<forall>r. rb = Some r \<longrightarrow> 0 < length r \<and> length r \<le> max_rulebook_chars"
  by (auto simp: reply_action_def reply_reason_def reply_rulebook_def dest: text_within_length
      split: option.splits json.splits if_splits)

lemma parse_reply_ok:
  assumes "parse_reply loads s holding last_close = Inr d"
  shows "decision_ok holding last_close d"
proof -
  from assms obtain p action reason rb where
    f: "reply_action p = Inr action" "reply_reason p = Inr reason" "reply_rulebook p = Inr rb"
    and body: "(if action \<noteq> ''enter'' then plain_reply p holding action reason rb
       else rbind (raise_if holding (MalformedReplyError ''enter is valid only while flat'')) (\<lambda>_.
            enter_decision p reason rb last_close)) = Inr d"
    unfolding parse_reply_def rbind_Inr_iff by blast
  note ok = reply_fields_ok(1)[OF f(1)] reply_fields_ok(2)[OF f(2)] reply_fields_ok(3)[OF f(3)]
  show ?thesis
  proof (cases "action = ''enter''")
    case True
    with body have "\<not> holding" "enter_decision p reason rb last_close = Inr d" by simp_all
    then show ?thesis using enter_decision_ok ok(2,3) by simp
  next
    case False
    with body have "d = plain_decision action reason rb" "action = ''exit'' \<longrightarrow> holding"
      by (auto simp: plain_reply_def)
    then show ?thesis using ok False by (auto simp: decision_ok_def plain_decision_def)
  qed
qed

section \<open>What a turn may change\<close>

text \<open>The effect of a turn on the account, like that of a rule decision.\<close>

definition manager_effect :: "experiment_input \<Rightarrow> nat \<Rightarrow> account \<Rightarrow> account \<Rightarrow> bool" where
  "manager_effect x n st st' \<longleftrightarrow>
     st' = st
     \<or> (\<exists>c c'. st_manager st = Some c \<and> mc_exit_pending c' = mc_exit_pending c
          \<and> st' = st\<lparr>st_manager := Some c'\<rparr>)
     \<or> (\<exists>c'. st_position st \<noteq> None \<and> st' = st\<lparr>st_manager := Some c'\<rparr>)
     \<or> (\<exists>c c' d sf h. st_manager st = Some c \<and> mc_exit_pending c' = mc_exit_pending c
          \<and> st_position st = None \<and> decision_ok False (c_close (x_candles x ! n)) d
          \<and> dc_size_fraction d = Some sf \<and> 0 < sf \<and> dc_action d = ''enter''
          \<and> st' = st\<lparr>st_manager := Some c',
                   st_pending := Some (manager_plan x n d (min sf (s_exposure_fraction (x_settings x))) h)\<rparr>)"

lemma rewrite_keeps_exit:
  "rewrite_rulebook c d = (c', acts, r) \<Longrightarrow> mc_exit_pending c' = mc_exit_pending c"
  by (auto simp: rewrite_rulebook_def Let_def split: option.splits if_splits)

lemma read_outcome_accepted:
  "read_outcome loads ans holding lc = Inr (rp, Accepted d) \<Longrightarrow> decision_ok holding lc d"
  by (auto simp: read_outcome_def dest: parse_reply_ok
      split: sum.splits py_error.splits if_splits)

lemma apply_decision_effect:
  assumes "apply_decision x n st c1 d = Inr (st1, label, prop, acts)"
    and "decision_ok (st_position st \<noteq> None) (c_close (x_candles x ! n)) d"
    and "st_manager st = Some c" and "mc_exit_pending c1 = mc_exit_pending c"
  shows "manager_effect x n st st1"
proof -
  consider "dc_action d = ''enter''" | "dc_action d = ''exit''" | "dc_action d = ''hold''"
    using assms(2) by (auto simp: decision_ok_def)
  then show ?thesis
  proof cases
    case 1
    then obtain sf h where "st_position st = None" "dc_size_fraction d = Some sf" "0 < sf"
      "dc_expires_in_hours d = Some h" using assms(2) by (auto simp: decision_ok_def)
    then show ?thesis using 1 assms unfolding manager_effect_def
      by (intro disjI2) (auto simp: apply_decision_def Let_def)
  next
    case 2
    then have "st_position st \<noteq> None" using assms(2) by (auto simp: decision_ok_def)
    moreover have "st1 = st\<lparr>st_manager := Some (c1\<lparr>mc_exit_pending := True\<rparr>)\<rparr>"
      using 2 assms(1) by (simp add: apply_decision_def)
    ultimately show ?thesis unfolding manager_effect_def by blast
  next
    case 3
    then have "st1 = st\<lparr>st_manager := Some c1\<rparr>" using assms(1) by (simp add: apply_decision_def)
    then show ?thesis using assms(3,4) unfolding manager_effect_def by blast
  qed
qed

lemma settle_turn_effect:
  assumes "settle_turn x n st model req c rp oc = Inr (st', label, prop, tn, acts)"
    and "\<And>d. oc = Accepted d \<Longrightarrow> decision_ok (st_position st \<noteq> None) (c_close (x_candles x ! n)) d"
    and "st_manager st = Some c"
  shows "manager_effect x n st st'"
proof (cases oc)
  case (Accepted d)
  obtain c1 a1 rw where rw: "rewrite_rulebook c d = (c1, a1, rw)" by (metis prod_cases3)
  with assms(1) Accepted obtain a2 where
    ap: "apply_decision x n st c1 d = Inr (st', label, prop, a2)" by (auto simp: settle_turn_def)
  show ?thesis
    by (rule apply_decision_effect[OF ap assms(2)[OF Accepted] assms(3) rewrite_keeps_exit[OF rw]])
qed (use assms(1) in \<open>auto simp: settle_turn_def manager_effect_def\<close>)

lemma manage_due:
  assumes "manage loads x n st (Some t) filled = Inr r"
    and "x_manager x = Some m" and "turn_due x m n filled"
  obtains req rp oc c where "build_request x n st = Inr req"
    and "read_outcome loads (tp_decide t req) (st_position st \<noteq> None) (c_close (x_candles x ! n)) = Inr (rp, oc)"
    and "st_manager st = Some c" and "settle_turn x n st (tp_model t) req c rp oc = Inr r"
  using assms by (auto simp: manage_def Let_def split: option.splits)

lemma manage_idle:
  assumes "manage loads x n st tp filled = Inr (st', label, prop, tn, acts)"
    and "x_manager x = Some m" and "\<not> turn_due x m n filled"
  shows "st' = st \<and> prop = None \<and> tn = None \<and> acts = []"
  using assms by (simp add: manage_def Let_def)

lemma manage_effect:
  assumes "manage loads x n st tp filled = Inr (st', label, prop, tn, acts)"
  shows "manager_effect x n st st'"
proof -
  from assms obtain m where m: "x_manager x = Some m" by (auto simp: manage_def split: option.splits)
  show ?thesis
  proof (cases "turn_due x m n filled")
    case False
    then show ?thesis using manage_idle[OF assms m] by (simp add: manager_effect_def)
  next
    case True
    with assms m obtain t where t: "tp = Some t" by (auto simp: manage_def Let_def split: option.splits)
    from manage_due[OF assms[unfolded t] m True] show ?thesis
      by (metis settle_turn_effect read_outcome_accepted)
  qed
qed

section \<open>Replay of a recorded turn\<close>

definition valid_reply :: "transport_reply \<Rightarrow> bool" where
  "valid_reply r \<longleftrightarrow> tr_model r \<noteq> [] \<and> 0 \<le> tr_input_tokens r \<and> 0 \<le> tr_output_tokens r
     \<and> 0 \<le> tr_latency_ms r \<and> 0 \<le> tr_input_usd_per_million r \<and> 0 \<le> tr_output_usd_per_million r"

lemma new_transport_reply_valid:
  "new_transport_reply a b c i j k p q = Inr r \<Longrightarrow> valid_reply r"
  by (cases p; cases q) (auto simp: new_transport_reply_def valid_reply_def split: if_splits)

lemma new_transport_reply_same:
  "valid_reply r \<Longrightarrow>
     new_transport_reply (tr_model r) (tr_text r) (tr_stop_reason r) (tr_input_tokens r)
       (tr_output_tokens r) (tr_latency_ms r) (Finite (tr_input_usd_per_million r))
       (Finite (tr_output_usd_per_million r)) = Inr r"
  by (simp add: new_transport_reply_def valid_reply_def)

text \<open>
  The interface the channel relies on: a transport hands back only replies that the
  constructor of \<^verbatim>\<open>TransportReply\<close> accepts.
\<close>

locale decision_transport =
  fixes t :: transport
  assumes replies_valid: "tp_decide t req = Inr r \<Longrightarrow> valid_reply r"
begin

text \<open>The recorded turn answers the rebuilt request as the live transport did.\<close>

lemma recorded_answer:
  assumes "read_outcome loads (tp_decide t req) holding lc = Inr (rp, oc)"
  shows "read_outcome loads
      (recorded_decide (Some (make_turn (tp_model t) req rp oc v rw)) req) holding lc = Inr (rp, oc)"
proof (cases "tp_decide t req")
  case (Inl e)
  with assms obtain m where "e = TransportError m" by (cases e) (auto simp: read_outcome_def)
  with assms Inl show ?thesis
    by (auto simp: read_outcome_def recorded_decide_def make_turn_def)
next
  case (Inr r)
  with assms have rp: "rp = Some r" and oc: "\<forall>e. oc \<noteq> Failed e"
    by (auto simp: read_outcome_def split: if_splits sum.splits py_error.splits)
  have "recorded_decide (Some (make_turn (tp_model t) req rp oc v rw)) req = Inr r"
    using new_transport_reply_same[OF replies_valid[OF Inr]] oc
    by (auto simp: recorded_decide_def make_turn_def rp split: outcome.splits)
  then show ?thesis using assms Inr by simp
qed

lemma settle_turn_recorded:
  assumes "settle_turn x n st (tp_model t) req c rp oc = Inr (st', label, prop, tn, acts)"
  shows "\<exists>v rw. tn = Some (make_turn (tp_model t) req rp oc v rw)"
  using assms by (auto simp: settle_turn_def split: outcome.splits prod.splits)

lemma settle_turn_model:
  assumes "settle_turn x n st m req c rp oc = Inr (st', label, prop, tn, acts)"
    and "m' = tn_model (the tn)"
  shows "settle_turn x n st m' req c rp oc = Inr (st', label, prop, tn, acts)"
  using assms by (cases rp) (auto simp: settle_turn_def make_turn_def split: outcome.splits prod.splits)

lemma manage_replays:
  assumes "manage loads x n st (Some t) filled = Inr (st', label, prop, tn, acts)"
  shows "manage loads x n st (Some (RecordedTransport tn)) filled = Inr (st', label, prop, tn, acts)"
proof -
  from assms obtain m where m: "x_manager x = Some m" by (auto simp: manage_def split: option.splits)
  show ?thesis
  proof (cases "turn_due x m n filled")
    case False
    then show ?thesis using assms m by (auto simp: manage_def Let_def)
  next
    case True
    from manage_due[OF assms m True] obtain req rp oc c where
      req: "build_request x n st = Inr req"
      and ro: "read_outcome loads (tp_decide t req) (st_position st \<noteq> None) (c_close (x_candles x ! n)) = Inr (rp, oc)"
      and c: "st_manager st = Some c"
      and se: "settle_turn x n st (tp_model t) req c rp oc = Inr (st', label, prop, tn, acts)" .
    from settle_turn_recorded[OF se] obtain v rw where
      tn: "tn = Some (make_turn (tp_model t) req rp oc v rw)" by blast
    show ?thesis
      using m True req c recorded_answer[OF ro, of v rw] settle_turn_model[OF se refl]
      by (simp add: manage_def Let_def RecordedTransport_def tn)
  qed
qed

end

interpretation recorded: decision_transport "RecordedTransport tn" for tn
  by unfold_locales
     (auto simp: RecordedTransport_def recorded_decide_def dest: new_transport_reply_valid
       split: option.splits if_splits prod.splits)

end
