(* ===== verification/Jsonl_Log.thy ===== *)
theory Jsonl_Log
  imports Py_Values
begin

text \<open>
  The append-only logs behind the trade-idea workflow. Each log of the program is either a
  JSON-lines file or, once \<^verbatim>\<open>trade_state.sqlite3\<close> exists, a stream of the table \<^verbatim>\<open>events\<close>
  (\<^verbatim>\<open>StateRepository.lines\<close> and \<^verbatim>\<open>StateRepository.append\<close> in \<^verbatim>\<open>persistence.py\<close>). The store
  is that choice; a line is blank, not JSON, or a JSON value, and a row is a JSON object.
  Every line of a file ends with a newline, so an append never continues a line.

  The second half is the part the two versioned logs share (\<^verbatim>\<open>RiskBudgetLog\<close> and
  \<^verbatim>\<open>AutonomyStateLog\<close>): reading with the check that the versions count up from one, and the
  append that re-reads the current version under the lock. Its laws are proved once in the
  locale \<open>versioned_log\<close>, whose contract is that a written entry reads back.
\<close>

section \<open>Lines and rows\<close>

datatype log_line = BlankLine | GarbledLine | JsonLine json

datatype log_store =
    LogFile "log_line list option"
  | UnreadableFile
  | LogTable "payload list"

text \<open>
  The lines a read of the stream sees. A file is read whole; the table selects the rows whose
  column \<^verbatim>\<open>decision_id\<close> has the requested value.
\<close>

fun log_lines :: "log_store \<Rightarrow> string option \<Rightarrow> log_line list result" where
  "log_lines (LogFile None) d = Inr []"
| "log_lines (LogFile (Some ls)) d = Inr ls"
| "log_lines UnreadableFile d = Inl OSError"
| "log_lines (LogTable rows) None = Inr (map (JsonLine \<circ> JObj) rows)"
| "log_lines (LogTable rows) (Some d) =
     Inr (map (JsonLine \<circ> JObj) (filter (\<lambda>p. map_of p ''decision_id'' = Some (JStr d)) rows))"

fun log_append :: "log_store \<Rightarrow> payload \<Rightarrow> log_store" where
  "log_append (LogFile None) p = LogFile (Some [JsonLine (JObj p)])"
| "log_append (LogFile (Some ls)) p = LogFile (Some (ls @ [JsonLine (JObj p)]))"
| "log_append UnreadableFile p = UnreadableFile"
| "log_append (LogTable rows) p = LogTable (rows @ [p])"

fun repository_active :: "log_store \<Rightarrow> bool" where
  "repository_active (LogTable _) = True"
| "repository_active _ = False"

text \<open>The loop over the lines: blank ones are skipped, one that is not JSON raises.\<close>

fun read_log :: "('s \<Rightarrow> json \<Rightarrow> 's result) \<Rightarrow> py_error \<Rightarrow> 's \<Rightarrow> log_line list \<Rightarrow> 's result" where
  "read_log f garbled s [] = Inr s"
| "read_log f garbled s (BlankLine # ls) = read_log f garbled s ls"
| "read_log f garbled s (GarbledLine # ls) = Inl garbled"
| "read_log f garbled s (JsonLine j # ls) = rbind (f s j) (\<lambda>s'. read_log f garbled s' ls)"

text \<open>\<^verbatim>\<open>except (...) as error: raise IntegrityError from error\<close>.\<close>

definition rewrap :: "(py_error \<Rightarrow> bool) \<Rightarrow> py_error \<Rightarrow> 'a result \<Rightarrow> 'a result" where
  "rewrap caught e r = (case r of Inl x \<Rightarrow> if caught x then Inl e else Inl x | Inr y \<Rightarrow> Inr y)"

text \<open>\<^verbatim>\<open>KeyError\<close>, \<^verbatim>\<open>TypeError\<close>, \<^verbatim>\<open>ValueError\<close>.\<close>

fun lookup_or_value_error :: "py_error \<Rightarrow> bool" where
  "lookup_or_value_error (KeyError _) = True"
| "lookup_or_value_error (TypeError _) = True"
| "lookup_or_value_error (ValueError _) = True"
| "lookup_or_value_error _ = False"

text \<open>\<^verbatim>\<open>Enum(value)\<close> and \<^verbatim>\<open>tuple(value)\<close> of a JSON value.\<close>

fun jenum :: "(string \<Rightarrow> 'a result) \<Rightarrow> json \<Rightarrow> 'a result" where
  "jenum of_text (JStr s) = of_text s"
| "jenum of_text _ = Inl (ValueError ''not a valid enum value'')"

fun jtuple :: "json \<Rightarrow> string list result" where
  "jtuple (JArr xs) = rmap jstr xs"
| "jtuple (JStr s) = Inr (map (\<lambda>c. [c]) s)"
| "jtuple (JObj p) = Inr (map fst p)"
| "jtuple _ = Inl (TypeError ''object is not iterable'')"

text \<open>\<^verbatim>\<open>payload.get(key, default)\<close>.\<close>

definition jget_or :: "payload \<Rightarrow> string \<Rightarrow> json \<Rightarrow> json" where
  "jget_or p k d = (case map_of p k of None \<Rightarrow> d | Some v \<Rightarrow> v)"

section \<open>Versioned logs\<close>

datatype lock_outcome = LockAcquired | LockTimedOut | LockUnusable

definition versioned_step ::
  "('e \<Rightarrow> int) \<Rightarrow> (json \<Rightarrow> 'e result) \<Rightarrow> (string \<Rightarrow> py_error) \<Rightarrow> 'e list \<Rightarrow> json \<Rightarrow> 'e list result" where
  "versioned_step ver read err entries j =
     rbind (read j) (\<lambda>e.
     rbind (raise_if (ver e \<noteq> int (length entries) + 1) (err ''unexpected version'')) (\<lambda>_.
     Inr (entries @ [e])))"

definition versioned_history ::
  "('e \<Rightarrow> int) \<Rightarrow> (json \<Rightarrow> 'e result) \<Rightarrow> (string \<Rightarrow> py_error) \<Rightarrow> log_store \<Rightarrow> 'e list result" where
  "versioned_history ver read err store =
     (case log_lines store None of
        Inl _ \<Rightarrow> Inl (err ''log is unreadable'')
      | Inr ls \<Rightarrow> read_log (versioned_step ver read err) (err ''malformed line'') [] ls)"

definition versioned_append ::
  "('e \<Rightarrow> int) \<Rightarrow> ('e \<Rightarrow> payload) \<Rightarrow> (json \<Rightarrow> 'e result) \<Rightarrow> (string \<Rightarrow> py_error) \<Rightarrow>
   lock_outcome \<Rightarrow> log_store \<Rightarrow> 'e \<Rightarrow> log_store result" where
  "versioned_append ver to_dict read err lock store e =
     rbind (if repository_active store then Inr ()
            else case lock of
                   LockAcquired \<Rightarrow> Inr ()
                 | LockTimedOut \<Rightarrow> Inl (err ''timed out waiting for the lock'')
                 | LockUnusable \<Rightarrow> Inl (err ''lock is unusable'')) (\<lambda>_.
     rbind (versioned_history ver read err store) (\<lambda>entries.
     rbind (raise_if (ver e \<noteq> (if entries = [] then 1 else ver (last entries) + 1))
              (err ''unexpected version'')) (\<lambda>_.
     Inr (log_append store (to_dict e)))))"

section \<open>Lemmas\<close>

lemma read_log_append:
  "read_log f g s (xs @ ys) = rbind (read_log f g s xs) (\<lambda>s'. read_log f g s' ys)"
proof (induction xs arbitrary: s)
  case (Cons x xs)
  then show ?case by (cases x) (auto simp: rbind_assoc)
qed simp

lemma read_log_snoc:
  assumes "read_log f g s ls = Inr s'"
  shows "read_log f g s (ls @ [JsonLine j]) = f s' j"
proof -
  have "rbind m Inr = m" for m :: "py_error + 'a" by (cases m) auto
  then show ?thesis using assms by (simp add: read_log_append)
qed

text \<open>An invariant of the states of the loop, by induction over the lines.\<close>

lemma read_log_invariant:
  assumes "read_log f g s ls = Inr s'" and "P s"
    and "\<And>s j t. P s \<Longrightarrow> f s j = Inr t \<Longrightarrow> P t"
  shows "P s'"
  using assms(1,2)
proof (induction ls arbitrary: s)
  case (Cons l ls)
  then show ?case using assms(3) by (cases l) auto
qed simp

text \<open>The lines of a store after an append: one more, whatever the store.\<close>

lemma log_lines_append:
  assumes "log_lines store None = Inr ls"
  shows "log_lines (log_append store p) None = Inr (ls @ [JsonLine (JObj p)])"
  using assms
proof (cases store)
  case (LogFile f)
  then show ?thesis using assms by (cases f) auto
qed auto

lemma repository_active_append [simp]: "repository_active (log_append store p) = repository_active store"
proof (cases store)
  case (LogFile f)
  then show ?thesis by (cases f) auto
qed auto

lemma rewrap_Inr_iff [simp]: "rewrap c e r = Inr y \<longleftrightarrow> r = Inr y"
  by (auto simp: rewrap_def split: sum.splits)

lemma jget_Some: "map_of p k = Some v \<Longrightarrow> jget p k = Inr v"
  by (simp add: jget_def)

lemma jget_or_Some: "map_of p k = Some v \<Longrightarrow> jget_or p k d = v"
  by (simp add: jget_or_def)

lemma rmap_jstr [simp]: "rmap jstr (map JStr xs) = Inr xs"
  by (induction xs) auto

section \<open>The contract of a versioned log\<close>

lemma versioned_history_versions:
  assumes "versioned_history ver read err store = Inr es"
  shows "map ver es = map int [1..<Suc (length es)]"
proof -
  obtain ls where "read_log (versioned_step ver read err) (err ''malformed line'') [] ls = Inr es"
    using assms by (auto simp: versioned_history_def split: sum.splits)
  then show ?thesis
    by (rule read_log_invariant) (auto simp: versioned_step_def)
qed

lemma versioned_history_last:
  assumes "versioned_history ver read err store = Inr es" and "es \<noteq> []"
  shows "ver (last es) = int (length es)"
proof -
  have "ver (last es) = map ver es ! (length es - 1)"
    using assms(2) by (simp add: last_conv_nth)
  also have "\<dots> = int (length es)"
    using versioned_history_versions[OF assms(1)] assms(2) by (simp del: upt_Suc)
  finally show ?thesis .
qed

lemma versioned_append_Inr_iff:
  "versioned_append ver to_dict read err lock store e = Inr store' \<longleftrightarrow>
     (repository_active store \<or> lock = LockAcquired)
     \<and> (\<exists>es. versioned_history ver read err store = Inr es \<and> ver e = int (length es) + 1)
     \<and> store' = log_append store (to_dict e)"
proof (cases "versioned_history ver read err store")
  case (Inl x)
  then show ?thesis unfolding versioned_append_def rbind_Inr_iff by simp
next
  case (Inr es)
  have "(if es = [] then 1 else ver (last es) + 1) = int (length es) + 1"
    using versioned_history_last[OF Inr] by simp
  then show ?thesis
    unfolding versioned_append_def Inr rbind_Inr_iff raise_if_Inr_iff
    by (cases lock) (auto split: if_splits)
qed

locale versioned_log =
  fixes ver :: "'e \<Rightarrow> int"
    and to_dict :: "'e \<Rightarrow> payload"
    and read :: "json \<Rightarrow> 'e result"
    and err :: "string \<Rightarrow> py_error"
    and ok :: "'e \<Rightarrow> bool"
  assumes read_written: "ok e \<Longrightarrow> read (JObj (to_dict e)) = Inr e"
begin

lemma append_reads_back:
  assumes "ok e" and "versioned_append ver to_dict read err lock store e = Inr store'"
  obtains es where "versioned_history ver read err store = Inr es"
    and "versioned_history ver read err store' = Inr (es @ [e])"
    and "ver e = int (length es) + 1"
proof -
  from assms(2) obtain es where es: "versioned_history ver read err store = Inr es"
      "ver e = int (length es) + 1" and st: "store' = log_append store (to_dict e)"
    by (auto simp: versioned_append_Inr_iff)
  from es(1) obtain ls where ls: "log_lines store None = Inr ls"
      "read_log (versioned_step ver read err) (err ''malformed line'') [] ls = Inr es"
    by (auto simp: versioned_history_def split: sum.splits)
  have "versioned_history ver read err store' = Inr (es @ [e])"
    using es(2) ls assms(1)
    by (simp add: versioned_history_def st log_lines_append read_log_snoc versioned_step_def read_written)
  with es show ?thesis using that by blast
qed

text \<open>Of two writers that prepared the same next version, the second is refused.\<close>

lemma second_writer_refused:
  assumes "ok e" and "versioned_append ver to_dict read err lock store e = Inr store'"
    and "ver e' = ver e"
  shows "versioned_append ver to_dict read err lock' store' e' \<noteq> Inr store''"
proof
  assume again: "versioned_append ver to_dict read err lock' store' e' = Inr store''"
  from assms(1,2) obtain es where "versioned_history ver read err store' = Inr (es @ [e])"
      "ver e = int (length es) + 1"
    by (rule append_reads_back)
  with again assms(3) show False by (auto simp: versioned_append_Inr_iff)
qed

text \<open>An append with the next version under the lock succeeds.\<close>

lemma append_succeeds:
  assumes "versioned_history ver read err store = Inr es" and "ver e = int (length es) + 1"
  shows "versioned_append ver to_dict read err LockAcquired store e = Inr (log_append store (to_dict e))"
  using assms by (simp add: versioned_append_Inr_iff)

end

end
