(* ===== verification/Idea_Models.thy ===== *)
theory Idea_Models
  imports Core_Trading Jsonl_Log
begin

text \<open>
  The broker-neutral trade-idea records of
  \<^verbatim>\<open>src/gpt_trader/features/trade_ideas/models.py\<close> and the invariant eligibility gate of
  \<^verbatim>\<open>eligibility.py\<close>. Each data class is a record with a constructor function that makes
  the checks of \<^verbatim>\<open>__post_init__\<close>, and the pair \<^verbatim>\<open>to_dict\<close>/\<^verbatim>\<open>from_dict\<close> over JSON trees.

  The lemmas show that reading back what was written gives the record, part by part, and
  what an eligible idea carries.
\<close>

section \<open>Enums\<close>

datatype autonomy_mode = RESEARCH_ONLY | HUMAN_APPROVED_EXECUTION | BOUNDED_AUTONOMY
datatype trade_direction = LONG | SHORT | SPREAD | HEDGE | NO_TRADE
datatype confidence_label = LOW | MEDIUM | HIGH
datatype ticket_venue = COINBASE | MANUAL | PAPER | ROBINHOOD | VENUE_NONE
datatype ticket_status = NOT_CREATED | DRAFTED | TICKET_APPROVED | TICKET_SUBMITTED | TICKET_CANCELLED

fun autonomy_mode_value :: "autonomy_mode \<Rightarrow> string" where
  "autonomy_mode_value RESEARCH_ONLY = ''research_only''"
| "autonomy_mode_value HUMAN_APPROVED_EXECUTION = ''human_approved_execution''"
| "autonomy_mode_value BOUNDED_AUTONOMY = ''bounded_autonomy''"

fun trade_direction_value :: "trade_direction \<Rightarrow> string" where
  "trade_direction_value LONG = ''long''"
| "trade_direction_value SHORT = ''short''"
| "trade_direction_value SPREAD = ''spread''"
| "trade_direction_value HEDGE = ''hedge''"
| "trade_direction_value NO_TRADE = ''no_trade''"

fun confidence_label_value :: "confidence_label \<Rightarrow> string" where
  "confidence_label_value LOW = ''low''"
| "confidence_label_value MEDIUM = ''medium''"
| "confidence_label_value HIGH = ''high''"

fun ticket_venue_value :: "ticket_venue \<Rightarrow> string" where
  "ticket_venue_value COINBASE = ''coinbase''"
| "ticket_venue_value MANUAL = ''manual''"
| "ticket_venue_value PAPER = ''paper''"
| "ticket_venue_value ROBINHOOD = ''robinhood''"
| "ticket_venue_value VENUE_NONE = ''none''"

fun ticket_status_value :: "ticket_status \<Rightarrow> string" where
  "ticket_status_value NOT_CREATED = ''not_created''"
| "ticket_status_value DRAFTED = ''drafted''"
| "ticket_status_value TICKET_APPROVED = ''approved''"
| "ticket_status_value TICKET_SUBMITTED = ''submitted''"
| "ticket_status_value TICKET_CANCELLED = ''cancelled''"

fun product_type_value :: "product_type \<Rightarrow> string" where
  "product_type_value SPOT = ''spot''"
| "product_type_value FUTURES = ''futures''"
| "product_type_value OPTIONS = ''options''"
| "product_type_value EVENT_CONTRACT = ''event_contract''"
| "product_type_value OTHER = ''other''"

definition autonomy_mode_of :: "string \<Rightarrow> autonomy_mode result" where
  "autonomy_mode_of = enum_of autonomy_mode_value [RESEARCH_ONLY, HUMAN_APPROVED_EXECUTION, BOUNDED_AUTONOMY]"

definition trade_direction_of :: "string \<Rightarrow> trade_direction result" where
  "trade_direction_of = enum_of trade_direction_value [LONG, SHORT, SPREAD, HEDGE, NO_TRADE]"

definition confidence_label_of :: "string \<Rightarrow> confidence_label result" where
  "confidence_label_of = enum_of confidence_label_value [LOW, MEDIUM, HIGH]"

definition ticket_venue_of :: "string \<Rightarrow> ticket_venue result" where
  "ticket_venue_of = enum_of ticket_venue_value [COINBASE, MANUAL, PAPER, ROBINHOOD, VENUE_NONE]"

definition ticket_status_of :: "string \<Rightarrow> ticket_status result" where
  "ticket_status_of =
     enum_of ticket_status_value [NOT_CREATED, DRAFTED, TICKET_APPROVED, TICKET_SUBMITTED, TICKET_CANCELLED]"

definition product_type_of :: "string \<Rightarrow> product_type result" where
  "product_type_of = enum_of product_type_value [SPOT, FUTURES, OPTIONS, EVENT_CONTRACT, OTHER]"

section \<open>Field readers\<close>

text \<open>\<^verbatim>\<open>_validate_finite_decimal\<close>, giving the finite value.\<close>

fun validate_finite_decimal :: "string \<Rightarrow> py_decimal option \<Rightarrow> dec option result" where
  "validate_finite_decimal field None = Inr None"
| "validate_finite_decimal field (Some (Finite x)) = Inr (Some x)"
| "validate_finite_decimal field (Some NonFinite) = Inl (ValueError (field @ '' must be finite''))"

fun validate_non_negative_decimal :: "string \<Rightarrow> dec option \<Rightarrow> unit result" where
  "validate_non_negative_decimal field None = Inr ()"
| "validate_non_negative_decimal field (Some x) =
     raise_if (x < 0) (ValueError (field @ '' must be non-negative''))"

definition decimal_or_none :: "string \<Rightarrow> json option \<Rightarrow> py_decimal option result" where
  "decimal_or_none field v =
     rbind (ropt jdecimal v) (\<lambda>d. rbind (validate_finite_decimal field d) (\<lambda>_. Inr d))"

definition jdec :: "dec option \<Rightarrow> json" where
  "jdec x = jdec_option (map_option Finite x)"

fun object_payload :: "string \<Rightarrow> json \<Rightarrow> payload result" where
  "object_payload field JNull = Inr []"
| "object_payload field (JObj p) = Inr p"
| "object_payload field _ = Inl (ValueError (field @ '' must be a JSON object''))"

fun string_value :: "string \<Rightarrow> json \<Rightarrow> string result" where
  "string_value field (JStr s) = Inr s"
| "string_value field _ = Inl (ValueError (field @ '' must be a string''))"

fun string_sequence :: "string \<Rightarrow> json \<Rightarrow> string list result" where
  "string_sequence field JNull = Inr []"
| "string_sequence field (JArr xs) = rmap (string_value field) xs"
| "string_sequence field _ = Inl (ValueError (field @ '' must be a JSON array of strings''))"

fun parse_expires_at :: "json option \<Rightarrow> instant option result" where
  "parse_expires_at None = Inr None"
| "parse_expires_at (Some (JTime t)) = Inr (Some t)"
| "parse_expires_at (Some (JNaive t)) =
     Inl (ValueError ''time_horizon.expires_at must include a timezone'')"
| "parse_expires_at (Some (JStr s)) = (if s = [] then Inr None else Inl (ValueError ''fromisoformat''))"
| "parse_expires_at (Some _) =
     Inl (ValueError ''time_horizon.expires_at must be an ISO datetime string'')"

section \<open>The parts of an idea\<close>

record entry_zone =
  ez_lower :: "dec option"
  ez_upper :: "dec option"
  ez_trigger :: string

definition new_entry_zone :: "py_decimal option \<Rightarrow> py_decimal option \<Rightarrow> string \<Rightarrow> entry_zone result" where
  "new_entry_zone lower upper trigger =
     rbind (validate_finite_decimal ''entry_zone.lower'' lower) (\<lambda>l.
     rbind (validate_finite_decimal ''entry_zone.upper'' upper) (\<lambda>u.
     Inr \<lparr>ez_lower = l, ez_upper = u, ez_trigger = trigger\<rparr>))"

definition entry_zone_to_dict :: "entry_zone \<Rightarrow> json" where
  "entry_zone_to_dict z =
     JObj [(''lower'', jdec (ez_lower z)), (''upper'', jdec (ez_upper z)),
           (''trigger'', JStr (ez_trigger z))]"

definition entry_zone_from_dict :: "json \<Rightarrow> entry_zone result" where
  "entry_zone_from_dict v =
     rbind (object_payload ''entry_zone'' v) (\<lambda>p.
     rbind (decimal_or_none ''entry_zone.lower'' (jopt p ''lower'')) (\<lambda>l.
     rbind (decimal_or_none ''entry_zone.upper'' (jopt p ''upper'')) (\<lambda>u.
     rbind (string_value ''entry_zone.trigger'' (jget_or p ''trigger'' (JStr []))) (\<lambda>t.
     new_entry_zone l u t))))"

record max_loss =
  ml_amount :: "dec option"
  ml_percent_of_account :: "dec option"
  ml_assumptions :: "string list"

definition new_max_loss :: "py_decimal option \<Rightarrow> py_decimal option \<Rightarrow> string list \<Rightarrow> max_loss result" where
  "new_max_loss amount percent assumptions =
     rbind (validate_finite_decimal ''max_loss.amount'' amount) (\<lambda>a.
     rbind (validate_finite_decimal ''max_loss.percent_of_account'' percent) (\<lambda>p.
     rbind (validate_non_negative_decimal ''max_loss.amount'' a) (\<lambda>_.
     rbind (validate_non_negative_decimal ''max_loss.percent_of_account'' p) (\<lambda>_.
     Inr \<lparr>ml_amount = a, ml_percent_of_account = p, ml_assumptions = assumptions\<rparr>))))"

definition max_loss_to_dict :: "max_loss \<Rightarrow> json" where
  "max_loss_to_dict m =
     JObj [(''amount'', jdec (ml_amount m)),
           (''percent_of_account'', jdec (ml_percent_of_account m)),
           (''assumptions'', JArr (map JStr (ml_assumptions m)))]"

definition max_loss_from_dict :: "json \<Rightarrow> max_loss result" where
  "max_loss_from_dict v =
     rbind (object_payload ''max_loss'' v) (\<lambda>p.
     rbind (decimal_or_none ''max_loss.amount'' (jopt p ''amount'')) (\<lambda>a.
     rbind (decimal_or_none ''max_loss.percent_of_account'' (jopt p ''percent_of_account'')) (\<lambda>q.
     rbind (string_sequence ''max_loss.assumptions'' (jget_or p ''assumptions'' (JArr []))) (\<lambda>s.
     new_max_loss a q s))))"

record exit_plan =
  ep_stop :: "dec option"
  ep_target :: "dec option"

definition new_exit_plan :: "py_decimal option \<Rightarrow> py_decimal option \<Rightarrow> exit_plan result" where
  "new_exit_plan stop target =
     rbind (validate_finite_decimal ''exit_plan.stop'' stop) (\<lambda>s.
     rbind (validate_finite_decimal ''exit_plan.target'' target) (\<lambda>t.
     Inr \<lparr>ep_stop = s, ep_target = t\<rparr>))"

definition exit_plan_to_dict :: "exit_plan \<Rightarrow> json" where
  "exit_plan_to_dict e = JObj [(''stop'', jdec (ep_stop e)), (''target'', jdec (ep_target e))]"

definition exit_plan_from_dict :: "json \<Rightarrow> exit_plan result" where
  "exit_plan_from_dict v =
     rbind (object_payload ''exit_plan'' v) (\<lambda>p.
     rbind (decimal_or_none ''exit_plan.stop'' (jopt p ''stop'')) (\<lambda>s.
     rbind (decimal_or_none ''exit_plan.target'' (jopt p ''target'')) (\<lambda>t.
     new_exit_plan s t)))"

record sizing_recommendation =
  sr_quantity :: "dec option"
  sr_notional :: "dec option"
  sr_rationale :: string

definition new_sizing_recommendation ::
  "py_decimal option \<Rightarrow> py_decimal option \<Rightarrow> string \<Rightarrow> sizing_recommendation result" where
  "new_sizing_recommendation quantity notional rationale =
     rbind (validate_finite_decimal ''sizing_recommendation.quantity'' quantity) (\<lambda>q.
     rbind (validate_finite_decimal ''sizing_recommendation.notional'' notional) (\<lambda>n.
     Inr \<lparr>sr_quantity = q, sr_notional = n, sr_rationale = rationale\<rparr>))"

definition sizing_recommendation_to_dict :: "sizing_recommendation \<Rightarrow> json" where
  "sizing_recommendation_to_dict s =
     JObj [(''quantity'', jdec (sr_quantity s)), (''notional'', jdec (sr_notional s)),
           (''rationale'', JStr (sr_rationale s))]"

definition sizing_recommendation_from_dict :: "json \<Rightarrow> sizing_recommendation result" where
  "sizing_recommendation_from_dict v =
     rbind (object_payload ''sizing_recommendation'' v) (\<lambda>p.
     rbind (decimal_or_none ''sizing_recommendation.quantity'' (jopt p ''quantity'')) (\<lambda>q.
     rbind (decimal_or_none ''sizing_recommendation.notional'' (jopt p ''notional'')) (\<lambda>n.
     rbind (string_value ''sizing_recommendation.rationale'' (jget_or p ''rationale'' (JStr []))) (\<lambda>r.
     new_sizing_recommendation q n r))))"

record time_horizon =
  th_expected_hold :: string
  th_expires_at :: "instant option"

definition time_horizon_to_dict :: "time_horizon \<Rightarrow> json" where
  "time_horizon_to_dict t =
     JObj [(''expected_hold'', JStr (th_expected_hold t)),
           (''expires_at'', (case th_expires_at t of None \<Rightarrow> JNull | Some e \<Rightarrow> JTime e))]"

definition time_horizon_from_dict :: "json \<Rightarrow> time_horizon result" where
  "time_horizon_from_dict v =
     rbind (object_payload ''time_horizon'' v) (\<lambda>p.
     rbind (string_value ''time_horizon.expected_hold'' (jget_or p ''expected_hold'' (JStr []))) (\<lambda>h.
     rbind (parse_expires_at (jopt p ''expires_at'')) (\<lambda>e.
     Inr \<lparr>th_expected_hold = h, th_expires_at = e\<rparr>)))"

record confidence =
  cf_label :: confidence_label
  cf_rationale :: string

definition confidence_to_dict :: "confidence \<Rightarrow> json" where
  "confidence_to_dict c =
     JObj [(''label'', JStr (confidence_label_value (cf_label c))), (''rationale'', JStr (cf_rationale c))]"

definition confidence_from_dict :: "json \<Rightarrow> confidence result" where
  "confidence_from_dict v =
     rbind (object_payload ''confidence'' v) (\<lambda>p.
     rbind (rbind (rbind (jget p ''label'') jstr) confidence_label_of) (\<lambda>l.
     rbind (string_value ''confidence.rationale'' (jget_or p ''rationale'' (JStr []))) (\<lambda>r.
     Inr \<lparr>cf_label = l, cf_rationale = r\<rparr>)))"

record broker_ticket =
  bt_venue :: ticket_venue
  bt_status :: ticket_status

definition broker_ticket_to_dict :: "broker_ticket \<Rightarrow> json" where
  "broker_ticket_to_dict b =
     JObj [(''venue'', JStr (ticket_venue_value (bt_venue b))),
           (''status'', JStr (ticket_status_value (bt_status b)))]"

definition broker_ticket_from_dict :: "json \<Rightarrow> broker_ticket result" where
  "broker_ticket_from_dict v =
     rbind (object_payload ''broker_ticket'' v) (\<lambda>p.
     rbind (rbind (jstr (jget_or p ''venue'' (JStr ''none''))) ticket_venue_of) (\<lambda>a.
     rbind (rbind (jstr (jget_or p ''status'' (JStr ''not_created''))) ticket_status_of) (\<lambda>b.
     Inr \<lparr>bt_venue = a, bt_status = b\<rparr>)))"

section \<open>Trade ideas\<close>

record trade_idea =
  ti_decision_id :: string
  ti_autonomy_mode :: autonomy_mode
  ti_thesis :: string
  ti_instrument :: string
  ti_product_type :: product_type
  ti_direction :: trade_direction
  ti_entry_zone :: entry_zone
  ti_invalidation :: string
  ti_target_exit :: string
  ti_max_loss :: max_loss
  ti_sizing :: sizing_recommendation
  ti_time_horizon :: time_horizon
  ti_data_used :: "string list"
  ti_confidence :: confidence
  ti_failure_mode :: string
  ti_do_not_trade_if :: "string list"
  ti_broker_ticket :: broker_ticket
  ti_exit_plan :: "exit_plan option"
  ti_position_operation :: "position_operation option"

definition new_trade_idea :: "trade_idea \<Rightarrow> trade_idea result" where
  "new_trade_idea i =
     rbind (raise_if (\<not> safe_id (ti_decision_id i))
              (ValueError ''decision_id must be a safe path segment'')) (\<lambda>_.
     case ti_position_operation i of
       None \<Rightarrow> Inr i
     | Some p \<Rightarrow>
         rbind (raise_if (po_target_decision_id p = ti_decision_id i)
                  (ValueError ''Position operation cannot target itself'')) (\<lambda>_.
         rbind (raise_if (ti_direction i \<notin> {LONG, SHORT})
                  (ValueError ''Position operation requires its target direction'')) (\<lambda>_.
         rbind (raise_if (po_action p = ''reduce''
                          \<and> (case sr_quantity (ti_sizing i) of None \<Rightarrow> True | Some q \<Rightarrow> q \<le> 0))
                  (ValueError ''Reduction requires an explicit positive quantity'')) (\<lambda>_.
         Inr i))))"

definition instrument_info :: "trade_idea \<Rightarrow> instrument result" where
  "instrument_info i = parse_instrument (ti_instrument i)"

definition trade_idea_to_dict :: "trade_idea \<Rightarrow> payload" where
  "trade_idea_to_dict i =
     [(''decision_id'', JStr (ti_decision_id i)),
      (''autonomy_mode'', JStr (autonomy_mode_value (ti_autonomy_mode i))),
      (''thesis'', JStr (ti_thesis i)),
      (''instrument'', JStr (ti_instrument i)),
      (''product_type'', JStr (product_type_value (ti_product_type i))),
      (''direction'', JStr (trade_direction_value (ti_direction i))),
      (''entry_zone'', entry_zone_to_dict (ti_entry_zone i)),
      (''invalidation'', JStr (ti_invalidation i)),
      (''target_exit'', JStr (ti_target_exit i)),
      (''max_loss'', max_loss_to_dict (ti_max_loss i)),
      (''sizing_recommendation'', sizing_recommendation_to_dict (ti_sizing i)),
      (''time_horizon'', time_horizon_to_dict (ti_time_horizon i)),
      (''data_used'', JArr (map JStr (ti_data_used i))),
      (''confidence'', confidence_to_dict (ti_confidence i)),
      (''failure_mode'', JStr (ti_failure_mode i)),
      (''do_not_trade_if'', JArr (map JStr (ti_do_not_trade_if i))),
      (''broker_ticket'', broker_ticket_to_dict (ti_broker_ticket i))]
     @ (case ti_exit_plan i of None \<Rightarrow> [] | Some e \<Rightarrow> [(''exit_plan'', exit_plan_to_dict e)])
     @ (case ti_position_operation i of None \<Rightarrow> []
        | Some p \<Rightarrow> [(''position_operation'', JObj (position_operation_to_dict p))])"

definition trade_idea_from_dict :: "payload \<Rightarrow> trade_idea result" where
  "trade_idea_from_dict p =
     rbind (rbind (jget p ''decision_id'') jstr) (\<lambda>did.
     rbind (rbind (rbind (jget p ''autonomy_mode'') jstr) autonomy_mode_of) (\<lambda>am.
     rbind (rbind (jget p ''thesis'') (string_value ''thesis'')) (\<lambda>thesis.
     rbind (rbind (jget p ''instrument'') (string_value ''instrument'')) (\<lambda>instr.
     rbind (rbind (rbind (jget p ''product_type'') jstr) product_type_of) (\<lambda>pt.
     rbind (rbind (rbind (jget p ''direction'') jstr) trade_direction_of) (\<lambda>dir.
     rbind (entry_zone_from_dict (jget_or p ''entry_zone'' (JObj []))) (\<lambda>ez.
     rbind (rbind (jget p ''invalidation'') (string_value ''invalidation'')) (\<lambda>inv.
     rbind (rbind (jget p ''target_exit'') (string_value ''target_exit'')) (\<lambda>te.
     rbind (max_loss_from_dict (jget_or p ''max_loss'' (JObj []))) (\<lambda>ml.
     rbind (sizing_recommendation_from_dict (jget_or p ''sizing_recommendation'' (JObj []))) (\<lambda>sr.
     rbind (time_horizon_from_dict (jget_or p ''time_horizon'' (JObj []))) (\<lambda>th.
     rbind (string_sequence ''data_used'' (jget_or p ''data_used'' (JArr []))) (\<lambda>du.
     rbind (rbind (jget p ''confidence'') confidence_from_dict) (\<lambda>cf.
     rbind (rbind (jget p ''failure_mode'') (string_value ''failure_mode'')) (\<lambda>fm.
     rbind (string_sequence ''do_not_trade_if'' (jget_or p ''do_not_trade_if'' (JArr []))) (\<lambda>dn.
     rbind (broker_ticket_from_dict (jget_or p ''broker_ticket'' (JObj []))) (\<lambda>bt.
     rbind (ropt exit_plan_from_dict (map_of p ''exit_plan'')) (\<lambda>ep.
     rbind (ropt (\<lambda>v. rbind (jobj v) position_operation_from_dict) (map_of p ''position_operation'')) (\<lambda>po.
     new_trade_idea
       \<lparr>ti_decision_id = did, ti_autonomy_mode = am, ti_thesis = thesis, ti_instrument = instr,
        ti_product_type = pt, ti_direction = dir, ti_entry_zone = ez, ti_invalidation = inv,
        ti_target_exit = te, ti_max_loss = ml, ti_sizing = sr, ti_time_horizon = th,
        ti_data_used = du, ti_confidence = cf, ti_failure_mode = fm, ti_do_not_trade_if = dn,
        ti_broker_ticket = bt, ti_exit_plan = ep, ti_position_operation = po\<rparr>)))))))))))))))))))"

section \<open>Eligibility\<close>

definition evaluate_eligibility :: "trade_idea \<Rightarrow> string list" where
  "evaluate_eligibility i =
     (if is_blank (ti_thesis i) then [''Missing thesis: no plain-language reason the trade exists''] else [])
     @ (if is_blank (ti_instrument i) then [''Missing instrument: no exact symbol or product identifier''] else [])
     @ (if is_blank (ti_invalidation i) then [''Missing invalidation: no level or condition that makes the thesis false''] else [])
     @ (if is_blank (ti_target_exit i) then [''Missing target_exit: no target, time stop, or exit condition''] else [])
     @ (if ml_amount (ti_max_loss i) = None \<and> ml_percent_of_account (ti_max_loss i) = None
        then [''Missing max_loss: no dollar or percent loss estimate''] else [])
     @ (if ti_data_used i = [] then [''Missing data_used: no reproducible data sources recorded''] else [])
     @ (if th_expires_at (ti_time_horizon i) = None then [''Missing expiry: no review deadline or expiration time''] else [])
     @ (if ez_lower (ti_entry_zone i) = None \<and> ez_upper (ti_entry_zone i) = None
           \<and> is_blank (ez_trigger (ti_entry_zone i)) then [''Missing entry_zone: no price range or conditional trigger''] else [])
     @ (if is_blank (ti_failure_mode i) then [''Missing failure_mode: most likely way the trade fails is not recorded''] else [])"

definition is_eligible :: "trade_idea \<Rightarrow> bool" where
  "is_eligible i \<longleftrightarrow> evaluate_eligibility i = []"

section \<open>Round trips\<close>

text \<open>An idea all of whose constructors accept their part.\<close>

definition valid_trade_idea :: "trade_idea \<Rightarrow> bool" where
  "valid_trade_idea i \<longleftrightarrow>
     new_trade_idea i = Inr i
     \<and> (case ml_amount (ti_max_loss i) of None \<Rightarrow> True | Some a \<Rightarrow> 0 \<le> a)
     \<and> (case ml_percent_of_account (ti_max_loss i) of None \<Rightarrow> True | Some a \<Rightarrow> 0 \<le> a)
     \<and> (case ti_position_operation i of None \<Rightarrow> True | Some p \<Rightarrow> new_position_operation p = Inr p)"

lemma autonomy_mode_of_value [simp]: "autonomy_mode_of (autonomy_mode_value a) = Inr a"
  by (cases a) (simp_all add: autonomy_mode_of_def enum_of_def)

lemma trade_direction_of_value [simp]: "trade_direction_of (trade_direction_value d) = Inr d"
  by (cases d) (simp_all add: trade_direction_of_def enum_of_def)

lemma confidence_label_of_value [simp]: "confidence_label_of (confidence_label_value c) = Inr c"
  by (cases c) (simp_all add: confidence_label_of_def enum_of_def)

lemma ticket_venue_of_value [simp]: "ticket_venue_of (ticket_venue_value v) = Inr v"
  by (cases v) (simp_all add: ticket_venue_of_def enum_of_def)

lemma ticket_status_of_value [simp]: "ticket_status_of (ticket_status_value s) = Inr s"
  by (cases s) (simp_all add: ticket_status_of_def enum_of_def)

lemma product_type_of_value [simp]: "product_type_of (product_type_value t) = Inr t"
  by (cases t) (simp_all add: product_type_of_def enum_of_def)

lemma validate_finite_map [simp]: "validate_finite_decimal f (map_option Finite x) = Inr x"
  by (cases x) auto

lemma decimal_or_none_jdec:
  "map_of p k = Some (jdec x) \<Longrightarrow> decimal_or_none f (jopt p k) = Inr (map_option Finite x)"
  by (cases x) (simp_all add: decimal_or_none_def jopt_def jdec_def jdec_option_def)

lemma rmap_string_value [simp]: "rmap (string_value f) (map JStr xs) = Inr xs"
  by (induction xs) auto

lemma entry_zone_roundtrip [simp]: "entry_zone_from_dict (entry_zone_to_dict z) = Inr z"
  by (simp add: entry_zone_from_dict_def entry_zone_to_dict_def decimal_or_none_jdec
      jget_or_def new_entry_zone_def)

lemma exit_plan_roundtrip [simp]: "exit_plan_from_dict (exit_plan_to_dict e) = Inr e"
  by (simp add: exit_plan_from_dict_def exit_plan_to_dict_def decimal_or_none_jdec new_exit_plan_def)

lemma sizing_roundtrip [simp]:
  "sizing_recommendation_from_dict (sizing_recommendation_to_dict s) = Inr s"
  by (simp add: sizing_recommendation_from_dict_def sizing_recommendation_to_dict_def
      decimal_or_none_jdec jget_or_def new_sizing_recommendation_def)

lemma time_horizon_roundtrip [simp]: "time_horizon_from_dict (time_horizon_to_dict t) = Inr t"
  by (cases "th_expires_at t")
     (simp_all add: time_horizon_from_dict_def time_horizon_to_dict_def jget_or_def jopt_def)

lemma confidence_roundtrip [simp]: "confidence_from_dict (confidence_to_dict c) = Inr c"
  by (simp add: confidence_from_dict_def confidence_to_dict_def jget_def jget_or_def)

lemma broker_ticket_roundtrip [simp]: "broker_ticket_from_dict (broker_ticket_to_dict b) = Inr b"
  by (simp add: broker_ticket_from_dict_def broker_ticket_to_dict_def jget_or_def)

lemma validate_non_negative_Inr:
  "validate_non_negative_decimal f x = Inr () \<longleftrightarrow> (case x of None \<Rightarrow> True | Some a \<Rightarrow> 0 \<le> a)"
  by (cases x) (auto simp: not_less)

lemma max_loss_roundtrip:
  assumes "case ml_amount m of None \<Rightarrow> True | Some a \<Rightarrow> 0 \<le> a"
    and "case ml_percent_of_account m of None \<Rightarrow> True | Some a \<Rightarrow> 0 \<le> a"
  shows "max_loss_from_dict (max_loss_to_dict m) = Inr m"
proof -
  have a: "validate_non_negative_decimal ''max_loss.amount'' (ml_amount m) = Inr ()"
    and b: "validate_non_negative_decimal ''max_loss.percent_of_account'' (ml_percent_of_account m) = Inr ()"
    using assms by (simp_all add: validate_non_negative_Inr)
  show ?thesis
    by (simp add: max_loss_from_dict_def max_loss_to_dict_def decimal_or_none_jdec jget_or_def
        new_max_loss_def a b)
qed

lemma trade_idea_dict_lookups:
  fixes i
  defines "p \<equiv> trade_idea_to_dict i"
  shows "map_of p ''decision_id'' = Some (JStr (ti_decision_id i))"
    and "map_of p ''autonomy_mode'' = Some (JStr (autonomy_mode_value (ti_autonomy_mode i)))"
    and "map_of p ''thesis'' = Some (JStr (ti_thesis i))"
    and "map_of p ''instrument'' = Some (JStr (ti_instrument i))"
    and "map_of p ''product_type'' = Some (JStr (product_type_value (ti_product_type i)))"
    and "map_of p ''direction'' = Some (JStr (trade_direction_value (ti_direction i)))"
    and "map_of p ''entry_zone'' = Some (entry_zone_to_dict (ti_entry_zone i))"
    and "map_of p ''invalidation'' = Some (JStr (ti_invalidation i))"
    and "map_of p ''target_exit'' = Some (JStr (ti_target_exit i))"
    and "map_of p ''max_loss'' = Some (max_loss_to_dict (ti_max_loss i))"
    and "map_of p ''sizing_recommendation'' = Some (sizing_recommendation_to_dict (ti_sizing i))"
    and "map_of p ''time_horizon'' = Some (time_horizon_to_dict (ti_time_horizon i))"
    and "map_of p ''data_used'' = Some (JArr (map JStr (ti_data_used i)))"
    and "map_of p ''confidence'' = Some (confidence_to_dict (ti_confidence i))"
    and "map_of p ''failure_mode'' = Some (JStr (ti_failure_mode i))"
    and "map_of p ''do_not_trade_if'' = Some (JArr (map JStr (ti_do_not_trade_if i)))"
    and "map_of p ''broker_ticket'' = Some (broker_ticket_to_dict (ti_broker_ticket i))"
    and "map_of p ''exit_plan'' = map_option exit_plan_to_dict (ti_exit_plan i)"
    and "map_of p ''position_operation''
         = map_option (\<lambda>x. JObj (position_operation_to_dict x)) (ti_position_operation i)"
  unfolding p_def trade_idea_to_dict_def
  by (simp_all split: option.splits)

lemma trade_idea_roundtrip_lemma:
  assumes "valid_trade_idea i"
  shows "trade_idea_from_dict (trade_idea_to_dict i) = Inr i"
proof -
  note L = trade_idea_dict_lookups[of i]
  have ml: "max_loss_from_dict (max_loss_to_dict (ti_max_loss i)) = Inr (ti_max_loss i)"
    using assms by (intro max_loss_roundtrip) (auto simp: valid_trade_idea_def)
  have ep: "ropt exit_plan_from_dict (map_option exit_plan_to_dict (ti_exit_plan i)) = Inr (ti_exit_plan i)"
    by (rule ropt_map_option) simp
  have po: "ropt (\<lambda>v. rbind (jobj v) position_operation_from_dict)
      (map_option (\<lambda>x. JObj (position_operation_to_dict x)) (ti_position_operation i))
      = Inr (ti_position_operation i)"
    using assms
    by (cases "ti_position_operation i") (auto simp: valid_trade_idea_def position_operation_roundtrip)
  have eta: "\<lparr>ti_decision_id = ti_decision_id i, ti_autonomy_mode = ti_autonomy_mode i,
      ti_thesis = ti_thesis i, ti_instrument = ti_instrument i,
      ti_product_type = ti_product_type i, ti_direction = ti_direction i,
      ti_entry_zone = ti_entry_zone i, ti_invalidation = ti_invalidation i,
      ti_target_exit = ti_target_exit i, ti_max_loss = ti_max_loss i, ti_sizing = ti_sizing i,
      ti_time_horizon = ti_time_horizon i, ti_data_used = ti_data_used i,
      ti_confidence = ti_confidence i, ti_failure_mode = ti_failure_mode i,
      ti_do_not_trade_if = ti_do_not_trade_if i, ti_broker_ticket = ti_broker_ticket i,
      ti_exit_plan = ti_exit_plan i, ti_position_operation = ti_position_operation i\<rparr> = i"
    by simp
  have new: "new_trade_idea i = Inr i" using assms by (simp add: valid_trade_idea_def)
  show ?thesis
    unfolding trade_idea_from_dict_def L(18,19) ep po
    by (simp add: jget_Some jget_or_Some L(1-17) ml eta new)
qed

lemma is_eligible_iff:
  "is_eligible i \<longleftrightarrow>
     \<not> is_blank (ti_thesis i) \<and> \<not> is_blank (ti_instrument i) \<and> \<not> is_blank (ti_invalidation i)
     \<and> \<not> is_blank (ti_target_exit i)
     \<and> (ml_amount (ti_max_loss i) \<noteq> None \<or> ml_percent_of_account (ti_max_loss i) \<noteq> None)
     \<and> ti_data_used i \<noteq> [] \<and> th_expires_at (ti_time_horizon i) \<noteq> None
     \<and> (ez_lower (ti_entry_zone i) \<noteq> None \<or> ez_upper (ti_entry_zone i) \<noteq> None
        \<or> \<not> is_blank (ez_trigger (ti_entry_zone i)))
     \<and> \<not> is_blank (ti_failure_mode i)"
  by (auto simp: is_eligible_def evaluate_eligibility_def split: if_splits)

section \<open>Properties\<close>

definition ex_idea :: trade_idea where
  "ex_idea =
     \<lparr>ti_decision_id = ''trade-1'', ti_autonomy_mode = HUMAN_APPROVED_EXECUTION,
      ti_thesis = ''momentum'', ti_instrument = ''BTC-USD'', ti_product_type = SPOT,
      ti_direction = LONG,
      ti_entry_zone = \<lparr>ez_lower = Some 99, ez_upper = Some 101, ez_trigger = []\<rparr>,
      ti_invalidation = ''close below 95'', ti_target_exit = ''110'',
      ti_max_loss = \<lparr>ml_amount = Some 20, ml_percent_of_account = Some 2, ml_assumptions = []\<rparr>,
      ti_sizing = \<lparr>sr_quantity = Some 1, sr_notional = Some 100, sr_rationale = []\<rparr>,
      ti_time_horizon = \<lparr>th_expected_hold = ''5 days'', th_expires_at = Some (days 3)\<rparr>,
      ti_data_used = [''recorded bars''],
      ti_confidence = \<lparr>cf_label = MEDIUM, cf_rationale = []\<rparr>,
      ti_failure_mode = ''false breakout'', ti_do_not_trade_if = [],
      ti_broker_ticket = \<lparr>bt_venue = PAPER, bt_status = NOT_CREATED\<rparr>,
      ti_exit_plan = Some \<lparr>ep_stop = Some 95, ep_target = Some 110\<rparr>,
      ti_position_operation = None\<rparr>"

text \<open>
  C28: The audit serialization of a trade idea is lossless: for every idea that its
  constructors accept, \<^verbatim>\<open>TradeIdea.from_dict(idea.to_dict())\<close> is the idea.
\<close>

theorem trade_idea_roundtrip:
  "valid_trade_idea i \<Longrightarrow> trade_idea_from_dict (trade_idea_to_dict i) = Inr i"
  by (rule trade_idea_roundtrip_lemma)

theorem trade_idea_roundtrip_witness:
  "valid_trade_idea ex_idea \<and> trade_idea_from_dict (trade_idea_to_dict ex_idea) = Inr ex_idea"
proof -
  have v: "valid_trade_idea ex_idea" by code_simp
  show ?thesis using v trade_idea_roundtrip[OF v] by blast
qed

end
