(* ===== verification/Exp_Engine.thy ===== *)
theory Exp_Engine
  imports Exp_Manager Market_Snapshot
begin

text \<open>
  The simulation step of \<^verbatim>\<open>src/gpt_trader/features/experiment/engine.py\<close>: \<^verbatim>\<open>_fill\<close> and
  \<^verbatim>\<open>advance\<close>.

  \<open>advance\<close> is composed of the phases of the source in their order: the requested exit at
  the open, the pending entry at the open, the settlement of stop, target and expiry, the
  mark with the drawdown halt, and the decision. The two rule benchmarks
  (\<^verbatim>\<open>benchmarks.propose\<close>) are the parameter \<open>propose\<close>, so that every statement holds for
  whatever they propose; the model transport and the JSON parser are parameters too.
\<close>

section \<open>Fills\<close>

definition fill_identity :: "experiment_input \<Rightarrow> nat \<Rightarrow> string \<Rightarrow> string" where
  "fill_identity x sequence side = take 16 (x_identity x) @ ''-'' @ str_nat sequence @ ''-'' @ side"

definition fill_fee :: "settings \<Rightarrow> dec \<Rightarrow> dec \<Rightarrow> dec" where
  "fill_fee stg quantity price = dquot (dmul (dmul quantity price) (s_fee_bps stg)) 10000"

definition buy_account :: "account \<Rightarrow> dec \<Rightarrow> dec \<Rightarrow> dec \<Rightarrow> account" where
  "buy_account st quantity notional fee =
     st\<lparr>st_cash := dsub (dsub (st_cash st) notional) fee, st_quantity := quantity,
        st_cost_basis := dadd notional fee, st_fees := dadd (st_fees st) fee\<rparr>"

definition sell_account :: "account \<Rightarrow> dec \<Rightarrow> dec \<Rightarrow> account" where
  "sell_account st notional fee =
     st\<lparr>st_cash := dsub (dadd (st_cash st) notional) fee,
        st_realized_net := dsub (dsub (dadd (st_realized_net st) notional) fee) (st_cost_basis st),
        st_quantity := 0, st_cost_basis := 0, st_position := None,
        st_fees := dadd (st_fees st) fee\<rparr>"

text \<open>\<^verbatim>\<open>_fill\<close>: the account after the fill and the identified fact, or the constructor's refusal.\<close>

definition do_fill ::
  "experiment_input \<Rightarrow> nat \<Rightarrow> account \<Rightarrow> string \<Rightarrow> dec \<Rightarrow> dec \<Rightarrow> (account \<times> fill_fact) result" where
  "do_fill x sequence st side quantity price =
     (let fee = fill_fee (x_settings x) quantity price;
          notional = dmul quantity price;
          t = ts (x_candles x ! sequence);
          st1 = (if side = ''buy'' then buy_account st quantity notional fee
                 else sell_account st notional fee);
          moment = (if side = ''buy'' then t + 1 else t + hours 1 - 1);
          identity = fill_identity x sequence side
      in rbind (new_fill_fact identity identity identity (x_symbol x) side
                  (Parsed (Finite quantity)) (Parsed (Finite price)) (Aware moment)
                  (Some (Parsed (Finite fee))) (Some ''USD'')) (\<lambda>f. Inr (st1, f)))"

section \<open>The phases of a bar\<close>

type_synonym phase = "account \<times> fill_fact list \<times> string list"

text \<open>\<^verbatim>\<open>slip\<close> and \<^verbatim>\<open>fee\<close> as fractions.\<close>

definition slip_of :: "settings \<Rightarrow> dec" where "slip_of stg = dquot (s_slippage_bps stg) 10000"
definition fee_of :: "settings \<Rightarrow> dec" where "fee_of stg = dquot (s_fee_bps stg) 10000"

definition managed :: "experiment_input \<Rightarrow> bool" where
  "managed x \<longleftrightarrow> x_benchmark x = MANAGER_CHANNEL"

definition exit_pending :: "experiment_input \<Rightarrow> account \<Rightarrow> bool" where
  "exit_pending x st =
     (if managed x then (case st_manager st of None \<Rightarrow> False | Some c \<Rightarrow> mc_exit_pending c)
      else (case st_rulebook st of None \<Rightarrow> False | Some c \<Rightarrow> rc_exit_pending c))"

definition clear_exit :: "experiment_input \<Rightarrow> account \<Rightarrow> account" where
  "clear_exit x st =
     (if managed x then st\<lparr>st_manager := map_option (mc_exit_pending_update (\<lambda>_. False)) (st_manager st)\<rparr>
      else st\<lparr>st_rulebook := map_option (rc_exit_pending_update (\<lambda>_. False)) (st_rulebook st)\<rparr>)"

definition exit_reason :: "experiment_input \<Rightarrow> string" where
  "exit_reason x = (if managed x then ''manager exit'' else ''rulebook exit'')"

definition requested_exit :: "experiment_input \<Rightarrow> nat \<Rightarrow> account \<Rightarrow> phase result" where
  "requested_exit x sequence st =
     (if exit_pending x st
      then rbind (do_fill x sequence (clear_exit x st) ''sell'' (st_quantity st)
                    (dmul (c_open (x_candles x ! sequence)) (dsub 1 (slip_of (x_settings x)))))
             (\<lambda>(st1, f). Inr (st1, [f], [''position settled: '' @ exit_reason x @ '' at next open'']))
      else Inr (st, [], []))"

text \<open>
  The size of an entry: the least of what cash covers with the fee, the exposure fraction
  and the stop-risk budget, rounded down to the quantity increment.
\<close>

definition entry_quantity :: "settings \<Rightarrow> plan \<Rightarrow> dec \<Rightarrow> dec \<Rightarrow> dec \<Rightarrow> dec result" where
  "entry_quantity stg p cash price stop =
     (let slip = slip_of stg; fee = fee_of stg;
          stop_fill = dmul stop (dsub 1 slip);
          loss_per_unit = dadd (dsub price stop_fill) (dmul fee (dadd price stop_fill));
          fraction = (case pl_size_fraction p of None \<Rightarrow> s_exposure_fraction stg | Some f \<Rightarrow> f)
      in rbind (ddiv cash (dmul price (dadd 1 fee))) (\<lambda>by_cash.
         rbind (ddiv (dmul cash fraction) price) (\<lambda>by_exposure.
         rbind (ddiv (dmul cash (s_risk_fraction stg)) loss_per_unit) (\<lambda>by_risk.
         rbind (ddiv (min (min by_cash by_exposure) by_risk) (s_quantity_increment stg)) (\<lambda>units.
         Inr (dmul (integral_down units) (s_quantity_increment stg)))))))"

definition pending_entry :: "experiment_input \<Rightarrow> nat \<Rightarrow> account \<Rightarrow> phase result" where
  "pending_entry x sequence st0 =
     (let st = st0\<lparr>st_pending := None\<rparr>; stg = x_settings x in
      case st_pending st0 of
        None \<Rightarrow> Inr (st, [], [])
      | Some p \<Rightarrow>
          if st_halted st \<or> st_position st \<noteq> None then Inr (st, [], [])
          else
            let price = dmul (c_open (x_candles x ! sequence)) (dadd 1 (slip_of stg)) in
            rbind (plan_level (pl_lower p)) (\<lambda>lower.
            rbind (plan_level (pl_upper p)) (\<lambda>upper.
            rbind (plan_level (pl_stop p)) (\<lambda>stop.
            rbind (plan_level (pl_target p)) (\<lambda>target.
            if \<not> (lower \<le> price \<and> price \<le> upper) \<or> \<not> (stop < price \<and> price < target)
            then Inr (st, [], [''entry refused: next opening fill is outside the recorded plan''])
            else rbind (entry_quantity stg p (st_cash st) price stop) (\<lambda>quantity.
              if quantity \<le> 0 then Inr (st, [], [''entry refused: size rounds to zero''])
              else rbind (do_fill x sequence st ''buy'' quantity price) (\<lambda>(st1, f).
                Inr (st1\<lparr>st_position := Some p\<rparr>, [f],
                     [''entry filled at next open with costs and current cash limits''])))))))) "

text \<open>
  The exit a bar triggers for an open plan, stop first: a stop fills at the open when the
  bar gaps through it, a target at its own level, an expiry at the close.
\<close>

definition exit_trigger :: "candle \<Rightarrow> dec \<Rightarrow> dec \<Rightarrow> instant \<Rightarrow> (dec \<times> string) option" where
  "exit_trigger c stop target expires_at =
     (if c_low c \<le> stop then Some (min (c_open c) stop, ''stop (stop first if both touched)'')
      else if target \<le> c_high c then Some (target, ''target'')
      else if expires_at \<le> ts c + hours 1 then Some (c_close c, ''expiry'')
      else None)"

definition settle_position :: "experiment_input \<Rightarrow> nat \<Rightarrow> account \<Rightarrow> phase result" where
  "settle_position x sequence st =
     (case st_position st of
        None \<Rightarrow> Inr (st, [], [])
      | Some p \<Rightarrow>
          rbind (plan_level (pl_stop p)) (\<lambda>stop.
          rbind (plan_level (pl_target p)) (\<lambda>target.
          case exit_trigger (x_candles x ! sequence) stop target (pl_expires_at p) of
            None \<Rightarrow> Inr (st, [], [])
          | Some (exit_price, reason) \<Rightarrow>
              rbind (do_fill x sequence st ''sell'' (st_quantity st)
                       (dmul exit_price (dsub 1 (slip_of (x_settings x))))) (\<lambda>(st1, f).
              Inr (st1, [f], [''position settled: '' @ reason])))))"

definition mark_equity :: "account \<Rightarrow> dec \<Rightarrow> dec" where
  "mark_equity st close = dadd (st_cash st) (dmul (st_quantity st) close)"

definition mark_bar :: "experiment_input \<Rightarrow> nat \<Rightarrow> account \<Rightarrow> account" where
  "mark_bar x sequence st =
     (let equity = mark_equity st (c_close (x_candles x ! sequence));
          peak = max (st_peak_equity st) equity
      in st\<lparr>st_peak_equity := peak,
            st_halted := st_halted st
              \<or> equity \<le> dmul peak (dsub 1 (s_drawdown_fraction (x_settings x)))\<rparr>)"

section \<open>The decision\<close>

datatype proposal = PlanProposal plan | IdeaProposal trade_idea

record event =
  ev_sequence :: nat
  ev_bar :: candle
  ev_decision :: string
  ev_proposal :: "proposal option"
  ev_actions :: "string list"
  ev_fills :: "fill_fact list"
  ev_state :: account
  ev_activation :: "versioned_rules option"
  ev_turn :: "turn option"
  ev_previous :: string

type_synonym proposer = "string \<Rightarrow> market_snapshot \<Rightarrow> (trade_idea list \<times> string option) result"

definition HISTORY_BARS :: nat where "HISTORY_BARS = 53"

definition decision_snapshot :: "experiment_input \<Rightarrow> nat \<Rightarrow> market_snapshot result" where
  "decision_snapshot x sequence =
     rbind (new_symbol_series
              \<lparr>ss_symbol = x_symbol x, ss_granularity = ''1h'',
               ss_candles = drop (sequence - (HISTORY_BARS - 1)) (take (sequence + 1) (x_candles x)),
               ss_price_increment = None, ss_price_increment_source = None,
               ss_price_increment_error = None\<rparr>) (\<lambda>s.
     new_market_snapshot
       \<lparr>ms_as_of = ts (x_candles x ! sequence) + hours 1, ms_source = x_source x, ms_series = [s]\<rparr>)"

definition idea_plan :: "trade_idea \<Rightarrow> plan result" where
  "idea_plan i =
     (case (ti_exit_plan i, th_expires_at (ti_time_horizon i)) of
        (Some e, Some t) \<Rightarrow>
          Inr \<lparr>pl_decision_id = ti_decision_id i, pl_lower = ez_lower (ti_entry_zone i),
               pl_upper = ez_upper (ti_entry_zone i), pl_stop = ep_stop e, pl_target = ep_target e,
               pl_expires_at = t, pl_size_fraction = None, pl_thesis = ti_thesis i\<rparr>
      | _ \<Rightarrow> Inl AssertionError)"

definition benchmark_decision ::
  "proposer \<Rightarrow> experiment_input \<Rightarrow> nat \<Rightarrow> account \<Rightarrow> (account \<times> string \<times> proposal option) result" where
  "benchmark_decision propose x sequence st =
     rbind (decision_snapshot x sequence) (\<lambda>snapshot.
     rbind (propose (x_benchmark x) snapshot) (\<lambda>(ideas, refusal).
     case ideas of
       idea # _ \<Rightarrow>
         rbind (idea_plan idea) (\<lambda>p.
         Inr (st\<lparr>st_pending := Some p\<rparr>, x_benchmark x @ '' rule: consider entry at next open'',
              Some (IdeaProposal idea)))
     | [] \<Rightarrow>
         (case refusal of
            Some r \<Rightarrow> Inr (st, x_benchmark x @ '' '' @ r, None)
          | None \<Rightarrow>
              Inr (st, if sequence < HISTORY_BARS - 1 then ''collecting benchmark history''
                       else ''no '' @ x_benchmark x @ '' signal'', None))))"

record externals =
  ext_propose :: proposer
  ext_loads :: loader

type_synonym decided =
  "account \<times> string \<times> proposal option \<times> versioned_rules option \<times> turn option \<times> string list"

definition decide_bar ::
  "externals \<Rightarrow> experiment_input \<Rightarrow> nat \<Rightarrow> account \<Rightarrow> transport option \<Rightarrow> bool \<Rightarrow> decided result" where
  "decide_bar ext x sequence st tp filled =
     (if x_benchmark x = RULEBOOK_CHANNEL \<and> x_scored_index x \<le> sequence
      then rbind (evaluate x sequence st) (\<lambda>(st1, label, proposal, activation).
           Inr (st1, label, map_option PlanProposal proposal, activation, None, []))
      else if st_halted st
      then Inr (st, ''new entries halted by drawdown limit'', None, None, None, [])
      else if managed x \<and> x_scored_index x \<le> sequence
      then rbind (manage (ext_loads ext) x sequence st tp filled) (\<lambda>(st1, label, proposal, tn, acts).
           Inr (st1, label, map_option PlanProposal proposal, None, tn, acts))
      else if st_position st \<noteq> None
      then Inr (st, ''hold existing position'', None, None, None, [])
      else if sequence < x_scored_index x
      then Inr (st, ''warm-up bar: indicator history only'', None, None, None, [])
      else rbind (benchmark_decision (ext_propose ext) x sequence st) (\<lambda>(st1, label, proposal).
           Inr (st1, label, proposal, None, None, [])))"

text \<open>\<^verbatim>\<open>advance\<close>. The caller sets the hash link \<open>ev_previous\<close>.\<close>

definition advance ::
  "externals \<Rightarrow> experiment_input \<Rightarrow> nat \<Rightarrow> account \<Rightarrow> transport option \<Rightarrow> event result" where
  "advance ext x sequence st tp =
     (if length (x_candles x) \<le> sequence then Inl IndexError
      else
       rbind (requested_exit x sequence st) (\<lambda>(st1, f1, a1).
       rbind (pending_entry x sequence st1) (\<lambda>(st2, f2, a2).
       rbind (settle_position x sequence st2) (\<lambda>(st3, f3, a3).
       let st4 = mark_bar x sequence st3; fills = f1 @ f2 @ f3 in
       rbind (decide_bar ext x sequence st4 tp (fills \<noteq> [])) (\<lambda>(st5, label, proposal, activation, tn, a4).
       Inr \<lparr>ev_sequence = sequence, ev_bar = x_candles x ! sequence, ev_decision = label,
            ev_proposal = proposal, ev_actions = a1 @ a2 @ a3 @ a4, ev_fills = fills,
            ev_state = st5, ev_activation = activation, ev_turn = tn, ev_previous = []\<rparr>)))))"

section \<open>Runs\<close>

text \<open>
  The journals a run can commit: bar after bar, each with some transport (a resumed run may
  be given another one), each event linked to its predecessor by an arbitrary text.
\<close>

inductive reached :: "externals \<Rightarrow> experiment_input \<Rightarrow> account \<Rightarrow> event list \<Rightarrow> bool"
  for ext x where
  reached_init: "reached ext x (initial_state x) []"
| reached_bar: "reached ext x st evs \<Longrightarrow> advance ext x (length evs) st tp = Inr ev \<Longrightarrow>
    reached ext x (ev_state ev) (evs @ [ev\<lparr>ev_previous := link\<rparr>])"

inductive_cases reached_snocE: "reached ext x st (evs @ [ev])"
inductive_cases reached_NilE: "reached ext x st []"

definition journal_fills :: "event list \<Rightarrow> fill_fact list" where
  "journal_fills evs = concat (map ev_fills evs)"

section \<open>Fills and phases\<close>

lemma do_fill_Inr:
  assumes "do_fill x n st side q p = Inr (st', f)"
  shows "side \<in> {''buy'', ''sell''}" and "0 < q" and "0 < p"
    and "f = \<lparr>ff_fill_id = fill_identity x n side, ff_order_id = fill_identity x n side,
          ff_client_order_id = fill_identity x n side, ff_symbol = x_symbol x, ff_side = side,
          ff_quantity = q, ff_price = p,
          ff_executed_at = (if side = ''buy'' then ts (x_candles x ! n) + 1
                            else ts (x_candles x ! n) + hours 1 - 1),
          ff_fee = Some (fill_fee (x_settings x) q p), ff_fee_currency = Some ''USD''\<rparr>"
    and "st' = (if side = ''buy'' then buy_account st q (dmul q p) (fill_fee (x_settings x) q p)
                else sell_account st (dmul q p) (fill_fee (x_settings x) q p))"
  using assms by (auto simp: do_fill_def Let_def new_fill_fact_def split: if_splits)

lemma do_fill_total:
  assumes "side \<in> {''buy'', ''sell''}" "0 < q" "0 < p" "x_symbol x \<noteq> []"
  shows "is_ok (do_fill x n st side q p)"
  using assms by (auto simp: do_fill_def Let_def new_fill_fact_def fill_identity_def is_ok_iff)

text \<open>Each phase either leaves the account alone or is one fill.\<close>

lemma requested_exit_cases:
  assumes "requested_exit x n st = Inr (st', fs, acts)"
  obtains "\<not> exit_pending x st" "st' = st" "fs = []" "acts = []"
  | f where "exit_pending x st" "fs = [f]"
      "do_fill x n (clear_exit x st) ''sell'' (st_quantity st)
         (dmul (c_open (x_candles x ! n)) (dsub 1 (slip_of (x_settings x)))) = Inr (st', f)"
  using assms by (auto simp: requested_exit_def split: if_splits)

lemma pending_entry_cases:
  assumes "pending_entry x n st = Inr (st', fs, acts)"
  obtains "st' = st\<lparr>st_pending := None\<rparr>" "fs = []"
  | f p lower upper stop target q price st1 where "st_pending st = Some p" "\<not> st_halted st" "st_position st = None"
      "price = dmul (c_open (x_candles x ! n)) (dadd 1 (slip_of (x_settings x)))"
      "pl_lower p = Some lower" "pl_upper p = Some upper" "pl_stop p = Some stop" "pl_target p = Some target"
      "lower \<le> price" "price \<le> upper" "stop < price" "price < target"
      "entry_quantity (x_settings x) p (st_cash st) price stop = Inr q" "0 < q"
      "do_fill x n (st\<lparr>st_pending := None\<rparr>) ''buy'' q price = Inr (st1, f)"
      "st' = st1\<lparr>st_position := Some p\<rparr>" "fs = [f]"
  using assms
  by (auto simp: pending_entry_def Let_def plan_level_def not_le split: option.splits if_splits)

lemma settle_position_cases:
  assumes "settle_position x n st = Inr (st', fs, acts)"
  obtains "st_position st = None" "st' = st" "fs = []"
  | p stop target where "st_position st = Some p" "pl_stop p = Some stop" "pl_target p = Some target"
      "exit_trigger (x_candles x ! n) stop target (pl_expires_at p) = None" "st' = st" "fs = []"
  | p stop target level reason f where "st_position st = Some p" "pl_stop p = Some stop" "pl_target p = Some target"
      "exit_trigger (x_candles x ! n) stop target (pl_expires_at p) = Some (level, reason)"
      "do_fill x n st ''sell'' (st_quantity st) (dmul level (dsub 1 (slip_of (x_settings x)))) = Inr (st', f)"
      "fs = [f]"
  using assms by (auto simp: settle_position_def plan_level_def split: option.splits)

lemma advance_phases:
  assumes "advance ext x n st tp = Inr ev"
  obtains st1 f1 a1 st2 f2 a2 st3 f3 a3 label prp act tn a4 where "n < length (x_candles x)"
    "requested_exit x n st = Inr (st1, f1, a1)" "pending_entry x n st1 = Inr (st2, f2, a2)"
    "settle_position x n st2 = Inr (st3, f3, a3)"
    "decide_bar ext x n (mark_bar x n st3) tp (f1 @ f2 @ f3 \<noteq> []) = Inr (ev_state ev, label, prp, act, tn, a4)"
    "ev_fills ev = f1 @ f2 @ f3" "ev_sequence ev = n" "ev_bar ev = x_candles x ! n"
    "ev_actions ev = a1 @ a2 @ a3 @ a4" "ev_turn ev = tn" "ev_decision ev = label"
    "ev_proposal ev = prp" "ev_activation ev = act" "ev_previous ev = []"
  using assms by (auto simp: advance_def Let_def not_le split: if_splits)

text \<open>
  A decision changes no amount and no position: it may set the pending plan while flat and
  not halted, and request an exit while holding.
\<close>

definition decision_effect :: "experiment_input \<Rightarrow> account \<Rightarrow> account \<Rightarrow> bool" where
  "decision_effect x st st' \<longleftrightarrow>
     st' = st\<lparr>st_pending := st_pending st', st_manager := st_manager st', st_rulebook := st_rulebook st'\<rparr>
     \<and> (st_pending st' = st_pending st \<or> st_position st = None \<and> \<not> st_halted st)
     \<and> (exit_pending x st' \<longrightarrow> exit_pending x st \<or> st_position st \<noteq> None)
     \<and> (st_manager st' = None \<longleftrightarrow> st_manager st = None)
     \<and> (st_rulebook st' = None \<longleftrightarrow> st_rulebook st = None)"

lemma decision_effect_refl: "decision_effect x st st"
  by (simp add: decision_effect_def)

lemma manager_effect_decision:
  assumes "manager_effect x n st st'" and "managed x" and "\<not> st_halted st" and "st_manager st \<noteq> None"
  shows "decision_effect x st st'"
  using assms unfolding manager_effect_def decision_effect_def by (auto simp: exit_pending_def)

lemma evaluate_decision:
  assumes "evaluate x n st = Inr (st', label, prop, act)" and "\<not> managed x"
  shows "decision_effect x st st'"
proof -
  from evaluate_cases[OF assms(1)] obtain eff v where e: "st' = apply_effect eff v st"
    "st_rulebook st \<noteq> None" "eff = RequestExit \<Longrightarrow> st_position st \<noteq> None"
    "\<And>p. eff = Enter p \<Longrightarrow> st_position st = None \<and> \<not> st_halted st" by metis
  show ?thesis
    using e assms(2) by (cases eff) (auto simp: decision_effect_def exit_pending_def)
qed

lemma benchmark_decision_effect:
  assumes "benchmark_decision pr x n st = Inr (st', label, prop)"
    and "st_position st = None" "\<not> st_halted st"
  shows "decision_effect x st st'"
proof -
  from assms(1) obtain ideas refusal where
    "(case ideas of
       idea # _ \<Rightarrow> rbind (idea_plan idea) (\<lambda>p.
         Inr (st\<lparr>st_pending := Some p\<rparr>, x_benchmark x @ '' rule: consider entry at next open'',
              Some (IdeaProposal idea)))
     | [] \<Rightarrow> (case refusal of
            Some r \<Rightarrow> Inr (st, x_benchmark x @ '' '' @ r, None)
          | None \<Rightarrow> Inr (st, if n < HISTORY_BARS - 1 then ''collecting benchmark history''
                       else ''no '' @ x_benchmark x @ '' signal'', None))) = Inr (st', label, prop)"
    unfolding benchmark_decision_def rbind_Inr_iff by force
  then have "st' = st \<or> (\<exists>p. st' = st\<lparr>st_pending := Some p\<rparr>)"
    by (cases ideas; cases refusal) auto
  then show ?thesis using assms(2,3) by (auto simp: decision_effect_def exit_pending_def)
qed

lemma decide_bar_effect:
  assumes "decide_bar ext x n st tp filled = Inr (st', label, prop, act, tn, acts)"
    and "managed x \<Longrightarrow> st_manager st \<noteq> None"
  shows "decision_effect x st st'"
proof -
  consider "x_benchmark x = RULEBOOK_CHANNEL \<and> x_scored_index x \<le> n"
    | "\<not> (x_benchmark x = RULEBOOK_CHANNEL \<and> x_scored_index x \<le> n)" "\<not> st_halted st"
        "managed x \<and> x_scored_index x \<le> n"
    | "\<not> (x_benchmark x = RULEBOOK_CHANNEL \<and> x_scored_index x \<le> n)"
        "\<not> (\<not> st_halted st \<and> managed x \<and> x_scored_index x \<le> n)" by blast
  then show ?thesis
  proof cases
    case 1
    then have "\<not> managed x" by (simp add: managed_def RULEBOOK_CHANNEL_def MANAGER_CHANNEL_def)
    with 1 assms show ?thesis by (auto simp: decide_bar_def intro: evaluate_decision)
  next
    case 2
    with assms show ?thesis
      by (auto simp: decide_bar_def intro!: manager_effect_decision dest: manage_effect)
  next
    case 3
    with assms show ?thesis
      by (auto simp: decide_bar_def intro: benchmark_decision_effect decision_effect_refl split: if_splits)
  qed
qed

section \<open>The account invariant\<close>

definition controls_ok :: "experiment_input \<Rightarrow> account \<Rightarrow> bool" where
  "controls_ok x st \<longleftrightarrow>
     (managed x \<longrightarrow> st_manager st \<noteq> None)
     \<and> (x_benchmark x = RULEBOOK_CHANNEL \<longrightarrow> st_rulebook st \<noteq> None)"

definition position_ok :: "account \<Rightarrow> bool" where
  "position_ok st \<longleftrightarrow>
     (st_position st = None \<longrightarrow> st_quantity st = 0 \<and> st_cost_basis st = 0)
     \<and> (st_position st \<noteq> None \<longrightarrow> 0 < st_quantity st)"

text \<open>Within a bar, once a requested exit has been served.\<close>

definition core_inv :: "experiment_input \<Rightarrow> account \<Rightarrow> bool" where
  "core_inv x st \<longleftrightarrow>
     controls_ok x st \<and> position_ok st \<and> \<not> exit_pending x st
     \<and> s_initial_cash (x_settings x) \<le> st_peak_equity st"

text \<open>Between bars.\<close>

definition account_inv :: "experiment_input \<Rightarrow> account \<Rightarrow> bool" where
  "account_inv x st \<longleftrightarrow>
     controls_ok x st \<and> position_ok st
     \<and> (exit_pending x st \<longrightarrow> st_position st \<noteq> None)
     \<and> (st_pending st \<noteq> None \<longrightarrow> st_position st = None \<and> \<not> st_halted st)
     \<and> s_initial_cash (x_settings x) \<le> st_peak_equity st"

lemmas account_inv_defs [inv_simps] =
  account_inv_def core_inv_def controls_ok_def position_ok_def

lemma exit_pending_simps [simp]:
  "exit_pending x (st\<lparr>st_cash := a\<rparr>) = exit_pending x st"
  "exit_pending x (st\<lparr>st_quantity := a\<rparr>) = exit_pending x st"
  "exit_pending x (st\<lparr>st_cost_basis := a\<rparr>) = exit_pending x st"
  "exit_pending x (st\<lparr>st_realized_net := a\<rparr>) = exit_pending x st"
  "exit_pending x (st\<lparr>st_fees := a\<rparr>) = exit_pending x st"
  "exit_pending x (st\<lparr>st_peak_equity := a\<rparr>) = exit_pending x st"
  "exit_pending x (st\<lparr>st_halted := h\<rparr>) = exit_pending x st"
  "exit_pending x (st\<lparr>st_position := po\<rparr>) = exit_pending x st"
  "exit_pending x (st\<lparr>st_pending := po\<rparr>) = exit_pending x st"
  "\<not> exit_pending x (clear_exit x st)"
  by (auto simp: exit_pending_def clear_exit_def split: option.splits)

lemma clear_exit_simps [simp]:
  "st_cash (clear_exit x st) = st_cash st" "st_quantity (clear_exit x st) = st_quantity st"
  "st_cost_basis (clear_exit x st) = st_cost_basis st" "st_fees (clear_exit x st) = st_fees st"
  "st_realized_net (clear_exit x st) = st_realized_net st"
  "st_peak_equity (clear_exit x st) = st_peak_equity st" "st_halted (clear_exit x st) = st_halted st"
  "st_position (clear_exit x st) = st_position st" "st_pending (clear_exit x st) = st_pending st"
  "st_manager (clear_exit x st) = None \<longleftrightarrow> st_manager st = None"
  "st_rulebook (clear_exit x st) = None \<longleftrightarrow> st_rulebook st = None"
  by (auto simp: clear_exit_def)

lemma initial_account_inv: "wf_input x \<Longrightarrow> account_inv x (initial_state x)"
  by (auto simp: inv_simps initial_state_def exit_pending_def managed_def wf_input_def
      split: option.splits)

lemma requested_exit_inv:
  "account_inv x st \<Longrightarrow> requested_exit x n st = Inr (st', fs, acts) \<Longrightarrow> core_inv x st'"
  by (erule requested_exit_cases)
     (auto simp: inv_simps sell_account_def dest!: do_fill_Inr(5))

lemma pending_entry_inv:
  assumes "core_inv x st" and "pending_entry x n st = Inr (st', fs, acts)"
  shows "core_inv x st' \<and> st_pending st' = None"
  using assms(2)
  by (rule pending_entry_cases)
     (use assms(1) in \<open>auto simp: inv_simps buy_account_def dest!: do_fill_Inr(5)\<close>)

lemma settle_position_inv:
  assumes "core_inv x st" "st_pending st = None" and "settle_position x n st = Inr (st', fs, acts)"
  shows "core_inv x st' \<and> st_pending st' = None"
  using assms(3)
  by (rule settle_position_cases)
     (use assms(1,2) in \<open>auto simp: inv_simps sell_account_def dest!: do_fill_Inr(5)\<close>)

lemma mark_bar_inv:
  "core_inv x st \<Longrightarrow> st_pending st = None \<Longrightarrow> core_inv x (mark_bar x n st) \<and> st_pending (mark_bar x n st) = None"
  by (cases "st_position st") (auto simp: inv_simps mark_bar_def Let_def)

lemma decision_effect_fields:
  assumes "decision_effect x st st'"
  shows "st_cash st' = st_cash st" "st_quantity st' = st_quantity st"
    "st_cost_basis st' = st_cost_basis st" "st_realized_net st' = st_realized_net st"
    "st_fees st' = st_fees st" "st_peak_equity st' = st_peak_equity st"
    "st_halted st' = st_halted st" "st_position st' = st_position st"
proof -
  have e: "st' = st\<lparr>st_pending := st_pending st', st_manager := st_manager st', st_rulebook := st_rulebook st'\<rparr>"
    using assms by (simp add: decision_effect_def)
  show "st_cash st' = st_cash st" using arg_cong[OF e, of st_cash] by simp
  show "st_quantity st' = st_quantity st" using arg_cong[OF e, of st_quantity] by simp
  show "st_cost_basis st' = st_cost_basis st" using arg_cong[OF e, of st_cost_basis] by simp
  show "st_realized_net st' = st_realized_net st" using arg_cong[OF e, of st_realized_net] by simp
  show "st_fees st' = st_fees st" using arg_cong[OF e, of st_fees] by simp
  show "st_peak_equity st' = st_peak_equity st" using arg_cong[OF e, of st_peak_equity] by simp
  show "st_halted st' = st_halted st" using arg_cong[OF e, of st_halted] by simp
  show "st_position st' = st_position st" using arg_cong[OF e, of st_position] by simp
qed

lemma decision_inv:
  assumes "core_inv x st" "st_pending st = None" "decision_effect x st st'"
  shows "account_inv x st'"
  using assms decision_effect_fields[OF assms(3)]
  by (auto simp: inv_simps decision_effect_def split: option.splits)

lemma advance_inv:
  assumes "account_inv x st" and "advance ext x n st tp = Inr ev"
  shows "account_inv x (ev_state ev)"
  using assms(2)
proof (rule advance_phases)
  fix st1 f1 a1 st2 f2 a2 st3 f3 a3 label prp act tn a4
  assume "requested_exit x n st = Inr (st1, f1, a1)" and "pending_entry x n st1 = Inr (st2, f2, a2)"
    and "settle_position x n st2 = Inr (st3, f3, a3)"
    and d: "decide_bar ext x n (mark_bar x n st3) tp (f1 @ f2 @ f3 \<noteq> []) = Inr (ev_state ev, label, prp, act, tn, a4)"
  then have m: "core_inv x (mark_bar x n st3)" "st_pending (mark_bar x n st3) = None"
    using requested_exit_inv[OF assms(1)] pending_entry_inv settle_position_inv mark_bar_inv by metis+
  then have "decision_effect x (mark_bar x n st3) (ev_state ev)"
    using d by (intro decide_bar_effect) (auto simp: inv_simps)
  with m show ?thesis by (rule decision_inv)
qed

lemma reached_inv: "reached ext x st evs \<Longrightarrow> wf_input x \<Longrightarrow> account_inv x st"
  by (induction rule: reached.induct) (auto intro: initial_account_inv advance_inv)

end
