(* ===== verification/Exp_Journal.thy ===== *)
theory Exp_Journal
  imports Exp_Engine
begin

text \<open>
  What a run writes into its journal: the shape of the fills of a bar and of a whole run.

  \<open>book_fill\<close> is the effect of one fill on the account's amounts; \<open>lots\<close> says that fills
  alternate, each sale closing the whole open lot. The lemmas show for every reachable
  journal that the amounts of the account are those of its fills booked in order, that fills
  alternate, carry distinct identities, fall strictly inside their bars and are strictly
  ordered in time, and that no entry is filled once the drawdown halt is set.
\<close>

section \<open>Definitions\<close>

definition amounts :: "account \<Rightarrow> dec \<times> dec \<times> dec \<times> dec \<times> dec" where
  "amounts st = (st_cash st, st_quantity st, st_cost_basis st, st_realized_net st, st_fees st)"

definition fee_amount :: "fill_fact \<Rightarrow> dec" where
  "fee_amount f = (case ff_fee f of None \<Rightarrow> 0 | Some a \<Rightarrow> a)"

definition book_fill :: "account \<Rightarrow> fill_fact \<Rightarrow> account" where
  "book_fill st f =
     (let notional = dmul (ff_quantity f) (ff_price f) in
      if ff_side f = ''buy'' then buy_account st (ff_quantity f) notional (fee_amount f)
      else sell_account st notional (fee_amount f))"

fun lots :: "dec option \<Rightarrow> fill_fact list \<Rightarrow> dec option option" where
  "lots lot [] = Some lot"
| "lots None (f # fs) = (if ff_side f = ''buy'' then lots (Some (ff_quantity f)) fs else None)"
| "lots (Some q) (f # fs) =
     (if ff_side f = ''sell'' \<and> ff_quantity f = q then lots None fs else None)"

definition open_lot :: "account \<Rightarrow> dec option" where
  "open_lot st = (if st_position st = None then None else Some (st_quantity st))"

definition fill_moment :: "experiment_input \<Rightarrow> nat \<Rightarrow> string \<Rightarrow> instant" where
  "fill_moment x n side =
     (if side = ''buy'' then ts (x_candles x ! n) + 1 else ts (x_candles x ! n) + hours 1 - 1)"

text \<open>A fill of bar \<open>n\<close>, as the engine writes it.\<close>

definition bar_fill :: "experiment_input \<Rightarrow> nat \<Rightarrow> fill_fact \<Rightarrow> bool" where
  "bar_fill x n f \<longleftrightarrow>
     ff_side f \<in> {''buy'', ''sell''} \<and> 0 < ff_quantity f \<and> 0 < ff_price f
     \<and> dround (ff_price f) = ff_price f
     \<and> (ff_side f = ''buy'' \<longrightarrow> dround (ff_quantity f) = ff_quantity f)
     \<and> ff_fill_id f = fill_identity x n (ff_side f) \<and> ff_order_id f = ff_fill_id f
     \<and> ff_symbol f = x_symbol x \<and> ff_executed_at f = fill_moment x n (ff_side f)
     \<and> ff_fee f = Some (fill_fee (x_settings x) (ff_quantity f) (ff_price f))
     \<and> ff_fee_currency f = Some ''USD''"

section \<open>The fills of one bar\<close>

lemma lots_append: "lots l (xs @ ys) = Option.bind (lots l xs) (\<lambda>l'. lots l' ys)"
  by (induction l xs rule: lots.induct) auto

lemma amounts_effect: "decision_effect x st st' \<Longrightarrow> amounts st' = amounts st"
  by (simp add: amounts_def decision_effect_fields)

lemma amounts_mark [simp]: "amounts (mark_bar x n st) = amounts st"
  by (simp add: amounts_def mark_bar_def Let_def)

lemma book_fill_amounts: "amounts st = amounts st' \<Longrightarrow> amounts (book_fill st f) = amounts (book_fill st' f)"
  by (simp add: amounts_def book_fill_def Let_def buy_account_def sell_account_def)

lemma foldl_book_amounts:
  "amounts st = amounts st' \<Longrightarrow> amounts (foldl book_fill st fs) = amounts (foldl book_fill st' fs)"
proof (induction fs arbitrary: st st')
  case (Cons f fs)
  show ?case unfolding foldl_Cons by (rule Cons.IH, rule book_fill_amounts, rule Cons.prems)
qed simp

lemma foldl_book_append:
  assumes "amounts st' = amounts (foldl book_fill st fs)"
    and "amounts st'' = amounts (foldl book_fill st' gs)"
  shows "amounts st'' = amounts (foldl book_fill st (fs @ gs))"
  unfolding foldl_append assms(2) by (rule foldl_book_amounts) (rule assms(1))

lemma do_fill_bar_fill:
  assumes "do_fill x n st side q p = Inr (st', f)" and "dround p = p"
    and "side = ''buy'' \<longrightarrow> dround q = q"
  shows "bar_fill x n f \<and> ff_side f = side \<and> ff_quantity f = q \<and> ff_price f = p
    \<and> st' = book_fill st f"
  using do_fill_Inr[OF assms(1)] assms(2,3)
  by (auto simp: bar_fill_def book_fill_def Let_def fee_amount_def fill_moment_def)

lemma dmul_round [simp]: "dround (dmul a b) = dmul a b"
  by (simp add: dmul_def)

lemma entry_quantity_round: "entry_quantity stg p c pr stp = Inr q \<Longrightarrow> dround q = q"
  by (auto simp: entry_quantity_def Let_def)

lemma requested_exit_books:
  assumes "account_inv x st" and "requested_exit x n st = Inr (st', fs, acts)"
  shows "amounts st' = amounts (foldl book_fill st fs) \<and> list_all (bar_fill x n) fs
    \<and> lots (open_lot st) fs = Some (open_lot st') \<and> st_halted st' = st_halted st
    \<and> (fs = [] \<and> st' = st \<or> (\<exists>f. fs = [f] \<and> ff_side f = ''sell'' \<and> st_pending st' = None \<and> st_position st' = None))"
  using assms(2)
proof (rule requested_exit_cases)
  fix f
  assume e: "exit_pending x st" and fs: "fs = [f]"
    and d: "do_fill x n (clear_exit x st) ''sell'' (st_quantity st)
         (dmul (c_open (x_candles x ! n)) (dsub 1 (slip_of (x_settings x)))) = Inr (st', f)"
  from e assms(1) have h: "st_position st \<noteq> None" "st_pending st = None"
    by (auto simp: inv_simps)
  note b = do_fill_bar_fill[OF d]
  have "amounts (book_fill (clear_exit x st) f) = amounts (book_fill st f)"
    by (rule book_fill_amounts) (simp add: amounts_def)
  then show ?thesis using b h fs
    by (auto simp: open_lot_def book_fill_def Let_def sell_account_def)
qed (auto simp: open_lot_def)

lemma pending_entry_books:
  assumes "pending_entry x n st = Inr (st', fs, acts)"
  shows "amounts st' = amounts (foldl book_fill st fs) \<and> list_all (bar_fill x n) fs
    \<and> lots (open_lot st) fs = Some (open_lot st') \<and> st_halted st' = st_halted st
    \<and> (fs = [] \<and> st' = st\<lparr>st_pending := None\<rparr>
       \<or> (\<exists>f. fs = [f] \<and> ff_side f = ''buy'' \<and> \<not> st_halted st \<and> st_position st = None \<and> st_pending st \<noteq> None))"
  using assms
proof (rule pending_entry_cases)
  fix f p lower upper stop target q price st1
  assume a: "st_pending st = Some p" "\<not> st_halted st" "st_position st = None"
    "price = dmul (c_open (x_candles x ! n)) (dadd 1 (slip_of (x_settings x)))"
    "entry_quantity (x_settings x) p (st_cash st) price stop = Inr q"
    "st' = st1\<lparr>st_position := Some p\<rparr>" "fs = [f]"
    and d: "do_fill x n (st\<lparr>st_pending := None\<rparr>) ''buy'' q price = Inr (st1, f)"
  note b = do_fill_bar_fill[OF d]
  have "amounts (book_fill (st\<lparr>st_pending := None\<rparr>) f) = amounts (book_fill st f)"
    by (rule book_fill_amounts) (simp add: amounts_def)
  moreover have "amounts st' = amounts st1" using a by (simp add: amounts_def)
  ultimately show ?thesis using b a entry_quantity_round[OF a(5)]
    by (auto simp: open_lot_def book_fill_def Let_def buy_account_def)
qed (auto simp: open_lot_def amounts_def)

lemma settle_position_books:
  assumes "settle_position x n st = Inr (st', fs, acts)"
  shows "amounts st' = amounts (foldl book_fill st fs) \<and> list_all (bar_fill x n) fs
    \<and> lots (open_lot st) fs = Some (open_lot st') \<and> st_halted st' = st_halted st
    \<and> (fs = [] \<and> st' = st \<or> (\<exists>f. fs = [f] \<and> ff_side f = ''sell'' \<and> st_position st \<noteq> None))"
  using assms
proof (rule settle_position_cases)
  fix p stop target level reason f
  assume a: "st_position st = Some p" "fs = [f]"
    and d: "do_fill x n st ''sell'' (st_quantity st) (dmul level (dsub 1 (slip_of (x_settings x)))) = Inr (st', f)"
  from do_fill_bar_fill[OF d] a show ?thesis
    by (auto simp: open_lot_def book_fill_def Let_def sell_account_def)
qed (auto simp: open_lot_def)

text \<open>At most an entry and a sale per bar, the entry first; what each does to the account.\<close>

definition bar_shape :: "fill_fact list \<Rightarrow> bool" where
  "bar_shape fs \<longleftrightarrow> map ff_side fs \<in> {[], [''buy''], [''sell''], [''buy'', ''sell'']}"

lemma advance_books:
  assumes "account_inv x st" and "advance ext x n st tp = Inr ev"
  shows "amounts (ev_state ev) = amounts (foldl book_fill st (ev_fills ev))"
    and "list_all (bar_fill x n) (ev_fills ev)"
    and "lots (open_lot st) (ev_fills ev) = Some (open_lot (ev_state ev))"
    and "bar_shape (ev_fills ev)"
    and "st_halted st \<Longrightarrow> st_halted (ev_state ev) \<and> map ff_side (ev_fills ev) \<in> {[], [''sell'']}"
  using assms(2)
proof (atomize(full), rule advance_phases, goal_cases)
  case (1 st1 f1 a1 st2 f2 a2 st3 f3 a3 label prp act tn a4)
  note r = requested_exit_books[OF assms(1) 1(2)]
  note p = pending_entry_books[OF 1(3)]
  note s = settle_position_books[OF 1(4)]
  have "core_inv x (mark_bar x n st3)"
    using requested_exit_inv[OF assms(1) 1(2)] pending_entry_inv[OF _ 1(3)] settle_position_inv[OF _ _ 1(4)]
      mark_bar_inv by metis
  then have eff: "decision_effect x (mark_bar x n st3) (ev_state ev)"
    by (intro decide_bar_effect[OF 1(5)]) (auto simp: inv_simps)
  note ef = decision_effect_fields[OF eff]
  have am: "amounts (ev_state ev) = amounts st3" using amounts_effect[OF eff] by simp
  have ol: "open_lot (ev_state ev) = open_lot st3"
    using ef by (simp add: open_lot_def mark_bar_def Let_def)
  have ha: "st_halted st3 \<Longrightarrow> st_halted (ev_state ev)" using ef by (simp add: mark_bar_def Let_def)
  have "amounts st2 = amounts (foldl book_fill st (f1 @ f2))"
    using p r foldl_book_append by blast
  then have a3: "amounts st3 = amounts (foldl book_fill st (f1 @ f2 @ f3))"
    using s foldl_book_append[of st2 st "f1 @ f2"] by simp
  note alt = r[THEN conjunct2, THEN conjunct2, THEN conjunct2, THEN conjunct2] p[THEN conjunct2, THEN conjunct2, THEN conjunct2, THEN conjunct2] s[THEN conjunct2, THEN conjunct2, THEN conjunct2, THEN conjunct2]
  note halts = r[THEN conjunct2, THEN conjunct2, THEN conjunct2, THEN conjunct1] p[THEN conjunct2, THEN conjunct2, THEN conjunct2, THEN conjunct1] s[THEN conjunct2, THEN conjunct2, THEN conjunct2, THEN conjunct1]
  have shape: "map ff_side (f1 @ f2 @ f3) \<in> {[], [''buy''], [''sell''], [''buy'', ''sell'']}"
    using alt by auto
  have "lots (open_lot st) (f1 @ f2 @ f3) = Some (open_lot st3)"
    using r p s by (simp add: lots_append)
  moreover have "list_all (bar_fill x n) (f1 @ f2 @ f3)" using r p s by simp
  moreover have "st_halted st \<Longrightarrow> map ff_side (f1 @ f2 @ f3) \<in> {[], [''sell'']}"
    using alt halts by auto
  moreover have "st_halted st \<Longrightarrow> st_halted (ev_state ev)" using ha halts by simp
  ultimately show ?case unfolding 1(6) bar_shape_def ol am using a3 shape by blast
qed

section \<open>The fills of a journal\<close>

definition journal_ok :: "experiment_input \<Rightarrow> event list \<Rightarrow> account \<Rightarrow> bool" where
  "journal_ok x evs st \<longleftrightarrow>
     amounts st = amounts (foldl book_fill (initial_state x) (journal_fills evs))
     \<and> lots None (journal_fills evs) = Some (open_lot st)
     \<and> length evs \<le> length (x_candles x)
     \<and> (\<forall>i < length evs. list_all (bar_fill x i) (ev_fills (evs ! i)) \<and> bar_shape (ev_fills (evs ! i)))"

lemma journal_fills_snoc [simp]: "journal_fills (evs @ [ev]) = journal_fills evs @ ev_fills ev"
  by (simp add: journal_fills_def)

lemma journal_fills_Nil [simp]: "journal_fills [] = []"
  by (simp add: journal_fills_def)

lemma reached_journal_ok:
  assumes "reached ext x st evs" and "wf_input x"
  shows "journal_ok x evs st"
  using assms
proof (induction rule: reached.induct)
  case reached_init
  then show ?case by (simp add: journal_ok_def open_lot_def initial_state_def)
next
  case (reached_bar st evs tp ev link)
  note inv = reached_inv[OF reached_bar.hyps(1) reached_bar.prems]
  note b = advance_books[OF inv reached_bar.hyps(2)]
  from reached_bar.hyps(2) have n: "length evs < length (x_candles x)"
    by (auto simp: advance_def split: if_splits)
  from reached_bar have IH: "journal_ok x evs st" by simp
  then have "amounts (ev_state ev) = amounts (foldl book_fill (initial_state x) (journal_fills evs @ ev_fills ev))"
    by (intro foldl_book_append[OF _ b(1)]) (simp add: journal_ok_def)
  moreover have "lots None (journal_fills evs @ ev_fills ev) = Some (open_lot (ev_state ev))"
    using IH b(3) by (simp add: journal_ok_def lots_append)
  ultimately show ?case using IH b(2,4) n by (auto simp: journal_ok_def nth_append less_Suc_eq simp del: foldl_append)
qed

lemma fill_moment_in_bar:
  "ts (x_candles x ! n) < fill_moment x n side \<and> fill_moment x n side < ts (x_candles x ! n) + hours 1"
  by (simp add: fill_moment_def hours_def)

lemma bar_shape_sorted:
  "list_all (bar_fill x n) fs \<Longrightarrow> bar_shape fs \<Longrightarrow> sorted_wrt (<) (map ff_executed_at fs)"
  by (cases fs; cases "tl fs") (auto simp: bar_shape_def bar_fill_def fill_moment_def hours_def)

lemma journal_fills_bar:
  "f \<in> set (journal_fills evs) \<Longrightarrow> \<exists>i < length evs. f \<in> set (ev_fills (evs ! i))"
proof -
  assume "f \<in> set (journal_fills evs)"
  then obtain e where "e \<in> set evs" "f \<in> set (ev_fills e)" by (auto simp: journal_fills_def)
  then show ?thesis by (metis in_set_conv_nth)
qed

lemma fills_sorted:
  assumes "hourly (x_candles x)" and "length evs \<le> length (x_candles x)"
    and "\<forall>i < length evs. list_all (bar_fill x i) (ev_fills (evs ! i)) \<and> bar_shape (ev_fills (evs ! i))"
  shows "sorted_wrt (<) (map ff_executed_at (journal_fills evs))"
  using assms(2,3)
proof (induction evs rule: rev_induct)
  case (snoc ev evs)
  let ?n = "length evs"
  have old: "\<forall>i < ?n. list_all (bar_fill x i) (ev_fills (evs ! i)) \<and> bar_shape (ev_fills (evs ! i))"
  proof (intro allI impI)
    fix i assume "i < ?n"
    then show "list_all (bar_fill x i) (ev_fills (evs ! i)) \<and> bar_shape (ev_fills (evs ! i))"
      using snoc.prems(2)[rule_format, of i] by (simp add: nth_append)
  qed
  have new: "list_all (bar_fill x ?n) (ev_fills ev)" "bar_shape (ev_fills ev)"
    using snoc.prems(2)[rule_format, of ?n] by simp_all
  have before: "ff_executed_at f < ff_executed_at g"
    if f: "f \<in> set (journal_fills evs)" and g: "g \<in> set (ev_fills ev)" for f g
  proof -
    obtain i where i: "i < ?n" "f \<in> set (ev_fills (evs ! i))" using journal_fills_bar[OF f] by blast
    then have "bar_fill x i f" using old by (auto simp: list_all_iff)
    then have "ff_executed_at f < ts (x_candles x ! i) + hours 1"
      using fill_moment_in_bar by (simp add: bar_fill_def)
    moreover have "ts (x_candles x ! i) + hours 1 \<le> ts (x_candles x ! ?n)"
      using i snoc.prems(1) hourly_nth[OF assms(1), of i] hourly_nth[OF assms(1), of ?n]
      by (simp add: hours_def)
    moreover have "ts (x_candles x ! ?n) < ff_executed_at g"
      using g new(1) fill_moment_in_bar by (auto simp: list_all_iff bar_fill_def)
    ultimately show ?thesis by linarith
  qed
  have "sorted_wrt (<) (map ff_executed_at (journal_fills evs))"
    using snoc.IH snoc.prems(1) old by simp
  then show ?case using bar_shape_sorted[OF new] before
    by (auto simp: sorted_wrt_append)
qed simp

lemma digits_before_dash:
  assumes "str_nat m @ CHR ''-'' # a = str_nat n @ CHR ''-'' # b"
  shows "m = n \<and> a = b"
proof -
  have d: "takeWhile is_digit (str_nat k @ CHR ''-'' # c) = str_nat k" for k c
  proof -
    have "\<And>y. y \<in> set (str_nat k) \<Longrightarrow> is_digit y" using str_nat_digits by auto
    then show ?thesis by (subst takeWhile_append2) (auto simp: is_digit_def in_range_def)
  qed
  have "str_nat m = str_nat n" using assms d by metis
  then show ?thesis using assms by simp
qed

lemma fill_identity_inject: "fill_identity x m s = fill_identity x n t \<longleftrightarrow> m = n \<and> s = t"
  by (auto simp: fill_identity_def dest: digits_before_dash)

lemma fills_distinct:
  assumes "hourly (x_candles x)" and "journal_ok x evs st"
  shows "distinct (map ff_fill_id (journal_fills evs))"
proof -
  from assms(2) have ok: "\<And>i. i < length evs \<Longrightarrow> list_all (bar_fill x i) (ev_fills (evs ! i))"
    by (auto simp: journal_ok_def)
  have tagged: "\<exists>i. ff_fill_id f = fill_identity x i (ff_side f) \<and> ff_executed_at f = fill_moment x i (ff_side f)"
    if "f \<in> set (journal_fills evs)" for f
  proof -
    from journal_fills_bar[OF that] obtain i where "i < length evs" "f \<in> set (ev_fills (evs ! i))" by blast
    then have "bar_fill x i f" using ok by (auto simp: list_all_iff)
    then show ?thesis by (auto simp: bar_fill_def)
  qed
  have same: "ff_executed_at f = ff_executed_at g"
    if "f \<in> set (journal_fills evs)" "g \<in> set (journal_fills evs)" "ff_fill_id f = ff_fill_id g" for f g
    using tagged[OF that(1)] tagged[OF that(2)] that(3) by (auto simp: fill_identity_inject)
  have "distinct (map ff_executed_at (journal_fills evs))"
    using fills_sorted[OF assms(1)] assms(2) by (auto simp: journal_ok_def strict_sorted_iff)
  then show ?thesis using same unfolding distinct_map inj_on_def by metis
qed

end
