(* ===== verification/Exp_Ledger.thy ===== *)
theory Exp_Ledger
  imports Exp_Journal
begin

text \<open>
  The journal of an experiment: \<^verbatim>\<open>src/gpt_trader/features/experiment/ledger.py\<close> and the
  loop of \<^verbatim>\<open>run_experiment\<close>.

  \<open>reconcile\<close> derives cash, inventory, fees and profit from the identified fills alone and
  refuses a journal whose account disagrees. The SQLite tables are a list of rows
  (sequence, event, checksum) in sequence order, and the metadata row the parsed input; the
  triggers that forbid updates are reflected by the fact that the model only appends. The
  checksum of an event is the parameter \<open>checksum\<close>.
\<close>

section \<open>Reconciliation\<close>

record tally =
  ta_cash :: dec
  ta_fees :: dec
  ta_entry_fees :: dec
  ta_realized_fees :: dec

definition tally_fill :: "tally \<Rightarrow> fill_fact \<Rightarrow> tally result" where
  "tally_fill t f =
     (case ff_fee f of
        None \<Rightarrow> Inl (ExperimentIntegrityError ''Missing or invalid simulated fee'')
      | Some fee \<Rightarrow>
          if ff_fee_currency f \<noteq> Some ''USD'' \<or> fee < 0
          then Inl (ExperimentIntegrityError ''Missing or invalid simulated fee'')
          else
            let notional = dmul (ff_quantity f) (ff_price f);
                cash = dadd (ta_cash t) (dsub (dmul notional (if ff_side f = ''buy'' then - 1 else 1)) fee);
                fees = dadd (ta_fees t) fee
            in Inr (if ff_side f = ''buy''
                    then \<lparr>ta_cash = cash, ta_fees = fees, ta_entry_fees = dadd (ta_entry_fees t) fee,
                          ta_realized_fees = ta_realized_fees t\<rparr>
                    else \<lparr>ta_cash = cash, ta_fees = fees, ta_entry_fees = 0,
                          ta_realized_fees = dadd (ta_realized_fees t) (dadd (ta_entry_fees t) fee)\<rparr>))"

text \<open>\<^verbatim>\<open>FillFact(**fill)\<close> of a stored fill.\<close>

definition load_fill :: "fill_fact \<Rightarrow> fill_fact result" where
  "load_fill f =
     new_fill_fact (ff_fill_id f) (ff_order_id f) (ff_client_order_id f) (ff_symbol f) (ff_side f)
       (Parsed (Finite (ff_quantity f))) (Parsed (Finite (ff_price f))) (Aware (ff_executed_at f))
       (map_option (\<lambda>a. Parsed (Finite a)) (ff_fee f)) (ff_fee_currency f)"

record report =
  re_cash :: dec
  re_quantity :: dec
  re_mark :: dec
  re_equity :: dec
  re_realized_net :: dec
  re_unrealized_net :: dec
  re_net_pnl :: dec
  re_fees :: dec
  re_fill_count :: nat

definition journal_state :: "experiment_input \<Rightarrow> event list \<Rightarrow> account" where
  "journal_state x evs = (if evs = [] then initial_state x else ev_state (last evs))"

definition flat_baseline :: "experiment_input \<Rightarrow> position_baseline result" where
  "flat_baseline x =
     (if x_candles x = [] then Inl IndexError
      else new_position_baseline (x_symbol x) (Aware (ts (x_candles x ! 0) - seconds 1))
             (Parsed (Finite 0)) None ''Explicit flat synthetic opening inventory'' ''local-experiment'' [])"

definition mark_price :: "experiment_input \<Rightarrow> event list \<Rightarrow> dec" where
  "mark_price x evs = (if evs = [] then 0 else c_close (x_candles x ! (length evs - 1)))"

text \<open>The comparison of the derived figures with the account, and the report.\<close>

definition check_account ::
  "experiment_input \<Rightarrow> account \<Rightarrow> tally \<Rightarrow> dec \<Rightarrow> dec \<Rightarrow> dec \<Rightarrow> dec \<Rightarrow> nat \<Rightarrow> report result" where
  "check_account x st t quantity entry realized mark fill_count =
     (let equity = dadd (ta_cash t) (dmul quantity mark);
          unrealized = dsub (dmul quantity mark) (st_cost_basis st);
          projected_net = dsub (dadd realized (dmul quantity (dsub mark entry))) (ta_fees t)
      in if ta_cash t \<noteq> st_cash st
            \<or> quantity \<noteq> st_quantity st
            \<or> ta_fees t \<noteq> st_fees st
            \<or> st_cost_basis st \<noteq> dadd (dmul quantity entry) (ta_entry_fees t)
            \<or> st_realized_net st \<noteq> dsub realized (ta_realized_fees t)
            \<or> ta_cash t < 0
            \<or> quantity < 0
            \<or> projected_net \<noteq> dsub equity (s_initial_cash (x_settings x))
            \<or> dadd (st_realized_net st) unrealized \<noteq> projected_net
         then Inl (ExperimentIntegrityError ''Cash, inventory, fees or net P&L failed independent reconciliation'')
         else Inr \<lparr>re_cash = ta_cash t, re_quantity = quantity, re_mark = mark, re_equity = equity,
                   re_realized_net = st_realized_net st, re_unrealized_net = unrealized,
                   re_net_pnl = projected_net, re_fees = ta_fees t, re_fill_count = fill_count\<rparr>)"

definition reconcile :: "experiment_input \<Rightarrow> event list \<Rightarrow> report result" where
  "reconcile x evs =
     (let st = journal_state x evs in
      rbind (rmap load_fill (journal_fills evs)) (\<lambda>fills.
      rbind (raise_if (\<not> distinct (map ff_fill_id fills))
               (ExperimentIntegrityError ''Duplicate simulated fill identity'')) (\<lambda>_.
      rbind (rfold tally_fill
               \<lparr>ta_cash = s_initial_cash (x_settings x), ta_fees = 0, ta_entry_fees = 0,
                ta_realized_fees = 0\<rparr> fills) (\<lambda>t.
      rbind (flat_baseline x) (\<lambda>b.
      rbind (project_position (x_symbol x) fills (Some b) []) (\<lambda>pp.
      case (complete pp, pp_quantity pp, pp_realized_pnl pp) of
        (True, Some quantity, Some realized) \<Rightarrow>
          check_account x st t quantity (case pp_entry_price pp of None \<Rightarrow> 0 | Some e \<Rightarrow> e) realized
            (mark_price x evs) (length fills)
      | _ \<Rightarrow> Inl (ExperimentIntegrityError ''Incomplete position reconciliation'')))))))"

section \<open>The journal\<close>

type_synonym row = "nat \<times> event \<times> string"

text \<open>One iteration of the loop of \<^verbatim>\<open>read_events\<close>: \<open>evs\<close> and \<open>previous\<close> are its variables.\<close>

definition read_row ::
  "externals \<Rightarrow> (event \<Rightarrow> string) \<Rightarrow> experiment_input \<Rightarrow> event list \<times> string \<Rightarrow> row \<Rightarrow> (event list \<times> string) result" where
  "read_row ext checksum x acc rw =
     (case (acc, rw) of ((evs, previous), (sequence, ev, digest)) \<Rightarrow>
        rbind (raise_if (length (x_candles x) \<le> sequence
                         \<or> sequence \<noteq> length evs \<or> ev_sequence ev \<noteq> sequence \<or> ev_previous ev \<noteq> previous)
                 (ExperimentIntegrityError ''Experiment checkpoint or hash chain is inconsistent'')) (\<lambda>_.
        rbind (raise_if (checksum ev \<noteq> digest \<or> ev_bar ev \<noteq> x_candles x ! sequence)
                 (ExperimentIntegrityError ''Experiment observation checksum mismatch'')) (\<lambda>_.
        rbind (advance ext x sequence (journal_state x evs)
                 (if managed x then Some (RecordedTransport (ev_turn ev)) else None)) (\<lambda>expected.
        rbind (raise_if (ev \<noteq> expected\<lparr>ev_previous := previous\<rparr>)
                 (ExperimentIntegrityError ''Recorded decision or account state disagrees with deterministic replay'')) (\<lambda>_.
        Inr (evs @ [ev], digest))))))"

definition read_events ::
  "externals \<Rightarrow> (event \<Rightarrow> string) \<Rightarrow> experiment_input \<Rightarrow> row list \<Rightarrow> event list result" where
  "read_events ext checksum x rows =
     rbind (rfold (read_row ext checksum x) ([], x_identity x) rows) (\<lambda>(evs, _). Inr evs)"

text \<open>
  One iteration of the loop of \<^verbatim>\<open>run_experiment\<close>: \<open>None\<close> is the break at the last bar, an
  exception rolls back and keeps the rows as they were.
\<close>

definition run_bar ::
  "externals \<Rightarrow> (event \<Rightarrow> string) \<Rightarrow> experiment_input \<Rightarrow> transport option \<Rightarrow> row list \<Rightarrow> row list option result" where
  "run_bar ext checksum x tp rows =
     rbind (read_events ext checksum x rows) (\<lambda>evs.
     rbind (reconcile x evs) (\<lambda>_.
     let sequence = length evs in
     if sequence = length (x_candles x) then Inr None
     else rbind (advance ext x sequence (journal_state x evs) tp) (\<lambda>ev.
          let ev1 = ev\<lparr>ev_previous := (if evs = [] then x_identity x else checksum (last evs))\<rparr> in
          rbind (reconcile x (evs @ [ev1])) (\<lambda>_.
          Inr (Some (rows @ [(sequence, ev1, checksum ev1)]))))))"

text \<open>
  The loop: at most \<open>n\<close> new bars. The rows committed before an exception stay, so the result
  is the rows together with the exception, if any.
\<close>

fun run_bars ::
  "externals \<Rightarrow> (event \<Rightarrow> string) \<Rightarrow> experiment_input \<Rightarrow> transport option \<Rightarrow> nat \<Rightarrow> row list \<Rightarrow> row list \<times> py_error option" where
  "run_bars ext checksum x tp 0 rows = (rows, None)"
| "run_bars ext checksum x tp (Suc n) rows =
     (case run_bar ext checksum x tp rows of
        Inl e \<Rightarrow> (rows, Some e)
      | Inr None \<Rightarrow> (rows, None)
      | Inr (Some rows') \<Rightarrow> run_bars ext checksum x tp n rows')"

text \<open>
  \<^verbatim>\<open>run_experiment\<close> on an open run: \<open>max_bars\<close> is refused below one, and without it the
  loop ends at the last bar, which the number of bars plus one bounds.
\<close>

definition run_experiment ::
  "externals \<Rightarrow> (event \<Rightarrow> string) \<Rightarrow> experiment_input \<Rightarrow> int option \<Rightarrow> string option \<Rightarrow> transport option
   \<Rightarrow> row list \<Rightarrow> row list \<times> py_error option" where
  "run_experiment ext checksum x max_bars benchmark tp rows =
     (if (case max_bars of None \<Rightarrow> False | Some m \<Rightarrow> m < 1)
      then (rows, Some (ValueError ''max_bars must be positive''))
      else if (case benchmark of None \<Rightarrow> False | Some b \<Rightarrow> x_benchmark x \<noteq> b)
      then (rows, Some (ExperimentIntegrityError ''Experiment is bound to a different benchmark''))
      else run_bars ext checksum x tp
             (case max_bars of None \<Rightarrow> Suc (length (x_candles x)) | Some m \<Rightarrow> nat m) rows)"

section \<open>Summaries\<close>

record summary =
  su_turns :: nat
  su_outcomes :: "(string \<times> nat) list"
  su_models :: "string list"
  su_input_tokens :: int
  su_output_tokens :: int
  su_cost_usd :: dec
  su_rulebook_version :: int
  su_rulebook :: string

definition journal_turns :: "event list \<Rightarrow> turn list" where
  "journal_turns evs = List.map_filter ev_turn evs"

definition manager_summary :: "event list \<Rightarrow> account \<Rightarrow> summary result" where
  "manager_summary evs st =
     (case st_manager st of
        None \<Rightarrow> Inl (KeyError ''manager'')
      | Some c \<Rightarrow>
          let turns = journal_turns evs; usage = List.map_filter tn_usage turns in
          Inr \<lparr>su_turns = length turns,
               su_outcomes = map (\<lambda>oc. (oc, length (filter (\<lambda>t. tn_outcome t = oc) turns)))
                               (sort (remdups (map tn_outcome turns))),
               su_models = sort (remdups (map tn_model turns)),
               su_input_tokens = sum_list (map fst usage),
               su_output_tokens = sum_list (map snd usage),
               su_cost_usd = dsum (map tn_cost_usd turns),
               su_rulebook_version = mc_rulebook_version c, su_rulebook = mc_rulebook c\<rparr>)"

section \<open>Replay\<close>

lemma decide_bar_unmanaged:
  "\<not> managed x \<Longrightarrow> decide_bar ext x n st tp b = decide_bar ext x n st tp' b"
  by (simp add: decide_bar_def)

lemma advance_unmanaged: "\<not> managed x \<Longrightarrow> advance ext x n st tp = advance ext x n st tp'"
  unfolding advance_def by (subst decide_bar_unmanaged[of x ext n _ tp _ tp']) auto

lemma manage_without_transport:
  "manage loads x n st None filled = Inr (st', label, prop, tn, acts) \<Longrightarrow>
     tn = None \<and> manage loads x n st tp filled = Inr (st', label, prop, None, acts)"
  by (auto simp: manage_def Let_def split: option.splits if_splits)

text \<open>A transport of the run, or none at all, is replayed by the record of its own turn.\<close>

definition transport_ok :: "transport option \<Rightarrow> bool" where
  "transport_ok tp = (case tp of None \<Rightarrow> True | Some t \<Rightarrow> decision_transport t)"

lemma manage_replay:
  assumes "manage loads x n st tp filled = Inr (st', label, prop, tn, acts)" and "transport_ok tp"
  shows "manage loads x n st (Some (RecordedTransport tn)) filled = Inr (st', label, prop, tn, acts)"
proof (cases tp)
  case None
  then show ?thesis using assms(1) manage_without_transport[of loads x n st filled] by metis
next
  case (Some t)
  then have "decision_transport t" using assms(2) by (simp add: transport_ok_def)
  then show ?thesis using decision_transport.manage_replays assms(1) Some by blast
qed

lemma decide_bar_replay:
  assumes "decide_bar ext x n st tp b = Inr (st', label, prop, act, tn, acts)" and "transport_ok tp"
    and "managed x"
  shows "decide_bar ext x n st (Some (RecordedTransport tn)) b = Inr (st', label, prop, act, tn, acts)"
proof (cases "\<not> st_halted st \<and> x_scored_index x \<le> n")
  case True
  with assms obtain p where p: "manage (ext_loads ext) x n st tp b = Inr (st', label, p, tn, acts)"
    "prop = map_option PlanProposal p" "act = None"
    by (auto simp: decide_bar_def managed_def RULEBOOK_CHANNEL_def MANAGER_CHANNEL_def)
  then show ?thesis using manage_replay[OF p(1) assms(2)] True assms(3)
    by (auto simp: decide_bar_def managed_def RULEBOOK_CHANNEL_def MANAGER_CHANNEL_def)
next
  case False
  then show ?thesis using assms
    by (auto simp: decide_bar_def managed_def RULEBOOK_CHANNEL_def MANAGER_CHANNEL_def)
qed

lemma advance_replay:
  assumes "advance ext x n st tp = Inr ev" and "transport_ok tp"
  shows "advance ext x n st (if managed x then Some (RecordedTransport (ev_turn ev)) else None) = Inr ev"
proof (cases "managed x")
  case False
  then show ?thesis using assms(1) advance_unmanaged[OF False, of ext n st tp None] by simp
next
  case True
  from assms(1) obtain st1 f1 a1 st2 f2 a2 st3 f3 a3 st5 label prp act tn a4 where
    ph: "\<not> length (x_candles x) \<le> n" "requested_exit x n st = Inr (st1, f1, a1)"
      "pending_entry x n st1 = Inr (st2, f2, a2)" "settle_position x n st2 = Inr (st3, f3, a3)"
    and d: "decide_bar ext x n (mark_bar x n st3) tp (f1 @ f2 @ f3 \<noteq> []) = Inr (st5, label, prp, act, tn, a4)"
    and ev: "ev = \<lparr>ev_sequence = n, ev_bar = x_candles x ! n, ev_decision = label,
            ev_proposal = prp, ev_actions = a1 @ a2 @ a3 @ a4, ev_fills = f1 @ f2 @ f3,
            ev_state = st5, ev_activation = act, ev_turn = tn, ev_previous = []\<rparr>"
    unfolding advance_def Let_def by (auto split: if_splits)
  then show ?thesis using decide_bar_replay[OF d assms(2) True] True
    by (simp add: advance_def Let_def)
qed

section \<open>Reading back\<close>

definition chain_end :: "(event \<Rightarrow> string) \<Rightarrow> experiment_input \<Rightarrow> event list \<Rightarrow> string" where
  "chain_end checksum x evs = (if evs = [] then x_identity x else checksum (last evs))"

lemma advance_sequence:
  "advance ext x n st tp = Inr ev \<Longrightarrow>
     n < length (x_candles x) \<and> ev_sequence ev = n \<and> ev_bar ev = x_candles x ! n"
  by (erule advance_phases) simp

text \<open>A row is accepted exactly when it is the next event of a deterministic replay.\<close>

lemma read_row_Inr_iff:
  "read_row ext checksum x (evs, previous) (sequence, ev, digest) = Inr (evs', prev') \<longleftrightarrow>
     sequence = length evs \<and> digest = checksum ev \<and> evs' = evs @ [ev] \<and> prev' = digest
     \<and> (\<exists>e. advance ext x (length evs) (journal_state x evs)
              (if managed x then Some (RecordedTransport (ev_turn ev)) else None) = Inr e
            \<and> ev = e\<lparr>ev_previous := previous\<rparr>)"
  by (auto simp: read_row_def not_le dest: advance_sequence)

lemma journal_state_snoc [simp]: "journal_state x (evs @ [ev]) = ev_state ev"
  by (simp add: journal_state_def)

lemma read_rows_reached:
  assumes "rfold (read_row ext checksum x) ([], x_identity x) rows = Inr (evs, prev)"
  shows "reached ext x (journal_state x evs) evs \<and> prev = chain_end checksum x evs
    \<and> rows = map (\<lambda>ev. (ev_sequence ev, ev, checksum ev)) evs"
  using assms
proof (induction rows arbitrary: evs prev rule: rev_induct)
  case Nil
  then show ?case by (auto simp: journal_state_def chain_end_def intro: reached_init)
next
  case (snoc rw rows)
  obtain sq ev dg where rw: "rw = (sq, ev, dg)" by (cases rw)
  from snoc.prems obtain evs0 prev0 where
    a: "rfold (read_row ext checksum x) ([], x_identity x) rows = Inr (evs0, prev0)"
    and b: "read_row ext checksum x (evs0, prev0) (sq, ev, dg) = Inr (evs, prev)"
    by (auto simp: rfold_append rw)
  note IH = snoc.IH[OF a]
  from b obtain e where e: "sq = length evs0" "dg = checksum ev" "evs = evs0 @ [ev]" "prev = dg"
    "advance ext x (length evs0) (journal_state x evs0)
       (if managed x then Some (RecordedTransport (ev_turn ev)) else None) = Inr e"
    "ev = e\<lparr>ev_previous := prev0\<rparr>"
    unfolding read_row_Inr_iff by blast
  from reached_bar[OF conjunct1[OF IH] e(5), of prev0] have "reached ext x (journal_state x evs) evs"
    by (simp add: e)
  moreover have "ev_sequence ev = sq" using advance_sequence[OF e(5)] e(1,6) by simp
  ultimately show ?case using IH e by (auto simp: chain_end_def rw)
qed

lemma read_events_rows:
  assumes "read_events ext checksum x rows = Inr evs"
  shows "rfold (read_row ext checksum x) ([], x_identity x) rows = Inr (evs, chain_end checksum x evs)"
  using assms read_rows_reached[of ext checksum x rows] by (fastforce simp: read_events_def)

lemma run_bar_readable:
  assumes "run_bar ext checksum x tp rows = Inr (Some rows')" and "transport_ok tp"
  shows "\<exists>evs ev. read_events ext checksum x rows = Inr evs
    \<and> read_events ext checksum x rows' = Inr (evs @ [ev])
    \<and> length evs < length (x_candles x) \<and> is_ok (reconcile x (evs @ [ev]))"
proof -
  from assms(1) obtain evs e where r: "read_events ext checksum x rows = Inr evs"
    and a: "advance ext x (length evs) (journal_state x evs) tp = Inr e"
    and rec: "is_ok (reconcile x (evs @ [e\<lparr>ev_previous := chain_end checksum x evs\<rparr>]))"
    and rows': "rows' = rows @ [(length evs, e\<lparr>ev_previous := chain_end checksum x evs\<rparr>,
                       checksum (e\<lparr>ev_previous := chain_end checksum x evs\<rparr>))]"
    by (auto simp: run_bar_def Let_def chain_end_def is_ok_iff split: if_splits)
  let ?ev = "e\<lparr>ev_previous := chain_end checksum x evs\<rparr>"
  have "read_row ext checksum x (evs, chain_end checksum x evs) (length evs, ?ev, checksum ?ev)
      = Inr (evs @ [?ev], checksum ?ev)"
    unfolding read_row_Inr_iff using advance_replay[OF a assms(2)] by auto
  then have "read_events ext checksum x rows' = Inr (evs @ [?ev])"
    using read_events_rows[OF r] by (simp add: rows' read_events_def rfold_append)
  then show ?thesis using r rec advance_sequence[OF a] by blast
qed

text \<open>The rows any sequence of runs has committed, interrupted or not.\<close>

inductive committed :: "externals \<Rightarrow> (event \<Rightarrow> string) \<Rightarrow> experiment_input \<Rightarrow> row list \<Rightarrow> bool"
  for ext checksum x where
  committed_new: "committed ext checksum x []"
| committed_bar: "committed ext checksum x rows \<Longrightarrow> transport_ok tp \<Longrightarrow>
    run_bar ext checksum x tp rows = Inr (Some rows') \<Longrightarrow> committed ext checksum x rows'"

lemma committed_readable:
  assumes "committed ext checksum x rows"
  shows "\<exists>evs. read_events ext checksum x rows = Inr evs \<and> length evs = length rows
    \<and> length rows \<le> length (x_candles x)"
  using assms
proof (induction rule: committed.induct)
  case committed_new
  then show ?case by (simp add: read_events_def)
next
  case (committed_bar rows tp rows')
  from run_bar_readable[OF committed_bar.hyps(3,2)] obtain evs ev where
    r: "read_events ext checksum x rows = Inr evs" "read_events ext checksum x rows' = Inr (evs @ [ev])"
    "length evs < length (x_candles x)" by blast
  have "length rows' = length (evs @ [ev])"
    using read_rows_reached[OF read_events_rows[OF r(2)]] by (metis length_map)
  then show ?case using r by auto
qed

lemma run_bars_committed:
  "committed ext checksum x rows \<Longrightarrow> transport_ok tp \<Longrightarrow>
     committed ext checksum x (fst (run_bars ext checksum x tp n rows))"
  by (induction n arbitrary: rows) (auto intro: committed_bar split: sum.splits option.splits)

text \<open>A run with no limit either stops with an exception or has committed every bar.\<close>

lemma run_bar_length:
  assumes "committed ext checksum x rows" and "transport_ok tp"
    and "run_bar ext checksum x tp rows = Inr (Some rows')"
  shows "length rows' = Suc (length rows)"
  using committed_readable[OF assms(1)] run_bar_readable[OF assms(3,2)]
    committed_readable[OF committed_bar[OF assms]] by auto

lemma run_bar_break:
  "run_bar ext checksum x tp rows = Inr None \<Longrightarrow> read_events ext checksum x rows = Inr evs \<Longrightarrow>
     length evs = length (x_candles x)"
  by (auto simp: run_bar_def Let_def split: if_splits)

lemma run_bars_complete:
  assumes "committed ext checksum x rows" and "transport_ok tp"
    and "run_bars ext checksum x tp n rows = (rows', None)"
  shows "length rows' = length (x_candles x) \<or> length rows' = length rows + n"
  using assms
proof (induction n arbitrary: rows)
  case (Suc n)
  show ?case
  proof (cases "run_bar ext checksum x tp rows")
    case (Inr r)
    show ?thesis
    proof (cases r)
      case None
      obtain evs where "read_events ext checksum x rows = Inr evs" "length evs = length rows"
        using committed_readable[OF Suc.prems(1)] by blast
      then show ?thesis using run_bar_break[of ext checksum x tp rows] Inr None Suc.prems(3) by auto
    next
      case (Some rows1)
      have c: "committed ext checksum x rows1"
        using committed_bar[OF Suc.prems(1,2)] Inr Some by simp
      have "length rows1 = Suc (length rows)"
        using run_bar_length[OF Suc.prems(1,2)] Inr Some by simp
      then show ?thesis using Suc.IH[OF c Suc.prems(2)] Suc.prems(3) Inr Some by simp
    qed
  qed (use Suc.prems(3) in simp)
qed simp

lemma run_experiment_complete:
  assumes "committed ext checksum x rows" and "transport_ok tp"
    and "run_experiment ext checksum x None b tp rows = (rows', None)"
  shows "length rows' = length (x_candles x)"
proof -
  have r: "run_bars ext checksum x tp (Suc (length (x_candles x))) rows = (rows', None)"
    using assms(3) by (auto simp: run_experiment_def split: if_splits)
  have "committed ext checksum x rows'" using run_bars_committed[OF assms(1,2)] r by (metis fst_conv)
  then have "length rows' \<le> length (x_candles x)" using committed_readable by blast
  with run_bars_complete[OF assms(1,2) r] show ?thesis by linarith
qed

end
