(* ===== verification/Exp_Sizing.thy ===== *)
theory Exp_Sizing
  imports Exp_Journal
begin

text \<open>
  The limits an entry keeps. The engine divides and multiplies rounded values and rounds the
  size down to the increment once at the end, so the limits hold up to a relative error,
  which is bounded here: at most \<open>5\<close> parts in \<open>10\<close> to the power \<open>27\<close>.
\<close>

definition sizing_slack :: rat where "sizing_slack = 1 + 10 * ulp"

section \<open>Sizes\<close>

lemma ulp_range: "0 < ulp" "ulp < 1"
  by (simp_all add: ulp_def)

lemma integral_down_floor: "0 \<le> x \<Longrightarrow> integral_down x = of_int \<lfloor>x\<rfloor>"
  by (simp add: integral_down_def)

lemma fractions_range:
  assumes "wf_settings stg"
  shows "0 \<le> fee_of stg" "0 \<le> slip_of stg"
  using assms by (simp_all add: fee_of_def slip_of_def dquot_def wf_settings_def)

lemma slip_le_1: "wf_settings stg \<Longrightarrow> slip_of stg \<le> 1"
proof -
  assume "wf_settings stg"
  then have "s_slippage_bps stg / 10000 \<le> 1" by (simp add: wf_settings_def)
  then have "dround (s_slippage_bps stg / 10000) \<le> dround 1" by (rule dround_mono)
  moreover have "dround 1 = 1" using dround_exact[of 1 0] by simp
  ultimately show ?thesis by (simp add: slip_of_def dquot_def)
qed

text \<open>The three bounds of an entry and the size that comes out of them.\<close>

lemma entry_quantity_parts:
  assumes "entry_quantity stg p cash price stop = Inr q"
  obtains by_cash by_exposure by_risk where
    "by_cash = dquot cash (dmul price (dadd 1 (fee_of stg)))"
    "by_exposure = dquot (dmul cash (case pl_size_fraction p of None \<Rightarrow> s_exposure_fraction stg | Some f \<Rightarrow> f)) price"
    "by_risk = dquot (dmul cash (s_risk_fraction stg))
       (dadd (dsub price (dmul stop (dsub 1 (slip_of stg))))
             (dmul (fee_of stg) (dadd price (dmul stop (dsub 1 (slip_of stg))))))"
    "q = dmul (integral_down (dquot (min (min by_cash by_exposure) by_risk) (s_quantity_increment stg)))
           (s_quantity_increment stg)"
  using assms by (auto simp: entry_quantity_def Let_def ddiv_def split: if_splits)

lemma down_to_increment:
  assumes "dmul (integral_down (dquot m inc)) inc = q" "0 < q" "0 < inc" "m \<le> b"
  shows "q \<le> (1 + ulp) * (1 + ulp) * b"
proof -
  have "0 < integral_down (dquot m inc)"
    using assms(1,2,3) by (auto simp: dmul_def zero_less_mult_iff)
  then have d: "0 \<le> dquot m inc"
    by (rule_tac ccontr) (auto simp: integral_down_def not_le zero_less_ceiling)
  then have m: "0 \<le> m" using assms(3) by (simp add: dquot_def zero_le_divide_iff)
  have "q \<le> (1 + ulp) * (1 + ulp) * m"
    using dec.rnd_increment_le[OF m assms(3)] assms(1) d by (simp add: integral_down_floor dmul_def dquot_def)
  also have "\<dots> \<le> (1 + ulp) * (1 + ulp) * b"
    using assms(4) ulp_range by (intro mult_left_mono) auto
  finally show ?thesis .
qed

lemma slack_products:
  "(1 + ulp) * (1 + ulp) * ((1 + ulp) * (1 + ulp)) \<le> sizing_slack"
  "(1 + ulp) * (1 + ulp) * ((1 + ulp) / ((1 - ulp) * (1 - ulp))) * ((1 + ulp) * (1 + ulp) * (1 + ulp) / (1 - ulp)) \<le> sizing_slack"
  by (simp_all add: ulp_def sizing_slack_def)

text \<open>The exposure limit.\<close>

lemma entry_exposure:
  assumes "entry_quantity stg p cash price stop = Inr q" and "wf_settings stg" and "0 < q" "0 < price" "0 \<le> cash"
    and "0 \<le> fraction" and "fraction = (case pl_size_fraction p of None \<Rightarrow> s_exposure_fraction stg | Some f \<Rightarrow> f)"
  shows "q * price \<le> sizing_slack * (cash * fraction)"
  using assms(1)
proof (rule entry_quantity_parts)
  fix by_cash by_exposure by_risk
  assume e: "by_exposure = dquot (dmul cash (case pl_size_fraction p of None \<Rightarrow> s_exposure_fraction stg | Some f \<Rightarrow> f)) price"
    and q: "q = dmul (integral_down (dquot (min (min by_cash by_exposure) by_risk) (s_quantity_increment stg)))
           (s_quantity_increment stg)"
  have inc: "0 < s_quantity_increment stg" using assms(2) by (simp add: wf_settings_def)
  have cf: "0 \<le> cash * fraction" using assms by simp
  have "q \<le> (1 + ulp) * (1 + ulp) * by_exposure"
    by (rule down_to_increment[OF q[symmetric] assms(3) inc]) simp
  also have "\<dots> \<le> (1 + ulp) * (1 + ulp) * ((1 + ulp) * ((1 + ulp) * (cash * fraction) / price))"
    using cf assms(4) ulp_range dec.rnd_le[OF cf] unfolding e assms(7)[symmetric] dquot_def
    by (intro mult_left_mono dec.rnd_le_trans divide_right_mono) (auto simp: dmul_def)
  finally have "q * price \<le> (1 + ulp) * (1 + ulp) * ((1 + ulp) * ((1 + ulp) * (cash * fraction) / price)) * price"
    using assms(4) by (intro mult_right_mono) auto
  also have "\<dots> = (1 + ulp) * (1 + ulp) * ((1 + ulp) * (1 + ulp)) * (cash * fraction)"
    using assms(4) by (simp add: mult.assoc)
  also have "\<dots> \<le> sizing_slack * (cash * fraction)" using slack_products(1) cf by (rule mult_right_mono)
  finally show ?thesis .
qed

lemma cancel_divisor: "z \<noteq> 0 \<Longrightarrow> c * (a * (y / z)) * z = c * a * (y :: rat)"
  by simp

text \<open>The cash limit, before and with the fee of the fill.\<close>

lemma entry_cash_limit:
  assumes "entry_quantity stg p cash price stop = Inr q" and "wf_settings stg" and "0 < q" "0 < price" "0 \<le> cash"
  shows "q * (price * (1 + fee_of stg)) \<le> (1 + ulp) * (1 + ulp) * ((1 + ulp) / ((1 - ulp) * (1 - ulp))) * cash"
  using assms(1)
proof (rule entry_quantity_parts)
  fix by_cash by_exposure by_risk
  assume e: "by_cash = dquot cash (dmul price (dadd 1 (fee_of stg)))"
    and q: "q = dmul (integral_down (dquot (min (min by_cash by_exposure) by_risk) (s_quantity_increment stg)))
           (s_quantity_increment stg)"
  let ?z = "price * (1 + fee_of stg)" and ?e = "1 - (1 - ulp) * (1 - ulp)"
  have inc: "0 < s_quantity_increment stg" using assms(2) by (simp add: wf_settings_def)
  have f: "0 \<le> fee_of stg" using fractions_range[OF assms(2)] by simp
  have x: "(1 - ulp) * (1 + fee_of stg) \<le> dadd 1 (fee_of stg)"
    using f dec.rnd_ge[of "1 + fee_of stg"] by (simp add: dadd_def)
  have "(1 - ulp) * (price * ((1 - ulp) * (1 + fee_of stg))) \<le> (1 - ulp) * (price * dadd 1 (fee_of stg))"
    using x assms(4) ulp_range by (intro mult_left_mono) auto
  also have "\<dots> \<le> dmul price (dadd 1 (fee_of stg))"
    using f assms(4) dec.rnd_ge[of "price * dadd 1 (fee_of stg)"] by (simp add: dmul_def dadd_def)
  finally have y: "(1 - ?e) * ?z \<le> dmul price (dadd 1 (fee_of stg))" by (simp add: algebra_simps)
  have yp: "0 < dmul price (dadd 1 (fee_of stg))" using f assms(4) by (simp add: dmul_def dadd_def)
  have zp: "0 < ?z" using f assms(4) by simp
  have "q \<le> (1 + ulp) * (1 + ulp) * by_cash"
    by (rule down_to_increment[OF q[symmetric] assms(3) inc]) simp
  also have "\<dots> \<le> (1 + ulp) * (1 + ulp) * ((1 + ulp) / (1 - ?e) * (cash / ?z))"
    using dec.rnd_quotient_le[OF assms(5) yp zp y] ulp_range unfolding e dquot_def
    by (intro mult_left_mono) auto
  finally have "q * ?z \<le> (1 + ulp) * (1 + ulp) * ((1 + ulp) / (1 - ?e) * (cash / ?z)) * ?z"
    using zp by (intro mult_right_mono) auto
  also have "\<dots> = (1 + ulp) * (1 + ulp) * ((1 + ulp) / (1 - ?e)) * cash"
    by (rule cancel_divisor) (use zp in linarith)
  finally show ?thesis by simp
qed

lemma fill_fee_le:
  assumes "wf_settings stg" "0 \<le> q" "0 \<le> price"
  shows "fill_fee stg q price \<le> (1 + ulp) * (1 + ulp) * (1 + ulp) / (1 - ulp) * (q * price * fee_of stg)"
proof -
  let ?b = "s_fee_bps stg" and ?N = "q * price"
  have b: "0 \<le> ?b" using assms(1) by (simp add: wf_settings_def)
  have N: "0 \<le> ?N" using assms by simp
  have "dmul q price * ?b \<le> (1 + ulp) * ?N * ?b"
    using dec.rnd_le[OF N] b by (intro mult_right_mono) (auto simp: dmul_def)
  then have "dmul (dmul q price) ?b \<le> (1 + ulp) * ((1 + ulp) * ?N * ?b)"
    unfolding dmul_def[of "dmul q price"] using N b by (intro dec.rnd_le_trans) (auto simp: dmul_def)
  then have 1: "fill_fee stg q price \<le> (1 + ulp) * ((1 + ulp) * ((1 + ulp) * ?N * ?b) / 10000)"
    unfolding fill_fee_def dquot_def using N b
    by (intro dec.rnd_le_trans divide_right_mono) (auto simp: dmul_def)
  have "(1 - ulp) * (?b / 10000) \<le> fee_of stg" unfolding fee_of_def dquot_def using b by (intro dec.rnd_ge) auto
  then have "?b / 10000 \<le> fee_of stg / (1 - ulp)" using ulp_range by (simp add: pos_le_divide_eq mult.commute)
  then have "(1 + ulp) * (1 + ulp) * (1 + ulp) * ?N * (?b / 10000)
      \<le> (1 + ulp) * (1 + ulp) * (1 + ulp) * ?N * (fee_of stg / (1 - ulp))"
    using N ulp_range by (intro mult_left_mono) auto
  moreover have "(1 + ulp) * ((1 + ulp) * ((1 + ulp) * ?N * ?b) / 10000)
      = (1 + ulp) * (1 + ulp) * (1 + ulp) * ?N * (?b / 10000)" by (simp add: mult.assoc)
  moreover have "(1 + ulp) * (1 + ulp) * (1 + ulp) * ?N * (fee_of stg / (1 - ulp))
      = (1 + ulp) * (1 + ulp) * (1 + ulp) / (1 - ulp) * (?N * fee_of stg)" by (simp add: mult.assoc)
  ultimately show ?thesis using 1 by (simp only:)
qed

lemma entry_spend:
  assumes "entry_quantity stg p cash price stop = Inr q" and "wf_settings stg" and "0 < q" "0 < price" "0 \<le> cash"
  shows "dmul q price + fill_fee stg q price \<le> sizing_slack * cash"
proof -
  let ?w = "(1 + ulp) * (1 + ulp) * (1 + ulp) / (1 - ulp)" and ?N = "q * price"
  have f: "0 \<le> fee_of stg" using fractions_range[OF assms(2)] by simp
  have N: "0 \<le> ?N" using assms by simp
  have "1 + ulp \<le> ?w" by (simp add: ulp_def)
  then have "(1 + ulp) * ?N \<le> ?w * ?N" using N by (rule mult_right_mono)
  then have "dmul q price \<le> ?w * ?N" using dec.rnd_le[OF N] by (simp add: dmul_def)
  then have "dmul q price + fill_fee stg q price \<le> ?w * ?N + ?w * (?N * fee_of stg)"
    using fill_fee_le[OF assms(2), of q price] assms(3,4) by (intro add_mono) auto
  also have "\<dots> = ?w * (q * (price * (1 + fee_of stg)))"
    by (simp only: distrib_left mult_1_right mult.assoc)
  also have "\<dots> \<le> ?w * ((1 + ulp) * (1 + ulp) * ((1 + ulp) / ((1 - ulp) * (1 - ulp))) * cash)"
    using entry_cash_limit[OF assms] ulp_range by (intro mult_left_mono) auto
  also have "\<dots> = (1 + ulp) * (1 + ulp) * ((1 + ulp) / ((1 - ulp) * (1 - ulp))) * ?w * cash"
    by (simp only: ac_simps)
  also have "\<dots> \<le> sizing_slack * cash" using slack_products(2) assms(5) by (intro mult_right_mono) auto
  finally show ?thesis .
qed

text \<open>A sale never costs more in fees than it brings in.\<close>

lemma fill_fee_le_notional:
  assumes "wf_settings stg" "0 \<le> q" "0 \<le> price"
  shows "fill_fee stg q price \<le> dmul q price"
proof -
  have N: "0 \<le> dmul q price" using assms by (simp add: dmul_def)
  then have "dmul q price * s_fee_bps stg \<le> dmul q price * 10 ^ 4"
    using assms(1) by (intro mult_left_mono) (auto simp: wf_settings_def)
  then have "dmul (dmul q price) (s_fee_bps stg) \<le> dmul q price * 10 ^ 4"
    unfolding dmul_def[of "dmul q price"]
    by (rule order_trans[OF dround_mono]) (simp add: dround_mult_pow10[of _ 4, simplified] )
  then have "dmul (dmul q price) (s_fee_bps stg) / 10000 \<le> dmul q price" by simp
  then show ?thesis unfolding fill_fee_def dquot_def
    by (rule order_trans[OF dround_mono]) simp
qed

section \<open>The entry of a bar\<close>

lemma advance_entry:
  assumes "account_inv x st" and "advance ext x n st tp = Inr ev"
    and "f \<in> set (ev_fills ev)" and "ff_side f = ''buy''"
  shows "\<exists>p lower upper stop target. st_pending st = Some p \<and> \<not> st_halted st \<and> st_position st = None
    \<and> ff_price f = dmul (c_open (x_candles x ! n)) (dadd 1 (slip_of (x_settings x)))
    \<and> pl_lower p = Some lower \<and> pl_upper p = Some upper \<and> pl_stop p = Some stop \<and> pl_target p = Some target
    \<and> lower \<le> ff_price f \<and> ff_price f \<le> upper \<and> stop < ff_price f \<and> ff_price f < target
    \<and> entry_quantity (x_settings x) p (st_cash st) (ff_price f) stop = Inr (ff_quantity f)
    \<and> ev_fills ev ! 0 = f"
  using assms(2)
proof (rule advance_phases)
  fix st1 f1 a1 st2 f2 a2 st3 f3 a3
  assume ph: "requested_exit x n st = Inr (st1, f1, a1)" "pending_entry x n st1 = Inr (st2, f2, a2)"
    "settle_position x n st2 = Inr (st3, f3, a3)" "ev_fills ev = f1 @ f2 @ f3"
  note r = requested_exit_books[OF assms(1) ph(1), THEN conjunct2, THEN conjunct2, THEN conjunct2, THEN conjunct2]
  note s = settle_position_books[OF ph(3), THEN conjunct2, THEN conjunct2, THEN conjunct2, THEN conjunct2]
  from ph(2) show ?thesis
  proof (rule pending_entry_cases)
    assume "f2 = []"
    then show ?thesis using r s ph(4) assms(3,4) by auto
  next
    fix g p lower upper stop target q price st1'
    assume a: "st_pending st1 = Some p" "\<not> st_halted st1" "st_position st1 = None"
      "price = dmul (c_open (x_candles x ! n)) (dadd 1 (slip_of (x_settings x)))"
      "pl_lower p = Some lower" "pl_upper p = Some upper" "pl_stop p = Some stop" "pl_target p = Some target"
      "lower \<le> price" "price \<le> upper" "stop < price" "price < target"
      "entry_quantity (x_settings x) p (st_cash st1) price stop = Inr q"
      "do_fill x n (st1\<lparr>st_pending := None\<rparr>) ''buy'' q price = Inr (st1', g)" "f2 = [g]"
    have st1: "f1 = []" "st1 = st" using r a(1) by auto
    have g: "ff_quantity g = q" "ff_price g = price" "ff_side g = ''buy''"
      using do_fill_Inr(4)[OF a(14)] by simp_all
    have "f = g" using assms(3,4) ph(4) st1 s a(15) by auto
    then show ?thesis using a st1 g ph(4) by auto
  qed
qed

end
