(* ===== verification/Exp_Reconcile.thy ===== *)
theory Exp_Reconcile
  imports Exp_Ledger Exp_Sizing
begin

text \<open>
  The journals an experiment writes reconcile.

  \<^verbatim>\<open>reconcile\<close> compares figures that the engine and the shared position reducer compute in
  different orders, and demands equality. Decimal arithmetic is not associative, so the
  comparison can only succeed where no operation rounds: \<open>precise\<close> is a sufficient condition
  on the amounts of a journal (a common grid of \<open>10\<close> to the power \<open>k\<close> and magnitudes seven
  digits below what 28 digits hold on that grid). Under it every engine account equals the
  account derived from its fills, cash stays non-negative, and \<open>reconcile\<close> accepts.
\<close>

section \<open>Exact amounts\<close>

definition amount_cap :: "int \<Rightarrow> rat" where "amount_cap k = 10 powi (k + 21)"
definition price_cap :: "int \<Rightarrow> rat" where "price_cap kp = 10 powi (kp + 27)"

definition fill_fits :: "int \<Rightarrow> int \<Rightarrow> fill_fact \<Rightarrow> bool" where
  "fill_fits k kp f \<longleftrightarrow>
     on_grid k (ff_quantity f * ff_price f) \<and> ff_quantity f * ff_price f \<le> amount_cap k
     \<and> on_grid k (fee_amount f) \<and> fee_amount f \<le> amount_cap k
     \<and> on_grid kp (ff_price f) \<and> ff_price f \<le> price_cap kp"

definition precise :: "int \<Rightarrow> int \<Rightarrow> experiment_input \<Rightarrow> event list \<Rightarrow> bool" where
  "precise k kp x evs \<longleftrightarrow>
     (let init = s_initial_cash (x_settings x); mark = mark_price x evs;
          quantity = st_quantity (journal_state x evs)
      in on_grid k init \<and> init \<le> amount_cap k \<and> list_all (fill_fits k kp) (journal_fills evs)
         \<and> on_grid kp mark \<and> mark \<le> price_cap kp
         \<and> on_grid k (quantity * mark) \<and> quantity * mark \<le> amount_cap k)"

text \<open>A fill the engine can have written, without its bar.\<close>

definition engine_fill :: "fill_fact \<Rightarrow> bool" where
  "engine_fill f \<longleftrightarrow>
     0 < ff_quantity f \<and> 0 < ff_price f \<and> dround (ff_price f) = ff_price f
     \<and> (ff_side f = ''buy'' \<longrightarrow> dround (ff_quantity f) = ff_quantity f)
     \<and> ff_fee f \<noteq> None \<and> 0 \<le> fee_amount f \<and> ff_fee_currency f = Some ''USD''"

text \<open>An amount on the grid, of at most \<open>c\<close> caps; the invariant the booking of a fill keeps.\<close>

definition sized :: "int \<Rightarrow> nat \<Rightarrow> rat \<Rightarrow> bool" where
  "sized k c v \<longleftrightarrow> on_grid k v \<and> \<bar>v\<bar> \<le> of_nat c * amount_cap k"

definition books_inv ::
  "int \<Rightarrow> int \<Rightarrow> dec \<Rightarrow> nat \<Rightarrow> account \<Rightarrow> tally \<Rightarrow> position_state \<Rightarrow> bool" where
  "books_inv k kp init n st t s \<longleftrightarrow>
     st_cash st = ta_cash t \<and> st_fees st = ta_fees t \<and> st_quantity st = ps_quantity s
     \<and> st_cost_basis st = ps_quantity s * ps_entry s + ta_entry_fees t
     \<and> st_realized_net st = st_cash st + st_cost_basis st - init
     \<and> ps_realized s = st_cash st - init + st_fees st + ps_quantity s * ps_entry s
     \<and> ta_realized_fees t = ta_fees t - ta_entry_fees t
     \<and> sized k 1 init \<and> sized k (2 * n + 1) (st_cash st) \<and> sized k n (st_fees st)
     \<and> sized k 1 (ta_entry_fees t) \<and> sized k 1 (ps_quantity s * ps_entry s)
     \<and> on_grid kp (ps_entry s) \<and> 0 \<le> ps_entry s \<and> ps_entry s \<le> price_cap kp
     \<and> dround (ps_quantity s) = ps_quantity s"

definition lot_is :: "dec option \<Rightarrow> position_state \<Rightarrow> tally \<Rightarrow> bool" where
  "lot_is lot s t \<longleftrightarrow>
     (case lot of None \<Rightarrow> ps_quantity s = 0 \<and> ps_entry s = 0 \<and> ta_entry_fees t = 0
      | Some q \<Rightarrow> ps_quantity s = q \<and> 0 < q)"

section \<open>No operation rounds\<close>

lemma amount_cap_pos: "0 < amount_cap k" by (simp add: amount_cap_def)

lemma sized_exact: "sized k c v \<Longrightarrow> c \<le> 10000000 \<Longrightarrow> dround v = v"
proof (rule on_grid_exact)
  assume v: "sized k c v" and c: "c \<le> 10000000"
  have "(of_nat c :: rat) \<le> 10000000" using c by (metis of_nat_le_iff of_nat_numeral)
  then have "of_nat c * amount_cap k \<le> 10000000 * amount_cap k"
    using amount_cap_pos[of k] by (intro mult_right_mono) auto
  moreover have "10000000 * amount_cap k = 10 powi (k + 28)"
    using powi10_add[of "k + 21" 7] by (simp add: amount_cap_def add.assoc)
  ultimately show "\<bar>v\<bar> \<le> 10 powi (k + 28)" using v by (auto simp: sized_def)
qed (simp add: sized_def)

lemma sized_0 [simp]: "sized k c 0"
  using amount_cap_pos[of k] by (simp add: sized_def)

lemma sized_add: "sized k a v \<Longrightarrow> sized k b w \<Longrightarrow> sized k (a + b) (v + w)"
  by (auto simp: sized_def on_grid_add algebra_simps)

lemma sized_minus: "sized k a v \<Longrightarrow> sized k a (- v)"
  by (auto simp: sized_def on_grid_uminus)

lemma sized_diff: "sized k a v \<Longrightarrow> sized k b w \<Longrightarrow> sized k (a + b) (v - w)"
  using sized_add[of k a v b "- w"] sized_minus[of k b w] by simp

lemma sized_mono: "sized k a v \<Longrightarrow> a \<le> b \<Longrightarrow> sized k b v"
  unfolding sized_def using amount_cap_pos[of k]
  by (meson less_imp_le mult_right_mono of_nat_mono order_trans)

lemmas sized_add_le = sized_mono[OF sized_add] and sized_diff_le = sized_mono[OF sized_diff]

lemma dadd_sized: "sized k a v \<Longrightarrow> sized k b w \<Longrightarrow> a + b \<le> 10000000 \<Longrightarrow> dadd v w = v + w"
  unfolding dadd_def by (rule sized_exact[OF sized_add])

lemma dsub_sized: "sized k a v \<Longrightarrow> sized k b w \<Longrightarrow> a + b \<le> 10000000 \<Longrightarrow> dsub v w = v - w"
  unfolding dsub_def by (rule sized_exact[OF sized_diff])

lemma price_diff_exact:
  assumes "on_grid kp a" "on_grid kp b" "0 \<le> a" "0 \<le> b" "a \<le> price_cap kp" "b \<le> price_cap kp"
  shows "dsub a b = a - b"
  unfolding dsub_def
proof (rule on_grid_exact[OF on_grid_diff[OF assms(1,2)]])
  have "price_cap kp * 10 = 10 powi (kp + 28)"
    using powi10_add[of "kp + 27" 1] by (simp add: price_cap_def add.assoc)
  moreover have "\<bar>a - b\<bar> \<le> price_cap kp" using assms by linarith
  moreover have "0 \<le> price_cap kp" by (simp add: price_cap_def)
  ultimately show "\<bar>a - b\<bar> \<le> 10 powi (kp + 28)" by linarith
qed

section \<open>Booking one fill\<close>

lemma fill_amounts:
  assumes "engine_fill f" "fill_fits k kp f"
  shows "sized k 1 (ff_quantity f * ff_price f)" "sized k 1 (fee_amount f)" "on_grid kp (ff_price f)"
    "0 < ff_quantity f" "0 < ff_price f" "ff_price f \<le> price_cap kp"
    "dround (ff_price f) = ff_price f" "\<not> fee_amount f < 0"
    "ff_fee f = Some (fee_amount f)" "ff_fee_currency f = Some ''USD''"
    "dmul (ff_quantity f) (ff_price f) = ff_quantity f * ff_price f"
proof -
  show N: "sized k 1 (ff_quantity f * ff_price f)"
    using assms by (auto simp: engine_fill_def fill_fits_def sized_def)
  show "dmul (ff_quantity f) (ff_price f) = ff_quantity f * ff_price f"
    unfolding dmul_def by (rule sized_exact[OF N]) simp
qed (use assms in \<open>auto simp: engine_fill_def fill_fits_def fee_amount_def sized_def\<close>)

lemma books_buy:
  assumes inv: "books_inv k kp init n st t s" and lot: "lot_is None s t" and n: "n \<le> 10000"
    and f: "engine_fill f" "fill_fits k kp f" "ff_side f = ''buy''"
  shows "\<exists>t' s'. tally_fill t f = Inr t' \<and> project_step s f = Inr s'
    \<and> books_inv k kp init (Suc n) (book_fill st f) t' s' \<and> lot_is (Some (ff_quantity f)) s' t'"
proof -
  let ?q = "ff_quantity f" and ?p = "ff_price f" and ?fee = "fee_amount f"
  let ?N = "?q * ?p"
  note F = fill_amounts[OF f(1,2)]
  note I = inv[unfolded books_inv_def]
  have flat: "ps_quantity s = 0" "ps_entry s = 0" "ta_entry_fees t = 0"
    using lot by (auto simp: lot_is_def)
  have C: "sized k (2 * n + 1) (st_cash st)" "sized k n (st_fees st)" using I by blast+
  have C1: "sized k (2 * n + 2) (st_cash st - ?N)" using sized_diff_le[OF C(1) F(1)] by simp
  have C2: "sized k (2 * n + 3) (st_cash st - ?N - ?fee)" using sized_diff_le[OF C1 F(2)] by simp
  have e: "dsub (st_cash st) ?N = st_cash st - ?N" "dsub (st_cash st - ?N) ?fee = st_cash st - ?N - ?fee"
    "dadd (st_fees st) ?fee = st_fees st + ?fee" "dadd ?N ?fee = ?N + ?fee" "dadd 0 ?fee = ?fee"
    "dsub (- ?N) ?fee = - ?N - ?fee" "dadd (st_cash st) (- ?N - ?fee) = st_cash st - ?N - ?fee"
    using n dsub_sized[OF C(1) F(1)] dsub_sized[OF C1 F(2)] dadd_sized[OF C(2) F(2)]
      dadd_sized[OF F(1,2)] dadd_sized[OF sized_0 F(2), of 0] dsub_sized[OF sized_minus[OF F(1)] F(2)]
      dadd_sized[OF C(1) sized_diff[OF sized_minus[OF F(1)] F(2)]] by simp_all
  have m: "dmul ?N (- 1) = - ?N" "dadd 0 ?N = ?N" "dround ?q = ?q" "dround ?N = ?N"
    using F(11) f(1,3) by (simp_all add: dmul_def dadd_def engine_fill_def)
  define t' where "t' = \<lparr>ta_cash = st_cash st - ?N - ?fee, ta_fees = st_fees st + ?fee,
      ta_entry_fees = ?fee, ta_realized_fees = ta_realized_fees t\<rparr>"
  define s' where "s' = \<lparr>ps_quantity = ?q, ps_entry = ?p, ps_realized = ps_realized s,
      ps_fees = fee_step f (ps_fees s)\<rparr>"
  have ct: "ta_cash t = st_cash st" "ta_fees t = st_fees st" using I by simp_all
  have T: "tally_fill t f = Inr t'"
    by (simp add: tally_fill_def Let_def f(3) F(8-11) m e ct flat t'_def)
  have S: "project_step s f = Inr s'"
    using F(4,7) m by (simp add: project_step_def Let_def f(3) flat dabs_def dmul_def dadd_def ddiv_def dquot_def s'_def)
  have bf: "book_fill st f = st\<lparr>st_cash := st_cash st - ?N - ?fee, st_quantity := ?q,
      st_cost_basis := ?N + ?fee, st_fees := st_fees st + ?fee\<rparr>"
    by (simp add: book_fill_def Let_def f(3) F(11) buy_account_def e)
  have "books_inv k kp init (Suc n) (book_fill st f) t' s'"
    using I F C2 sized_add[OF C(2) F(2)] m flat
    by (simp add: books_inv_def bf t'_def s'_def algebra_simps numeral_3_eq_3)
  then show ?thesis using T S F(4) by (auto simp: lot_is_def s'_def)
qed

lemma books_sell:
  assumes inv: "books_inv k kp init n st t s" and lot: "lot_is (Some (ff_quantity f)) s t" and n: "n \<le> 10000"
    and f: "engine_fill f" "fill_fits k kp f" "ff_side f = ''sell''"
  shows "\<exists>t' s'. tally_fill t f = Inr t' \<and> project_step s f = Inr s'
    \<and> books_inv k kp init (Suc n) (book_fill st f) t' s' \<and> lot_is None s' t'"
proof -
  let ?q = "ff_quantity f" and ?p = "ff_price f" and ?fee = "fee_amount f" and ?E = "ps_entry s"
  let ?N = "?q * ?p" and ?ef = "ta_entry_fees t"
  note F = fill_amounts[OF f(1,2)]
  note I = inv[unfolded books_inv_def]
  have held: "ps_quantity s = ?q" using lot by (simp add: lot_is_def)
  have C: "sized k (2 * n + 1) (st_cash st)" "sized k n (st_fees st)" "sized k 1 ?ef"
    "sized k 1 (?q * ?E)" "sized k 1 init" using I held by auto
  have C1: "sized k (2 * n + 2) (st_cash st + ?N)" using sized_add_le[OF C(1) F(1)] by simp
  have C2: "sized k (2 * n + 3) (st_cash st + ?N - ?fee)" using sized_diff_le[OF C1 F(2)] by simp
  have cb: "st_cost_basis st = ?q * ?E + ?ef" using I held by simp
  have cbs: "sized k 2 (st_cost_basis st)" using sized_add_le[OF C(4,3)] cb by simp
  have R0: "st_realized_net st = st_cash st + st_cost_basis st - init" using I by blast
  have R: "sized k (2 * n + 4) (st_realized_net st)"
    using sized_diff_le[OF sized_add[OF C(1) cbs] C(5)] R0 by simp
  have R1: "sized k (2 * n + 5) (st_realized_net st + ?N)" using sized_add_le[OF R F(1)] by simp
  have R2: "sized k (2 * n + 6) (st_realized_net st + ?N - ?fee)" using sized_diff_le[OF R1 F(2)] by simp
  have P0: "ps_realized s = st_cash st - init + st_fees st + ?q * ?E" using I held by simp
  have P: "sized k (3 * n + 3) (ps_realized s)"
    using sized_add_le[OF sized_add[OF sized_diff[OF C(1,5)] C(2)] C(4)] P0 by simp
  have RF: "sized k (n + 1) (ta_realized_fees t)" using sized_diff[OF C(2,3)] I by simp
  have e: "dadd (st_cash st) ?N = st_cash st + ?N" "dsub (st_cash st + ?N) ?fee = st_cash st + ?N - ?fee"
    "dadd (st_fees st) ?fee = st_fees st + ?fee" "dsub ?N ?fee = ?N - ?fee"
    "dadd (st_cash st) (?N - ?fee) = st_cash st + (?N - ?fee)" "dadd ?ef ?fee = ?ef + ?fee"
    "dadd (ta_realized_fees t) (?ef + ?fee) = ta_realized_fees t + (?ef + ?fee)"
    "dadd (st_realized_net st) ?N = st_realized_net st + ?N"
    "dsub (st_realized_net st + ?N) ?fee = st_realized_net st + ?N - ?fee"
    "dsub (st_realized_net st + ?N - ?fee) (st_cost_basis st) = st_realized_net st + ?N - ?fee - st_cost_basis st"
    "dadd (ps_realized s) (?N - ?q * ?E) = ps_realized s + (?N - ?q * ?E)"
    using n dadd_sized[OF C(1) F(1)] dsub_sized[OF C1 F(2)] dadd_sized[OF C(2) F(2)]
      dsub_sized[OF F(1,2)] dadd_sized[OF C(1) sized_diff[OF F(1,2)]] dadd_sized[OF C(3) F(2)]
      dadd_sized[OF RF sized_add[OF C(3) F(2)]] dadd_sized[OF R F(1)] dsub_sized[OF R1 F(2)]
      dsub_sized[OF R2 cbs] dadd_sized[OF P sized_diff[OF F(1) C(4)]] by simp_all
  have q: "dround ?q = ?q" using I held by simp
  have d: "dsub ?p ?E = ?p - ?E" using I F by (intro price_diff_exact[of kp]) auto
  have g: "dmul ?q (?p - ?E) = ?N - ?q * ?E" "dmul (?N - ?q * ?E) 1 = ?N - ?q * ?E" "dmul ?N 1 = ?N"
    using sized_exact[OF sized_diff[OF F(1) C(4)]] sized_exact[OF F(1)]
    by (simp_all add: dmul_def algebra_simps)
  define t' where "t' = \<lparr>ta_cash = st_cash st + (?N - ?fee), ta_fees = st_fees st + ?fee,
      ta_entry_fees = 0, ta_realized_fees = ta_realized_fees t + (?ef + ?fee)\<rparr>"
  define s' where "s' = \<lparr>ps_quantity = 0, ps_entry = 0, ps_realized = ps_realized s + (?N - ?q * ?E),
      ps_fees = fee_step f (ps_fees s)\<rparr>"
  have ct: "ta_cash t = st_cash st" "ta_fees t = st_fees st" using I by simp_all
  have T: "tally_fill t f = Inr t'"
    by (simp add: tally_fill_def Let_def f(3) F(8-11) g e ct t'_def)
  have S: "project_step s f = Inr s'"
    using F(4) q by (simp add: project_step_def Let_def f(3) held dabs_def dneg_def d g e s'_def dadd_def[of ?q "- ?q"])
  have bf: "book_fill st f = st\<lparr>st_cash := st_cash st + ?N - ?fee,
      st_realized_net := st_realized_net st + ?N - ?fee - st_cost_basis st,
      st_quantity := 0, st_cost_basis := 0, st_position := None, st_fees := st_fees st + ?fee\<rparr>"
    by (simp add: book_fill_def Let_def f(3) F(11) sell_account_def e)
  have "0 \<le> price_cap kp" by (simp add: price_cap_def)
  then have "books_inv k kp init (Suc n) (book_fill st f) t' s'"
    using I F C2 sized_add[OF C(2) F(2)] R0 P0
    by (simp add: books_inv_def bf t'_def s'_def algebra_simps numeral_3_eq_3)
  then show ?thesis using T S by (auto simp: lot_is_def s'_def t'_def)
qed

section \<open>Booking a journal\<close>

lemma books_fold:
  assumes "lots None fs = Some lot" and "list_all engine_fill fs" and "list_all (fill_fits k kp) fs"
    and "length fs \<le> 10000"
    and "books_inv k kp init 0 st0 t0 s0" and "lot_is None s0 t0"
  shows "\<exists>t s. rfold tally_fill t0 fs = Inr t \<and> rfold project_step s0 fs = Inr s
    \<and> books_inv k kp init (length fs) (foldl book_fill st0 fs) t s \<and> lot_is lot s t"
  using assms(1-4)
proof (induction fs arbitrary: lot rule: rev_induct)
  case Nil
  then show ?case using assms(5,6) by simp
next
  case (snoc f fs)
  from snoc.prems(1) obtain lot0 where l0: "lots None fs = Some lot0" "lots lot0 [f] = Some lot"
    by (auto simp: lots_append bind_eq_Some_conv)
  from snoc.IH[OF l0(1)] snoc.prems obtain t s where
    I: "rfold tally_fill t0 fs = Inr t" "rfold project_step s0 fs = Inr s"
      "books_inv k kp init (length fs) (foldl book_fill st0 fs) t s" "lot_is lot0 s t" by auto
  have f: "engine_fill f" "fill_fits k kp f" "length fs \<le> 10000" using snoc.prems by simp_all
  have "\<exists>t' s'. tally_fill t f = Inr t' \<and> project_step s f = Inr s'
      \<and> books_inv k kp init (Suc (length fs)) (book_fill (foldl book_fill st0 fs) f) t' s' \<and> lot_is lot s' t'"
  proof (cases lot0)
    case None
    with l0(2) have "ff_side f = ''buy''" "lot = Some (ff_quantity f)" by (auto split: if_splits)
    then show ?thesis using books_buy[OF I(3) _ f(3,1,2)] I(4) None by simp
  next
    case (Some q)
    with l0(2) have "ff_side f = ''sell''" "q = ff_quantity f" "lot = None" by (auto split: if_splits)
    then show ?thesis using books_sell[OF I(3) _ f(3,1,2)] I(4) Some by simp
  qed
  then show ?case using I(1,2) by (auto simp: rfold_append)
qed

section \<open>The projection of a journal\<close>

lemma sort_key_sorted: "sorted (map k xs) \<Longrightarrow> sort_key k xs = xs"
  by (rule properties_for_sort_key) auto

lemma sorted_by_key:
  assumes "sorted_wrt (<) (map ff_executed_at fs)"
  shows "sorted (map fill_key fs)"
proof -
  have "sorted_wrt (\<lambda>f g. fill_key f \<le> fill_key g) fs"
    using assms unfolding sorted_wrt_map
    by (rule sorted_wrt_mono_rel[rotated]) (auto simp: fill_key_def less_eq_prod_def)
  then show ?thesis by (simp add: sorted_map)
qed

lemma relevant_all:
  assumes "sorted_wrt (<) (map ff_executed_at fs)" and "\<forall>f \<in> set fs. b < ff_executed_at f"
  shows "relevant_fills b fs = fs"
proof -
  have "filter (\<lambda>f. b < ff_executed_at f) fs = fs" using assms(2) by simp
  then show ?thesis unfolding relevant_fills_def using sort_key_sorted[OF sorted_by_key[OF assms(1)]] by simp
qed

lemma group_add_fresh: "t \<notin> fst ` set gs \<Longrightarrow> group_add t f gs = gs @ [(t, [f])]"
  by (induction gs) auto

lemma group_singletons:
  "distinct (map ff_executed_at fs) \<Longrightarrow> group_by_time fs = map (\<lambda>f. (ff_executed_at f, [f])) fs"
proof (induction fs rule: rev_induct)
  case (snoc f fs)
  then have "ff_executed_at f \<notin> fst ` set (map (\<lambda>f. (ff_executed_at f, [f])) fs)" by force
  with snoc show ?case by (simp add: group_by_time_def group_add_fresh)
qed (simp add: group_by_time_def)

lemma order_reasons_singletons: "order_reasons held (map (\<lambda>f. (ff_executed_at f, [f])) fs) = []"
  by (induction fs arbitrary: held) (auto simp: ambiguous_group_def)

lemma project_ordered:
  assumes "sorted_wrt (<) (map ff_executed_at fs)" and "\<forall>f \<in> set fs. pb_effective_at b < ff_executed_at f"
    and "\<forall>f \<in> set fs. ff_symbol f = symbol" and "pb_symbol b = symbol"
    and "rfold project_step \<lparr>ps_quantity = pb_quantity b,
           ps_entry = (case pb_entry_price b of None \<Rightarrow> 0 | Some e \<Rightarrow> e), ps_realized = 0, ps_fees = []\<rparr> fs = Inr s"
  shows "\<exists>pp. project_position symbol fs (Some b) [] = Inr pp \<and> complete pp
    \<and> pp_quantity pp = Some (ps_quantity s) \<and> pp_entry_price pp = Some (ps_entry s)
    \<and> pp_realized_pnl pp = Some (ps_realized s)"
proof -
  have "distinct (map ff_executed_at fs)" using assms(1) by (simp add: strict_sorted_iff)
  then have "order_reasons (pb_quantity b) (group_by_time fs) = []"
    by (simp add: group_singletons order_reasons_singletons)
  then show ?thesis using assms
    by (simp add: project_position_def Let_def relevant_all list_ex_iff complete_def)
qed

section \<open>Reconciliation succeeds\<close>

lemma check_account_ok:
  assumes inv: "books_inv k kp (s_initial_cash (x_settings x)) n st t s" and n: "n \<le> 10000"
    and mark: "on_grid kp mark" "0 \<le> mark" "mark \<le> price_cap kp" "sized k 1 (ps_quantity s * mark)"
    and pos: "0 \<le> st_cash st" "0 \<le> ps_quantity s"
  shows "is_ok (check_account x st t (ps_quantity s) (ps_entry s) (ps_realized s) mark c)"
proof -
  let ?Q = "ps_quantity s" and ?E = "ps_entry s" and ?i = "s_initial_cash (x_settings x)"
  note I = inv[unfolded books_inv_def]
  have S: "sized k 1 ?i" "sized k (2 * n + 1) (st_cash st)" "sized k n (st_fees st)"
    "sized k 1 (ta_entry_fees t)" "sized k 1 (?Q * ?E)" using I by blast+
  have Eq: "st_cost_basis st = ?Q * ?E + ta_entry_fees t" "st_realized_net st = st_cash st + st_cost_basis st - ?i"
    "ps_realized s = st_cash st - ?i + st_fees st + ?Q * ?E" "ta_realized_fees t = ta_fees t - ta_entry_fees t"
    "ta_cash t = st_cash st" "ta_fees t = st_fees st" using I by simp_all
  have P: "sized k (3 * n + 3) (ps_realized s)"
    using sized_add_le[OF sized_add[OF sized_diff[OF S(2,1)] S(3)] S(5)] Eq(3) by simp
  have cb: "sized k 2 (st_cost_basis st)" using sized_add_le[OF S(5,4)] Eq(1) by simp
  have rf: "sized k (n + 1) (ta_realized_fees t)" using sized_diff_le[OF S(3,4)] Eq by simp
  have R: "sized k (2 * n + 4) (st_realized_net st)"
    using sized_diff_le[OF sized_add[OF S(2) cb] S(1)] Eq(2) by simp
  have eq: "sized k (2 * n + 2) (st_cash st + ?Q * mark)" using sized_add_le[OF S(2) mark(4)] by simp
  have un: "sized k 3 (?Q * mark - st_cost_basis st)" using sized_diff_le[OF mark(4) cb] by simp
  have g: "sized k 2 (?Q * mark - ?Q * ?E)" using sized_diff_le[OF mark(4) S(5)] by simp
  have pn: "sized k (3 * n + 5) (ps_realized s + (?Q * mark - ?Q * ?E))" using sized_add_le[OF P g] by simp
  have d: "dsub mark ?E = mark - ?E" using mark I by (intro price_diff_exact[of kp]) auto
  have m: "dmul ?Q mark = ?Q * mark" "dmul ?Q ?E = ?Q * ?E" "dmul ?Q (mark - ?E) = ?Q * mark - ?Q * ?E"
    using sized_exact[OF mark(4)] sized_exact[OF S(5)] sized_exact[OF g] by (simp_all add: dmul_def algebra_simps)
  have e: "dadd (st_cash st) (?Q * mark) = st_cash st + ?Q * mark"
    "dsub (?Q * mark) (st_cost_basis st) = ?Q * mark - st_cost_basis st"
    "dadd (ps_realized s) (?Q * mark - ?Q * ?E) = ps_realized s + (?Q * mark - ?Q * ?E)"
    "dsub (ps_realized s + (?Q * mark - ?Q * ?E)) (st_fees st) = ps_realized s + (?Q * mark - ?Q * ?E) - st_fees st"
    "dadd (?Q * ?E) (ta_entry_fees t) = ?Q * ?E + ta_entry_fees t"
    "dsub (ps_realized s) (ta_realized_fees t) = ps_realized s - ta_realized_fees t"
    "dsub (st_cash st + ?Q * mark) ?i = st_cash st + ?Q * mark - ?i"
    "dadd (st_realized_net st) (?Q * mark - st_cost_basis st) = st_realized_net st + (?Q * mark - st_cost_basis st)"
    using n dadd_sized[OF S(2) mark(4)] dsub_sized[OF mark(4) cb] dadd_sized[OF P g] dsub_sized[OF pn S(3)]
      dadd_sized[OF S(5,4)] dsub_sized[OF P rf] dsub_sized[OF eq S(1)] dadd_sized[OF R un] by simp_all
  have q: "st_quantity st = ?Q" using I by simp
  show ?thesis
    unfolding check_account_def Let_def Eq(5,6) m d e q
    using pos Eq by (simp add: algebra_simps)
qed

lemma load_fill_same:
  assumes "bar_fill x n f" "x_symbol x \<noteq> []"
  shows "load_fill f = Inr f"
  using assms by (auto simp: load_fill_def new_fill_fact_def bar_fill_def fill_identity_def)

lemma fee_nonneg: "wf_settings stg \<Longrightarrow> 0 \<le> q \<Longrightarrow> 0 \<le> p \<Longrightarrow> 0 \<le> fill_fee stg q p"
  by (simp add: fill_fee_def dquot_def dmul_def wf_settings_def)

lemma bar_fill_engine: "bar_fill x n f \<Longrightarrow> wf_settings (x_settings x) \<Longrightarrow> engine_fill f"
  by (auto simp: bar_fill_def engine_fill_def fee_amount_def intro!: fee_nonneg)

section \<open>Cash stays non-negative\<close>

lemma books_inv_cash: "books_inv k kp init n st t s \<Longrightarrow> sized k (2 * n + 1) (st_cash st)"
  unfolding books_inv_def by blast

lemma book_cash:
  assumes "books_inv k kp init n st t s" and "n \<le> 10000" and "engine_fill f" "fill_fits k kp f"
  shows "st_cash (book_fill st f)
    = st_cash st + (if ff_side f = ''buy'' then - 1 else 1) * (ff_quantity f * ff_price f) - fee_amount f"
proof -
  let ?N = "ff_quantity f * ff_price f" and ?fee = "fee_amount f"
  note F = fill_amounts[OF assms(3,4)]
  have C: "sized k (2 * n + 1) (st_cash st)" by (rule books_inv_cash[OF assms(1)])
  have e: "dsub (st_cash st) ?N = st_cash st - ?N" "dsub (st_cash st - ?N) ?fee = st_cash st - ?N - ?fee"
    "dadd (st_cash st) ?N = st_cash st + ?N" "dsub (st_cash st + ?N) ?fee = st_cash st + ?N - ?fee"
    using assms(2) dsub_sized[OF C F(1)] dsub_sized[OF sized_diff[OF C F(1)] F(2)]
      dadd_sized[OF C F(1)] dsub_sized[OF sized_add[OF C F(1)] F(2)] by simp_all
  show ?thesis by (simp add: book_fill_def Let_def F(11) buy_account_def sell_account_def e)
qed

lemma on_grid_above:
  assumes "on_grid k v" and "- (10 powi k) < v"
  shows "0 \<le> v"
proof -
  obtain m :: int where v: "v = of_int m * 10 powi k" using assms(1) by (auto simp: on_grid_def)
  have "- 1 * 10 powi k < of_int m * (10 powi k :: rat)" using assms(2) v by simp
  then have "- 1 < (of_int m :: rat)" using mult_less_cancel_right_pos[OF powi10_pos] by blast
  then have "0 \<le> m" by linarith
  then show ?thesis using v by simp
qed

lemma spend_within_grid:
  assumes "sized k (2 * n + 1) c" and "n \<le> 10000" and "0 \<le> c"
  shows "10 * ulp * c < 10 powi k"
proof -
  have "c \<le> of_nat (2 * n + 1) * amount_cap k" using assms(1,3) by (simp add: sized_def)
  also have "\<dots> \<le> 20001 * amount_cap k"
  proof (rule mult_right_mono)
    have "2 * n + 1 \<le> 20001" using assms(2) by simp
    then show "(of_nat (2 * n + 1) :: rat) \<le> 20001" by (metis of_nat_le_iff of_nat_numeral)
  qed (simp add: amount_cap_def)
  also have "amount_cap k = 10 powi k * 10 ^ 21" using powi10_add[of k 21] by (simp add: amount_cap_def)
  finally have "10 * ulp * c \<le> 10 * ulp * (20001 * (10 powi k * 10 ^ 21))"
    using ulp_range by (intro mult_left_mono) auto
  also have "\<dots> < 10 powi k" by (simp add: ulp_def)
  finally show ?thesis .
qed

text \<open>One fill of the journal, with what the engine knows when it makes it.\<close>

lemma fill_keeps_cash:
  assumes inv: "books_inv k kp init n st t s" and n: "n \<le> 10000" and wf: "wf_settings (x_settings x)"
    and f: "bar_fill x i f" "fill_fits k kp f" and pos: "0 \<le> st_cash st"
    and entry: "ff_side f = ''buy'' \<Longrightarrow>
      \<exists>p stop. entry_quantity (x_settings x) p (st_cash st) (ff_price f) stop = Inr (ff_quantity f)"
    and after: "on_grid k (st_cash (book_fill st f))"
  shows "0 \<le> st_cash (book_fill st f)"
proof -
  note ef = bar_fill_engine[OF f(1) wf]
  note F = fill_amounts[OF ef f(2)]
  note c = book_cash[OF inv n ef f(2)]
  have fee: "fee_amount f = fill_fee (x_settings x) (ff_quantity f) (ff_price f)"
    using f(1) by (simp add: bar_fill_def fee_amount_def)
  show ?thesis
  proof (cases "ff_side f = ''buy''")
    case False
    then show ?thesis
      using c pos F(11) fill_fee_le_notional[OF wf, of "ff_quantity f" "ff_price f"] F(4,5) fee by simp
  next
    case True
    from entry[OF True] obtain p stop where
      q: "entry_quantity (x_settings x) p (st_cash st) (ff_price f) stop = Inr (ff_quantity f)" by blast
    have "dmul (ff_quantity f) (ff_price f) + fee_amount f \<le> st_cash st + 10 * ulp * st_cash st"
      using entry_spend[OF q wf F(4,5) pos] fee by (simp add: sizing_slack_def algebra_simps)
    moreover have "10 * ulp * st_cash st < 10 powi k"
      using inv n pos by (intro spend_within_grid) (auto simp: books_inv_def)
    ultimately have "- (10 powi k) < st_cash (book_fill st f)" using c True F(11) by simp
    then show ?thesis by (rule on_grid_above[OF after])
  qed
qed

section \<open>Reachable journals\<close>

definition start_tally :: "experiment_input \<Rightarrow> tally" where
  "start_tally x = \<lparr>ta_cash = s_initial_cash (x_settings x), ta_fees = 0, ta_entry_fees = 0, ta_realized_fees = 0\<rparr>"

definition start_position :: position_state where
  "start_position = \<lparr>ps_quantity = 0, ps_entry = 0, ps_realized = 0, ps_fees = []\<rparr>"

text \<open>The part of \<open>precise\<close> that concerns cash and fills, which a prefix of a journal inherits.\<close>

definition precise_fills :: "int \<Rightarrow> int \<Rightarrow> experiment_input \<Rightarrow> fill_fact list \<Rightarrow> bool" where
  "precise_fills k kp x fs \<longleftrightarrow>
     sized k 1 (s_initial_cash (x_settings x)) \<and> list_all (fill_fits k kp) fs"

lemma journal_bar_fills:
  assumes "journal_ok x evs st" "f \<in> set (journal_fills evs)"
  shows "\<exists>i < length evs. bar_fill x i f"
  using assms journal_fills_bar[OF assms(2)] by (fastforce simp: journal_ok_def list_all_iff)

lemma journal_fill_count:
  assumes "journal_ok x evs st" "wf_input x"
  shows "length (journal_fills evs) \<le> 10000"
proof -
  have "\<forall>ev \<in> set evs. length (ev_fills ev) \<le> 2"
  proof
    fix ev assume "ev \<in> set evs"
    then have "bar_shape (ev_fills ev)" using assms(1) by (auto simp: journal_ok_def in_set_conv_nth)
    then have "length (map ff_side (ev_fills ev)) \<le> 2" by (auto simp: bar_shape_def)
    then show "length (ev_fills ev) \<le> 2" by simp
  qed
  then have "length (journal_fills evs) \<le> 2 * length evs"
    by (induction evs rule: rev_induct) auto
  then show ?thesis using assms by (auto simp: journal_ok_def wf_input_def)
qed

lemma start_books:
  assumes "wf_input x" "sized k 1 (s_initial_cash (x_settings x))"
  shows "books_inv k kp (s_initial_cash (x_settings x)) 0 (initial_state x) (start_tally x) start_position"
    and "lot_is None start_position (start_tally x)"
  using assms by (simp_all add: books_inv_def lot_is_def start_tally_def start_position_def initial_state_def
      wf_input_def wf_settings_def price_cap_def)

text \<open>The books of any prefix of the fills of a journal.\<close>

lemma prefix_books:
  assumes "journal_ok x evs st" "wf_input x" "precise_fills k kp x (journal_fills evs)"
    and "journal_fills evs = fs @ gs"
  shows "\<exists>lot t s. lots None fs = Some lot \<and> rfold tally_fill (start_tally x) fs = Inr t
    \<and> rfold project_step start_position fs = Inr s
    \<and> books_inv k kp (s_initial_cash (x_settings x)) (length fs) (foldl book_fill (initial_state x) fs) t s
    \<and> lot_is lot s t"
proof -
  have "lots None (fs @ gs) = Some (open_lot st)" using assms(1,4) by (simp add: journal_ok_def)
  then obtain lot where lot: "lots None fs = Some lot" by (auto simp: lots_append bind_eq_Some_conv)
  have "\<forall>f \<in> set (journal_fills evs). engine_fill f"
    using journal_bar_fills[OF assms(1)] bar_fill_engine assms(2) by (auto simp: wf_input_def)
  then have ef: "list_all engine_fill fs" using assms(4) by (simp add: list_all_iff)
  have "list_all (fill_fits k kp) fs" "sized k 1 (s_initial_cash (x_settings x))"
    using assms(3,4) by (simp_all add: precise_fills_def)
  moreover have "length fs \<le> 10000" using journal_fill_count[OF assms(1,2)] assms(4) by simp
  ultimately show ?thesis using books_fold[OF lot ef] start_books[OF assms(2)] lot by blast
qed

lemma cash_amounts: "amounts a = amounts b \<Longrightarrow> st_cash a = st_cash b"
  by (simp add: amounts_def)

lemma prefix_cash_step:
  assumes "journal_ok x evs st" "wf_input x" "precise_fills k kp x (journal_fills evs)"
    and "journal_fills evs = fs @ f # gs" and "0 \<le> st_cash (foldl book_fill (initial_state x) fs)"
    and "ff_side f = ''buy'' \<Longrightarrow> \<exists>p stop. entry_quantity (x_settings x) p
          (st_cash (foldl book_fill (initial_state x) fs)) (ff_price f) stop = Inr (ff_quantity f)"
  shows "0 \<le> st_cash (foldl book_fill (initial_state x) (fs @ [f]))"
proof -
  from prefix_books[OF assms(1-4)] obtain t s where
    I: "books_inv k kp (s_initial_cash (x_settings x)) (length fs) (foldl book_fill (initial_state x) fs) t s"
    by blast
  from prefix_books[OF assms(1-3), of "fs @ [f]" gs] assms(4) obtain t' s' where
    I': "books_inv k kp (s_initial_cash (x_settings x)) (length (fs @ [f])) (foldl book_fill (initial_state x) (fs @ [f])) t' s'"
    by auto
  have after: "on_grid k (st_cash (book_fill (foldl book_fill (initial_state x) fs) f))"
    using books_inv_cash[OF I'] by (simp add: sized_def)
  have n: "length fs \<le> 10000" using journal_fill_count[OF assms(1,2)] assms(4) by simp
  obtain i where i: "bar_fill x i f" using journal_bar_fills[OF assms(1)] assms(4) by auto
  have fit: "fill_fits k kp f" using assms(3,4) by (simp add: precise_fills_def)
  have wf: "wf_settings (x_settings x)" using assms(2) by (simp add: wf_input_def)
  show ?thesis using fill_keeps_cash[OF I n wf i fit assms(5) assms(6) after] by simp
qed

lemma reached_cash_nonneg:
  assumes "reached ext x st evs" and "wf_input x" and "precise_fills k kp x (journal_fills evs)"
  shows "0 \<le> st_cash st"
  using assms
proof (induction rule: reached.induct)
  case reached_init
  then show ?case by (simp add: initial_state_def wf_input_def wf_settings_def)
next
  case (reached_bar st evs tp ev link)
  let ?ev = "ev\<lparr>ev_previous := link\<rparr>" and ?A = "initial_state x" and ?old = "journal_fills evs"
  note pr = reached_bar.prems(2)
  have jf: "journal_fills (evs @ [?ev]) = ?old @ ev_fills ev" by simp
  have old: "precise_fills k kp x ?old" using pr by (simp add: precise_fills_def)
  have IH: "0 \<le> st_cash st" using reached_bar.IH reached_bar.prems(1) old by simp
  note rj = reached_journal_ok[OF reached_bar.hyps(1) reached_bar.prems(1)]
  note inv = reached_inv[OF reached_bar.hyps(1) reached_bar.prems(1)]
  note j = reached_journal_ok[OF reached.reached_bar[OF reached_bar.hyps] reached_bar.prems(1), of link]
  have am: "amounts st = amounts (foldl book_fill ?A ?old)" using rj by (simp add: journal_ok_def)
  have c0: "st_cash (foldl book_fill ?A ?old) = st_cash st" using cash_amounts[OF am] by simp
  have fin: "st_cash (ev_state ev) = st_cash (foldl book_fill ?A (?old @ ev_fills ev))"
    using j jf by (intro cash_amounts) (simp add: journal_ok_def del: foldl_append)
  note shape = advance_books(4)[OF inv reached_bar.hyps(2)]
  note entry = advance_entry[OF inv reached_bar.hyps(2)]
  note step = prefix_cash_step[OF j reached_bar.prems(1) pr]
  show ?case
  proof (cases "ev_fills ev")
    case Nil
    then show ?thesis using fin c0 IH by simp
  next
    case (Cons f rest)
    have 1: "0 \<le> st_cash (foldl book_fill ?A (?old @ [f]))"
    proof (rule step)
      show "journal_fills (evs @ [?ev]) = ?old @ f # rest" using jf Cons by simp
      show "0 \<le> st_cash (foldl book_fill ?A ?old)" using c0 IH by simp
      show "\<exists>p stop. entry_quantity (x_settings x) p (st_cash (foldl book_fill ?A ?old)) (ff_price f) stop
          = Inr (ff_quantity f)" if "ff_side f = ''buy''"
        using entry[of f] that Cons c0 by auto
    qed
    show ?thesis
    proof (cases rest)
      case Nil
      then show ?thesis using fin Cons 1 by simp
    next
      case (Cons g more)
      then have g: "ff_side g = ''sell''" "more = []"
        using shape \<open>ev_fills ev = f # rest\<close> by (auto simp: bar_shape_def)
      have "0 \<le> st_cash (foldl book_fill ?A ((?old @ [f]) @ [g]))"
        by (rule step[of _ g "[]"]) (use jf 1 g Cons \<open>ev_fills ev = f # rest\<close> in auto)
      then show ?thesis using fin g Cons \<open>ev_fills ev = f # rest\<close> by simp
    qed
  qed
qed

lemma rmap_same: "\<forall>f \<in> set fs. g f = Inr f \<Longrightarrow> rmap g fs = Inr fs"
  by (induction fs) auto

lemma reached_state: "reached ext x st evs \<Longrightarrow> st = journal_state x evs"
  by (induction rule: reached.induct) (auto simp: journal_state_def)

lemma books_inv_amounts:
  "books_inv k kp init n st t s \<Longrightarrow> amounts st' = amounts st \<Longrightarrow> books_inv k kp init n st' t s"
proof -
  assume B: "books_inv k kp init n st t s" and "amounts st' = amounts st"
  then have eqs: "st_cash st' = st_cash st" "st_quantity st' = st_quantity st" "st_fees st' = st_fees st"
    "st_cost_basis st' = st_cost_basis st" "st_realized_net st' = st_realized_net st"
    by (simp_all add: amounts_def)
  show ?thesis using B unfolding books_inv_def eqs .
qed

lemma fills_after_baseline:
  assumes "journal_ok x evs st" "wf_input x" "f \<in> set (journal_fills evs)"
  shows "ts (x_candles x ! 0) - seconds 1 < ff_executed_at f"
proof -
  obtain i where i: "i < length evs" "bar_fill x i f" using journal_bar_fills[OF assms(1,3)] by blast
  then have "ts (x_candles x ! i) < ff_executed_at f" using fill_moment_in_bar by (simp add: bar_fill_def)
  moreover have "ts (x_candles x ! 0) \<le> ts (x_candles x ! i)"
    using i assms hourly_nth[of "x_candles x" i] by (simp add: wf_input_def journal_ok_def hours_def)
  ultimately show ?thesis by (simp add: seconds_def)
qed

theorem reached_reconciles:
  assumes r: "reached ext x st evs" and wf: "wf_input x" and pr: "precise k kp x evs"
  shows "is_ok (reconcile x evs)"
proof -
  let ?fs = "journal_fills evs" and ?mark = "mark_price x evs"
  note j = reached_journal_ok[OF r wf]
  have st: "journal_state x evs = st" using reached_state[OF r] by simp
  note P = pr[unfolded precise_def Let_def st]
  have "0 < s_initial_cash (x_settings x)" "x_symbol x \<noteq> []" "x_candles x \<noteq> []" "hourly (x_candles x)"
    using wf by (auto simp: wf_input_def wf_settings_def)
  note w = this
  have pf: "precise_fills k kp x ?fs" using P w(1) by (simp add: precise_fills_def sized_def)
  from prefix_books[OF j wf pf, of ?fs "[]"] obtain lot t s where
    l: "lots None ?fs = Some lot" "rfold tally_fill (start_tally x) ?fs = Inr t"
      "rfold project_step start_position ?fs = Inr s" "lot_is lot s t"
    and B: "books_inv k kp (s_initial_cash (x_settings x)) (length ?fs) (foldl book_fill (initial_state x) ?fs) t s"
    by auto
  have B': "books_inv k kp (s_initial_cash (x_settings x)) (length ?fs) st t s"
    by (rule books_inv_amounts[OF B]) (use j in \<open>simp add: journal_ok_def\<close>)
  have load: "rmap load_fill ?fs = Inr ?fs"
    using journal_bar_fills[OF j] load_fill_same w(2) by (intro rmap_same) blast
  define b where "b = \<lparr>pb_symbol = x_symbol x, pb_effective_at = ts (x_candles x ! 0) - seconds 1,
      pb_quantity = 0, pb_entry_price = None, pb_evidence = ''Explicit flat synthetic opening inventory'',
      pb_actor_id = ''local-experiment'', pb_covered_order_ids = []\<rparr>"
  have bl: "flat_baseline x = Inr b"
    using w by (simp add: flat_baseline_def new_position_baseline_def b_def is_blank_def is_space_def)
  have "\<exists>pp. project_position (x_symbol x) ?fs (Some b) [] = Inr pp \<and> complete pp
    \<and> pp_quantity pp = Some (ps_quantity s) \<and> pp_entry_price pp = Some (ps_entry s)
    \<and> pp_realized_pnl pp = Some (ps_realized s)"
  proof (rule project_ordered)
    show "sorted_wrt (<) (map ff_executed_at ?fs)"
      using fills_sorted[OF w(4)] j by (simp add: journal_ok_def)
    show "\<forall>f \<in> set ?fs. pb_effective_at b < ff_executed_at f"
      using fills_after_baseline[OF j wf] by (simp add: b_def)
    show "\<forall>f \<in> set ?fs. ff_symbol f = x_symbol x"
      using journal_bar_fills[OF j] by (auto simp: bar_fill_def)
  qed (use l(3) in \<open>simp_all add: b_def start_position_def\<close>)
  then obtain pp where pp: "project_position (x_symbol x) ?fs (Some b) [] = Inr pp" "complete pp"
    "pp_quantity pp = Some (ps_quantity s)" "pp_entry_price pp = Some (ps_entry s)"
    "pp_realized_pnl pp = Some (ps_realized s)" by blast
  have q: "st_quantity st = ps_quantity s" using B' unfolding books_inv_def by blast
  have q0: "0 \<le> ps_quantity s" using l(4) by (auto simp: lot_is_def split: option.splits)
  have mp: "0 \<le> ?mark"
  proof (cases "evs = []")
    case False
    then have "length evs - 1 < length (x_candles x)" using j by (simp add: journal_ok_def) (cases evs; auto)
    then have "wf_candle (x_candles x ! (length evs - 1))" using wf by (simp add: wf_input_def list_all_length)
    then show ?thesis using False by (simp add: mark_price_def wf_candle_def)
  qed (simp add: mark_price_def)
  have "is_ok (check_account x st t (ps_quantity s) (ps_entry s) (ps_realized s) ?mark (length ?fs))"
    using check_account_ok[OF B' journal_fill_count[OF j wf]] P mp q q0 reached_cash_nonneg[OF r wf pf]
    by (simp add: sized_def)
  then show ?thesis
    using load fills_distinct[OF w(4) j] l(2) bl pp st
    by (simp add: reconcile_def Let_def start_tally_def[symmetric])
qed

end
