(* ===== verification/Exp_Examples.thy ===== *)
theory Exp_Examples
  imports Exp_Reconcile
begin

text \<open>
  A concrete experiment on which the properties of the components are exercised: three
  hourly bars, the rulebook channel with the rule \<^verbatim>\<open>hold\<close>, one percent fees. The rule asks
  for an entry on the first bar, the second bar fills it, the third reaches the target. The
  decimal operations are evaluated one by one in the kernel, the rest by rewriting.
\<close>

section \<open>The input\<close>

definition ex_candle :: "int \<Rightarrow> dec \<Rightarrow> dec \<Rightarrow> dec \<Rightarrow> dec \<Rightarrow> candle" where
  "ex_candle i op hi lo cl =
     \<lparr>ts = hours i, c_open = op, c_high = hi, c_low = lo, c_close = cl, c_volume = 1\<rparr>"

definition ex_rules :: rulebook where
  "ex_rules = starting_rulebook\<lparr>rb_entry := ''hold''\<rparr>"

definition ex_settings :: settings where
  "ex_settings =
     \<lparr>s_initial_cash = 1000, s_risk_fraction = 1 / 10, s_exposure_fraction = 1 / 5,
      s_drawdown_fraction = 1 / 10, s_fee_bps = 100, s_slippage_bps = 0,
      s_quantity_increment = 1 / 100\<rparr>"

definition ex_input :: experiment_input where
  "ex_input =
     \<lparr>x_identity = ''0123456789abcdef0123'', x_source = ''recorded'', x_symbol = ''BTC-USD'',
      x_candles = [ex_candle 0 100 101 99 100, ex_candle 1 100 102 98 101, ex_candle 2 101 109 100 108],
      x_settings = ex_settings, x_benchmark = RULEBOOK_CHANNEL, x_scored_index = 0,
      x_manager = None, x_rulebooks = [(0, ex_rules)]\<rparr>"

definition ex_ext :: externals where
  "ex_ext = \<lparr>ext_propose = (\<lambda>_ _. Inr ([], None)), ext_loads = (\<lambda>_ _. Inl (ValueError ''no JSON''))\<rparr>"

definition ex_checksum :: "event \<Rightarrow> string" where
  "ex_checksum ev = str_nat (ev_sequence ev) @ ev_decision ev @ ev_previous ev"

definition ex_plan :: plan where
  "ex_plan =
     \<lparr>pl_decision_id = ''0123456789abcdef-0-rulebook-1'', pl_lower = Some 96, pl_upper = Some 108,
      pl_stop = Some 96, pl_target = Some 108, pl_expires_at = 176400000000,
      pl_size_fraction = Some (1 / 5), pl_thesis = ''ai-rulebook v1: hold''\<rparr>"

definition ex_control :: "rulebook_control option" where
  "ex_control = Some \<lparr>rc_version = 1, rc_exit_pending = False\<rparr>"

section \<open>The states\<close>

definition ex_st1 :: account where
  "ex_st1 =
     \<lparr>st_cash = 1000, st_quantity = 0, st_cost_basis = 0, st_realized_net = 0, st_fees = 0,
      st_peak_equity = 1000, st_halted = False, st_position = None, st_pending = Some ex_plan,
      st_manager = None, st_rulebook = ex_control\<rparr>"

definition ex_st2 :: account where
  "ex_st2 =
     \<lparr>st_cash = 798, st_quantity = 2, st_cost_basis = 202, st_realized_net = 0, st_fees = 2,
      st_peak_equity = 1000, st_halted = False, st_position = Some ex_plan, st_pending = None,
      st_manager = None, st_rulebook = ex_control\<rparr>"

definition ex_buy :: fill_fact where
  "ex_buy =
     \<lparr>ff_fill_id = ''0123456789abcdef-1-buy'', ff_order_id = ''0123456789abcdef-1-buy'',
      ff_client_order_id = ''0123456789abcdef-1-buy'', ff_symbol = ''BTC-USD'', ff_side = ''buy'',
      ff_quantity = 2, ff_price = 100, ff_executed_at = 3600000001, ff_fee = Some 2,
      ff_fee_currency = Some ''USD''\<rparr>"

definition ex_ev0 :: event where
  "ex_ev0 =
     \<lparr>ev_sequence = 0, ev_bar = ex_candle 0 100 101 99 100,
      ev_decision = ''ai-rulebook: consider entry at next open'',
      ev_proposal = Some (PlanProposal ex_plan), ev_actions = [], ev_fills = [], ev_state = ex_st1,
      ev_activation = Some (0, ex_rules), ev_turn = None, ev_previous = []\<rparr>"

definition ex_ev1 :: event where
  "ex_ev1 =
     \<lparr>ev_sequence = 1, ev_bar = ex_candle 1 100 102 98 101,
      ev_decision = ''ai-rulebook: keep position'', ev_proposal = None,
      ev_actions = [''entry filled at next open with costs and current cash limits''],
      ev_fills = [ex_buy], ev_state = ex_st2, ev_activation = None, ev_turn = None,
      ev_previous = []\<rparr>"

lemma ex_wf: "wf_input ex_input"
  by code_simp

section \<open>The first two bars\<close>

lemma ex_fractions: "slip_of ex_settings = 0" "fee_of ex_settings = 1 / 100"
  by code_simp+

lemma ex_ops:
  "dsub 1 0 = 1" "dadd 1 0 = 1" "dmul 100 1 = 100" "dmul 96 1 = 96" "dsub 100 96 = 4"
  "dadd 100 96 = 196" "dmul (1 / 100) 196 = 49 / 25" "dadd 4 (49 / 25) = 149 / 25"
  "dadd 1 (1 / 100) = 101 / 100" "dmul 100 (101 / 100) = 101" "dmul 1000 (1 / 5) = 200"
  "dmul 1000 (1 / 10) = 100" "dquot 200 100 = 2" "dquot 2 (1 / 100) = 200"
  "dmul 200 (1 / 100) = 2" "integral_down 200 = 200" "dmul 2 100 = 200" "dmul 200 100 = 20000"
  "dquot 20000 10000 = 2" "dsub 1000 200 = 800" "dsub 800 2 = 798" "dadd 200 2 = 202"
  "dadd 0 2 = 2" "dmul 2 101 = 202" "dadd 798 202 = 1000" "dsub 1 (1 / 10) = 9 / 10"
  "dmul 1000 (9 / 10) = 900"
  by code_simp+

lemma ex_least: "min (min (dquot 1000 101) 2) (dquot 100 (149 / 25)) = 2"
  by code_simp

lemma ex_entry: "entry_quantity ex_settings ex_plan 1000 100 96 = Inr 2"
  unfolding entry_quantity_def Let_def ex_fractions
  by (simp add: ex_plan_def ddiv_def ex_settings_def ex_ops ex_least)

lemma ex_id: "fill_identity ex_input (Suc 0) ''buy'' = ''0123456789abcdef-1-buy''"
  by code_simp

lemma ex_keep:
  "evaluate ex_input (Suc 0) ex_st2 = Inr (ex_st2, ''ai-rulebook: keep position'', None, None)"
  by code_simp

lemma ex_advance0: "advance ex_ext ex_input 0 (initial_state ex_input) None = Inr ex_ev0"
  by code_simp

lemma ex_bar1:
  "x_candles ex_input ! Suc 0 = ex_candle 1 100 102 98 101" "x_settings ex_input = ex_settings"
  "x_symbol ex_input = ''BTC-USD''" "x_benchmark ex_input = RULEBOOK_CHANNEL" "x_scored_index ex_input = 0"
  "length (x_candles ex_input) = 3" "\<not> managed ex_input"
  by (simp_all add: ex_input_def managed_def RULEBOOK_CHANNEL_def MANAGER_CHANNEL_def)

lemma ex_fill1:
  "do_fill ex_input (Suc 0) (ex_st1\<lparr>st_pending := None\<rparr>) ''buy'' 2 100
     = Inr (ex_st2\<lparr>st_position := None\<rparr>, ex_buy)"
  by (simp add: do_fill_def Let_def ex_bar1 ex_id fill_fee_def ex_settings_def ex_ops buy_account_def
      new_fill_fact_def ex_st1_def ex_st2_def ex_buy_def ex_candle_def hours_def)

lemma ex_entry1:
  "pending_entry ex_input (Suc 0) ex_st1
     = Inr (ex_st2, [ex_buy], [''entry filled at next open with costs and current cash limits''])"
proof -
  have p: "st_pending ex_st1 = Some ex_plan" "\<not> st_halted ex_st1" "st_position ex_st1 = None"
    "st_cash ex_st1 = 1000" by (simp_all add: ex_st1_def)
  have l: "pl_lower ex_plan = Some 96" "pl_upper ex_plan = Some 108" "pl_stop ex_plan = Some 96"
    "pl_target ex_plan = Some 108" by (simp_all add: ex_plan_def)
  have s: "ex_st2\<lparr>st_position := Some ex_plan\<rparr> = ex_st2" by (simp add: ex_st2_def)
  show ?thesis
    by (simp add: pending_entry_def Let_def p l plan_level_def ex_bar1 ex_fractions ex_candle_def ex_ops
        ex_entry ex_fill1 s)
qed

lemma ex_advance1: "advance ex_ext ex_input (Suc 0) ex_st1 None = Inr ex_ev1"
proof -
  have r: "requested_exit ex_input (Suc 0) ex_st1 = Inr (ex_st1, [], [])" by code_simp
  have t: "settle_position ex_input (Suc 0) ex_st2 = Inr (ex_st2, [], [])" by code_simp
  have m: "mark_bar ex_input (Suc 0) ex_st2 = ex_st2"
    by (simp add: mark_bar_def mark_equity_def Let_def ex_bar1 ex_candle_def ex_st2_def ex_ops ex_settings_def)
  show ?thesis
    by (simp add: advance_def Let_def ex_bar1 r ex_entry1 t m decide_bar_def ex_keep ex_ev1_def)
qed

text \<open>The journal of the first two bars, and its precision.\<close>

definition ex_journal :: "event list" where
  "ex_journal = [ex_ev0\<lparr>ev_previous := x_identity ex_input\<rparr>,
                 ex_ev1\<lparr>ev_previous := ex_checksum (ex_ev0\<lparr>ev_previous := x_identity ex_input\<rparr>)\<rparr>]"

lemma ex_reached: "reached ex_ext ex_input ex_st2 ex_journal"
proof -
  let ?e0 = "ex_ev0\<lparr>ev_previous := x_identity ex_input\<rparr>"
  have s0: "ev_state ex_ev0 = ex_st1" and s1: "ev_state ex_ev1 = ex_st2"
    by (simp_all add: ex_ev0_def ex_ev1_def)
  have 1: "reached ex_ext ex_input ex_st1 ([] @ [?e0])"
    using reached_bar[OF reached_init, of ex_ext ex_input None ex_ev0] ex_advance0 s0 by simp
  have "reached ex_ext ex_input ex_st2 ([?e0] @ [ex_ev1\<lparr>ev_previous := ex_checksum ?e0\<rparr>])"
    using reached_bar[OF 1, of None ex_ev1 "ex_checksum ?e0"] ex_advance1 s1 by simp
  then show ?thesis by (simp add: ex_journal_def)
qed

lemma ex_precise: "precise (- 2) 0 ex_input ex_journal"
  by code_simp

end
