(* ===== verification/Exp_Liveness.thy ===== *)
theory Exp_Liveness
  imports Exp_Sizing
begin

text \<open>
  A rulebook experiment never gets stuck: on a well-formed input whose slippage does not
  round to a whole, every reachable state can be advanced by the next bar, whatever transport
  and externals are given. The invariant behind it is that every plan the channel records is
  complete and positive, so that no level is missing, no divisor is zero and no fill is
  refused.
\<close>

section \<open>Complete plans\<close>

definition plan_complete :: "plan \<Rightarrow> bool" where
  "plan_complete p \<longleftrightarrow>
     (\<exists>lower upper stop target. pl_lower p = Some lower \<and> pl_upper p = Some upper
        \<and> pl_stop p = Some stop \<and> pl_target p = Some target
        \<and> 0 < stop \<and> dround stop = stop \<and> 0 < target)"

definition plans_complete :: "account \<Rightarrow> bool" where
  "plans_complete st \<longleftrightarrow>
     (\<forall>p. st_pending st = Some p \<longrightarrow> plan_complete p) \<and> (\<forall>p. st_position st = Some p \<longrightarrow> plan_complete p)"

lemma rulebook_plan_complete:
  assumes "wf_rulebook cap r" and "0 < close"
  shows "plan_complete (rulebook_plan x n r close)"
  using assms
  by (simp add: plan_complete_def rulebook_plan_def Let_def wf_rulebook_def dmul_def dsub_def dadd_def)

lemma candle_prices:
  assumes "wf_input x" and "n < length (x_candles x)"
  shows "0 < c_open (x_candles x ! n)" "0 < c_close (x_candles x ! n)"
proof -
  have "wf_candle (x_candles x ! n)" using assms by (simp add: wf_input_def list_all_length)
  then show "0 < c_open (x_candles x ! n)" "0 < c_close (x_candles x ! n)" by (auto simp: wf_candle_def)
qed

lemma last_close_pos:
  assumes "wf_input x" and "n < length (x_candles x)"
  shows "0 < last (closes_until x n)"
proof -
  have "last (closes_until x n) = c_close (x_candles x ! n)"
    using assms(2) by (auto simp: closes_until_def last_map last_drop take_Suc_conv_app_nth)
  then show ?thesis using candle_prices[OF assms] by simp
qed

section \<open>The phases return\<close>

lemma positive_slip: "slip_of stg < 1 \<Longrightarrow> 0 < level \<Longrightarrow> 0 < dmul level (dsub 1 (slip_of stg))"
  by (simp add: dmul_def dsub_def)

lemma requested_exit_total:
  assumes "account_inv x st" and "wf_input x" and "n < length (x_candles x)" and "slip_of (x_settings x) < 1"
  shows "is_ok (requested_exit x n st)"
proof (cases "exit_pending x st")
  case True
  then have "0 < st_quantity st" using assms(1) by (auto simp: inv_simps)
  then have "is_ok (do_fill x n (clear_exit x st) ''sell'' (st_quantity st)
      (dmul (c_open (x_candles x ! n)) (dsub 1 (slip_of (x_settings x)))))"
    using assms positive_slip[OF assms(4) candle_prices(1)[OF assms(2,3)]]
    by (intro do_fill_total) (auto simp: wf_input_def)
  then show ?thesis using True by (auto simp: requested_exit_def is_ok_iff)
qed (simp add: requested_exit_def)

lemma entry_quantity_total:
  assumes "wf_settings stg" and "0 < price" and "dround price = price"
    and "0 < stop" and "dround stop = stop" and "stop < price"
  shows "is_ok (entry_quantity stg p cash price stop)"
proof -
  have f: "0 \<le> fee_of stg" "0 \<le> slip_of stg" "slip_of stg \<le> 1"
    using fractions_range[OF assms(1)] slip_le_1[OF assms(1)] by auto
  let ?s = "dmul stop (dsub 1 (slip_of stg))"
  have "dround (1 - slip_of stg) \<le> 1"
    using dround_mono[of "1 - slip_of stg" 1] f dround_exact[of 1 0] by simp
  then have "stop * dsub 1 (slip_of stg) \<le> stop" using assms(4) by (simp add: dsub_def)
  then have "?s \<le> stop" using dround_mono[of "stop * dsub 1 (slip_of stg)" stop] assms(5) by (simp add: dmul_def)
  then have lt: "0 < dsub price ?s" using assms(6) by (simp add: dsub_def)
  have "0 \<le> ?s" using assms(4) f by (simp add: dmul_def dsub_def)
  then have "0 \<le> dmul (fee_of stg) (dadd price ?s)" using f assms(2) by (simp add: dmul_def dadd_def)
  with lt have "0 < dadd (dsub price ?s) (dmul (fee_of stg) (dadd price ?s))" by (simp add: dadd_def)
  moreover have "0 < dmul price (dadd 1 (fee_of stg))" using assms(2) f by (simp add: dmul_def dadd_def)
  moreover have "0 < s_quantity_increment stg" using assms(1) by (simp add: wf_settings_def)
  ultimately show ?thesis using assms(2) by (simp add: entry_quantity_def Let_def ddiv_def)
qed

lemma pending_entry_total:
  assumes "plans_complete st" and "wf_input x" and "n < length (x_candles x)"
  shows "is_ok (pending_entry x n st)"
proof (cases "st_pending st")
  case (Some p)
  let ?price = "dmul (c_open (x_candles x ! n)) (dadd 1 (slip_of (x_settings x)))"
  have wf: "wf_settings (x_settings x)" "x_symbol x \<noteq> []" using assms(2) by (simp_all add: wf_input_def)
  obtain lower upper stop target where l: "pl_lower p = Some lower" "pl_upper p = Some upper"
      "pl_stop p = Some stop" "pl_target p = Some target" "0 < stop" "dround stop = stop"
    using assms(1) Some by (auto simp: plans_complete_def plan_complete_def)
  have price: "0 < ?price" "dround ?price = ?price"
    using candle_prices(1)[OF assms(2,3)] fractions_range(2)[OF wf(1)] by (simp_all add: dmul_def dadd_def)
  have q: "is_ok (entry_quantity (x_settings x) p (st_cash (st\<lparr>st_pending := None\<rparr>)) ?price stop)"
    if "stop < ?price" by (rule entry_quantity_total[OF wf(1) price l(5,6) that])
  have fill: "is_ok (do_fill x n (st\<lparr>st_pending := None\<rparr>) ''buy'' quantity ?price)" if "0 < quantity" for quantity
    using that price(1) wf(2) by (intro do_fill_total) auto
  show ?thesis
  proof (cases "st_halted st \<or> st_position st \<noteq> None \<or> \<not> (lower \<le> ?price \<and> ?price \<le> upper)
      \<or> \<not> (stop < ?price \<and> ?price < target)")
    case True
    then show ?thesis using Some l by (auto simp: pending_entry_def Let_def plan_level_def)
  next
    case False
    then obtain quantity where quantity:
        "entry_quantity (x_settings x) p (st_cash (st\<lparr>st_pending := None\<rparr>)) ?price stop = Inr quantity"
      using q by (auto simp: is_ok_iff)
    show ?thesis
    proof (cases "quantity \<le> 0")
      case False
      then obtain r where "do_fill x n (st\<lparr>st_pending := None\<rparr>) ''buy'' quantity ?price = Inr r"
        using fill[of quantity] by (auto simp: is_ok_iff)
      with \<open>\<not> (_ \<or> _)\<close> False quantity Some l show ?thesis
        by (cases r) (simp add: pending_entry_def Let_def plan_level_def)
    qed (use \<open>\<not> (_ \<or> _)\<close> quantity Some l in \<open>simp add: pending_entry_def Let_def plan_level_def\<close>)
  qed
qed (simp add: pending_entry_def)

lemma settle_position_total:
  assumes "plans_complete st" and "position_ok st" and "wf_input x" and "n < length (x_candles x)"
    and "slip_of (x_settings x) < 1"
  shows "is_ok (settle_position x n st)"
proof (cases "st_position st")
  case (Some p)
  obtain stop target where l: "pl_stop p = Some stop" "pl_target p = Some target" "0 < stop" "0 < target"
    using assms(1) Some by (auto simp: plans_complete_def plan_complete_def)
  have q: "0 < st_quantity st" using assms(2) Some by (simp add: position_ok_def)
  have "0 < level" if "exit_trigger (x_candles x ! n) stop target e = Some (level, reason)" for e level reason
    using that l candle_prices[OF assms(3,4)] by (auto simp: exit_trigger_def split: if_splits)
  note level = this
  show ?thesis
  proof (cases "exit_trigger (x_candles x ! n) stop target (pl_expires_at p)")
    case None
    then show ?thesis using Some l by (simp add: settle_position_def plan_level_def)
  next
    case (Some hit)
    obtain exit_price reason where hit: "hit = (exit_price, reason)" by (cases hit)
    have "is_ok (do_fill x n st ''sell'' (st_quantity st) (dmul exit_price (dsub 1 (slip_of (x_settings x)))))"
      using q assms(3) positive_slip[OF assms(5) level[OF Some[unfolded hit]]]
      by (intro do_fill_total) (auto simp: wf_input_def)
    then obtain r where "do_fill x n st ''sell'' (st_quantity st)
        (dmul exit_price (dsub 1 (slip_of (x_settings x)))) = Inr r" by (auto simp: is_ok_iff)
    then show ?thesis
      using \<open>st_position st = Some p\<close> l Some hit by (cases r) (simp add: settle_position_def plan_level_def)
  qed
qed (simp add: settle_position_def)

section \<open>The decision of the rulebook channel\<close>

lemma decide_rulebook:
  assumes "x_benchmark x = RULEBOOK_CHANNEL" and "wf_input x" and "n < length (x_candles x)"
    and "decide_bar ext x n st tp filled = Inr (st', rest)"
  shows "st_position st' = st_position st
    \<and> (\<forall>p. st_pending st' = Some p \<longrightarrow> st_pending st = Some p \<or> plan_complete p)"
proof -
  have nm: "\<not> managed x" using assms(1) by (simp add: managed_def RULEBOOK_CHANNEL_def MANAGER_CHANNEL_def)
  show ?thesis
  proof (cases "x_scored_index x \<le> n")
    case True
    with assms(1,4) obtain label prp act where ev: "evaluate x n st = Inr (st', label, prp, act)"
      by (auto simp: decide_bar_def)
    from ev show ?thesis
    proof (rule evaluate_cases)
      fix eff a
      assume a: "active_rules (x_rulebooks x) (ts (x_candles x ! n)) = Inr a"
        and st': "st' = apply_effect eff (rb_version (snd a)) st"
        and enter: "\<And>p. eff = Enter p \<Longrightarrow> st_position st = None \<and> \<not> st_halted st
            \<and> p = rulebook_plan x n (snd a) (last (closes_until x n))"
      have "wf_rulebook (s_exposure_fraction (x_settings x)) (snd a)"
        using assms(1,2) active_rules_wf[OF _ a] by (auto simp: wf_input_def)
      then have "plan_complete (rulebook_plan x n (snd a) (last (closes_until x n)))"
        by (rule rulebook_plan_complete[OF _ last_close_pos[OF assms(2,3)]])
      then show ?thesis using enter by (cases eff) (auto simp: st')
    qed
  next
    case False
    then show ?thesis using assms(1,4) nm by (auto simp: decide_bar_def split: if_splits)
  qed
qed

lemma decide_rulebook_total:
  assumes "x_benchmark x = RULEBOOK_CHANNEL" and "wf_input x" and "n < length (x_candles x)"
    and "st_rulebook st \<noteq> None"
  shows "is_ok (decide_bar ext x n st tp filled)"
proof -
  have nm: "\<not> managed x" using assms(1) by (simp add: managed_def RULEBOOK_CHANNEL_def MANAGER_CHANNEL_def)
  show ?thesis
    using evaluate_total[OF assms(2,1,3,4)] nm assms(1) by (auto simp: decide_bar_def is_ok_iff not_le)
qed

section \<open>Reachable states advance\<close>

lemma requested_exit_plans:
  assumes "requested_exit x n st = Inr (st1, f1, a1)" and "plans_complete st"
  shows "plans_complete st1"
  using assms(1)
  by (rule requested_exit_cases)
     (use assms(2) in \<open>auto simp: plans_complete_def sell_account_def dest!: do_fill_Inr(5)\<close>)

lemma pending_entry_plans:
  assumes "pending_entry x n st = Inr (st1, f1, a1)" and "plans_complete st"
  shows "plans_complete st1"
  using assms(1)
  by (rule pending_entry_cases)
     (use assms(2) in \<open>auto simp: plans_complete_def buy_account_def dest!: do_fill_Inr(5)\<close>)

lemma settle_position_plans:
  assumes "settle_position x n st = Inr (st1, f1, a1)" and "plans_complete st"
  shows "plans_complete st1"
  using assms(1)
  by (rule settle_position_cases)
     (use assms(2) in \<open>auto simp: plans_complete_def sell_account_def dest!: do_fill_Inr(5)\<close>)

lemma mark_bar_plans [simp]: "plans_complete (mark_bar x n st) = plans_complete st"
  by (simp add: plans_complete_def mark_bar_def Let_def)

lemma advance_plans:
  assumes "x_benchmark x = RULEBOOK_CHANNEL" and "wf_input x" and "plans_complete st"
    and "advance ext x n st tp = Inr ev"
  shows "plans_complete (ev_state ev)"
  using assms(4)
proof (rule advance_phases)
  fix st1 f1 a1 st2 f2 a2 st3 f3 a3 label prp act tn a4
  assume n: "n < length (x_candles x)"
    and ph: "requested_exit x n st = Inr (st1, f1, a1)" "pending_entry x n st1 = Inr (st2, f2, a2)"
      "settle_position x n st2 = Inr (st3, f3, a3)"
    and d: "decide_bar ext x n (mark_bar x n st3) tp (f1 @ f2 @ f3 \<noteq> []) = Inr (ev_state ev, label, prp, act, tn, a4)"
  have "plans_complete (mark_bar x n st3)" 
    using assms(3) ph by (simp add: requested_exit_plans pending_entry_plans settle_position_plans)
  then show ?thesis
    using decide_rulebook[OF assms(1,2) n d] unfolding plans_complete_def by metis
qed

lemma initial_plans: "plans_complete (initial_state x)"
  by (simp add: plans_complete_def initial_state_def)

lemma reached_plans:
  assumes "reached ext x st evs" and "wf_input x" and "x_benchmark x = RULEBOOK_CHANNEL"
  shows "plans_complete st"
  using assms
  by (induction rule: reached.induct) (auto intro: advance_plans initial_plans)

lemma advance_total:
  assumes "account_inv x st" and "plans_complete st" and "wf_input x"
    and "x_benchmark x = RULEBOOK_CHANNEL" and "n < length (x_candles x)" and "slip_of (x_settings x) < 1"
  shows "is_ok (advance ext x n st tp)"
proof -
  obtain st1 f1 a1 where 1: "requested_exit x n st = Inr (st1, f1, a1)"
    using requested_exit_total[OF assms(1,3,5,6)] by (auto simp: is_ok_iff)
  have c1: "core_inv x st1" by (rule requested_exit_inv[OF assms(1) 1])
  have p1: "plans_complete st1" by (rule requested_exit_plans[OF 1 assms(2)])
  obtain st2 f2 a2 where 2: "pending_entry x n st1 = Inr (st2, f2, a2)"
    using pending_entry_total[OF p1 assms(3,5)] by (auto simp: is_ok_iff)
  have c2: "core_inv x st2" "st_pending st2 = None" using pending_entry_inv[OF c1 2] by auto
  have p2: "plans_complete st2" by (rule pending_entry_plans[OF 2 p1])
  obtain st3 f3 a3 where 3: "settle_position x n st2 = Inr (st3, f3, a3)"
    using settle_position_total[OF p2 _ assms(3,5,6)] c2(1) by (auto simp: is_ok_iff inv_simps)
  have "core_inv x (mark_bar x n st3)"
    using mark_bar_inv settle_position_inv[OF c2 3] by blast
  then have "st_rulebook (mark_bar x n st3) \<noteq> None" using assms(4) by (simp add: inv_simps)
  then obtain r where "decide_bar ext x n (mark_bar x n st3) tp (f1 @ f2 @ f3 \<noteq> []) = Inr r"
    using decide_rulebook_total[OF assms(4,3,5)] unfolding is_ok_iff by blast
  then show ?thesis using assms(5) 1 2 3 by (cases r) (simp add: advance_def Let_def)
qed

lemma reached_advances:
  assumes "reached ext x st evs" and "wf_input x" and "x_benchmark x = RULEBOOK_CHANNEL"
    and "slip_of (x_settings x) < 1" and "length evs < length (x_candles x)"
  shows "\<exists>ev. advance ext x (length evs) st tp = Inr ev"
  using advance_total[OF reached_inv[OF assms(1,2)] reached_plans[OF assms(1,2,3)] assms(2,3,5,4)]
  by (simp add: is_ok_iff)

end
