(* ===== verification/Exp_Limits.thy ===== *)
theory Exp_Limits
  imports Exp_Sizing
begin

text \<open>
  The limits a reachable account keeps: every pending plan is sized within the configured
  exposure fraction, whichever channel wrote it, an open position has survived its stop,
  target and expiry on the last bar, and the drawdown halt is monotone and exact.
\<close>

section \<open>The size of a plan\<close>

definition plan_fraction :: "settings \<Rightarrow> plan \<Rightarrow> dec" where
  "plan_fraction stg p = (case pl_size_fraction p of None \<Rightarrow> s_exposure_fraction stg | Some f \<Rightarrow> f)"

definition plan_sized :: "experiment_input \<Rightarrow> plan \<Rightarrow> bool" where
  "plan_sized x p \<longleftrightarrow> 0 < plan_fraction (x_settings x) p
     \<and> plan_fraction (x_settings x) p \<le> s_exposure_fraction (x_settings x)"

definition pending_sized :: "experiment_input \<Rightarrow> account \<Rightarrow> bool" where
  "pending_sized x st \<longleftrightarrow> (\<forall>p. st_pending st = Some p \<longrightarrow> plan_sized x p)"

lemma manage_sized:
  assumes "manage loads x n st tp filled = Inr (st', rest)" and "wf_input x" and "pending_sized x st"
  shows "pending_sized x st'"
proof -
  obtain label prp tn acts where r: "rest = (label, prp, tn, acts)" by (metis prod_cases4)
  have "0 < s_exposure_fraction (x_settings x)" using assms(2) by (simp add: wf_input_def wf_settings_def)
  then show ?thesis
    using manage_effect[OF assms(1)[unfolded r]] assms(3)
    by (auto simp: manager_effect_def pending_sized_def plan_sized_def plan_fraction_def manager_plan_def)
qed

lemma evaluate_sized:
  assumes "evaluate x n st = Inr (st', rest)" and "wf_input x" and "x_benchmark x = RULEBOOK_CHANNEL"
    and "pending_sized x st"
  shows "pending_sized x st'"
proof -
  obtain label prp act where r: "rest = (label, prp, act)" by (metis prod_cases3)
  from assms(1) show ?thesis unfolding r
  proof (rule evaluate_cases)
    fix eff a
    assume a: "active_rules (x_rulebooks x) (ts (x_candles x ! n)) = Inr a"
      and st': "st' = apply_effect eff (rb_version (snd a)) st"
      and enter: "\<And>p. eff = Enter p \<Longrightarrow> st_position st = None \<and> \<not> st_halted st
          \<and> p = rulebook_plan x n (snd a) (last (closes_until x n))"
    have "wf_rulebook (s_exposure_fraction (x_settings x)) (snd a)"
      using assms(2,3) active_rules_wf[OF _ a] by (auto simp: wf_input_def)
    then have "plan_sized x (rulebook_plan x n (snd a) (last (closes_until x n)))"
      by (simp add: plan_sized_def plan_fraction_def rulebook_plan_def Let_def wf_rulebook_def)
    then show ?thesis using enter assms(4) by (cases eff) (auto simp: st' pending_sized_def)
  qed
qed

lemma benchmark_sized:
  assumes "benchmark_decision pr x n st = Inr (st', rest)" and "wf_input x" and "pending_sized x st"
  shows "pending_sized x st'"
proof -
  have e: "0 < s_exposure_fraction (x_settings x)" using assms(2) by (simp add: wf_input_def wf_settings_def)
  have i: "plan_sized x p" if "idea_plan i = Inr p" for i p
    using that e by (auto simp: idea_plan_def plan_sized_def plan_fraction_def split: option.splits)
  from assms(1) obtain ideas refusal where
    "(case ideas of
       idea # _ \<Rightarrow> rbind (idea_plan idea) (\<lambda>p.
         Inr (st\<lparr>st_pending := Some p\<rparr>, x_benchmark x @ '' rule: consider entry at next open'',
              Some (IdeaProposal idea)))
     | [] \<Rightarrow> (case refusal of
            Some r \<Rightarrow> Inr (st, x_benchmark x @ '' '' @ r, None)
          | None \<Rightarrow> Inr (st, if n < HISTORY_BARS - 1 then ''collecting benchmark history''
                       else ''no '' @ x_benchmark x @ '' signal'', None))) = Inr (st', rest)"
    unfolding benchmark_decision_def rbind_Inr_iff by force
  then show ?thesis using assms(3) i
    by (cases ideas; cases refusal) (auto simp: pending_sized_def)
qed

lemma decide_sized:
  assumes "decide_bar ext x n st tp filled = Inr (st', rest)" and "wf_input x" and "pending_sized x st"
  shows "pending_sized x st'"
  using assms
  by (auto simp: decide_bar_def intro: evaluate_sized manage_sized benchmark_sized split: if_splits)

lemma advance_sized:
  assumes "advance ext x n st tp = Inr ev" and "wf_input x"
  shows "pending_sized x (ev_state ev)"
  using assms(1)
proof (rule advance_phases)
  fix st1 f1 a1 st2 f2 a2 st3 f3 a3 label prp act tn a4
  assume ph: "pending_entry x n st1 = Inr (st2, f2, a2)" "settle_position x n st2 = Inr (st3, f3, a3)"
    and d: "decide_bar ext x n (mark_bar x n st3) tp (f1 @ f2 @ f3 \<noteq> []) = Inr (ev_state ev, label, prp, act, tn, a4)"
  have "st_pending st2 = None"
    using ph(1) by (rule pending_entry_cases) (auto simp: buy_account_def dest!: do_fill_Inr(5))
  moreover have "st_pending st3 = st_pending st2"
    using ph(2) by (rule settle_position_cases) (auto simp: sell_account_def dest!: do_fill_Inr(5))
  ultimately have "pending_sized x (mark_bar x n st3)"
    by (simp add: pending_sized_def mark_bar_def Let_def)
  then show ?thesis by (rule decide_sized[OF d assms(2)])
qed

lemma reached_sized: "reached ext x st evs \<Longrightarrow> wf_input x \<Longrightarrow> pending_sized x st"
  by (induction rule: reached.induct) (auto simp: advance_sized, simp add: pending_sized_def initial_state_def)

section \<open>The state after a bar\<close>

text \<open>The mark and the surviving position, which the decision leaves as they are.\<close>

lemma advance_mark:
  fixes x st ev n
  defines "equity \<equiv> mark_equity (ev_state ev) (c_close (x_candles x ! n))"
  assumes "account_inv x st" and "advance ext x n st tp = Inr ev"
  shows "st_peak_equity (ev_state ev) = max (st_peak_equity st) equity
    \<and> (st_halted (ev_state ev) \<longleftrightarrow> st_halted st
         \<or> equity \<le> dmul (st_peak_equity (ev_state ev)) (dsub 1 (s_drawdown_fraction (x_settings x))))
    \<and> (\<forall>p. st_position (ev_state ev) = Some p \<longrightarrow> (\<exists>stop target. pl_stop p = Some stop \<and> pl_target p = Some target
         \<and> exit_trigger (x_candles x ! n) stop target (pl_expires_at p) = None))"
  using assms(3)
proof (rule advance_phases)
  fix st1 f1 a1 st2 f2 a2 st3 f3 a3 label prp act tn a4
  assume ph: "requested_exit x n st = Inr (st1, f1, a1)" "pending_entry x n st1 = Inr (st2, f2, a2)"
    "settle_position x n st2 = Inr (st3, f3, a3)"
    and d: "decide_bar ext x n (mark_bar x n st3) tp (f1 @ f2 @ f3 \<noteq> []) = Inr (ev_state ev, label, prp, act, tn, a4)"
  have "core_inv x (mark_bar x n st3)"
    using requested_exit_inv[OF assms(2) ph(1)] pending_entry_inv[OF _ ph(2)] settle_position_inv[OF _ _ ph(3)]
      mark_bar_inv by metis
  then have eff: "decision_effect x (mark_bar x n st3) (ev_state ev)"
    by (intro decide_bar_effect[OF d]) (auto simp: inv_simps)
  note ef = decision_effect_fields[OF eff]
  have 1: "st_peak_equity st1 = st_peak_equity st \<and> st_halted st1 = st_halted st"
    using ph(1) by (rule requested_exit_cases) (auto simp: sell_account_def dest!: do_fill_Inr(5))
  have 2: "st_peak_equity st2 = st_peak_equity st1 \<and> st_halted st2 = st_halted st1"
    using ph(2) by (rule pending_entry_cases) (auto simp: buy_account_def dest!: do_fill_Inr(5))
  have 3: "st_peak_equity st3 = st_peak_equity st2 \<and> st_halted st3 = st_halted st2"
    using ph(3) by (rule settle_position_cases) (auto simp: sell_account_def dest!: do_fill_Inr(5))
  have 4: "\<exists>stop target. pl_stop p = Some stop \<and> pl_target p = Some target
       \<and> exit_trigger (x_candles x ! n) stop target (pl_expires_at p) = None" if "st_position st3 = Some p" for p
    using ph(3) that by - (rule settle_position_cases, auto simp: sell_account_def dest!: do_fill_Inr(5))
  have m: "mark_equity (ev_state ev) c = mark_equity st3 c" for c
    using ef(1,2) by (simp add: mark_equity_def mark_bar_def Let_def)
  show ?thesis using ef(6-8) 1 2 3 4 by (simp add: equity_def m mark_bar_def Let_def)
qed

end
