(* ===== verification/Exp_Lookahead.thy ===== *)
theory Exp_Lookahead
  imports Exp_Engine
begin

text \<open>
  The engine never looks ahead: what a bar writes depends on the bars up to it only. Two
  inputs that agree on these bars, and on the times of the others (the request to a model
  names the end of the window), give the same event.
\<close>

definition agree_until :: "nat \<Rightarrow> candle list \<Rightarrow> candle list \<Rightarrow> bool" where
  "agree_until n cs ds \<longleftrightarrow> take (n + 1) cs = take (n + 1) ds \<and> map ts cs = map ts ds"

section \<open>What two such inputs share\<close>

lemma agree_length: "agree_until n cs ds \<Longrightarrow> length cs = length ds"
  unfolding agree_until_def by (metis length_map)

lemma agree_nth:
  assumes "agree_until n cs ds" and "i \<le> n"
  shows "cs ! i = ds ! i"
proof -
  have "take (n + 1) cs ! i = take (n + 1) ds ! i" using assms by (simp add: agree_until_def)
  then show ?thesis using assms(2) by simp
qed

lemma agree_last:
  assumes "agree_until n cs ds"
  shows "cs \<noteq> [] \<Longrightarrow> ts (last cs) = ts (last ds)"
proof -
  assume "cs \<noteq> []"
  then have "cs \<noteq> [] \<and> ds \<noteq> []" using agree_length[OF assms] by auto
  then have "last (map ts cs) = ts (last cs)" "last (map ts ds) = ts (last ds)"
    by (simp_all add: last_map)
  then show ?thesis using assms by (simp add: agree_until_def)
qed

lemma agree_take: "agree_until n cs ds \<Longrightarrow> take (n + 1) cs = take (n + 1) ds"
  by (simp add: agree_until_def)

section \<open>The phases\<close>

text \<open>The fields of an input whose bars are replaced; unfolded, as the phases hide them under binders.\<close>

lemma input_fields:
  "x_candles (x\<lparr>x_candles := cs\<rparr>) = cs" "x_settings (x\<lparr>x_candles := cs\<rparr>) = x_settings x"
  "x_benchmark (x\<lparr>x_candles := cs\<rparr>) = x_benchmark x" "x_identity (x\<lparr>x_candles := cs\<rparr>) = x_identity x"
  "x_symbol (x\<lparr>x_candles := cs\<rparr>) = x_symbol x" "x_manager (x\<lparr>x_candles := cs\<rparr>) = x_manager x"
  "x_scored_index (x\<lparr>x_candles := cs\<rparr>) = x_scored_index x" "x_source (x\<lparr>x_candles := cs\<rparr>) = x_source x"
  "x_rulebooks (x\<lparr>x_candles := cs\<rparr>) = x_rulebooks x"
  by simp_all

lemma do_fill_agree:
  "agree_until n cs (x_candles x) \<Longrightarrow> do_fill (x\<lparr>x_candles := cs\<rparr>) n st side q price = do_fill x n st side q price"
  by (simp add: do_fill_def fill_identity_def agree_nth)

lemma phases_agree:
  assumes "agree_until n cs (x_candles x)"
  shows "requested_exit (x\<lparr>x_candles := cs\<rparr>) n st = requested_exit x n st"
    and "pending_entry (x\<lparr>x_candles := cs\<rparr>) n st = pending_entry x n st"
    and "settle_position (x\<lparr>x_candles := cs\<rparr>) n st = settle_position x n st"
    and "mark_bar (x\<lparr>x_candles := cs\<rparr>) n st = mark_bar x n st"
  unfolding requested_exit_def pending_entry_def settle_position_def mark_bar_def exit_pending_def
    clear_exit_def managed_def exit_reason_def do_fill_agree[OF assms] input_fields
    agree_nth[OF assms order_refl]
  by (rule refl)+

lemma evaluate_agree:
  assumes "agree_until n cs (x_candles x)"
  shows "evaluate (x\<lparr>x_candles := cs\<rparr>) n st = evaluate x n st"
  unfolding evaluate_def closes_until_def rulebook_plan_def input_fields
    agree_nth[OF assms order_refl] agree_take[OF assms]
  by (rule refl)

lemma manage_agree:
  assumes "agree_until n cs (x_candles x)" and "x_scored_index x \<le> n" and "n < length cs"
  shows "manage loads (x\<lparr>x_candles := cs\<rparr>) n st tp filled = manage loads x n st tp filled"
proof -
  have "cs \<noteq> []" using assms(3) by auto
  then show ?thesis
    unfolding manage_def turn_due_def build_request_def settle_turn_def apply_decision_def manager_plan_def
      input_fields agree_nth[OF assms(1) order_refl] agree_nth[OF assms(1,2)] agree_take[OF assms(1)]
      agree_last[OF assms(1) \<open>cs \<noteq> []\<close>]
    by (intro refl)
qed

lemma benchmark_agree:
  assumes "agree_until n cs (x_candles x)"
  shows "benchmark_decision pr (x\<lparr>x_candles := cs\<rparr>) n st = benchmark_decision pr x n st"
  unfolding benchmark_decision_def decision_snapshot_def input_fields
    agree_nth[OF assms order_refl] agree_take[OF assms]
  by (rule refl)

lemma decide_agree:
  assumes "agree_until n cs (x_candles x)" and "n < length cs"
  shows "decide_bar ext (x\<lparr>x_candles := cs\<rparr>) n st tp filled = decide_bar ext x n st tp filled"
  using assms
  by (simp add: decide_bar_def managed_def evaluate_agree manage_agree benchmark_agree)

lemma advance_agree:
  assumes "agree_until n cs (x_candles x)"
  shows "advance ext (x\<lparr>x_candles := cs\<rparr>) n st tp = advance ext x n st tp"
proof (cases "n < length cs")
  case True
  then show ?thesis using assms
    by (simp add: advance_def Let_def phases_agree decide_agree agree_length agree_nth not_le)
next
  case False
  then show ?thesis using agree_length[OF assms] by (simp add: advance_def not_le)
qed

end
