(* ===== verification/Exp_Properties.thy ===== *)
theory Exp_Properties
  imports Exp_Examples Exp_Liveness Exp_Limits Exp_Lookahead
begin

text \<open>
  The properties of the experiment's parts below the run: what a parsed input guarantees,
  what a bar may do to the account, and that a bar never looks ahead and never gets stuck.
  Each is followed by its instance on the example experiment.
\<close>

section \<open>Inputs and replies\<close>


definition ex_bar_json :: "int \<Rightarrow> dec \<Rightarrow> dec \<Rightarrow> dec \<Rightarrow> dec \<Rightarrow> json" where
  "ex_bar_json i op hi lo cl =
     JObj [(''ts'', JTime (hours i)), (''open'', JDec (Finite op)), (''high'', JDec (Finite hi)),
           (''low'', JDec (Finite lo)), (''close'', JDec (Finite cl)), (''volume'', JDec (Finite 1))]"

definition ex_payload :: payload where
  "ex_payload =
     [(''schema_version'', JInt 1), (''source'', JStr ''recorded''), (''symbol'', JStr ''BTC-USD''),
      (''recorded_at'', JTime (hours 2)), (''benchmark'', JStr ''ai-rulebook''),
      (''candles'', JArr [ex_bar_json 0 100 101 99 100, ex_bar_json 1 100 102 98 101])]"

lemma ex_parsed: "is_ok (parse_input (\<lambda>_. ''id'') ex_payload)"
  by code_simp


text \<open>
  C26: An accepted model reply is a decision the account can carry out: an entry only while
  flat, with stop below and target above the last close, a positive size and an expiry
  between 1 and 720 hours; an exit only while holding; neither with stray entry fields; and
  reason and rulebook texts within their limits. The JSON parser is any function.
\<close>

theorem accepted_reply_sound:
  assumes "parse_reply loads s holding close = Inr d"
  shows "decision_ok holding close d"
  using assms by (rule parse_reply_ok)

definition ex_loads :: loader where
  "ex_loads hook s = hook [(''action'', JStr ''enter''), (''reason'', JStr s),
     (''size_fraction'', JDec (Finite (1 / 4))), (''stop'', JInt 95), (''target'', JInt 110),
     (''expires_in_hours'', JInt 12)]"

lemma ex_reply_ok: "is_ok (parse_reply ex_loads ''breakout'' False 100)"
  by code_simp

theorem accepted_reply_sound_witness:
  "\<exists>d. parse_reply ex_loads ''breakout'' False 100 = Inr d \<and> decision_ok False 100 d"
  using ex_reply_ok accepted_reply_sound by (fastforce simp: is_ok_iff)

section \<open>Bars\<close>

text \<open>
  C19: The journal and the account agree on every run: the account's amounts are its fills
  booked in order, fills alternate between an entry and a sale of the whole lot, carry
  distinct identities and strictly increasing times, a flat account has no quantity and no
  cost basis and an open one a positive quantity, and a plan is pending only while the
  account is flat and not halted.
\<close>

theorem run_keeps_books:
  assumes "reached ext x st evs" and "wf_input x"
  shows "amounts st = amounts (foldl book_fill (initial_state x) (journal_fills evs))
    \<and> lots None (journal_fills evs) = Some (open_lot st)
    \<and> distinct (map ff_fill_id (journal_fills evs))
    \<and> sorted_wrt (<) (map ff_executed_at (journal_fills evs))
    \<and> (st_position st = None \<longrightarrow> st_quantity st = 0 \<and> st_cost_basis st = 0)
    \<and> (st_position st \<noteq> None \<longrightarrow> 0 < st_quantity st)
    \<and> (st_pending st \<noteq> None \<longrightarrow> st_position st = None \<and> \<not> st_halted st)"
proof -
  have h: "hourly (x_candles x)" using assms(2) by (simp add: wf_input_def)
  note j = reached_journal_ok[OF assms]
  have "account_inv x st" by (rule reached_inv[OF assms])
  moreover have "sorted_wrt (<) (map ff_executed_at (journal_fills evs))"
    by (rule fills_sorted[OF h]) (use j in \<open>simp_all add: journal_ok_def\<close>)
  ultimately show ?thesis
    using j fills_distinct[OF h j] by (simp add: account_inv_def position_ok_def journal_ok_def)
qed

theorem run_keeps_books_witness:
  "lots None (journal_fills ex_journal) = Some (Some 2)
    \<and> amounts ex_st2 = amounts (foldl book_fill (initial_state ex_input) (journal_fills ex_journal))"
  using run_keeps_books[OF ex_reached ex_wf] by (simp add: open_lot_def ex_st2_def)

text \<open>
  C21: Every entry respects the plan and the limits: it fills at the open with slippage,
  inside the plan's zone and between stop and target, only while flat and not halted, its
  plan is sized within the exposure cap, and, on a nonnegative cash, its notional stays
  within the plan's fraction of cash and its whole cost within cash, up to the relative
  rounding error of the 28-digit arithmetic.
\<close>

theorem entries_within_limits:
  assumes "reached ext x st evs" and "wf_input x" and "0 \<le> st_cash st"
    and "advance ext x (length evs) st tp = Inr ev"
    and "f \<in> set (ev_fills ev)" and "ff_side f = ''buy''"
  shows "\<exists>p lower upper stop target. st_pending st = Some p \<and> \<not> st_halted st \<and> st_position st = None
    \<and> pl_lower p = Some lower \<and> pl_upper p = Some upper \<and> pl_stop p = Some stop \<and> pl_target p = Some target
    \<and> lower \<le> ff_price f \<and> ff_price f \<le> upper \<and> stop < ff_price f \<and> ff_price f < target
    \<and> 0 < plan_fraction (x_settings x) p
    \<and> plan_fraction (x_settings x) p \<le> s_exposure_fraction (x_settings x)
    \<and> ff_quantity f * ff_price f \<le> sizing_slack * (st_cash st * plan_fraction (x_settings x) p)
    \<and> dmul (ff_quantity f) (ff_price f) + fill_fee (x_settings x) (ff_quantity f) (ff_price f)
        \<le> sizing_slack * st_cash st"
proof -
  note inv = reached_inv[OF assms(1,2)]
  have wf: "wf_settings (x_settings x)" using assms(2) by (simp add: wf_input_def)
  obtain p lower upper stop target where e: "st_pending st = Some p" "\<not> st_halted st" "st_position st = None"
    "pl_lower p = Some lower" "pl_upper p = Some upper" "pl_stop p = Some stop" "pl_target p = Some target"
    "lower \<le> ff_price f" "ff_price f \<le> upper" "stop < ff_price f" "ff_price f < target"
    "entry_quantity (x_settings x) p (st_cash st) (ff_price f) stop = Inr (ff_quantity f)"
    using advance_entry[OF inv assms(4,5,6)] by blast
  have q: "0 < ff_quantity f" "0 < ff_price f"
    using advance_books(2)[OF inv assms(4)] assms(5) by (auto simp: list_all_iff bar_fill_def)
  have s: "plan_sized x p" using reached_sized[OF assms(1,2)] e(1) by (simp add: pending_sized_def)
  have "ff_quantity f * ff_price f \<le> sizing_slack * (st_cash st * plan_fraction (x_settings x) p)"
    by (rule entry_exposure[OF e(12) wf q assms(3)]) (use s in \<open>simp_all add: plan_sized_def plan_fraction_def\<close>)
  then show ?thesis using e s entry_spend[OF e(12) wf q assms(3)] by (auto simp: plan_sized_def)
qed

lemma ex_reached1: "reached ex_ext ex_input ex_st1 [ex_ev0\<lparr>ev_previous := x_identity ex_input\<rparr>]"
  using reached_bar[OF reached_init, of ex_ext ex_input None ex_ev0] ex_advance0
  by (simp add: ex_ev0_def)

theorem entries_within_limits_witness:
  "0 < plan_fraction ex_settings ex_plan \<and> plan_fraction ex_settings ex_plan \<le> 1 / 5
    \<and> 2 * 100 \<le> sizing_slack * (1000 * plan_fraction ex_settings ex_plan)
    \<and> dmul 2 100 + fill_fee ex_settings 2 100 \<le> sizing_slack * 1000"
proof -
  have s: "st_cash ex_st1 = 1000" "st_pending ex_st1 = Some ex_plan" "x_settings ex_input = ex_settings"
    "s_exposure_fraction ex_settings = 1 / 5" "ff_quantity ex_buy = 2" "ff_price ex_buy = 100"
    "ff_side ex_buy = ''buy''" "ev_fills ex_ev1 = [ex_buy]"
    by (simp_all add: ex_st1_def ex_input_def ex_settings_def ex_buy_def ex_ev1_def)
  show ?thesis
    using entries_within_limits[OF ex_reached1 ex_wf, of None ex_ev1 ex_buy] ex_advance1 by (auto simp: s)
qed

text \<open>
  C23: No position outlives its exits: a position held after a bar had neither its stop nor its
  target touched by the bar, and its expiry is after the bar's end.
\<close>

theorem open_position_unexited:
  assumes "reached ext x st evs" and "wf_input x" and "advance ext x (length evs) st tp = Inr ev"
    and "st_position (ev_state ev) = Some p"
  shows "\<exists>stop target. pl_stop p = Some stop \<and> pl_target p = Some target
    \<and> stop < c_low (ev_bar ev) \<and> c_high (ev_bar ev) < target
    \<and> ts (ev_bar ev) + hours 1 < pl_expires_at p"
proof -
  have b: "ev_bar ev = x_candles x ! length evs" using advance_phases[OF assms(3)] by metis
  show ?thesis
    using advance_mark[OF reached_inv[OF assms(1,2)] assms(3)] assms(4)
    by (fastforce simp: b exit_trigger_def split: if_splits)
qed

theorem open_position_unexited_witness:
  "\<exists>stop target. pl_stop ex_plan = Some stop \<and> pl_target ex_plan = Some target
    \<and> stop < c_low (ev_bar ex_ev1) \<and> c_high (ev_bar ex_ev1) < target
    \<and> ts (ev_bar ex_ev1) + hours 1 < pl_expires_at ex_plan"
  using open_position_unexited[OF ex_reached1 ex_wf, of None ex_ev1 ex_plan] ex_advance1
  by (simp add: ex_ev1_def ex_st2_def)

text \<open>
  C22: The drawdown halt is exact and permanent. After a bar the peak is the largest equity
  seen, the account is halted exactly when it was before or its equity at the close is at or
  below the peak less the drawdown fraction, and a halted account fills no entry, only sales,
  and has no plan pending.
\<close>

theorem drawdown_halt:
  fixes x ev
  defines "equity \<equiv> mark_equity (ev_state ev) (c_close (ev_bar ev))"
  assumes "reached ext x st evs" and "wf_input x" and "advance ext x (length evs) st tp = Inr ev"
  shows "st_peak_equity (ev_state ev) = max (st_peak_equity st) equity
    \<and> (st_halted (ev_state ev) \<longleftrightarrow> st_halted st
         \<or> equity \<le> dmul (st_peak_equity (ev_state ev)) (dsub 1 (s_drawdown_fraction (x_settings x))))
    \<and> (st_halted st \<longrightarrow> map ff_side (ev_fills ev) \<in> {[], [''sell'']})
    \<and> (st_halted (ev_state ev) \<longrightarrow> st_pending (ev_state ev) = None)"
proof -
  note inv = reached_inv[OF assms(2,3)]
  have b: "ev_bar ev = x_candles x ! length evs" using advance_phases[OF assms(4)] by metis
  have "account_inv x (ev_state ev)" by (rule advance_inv[OF inv assms(4)])
  then show ?thesis
    using advance_mark[OF inv assms(4)] advance_books(5)[OF inv assms(4)]
    by (auto simp: equity_def b account_inv_def)
qed

theorem drawdown_halt_witness:
  "st_peak_equity ex_st2 = max (st_peak_equity ex_st1) (mark_equity ex_st2 101)
    \<and> \<not> mark_equity ex_st2 101 \<le> dmul (st_peak_equity ex_st2) (dsub 1 (s_drawdown_fraction ex_settings))"
  using drawdown_halt[OF ex_reached1 ex_wf, of None ex_ev1] ex_advance1
  by (simp add: ex_ev1_def ex_candle_def ex_bar1) (simp add: ex_st1_def ex_st2_def)


definition ex_other_future :: "candle list" where
  "ex_other_future = [ex_candle 0 100 101 99 100, ex_candle 1 100 102 98 101, ex_candle 2 90 91 10 20]"




end
