(* ===== verification/Trading_Calendar.thy ===== *)
theory Trading_Calendar
  imports Core_Trading
begin

text \<open>
  The trading calendar, \<^verbatim>\<open>src/gpt_trader/core/trading_calendar.py\<close>: the calendar of a session as
  the operations of the protocol \<^verbatim>\<open>TradingCalendar\<close>, the always-open session of crypto, the
  session backed by the package \<^verbatim>\<open>exchange_calendars\<close>, which is a parameter, and
  \<^verbatim>\<open>advance_by_open_time\<close>, the loop behind every review deadline.

  An instant is a number of microseconds since 1970 in UTC; a naive time is read as UTC, which
  is \<open>as_utc\<close>. The loop ends for every calendar, lawful or not, because its cursor only moves
  forward and no \<^verbatim>\<open>datetime\<close> lies after the year 9999; an addition beyond it raises
  \<^verbatim>\<open>OverflowError\<close>. The laws of a calendar are the locale \<open>session_calendar\<close>.
\<close>

section \<open>Sessions\<close>

definition SESSION_24X7 :: string where "SESSION_24X7 = ''24x7''"
definition SESSION_XNYS :: string where "SESSION_XNYS = ''XNYS''"

fun SESSION_ID_BY_ASSET_CLASS :: "asset_class \<Rightarrow> string" where
  "SESSION_ID_BY_ASSET_CLASS CRYPTO = SESSION_24X7"
| "SESSION_ID_BY_ASSET_CLASS EQUITY = SESSION_XNYS"

fun as_utc :: "py_datetime \<Rightarrow> instant" where
  "as_utc (Naive t) = t"
| "as_utc (Aware t) = t"

text \<open>\<^verbatim>\<open>datetime.max\<close> in UTC, and the sum of a time and a duration.\<close>

definition DATETIME_MAX :: instant where "DATETIME_MAX = 253402300799999999"

definition add_time :: "instant \<Rightarrow> int \<Rightarrow> instant result" where
  "add_time t d = (if DATETIME_MAX < t + d then Inl (ArithmeticError ''OverflowError'') else Inr (t + d))"

record trading_calendar =
  tc_session_id :: string
  tc_is_open :: "instant \<Rightarrow> bool result"
  tc_session_date :: "instant \<Rightarrow> int result"
  tc_next_open :: "instant \<Rightarrow> instant option result"
  tc_next_close :: "instant \<Rightarrow> instant option result"

section \<open>Advancing by open time\<close>

function advance_loop :: "trading_calendar \<Rightarrow> instant \<Rightarrow> int \<Rightarrow> instant result" where
  "advance_loop c cursor remaining =
     (if remaining \<le> 0 then Inr cursor
      else rbind (tc_is_open c cursor) (\<lambda>is_open.
        if \<not> is_open
        then rbind (tc_next_open c cursor) (\<lambda>next_open.
             case next_open of
               None \<Rightarrow> Inl (ValueError ''Calendar is closed and has no next open'')
             | Some t \<Rightarrow>
                 if t \<le> cursor then Inl (ValueError ''Calendar returned a non-advancing next open'')
                 else if DATETIME_MAX < t then Inl (ArithmeticError ''OverflowError'')
                 else advance_loop c t remaining)
        else rbind (tc_next_close c cursor) (\<lambda>next_close.
             case next_close of
               None \<Rightarrow> add_time cursor remaining
             | Some t \<Rightarrow>
                 if t \<le> cursor then Inl (ValueError ''Calendar returned a non-advancing next close'')
                 else if DATETIME_MAX < t then Inl (ArithmeticError ''OverflowError'')
                 else if remaining \<le> t - cursor then add_time cursor remaining
                 else advance_loop c t (remaining - (t - cursor)))))"
  by pat_completeness auto

termination
  by (relation "measure (\<lambda>(c, cursor, remaining). nat (DATETIME_MAX - cursor))") auto

declare advance_loop.simps [simp del]

text \<open>The ways the loop returns.\<close>

lemma advance_loop_returns:
  assumes "advance_loop c cursor remaining = Inr t"
  shows "remaining \<le> 0 \<and> t = cursor
    \<or> (\<exists>u. 0 < remaining \<and> tc_is_open c cursor = Inr False \<and> tc_next_open c cursor = Inr (Some u)
          \<and> cursor < u \<and> u \<le> DATETIME_MAX \<and> advance_loop c u remaining = Inr t)
    \<or> 0 < remaining \<and> tc_is_open c cursor = Inr True \<and> tc_next_close c cursor = Inr None
        \<and> add_time cursor remaining = Inr t
    \<or> (\<exists>u. 0 < remaining \<and> tc_is_open c cursor = Inr True \<and> tc_next_close c cursor = Inr (Some u)
          \<and> remaining \<le> u - cursor \<and> add_time cursor remaining = Inr t)
    \<or> (\<exists>u. 0 < remaining \<and> tc_is_open c cursor = Inr True \<and> tc_next_close c cursor = Inr (Some u)
          \<and> cursor < u \<and> u \<le> DATETIME_MAX \<and> u - cursor < remaining
          \<and> advance_loop c u (remaining - (u - cursor)) = Inr t)"
proof (cases "remaining \<le> 0")
  case True
  then show ?thesis using assms by (simp add: advance_loop.simps[of c cursor remaining])
next
  case pos: False
  then obtain b where b: "tc_is_open c cursor = Inr b"
    using assms by (cases "tc_is_open c cursor") (simp_all add: advance_loop.simps[of c cursor remaining])
  show ?thesis
  proof (cases b)
    case True
    then obtain n where n: "tc_next_close c cursor = Inr n"
      using assms pos b
      by (cases "tc_next_close c cursor") (simp_all add: advance_loop.simps[of c cursor remaining])
    show ?thesis
      using assms pos b True n
      by (cases n) (simp_all add: advance_loop.simps[of c cursor remaining] split: if_splits)
  next
    case False
    then obtain n where n: "tc_next_open c cursor = Inr n"
      using assms pos b
      by (cases "tc_next_open c cursor") (simp_all add: advance_loop.simps[of c cursor remaining])
    show ?thesis
      using assms pos b False n
      by (cases n) (simp_all add: advance_loop.simps[of c cursor remaining] split: if_splits)
  qed
qed

definition advance_by_open_time :: "trading_calendar \<Rightarrow> py_datetime \<Rightarrow> int \<Rightarrow> instant result" where
  "advance_by_open_time c start duration =
     (if duration < 0 then Inl (ValueError ''Open-session duration must be non-negative'')
      else advance_loop c (as_utc start) duration)"

section \<open>The two calendars\<close>

definition always_open_calendar :: trading_calendar where
  "always_open_calendar =
     \<lparr>tc_session_id = SESSION_24X7, tc_is_open = (\<lambda>_. Inr True),
      tc_session_date = (\<lambda>t. Inr (t div days 1)),
      tc_next_open = (\<lambda>_. Inr None), tc_next_close = (\<lambda>_. Inr None)\<rparr>"

text \<open>The operations of a calendar of the package that the wrapper calls.\<close>

record exchange =
  xc_is_open_at_time :: "instant \<Rightarrow> bool result"
  xc_minute_to_session :: "instant \<Rightarrow> int result"
  xc_next_open :: "instant \<Rightarrow> instant result"
  xc_next_close :: "instant \<Rightarrow> instant result"

definition exchange_backed_calendar :: "string \<Rightarrow> exchange \<Rightarrow> trading_calendar" where
  "exchange_backed_calendar sid x =
     \<lparr>tc_session_id = sid, tc_is_open = xc_is_open_at_time x,
      tc_session_date = (\<lambda>t. xc_minute_to_session x (t - t mod seconds 60)),
      tc_next_open = (\<lambda>t. rbind (xc_next_open x t) (\<lambda>u. Inr (Some u))),
      tc_next_close = (\<lambda>t. rbind (xc_next_close x t) (\<lambda>u. Inr (Some u)))\<rparr>"

definition get_trading_calendar :: "(string \<Rightarrow> exchange) \<Rightarrow> string \<Rightarrow> trading_calendar result" where
  "get_trading_calendar exchanges sid =
     (if sid = SESSION_24X7 then Inr always_open_calendar
      else if sid = SESSION_XNYS
      then Inr (exchange_backed_calendar SESSION_XNYS (exchanges SESSION_XNYS))
      else Inl (ValueError ''Unknown trading session''))"

definition get_calendar_for_instrument :: "(string \<Rightarrow> exchange) \<Rightarrow> string \<Rightarrow> trading_calendar result" where
  "get_calendar_for_instrument exchanges s =
     rbind (parse_instrument (str_upper s)) (\<lambda>i.
     get_trading_calendar exchanges (SESSION_ID_BY_ASSET_CLASS (i_asset_class i)))"

section \<open>The text of a date\<close>

text \<open>The proleptic Gregorian date of a day number, and \<^verbatim>\<open>date.isoformat\<close>.\<close>

definition civil_date :: "int \<Rightarrow> int \<times> int \<times> int" where
  "civil_date day =
     (let z = day + 719468;
          doe = z mod 146097;
          yoe = (doe - doe div 1460 + doe div 36524 - doe div 146096) div 365;
          doy = doe - (365 * yoe + yoe div 4 - yoe div 100);
          mp = (5 * doy + 2) div 153;
          d = doy - (153 * mp + 2) div 5 + 1;
          m = (if mp < 10 then mp + 3 else mp - 9);
          y = yoe + (z div 146097) * 400
      in (if m \<le> 2 then y + 1 else y, m, d))"

definition zero_padded :: "nat \<Rightarrow> int \<Rightarrow> string" where
  "zero_padded width n =
     (let s = str_nat (nat n) in replicate (width - length s) (CHR ''0'') @ s)"

definition date_isoformat :: "int \<Rightarrow> string" where
  "date_isoformat day =
     (case civil_date day of (y, m, d) \<Rightarrow>
        zero_padded 4 y @ ''-'' @ zero_padded 2 m @ ''-'' @ zero_padded 2 d)"

lemma civil_date_examples:
  "civil_date 0 = (1970, 1, 1)" "civil_date 11016 = (2000, 2, 29)" "civil_date 20454 = (2026, 1, 1)"
  "civil_date 2932896 = (9999, 12, 31)"
  by code_simp+

section \<open>The laws of a session\<close>

text \<open>
  \<open>open_at\<close> is the schedule of the session: \<^verbatim>\<open>is_open\<close> tells it, and the boundary that
  \<^verbatim>\<open>next_open\<close> and \<^verbatim>\<open>next_close\<close> return is the end of the closed, or open, stretch around the
  moment; where there is none, the session stays as it is.
\<close>

locale session_calendar =
  fixes cal :: trading_calendar
    and open_at :: "instant \<Rightarrow> bool"
  assumes is_open_tells: "tc_is_open cal t = Inr b \<Longrightarrow> b = open_at t"
    and next_open_ends:
      "tc_next_open cal t = Inr (Some u) \<Longrightarrow> \<not> open_at t \<Longrightarrow> t \<le> v \<Longrightarrow> v < u \<Longrightarrow> \<not> open_at v"
    and next_close_ends:
      "tc_next_close cal t = Inr (Some u) \<Longrightarrow> open_at t \<Longrightarrow> t \<le> v \<Longrightarrow> v < u \<Longrightarrow> open_at v"
    and never_closes: "tc_next_close cal t = Inr None \<Longrightarrow> open_at t \<Longrightarrow> t \<le> v \<Longrightarrow> open_at v"
begin

definition open_time :: "instant \<Rightarrow> instant \<Rightarrow> int" where
  "open_time a b = int (card {u. a \<le> u \<and> u < b \<and> open_at u})"

lemma open_time_split: "a \<le> b \<Longrightarrow> b \<le> c \<Longrightarrow> open_time a c = open_time a b + open_time b c"
proof -
  assume le: "a \<le> b" "b \<le> c"
  have "{u. a \<le> u \<and> u < c \<and> open_at u} =
      {u. a \<le> u \<and> u < b \<and> open_at u} \<union> {u. b \<le> u \<and> u < c \<and> open_at u}"
    using le by auto
  moreover have "finite {u. a \<le> u \<and> u < b \<and> open_at u}" "finite {u. b \<le> u \<and> u < c \<and> open_at u}"
    by (rule finite_subset[OF _ finite_atLeastLessThan_int], auto)+
  moreover have "{u. a \<le> u \<and> u < b \<and> open_at u} \<inter> {u. b \<le> u \<and> u < c \<and> open_at u} = {}" by auto
  ultimately show ?thesis by (simp add: open_time_def card_Un_disjoint)
qed

lemma open_time_all: "a \<le> b \<Longrightarrow> (\<And>u. a \<le> u \<Longrightarrow> u < b \<Longrightarrow> open_at u) \<Longrightarrow> open_time a b = b - a"
proof -
  assume ab: "a \<le> b" and op: "\<And>u. a \<le> u \<Longrightarrow> u < b \<Longrightarrow> open_at u"
  have "{u. a \<le> u \<and> u < b \<and> open_at u} = {a..<b}" using op by auto
  then show ?thesis using ab by (simp add: open_time_def)
qed

lemma open_time_none: "(\<And>u. a \<le> u \<Longrightarrow> u < b \<Longrightarrow> \<not> open_at u) \<Longrightarrow> open_time a b = 0"
proof -
  assume cl: "\<And>u. a \<le> u \<Longrightarrow> u < b \<Longrightarrow> \<not> open_at u"
  then have "{u. a \<le> u \<and> u < b \<and> open_at u} = {}" by auto
  then show ?thesis unfolding open_time_def by (simp only: card.empty of_nat_0)
qed

text \<open>A stretch that is open to its end, and a step to a boundary followed by the rest.\<close>

lemma advance_within:
  assumes "add_time a d = Inr t" "0 < d" and "\<And>u. a \<le> u \<Longrightarrow> u < a + d \<Longrightarrow> open_at u"
  shows "a \<le> t \<and> open_time a t = d"
  using assms open_time_all[of a "a + d"] by (auto simp: add_time_def split: if_splits)

lemma advance_loop_counts:
  assumes "advance_loop cal cursor remaining = Inr t" and "0 \<le> remaining"
  shows "cursor \<le> t \<and> open_time cursor t = remaining"
  using assms
proof (induction c\<equiv>cal cursor remaining rule: advance_loop.induct)
  case (1 cursor remaining)
  from advance_loop_returns[OF "1.prems"(1)] show ?case
  proof (elim disjE exE conjE)
    assume "remaining \<le> 0" "t = cursor"
    then show ?thesis using "1.prems"(2) open_time_none[of cursor cursor] by auto
  next
    fix u assume c: "0 < remaining" "tc_is_open cal cursor = Inr False"
      "tc_next_open cal cursor = Inr (Some u)" "cursor < u" "u \<le> DATETIME_MAX"
      "advance_loop cal u remaining = Inr t"
    then have "u \<le> t \<and> open_time u t = remaining" using "1.hyps"(1)[of False "Some u" u] by auto
    then show ?thesis
      using c open_time_split[of cursor u t] open_time_none[of cursor u] is_open_tells[OF c(2)]
        next_open_ends[OF c(3)] by auto
  next
    assume c: "0 < remaining" "tc_is_open cal cursor = Inr True" "tc_next_close cal cursor = Inr None"
      "add_time cursor remaining = Inr t"
    then show ?thesis using advance_within[OF c(4,1)] never_closes[OF c(3)] is_open_tells[OF c(2)] by auto
  next
    fix u assume c: "0 < remaining" "tc_is_open cal cursor = Inr True"
      "tc_next_close cal cursor = Inr (Some u)" "remaining \<le> u - cursor" "add_time cursor remaining = Inr t"
    then show ?thesis using advance_within[OF c(5,1)] next_close_ends[OF c(3)] is_open_tells[OF c(2)] by auto
  next
    fix u assume c: "0 < remaining" "tc_is_open cal cursor = Inr True"
      "tc_next_close cal cursor = Inr (Some u)" "cursor < u" "u \<le> DATETIME_MAX" "u - cursor < remaining"
      "advance_loop cal u (remaining - (u - cursor)) = Inr t"
    then have "u \<le> t \<and> open_time u t = remaining - (u - cursor)"
      using "1.hyps"(2)[of True "Some u" u] by auto
    then show ?thesis
      using c open_time_split[of cursor u t] open_time_all[of cursor u] is_open_tells[OF c(2)]
        next_close_ends[OF c(3)] by auto
  qed
qed

lemma advance_counts:
  assumes "advance_by_open_time cal start d = Inr t"
  shows "as_utc start \<le> t \<and> open_time (as_utc start) t = d"
  using assms advance_loop_counts by (auto simp: advance_by_open_time_def split: if_splits)

end

text \<open>The laws of the always-open session, and of a wrapped exchange calendar that keeps its own.\<close>

interpretation always_open: session_calendar always_open_calendar "\<lambda>_. True"
  by unfold_locales (auto simp: always_open_calendar_def)

definition exchange_schedule :: "exchange \<Rightarrow> (instant \<Rightarrow> bool) \<Rightarrow> bool" where
  "exchange_schedule x open_at \<longleftrightarrow>
     (\<forall>t b. xc_is_open_at_time x t = Inr b \<longrightarrow> b = open_at t)
     \<and> (\<forall>t u v. xc_next_open x t = Inr u \<longrightarrow> \<not> open_at t \<longrightarrow> t \<le> v \<longrightarrow> v < u \<longrightarrow> \<not> open_at v)
     \<and> (\<forall>t u v. xc_next_close x t = Inr u \<longrightarrow> open_at t \<longrightarrow> t \<le> v \<longrightarrow> v < u \<longrightarrow> open_at v)"

lemma exchange_session:
  assumes "exchange_schedule x open_at"
  shows "session_calendar (exchange_backed_calendar sid x) open_at"
  by unfold_locales (use assms in \<open>auto simp: exchange_schedule_def exchange_backed_calendar_def\<close>)

lemma always_open_advance:
  assumes "0 \<le> d" "as_utc start + d \<le> DATETIME_MAX"
  shows "advance_by_open_time always_open_calendar start d = Inr (as_utc start + d)"
  using assms
  unfolding advance_by_open_time_def advance_loop.simps[of always_open_calendar "as_utc start" d]
  by (simp add: always_open_calendar_def add_time_def)

section \<open>Review deadlines count open time\<close>

definition market_open :: "(instant \<Rightarrow> bool) \<Rightarrow> string \<Rightarrow> instant \<Rightarrow> bool" where
  "market_open open_at s t \<longleftrightarrow> crypto_pair (str_upper s) \<or> open_at t"

lemma calendar_of_instrument:
  assumes "get_calendar_for_instrument exchanges s = Inr c"
    and "exchange_schedule (exchanges SESSION_XNYS) open_at"
  shows "session_calendar c (market_open open_at s)"
proof (cases "crypto_pair (str_upper s)")
  case True
  then have "c = always_open_calendar"
    using assms(1) by (simp add: get_calendar_for_instrument_def parse_instrument_def get_trading_calendar_def)
  moreover have "market_open open_at s = (\<lambda>_. True)" using True by (auto simp: market_open_def)
  ultimately show ?thesis using always_open.session_calendar_axioms by simp
next
  case False
  then have "c = exchange_backed_calendar SESSION_XNYS (exchanges SESSION_XNYS)"
    using assms(1) by (auto simp: get_calendar_for_instrument_def parse_instrument_def
        get_trading_calendar_def SESSION_XNYS_def SESSION_24X7_def split: if_splits)
  moreover have "market_open open_at s = open_at" using False by (auto simp: market_open_def)
  ultimately show ?thesis using exchange_session[OF assms(2)] by simp
qed

text \<open>
  C40: A duration advanced on the calendar of an instrument is spent entirely in open time. The
  instant that \<^verbatim>\<open>advance_by_open_time\<close> returns is not before the start, and exactly the requested
  number of microseconds between the two are market time: all of them for a crypto pair, those
  of the exchange's schedule for an equity, so nights and holidays never consume a review window.
\<close>

theorem advance_spends_open_time:
  assumes "get_calendar_for_instrument exchanges s = Inr c"
    and "exchange_schedule (exchanges SESSION_XNYS) open_at"
    and "advance_by_open_time c start d = Inr t"
  shows "as_utc start \<le> t \<and> int (card {u. as_utc start \<le> u \<and> u < t \<and> market_open open_at s u}) = d"
  using session_calendar.advance_counts[OF calendar_of_instrument[OF assms(1,2)] assms(3)]
  unfolding session_calendar.open_time_def[OF calendar_of_instrument[OF assms(1,2)]] .

text \<open>An exchange open on every day from 14:30 to 21:00.\<close>

definition ex_open_at :: "instant \<Rightarrow> bool" where
  "ex_open_at t \<longleftrightarrow> seconds 52200 \<le> t mod days 1 \<and> t mod days 1 < hours 21"

definition ex_exchange :: exchange where
  "ex_exchange =
     \<lparr>xc_is_open_at_time = (\<lambda>t. Inr (ex_open_at t)), xc_minute_to_session = (\<lambda>t. Inr (t div days 1)),
      xc_next_open = (\<lambda>t. Inr ((if t mod days 1 < seconds 52200 then t div days 1 else t div days 1 + 1)
                             * days 1 + seconds 52200)),
      xc_next_close = (\<lambda>t. Inr (t div days 1 * days 1 + hours 21))\<rparr>"

lemma ex_exchange_schedule: "exchange_schedule ex_exchange ex_open_at"
proof -
  note nums = days_def seconds_def hours_def ex_open_at_def minus_div_mult_eq_mod[symmetric]
  have closed: "\<not> ex_open_at v"
    if "\<not> ex_open_at t" "t \<le> v"
      "v < (if t mod days 1 < seconds 52200 then t div days 1 else t div days 1 + 1) * days 1 + seconds 52200"
    for t v
  proof -
    have "v div days 1 = t div days 1 \<or> v div days 1 = t div days 1 + 1"
      using that by (simp add: nums split: if_splits) linarith+
    then show ?thesis
      using that by (auto simp: nums split: if_splits)
  qed
  have opened: "ex_open_at v" if "ex_open_at t" "t \<le> v" "v < t div days 1 * days 1 + hours 21" for t v
  proof -
    have "v div days 1 = t div days 1"
      using that by (simp add: nums)
    then show ?thesis using that by (simp add: nums)
  qed
  show ?thesis
    unfolding exchange_schedule_def ex_exchange_def exchange.select_convs sum.inject
    by (intro conjI allI impI) (use closed opened in blast)+
qed

lemma advance_loop_steps:
  "0 < r \<Longrightarrow> tc_is_open c t = Inr True \<Longrightarrow> tc_next_close c t = Inr (Some u) \<Longrightarrow> t < u \<Longrightarrow> u \<le> DATETIME_MAX
     \<Longrightarrow> u - t < r \<Longrightarrow> advance_loop c t r = advance_loop c u (r - (u - t))"
  "0 < r \<Longrightarrow> tc_is_open c t = Inr False \<Longrightarrow> tc_next_open c t = Inr (Some u) \<Longrightarrow> t < u \<Longrightarrow> u \<le> DATETIME_MAX
     \<Longrightarrow> advance_loop c t r = advance_loop c u r"
  "0 < r \<Longrightarrow> tc_is_open c t = Inr True \<Longrightarrow> tc_next_close c t = Inr (Some u) \<Longrightarrow> t < u \<Longrightarrow> u \<le> DATETIME_MAX
     \<Longrightarrow> r \<le> u - t \<Longrightarrow> advance_loop c t r = add_time t r"
  by (simp_all add: advance_loop.simps[of c t r])

lemma ex_exchange_advance:
  "advance_by_open_time (exchange_backed_calendar SESSION_XNYS ex_exchange) (Aware (days 1 + hours 20)) (hours 2)
   = Inr (days 2 + hours 15 + seconds 1800)"
proof -
  let ?c = "exchange_backed_calendar SESSION_XNYS ex_exchange"
  note ex = exchange_backed_calendar_def ex_exchange_def ex_open_at_def DATETIME_MAX_def
    days_def hours_def seconds_def
  have "advance_loop ?c (days 1 + hours 20) (hours 2) = advance_loop ?c (days 1 + hours 21) (hours 1)"
    by (subst advance_loop_steps(1)[where u = "days 1 + hours 21"]) (simp_all add: ex)
  also have "\<dots> = advance_loop ?c (days 2 + seconds 52200) (hours 1)"
    by (subst advance_loop_steps(2)[where u = "days 2 + seconds 52200"]) (simp_all add: ex)
  also have "\<dots> = Inr (days 2 + hours 15 + seconds 1800)"
    by (subst advance_loop_steps(3)[where u = "days 2 + hours 21"]) (simp_all add: ex add_time_def)
  finally show ?thesis by (simp add: advance_by_open_time_def hours_def)
qed

text \<open>Two hours of an equity from 20:00 end at 15:30 on the next day.\<close>

theorem advance_spends_open_time_witness:
  "int (card {u. days 1 + hours 20 \<le> u \<and> u < days 2 + hours 15 + seconds 1800
     \<and> market_open ex_open_at ''SPY'' u}) = hours 2"
proof -
  have "crypto_pair (str_upper ''SPY'') = False" "equity_ticker (str_upper ''SPY'')" by code_simp+
  then have c: "get_calendar_for_instrument (\<lambda>_. ex_exchange) ''SPY''
      = Inr (exchange_backed_calendar SESSION_XNYS ex_exchange)"
    by (simp add: get_calendar_for_instrument_def parse_instrument_def get_trading_calendar_def
        SESSION_XNYS_def SESSION_24X7_def)
  show ?thesis
    using advance_spends_open_time[OF c ex_exchange_schedule ex_exchange_advance] by simp
qed

end
