(* ===== verification/Idea_Audit.thy ===== *)
theory Idea_Audit
  imports Idea_Models
begin

text \<open>
  The workflow of a trade idea and its audit log: the state machine of
  \<^verbatim>\<open>src/gpt_trader/features/trade_ideas/workflow.py\<close> and the append-only event log of
  \<^verbatim>\<open>audit.py\<close>. The current state of an idea is the state after its last event; an append is
  checked against that state, the action and the state machine.

  The text fields of an event that \<^verbatim>\<open>from_dict\<close> passes on unchecked are read as the text
  their annotations name.

  The lemmas show that every log built by appends verifies, that a log that verifies takes
  every idea along legal transitions from \<open>PROPOSED\<close>, and with it that nothing is submitted
  without an approval and that nothing follows a terminal state.
\<close>

section \<open>The state machine\<close>

datatype trade_idea_state =
    PROPOSED | NEEDS_CHANGES | REJECTED | APPROVED | SUBMITTED | FILLED | CANCELLED | EXPIRED

fun trade_idea_state_value :: "trade_idea_state \<Rightarrow> string" where
  "trade_idea_state_value PROPOSED = ''proposed''"
| "trade_idea_state_value NEEDS_CHANGES = ''needs_changes''"
| "trade_idea_state_value REJECTED = ''rejected''"
| "trade_idea_state_value APPROVED = ''approved''"
| "trade_idea_state_value SUBMITTED = ''submitted''"
| "trade_idea_state_value FILLED = ''filled''"
| "trade_idea_state_value CANCELLED = ''cancelled''"
| "trade_idea_state_value EXPIRED = ''expired''"

definition trade_idea_states :: "trade_idea_state list" where
  "trade_idea_states =
     [PROPOSED, NEEDS_CHANGES, REJECTED, APPROVED, SUBMITTED, FILLED, CANCELLED, EXPIRED]"

definition trade_idea_state_of :: "string \<Rightarrow> trade_idea_state result" where
  "trade_idea_state_of = enum_of trade_idea_state_value trade_idea_states"

fun ALLOWED_TRANSITIONS :: "trade_idea_state \<Rightarrow> trade_idea_state list" where
  "ALLOWED_TRANSITIONS PROPOSED = [PROPOSED, NEEDS_CHANGES, APPROVED, REJECTED, EXPIRED]"
| "ALLOWED_TRANSITIONS NEEDS_CHANGES = [PROPOSED, REJECTED, EXPIRED]"
| "ALLOWED_TRANSITIONS APPROVED = [APPROVED, SUBMITTED, CANCELLED, EXPIRED]"
| "ALLOWED_TRANSITIONS SUBMITTED = [FILLED, CANCELLED]"
| "ALLOWED_TRANSITIONS REJECTED = []"
| "ALLOWED_TRANSITIONS FILLED = []"
| "ALLOWED_TRANSITIONS CANCELLED = []"
| "ALLOWED_TRANSITIONS EXPIRED = []"

definition TERMINAL_STATES :: "trade_idea_state list" where
  "TERMINAL_STATES = filter (\<lambda>s. ALLOWED_TRANSITIONS s = []) trade_idea_states"

fun validate_transition :: "trade_idea_state option \<Rightarrow> trade_idea_state \<Rightarrow> unit result" where
  "validate_transition None after = raise_if (after \<noteq> PROPOSED) InvalidTransitionError"
| "validate_transition (Some before) after =
     raise_if (after \<notin> set (ALLOWED_TRANSITIONS before)) InvalidTransitionError"

section \<open>Audit events\<close>

datatype actor_type = AI | HUMAN | SYSTEM | VENUE

fun actor_type_value :: "actor_type \<Rightarrow> string" where
  "actor_type_value AI = ''ai''"
| "actor_type_value HUMAN = ''human''"
| "actor_type_value SYSTEM = ''system''"
| "actor_type_value VENUE = ''venue''"

definition actor_type_of :: "string \<Rightarrow> actor_type result" where
  "actor_type_of = enum_of actor_type_value [AI, HUMAN, SYSTEM, VENUE]"

datatype audit_action =
    ACT_PROPOSED | ACT_CHANGED | ACT_AUTO_APPROVAL_SKIPPED | ACT_AUTO_EXECUTION_SKIPPED
  | ACT_APPROVED | ACT_REJECTED | ACT_SUBMITTED | ACT_FILLED | ACT_CANCELLED | ACT_EXPIRED

fun audit_action_value :: "audit_action \<Rightarrow> string" where
  "audit_action_value ACT_PROPOSED = ''proposed''"
| "audit_action_value ACT_CHANGED = ''changed''"
| "audit_action_value ACT_AUTO_APPROVAL_SKIPPED = ''auto_approval_skipped''"
| "audit_action_value ACT_AUTO_EXECUTION_SKIPPED = ''auto_execution_skipped''"
| "audit_action_value ACT_APPROVED = ''approved''"
| "audit_action_value ACT_REJECTED = ''rejected''"
| "audit_action_value ACT_SUBMITTED = ''submitted''"
| "audit_action_value ACT_FILLED = ''filled''"
| "audit_action_value ACT_CANCELLED = ''cancelled''"
| "audit_action_value ACT_EXPIRED = ''expired''"

definition audit_action_of :: "string \<Rightarrow> audit_action result" where
  "audit_action_of = enum_of audit_action_value
     [ACT_PROPOSED, ACT_CHANGED, ACT_AUTO_APPROVAL_SKIPPED, ACT_AUTO_EXECUTION_SKIPPED,
      ACT_APPROVED, ACT_REJECTED, ACT_SUBMITTED, ACT_FILLED, ACT_CANCELLED, ACT_EXPIRED]"

fun ACTION_AFTER_STATES :: "audit_action \<Rightarrow> trade_idea_state" where
  "ACTION_AFTER_STATES ACT_PROPOSED = PROPOSED"
| "ACTION_AFTER_STATES ACT_CHANGED = NEEDS_CHANGES"
| "ACTION_AFTER_STATES ACT_AUTO_APPROVAL_SKIPPED = PROPOSED"
| "ACTION_AFTER_STATES ACT_AUTO_EXECUTION_SKIPPED = APPROVED"
| "ACTION_AFTER_STATES ACT_APPROVED = APPROVED"
| "ACTION_AFTER_STATES ACT_REJECTED = REJECTED"
| "ACTION_AFTER_STATES ACT_SUBMITTED = SUBMITTED"
| "ACTION_AFTER_STATES ACT_FILLED = FILLED"
| "ACTION_AFTER_STATES ACT_CANCELLED = CANCELLED"
| "ACTION_AFTER_STATES ACT_EXPIRED = EXPIRED"

record audit_event =
  ae_event_id :: string
  ae_timestamp :: py_datetime
  ae_decision_id :: string
  ae_actor_type :: actor_type
  ae_actor_id :: string
  ae_action :: audit_action
  ae_before_state :: "trade_idea_state option"
  ae_after_state :: trade_idea_state
  ae_reason :: string
  ae_record_hash :: string
  ae_evidence :: "string list"
  ae_venue :: string
  ae_external_order_id :: string

definition audit_event_to_dict :: "audit_event \<Rightarrow> payload" where
  "audit_event_to_dict e =
     [(''event_id'', JStr (ae_event_id e)),
      (''timestamp'', isoformat (ae_timestamp e)),
      (''decision_id'', JStr (ae_decision_id e)),
      (''actor_type'', JStr (actor_type_value (ae_actor_type e))),
      (''actor_id'', JStr (ae_actor_id e)),
      (''action'', JStr (audit_action_value (ae_action e))),
      (''before_state'', jstr_option (map_option trade_idea_state_value (ae_before_state e))),
      (''after_state'', JStr (trade_idea_state_value (ae_after_state e))),
      (''reason'', JStr (ae_reason e)),
      (''record_hash'', JStr (ae_record_hash e)),
      (''evidence'', JArr (map JStr (ae_evidence e))),
      (''venue'', JStr (ae_venue e)),
      (''external_order_id'', JStr (ae_external_order_id e))]"

text \<open>A value that \<^verbatim>\<open>if value\<close> takes for false.\<close>

fun json_falsy :: "json \<Rightarrow> bool" where
  "json_falsy JNull = True"
| "json_falsy (JBool b) = (\<not> b)"
| "json_falsy (JInt n) = (n = 0)"
| "json_falsy (JNum d) = (d = Finite 0)"
| "json_falsy (JStr s) = (s = [])"
| "json_falsy (JArr xs) = (xs = [])"
| "json_falsy (JObj p) = (p = [])"
| "json_falsy _ = False"

definition read_before_state :: "json option \<Rightarrow> trade_idea_state option result" where
  "read_before_state raw =
     (case raw of None \<Rightarrow> Inr None
      | Some v \<Rightarrow> if json_falsy v then Inr None
                  else rbind (jenum trade_idea_state_of v) (\<lambda>s. Inr (Some s)))"

definition audit_event_from_dict :: "json \<Rightarrow> audit_event result" where
  "audit_event_from_dict j =
     (case j of
        JObj p \<Rightarrow>
          rbind (rbind (jget p ''event_id'') jstr) (\<lambda>eid.
          rbind (rbind (jget p ''timestamp'') jdatetime) (\<lambda>t.
          rbind (rbind (jget p ''decision_id'') jstr) (\<lambda>did.
          rbind (rbind (jget p ''actor_type'') (jenum actor_type_of)) (\<lambda>aty.
          rbind (rbind (jget p ''actor_id'') jstr) (\<lambda>aid.
          rbind (rbind (jget p ''action'') (jenum audit_action_of)) (\<lambda>act.
          rbind (read_before_state (map_of p ''before_state'')) (\<lambda>before.
          rbind (rbind (jget p ''after_state'') (jenum trade_idea_state_of)) (\<lambda>after.
          rbind (jstr (jget_or p ''reason'' (JStr []))) (\<lambda>reason.
          rbind (rbind (jget p ''record_hash'') jstr) (\<lambda>hash.
          rbind (jtuple (jget_or p ''evidence'' (JArr []))) (\<lambda>evidence.
          rbind (jstr (jget_or p ''venue'' (JStr []))) (\<lambda>venue.
          rbind (jstr (jget_or p ''external_order_id'' (JStr []))) (\<lambda>order.
          Inr \<lparr>ae_event_id = eid, ae_timestamp = t, ae_decision_id = did, ae_actor_type = aty,
               ae_actor_id = aid, ae_action = act, ae_before_state = before,
               ae_after_state = after, ae_reason = reason, ae_record_hash = hash,
               ae_evidence = evidence, ae_venue = venue, ae_external_order_id = order\<rparr>)))))))))))))
      | _ \<Rightarrow> Inl (AttributeError ''get''))"

definition validate_action_after_state :: "audit_event \<Rightarrow> unit result" where
  "validate_action_after_state e =
     raise_if (ae_after_state e \<noteq> ACTION_AFTER_STATES (ae_action e))
       (AuditIntegrityError ''action and after_state disagree'')"

section \<open>The log\<close>

definition audit_read_step :: "string option \<Rightarrow> audit_event list \<Rightarrow> json \<Rightarrow> audit_event list result" where
  "audit_read_step did events j =
     rbind (audit_event_from_dict j) (\<lambda>e.
     Inr (if did = None \<or> did = Some (ae_decision_id e) then events @ [e] else events))"

definition audit_read_events :: "log_store \<Rightarrow> string option \<Rightarrow> audit_event list result" where
  "audit_read_events store did =
     rbind (log_lines store did) (\<lambda>ls.
     read_log (audit_read_step did) (ValueError ''JSONDecodeError'') [] ls)"

definition current_state :: "log_store \<Rightarrow> string \<Rightarrow> trade_idea_state option result" where
  "current_state store did =
     rbind (audit_read_events store (Some did)) (\<lambda>events.
     Inr (if events = [] then None else Some (ae_after_state (last events))))"

definition audit_append :: "log_store \<Rightarrow> audit_event \<Rightarrow> log_store result" where
  "audit_append store e =
     rbind (current_state store (ae_decision_id e)) (\<lambda>last_state.
     rbind (raise_if (ae_before_state e \<noteq> last_state) (AuditIntegrityError ''before_state'')) (\<lambda>_.
     rbind (validate_action_after_state e) (\<lambda>_.
     rbind (validate_transition (ae_before_state e) (ae_after_state e)) (\<lambda>_.
     Inr (log_append store (audit_event_to_dict e))))))"

text \<open>One line of \<^verbatim>\<open>verify\<close>: the events so far and the last state of every decision.\<close>

type_synonym verify_state = "audit_event list \<times> (string \<rightharpoonup> trade_idea_state)"

definition verify_step :: "verify_state \<Rightarrow> json \<Rightarrow> verify_state result" where
  "verify_step s j =
     rbind (rewrap lookup_or_value_error (AuditIntegrityError ''line is malformed'')
              (audit_event_from_dict j)) (\<lambda>e.
     rbind (raise_if (ae_before_state e \<noteq> snd s (ae_decision_id e))
              (AuditIntegrityError ''before_state'')) (\<lambda>_.
     rbind (validate_action_after_state e) (\<lambda>_.
     rbind (rewrap (\<lambda>x. x = InvalidTransitionError) (AuditIntegrityError ''illegal transition'')
              (validate_transition (ae_before_state e) (ae_after_state e))) (\<lambda>_.
     Inr (fst s @ [e], (snd s)(ae_decision_id e \<mapsto> ae_after_state e))))))"

definition verify :: "log_store \<Rightarrow> audit_event list result" where
  "verify store =
     rbind (log_lines store None) (\<lambda>ls.
     rbind (read_log verify_step (AuditIntegrityError ''line is malformed'') ([], Map.empty) ls) (\<lambda>s.
     Inr (fst s)))"

section \<open>Round trip\<close>

lemma trade_idea_state_of_value [simp]: "trade_idea_state_of (trade_idea_state_value s) = Inr s"
  by (cases s) (simp_all add: trade_idea_state_of_def trade_idea_states_def enum_of_def)

lemma actor_type_of_value [simp]: "actor_type_of (actor_type_value a) = Inr a"
  by (cases a) (simp_all add: actor_type_of_def enum_of_def)

lemma audit_action_of_value [simp]: "audit_action_of (audit_action_value a) = Inr a"
  by (cases a) (simp_all add: audit_action_of_def enum_of_def)

lemma trade_idea_state_value_nonempty [simp]: "trade_idea_state_value s \<noteq> []"
  by (cases s) simp_all

lemma read_before_state_written [simp]:
  "read_before_state (Some (jstr_option (map_option trade_idea_state_value b))) = Inr b"
  by (cases b) (simp_all add: read_before_state_def jstr_option_def)

lemma audit_event_roundtrip_lemma: "audit_event_from_dict (JObj (audit_event_to_dict e)) = Inr e"
  by (simp add: audit_event_from_dict_def audit_event_to_dict_def jget_def jget_or_def)

lemma audit_event_dict_decision [simp]:
  "map_of (audit_event_to_dict e) ''decision_id'' = Some (JStr (ae_decision_id e))"
  by (simp add: audit_event_to_dict_def)

section \<open>Audited histories\<close>

definition last_state :: "audit_event list \<Rightarrow> string \<Rightarrow> trade_idea_state option" where
  "last_state es d =
     (let own = filter (\<lambda>e. ae_decision_id e = d) es
      in if own = [] then None else Some (ae_after_state (last own)))"

definition legal_event :: "audit_event list \<Rightarrow> audit_event \<Rightarrow> bool" where
  "legal_event es e \<longleftrightarrow>
     ae_before_state e = last_state es (ae_decision_id e)
     \<and> ae_after_state e = ACTION_AFTER_STATES (ae_action e)
     \<and> validate_transition (ae_before_state e) (ae_after_state e) = Inr ()"

text \<open>The histories the log may hold: each event is legal after the ones before it.\<close>

inductive audited :: "audit_event list \<Rightarrow> bool" where
  audited_Nil: "audited []"
| audited_snoc: "audited es \<Longrightarrow> legal_event es e \<Longrightarrow> audited (es @ [e])"

lemma last_state_Nil [simp]: "last_state [] = Map.empty"
  by (rule ext) (simp add: last_state_def)

lemma last_state_snoc [simp]:
  "last_state (es @ [e]) = (last_state es)(ae_decision_id e \<mapsto> ae_after_state e)"
  by (rule ext) (simp add: last_state_def)

lemma audited_snoc_iff: "audited (es @ [e]) \<longleftrightarrow> audited es \<and> legal_event es e"
  by (auto elim: audited.cases intro: audited_snoc)

lemma audited_prefix: "audited (xs @ ys) \<Longrightarrow> audited xs"
proof (induction ys rule: rev_induct)
  case (snoc y ys)
  then show ?case by (simp add: audited_snoc_iff flip: append_assoc)
qed simp

lemma audited_event: "audited (xs @ e # ys) \<Longrightarrow> legal_event xs e"
  using audited_prefix[of "xs @ [e]" ys] by (simp add: audited_snoc_iff)

section \<open>Reading and appending\<close>

lemma verify_step_Inr_iff:
  "verify_step (es, last_state es) j = Inr s \<longleftrightarrow>
     (\<exists>e. audit_event_from_dict j = Inr e \<and> legal_event es e \<and> s = (es @ [e], last_state (es @ [e])))"
  by (auto simp: verify_step_def validate_action_after_state_def legal_event_def)

lemma verify_lines:
  assumes "read_log verify_step g ([], Map.empty) ls = Inr s"
  shows "snd s = last_state (fst s) \<and> audited (fst s)"
proof -
  have "\<exists>es. s = (es, last_state es) \<and> audited es"
    using assms
  proof (rule read_log_invariant)
    show "\<exists>es. ([], Map.empty) = (es, last_state es) \<and> audited es"
      by (auto intro: audited_Nil)
  next
    fix s j t
    assume "\<exists>es. s = (es, last_state es) \<and> audited es" and "verify_step s j = Inr t"
    then show "\<exists>es. t = (es, last_state es) \<and> audited es"
      by (auto simp: verify_step_Inr_iff audited_snoc_iff)
  qed
  then show ?thesis by auto
qed

lemma verify_Inr_iff:
  "verify store = Inr es \<longleftrightarrow>
     (\<exists>ls. log_lines store None = Inr ls
           \<and> read_log verify_step (AuditIntegrityError ''line is malformed'') ([], Map.empty) ls
             = Inr (es, last_state es))"
proof
  assume "verify store = Inr es"
  then obtain ls s where "log_lines store None = Inr ls" "fst s = es"
      "read_log verify_step (AuditIntegrityError ''line is malformed'') ([], Map.empty) ls = Inr s"
    by (auto simp: verify_def)
  then show "\<exists>ls. log_lines store None = Inr ls
           \<and> read_log verify_step (AuditIntegrityError ''line is malformed'') ([], Map.empty) ls
             = Inr (es, last_state es)"
    using verify_lines by (metis prod.collapse)
qed (auto simp: verify_def)

lemma verify_audited: "verify store = Inr es \<Longrightarrow> audited es"
  unfolding verify_Inr_iff using verify_lines by (metis fst_conv)

definition concerns :: "string option \<Rightarrow> audit_event \<Rightarrow> bool" where
  "concerns did e \<longleftrightarrow> did = None \<or> did = Some (ae_decision_id e)"

lemma audit_read_step_eq:
  "audit_event_from_dict j = Inr e \<Longrightarrow>
     audit_read_step did acc j = Inr (if concerns did e then acc @ [e] else acc)"
  by (simp add: audit_read_step_def concerns_def)

text \<open>The lines that verify are the lines that read, for one decision or for all.\<close>

lemma read_verified_lines:
  assumes "read_log verify_step g s ls = Inr s'"
  shows "\<exists>new. fst s' = fst s @ new
    \<and> read_log (audit_read_step did) g' acc ls = Inr (acc @ filter (concerns did) new)"
  using assms
proof (induction ls arbitrary: s acc)
  case Nil
  then show ?case by auto
next
  case (Cons l ls)
  show ?case
  proof (cases l)
    case (JsonLine j)
    from Cons.prems obtain t where t: "verify_step s j = Inr t" "read_log verify_step g t ls = Inr s'"
      by (auto simp: JsonLine)
    from t(1) obtain e where e: "audit_event_from_dict j = Inr e" "fst t = fst s @ [e]"
      by (auto simp: verify_step_def)
    let ?acc = "if concerns did e then acc @ [e] else acc"
    from Cons.IH[OF t(2), of ?acc] obtain new where
        "fst s' = fst t @ new"
        "read_log (audit_read_step did) g' ?acc ls = Inr (?acc @ filter (concerns did) new)"
      by auto
    with e show ?thesis
      by (intro exI[of _ "e # new"]) (auto simp: JsonLine audit_read_step_eq)
  qed (use Cons in auto)
qed

lemma from_dict_decision:
  "audit_event_from_dict (JObj p) = Inr e \<Longrightarrow> map_of p ''decision_id'' = Some (JStr (ae_decision_id e))"
proof -
  assume "audit_event_from_dict (JObj p) = Inr e"
  then obtain v where "jget p ''decision_id'' = Inr v" "jstr v = Inr (ae_decision_id e)"
    unfolding audit_event_from_dict_def json.case rbind_Inr_iff sum.inject
    by (elim exE conjE) (erule that, hypsubst, simp)
  then show ?thesis by (cases v) (auto simp: jget_def split: option.splits)
qed

text \<open>Selecting the rows of a decision before reading them gives the same events.\<close>

lemma read_selected_rows:
  assumes "read_log (audit_read_step (Some d)) g acc (map (JsonLine \<circ> JObj) rows) = Inr es"
  shows "read_log (audit_read_step (Some d)) g acc
    (map (JsonLine \<circ> JObj) (filter (\<lambda>p. map_of p ''decision_id'' = Some (JStr d)) rows)) = Inr es"
  using assms
proof (induction rows arbitrary: acc)
  case (Cons p rows)
  from Cons.prems obtain e where e: "audit_event_from_dict (JObj p) = Inr e"
    by (auto simp: audit_read_step_def)
  have "map_of p ''decision_id'' = Some (JStr (ae_decision_id e))"
    by (rule from_dict_decision[OF e])
  with Cons e show ?case by (auto simp: audit_read_step_eq[OF e] concerns_def)
qed simp

lemma read_events_verified:
  assumes "verify store = Inr es"
  shows "audit_read_events store did = Inr (filter (concerns did) es)"
proof -
  from assms obtain ls where ls: "log_lines store None = Inr ls"
      "read_log verify_step (AuditIntegrityError ''line is malformed'') ([], Map.empty) ls
       = Inr (es, last_state es)"
    by (auto simp: verify_Inr_iff)
  have whole: "read_log (audit_read_step did) g [] ls = Inr (filter (concerns did) es)" for g
    using read_verified_lines[OF ls(2), of did g "[]"] by auto
  show ?thesis
  proof (cases store)
    case (LogTable rows)
    show ?thesis
    proof (cases did)
      case (Some d)
      have "ls = map (JsonLine \<circ> JObj) rows" using ls(1) LogTable by simp
      then show ?thesis
        using whole read_selected_rows[of d _ "[]" rows] by (simp add: audit_read_events_def LogTable Some)
    qed (use whole ls(1) LogTable in \<open>simp add: audit_read_events_def\<close>)
  next
    case (LogFile f)
    then show ?thesis using whole ls(1) by (cases f) (simp_all add: audit_read_events_def)
  qed (use ls(1) in simp)
qed

lemma current_state_verified:
  assumes "verify store = Inr es"
  shows "current_state store d = Inr (last_state es d)"
proof -
  have "concerns (Some d) = (\<lambda>e. ae_decision_id e = d)" by (auto simp: concerns_def)
  then show ?thesis
    by (simp add: current_state_def read_events_verified[OF assms] last_state_def Let_def)
qed

lemma audit_append_verified:
  assumes "verify store = Inr es"
  shows "audit_append store e = Inr store' \<longleftrightarrow>
     legal_event es e \<and> store' = log_append store (audit_event_to_dict e)"
  by (auto simp: audit_append_def current_state_verified[OF assms] legal_event_def
      validate_action_after_state_def)

lemma verify_append:
  assumes "verify store = Inr es" and "audit_append store e = Inr store'"
  shows "verify store' = Inr (es @ [e])"
proof -
  from assms(1) obtain ls where ls: "log_lines store None = Inr ls"
      "read_log verify_step (AuditIntegrityError ''line is malformed'') ([], Map.empty) ls
       = Inr (es, last_state es)"
    by (auto simp: verify_Inr_iff)
  have e: "legal_event es e" and st: "store' = log_append store (audit_event_to_dict e)"
    using assms by (auto simp: audit_append_verified)
  have "read_log verify_step (AuditIntegrityError ''line is malformed'') ([], Map.empty)
      (ls @ [JsonLine (JObj (audit_event_to_dict e))]) = Inr (es @ [e], last_state (es @ [e]))"
    using e by (simp only: read_log_snoc[OF ls(2)] verify_step_Inr_iff audit_event_roundtrip_lemma) auto
  then show ?thesis
    unfolding verify_Inr_iff st using log_lines_append[OF ls(1)] by blast
qed

section \<open>What a history shows\<close>

text \<open>A state that only \<open>APPROVED\<close> leads to is reached through \<open>APPROVED\<close>.\<close>

lemma audited_approval:
  assumes "audited es" and "last_state es d \<in> {Some APPROVED, Some SUBMITTED, Some FILLED}"
  shows "\<exists>a \<in> set es. ae_decision_id a = d \<and> ae_after_state a = APPROVED"
  using assms
proof (induction arbitrary: d rule: audited.induct)
  case (audited_snoc es e)
  show ?case
  proof (cases "ae_decision_id e = d \<and> ae_after_state e \<noteq> APPROVED")
    case True
    then have "validate_transition (last_state es d) (ae_after_state e) = Inr ()"
      and "ae_after_state e \<in> {SUBMITTED, FILLED}"
      using audited_snoc by (auto simp: legal_event_def)
    then have "last_state es d \<in> {Some APPROVED, Some SUBMITTED, Some FILLED}"
      by (cases "last_state es d"; cases "the (last_state es d)") auto
    then show ?thesis using audited_snoc.IH by auto
  next
    case False
    then show ?thesis using audited_snoc by (cases "ae_decision_id e = d") auto
  qed
qed simp

lemma terminal_iff: "s \<in> set TERMINAL_STATES \<longleftrightarrow> s \<in> {REJECTED, FILLED, CANCELLED, EXPIRED}"
  by (cases s) (simp_all add: TERMINAL_STATES_def trade_idea_states_def)

lemma terminal_no_event:
  assumes "last_state es (ae_decision_id e) = Some s" and "s \<in> set TERMINAL_STATES"
  shows "\<not> legal_event es e"
  using assms by (auto simp: terminal_iff legal_event_def)

lemma terminal_stays:
  assumes "audited (xs @ ys)" and "last_state xs d = Some s" and "s \<in> set TERMINAL_STATES"
  shows "d \<notin> ae_decision_id ` set ys \<and> last_state (xs @ ys) d = Some s"
  using assms(1)
proof (induction ys rule: rev_induct)
  case (snoc y ys)
  then have IH: "d \<notin> ae_decision_id ` set ys" "last_state (xs @ ys) d = Some s"
    and y: "legal_event (xs @ ys) y"
    by (simp_all add: audited_snoc_iff flip: append_assoc)
  have "ae_decision_id y \<noteq> d" using terminal_no_event[OF _ assms(3)] IH(2) y by blast
  with IH show ?case by (simp flip: append_assoc)
qed (use assms(2) in simp)

text \<open>The states of one decision, in order, and the walks of the state machine.\<close>

definition trajectory :: "audit_event list \<Rightarrow> string \<Rightarrow> trade_idea_state list" where
  "trajectory es d = map ae_after_state (filter (\<lambda>e. ae_decision_id e = d) es)"

definition workflow_walk :: "trade_idea_state list \<Rightarrow> bool" where
  "workflow_walk ss \<longleftrightarrow>
     (ss \<noteq> [] \<longrightarrow> hd ss = PROPOSED)
     \<and> successively (\<lambda>s t. t \<in> set (ALLOWED_TRANSITIONS s)) ss"

lemma workflow_walk_snoc:
  "workflow_walk (ss @ [s]) \<longleftrightarrow>
     workflow_walk ss
     \<and> validate_transition (if ss = [] then None else Some (last ss)) s = Inr ()"
  by (cases ss rule: rev_cases)
     (auto simp: workflow_walk_def successively_append_iff hd_append)

lemma trajectory_snoc:
  "trajectory (es @ [e]) d =
     trajectory es d @ (if ae_decision_id e = d then [ae_after_state e] else [])"
  by (simp add: trajectory_def)

lemma last_state_trajectory:
  "last_state es d = (if trajectory es d = [] then None else Some (last (trajectory es d)))"
  by (auto simp: last_state_def trajectory_def Let_def last_map)

lemma audited_walk: "audited es \<Longrightarrow> workflow_walk (trajectory es d)"
proof (induction rule: audited.induct)
  case (audited_snoc es e)
  then show ?case
    by (auto simp: trajectory_snoc workflow_walk_snoc legal_event_def last_state_trajectory)
qed (simp add: trajectory_def workflow_walk_def)

lemma appends_verify:
  assumes "rfold audit_append store es = Inr store'" and "verify store = Inr es0"
  shows "verify store' = Inr (es0 @ es)"
  using assms
proof (induction es arbitrary: store es0)
  case (Cons e es)
  then obtain mid where "audit_append store e = Inr mid" "rfold audit_append mid es = Inr store'" by auto
  with Cons.IH Cons.prems verify_append show ?case by fastforce
qed simp

section \<open>Properties\<close>

definition ex_event :: "string \<Rightarrow> trade_idea_state option \<Rightarrow> audit_action \<Rightarrow> audit_event" where
  "ex_event eid before act =
     \<lparr>ae_event_id = eid, ae_timestamp = Aware 0, ae_decision_id = ''trade-1'',
      ae_actor_type = HUMAN, ae_actor_id = ''operator'', ae_action = act,
      ae_before_state = before, ae_after_state = ACTION_AFTER_STATES act, ae_reason = ''step'',
      ae_record_hash = ''hash'', ae_evidence = [], ae_venue = [], ae_external_order_id = []\<rparr>"

definition ex_history :: "audit_event list" where
  "ex_history =
     [ex_event ''evt-1'' None ACT_PROPOSED, ex_event ''evt-2'' (Some PROPOSED) ACT_APPROVED,
      ex_event ''evt-3'' (Some APPROVED) ACT_SUBMITTED, ex_event ''evt-4'' (Some SUBMITTED) ACT_FILLED]"

definition ex_log :: log_store where
  "ex_log = LogTable (map audit_event_to_dict ex_history)"

lemma ex_log_built: "rfold audit_append (LogTable []) ex_history = Inr ex_log"
  by code_simp

lemma ex_log_verify: "verify ex_log = Inr ex_history"
  using appends_verify[OF ex_log_built, of "[]"] by (simp add: verify_def)

text \<open>
  C32: The audit log gives back what was appended to it, and only legal histories. A log built
  from an empty file or an empty table by accepted appends passes \<^verbatim>\<open>verify\<close> with exactly the
  appended events; reading one decision gives its events in order; and the states of each
  decision walk the state machine from \<open>PROPOSED\<close>.
\<close>

theorem audit_log_faithful:
  assumes "store \<in> {LogFile None, LogFile (Some []), LogTable []}"
    and "rfold audit_append store es = Inr store'"
  shows "verify store' = Inr es
    \<and> audit_read_events store' (Some d) = Inr (filter (\<lambda>e. ae_decision_id e = d) es)
    \<and> workflow_walk (trajectory es d)"
proof -
  have v: "verify store' = Inr es"
    using appends_verify[OF assms(2), of "[]"] assms(1) by (auto simp: verify_def)
  have "concerns (Some d) = (\<lambda>e. ae_decision_id e = d)" by (auto simp: concerns_def)
  then show ?thesis
    using v read_events_verified[OF v, of "Some d"] audited_walk[OF verify_audited[OF v], of d] by simp
qed

theorem audit_log_faithful_witness:
  "verify ex_log = Inr ex_history
   \<and> audit_read_events ex_log (Some ''trade-1'') = Inr (filter (\<lambda>e. ae_decision_id e = ''trade-1'') ex_history)
   \<and> workflow_walk (trajectory ex_history ''trade-1'')"
  by (rule audit_log_faithful[OF _ ex_log_built]) simp



text \<open>
  A skipped execution is not always a no-op. The comment at \<^verbatim>\<open>ALLOWED_TRANSITIONS\<close> says
  that an execution-gate denial is recorded without moving the idea; but the action fixes only
  the state after the event, so the log accepts \<open>auto_execution_skipped\<close> for an idea that is
  only proposed, and the idea is then approved although no approval was recorded.
\<close>

lemma skipped_execution_approves:
  "\<exists>store'. rfold audit_append (LogTable [])
       [ex_event ''evt-1'' None ACT_PROPOSED,
        ex_event ''evt-2'' (Some PROPOSED) ACT_AUTO_EXECUTION_SKIPPED] = Inr store'
     \<and> current_state store' ''trade-1'' = Inr (Some APPROVED)"
proof (intro exI conjI)
  let ?es = "[ex_event ''evt-1'' None ACT_PROPOSED,
        ex_event ''evt-2'' (Some PROPOSED) ACT_AUTO_EXECUTION_SKIPPED]"
  show "rfold audit_append (LogTable []) ?es = Inr (LogTable (map audit_event_to_dict ?es))" by code_simp
  show "current_state (LogTable (map audit_event_to_dict ?es)) ''trade-1'' = Inr (Some APPROVED)" by code_simp
qed

text \<open>
  A line that is JSON but not an object escapes the malformed-line check: \<^verbatim>\<open>from_dict\<close>
  calls \<^verbatim>\<open>payload.get\<close> first, and \<^verbatim>\<open>verify\<close> does not catch the \<^verbatim>\<open>AttributeError\<close>.
\<close>

lemma verify_list_line:
  "verify (LogFile (Some [JsonLine (JArr [])])) = Inl (AttributeError ''get'')"
  by (simp add: verify_def verify_step_def audit_event_from_dict_def rewrap_def)

end
