(* ===== verification/Idea_Closeout.thy ===== *)
theory Idea_Closeout
  imports Idea_Audit
begin

text \<open>
  Closeout attributions, \<^verbatim>\<open>src/gpt_trader/features/trade_ideas/closeout.py\<close>: why a terminal
  idea resolved and what it realized, with the append-only log that holds at most one
  attribution for each decision; and the read classification of \<^verbatim>\<open>lifecycle.py\<close> over the
  view of \<^verbatim>\<open>service_models.py\<close>.

  A decimal that passed \<^verbatim>\<open>_decimal_or_none\<close> is a finite value, so the constructors take
  finite values; the second pass of \<^verbatim>\<open>__post_init__\<close> over them changes nothing.
\<close>

section \<open>Attributions\<close>

datatype closeout_resolution = THESIS_TARGET | INVALIDATION | EXPIRY

fun closeout_resolution_value :: "closeout_resolution \<Rightarrow> string" where
  "closeout_resolution_value THESIS_TARGET = ''thesis_target''"
| "closeout_resolution_value INVALIDATION = ''invalidation''"
| "closeout_resolution_value EXPIRY = ''expiry''"

definition closeout_resolution_of :: "string \<Rightarrow> closeout_resolution result" where
  "closeout_resolution_of = enum_of closeout_resolution_value [THESIS_TARGET, INVALIDATION, EXPIRY]"

definition closeout_decimal_or_none :: "string \<Rightarrow> json option \<Rightarrow> dec option result" where
  "closeout_decimal_or_none field v =
     (case v of
        None \<Rightarrow> Inr None
      | Some j \<Rightarrow> (case jdecimal j of
          Inr (Finite x) \<Rightarrow> Inr (Some x)
        | Inr NonFinite \<Rightarrow> Inl (ValueError (field @ '' must be finite''))
        | Inl _ \<Rightarrow> Inl (ValueError (field @ '' must be a finite decimal''))))"

fun closeout_object_payload :: "string \<Rightarrow> json \<Rightarrow> payload result" where
  "closeout_object_payload field (JObj p) = Inr p"
| "closeout_object_payload field _ = Inl (ValueError (field @ '' must be a JSON object''))"

record max_loss_snapshot =
  ms_amount :: "dec option"
  ms_percent_of_account :: "dec option"
  ms_assumptions :: "string list"

definition new_max_loss_snapshot :: "max_loss_snapshot \<Rightarrow> max_loss_snapshot result" where
  "new_max_loss_snapshot m =
     rbind (validate_non_negative_decimal ''max_loss.amount'' (ms_amount m)) (\<lambda>_.
     rbind (validate_non_negative_decimal ''max_loss.percent_of_account'' (ms_percent_of_account m)) (\<lambda>_.
     Inr m))"

definition max_loss_snapshot_to_dict :: "max_loss_snapshot \<Rightarrow> payload" where
  "max_loss_snapshot_to_dict m =
     [(''amount'', jdec (ms_amount m)),
      (''percent_of_account'', jdec (ms_percent_of_account m)),
      (''assumptions'', JArr (map JStr (ms_assumptions m)))]"

definition max_loss_snapshot_from_dict :: "json \<Rightarrow> max_loss_snapshot result" where
  "max_loss_snapshot_from_dict j =
     rbind (closeout_object_payload ''max_loss'' j) (\<lambda>p.
     rbind (closeout_decimal_or_none ''max_loss.amount'' (jopt p ''amount'')) (\<lambda>amount.
     rbind (closeout_decimal_or_none ''max_loss.percent_of_account'' (jopt p ''percent_of_account'')) (\<lambda>percent.
     rbind (string_sequence ''max_loss.assumptions'' (jget_or p ''assumptions'' (JArr []))) (\<lambda>assumptions.
     new_max_loss_snapshot
       \<lparr>ms_amount = amount, ms_percent_of_account = percent, ms_assumptions = assumptions\<rparr>))))"

record closeout_attribution =
  co_decision_id :: string
  co_timestamp :: instant
  co_actor_type :: string
  co_actor_id :: string
  co_terminal_event_id :: string
  co_record_hash :: string
  co_resolution :: closeout_resolution
  co_max_loss :: max_loss_snapshot
  co_realized_amount :: "dec option"
  co_realized_percent :: "dec option"
  co_unavailable_reason :: string
  co_evidence :: "string list"

definition new_closeout_attribution :: "closeout_attribution \<Rightarrow> closeout_attribution result" where
  "new_closeout_attribution c =
     rbind (raise_if (co_realized_amount c = None \<and> co_realized_percent c = None
                      \<and> is_blank (co_unavailable_reason c))
              (ValueError ''realized profit/loss requires amount, percent, or an unavailable reason'')) (\<lambda>_.
     Inr c)"

definition closeout_attribution_to_dict :: "closeout_attribution \<Rightarrow> payload" where
  "closeout_attribution_to_dict c =
     [(''decision_id'', JStr (co_decision_id c)),
      (''timestamp'', JTime (co_timestamp c)),
      (''actor_type'', JStr (co_actor_type c)),
      (''actor_id'', JStr (co_actor_id c)),
      (''terminal_event_id'', JStr (co_terminal_event_id c)),
      (''record_hash'', JStr (co_record_hash c)),
      (''resolution'', JStr (closeout_resolution_value (co_resolution c))),
      (''realized_profit_loss_amount'', jdec (co_realized_amount c)),
      (''realized_profit_loss_percent'', jdec (co_realized_percent c)),
      (''realized_profit_loss_unavailable_reason'', JStr (co_unavailable_reason c)),
      (''max_loss'', JObj (max_loss_snapshot_to_dict (co_max_loss c))),
      (''evidence'', JArr (map JStr (co_evidence c)))]"

text \<open>
  \<^verbatim>\<open>datetime.fromisoformat(_string_value(...))\<close>: the naive time is refused by the constructor
  before its other check.
\<close>

fun closeout_time :: "json \<Rightarrow> py_datetime result" where
  "closeout_time (JTime t) = Inr (Aware t)"
| "closeout_time (JNaive t) = Inr (Naive t)"
| "closeout_time (JStr _) = Inl (ValueError ''fromisoformat'')"
| "closeout_time (JDec _) = Inl (ValueError ''fromisoformat'')"
| "closeout_time _ = Inl (ValueError ''timestamp must be a string'')"

fun require_timezone_aware :: "string \<Rightarrow> py_datetime \<Rightarrow> instant result" where
  "require_timezone_aware field (Aware t) = Inr t"
| "require_timezone_aware field (Naive _) = Inl (ValueError (field @ '' must include a timezone''))"

definition closeout_attribution_from_dict :: "json \<Rightarrow> closeout_attribution result" where
  "closeout_attribution_from_dict j =
     rbind (closeout_object_payload ''closeout_attribution'' j) (\<lambda>p.
     rbind (rbind (jget p ''decision_id'') (string_value ''decision_id'')) (\<lambda>did.
     rbind (rbind (jget p ''timestamp'') closeout_time) (\<lambda>t.
     rbind (rbind (jget p ''actor_type'') (string_value ''actor_type'')) (\<lambda>aty.
     rbind (rbind (jget p ''actor_id'') (string_value ''actor_id'')) (\<lambda>aid.
     rbind (rbind (jget p ''terminal_event_id'') (string_value ''terminal_event_id'')) (\<lambda>tid.
     rbind (rbind (jget p ''record_hash'') (string_value ''record_hash'')) (\<lambda>hash.
     rbind (rbind (jget p ''resolution'') (jenum closeout_resolution_of)) (\<lambda>res.
     rbind (closeout_decimal_or_none ''realized_profit_loss_amount''
              (jopt p ''realized_profit_loss_amount'')) (\<lambda>amount.
     rbind (closeout_decimal_or_none ''realized_profit_loss_percent''
              (jopt p ''realized_profit_loss_percent'')) (\<lambda>percent.
     rbind (string_value ''realized_profit_loss_unavailable_reason''
              (jget_or p ''realized_profit_loss_unavailable_reason'' (JStr []))) (\<lambda>reason.
     rbind (rbind (jget p ''max_loss'') max_loss_snapshot_from_dict) (\<lambda>loss.
     rbind (string_sequence ''evidence'' (jget_or p ''evidence'' (JArr []))) (\<lambda>evidence.
     rbind (require_timezone_aware ''timestamp'' t) (\<lambda>moment.
     new_closeout_attribution
       \<lparr>co_decision_id = did, co_timestamp = moment, co_actor_type = aty, co_actor_id = aid,
        co_terminal_event_id = tid, co_record_hash = hash, co_resolution = res,
        co_max_loss = loss, co_realized_amount = amount, co_realized_percent = percent,
        co_unavailable_reason = reason, co_evidence = evidence\<rparr>))))))))))))))"

section \<open>The log\<close>

text \<open>One line of \<^verbatim>\<open>read_records\<close>: the selected records so far and the dictionary \<^verbatim>\<open>seen\<close>.\<close>

type_synonym closeout_reading = "closeout_attribution list \<times> (string \<rightharpoonup> closeout_attribution)"

definition read_records_step ::
  "string option \<Rightarrow> closeout_reading \<Rightarrow> json \<Rightarrow> closeout_reading result" where
  "read_records_step did s j =
     rbind (rewrap lookup_or_value_error (CloseoutAttributionIntegrityError ''line is malformed'')
              (closeout_attribution_from_dict j)) (\<lambda>c.
     rbind (raise_if (snd s (co_decision_id c) \<noteq> None \<and> snd s (co_decision_id c) \<noteq> Some c)
              (DuplicateCloseoutAttributionError ''conflicting line'')) (\<lambda>_.
     Inr (if did = None \<or> did = Some (co_decision_id c) then fst s @ [c] else fst s,
          (snd s)(co_decision_id c \<mapsto> c))))"

definition read_records :: "log_store \<Rightarrow> string option \<Rightarrow> closeout_attribution list result" where
  "read_records store did =
     rbind (log_lines store None) (\<lambda>ls.
     rbind (read_log (read_records_step did) (CloseoutAttributionIntegrityError ''line is malformed'')
              ([], Map.empty) ls) (\<lambda>s.
     Inr (fst s)))"

definition closeout_get :: "log_store \<Rightarrow> string \<Rightarrow> closeout_attribution option result" where
  "closeout_get store did =
     rbind (read_records store (Some did)) (\<lambda>cs.
     Inr (case cs of [] \<Rightarrow> None | c # _ \<Rightarrow> Some c))"

definition closeout_append ::
  "log_store \<Rightarrow> closeout_attribution \<Rightarrow> (closeout_attribution \<times> log_store) result" where
  "closeout_append store c =
     rbind (closeout_get store (co_decision_id c)) (\<lambda>existing.
     case existing of
       Some old \<Rightarrow> if old = c then Inr (old, store)
                   else Inl (DuplicateCloseoutAttributionError ''attribution already exists'')
     | None \<Rightarrow> Inr (c, log_append store (closeout_attribution_to_dict c)))"

section \<open>Lifecycle classification\<close>

record trade_idea_view =
  vw_idea :: trade_idea
  vw_state :: trade_idea_state
  vw_events :: "audit_event list"
  vw_closeout :: "closeout_attribution option"

datatype lifecycle_classification = NOT_APPLICABLE | OPEN_FILLED | CLOSED | OVERDUE_UNATTRIBUTED

definition classify_lifecycle :: "trade_idea_view \<Rightarrow> instant \<Rightarrow> lifecycle_classification" where
  "classify_lifecycle view now =
     (if ti_position_operation (vw_idea view) \<noteq> None then NOT_APPLICABLE
      else if vw_state view \<notin> set TERMINAL_STATES then NOT_APPLICABLE
      else if vw_closeout view \<noteq> None then CLOSED
      else if vw_state view = FILLED
        \<and> (case th_expires_at (ti_time_horizon (vw_idea view)) of None \<Rightarrow> False | Some t \<Rightarrow> now < t)
      then OPEN_FILLED
      else OVERDUE_UNATTRIBUTED)"

text \<open>The explanation of an overdue classification, with what the message names.\<close>

datatype unattributed = TerminalUnattributed trade_idea_state | FilledWithoutExpiry | FilledExpired instant

definition unattributed_reason :: "trade_idea_view \<Rightarrow> instant \<Rightarrow> unattributed option" where
  "unattributed_reason view now =
     (if classify_lifecycle view now \<noteq> OVERDUE_UNATTRIBUTED then None
      else if vw_state view \<noteq> FILLED then Some (TerminalUnattributed (vw_state view))
      else case th_expires_at (ti_time_horizon (vw_idea view)) of
             None \<Rightarrow> Some FilledWithoutExpiry
           | Some t \<Rightarrow> Some (FilledExpired t))"

section \<open>Round trip\<close>

definition valid_closeout :: "closeout_attribution \<Rightarrow> bool" where
  "valid_closeout c \<longleftrightarrow>
     new_closeout_attribution c = Inr c \<and> new_max_loss_snapshot (co_max_loss c) = Inr (co_max_loss c)"

lemma closeout_resolution_of_value [simp]:
  "closeout_resolution_of (closeout_resolution_value r) = Inr r"
  by (cases r) (simp_all add: closeout_resolution_of_def enum_of_def)

lemma closeout_decimal_jdec:
  "map_of p k = Some (jdec x) \<Longrightarrow> closeout_decimal_or_none f (jopt p k) = Inr x"
  by (cases x) (simp_all add: closeout_decimal_or_none_def jopt_def jdec_def jdec_option_def)

lemma max_loss_snapshot_roundtrip:
  assumes "new_max_loss_snapshot m = Inr m"
  shows "max_loss_snapshot_from_dict (JObj (max_loss_snapshot_to_dict m)) = Inr m"
  using assms
  by (simp add: max_loss_snapshot_from_dict_def max_loss_snapshot_to_dict_def closeout_decimal_jdec jget_or_def
      new_max_loss_snapshot_def)

lemma closeout_roundtrip:
  assumes "valid_closeout c"
  shows "closeout_attribution_from_dict (JObj (closeout_attribution_to_dict c)) = Inr c"
proof -
  have m: "max_loss_snapshot_from_dict (JObj (max_loss_snapshot_to_dict (co_max_loss c))) = Inr (co_max_loss c)"
    using assms by (simp add: valid_closeout_def max_loss_snapshot_roundtrip)
  have n: "\<not> (co_realized_amount c = None \<and> co_realized_percent c = None \<and> is_blank (co_unavailable_reason c))"
    using assms by (simp add: valid_closeout_def new_closeout_attribution_def)
  show ?thesis
    by (simp add: closeout_attribution_from_dict_def closeout_attribution_to_dict_def
        closeout_decimal_jdec jget_def jget_or_def new_closeout_attribution_def m n)
qed

section \<open>One attribution for each decision\<close>

text \<open>A log that reads, with its records in order.\<close>

definition closeout_log :: "log_store \<Rightarrow> closeout_attribution list \<Rightarrow> bool" where
  "closeout_log store cs \<longleftrightarrow>
     (\<forall>did. \<exists>ls. log_lines store None = Inr ls
        \<and> read_log (read_records_step did) (CloseoutAttributionIntegrityError ''line is malformed'')
            ([], Map.empty) ls
          = Inr (filter (\<lambda>c. did = None \<or> did = Some (co_decision_id c)) cs,
                 map_of (rev (map (\<lambda>c. (co_decision_id c, c)) cs))))"

lemma closeout_log_read:
  assumes "closeout_log store cs"
  shows "read_records store did = Inr (filter (\<lambda>c. did = None \<or> did = Some (co_decision_id c)) cs)"
proof -
  obtain ls where "log_lines store None = Inr ls"
      "read_log (read_records_step did) (CloseoutAttributionIntegrityError ''line is malformed'')
         ([], Map.empty) ls
       = Inr (filter (\<lambda>c. did = None \<or> did = Some (co_decision_id c)) cs,
              map_of (rev (map (\<lambda>c. (co_decision_id c, c)) cs)))"
    using assms unfolding closeout_log_def by blast
  then show ?thesis by (simp add: read_records_def)
qed

lemma closeout_log_get:
  assumes "closeout_log store cs"
  shows "closeout_get store d = Inr (List.find (\<lambda>c. co_decision_id c = d) cs)"
proof -
  have "(case filter (\<lambda>c. d = co_decision_id c) cs of [] \<Rightarrow> None | c # _ \<Rightarrow> Some c)
      = List.find (\<lambda>c. co_decision_id c = d) cs"
    by (induction cs) auto
  then show ?thesis by (simp add: closeout_get_def closeout_log_read[OF assms])
qed

lemma closeout_log_append:
  assumes "closeout_log store cs" and "valid_closeout c" and "co_decision_id c \<notin> co_decision_id ` set cs"
  shows "closeout_log (log_append store (closeout_attribution_to_dict c)) (cs @ [c])"
  unfolding closeout_log_def
proof
  fix did
  let ?pick = "\<lambda>c. did = None \<or> did = Some (co_decision_id c)"
  let ?seen = "map_of (rev (map (\<lambda>c. (co_decision_id c, c)) cs))"
  obtain ls where ls: "log_lines store None = Inr ls"
      "read_log (read_records_step did) (CloseoutAttributionIntegrityError ''line is malformed'')
         ([], Map.empty) ls = Inr (filter ?pick cs, ?seen)"
    using assms(1) unfolding closeout_log_def by blast
  have "?seen (co_decision_id c) = None" using assms(3) by (force simp: map_of_eq_None_iff)
  then have "read_records_step did (filter ?pick cs, ?seen) (JObj (closeout_attribution_to_dict c))
      = Inr (filter ?pick (cs @ [c]), map_of (rev (map (\<lambda>c. (co_decision_id c, c)) (cs @ [c]))))"
    by (simp add: read_records_step_def closeout_roundtrip[OF assms(2)] rewrap_def)
  then show "\<exists>ls. log_lines (log_append store (closeout_attribution_to_dict c)) None = Inr ls
      \<and> read_log (read_records_step did) (CloseoutAttributionIntegrityError ''line is malformed'')
          ([], Map.empty) ls
        = Inr (filter ?pick (cs @ [c]), map_of (rev (map (\<lambda>c. (co_decision_id c, c)) (cs @ [c]))))"
    by (intro exI[of _ "ls @ [JsonLine (JObj (closeout_attribution_to_dict c))]"])
       (simp only: log_lines_append[OF ls(1)] read_log_snoc[OF ls(2)] simp_thms)
qed

lemma find_decision_Some:
  assumes "List.find (\<lambda>x. co_decision_id x = d) cs = Some c"
  shows "c \<in> set cs \<and> co_decision_id c = d"
  using assms by (auto simp: find_Some_iff)

text \<open>The logs that accepted appends build from an empty one.\<close>

inductive closeouts_recorded :: "log_store \<Rightarrow> closeout_attribution list \<Rightarrow> bool" where
  recorded_empty: "store \<in> {LogFile None, LogFile (Some []), LogTable []} \<Longrightarrow> closeouts_recorded store []"
| recorded_again: "closeouts_recorded store cs \<Longrightarrow> closeout_append store c = Inr (c', store) \<Longrightarrow>
    closeouts_recorded store cs"
| recorded_new: "closeouts_recorded store cs \<Longrightarrow> valid_closeout c \<Longrightarrow>
    closeout_append store c = Inr (c', store') \<Longrightarrow> store' \<noteq> store \<Longrightarrow> closeouts_recorded store' (cs @ [c])"

lemma closeout_append_cases:
  assumes "closeout_log store cs" and "closeout_append store c = Inr (c', store')"
  shows "c' = c \<and> (store' = store \<and> c \<in> set cs
    \<or> store' = log_append store (closeout_attribution_to_dict c) \<and> co_decision_id c \<notin> co_decision_id ` set cs)"
proof (cases "List.find (\<lambda>x. co_decision_id x = co_decision_id c) cs")
  case None
  then have "co_decision_id c \<notin> co_decision_id ` set cs" by (auto simp: find_None_iff)
  with None show ?thesis
    using assms by (auto simp: closeout_append_def closeout_log_get[OF assms(1)])
next
  case (Some old)
  then show ?thesis
    using assms find_decision_Some[OF Some]
    by (auto simp: closeout_append_def closeout_log_get split: if_splits)
qed

lemma recorded_log:
  "closeouts_recorded store cs \<Longrightarrow> closeout_log store cs \<and> distinct (map co_decision_id cs)"
proof (induction rule: closeouts_recorded.induct)
  case (recorded_empty store)
  then show ?case by (auto simp: closeout_log_def)
next
  case (recorded_new store cs c c' store')
  then show ?case
    using closeout_append_cases[of store cs c c' store'] closeout_log_append[of store cs c] by auto
qed simp

section \<open>Properties\<close>

definition ex_closeout :: closeout_attribution where
  "ex_closeout =
     \<lparr>co_decision_id = ''trade-1'', co_timestamp = hours 5, co_actor_type = ''human'',
      co_actor_id = ''operator'', co_terminal_event_id = ''evt-4'', co_record_hash = ''hash'',
      co_resolution = THESIS_TARGET,
      co_max_loss = \<lparr>ms_amount = Some 20, ms_percent_of_account = Some 2, ms_assumptions = []\<rparr>,
      co_realized_amount = Some 7, co_realized_percent = None, co_unavailable_reason = [],
      co_evidence = [''fill'']\<rparr>"

lemma ex_recorded:
  "closeouts_recorded (LogTable [closeout_attribution_to_dict ex_closeout]) [ex_closeout]"
proof -
  have "closeouts_recorded (LogTable [closeout_attribution_to_dict ex_closeout]) ([] @ [ex_closeout])"
  proof (rule recorded_new)
    show "closeouts_recorded (LogTable []) []" by (rule recorded_empty) simp
    show "valid_closeout ex_closeout" by code_simp
    show "closeout_append (LogTable []) ex_closeout
        = Inr (ex_closeout, LogTable [closeout_attribution_to_dict ex_closeout])"
      by (simp add: closeout_append_def closeout_get_def read_records_def)
  qed simp
  then show ?thesis by simp
qed

text \<open>
  C37: A decision has at most one closeout attribution. In every log that accepted appends
  build from an empty one, all records read back, each decision occurs once and \<^verbatim>\<open>get\<close> finds
  its record; appending a recorded attribution again changes nothing, and appending a
  different one for the same decision is refused.
\<close>

theorem closeout_single:
  assumes "closeouts_recorded store cs"
  shows "read_records store None = Inr cs \<and> distinct (map co_decision_id cs)
    \<and> (\<forall>c \<in> set cs. closeout_get store (co_decision_id c) = Inr (Some c)
         \<and> closeout_append store c = Inr (c, store)
         \<and> (\<forall>c'. co_decision_id c' = co_decision_id c \<and> c' \<noteq> c \<longrightarrow>
              closeout_append store c' = Inl (DuplicateCloseoutAttributionError ''attribution already exists'')))"
proof -
  have L: "closeout_log store cs" and D: "distinct (map co_decision_id cs)"
    using recorded_log[OF assms] by auto
  have "List.find (\<lambda>x. co_decision_id x = co_decision_id c) cs = Some c" if "c \<in> set cs" for c
    using D that by (induction cs) auto
  then have "closeout_get store (co_decision_id c) = Inr (Some c)" if "c \<in> set cs" for c
    using that by (simp add: closeout_log_get[OF L])
  moreover have "read_records store None = Inr cs" using closeout_log_read[OF L] by simp
  ultimately show ?thesis using D by (auto simp: closeout_append_def)
qed

theorem closeout_single_witness:
  "closeout_append (LogTable [closeout_attribution_to_dict ex_closeout]) ex_closeout
     = Inr (ex_closeout, LogTable [closeout_attribution_to_dict ex_closeout])"
  using closeout_single[OF ex_recorded] by simp

text \<open>
  The lifecycle classification is exhaustive in the sense its callers rely on: an idea is
  overdue exactly when it is a terminal opening idea without attribution that is not a fill
  still before its expiry, and exactly then there is a reason; an open fill has an expiry in
  the future.
\<close>

theorem lifecycle_overdue:
  "(classify_lifecycle view now = OVERDUE_UNATTRIBUTED \<longleftrightarrow>
      ti_position_operation (vw_idea view) = None \<and> vw_closeout view = None
      \<and> vw_state view \<in> {REJECTED, FILLED, CANCELLED, EXPIRED}
      \<and> \<not> (vw_state view = FILLED
           \<and> (\<exists>t. th_expires_at (ti_time_horizon (vw_idea view)) = Some t \<and> now < t)))
   \<and> (unattributed_reason view now \<noteq> None \<longleftrightarrow> classify_lifecycle view now = OVERDUE_UNATTRIBUTED)
   \<and> (classify_lifecycle view now = OPEN_FILLED \<longrightarrow>
      (\<exists>t. th_expires_at (ti_time_horizon (vw_idea view)) = Some t \<and> now < t) \<and> vw_closeout view = None)"
  by (auto simp: classify_lifecycle_def unattributed_reason_def terminal_iff split: option.splits if_splits)

theorem lifecycle_overdue_witness:
  "classify_lifecycle \<lparr>vw_idea = ex_idea, vw_state = FILLED, vw_events = ex_history, vw_closeout = None\<rparr> 0
     = OPEN_FILLED
   \<and> th_expires_at (ti_time_horizon ex_idea) \<noteq> None"
proof -
  let ?v = "\<lparr>vw_idea = ex_idea, vw_state = FILLED, vw_events = ex_history, vw_closeout = None\<rparr>"
  have "classify_lifecycle ?v 0 = OPEN_FILLED" by code_simp
  then show ?thesis using lifecycle_overdue[of ?v 0] by auto
qed

end
