(* ===== verification/Idea_Budget.thy ===== *)
theory Idea_Budget
  imports Idea_Audit
begin

text \<open>
  The versioned risk budget of \<^verbatim>\<open>src/gpt_trader/features/trade_ideas/budget.py\<close>: the budget
  with the checks of its constructor, its serialization, and the append-only log whose last
  entry is the current budget.

  The budget log interprets the locale \<open>versioned_log\<close>; its contract, that an entry with an
  accepted budget reads back, is the round trip proved here.
\<close>

section \<open>The budget\<close>

fun require_finite_decimal :: "string \<Rightarrow> py_decimal \<Rightarrow> dec result" where
  "require_finite_decimal field (Finite x) = Inr x"
| "require_finite_decimal field NonFinite = Inl (ValueError (field @ '' must be finite''))"

definition require_non_negative_decimal :: "string \<Rightarrow> dec \<Rightarrow> unit result" where
  "require_non_negative_decimal field x = raise_if (x < 0) (ValueError (field @ '' must be non-negative''))"

definition require_non_negative_int :: "string \<Rightarrow> int \<Rightarrow> unit result" where
  "require_non_negative_int field n = raise_if (n < 0) (ValueError (field @ '' must be non-negative''))"

fun require_boolean :: "string \<Rightarrow> json \<Rightarrow> bool result" where
  "require_boolean field (JBool b) = Inr b"
| "require_boolean field _ = Inl (BudgetIntegrityError (field @ '' must be a JSON boolean''))"

record risk_budget =
  rk_version :: int
  rk_max_loss_per_idea_pct :: dec
  rk_max_daily_loss_pct :: dec
  rk_max_open_notional_pct :: dec
  rk_max_concurrent_approved_tickets :: int
  rk_max_review_latency_hours :: int
  rk_sizing_capped_by_budget :: bool
  rk_gain_retention_floor_pct :: dec
  rk_allow_futures_leverage :: bool
  rk_allow_naked_shorts :: bool
  rk_reason :: string
  rk_account_equity :: "dec option"
  rk_max_drawdown_from_peak_pct :: "dec option"
  rk_max_equity_buying_power_pct :: "dec option"

text \<open>The decimal arguments of the constructor, as they arrive.\<close>

record budget_decimals =
  bd_loss :: py_decimal
  bd_daily :: py_decimal
  bd_notional :: py_decimal
  bd_floor :: py_decimal
  bd_equity :: "py_decimal option"
  bd_drawdown :: "py_decimal option"
  bd_power :: "py_decimal option"

definition optional_non_negative :: "string \<Rightarrow> py_decimal option \<Rightarrow> dec option result" where
  "optional_non_negative field x =
     ropt (\<lambda>d. rbind (require_finite_decimal field d) (\<lambda>v.
                rbind (require_non_negative_decimal field v) (\<lambda>_. Inr v))) x"

definition new_risk_budget ::
  "int \<Rightarrow> int \<Rightarrow> int \<Rightarrow> bool \<Rightarrow> bool \<Rightarrow> bool \<Rightarrow> string \<Rightarrow> budget_decimals \<Rightarrow> risk_budget result" where
  "new_risk_budget version tickets latency capped futures shorts reason d =
     rbind (ropt (\<lambda>x. rbind (require_finite_decimal ''account_equity'' x) (\<lambda>v.
                      rbind (raise_if (v \<le> 0) (ValueError ''account_equity must be positive'')) (\<lambda>_.
                      Inr v))) (bd_equity d)) (\<lambda>equity.
     rbind (optional_non_negative ''max_drawdown_from_peak_pct'' (bd_drawdown d)) (\<lambda>drawdown.
     rbind (optional_non_negative ''max_equity_buying_power_pct'' (bd_power d)) (\<lambda>power.
     rbind (require_finite_decimal ''max_loss_per_idea_pct'' (bd_loss d)) (\<lambda>loss.
     rbind (require_finite_decimal ''max_daily_loss_pct'' (bd_daily d)) (\<lambda>daily.
     rbind (require_finite_decimal ''max_open_notional_pct'' (bd_notional d)) (\<lambda>notional.
     rbind (require_finite_decimal ''gain_retention_floor_pct'' (bd_floor d)) (\<lambda>flr.
     rbind (require_non_negative_decimal ''max_loss_per_idea_pct'' loss) (\<lambda>_.
     rbind (require_non_negative_decimal ''max_daily_loss_pct'' daily) (\<lambda>_.
     rbind (require_non_negative_decimal ''max_open_notional_pct'' notional) (\<lambda>_.
     rbind (require_non_negative_decimal ''gain_retention_floor_pct'' flr) (\<lambda>_.
     rbind (require_non_negative_int ''max_concurrent_approved_tickets'' tickets) (\<lambda>_.
     rbind (require_non_negative_int ''max_review_latency_hours'' latency) (\<lambda>_.
     Inr \<lparr>rk_version = version, rk_max_loss_per_idea_pct = loss, rk_max_daily_loss_pct = daily,
          rk_max_open_notional_pct = notional, rk_max_concurrent_approved_tickets = tickets,
          rk_max_review_latency_hours = latency, rk_sizing_capped_by_budget = capped,
          rk_gain_retention_floor_pct = flr, rk_allow_futures_leverage = futures,
          rk_allow_naked_shorts = shorts, rk_reason = reason, rk_account_equity = equity,
          rk_max_drawdown_from_peak_pct = drawdown, rk_max_equity_buying_power_pct = power\<rparr>)))))))))))))"

definition risk_budget_to_dict :: "risk_budget \<Rightarrow> payload" where
  "risk_budget_to_dict b =
     [(''version'', JInt (rk_version b)),
      (''max_loss_per_idea_pct'', JDec (Finite (rk_max_loss_per_idea_pct b))),
      (''max_daily_loss_pct'', JDec (Finite (rk_max_daily_loss_pct b))),
      (''max_open_notional_pct'', JDec (Finite (rk_max_open_notional_pct b))),
      (''max_concurrent_approved_tickets'', JInt (rk_max_concurrent_approved_tickets b)),
      (''max_review_latency_hours'', JInt (rk_max_review_latency_hours b)),
      (''sizing_capped_by_budget'', JBool (rk_sizing_capped_by_budget b)),
      (''gain_retention_floor_pct'', JDec (Finite (rk_gain_retention_floor_pct b))),
      (''allow_futures_leverage'', JBool (rk_allow_futures_leverage b)),
      (''allow_naked_shorts'', JBool (rk_allow_naked_shorts b)),
      (''reason'', JStr (rk_reason b)),
      (''account_equity'', jdec (rk_account_equity b)),
      (''max_drawdown_from_peak_pct'', jdec (rk_max_drawdown_from_peak_pct b)),
      (''max_equity_buying_power_pct'', jdec (rk_max_equity_buying_power_pct b))]"

text \<open>\<^verbatim>\<open>Decimal(value)\<close> of a JSON value, without \<^verbatim>\<open>str\<close>: a boolean is an integer.\<close>

fun decimal_of_json :: "json \<Rightarrow> py_decimal result" where
  "decimal_of_json (JDec d) = Inr d"
| "decimal_of_json (JInt n) = Inr (Finite (of_int n))"
| "decimal_of_json (JBool b) = Inr (Finite (if b then 1 else 0))"
| "decimal_of_json (JNum d) = Inr d"
| "decimal_of_json (JStr _) = Inl (ArithmeticError ''InvalidOperation'')"
| "decimal_of_json (JTime _) = Inl (ArithmeticError ''InvalidOperation'')"
| "decimal_of_json (JNaive _) = Inl (ArithmeticError ''InvalidOperation'')"
| "decimal_of_json (JArr _) = Inl (ValueError ''Decimal from a sequence'')"
| "decimal_of_json _ = Inl (TypeError ''conversion to Decimal is not supported'')"

definition risk_budget_from_dict :: "json \<Rightarrow> risk_budget result" where
  "risk_budget_from_dict j =
     (case j of
        JObj p \<Rightarrow>
          rbind (rbind (jget p ''version'') py_int) (\<lambda>version.
          rbind (rbind (jget p ''max_loss_per_idea_pct'') decimal_of_json) (\<lambda>loss.
          rbind (rbind (jget p ''max_daily_loss_pct'') decimal_of_json) (\<lambda>daily.
          rbind (rbind (jget p ''max_open_notional_pct'') decimal_of_json) (\<lambda>notional.
          rbind (rbind (jget p ''max_concurrent_approved_tickets'') py_int) (\<lambda>tickets.
          rbind (rbind (jget p ''max_review_latency_hours'') py_int) (\<lambda>latency.
          rbind (rbind (jget p ''sizing_capped_by_budget'')
                   (require_boolean ''sizing_capped_by_budget'')) (\<lambda>capped.
          rbind (rbind (jget p ''gain_retention_floor_pct'') decimal_of_json) (\<lambda>flr.
          rbind (rbind (jget p ''allow_futures_leverage'')
                   (require_boolean ''allow_futures_leverage'')) (\<lambda>futures.
          rbind (rbind (jget p ''allow_naked_shorts'')
                   (require_boolean ''allow_naked_shorts'')) (\<lambda>shorts.
          rbind (jstr (jget_or p ''reason'' (JStr []))) (\<lambda>reason.
          rbind (ropt jdecimal (jopt p ''account_equity'')) (\<lambda>equity.
          rbind (ropt jdecimal (jopt p ''max_drawdown_from_peak_pct'')) (\<lambda>drawdown.
          rbind (ropt jdecimal (jopt p ''max_equity_buying_power_pct'')) (\<lambda>power.
          new_risk_budget version tickets latency capped futures shorts reason
            \<lparr>bd_loss = loss, bd_daily = daily, bd_notional = notional, bd_floor = flr,
             bd_equity = equity, bd_drawdown = drawdown, bd_power = power\<rparr>))))))))))))))
      | _ \<Rightarrow> Inl (TypeError ''object is not subscriptable''))"

definition DEFAULT_RISK_BUDGET :: risk_budget where
  "DEFAULT_RISK_BUDGET =
     \<lparr>rk_version = 1, rk_max_loss_per_idea_pct = 5, rk_max_daily_loss_pct = 10,
      rk_max_open_notional_pct = 100, rk_max_concurrent_approved_tickets = 5,
      rk_max_review_latency_hours = 72, rk_sizing_capped_by_budget = True,
      rk_gain_retention_floor_pct = 50, rk_allow_futures_leverage = False,
      rk_allow_naked_shorts = False,
      rk_reason = ''Seeded aggressive defaults accepted 2026-06-11: principal fully at risk, gain-retention floor defends 50% of peak gains above the high-water mark'',
      rk_account_equity = None, rk_max_drawdown_from_peak_pct = None,
      rk_max_equity_buying_power_pct = None\<rparr>"

section \<open>The log\<close>

record budget_log_entry =
  be_timestamp :: py_datetime
  be_actor_type :: actor_type
  be_actor_id :: string
  be_budget :: risk_budget

definition budget_log_entry_to_dict :: "budget_log_entry \<Rightarrow> payload" where
  "budget_log_entry_to_dict e =
     [(''timestamp'', isoformat (be_timestamp e)),
      (''actor_type'', JStr (actor_type_value (be_actor_type e))),
      (''actor_id'', JStr (be_actor_id e)),
      (''budget'', JObj (risk_budget_to_dict (be_budget e)))]"

definition budget_log_entry_from_dict :: "json \<Rightarrow> budget_log_entry result" where
  "budget_log_entry_from_dict j =
     (case j of
        JObj p \<Rightarrow>
          rbind (rbind (jget p ''timestamp'') jdatetime) (\<lambda>t.
          rbind (rbind (jget p ''actor_type'') (jenum actor_type_of)) (\<lambda>aty.
          rbind (rbind (jget p ''actor_id'') jstr) (\<lambda>aid.
          rbind (rbind (jget p ''budget'') risk_budget_from_dict) (\<lambda>b.
          Inr \<lparr>be_timestamp = t, be_actor_type = aty, be_actor_id = aid, be_budget = b\<rparr>))))
      | _ \<Rightarrow> Inl (TypeError ''object is not subscriptable''))"

abbreviation entry_version :: "budget_log_entry \<Rightarrow> int" where
  "entry_version e \<equiv> rk_version (be_budget e)"

definition read_budget_line :: "json \<Rightarrow> budget_log_entry result" where
  "read_budget_line j =
     rewrap (\<lambda>e. lookup_or_value_error e \<or> e = ArithmeticError ''InvalidOperation'')
       (BudgetIntegrityError ''malformed line'') (budget_log_entry_from_dict j)"

definition budget_history :: "log_store \<Rightarrow> budget_log_entry list result" where
  "budget_history = versioned_history entry_version read_budget_line BudgetIntegrityError"

definition budget_current :: "log_store \<Rightarrow> risk_budget option result" where
  "budget_current store =
     rbind (budget_history store) (\<lambda>entries.
     Inr (if entries = [] then None else Some (be_budget (last entries))))"

definition budget_append :: "lock_outcome \<Rightarrow> log_store \<Rightarrow> budget_log_entry \<Rightarrow> log_store result" where
  "budget_append =
     versioned_append entry_version budget_log_entry_to_dict read_budget_line BudgetIntegrityError"

section \<open>Accepted budgets read back\<close>

definition valid_budget :: "risk_budget \<Rightarrow> bool" where
  "valid_budget b \<longleftrightarrow>
     (\<forall>e. rk_account_equity b = Some e \<longrightarrow> 0 < e)
     \<and> (\<forall>m. rk_max_drawdown_from_peak_pct b = Some m \<longrightarrow> 0 \<le> m)
     \<and> (\<forall>m. rk_max_equity_buying_power_pct b = Some m \<longrightarrow> 0 \<le> m)
     \<and> 0 \<le> rk_max_loss_per_idea_pct b \<and> 0 \<le> rk_max_daily_loss_pct b
     \<and> 0 \<le> rk_max_open_notional_pct b \<and> 0 \<le> rk_gain_retention_floor_pct b
     \<and> 0 \<le> rk_max_concurrent_approved_tickets b \<and> 0 \<le> rk_max_review_latency_hours b"

lemmas budget_checks = require_non_negative_decimal_def require_non_negative_int_def
  optional_non_negative_def

lemma new_risk_budget_valid:
  assumes "new_risk_budget version tickets latency capped futures shorts reason d = Inr b"
  shows "valid_budget b"
  using assms
  by (cases "bd_equity d"; cases "bd_drawdown d"; cases "bd_power d")
     (auto simp: new_risk_budget_def valid_budget_def budget_checks)

lemma new_risk_budget_same:
  assumes "valid_budget b"
  shows "new_risk_budget (rk_version b) (rk_max_concurrent_approved_tickets b)
     (rk_max_review_latency_hours b) (rk_sizing_capped_by_budget b) (rk_allow_futures_leverage b)
     (rk_allow_naked_shorts b) (rk_reason b)
     \<lparr>bd_loss = Finite (rk_max_loss_per_idea_pct b), bd_daily = Finite (rk_max_daily_loss_pct b),
      bd_notional = Finite (rk_max_open_notional_pct b), bd_floor = Finite (rk_gain_retention_floor_pct b),
      bd_equity = map_option Finite (rk_account_equity b),
      bd_drawdown = map_option Finite (rk_max_drawdown_from_peak_pct b),
      bd_power = map_option Finite (rk_max_equity_buying_power_pct b)\<rparr> = Inr b"
  using assms
  by (cases "rk_account_equity b"; cases "rk_max_drawdown_from_peak_pct b";
      cases "rk_max_equity_buying_power_pct b")
     (simp_all add: new_risk_budget_def valid_budget_def budget_checks not_less not_le)

lemma jopt_jdec: "map_of p k = Some (jdec x) \<Longrightarrow> ropt jdecimal (jopt p k) = Inr (map_option Finite x)"
  by (cases x) (simp_all add: jopt_def jdec_def jdec_option_def)

lemma risk_budget_roundtrip_lemma:
  assumes "valid_budget b"
  shows "risk_budget_from_dict (JObj (risk_budget_to_dict b)) = Inr b"
proof -
  let ?p = "risk_budget_to_dict b"
  have opt: "ropt jdecimal (jopt ?p ''account_equity'') = Inr (map_option Finite (rk_account_equity b))"
      "ropt jdecimal (jopt ?p ''max_drawdown_from_peak_pct'')
       = Inr (map_option Finite (rk_max_drawdown_from_peak_pct b))"
      "ropt jdecimal (jopt ?p ''max_equity_buying_power_pct'')
       = Inr (map_option Finite (rk_max_equity_buying_power_pct b))"
    by (rule jopt_jdec, simp add: risk_budget_to_dict_def)+
  show ?thesis
    unfolding risk_budget_from_dict_def json.case opt
    using new_risk_budget_same[OF assms]
    by (simp add: risk_budget_to_dict_def jget_def jget_or_def)
qed

lemma budget_entry_roundtrip:
  assumes "valid_budget (be_budget e)"
  shows "budget_log_entry_from_dict (JObj (budget_log_entry_to_dict e)) = Inr e"
  by (simp add: budget_log_entry_from_dict_def budget_log_entry_to_dict_def jget_def
      risk_budget_roundtrip_lemma[OF assms])

interpretation budget_log: versioned_log entry_version budget_log_entry_to_dict read_budget_line
  BudgetIntegrityError "\<lambda>e. valid_budget (be_budget e)"
  by unfold_locales (simp add: read_budget_line_def budget_entry_roundtrip)

text \<open>Every budget the log gives passed the constructor.\<close>

lemma risk_budget_from_dict_valid: "risk_budget_from_dict j = Inr b \<Longrightarrow> valid_budget b"
proof -
  assume *: "risk_budget_from_dict j = Inr b"
  then obtain p where "j = JObj p" by (cases j) (simp_all add: risk_budget_from_dict_def)
  with * obtain v t l c f s r d where "new_risk_budget v t l c f s r d = Inr b"
    unfolding risk_budget_from_dict_def by (simp only: json.case rbind_Inr_iff) blast
  then show ?thesis by (rule new_risk_budget_valid)
qed

lemma budget_history_valid:
  assumes "budget_history store = Inr es" and "e \<in> set es"
  shows "valid_budget (be_budget e)"
proof -
  obtain ls where "read_log (versioned_step entry_version read_budget_line BudgetIntegrityError)
      (BudgetIntegrityError ''malformed line'') [] ls = Inr es"
    using assms(1) by (auto simp: budget_history_def versioned_history_def split: sum.splits)
  then have "\<forall>e \<in> set es. valid_budget (be_budget e)"
  proof (rule read_log_invariant)
    fix s j t
    assume old: "\<forall>e \<in> set s. valid_budget (be_budget e)"
      and "versioned_step entry_version read_budget_line BudgetIntegrityError s j = Inr t"
    then obtain e where e: "budget_log_entry_from_dict j = Inr e" and t: "t = s @ [e]"
      by (auto simp: versioned_step_def read_budget_line_def)
    from e obtain p where "j = JObj p" by (cases j) (simp_all add: budget_log_entry_from_dict_def)
    with e have "valid_budget (be_budget e)"
      by (auto simp: budget_log_entry_from_dict_def intro: risk_budget_from_dict_valid)
    with old t show "\<forall>e \<in> set t. valid_budget (be_budget e)" by auto
  qed simp
  with assms(2) show ?thesis by blast
qed

section \<open>Properties\<close>

definition ex_budget_entry :: budget_log_entry where
  "ex_budget_entry =
     \<lparr>be_timestamp = Aware 0, be_actor_type = SYSTEM, be_actor_id = ''seed-defaults'',
      be_budget = DEFAULT_RISK_BUDGET\<rparr>"

text \<open>
  The budget log is a sequence of versions with one winner for each. After an accepted
  append the appended budget is the current one, every earlier entry is still there, the
  versions count up from one, and a writer that prepared the same version is refused, in the
  file and in the table.
\<close>

theorem budget_versions:
  assumes "valid_budget (be_budget e)" and "budget_append lock store e = Inr store'"
  shows "budget_current store' = Inr (Some (be_budget e))
    \<and> (\<exists>es. budget_history store = Inr es \<and> budget_history store' = Inr (es @ [e])
         \<and> map entry_version (es @ [e]) = map int [1..<Suc (Suc (length es))])
    \<and> (\<forall>lock' e' store''. entry_version e' = entry_version e \<longrightarrow>
         budget_append lock' store' e' \<noteq> Inr store'')"
proof -
  obtain es where es: "budget_history store = Inr es" "budget_history store' = Inr (es @ [e])"
    unfolding budget_history_def
    by (rule budget_log.append_reads_back[OF assms[unfolded budget_append_def]])
  have "map entry_version (es @ [e]) = map int [1..<Suc (length (es @ [e]))]"
    using es(2) unfolding budget_history_def by (rule versioned_history_versions)
  moreover have "\<forall>lock' e' store''. entry_version e' = entry_version e \<longrightarrow>
         budget_append lock' store' e' \<noteq> Inr store''"
    using budget_log.second_writer_refused[OF assms[unfolded budget_append_def]]
    unfolding budget_append_def by blast
  ultimately show ?thesis using es by (simp add: budget_current_def del: upt_Suc)
qed

theorem budget_versions_witness:
  "budget_current (LogTable [budget_log_entry_to_dict ex_budget_entry]) = Inr (Some DEFAULT_RISK_BUDGET)"
proof -
  have v: "valid_budget (be_budget ex_budget_entry)"
    by (simp add: valid_budget_def ex_budget_entry_def DEFAULT_RISK_BUDGET_def)
  have "budget_append LockAcquired (LogTable []) ex_budget_entry
      = Inr (LogTable [budget_log_entry_to_dict ex_budget_entry])"
    by (simp add: budget_append_def versioned_append_Inr_iff versioned_history_def
        ex_budget_entry_def DEFAULT_RISK_BUDGET_def)
  from budget_versions[OF v this] show ?thesis by (simp add: ex_budget_entry_def)
qed

end
