(* ===== verification/Idea_Autonomy.thy ===== *)
theory Idea_Autonomy
  imports Idea_Budget
begin

text \<open>
  The audited autonomy level of \<^verbatim>\<open>src/gpt_trader/features/trade_ideas/autonomy.py\<close>: the
  versioned log of levels, the resolution of the active level, the rule for changing it and
  the two breach triggers of the automatic ratchet.

  A breach message is kept as a value that carries the numbers the source formats.

  The autonomy log is the second interpretation of \<open>versioned_log\<close>. The lemmas show the
  fail-closed resolution, that actors other than a human only ever lower the level, and one
  malformed entry that escapes the fail-closed rule.
\<close>

section \<open>Entries\<close>

definition DEFAULT_AUTONOMY_MODE :: autonomy_mode where
  "DEFAULT_AUTONOMY_MODE = HUMAN_APPROVED_EXECUTION"

definition FAIL_CLOSED_AUTONOMY_MODE :: autonomy_mode where
  "FAIL_CLOSED_AUTONOMY_MODE = RESEARCH_ONLY"

definition RATCHET_ACTOR_ID :: string where "RATCHET_ACTOR_ID = ''autonomy-ratchet''"

fun AUTONOMY_RANK :: "autonomy_mode \<Rightarrow> int" where
  "AUTONOMY_RANK RESEARCH_ONLY = 0"
| "AUTONOMY_RANK HUMAN_APPROVED_EXECUTION = 1"
| "AUTONOMY_RANK BOUNDED_AUTONOMY = 2"

record autonomy_state_entry =
  as_version :: int
  as_timestamp :: py_datetime
  as_mode :: autonomy_mode
  as_actor_type :: actor_type
  as_actor_id :: string
  as_reason :: string
  as_evidence :: "string list"

definition new_autonomy_state_entry :: "autonomy_state_entry \<Rightarrow> autonomy_state_entry result" where
  "new_autonomy_state_entry e =
     rbind (raise_if (as_version e < 1) (ValueError ''version must be positive'')) (\<lambda>_.
     rbind (raise_if (is_blank (as_reason e)) (ValueError ''reason must be a non-empty rationale'')) (\<lambda>_.
     Inr e))"

definition autonomy_state_entry_to_dict :: "autonomy_state_entry \<Rightarrow> payload" where
  "autonomy_state_entry_to_dict e =
     [(''version'', JInt (as_version e)),
      (''timestamp'', isoformat (as_timestamp e)),
      (''mode'', JStr (autonomy_mode_value (as_mode e))),
      (''actor_type'', JStr (actor_type_value (as_actor_type e))),
      (''actor_id'', JStr (as_actor_id e)),
      (''reason'', JStr (as_reason e)),
      (''evidence'', JArr (map JStr (as_evidence e)))]"

text \<open>
  The constructor calls \<^verbatim>\<open>reason.strip()\<close> on whatever the entry holds: a value that is not
  text has no such method.
\<close>

fun reason_text :: "json \<Rightarrow> string result" where
  "reason_text (JStr s) = Inr s"
| "reason_text _ = Inl (AttributeError ''strip'')"

definition autonomy_state_entry_from_dict :: "json \<Rightarrow> autonomy_state_entry result" where
  "autonomy_state_entry_from_dict j =
     (case j of
        JObj p \<Rightarrow>
          rbind (rbind (jget p ''version'') py_int) (\<lambda>version.
          rbind (rbind (jget p ''timestamp'') jdatetime) (\<lambda>t.
          rbind (rbind (jget p ''mode'') (jenum autonomy_mode_of)) (\<lambda>mode.
          rbind (rbind (jget p ''actor_type'') (jenum actor_type_of)) (\<lambda>aty.
          rbind (rbind (jget p ''actor_id'') jstr) (\<lambda>aid.
          rbind (jget p ''reason'') (\<lambda>raw_reason.
          rbind (jtuple (jget_or p ''evidence'' (JArr []))) (\<lambda>evidence.
          rbind (raise_if (version < 1) (ValueError ''version must be positive'')) (\<lambda>_.
          rbind (reason_text raw_reason) (\<lambda>reason.
          new_autonomy_state_entry
            \<lparr>as_version = version, as_timestamp = t, as_mode = mode, as_actor_type = aty,
             as_actor_id = aid, as_reason = reason, as_evidence = evidence\<rparr>)))))))))
      | _ \<Rightarrow> Inl (TypeError ''object is not subscriptable''))"

section \<open>The log and its resolution\<close>

definition read_autonomy_line :: "json \<Rightarrow> autonomy_state_entry result" where
  "read_autonomy_line j =
     rewrap lookup_or_value_error (AutonomyIntegrityError ''malformed line'')
       (autonomy_state_entry_from_dict j)"

definition autonomy_history :: "log_store \<Rightarrow> autonomy_state_entry list result" where
  "autonomy_history = versioned_history as_version read_autonomy_line AutonomyIntegrityError"

definition autonomy_current :: "log_store \<Rightarrow> autonomy_state_entry option result" where
  "autonomy_current store =
     rbind (autonomy_history store) (\<lambda>entries.
     Inr (if entries = [] then None else Some (last entries)))"

definition autonomy_append ::
  "lock_outcome \<Rightarrow> log_store \<Rightarrow> autonomy_state_entry \<Rightarrow> log_store result" where
  "autonomy_append =
     versioned_append as_version autonomy_state_entry_to_dict read_autonomy_line AutonomyIntegrityError"

datatype autonomy_source = AUTONOMY_SOURCE_LOG | AUTONOMY_SOURCE_SEEDED_DEFAULT | AUTONOMY_SOURCE_FAIL_CLOSED

record autonomy_resolution =
  ar_mode :: autonomy_mode
  ar_version :: "int option"
  ar_source :: autonomy_source
  ar_error :: "string option"

definition resolve_autonomy :: "log_store \<Rightarrow> autonomy_resolution result" where
  "resolve_autonomy store =
     (case autonomy_current store of
        Inl (AutonomyIntegrityError m) \<Rightarrow>
          Inr \<lparr>ar_mode = FAIL_CLOSED_AUTONOMY_MODE, ar_version = None,
               ar_source = AUTONOMY_SOURCE_FAIL_CLOSED, ar_error = Some m\<rparr>
      | Inl e \<Rightarrow> Inl e
      | Inr None \<Rightarrow>
          Inr \<lparr>ar_mode = DEFAULT_AUTONOMY_MODE, ar_version = None,
               ar_source = AUTONOMY_SOURCE_SEEDED_DEFAULT, ar_error = None\<rparr>
      | Inr (Some entry) \<Rightarrow>
          Inr \<lparr>ar_mode = as_mode entry, ar_version = Some (as_version entry),
               ar_source = AUTONOMY_SOURCE_LOG, ar_error = None\<rparr>)"

section \<open>Changing the level\<close>

definition quoted :: "string \<Rightarrow> string" where "quoted s = [CHR 0x27] @ s @ [CHR 0x27]"

definition autonomy_transition_violations ::
  "autonomy_mode \<Rightarrow> autonomy_mode \<Rightarrow> actor_type \<Rightarrow> string list" where
  "autonomy_transition_violations current requested actor =
     (if AUTONOMY_RANK requested < AUTONOMY_RANK current then []
      else if actor = HUMAN then []
      else [''Autonomy mode change '' @ quoted (autonomy_mode_value current) @ '' -> ''
            @ quoted (autonomy_mode_value requested) @ '' requires a human actor; got actor_type ''
            @ quoted (actor_type_value actor)])"

text \<open>The window of a daily loss: the session dates, or the UTC day of the moment.\<close>

datatype loss_window = SessionDates "string list" | TradingDay int

datatype breach =
    DailyLossBreach dec dec int loss_window
  | DrawdownBreach dec dec int "dec option" "dec option" py_datetime

definition daily_loss_breach_evidence ::
  "dec \<Rightarrow> dec \<Rightarrow> int \<Rightarrow> py_datetime \<Rightarrow> string list \<Rightarrow> breach option" where
  "daily_loss_breach_evidence loss_pct max_pct version moment sessions =
     (if loss_pct \<le> max_pct then None
      else Some (DailyLossBreach loss_pct max_pct version
                   (if sessions \<noteq> [] then SessionDates sessions else TradingDay (trading_day moment))))"

definition drawdown_from_peak_breach_evidence ::
  "dec option \<Rightarrow> dec option \<Rightarrow> int \<Rightarrow> dec option \<Rightarrow> dec option \<Rightarrow> py_datetime \<Rightarrow> breach option" where
  "drawdown_from_peak_breach_evidence drawdown max_drawdown version peak equity moment =
     (case (max_drawdown, drawdown) of
        (Some m, Some d) \<Rightarrow> if d \<le> m then None else Some (DrawdownBreach d m version peak equity moment)
      | _ \<Rightarrow> None)"

section \<open>Lemmas\<close>

definition valid_entry :: "autonomy_state_entry \<Rightarrow> bool" where
  "valid_entry e \<longleftrightarrow> 1 \<le> as_version e \<and> \<not> is_blank (as_reason e)"

lemma autonomy_entry_roundtrip:
  assumes "valid_entry e"
  shows "autonomy_state_entry_from_dict (JObj (autonomy_state_entry_to_dict e)) = Inr e"
  using assms
  by (simp add: autonomy_state_entry_from_dict_def autonomy_state_entry_to_dict_def jget_def
      jget_or_def new_autonomy_state_entry_def valid_entry_def not_less)

interpretation autonomy_log: versioned_log as_version autonomy_state_entry_to_dict
  read_autonomy_line AutonomyIntegrityError valid_entry
  by unfold_locales (simp add: read_autonomy_line_def autonomy_entry_roundtrip)

lemma resolve_autonomy_history:
  assumes "autonomy_history store = Inr es"
  shows "resolve_autonomy store =
     Inr (if es = [] then \<lparr>ar_mode = DEFAULT_AUTONOMY_MODE, ar_version = None,
               ar_source = AUTONOMY_SOURCE_SEEDED_DEFAULT, ar_error = None\<rparr>
          else \<lparr>ar_mode = as_mode (last es), ar_version = Some (int (length es)),
               ar_source = AUTONOMY_SOURCE_LOG, ar_error = None\<rparr>)"
  using assms versioned_history_last[of as_version read_autonomy_line AutonomyIntegrityError store es]
  by (simp add: resolve_autonomy_def autonomy_current_def autonomy_history_def)

lemma resolve_autonomy_broken:
  assumes "autonomy_history store = Inl (AutonomyIntegrityError m)"
  shows "resolve_autonomy store =
     Inr \<lparr>ar_mode = FAIL_CLOSED_AUTONOMY_MODE, ar_version = None,
          ar_source = AUTONOMY_SOURCE_FAIL_CLOSED, ar_error = Some m\<rparr>"
  using assms by (simp add: resolve_autonomy_def autonomy_current_def)

text \<open>A change of level that the rule admits.\<close>

definition admitted_change :: "autonomy_mode \<Rightarrow> autonomy_state_entry \<Rightarrow> bool" where
  "admitted_change current e \<longleftrightarrow> autonomy_transition_violations current (as_mode e) (as_actor_type e) = []"

lemma admitted_change_iff:
  "admitted_change current e \<longleftrightarrow>
     as_actor_type e = HUMAN \<or> AUTONOMY_RANK (as_mode e) < AUTONOMY_RANK current"
  by (auto simp: admitted_change_def autonomy_transition_violations_def)

text \<open>A history in which every change was admitted.\<close>

fun admitted_changes :: "autonomy_mode \<Rightarrow> autonomy_state_entry list \<Rightarrow> bool" where
  "admitted_changes current [] = True"
| "admitted_changes current (e # es) = (admitted_change current e \<and> admitted_changes (as_mode e) es)"

fun level_after :: "autonomy_mode \<Rightarrow> autonomy_state_entry list \<Rightarrow> autonomy_mode" where
  "level_after current [] = current"
| "level_after current (e # es) = level_after (as_mode e) es"

lemma admitted_changes_rank:
  assumes "admitted_changes current es" and "HUMAN \<notin> as_actor_type ` set es"
  shows "AUTONOMY_RANK (level_after current es) \<le> AUTONOMY_RANK current - int (length es)"
  using assms
proof (induction es arbitrary: current)
  case (Cons e es)
  then have "AUTONOMY_RANK (level_after (as_mode e) es) \<le> AUTONOMY_RANK (as_mode e) - int (length es)"
    by simp
  moreover have "AUTONOMY_RANK (as_mode e) < AUTONOMY_RANK current"
    using Cons.prems by (auto simp: admitted_change_iff)
  ultimately show ?case by simp
qed simp

lemma AUTONOMY_RANK_range: "0 \<le> AUTONOMY_RANK m \<and> AUTONOMY_RANK m \<le> 2"
  by (cases m) simp_all

section \<open>Properties\<close>

definition ex_ratchet :: "int \<Rightarrow> autonomy_mode \<Rightarrow> autonomy_state_entry" where
  "ex_ratchet v mode =
     \<lparr>as_version = v, as_timestamp = Aware 0, as_mode = mode, as_actor_type = SYSTEM,
      as_actor_id = RATCHET_ACTOR_ID, as_reason = ''breach'', as_evidence = [''loss'']\<rparr>"



text \<open>
  The active level is the last audited one, and a damaged log fails closed. After an
  accepted append the resolution is the appended entry's level and version, from the log; a
  log whose reading raises an integrity error resolves to \<open>research_only\<close>; an absent or empty
  log to the seeded default.
\<close>

theorem resolution_fails_closed:
  "(valid_entry e \<and> autonomy_append lock store e = Inr store' \<longrightarrow>
     resolve_autonomy store' = Inr \<lparr>ar_mode = as_mode e, ar_version = Some (as_version e),
       ar_source = AUTONOMY_SOURCE_LOG, ar_error = None\<rparr>)
   \<and> (\<forall>m. autonomy_history store = Inl (AutonomyIntegrityError m) \<longrightarrow>
     resolve_autonomy store = Inr \<lparr>ar_mode = RESEARCH_ONLY, ar_version = None,
       ar_source = AUTONOMY_SOURCE_FAIL_CLOSED, ar_error = Some m\<rparr>)
   \<and> (autonomy_history store = Inr [] \<longrightarrow>
     resolve_autonomy store = Inr \<lparr>ar_mode = HUMAN_APPROVED_EXECUTION, ar_version = None,
       ar_source = AUTONOMY_SOURCE_SEEDED_DEFAULT, ar_error = None\<rparr>)"
proof (intro conjI impI)
  assume *: "valid_entry e \<and> autonomy_append lock store e = Inr store'"
  obtain es where "autonomy_history store' = Inr (es @ [e])" "as_version e = int (length es) + 1"
    unfolding autonomy_history_def
    by (rule autonomy_log.append_reads_back[OF *[THEN conjunct1] *[THEN conjunct2, unfolded autonomy_append_def]])
  then show "resolve_autonomy store' = Inr \<lparr>ar_mode = as_mode e, ar_version = Some (as_version e),
       ar_source = AUTONOMY_SOURCE_LOG, ar_error = None\<rparr>"
    by (simp add: resolve_autonomy_history add.commute)
qed (simp_all add: resolve_autonomy_broken resolve_autonomy_history FAIL_CLOSED_AUTONOMY_MODE_def
    DEFAULT_AUTONOMY_MODE_def)

theorem resolution_fails_closed_witness:
  "resolve_autonomy (LogTable [autonomy_state_entry_to_dict (ex_ratchet 1 RESEARCH_ONLY)])
     = Inr \<lparr>ar_mode = RESEARCH_ONLY, ar_version = Some 1, ar_source = AUTONOMY_SOURCE_LOG, ar_error = None\<rparr>
   \<and> resolve_autonomy UnreadableFile
     = Inr \<lparr>ar_mode = RESEARCH_ONLY, ar_version = None, ar_source = AUTONOMY_SOURCE_FAIL_CLOSED,
            ar_error = Some ''log is unreadable''\<rparr>
   \<and> resolve_autonomy (LogFile None)
     = Inr \<lparr>ar_mode = HUMAN_APPROVED_EXECUTION, ar_version = None,
            ar_source = AUTONOMY_SOURCE_SEEDED_DEFAULT, ar_error = None\<rparr>"
proof (intro conjI)
  let ?e = "ex_ratchet 1 RESEARCH_ONLY"
  have v: "valid_entry ?e" by code_simp
  have "autonomy_append LockAcquired (LogTable []) ?e = Inr (LogTable [autonomy_state_entry_to_dict ?e])"
    by (simp add: autonomy_append_def versioned_append_Inr_iff versioned_history_def ex_ratchet_def)
  with v show "resolve_autonomy (LogTable [autonomy_state_entry_to_dict ?e])
     = Inr \<lparr>ar_mode = RESEARCH_ONLY, ar_version = Some 1, ar_source = AUTONOMY_SOURCE_LOG, ar_error = None\<rparr>"
    using resolution_fails_closed[of ?e LockAcquired "LogTable []"] by (simp add: ex_ratchet_def)
  show "resolve_autonomy UnreadableFile
     = Inr \<lparr>ar_mode = RESEARCH_ONLY, ar_version = None, ar_source = AUTONOMY_SOURCE_FAIL_CLOSED,
            ar_error = Some ''log is unreadable''\<rparr>"
    using resolution_fails_closed[of ?e LockAcquired UnreadableFile]
    by (simp add: autonomy_history_def versioned_history_def)
  show "resolve_autonomy (LogFile None)
     = Inr \<lparr>ar_mode = HUMAN_APPROVED_EXECUTION, ar_version = None,
            ar_source = AUTONOMY_SOURCE_SEEDED_DEFAULT, ar_error = None\<rparr>"
    using resolution_fails_closed[of ?e LockAcquired "LogFile None"]
    by (simp add: autonomy_history_def versioned_history_def)
qed

text \<open>
  One malformed entry escapes the fail-closed rule: a reason that is not text makes the
  constructor raise \<^verbatim>\<open>AttributeError\<close>, which neither \<^verbatim>\<open>history\<close> nor \<^verbatim>\<open>resolve_autonomy\<close>
  catches, so the resolution raises instead of giving \<open>research_only\<close>.
\<close>

lemma numeric_reason_escapes:
  "resolve_autonomy (LogFile (Some [JsonLine (JObj
     [(''version'', JInt 1), (''timestamp'', JTime 0), (''mode'', JStr ''research_only''),
      (''actor_type'', JStr ''human''), (''actor_id'', JStr ''operator''), (''reason'', JInt 5)])]))
   = Inl (AttributeError ''strip'')"
  by code_simp

end
