(* ===== verification/Idea_Policy.thy ===== *)
theory Idea_Policy
  imports Idea_Autonomy
begin

text \<open>
  The approval policy of \<^verbatim>\<open>src/gpt_trader/features/trade_ideas/policy.py\<close>: every reason an
  approval, or a change of the budget, must be refused. A reason is a value of the datatype
  \<open>violation\<close>: the constructor stands for the message and carries what the message formats.
  The moments the policy compares are aware, as those of the service are.

  The lemmas characterise the empty list of reasons, group by group; the properties state
  what an admitted approval guarantees, in exact arithmetic where the code rounds, and that
  the equity lever leaves crypto approvals unchanged.
\<close>

section \<open>Reasons and context\<close>

datatype violation =
    ResearchOnlyMode
  | HumanApproverRequired actor_type
  | BoundedAutonomyActor actor_type
  | InvariantEligibility string
  | RealizedLossUnavailable int
  | AtRiskUnavailable int
  | UnverifiedPositionOperation
  | MaxLossMissing
  | MaxLossExceeds dec dec
  | DailyLossExceeded dec dec dec dec dec
  | OpenNotionalUnavailable int
  | NotionalMissing
  | EquitySnapshotMissing
  | EquitySnapshotNotPositive dec
  | OpenNotionalExceeded dec dec dec dec
  | UnclassifiedInstrument py_error
  | EquityNotionalUnavailable int
  | ProceedsUnavailable int
  | BuyingPowerNotionalMissing
  | BuyingPowerEquityMissing
  | BuyingPowerEquityNotPositive dec
  | BuyingPowerExceeded dec dec dec dec dec dec
  | FuturesNotAllowed
  | ShortNotAllowed
  | TicketsExhausted int int
  | IdeaExpired instant
  | ReviewDeadlineExpired instant int
  | BudgetChangeNeedsHuman autonomy_mode actor_type
  | ResolutionFailedClosed autonomy_mode "string option"
  | PositionOperationRefused string
  | ExecutionNeedsBoundedAutonomy autonomy_mode autonomy_source

record approval_budget_context =
  cx_same_day_realized_loss_pct :: dec
  cx_same_day_realized_loss_unavailable_count :: int
  cx_daily_loss_session_dates :: "string list"
  cx_open_approved_at_risk_pct :: dec
  cx_open_at_risk_unavailable_count :: int
  cx_open_notional :: dec
  cx_open_notional_unavailable_count :: int
  cx_account_equity_snapshot :: "dec option"
  cx_open_equity_notional :: dec
  cx_open_equity_notional_unavailable_count :: int
  cx_unsettled_equity_proceeds :: dec
  cx_unsettled_equity_proceeds_unavailable_count :: int

definition empty_context :: approval_budget_context where
  "empty_context =
     \<lparr>cx_same_day_realized_loss_pct = 0, cx_same_day_realized_loss_unavailable_count = 0,
      cx_daily_loss_session_dates = [], cx_open_approved_at_risk_pct = 0,
      cx_open_at_risk_unavailable_count = 0, cx_open_notional = 0,
      cx_open_notional_unavailable_count = 0, cx_account_equity_snapshot = None,
      cx_open_equity_notional = 0, cx_open_equity_notional_unavailable_count = 0,
      cx_unsettled_equity_proceeds = 0, cx_unsettled_equity_proceeds_unavailable_count = 0\<rparr>"

definition BOUNDED_AUTONOMY_APPROVAL_ACTORS :: "actor_type list" where
  "BOUNDED_AUTONOMY_APPROVAL_ACTORS = [HUMAN, SYSTEM]"

section \<open>The checks\<close>

definition violated :: "bool \<Rightarrow> violation \<Rightarrow> violation list" where
  "violated c v = (if c then [v] else [])"

definition equity_buying_power_violations ::
  "trade_idea \<Rightarrow> risk_budget \<Rightarrow> approval_budget_context \<Rightarrow> violation list" where
  "equity_buying_power_violations idea budget ctx =
     (case rk_max_equity_buying_power_pct budget of
        None \<Rightarrow> []
      | Some limit \<Rightarrow>
          case instrument_info idea of
            Inl e \<Rightarrow> [UnclassifiedInstrument e]
          | Inr ins \<Rightarrow>
              if i_asset_class ins \<noteq> EQUITY then []
              else
                let unavailable =
                      violated (cx_open_equity_notional_unavailable_count ctx \<noteq> 0)
                        (EquityNotionalUnavailable (cx_open_equity_notional_unavailable_count ctx))
                      @ violated (cx_unsettled_equity_proceeds_unavailable_count ctx \<noteq> 0)
                          (ProceedsUnavailable (cx_unsettled_equity_proceeds_unavailable_count ctx))
                in case sr_notional (ti_sizing idea) of
                     None \<Rightarrow> unavailable @ [BuyingPowerNotionalMissing]
                   | Some candidate \<Rightarrow>
                       let usage = dadd (dadd (dabs (cx_open_equity_notional ctx)) (dabs candidate))
                                        (dabs (cx_unsettled_equity_proceeds ctx))
                       in if usage \<le> 0 then unavailable
                          else case cx_account_equity_snapshot ctx of
                                 None \<Rightarrow> unavailable @ [BuyingPowerEquityMissing]
                               | Some equity \<Rightarrow>
                                   if equity \<le> 0 then unavailable @ [BuyingPowerEquityNotPositive equity]
                                   else let usage_pct = dmul (dquot usage equity) 100
                                        in unavailable
                                           @ violated (usage_pct > limit)
                                               (BuyingPowerExceeded usage_pct limit
                                                  (dabs (cx_open_equity_notional ctx)) (dabs candidate)
                                                  (dabs (cx_unsettled_equity_proceeds ctx)) equity))"

definition actor_violations :: "autonomy_mode \<Rightarrow> actor_type \<Rightarrow> violation list" where
  "actor_violations mode actor =
     (case mode of
        RESEARCH_ONLY \<Rightarrow> [ResearchOnlyMode]
      | HUMAN_APPROVED_EXECUTION \<Rightarrow> violated (actor \<noteq> HUMAN) (HumanApproverRequired actor)
      | BOUNDED_AUTONOMY \<Rightarrow>
          violated (actor \<notin> set BOUNDED_AUTONOMY_APPROVAL_ACTORS) (BoundedAutonomyActor actor))"

definition reducing :: "trade_idea \<Rightarrow> bool" where
  "reducing idea \<longleftrightarrow> ti_position_operation idea \<noteq> None"

definition loss_violations ::
  "trade_idea \<Rightarrow> risk_budget \<Rightarrow> approval_budget_context \<Rightarrow> violation list" where
  "loss_violations idea budget ctx =
     (case (if reducing idea then Some 0 else ml_percent_of_account (ti_max_loss idea)) of
        None \<Rightarrow> [MaxLossMissing]
      | Some percent \<Rightarrow>
          if percent > rk_max_loss_per_idea_pct budget
          then [MaxLossExceeds percent (rk_max_loss_per_idea_pct budget)]
          else let projected = dadd (dadd (cx_same_day_realized_loss_pct ctx)
                                          (cx_open_approved_at_risk_pct ctx)) percent
               in violated (projected > rk_max_daily_loss_pct budget)
                    (DailyLossExceeded projected (rk_max_daily_loss_pct budget)
                       (cx_same_day_realized_loss_pct ctx) (cx_open_approved_at_risk_pct ctx) percent))"

definition notional_violations ::
  "trade_idea \<Rightarrow> risk_budget \<Rightarrow> approval_budget_context \<Rightarrow> violation list" where
  "notional_violations idea budget ctx =
     violated (cx_open_notional_unavailable_count ctx \<noteq> 0)
       (OpenNotionalUnavailable (cx_open_notional_unavailable_count ctx))
     @ (case (if reducing idea then Some 0 else sr_notional (ti_sizing idea)) of
          None \<Rightarrow> [NotionalMissing]
        | Some candidate \<Rightarrow>
            let projected = dadd (dabs (cx_open_notional ctx)) (dabs candidate)
            in if projected > 0
               then case cx_account_equity_snapshot ctx of
                      None \<Rightarrow> [EquitySnapshotMissing]
                    | Some equity \<Rightarrow>
                        if equity \<le> 0 then [EquitySnapshotNotPositive equity]
                        else let pct = dmul (dquot projected equity) 100
                             in violated (pct > rk_max_open_notional_pct budget)
                                  (OpenNotionalExceeded pct (rk_max_open_notional_pct budget)
                                     projected equity)
               else [])"

definition review_latency_applies :: "autonomy_mode \<Rightarrow> bool" where
  "review_latency_applies mode \<longleftrightarrow> mode \<noteq> BOUNDED_AUTONOMY"

definition review_latency_violation ::
  "autonomy_mode \<Rightarrow> instant option \<Rightarrow> risk_budget \<Rightarrow> instant \<Rightarrow> instant option \<Rightarrow> violation option" where
  "review_latency_violation mode started budget now deadline =
     (if \<not> review_latency_applies mode then None
      else case started of
             None \<Rightarrow> None
           | Some start \<Rightarrow>
               let effective = (case deadline of Some d \<Rightarrow> d
                                | None \<Rightarrow> start + hours (rk_max_review_latency_hours budget))
               in if effective > now then None
                  else Some (ReviewDeadlineExpired effective (rk_max_review_latency_hours budget)))"

definition approval_violations ::
  "autonomy_mode \<Rightarrow> trade_idea \<Rightarrow> actor_type \<Rightarrow> risk_budget \<Rightarrow> int \<Rightarrow> instant \<Rightarrow>
   instant option \<Rightarrow> instant option \<Rightarrow> approval_budget_context option \<Rightarrow> bool \<Rightarrow> violation list" where
  "approval_violations mode idea actor budget open_count now started deadline context validated =
     (let ctx = (case context of None \<Rightarrow> empty_context | Some c \<Rightarrow> c)
      in actor_violations mode actor
         @ map InvariantEligibility (evaluate_eligibility idea)
         @ violated (context \<noteq> None \<and> cx_same_day_realized_loss_unavailable_count ctx \<noteq> 0)
             (RealizedLossUnavailable (cx_same_day_realized_loss_unavailable_count ctx))
         @ violated (context \<noteq> None \<and> cx_open_at_risk_unavailable_count ctx \<noteq> 0)
             (AtRiskUnavailable (cx_open_at_risk_unavailable_count ctx))
         @ violated (reducing idea \<and> \<not> validated) UnverifiedPositionOperation
         @ loss_violations idea budget ctx
         @ (if context \<noteq> None
            then notional_violations idea budget ctx
                 @ (if \<not> reducing idea then equity_buying_power_violations idea budget ctx else [])
            else [])
         @ violated (\<not> reducing idea \<and> ti_product_type idea = FUTURES
                 \<and> \<not> rk_allow_futures_leverage budget) FuturesNotAllowed
         @ violated (\<not> reducing idea \<and> ti_direction idea = SHORT
                 \<and> \<not> rk_allow_naked_shorts budget) ShortNotAllowed
         @ violated (open_count \<ge> rk_max_concurrent_approved_tickets budget)
             (TicketsExhausted open_count (rk_max_concurrent_approved_tickets budget))
         @ (case th_expires_at (ti_time_horizon idea) of
              None \<Rightarrow> [] | Some t \<Rightarrow> violated (t \<le> now) (IdeaExpired t))
         @ (case review_latency_violation mode started budget now deadline of
              None \<Rightarrow> [] | Some v \<Rightarrow> [v]))"

definition budget_change_violations :: "autonomy_mode \<Rightarrow> actor_type \<Rightarrow> violation list" where
  "budget_change_violations mode actor =
     (if mode = BOUNDED_AUTONOMY
      then if actor = HUMAN then [] else [BudgetChangeNeedsHuman mode actor]
      else if actor \<noteq> HUMAN then [BudgetChangeNeedsHuman mode actor] else [])"

section \<open>Lemmas\<close>

lemma violated_Nil_iff [simp]: "violated c v = [] \<longleftrightarrow> \<not> c"
  by (simp add: violated_def)

lemma actor_violations_Nil_iff:
  "actor_violations mode actor = [] \<longleftrightarrow>
     mode \<noteq> RESEARCH_ONLY \<and> (actor = HUMAN \<or> mode = BOUNDED_AUTONOMY \<and> actor = SYSTEM)"
  by (cases mode) (auto simp: actor_violations_def BOUNDED_AUTONOMY_APPROVAL_ACTORS_def)

lemma loss_violations_Nil_iff:
  "loss_violations idea budget ctx = [] \<longleftrightarrow>
     (\<exists>percent. (if reducing idea then Some 0 else ml_percent_of_account (ti_max_loss idea)) = Some percent
        \<and> percent \<le> rk_max_loss_per_idea_pct budget
        \<and> dadd (dadd (cx_same_day_realized_loss_pct ctx) (cx_open_approved_at_risk_pct ctx)) percent
          \<le> rk_max_daily_loss_pct budget)"
  by (auto simp: loss_violations_def Let_def not_less split: option.splits)

text \<open>A percentage of two amounts, as the policy rounds it, against the exact one.\<close>

lemma percent_limit:
  assumes "0 \<le> projected" and "0 < equity" and "dmul (dquot projected equity) 100 \<le> limit"
  shows "(1 - ulp) * projected * 100 \<le> limit * equity"
proof -
  have "dround (dround (projected / equity) * 10 ^ 2) = dround (projected / equity) * 10 ^ 2"
    by (simp only: dround_mult_pow10 exact_dround)
  then have "dround (projected / equity) * 100 \<le> limit"
    using assms(3) by (simp add: dmul_def dquot_def)
  moreover have "(1 - ulp) * (projected / equity) \<le> dround (projected / equity)"
    using assms by (intro dec.rnd_ge) simp
  then have "(1 - ulp) * (projected / equity) * 100 \<le> dround (projected / equity) * 100"
    by (rule mult_right_mono) simp
  ultimately have "(1 - ulp) * (projected / equity) * 100 \<le> limit" by (rule order_trans[rotated])
  then have "(1 - ulp) * (projected / equity) * 100 * equity \<le> limit * equity"
    using assms(2) by (intro mult_right_mono) auto
  then show ?thesis using assms(2) by simp
qed

lemma projected_ge:
  "(1 - ulp) * ((1 - ulp) * (\<bar>x\<bar> + \<bar>y\<bar>)) \<le> dadd (dabs x) (dabs y)"
proof -
  have "(1 - ulp) * \<bar>z\<bar> \<le> dabs z" for z unfolding dabs_def by (rule dec.rnd_ge) simp
  from add_mono[OF this this] have sum: "(1 - ulp) * (\<bar>x\<bar> + \<bar>y\<bar>) \<le> dabs x + dabs y"
    by (simp add: distrib_left)
  have nonneg: "0 \<le> dabs x + dabs y" by (simp add: dabs_def)
  have "(1 - ulp) * ((1 - ulp) * (\<bar>x\<bar> + \<bar>y\<bar>)) \<le> (1 - ulp) * (dabs x + dabs y)"
    using sum dec.d_range by (intro mult_left_mono) auto
  also have "\<dots> \<le> dadd (dabs x) (dabs y)" unfolding dadd_def by (rule dec.rnd_ge[OF nonneg])
  finally show ?thesis .
qed

text \<open>The exposure an admitted candidate leads to, in exact arithmetic.\<close>

lemma notional_limit:
  assumes "notional_violations idea budget ctx = []" and "0 \<le> rk_max_open_notional_pct budget"
    and "(if reducing idea then Some 0 else sr_notional (ti_sizing idea)) = Some candidate"
    and "cx_open_notional ctx \<noteq> 0 \<or> candidate \<noteq> 0"
  obtains equity where "cx_account_equity_snapshot ctx = Some equity" and "0 < equity"
    and "(1 - ulp) ^ 3 * (\<bar>cx_open_notional ctx\<bar> + \<bar>candidate\<bar>) * 100
         \<le> rk_max_open_notional_pct budget * equity"
proof -
  let ?p = "dadd (dabs (cx_open_notional ctx)) (dabs candidate)"
  have "0 < \<bar>cx_open_notional ctx\<bar> + \<bar>candidate\<bar>" using assms(4) by linarith
  then have "0 < (1 - ulp) * ((1 - ulp) * (\<bar>cx_open_notional ctx\<bar> + \<bar>candidate\<bar>))"
    using dec.d_range by simp
  then have pos: "0 < ?p" using projected_ge[of "cx_open_notional ctx" candidate] by linarith
  with assms(1,3) obtain equity where equity: "cx_account_equity_snapshot ctx = Some equity" "0 < equity"
      "dmul (dquot ?p equity) 100 \<le> rk_max_open_notional_pct budget"
    by (auto simp: notional_violations_def Let_def not_less not_le split: option.splits if_splits)
  have "(1 - ulp) * ((1 - ulp) * ((1 - ulp) * (\<bar>cx_open_notional ctx\<bar> + \<bar>candidate\<bar>))) * 100
      \<le> (1 - ulp) * ?p * 100"
    using projected_ge[of "cx_open_notional ctx" candidate] dec.d_range by (simp add: mult_left_mono)
  also have "\<dots> \<le> rk_max_open_notional_pct budget * equity"
    using percent_limit[OF _ equity(2,3)] pos by simp
  finally show ?thesis
    using equity that by (simp add: power3_eq_cube mult.assoc)
qed

lemma review_latency_None_iff:
  "review_latency_violation mode started budget now deadline = None \<longleftrightarrow>
     (\<forall>start. mode \<noteq> BOUNDED_AUTONOMY \<and> started = Some start \<longrightarrow>
        now < (case deadline of Some d \<Rightarrow> d
               | None \<Rightarrow> start + hours (rk_max_review_latency_hours budget)))"
  by (auto simp: review_latency_violation_def review_latency_applies_def Let_def split: option.splits)

lemma approval_violations_Nil:
  assumes "approval_violations mode idea actor budget tickets now started deadline (Some ctx) validated = []"
  shows "actor_violations mode actor = []" "evaluate_eligibility idea = []"
    "cx_same_day_realized_loss_unavailable_count ctx = 0" "cx_open_at_risk_unavailable_count ctx = 0"
    "reducing idea \<Longrightarrow> validated" "loss_violations idea budget ctx = []"
    "notional_violations idea budget ctx = []"
    "\<not> reducing idea \<Longrightarrow> equity_buying_power_violations idea budget ctx = []"
    "\<not> reducing idea \<Longrightarrow> ti_product_type idea = FUTURES \<Longrightarrow> rk_allow_futures_leverage budget"
    "\<not> reducing idea \<Longrightarrow> ti_direction idea = SHORT \<Longrightarrow> rk_allow_naked_shorts budget"
    "tickets < rk_max_concurrent_approved_tickets budget"
    "th_expires_at (ti_time_horizon idea) = Some t \<Longrightarrow> now < t"
    "review_latency_violation mode started budget now deadline = None"
  using assms
  by (simp_all add: approval_violations_def Let_def split: option.splits if_splits)

section \<open>Properties\<close>

definition ex_context :: approval_budget_context where
  "ex_context = empty_context\<lparr>cx_account_equity_snapshot := Some 1000\<rparr>"

lemma ex_admitted:
  "approval_violations HUMAN_APPROVED_EXECUTION ex_idea HUMAN DEFAULT_RISK_BUDGET 0 0 (Some 0) None
     (Some ex_context) False = []"
  by code_simp



text \<open>
  Configuring the equity lever cannot change a crypto approval. For an idea whose
  instrument is a crypto pair, the list of reasons is the same for every value of
  \<^verbatim>\<open>max_equity_buying_power_pct\<close>, unset included.
\<close>

theorem crypto_ignores_equity_lever:
  assumes "crypto_pair (ti_instrument idea)"
  shows "approval_violations mode idea actor (budget\<lparr>rk_max_equity_buying_power_pct := limit\<rparr>)
           tickets now started deadline context validated
       = approval_violations mode idea actor budget tickets now started deadline context validated"
proof -
  let ?b = "budget\<lparr>rk_max_equity_buying_power_pct := limit\<rparr>"
  have "equity_buying_power_violations idea b ctx = []" for b ctx
    using assms
    by (simp add: equity_buying_power_violations_def instrument_info_def parse_instrument_def
        split: option.splits)
  moreover have other: "rk_max_loss_per_idea_pct ?b = rk_max_loss_per_idea_pct budget"
    "rk_max_daily_loss_pct ?b = rk_max_daily_loss_pct budget"
    "rk_max_open_notional_pct ?b = rk_max_open_notional_pct budget"
    "rk_max_review_latency_hours ?b = rk_max_review_latency_hours budget"
    by simp_all
  moreover have "loss_violations idea ?b ctx = loss_violations idea budget ctx"
    "notional_violations idea ?b ctx = notional_violations idea budget ctx"
    "review_latency_violation mode started ?b now deadline
     = review_latency_violation mode started budget now deadline" for ctx
    unfolding loss_violations_def notional_violations_def review_latency_violation_def other
    by (rule refl)+
  ultimately show ?thesis by (cases "context") (simp_all add: approval_violations_def)
qed

theorem crypto_ignores_equity_lever_witness:
  "approval_violations HUMAN_APPROVED_EXECUTION ex_idea HUMAN
     (DEFAULT_RISK_BUDGET\<lparr>rk_max_equity_buying_power_pct := Some 0\<rparr>) 0 0 (Some 0) None (Some ex_context) False = []"
proof -
  have "crypto_pair (ti_instrument ex_idea)" by code_simp
  from crypto_ignores_equity_lever[OF this] show ?thesis by (simp only: ex_admitted)
qed

end
