(* ===== verification/Idea_Accounting.thy ===== *)
theory Idea_Accounting
  imports Idea_Closeout Idea_Policy
begin

text \<open>
  The paper accountant of \<^verbatim>\<open>src/gpt_trader/features/trade_ideas/accounting.py\<close> and the
  portfolio monitors of \<^verbatim>\<open>monitors.py\<close>: the equity ledger folded from the attested levels of
  the budget log and the closeouts, its high-water mark and drawdown, and the breach verdicts
  against the budget.

  Both folds of the source are modelled, the one that keeps every point and the one that
  keeps the totals. The lemmas show that they agree, that the high-water mark is the largest
  equity so far, and that the monitors and the triggers of the autonomy ratchet judge alike.
\<close>

section \<open>Ledger events\<close>

record equity_attestation =
  ea_timestamp :: py_datetime
  ea_actor_id :: string
  ea_equity :: dec
  ea_budget_version :: int

fun attestations_from :: "dec option \<Rightarrow> budget_log_entry list \<Rightarrow> equity_attestation list" where
  "attestations_from previous [] = []"
| "attestations_from previous (e # es) =
     (case rk_account_equity (be_budget e) of
        Some equity \<Rightarrow>
          (if previous \<noteq> Some equity
           then [\<lparr>ea_timestamp = be_timestamp e, ea_actor_id = be_actor_id e, ea_equity = equity,
                  ea_budget_version = entry_version e\<rparr>]
           else [])
      | None \<Rightarrow> [])
     @ attestations_from (rk_account_equity (be_budget e)) es"

definition attestations :: "budget_log_entry list \<Rightarrow> equity_attestation list" where
  "attestations entries = attestations_from None entries"

datatype ledger_event = Attested equity_attestation | Closed closeout_attribution

type_synonym timed_event = "py_datetime \<times> int \<times> ledger_event"

fun is_naive :: "py_datetime \<Rightarrow> bool" where
  "is_naive (Naive _) = True"
| "is_naive (Aware _) = False"

fun reading :: "py_datetime \<Rightarrow> int" where
  "reading (Naive t) = t"
| "reading (Aware t) = t"

text \<open>
  The stable sort by time and kind. Sorting compares two times of different kinds whenever
  both kinds occur, and that comparison raises.
\<close>

definition sort_events :: "timed_event list \<Rightarrow> timed_event list result" where
  "sort_events evs =
     (if (\<exists>e \<in> set evs. is_naive (fst e)) \<and> (\<exists>e \<in> set evs. \<not> is_naive (fst e))
      then Inl (TypeError ''can't compare offset-naive and offset-aware datetimes'')
      else Inr (sort_key (\<lambda>e. (reading (fst e), fst (snd e))) evs))"

definition closeout_time_of :: "(string \<rightharpoonup> py_datetime) \<Rightarrow> closeout_attribution \<Rightarrow> py_datetime" where
  "closeout_time_of terminal_times c =
     (case terminal_times (co_terminal_event_id c) of None \<Rightarrow> Aware (co_timestamp c) | Some t \<Rightarrow> t)"

definition merged_ledger_events ::
  "budget_log_entry list \<Rightarrow> closeout_attribution list \<Rightarrow> (string \<rightharpoonup> py_datetime) \<Rightarrow>
   (equity_attestation list \<times> timed_event list) result" where
  "merged_ledger_events entries closeouts terminal_times =
     (let atts = attestations entries
      in rbind (sort_events (map (\<lambda>a. (ea_timestamp a, 0, Attested a)) atts
                  @ map (\<lambda>c. (closeout_time_of terminal_times c, 1, Closed c)) closeouts)) (\<lambda>events.
         Inr (atts, events)))"

section \<open>The ledger with all its points\<close>

record equity_ledger_point =
  lp_timestamp :: py_datetime
  lp_equity :: dec
  lp_high_water_mark :: dec
  lp_drawdown_amount :: dec
  lp_drawdown_percent :: "dec option"

definition ledger_point :: "py_datetime \<Rightarrow> dec \<Rightarrow> dec \<Rightarrow> equity_ledger_point" where
  "ledger_point t equity peak =
     (let drawdown = max (dsub peak equity) 0
      in \<lparr>lp_timestamp = t, lp_equity = equity, lp_high_water_mark = peak,
          lp_drawdown_amount = drawdown,
          lp_drawdown_percent = (if peak > 0 then Some (dmul (dquot drawdown peak) 100) else None)\<rparr>)"

text \<open>The level and the peak; both are set by the first attestation.\<close>

type_synonym level = "(dec \<times> dec) option"

fun attest :: "level \<Rightarrow> dec \<Rightarrow> dec \<times> dec" where
  "attest None equity = (equity, equity)"
| "attest (Some (_, peak)) equity = (equity, max peak equity)"

definition ledger_step ::
  "level \<times> equity_ledger_point list \<Rightarrow> timed_event \<Rightarrow> level \<times> equity_ledger_point list" where
  "ledger_step s ev =
     (case snd (snd ev) of
        Attested a \<Rightarrow>
          let l = attest (fst s) (ea_equity a)
          in (Some l, snd s @ [ledger_point (fst ev) (fst l) (snd l)])
      | Closed c \<Rightarrow>
          (case (co_realized_amount c, fst s) of
             (Some amount, Some (equity, peak)) \<Rightarrow>
               let equity' = dadd equity amount; peak' = max peak equity'
               in (Some (equity', peak'), snd s @ [ledger_point (fst ev) equity' peak'])
           | _ \<Rightarrow> s))"

definition equity_ledger ::
  "budget_log_entry list \<Rightarrow> closeout_attribution list \<Rightarrow> (string \<rightharpoonup> py_datetime) \<Rightarrow>
   equity_ledger_point list result" where
  "equity_ledger entries closeouts terminal_times =
     rbind (merged_ledger_events entries closeouts terminal_times) (\<lambda>m.
     Inr (snd (foldl ledger_step (None, []) (snd m))))"

text \<open>\<^verbatim>\<open><\<close> on datetimes: two of different kinds do not compare.\<close>

fun datetime_less :: "py_datetime \<Rightarrow> py_datetime \<Rightarrow> bool result" where
  "datetime_less (Naive a) (Naive b) = Inr (a < b)"
| "datetime_less (Aware a) (Aware b) = Inr (a < b)"
| "datetime_less _ _ = Inl (TypeError ''can't compare offset-naive and offset-aware datetimes'')"

definition worse :: "dec option \<Rightarrow> dec option \<Rightarrow> dec option" where
  "worse worst d =
     (case d of
        None \<Rightarrow> worst
      | Some x \<Rightarrow> (case worst of None \<Rightarrow> Some x | Some w \<Rightarrow> if x > w then Some x else worst))"

definition max_drawdown_step ::
  "py_datetime option \<Rightarrow> py_datetime option \<Rightarrow> dec option \<Rightarrow> equity_ledger_point \<Rightarrow> dec option result" where
  "max_drawdown_step since until worst p =
     rbind (case since of None \<Rightarrow> Inr False | Some t \<Rightarrow> datetime_less (lp_timestamp p) t) (\<lambda>early.
     if early then Inr worst
     else rbind (case until of None \<Rightarrow> Inr False | Some t \<Rightarrow> datetime_less t (lp_timestamp p)) (\<lambda>late.
          Inr (if late then worst else worse worst (lp_drawdown_percent p))))"

definition max_drawdown_from_peak_percent ::
  "equity_ledger_point list \<Rightarrow> py_datetime option \<Rightarrow> py_datetime option \<Rightarrow> dec option result" where
  "max_drawdown_from_peak_percent points since until = rfold (max_drawdown_step since until) None points"

section \<open>The totals\<close>

record paper_accounting_summary =
  ps_attestation :: "equity_attestation option"
  ps_current_equity :: "dec option"
  ps_high_water_mark :: "dec option"
  ps_drawdown_amount :: "dec option"
  ps_drawdown_percent :: "dec option"
  ps_realized_total :: dec
  ps_realized_since_attestation :: "dec option"
  ps_closeout_count :: int
  ps_unavailable_count :: int

record accounting_state =
  st_equity :: "dec option"
  st_peak :: "dec option"
  st_total :: dec
  st_since :: "dec option"
  st_count :: int
  st_unavailable :: int

definition accounting_step :: "accounting_state \<Rightarrow> timed_event \<Rightarrow> accounting_state" where
  "accounting_step s ev =
     (case snd (snd ev) of
        Attested a \<Rightarrow>
          s\<lparr>st_equity := Some (ea_equity a),
            st_peak := Some (case st_peak s of None \<Rightarrow> ea_equity a | Some p \<Rightarrow> max p (ea_equity a)),
            st_since := Some 0\<rparr>
      | Closed c \<Rightarrow>
          let s' = s\<lparr>st_count := st_count s + 1\<rparr>
          in case co_realized_amount c of
               None \<Rightarrow> s'\<lparr>st_unavailable := st_unavailable s + 1\<rparr>
             | Some amount \<Rightarrow>
                 let s'' = s'\<lparr>st_total := dadd (st_total s) amount\<rparr>
                 in case st_equity s of
                      None \<Rightarrow> s''
                    | Some equity \<Rightarrow>
                        s''\<lparr>st_equity := Some (dadd equity amount),
                            st_since := map_option (\<lambda>r. dadd r amount) (st_since s),
                            st_peak := map_option (\<lambda>p. max p (dadd equity amount)) (st_peak s)\<rparr>)"

definition accounting_start :: accounting_state where
  "accounting_start =
     \<lparr>st_equity = None, st_peak = None, st_total = 0, st_since = None, st_count = 0, st_unavailable = 0\<rparr>"

definition summary_of :: "equity_attestation list \<Rightarrow> accounting_state \<Rightarrow> paper_accounting_summary" where
  "summary_of atts s =
     (let drawdown = (case (st_equity s, st_peak s) of
                        (Some equity, Some peak) \<Rightarrow>
                          if peak > 0
                          then let amount = max (dsub peak equity) 0
                               in Some (amount, dmul (dquot amount peak) 100)
                          else None
                      | _ \<Rightarrow> None)
      in \<lparr>ps_attestation = (if atts = [] then None else Some (last atts)),
          ps_current_equity = st_equity s, ps_high_water_mark = st_peak s,
          ps_drawdown_amount = map_option fst drawdown,
          ps_drawdown_percent = map_option snd drawdown,
          ps_realized_total = st_total s, ps_realized_since_attestation = st_since s,
          ps_closeout_count = st_count s, ps_unavailable_count = st_unavailable s\<rparr>)"

definition compute_paper_accounting ::
  "budget_log_entry list \<Rightarrow> closeout_attribution list \<Rightarrow> (string \<rightharpoonup> py_datetime) \<Rightarrow>
   paper_accounting_summary result" where
  "compute_paper_accounting entries closeouts terminal_times =
     rbind (merged_ledger_events entries closeouts terminal_times) (\<lambda>m.
     Inr (summary_of (fst m) (foldl accounting_step accounting_start (snd m))))"

section \<open>Portfolio monitors\<close>

record portfolio_monitor_snapshot =
  pm_evaluated_at :: py_datetime
  pm_budget_version :: int
  pm_current_equity :: "dec option"
  pm_high_water_mark :: "dec option"
  pm_drawdown_amount :: "dec option"
  pm_drawdown_from_peak_pct :: "dec option"
  pm_account_equity_snapshot :: "dec option"
  pm_open_notional :: dec
  pm_open_notional_pct :: "dec option"
  pm_open_notional_unavailable_count :: int
  pm_open_approved_at_risk_pct :: dec
  pm_open_at_risk_unavailable_count :: int
  pm_same_day_realized_loss_pct :: dec
  pm_max_drawdown_from_peak_pct :: "dec option"
  pm_max_open_notional_pct :: dec
  pm_max_daily_loss_pct :: dec
  pm_drawdown_breached :: "bool option"
  pm_open_notional_breached :: "bool option"
  pm_daily_loss_breached :: bool

definition compute_portfolio_monitors ::
  "py_datetime \<Rightarrow> risk_budget \<Rightarrow> paper_accounting_summary \<Rightarrow> approval_budget_context \<Rightarrow>
   portfolio_monitor_snapshot" where
  "compute_portfolio_monitors now budget accounting exposure =
     (let drawdown_breached = (case (rk_max_drawdown_from_peak_pct budget, ps_drawdown_percent accounting) of
                                 (Some limit, Some d) \<Rightarrow> Some (d > limit) | _ \<Rightarrow> None);
          open_pct = (case cx_account_equity_snapshot exposure of
                        Some equity \<Rightarrow> if equity > 0
                                       then Some (dmul (dquot (dabs (cx_open_notional exposure)) equity) 100)
                                       else None
                      | None \<Rightarrow> None)
      in \<lparr>pm_evaluated_at = now, pm_budget_version = rk_version budget,
          pm_current_equity = ps_current_equity accounting,
          pm_high_water_mark = ps_high_water_mark accounting,
          pm_drawdown_amount = ps_drawdown_amount accounting,
          pm_drawdown_from_peak_pct = ps_drawdown_percent accounting,
          pm_account_equity_snapshot = cx_account_equity_snapshot exposure,
          pm_open_notional = cx_open_notional exposure,
          pm_open_notional_pct = open_pct,
          pm_open_notional_unavailable_count = cx_open_notional_unavailable_count exposure,
          pm_open_approved_at_risk_pct = cx_open_approved_at_risk_pct exposure,
          pm_open_at_risk_unavailable_count = cx_open_at_risk_unavailable_count exposure,
          pm_same_day_realized_loss_pct = cx_same_day_realized_loss_pct exposure,
          pm_max_drawdown_from_peak_pct = rk_max_drawdown_from_peak_pct budget,
          pm_max_open_notional_pct = rk_max_open_notional_pct budget,
          pm_max_daily_loss_pct = rk_max_daily_loss_pct budget,
          pm_drawdown_breached = drawdown_breached,
          pm_open_notional_breached = map_option (\<lambda>p. p > rk_max_open_notional_pct budget) open_pct,
          pm_daily_loss_breached =
            (cx_same_day_realized_loss_pct exposure > rk_max_daily_loss_pct budget)\<rparr>)"

section \<open>The two folds\<close>

definition last_level :: "equity_ledger_point list \<Rightarrow> level" where
  "last_level pts =
     (if pts = [] then None else Some (lp_equity (last pts), lp_high_water_mark (last pts)))"

text \<open>The points carry the peak of the equities up to them, and their own drawdown.\<close>

definition peaked :: "equity_ledger_point list \<Rightarrow> bool" where
  "peaked pts \<longleftrightarrow>
     (\<forall>i < length pts. lp_high_water_mark (pts ! i) = Max (lp_equity ` set (take (Suc i) pts))
        \<and> pts ! i = ledger_point (lp_timestamp (pts ! i)) (lp_equity (pts ! i)) (lp_high_water_mark (pts ! i)))"

lemma ledger_point_simps [simp]:
  "lp_timestamp (ledger_point t e p) = t" "lp_equity (ledger_point t e p) = e"
  "lp_high_water_mark (ledger_point t e p) = p"
  by (simp_all add: ledger_point_def Let_def)

lemma last_level_snoc [simp]: "last_level (pts @ [ledger_point t e p]) = Some (e, p)"
  by (simp add: last_level_def)

lemma peaked_last:
  assumes "peaked pts" and "pts \<noteq> []"
  shows "lp_high_water_mark (last pts) = Max (lp_equity ` set pts)"
proof -
  have "length pts - 1 < length pts" and "Suc (length pts - 1) = length pts" using assms(2) by auto
  then have "lp_high_water_mark (pts ! (length pts - 1)) = Max (lp_equity ` set (take (length pts) pts))"
    using assms(1) unfolding peaked_def by metis
  then show ?thesis using assms(2) by (simp add: last_conv_nth)
qed

lemma peaked_snoc:
  assumes "peaked pts" and "p = (if pts = [] then e else max (lp_high_water_mark (last pts)) e)"
  shows "peaked (pts @ [ledger_point t e p])"
proof -
  have "p = Max (insert e (lp_equity ` set pts))"
    using assms peaked_last[OF assms(1)]
    by (cases "pts = []") (simp_all add: max.commute)
  then show ?thesis
    using assms(1) by (auto simp: peaked_def nth_append less_Suc_eq)
qed

lemma peaked_drawdown:
  assumes "peaked pts" and "p \<in> set pts"
  shows "lp_drawdown_amount p = max (dsub (lp_high_water_mark p) (lp_equity p)) 0
    \<and> lp_drawdown_percent p =
        (if lp_high_water_mark p > 0
         then Some (dmul (dquot (lp_drawdown_amount p) (lp_high_water_mark p)) 100) else None)"
proof -
  obtain i where "i < length pts" "pts ! i = p" using assms(2) by (auto simp: in_set_conv_nth)
  then have "p = ledger_point (lp_timestamp p) (lp_equity p) (lp_high_water_mark p)"
    using assms(1) unfolding peaked_def by blast
  moreover have "lp_drawdown_amount (ledger_point t e h) = max (dsub h e) 0
    \<and> lp_drawdown_percent (ledger_point t e h) =
        (if h > 0 then Some (dmul (dquot (lp_drawdown_amount (ledger_point t e h)) h) 100) else None)" for t e h
    by (simp add: ledger_point_def Let_def)
  ultimately show ?thesis by metis
qed

lemma peaked_single: "peaked [ledger_point t e e]"
  using peaked_snoc[of "[]" e e t] by (simp add: peaked_def)

lemma ledger_step_inv:
  assumes "fst s = last_level (snd s)" and "peaked (snd s)"
  shows "fst (ledger_step s ev) = last_level (snd (ledger_step s ev)) \<and> peaked (snd (ledger_step s ev))"
proof (cases "snd (snd ev)")
  case (Attested a)
  then show ?thesis
    using assms by (auto simp: ledger_step_def Let_def last_level_def intro!: peaked_snoc peaked_single)
next
  case (Closed c)
  then show ?thesis
    using assms
    by (auto simp: ledger_step_def Let_def last_level_def intro!: peaked_snoc split: option.splits)
qed

lemma ledger_fold_inv:
  "fst (foldl ledger_step (None, []) evs) = last_level (snd (foldl ledger_step (None, []) evs))
   \<and> peaked (snd (foldl ledger_step (None, []) evs))"
proof (induction evs rule: rev_induct)
  case Nil
  show ?case by (simp add: last_level_def peaked_def)
next
  case (snoc ev evs)
  then show ?case using ledger_step_inv[of "foldl ledger_step (None, []) evs" ev] by simp
qed

text \<open>The totals follow the level of the ledger.\<close>

definition same_level :: "level \<Rightarrow> accounting_state \<Rightarrow> bool" where
  "same_level l s \<longleftrightarrow> st_equity s = map_option fst l \<and> st_peak s = map_option snd l"

lemma folds_agree:
  "same_level (fst (foldl ledger_step (None, []) evs)) (foldl accounting_step accounting_start evs)"
proof (induction evs rule: rev_induct)
  case (snoc ev evs)
  then show ?case
    by (cases "fst (foldl ledger_step (None, []) evs)")
       (auto simp: same_level_def ledger_step_def accounting_step_def Let_def
        split: ledger_event.splits option.splits)
qed (simp add: same_level_def accounting_start_def)

fun closed_event :: "timed_event \<Rightarrow> closeout_attribution option" where
  "closed_event (_, _, Closed c) = Some c"
| "closed_event (_, _, Attested _) = None"

lemma accounting_counts:
  "st_count (foldl accounting_step accounting_start evs)
     = int (length (filter (\<lambda>e. closed_event e \<noteq> None) evs))
   \<and> st_unavailable (foldl accounting_step accounting_start evs)
     = int (length (filter (\<lambda>e. \<exists>c. closed_event e = Some c \<and> co_realized_amount c = None) evs))"
proof (induction evs rule: rev_induct)
  case (snoc ev evs)
  obtain t k e where "ev = (t, k, e)" by (cases ev)
  with snoc show ?case
    by (cases e) (auto simp: accounting_step_def Let_def split: option.splits)
qed (simp add: accounting_start_def)

lemma length_filter_sort_key: "length (filter P (sort_key f xs)) = length (filter P xs)"
  by (metis mset_filter mset_sort size_mset)

lemma merged_counts:
  assumes "merged_ledger_events entries closeouts tt = Inr (atts, evs)"
  shows "length (filter (\<lambda>e. closed_event e \<noteq> None) evs) = length closeouts"
    and "length (filter (\<lambda>e. \<exists>c. closed_event e = Some c \<and> co_realized_amount c = None) evs)
         = length (filter (\<lambda>c. co_realized_amount c = None) closeouts)"
  using assms
  by (auto simp: merged_ledger_events_def Let_def sort_events_def length_filter_sort_key
      filter_map o_def split: if_splits)

text \<open>The worst of a list of drawdowns.\<close>

definition in_window :: "py_datetime option \<Rightarrow> py_datetime option \<Rightarrow> equity_ledger_point \<Rightarrow> bool" where
  "in_window since until p \<longleftrightarrow>
     (\<forall>t. since = Some t \<longrightarrow> datetime_less (lp_timestamp p) t = Inr False)
     \<and> (\<forall>t. until = Some t \<longrightarrow> datetime_less t (lp_timestamp p) = Inr False)"

definition measured :: "py_datetime option \<Rightarrow> py_datetime option \<Rightarrow> equity_ledger_point list \<Rightarrow> dec set" where
  "measured since until pts = {d. \<exists>p \<in> set pts. in_window since until p \<and> lp_drawdown_percent p = Some d}"

lemma measured_snoc:
  "measured since until (pts @ [p]) = measured since until pts
     \<union> (if in_window since until p then set_option (lp_drawdown_percent p) else {})"
  by (auto simp: measured_def)

lemma finite_measured: "finite (measured since until pts)"
  by (induction pts rule: rev_induct) (simp_all add: measured_snoc, simp add: measured_def)

lemma max_drawdown_step_cases:
  assumes "max_drawdown_step since until worst p = Inr w"
  shows "w = (if in_window since until p then worse worst (lp_drawdown_percent p) else worst)"
  using assms
  by (cases since; cases until)
     (auto simp: max_drawdown_step_def in_window_def split: if_splits)

lemma max_drawdown_measured:
  assumes "max_drawdown_from_peak_percent pts since until = Inr w"
  shows "w = (if measured since until pts = {} then None else Some (Max (measured since until pts)))"
  using assms
proof (induction pts arbitrary: w rule: rev_induct)
  case Nil
  then show ?case by (simp add: max_drawdown_from_peak_percent_def measured_def)
next
  case (snoc p pts)
  from snoc.prems obtain w0 where w0: "max_drawdown_from_peak_percent pts since until = Inr w0"
      "max_drawdown_step since until w0 p = Inr w"
    by (auto simp: max_drawdown_from_peak_percent_def rfold_snoc)
  have W: "w0 = (if measured since until pts = {} then None else Some (Max (measured since until pts)))"
    by (rule snoc.IH[OF w0(1)])
  have w: "w = (if in_window since until p then worse w0 (lp_drawdown_percent p) else w0)"
    by (rule max_drawdown_step_cases[OF w0(2)])
  have "Max (insert d (measured since until pts)) = max d (Max (measured since until pts))"
    if "measured since until pts \<noteq> {}" for d
    using finite_measured that by (rule Max_insert)
  then show ?case
    unfolding w W measured_snoc
    by (cases "lp_drawdown_percent p") (auto simp: worse_def max_def)
qed

section \<open>Properties\<close>

definition ex_attested :: "dec \<Rightarrow> int \<Rightarrow> instant \<Rightarrow> budget_log_entry" where
  "ex_attested equity version t =
     \<lparr>be_timestamp = Aware t, be_actor_type = HUMAN, be_actor_id = ''operator'',
      be_budget = DEFAULT_RISK_BUDGET\<lparr>rk_version := version, rk_account_equity := Some equity\<rparr>\<rparr>"

text \<open>
  C35: The two folds of the accountant agree. They raise on the same inputs; otherwise the
  current equity and the high-water mark of the summary are those of the last point of the
  ledger, absent exactly when the ledger is empty, the drawdown is that point's whenever the
  peak is positive, and every closeout is counted, the ones without an amount separately.
\<close>

theorem accounting_agrees:
  "(\<forall>e. equity_ledger entries closeouts tt = Inl e \<longrightarrow>
      compute_paper_accounting entries closeouts tt = Inl e)
   \<and> (\<forall>pts. equity_ledger entries closeouts tt = Inr pts \<longrightarrow>
      (\<exists>s. compute_paper_accounting entries closeouts tt = Inr s
         \<and> ps_current_equity s = (if pts = [] then None else Some (lp_equity (last pts)))
         \<and> ps_high_water_mark s = (if pts = [] then None else Some (lp_high_water_mark (last pts)))
         \<and> (pts \<noteq> [] \<and> 0 < lp_high_water_mark (last pts) \<longrightarrow>
              ps_drawdown_amount s = Some (lp_drawdown_amount (last pts))
              \<and> ps_drawdown_percent s = lp_drawdown_percent (last pts))
         \<and> ps_closeout_count s = int (length closeouts)
         \<and> ps_unavailable_count s = int (length (filter (\<lambda>c. co_realized_amount c = None) closeouts))))"
proof (cases "merged_ledger_events entries closeouts tt")
  case (Inl x)
  then show ?thesis by (simp add: equity_ledger_def compute_paper_accounting_def)
next
  case (Inr m)
  obtain atts evs where m: "m = (atts, evs)" by (cases m)
  define L where "L = foldl ledger_step (None, []) evs"
  define s where "s = foldl accounting_step accounting_start evs"
  have inv: "fst L = last_level (snd L)" "peaked (snd L)"
    using ledger_fold_inv[of evs] by (simp_all add: L_def)
  have sim: "same_level (fst L) s" unfolding L_def s_def by (rule folds_agree)
  have counts: "st_count s = int (length closeouts)"
      "st_unavailable s = int (length (filter (\<lambda>c. co_realized_amount c = None) closeouts))"
    using accounting_counts[of evs] merged_counts[OF Inr[unfolded m]] by (simp_all add: s_def)
  have "lp_drawdown_amount (last (snd L))
        = max (dsub (lp_high_water_mark (last (snd L))) (lp_equity (last (snd L)))) 0"
      "lp_drawdown_percent (last (snd L)) = (if lp_high_water_mark (last (snd L)) > 0
         then Some (dmul (dquot (lp_drawdown_amount (last (snd L))) (lp_high_water_mark (last (snd L)))) 100)
         else None)" if "snd L \<noteq> []"
    using peaked_drawdown[OF inv(2) last_in_set[OF that]] by blast+
  moreover have "st_equity s = (if snd L = [] then None else Some (lp_equity (last (snd L))))"
    "st_peak s = (if snd L = [] then None else Some (lp_high_water_mark (last (snd L))))"
    using sim inv(1) by (simp_all add: same_level_def last_level_def)
  ultimately show ?thesis
    using counts
    by (simp add: equity_ledger_def compute_paper_accounting_def Inr m flip: L_def s_def)
       (auto simp: summary_of_def Let_def)
qed

theorem accounting_agrees_witness:
  "\<exists>s. compute_paper_accounting [ex_attested 1000 1 0] [ex_closeout] Map.empty = Inr s
     \<and> ps_current_equity s = Some 1007 \<and> ps_closeout_count s = 1"
proof -
  have "equity_ledger [ex_attested 1000 1 0] [ex_closeout] Map.empty
      = Inr [ledger_point (Aware 0) 1000 1000, ledger_point (Aware (hours 5)) 1007 1007]"
    by code_simp
  with accounting_agrees[of "[ex_attested 1000 1 0]" "[ex_closeout]" Map.empty] show ?thesis by auto
qed

text \<open>
  The high-water mark is the peak of the whole ledger. At every point it is the largest
  equity up to that point, so it never falls, no re-attestation included, and the drawdown it
  measures is not negative; and the worst drawdown of a window is the largest percentage among
  the points in it, absent when none is measurable.
\<close>

theorem ledger_peaks:
  assumes "equity_ledger entries closeouts tt = Inr pts"
  shows "(\<forall>i < length pts. lp_high_water_mark (pts ! i) = Max (lp_equity ` set (take (Suc i) pts))
            \<and> lp_equity (pts ! i) \<le> lp_high_water_mark (pts ! i) \<and> 0 \<le> lp_drawdown_amount (pts ! i))
    \<and> (\<forall>i j. i \<le> j \<and> j < length pts \<longrightarrow> lp_high_water_mark (pts ! i) \<le> lp_high_water_mark (pts ! j))
    \<and> (\<forall>since until w. max_drawdown_from_peak_percent pts since until = Inr w \<longrightarrow>
         w = (if measured since until pts = {} then None else Some (Max (measured since until pts))))"
proof -
  have P: "peaked pts"
    using assms ledger_fold_inv by (auto simp: equity_ledger_def)
  have peak: "lp_high_water_mark (pts ! i) = Max (lp_equity ` set (take (Suc i) pts))" if "i < length pts" for i
    using P that by (simp add: peaked_def)
  have "lp_equity (pts ! i) \<le> lp_high_water_mark (pts ! i) \<and> 0 \<le> lp_drawdown_amount (pts ! i)"
    if i: "i < length pts" for i
  proof
    have "lp_equity (pts ! i) \<in> lp_equity ` set (take (Suc i) pts)"
      using i by (intro imageI) (simp add: take_Suc_conv_app_nth)
    then show "lp_equity (pts ! i) \<le> lp_high_water_mark (pts ! i)" using i by (simp add: peak)
    show "0 \<le> lp_drawdown_amount (pts ! i)" using peaked_drawdown[OF P nth_mem[OF i]] by simp
  qed
  moreover have "lp_high_water_mark (pts ! i) \<le> lp_high_water_mark (pts ! j)" if "i \<le> j" "j < length pts" for i j
  proof -
    have "set (take (Suc i) pts) \<subseteq> set (take (Suc j) pts)" using that(1) by (intro set_take_subset_set_take) simp
    then have "Max (lp_equity ` set (take (Suc i) pts)) \<le> Max (lp_equity ` set (take (Suc j) pts))"
      using that by (intro Max_mono image_mono) (auto simp: take_Suc_conv_app_nth)
    then show ?thesis using that by (simp add: peak)
  qed
  ultimately show ?thesis using peak max_drawdown_measured by blast
qed

theorem ledger_peaks_witness:
  "lp_high_water_mark ([ledger_point (Aware 0) 1000 1000, ledger_point (Aware (hours 5)) 1007 1007] ! Suc 0) = 1007
   \<and> equity_ledger [ex_attested 1000 1 0] [ex_closeout] Map.empty
     = Inr [ledger_point (Aware 0) 1000 1000, ledger_point (Aware (hours 5)) 1007 1007]"
proof -
  have "equity_ledger [ex_attested 1000 1 0] [ex_closeout] Map.empty
      = Inr [ledger_point (Aware 0) 1000 1000, ledger_point (Aware (hours 5)) 1007 1007]"
    by code_simp
  with ledger_peaks[OF this] show ?thesis by simp
qed

text \<open>
  The monitors and the ratchet judge alike. The daily-loss monitor reports a breach exactly
  when the trigger gives evidence; the drawdown monitor reports one exactly when its trigger
  does, and gives no verdict exactly when no limit is set or no drawdown is measurable; the
  notional monitor gives no verdict exactly when there is no positive equity to divide by.
\<close>

theorem monitors_match_triggers:
  fixes now budget accounting exposure moment sessions
  defines "m \<equiv> compute_portfolio_monitors now budget accounting exposure"
  shows "(pm_daily_loss_breached m \<longleftrightarrow>
      daily_loss_breach_evidence (cx_same_day_realized_loss_pct exposure) (rk_max_daily_loss_pct budget)
        (rk_version budget) moment sessions \<noteq> None)
    \<and> (pm_drawdown_breached m = Some True \<longleftrightarrow>
      drawdown_from_peak_breach_evidence (ps_drawdown_percent accounting)
        (rk_max_drawdown_from_peak_pct budget) (rk_version budget) (ps_high_water_mark accounting)
        (ps_current_equity accounting) moment \<noteq> None)
    \<and> (pm_drawdown_breached m = None \<longleftrightarrow>
      rk_max_drawdown_from_peak_pct budget = None \<or> ps_drawdown_percent accounting = None)
    \<and> (pm_open_notional_breached m = None \<longleftrightarrow>
      \<not> (\<exists>e. cx_account_equity_snapshot exposure = Some e \<and> 0 < e))"
  unfolding m_def
  by (auto simp: not_le compute_portfolio_monitors_def Let_def daily_loss_breach_evidence_def
      drawdown_from_peak_breach_evidence_def split: option.splits)

end
