(* ===== verification/Idea_Journal.thy ===== *)
theory Idea_Journal
  imports Idea_Closeout "HOL-Library.AList"
begin

text \<open>
  The durable journal of paper submissions,
  \<^verbatim>\<open>src/gpt_trader/features/trade_ideas/execution_journal.py\<close>: an intent for each decision, at
  most one broker receipt for it, its reconciliation, and simulated resolutions of targets.
  The journal is a stream of the state store; \<^verbatim>\<open>entries\<close> reads it whole and validates every
  event, and the four writers append to it.

  \<open>hash\<close> is \<^verbatim>\<open>payload_hash\<close>, the digest of a JSON object, and \<open>rhash\<close> the content hash of a
  record (\<^verbatim>\<open>TradeIdea.record_hash\<close>). Every exception that \<^verbatim>\<open>entries\<close> catches becomes the
  same integrity error, so a value of a wrong type is read as a \<^verbatim>\<open>TypeError\<close> there.
\<close>

section \<open>Values\<close>

text \<open>\<^verbatim>\<open>Decimal(value)\<close> of a JSON value.\<close>

fun decimal_ctor :: "json \<Rightarrow> py_decimal result" where
  "decimal_ctor (JDec d) = Inr d"
| "decimal_ctor (JInt n) = Inr (Finite (of_int n))"
| "decimal_ctor (JNum d) = Inr d"
| "decimal_ctor (JBool b) = Inr (Finite (if b then 1 else 0))"
| "decimal_ctor JNull = Inl (TypeError ''conversion from NoneType to Decimal is not supported'')"
| "decimal_ctor (JObj _) = Inl (TypeError ''conversion from dict to Decimal is not supported'')"
| "decimal_ctor (JArr _) = Inl (ValueError ''argument must be a sequence of length 3'')"
| "decimal_ctor _ = Inl (ArithmeticError ''InvalidOperation'')"

text \<open>Equality of two JSON objects: the same value for every key, in any order.\<close>

definition same_object :: "payload \<Rightarrow> payload \<Rightarrow> bool" where
  "same_object p q \<longleftrightarrow> list_all (\<lambda>k. map_of p k = map_of q k) (map fst p @ map fst q)"

definition order_statuses :: "string list" where
  "order_statuses = [''pending'', ''submitted'', ''partially_filled'', ''filled'', ''cancelled'', ''rejected'',
     ''expired'', ''failed'']"

section \<open>Entries\<close>

record journal_entry =
  je_decision_id :: string
  je_record_hash :: json
  je_intent :: payload
  je_receipt :: "payload option"
  je_reconciled :: bool

definition receipt_status :: "payload \<Rightarrow> json result" where
  "receipt_status r = jget r ''status''"

text \<open>\<^verbatim>\<open>receipt["status"] == "filled"\<close>.\<close>

definition is_filled :: "payload \<Rightarrow> bool" where
  "is_filled r \<longleftrightarrow> map_of r ''status'' = Some (JStr ''filled'')"

text \<open>\<^verbatim>\<open>for field in (...): if receipt[field] != entry.intent[field]: raise\<close>.\<close>

definition same_field :: "payload \<Rightarrow> payload \<Rightarrow> string \<Rightarrow> unit result" where
  "same_field receipt intent field =
     rbind (jget receipt field) (\<lambda>a.
     rbind (jget intent field) (\<lambda>b.
     raise_if (a \<noteq> b) (PaperReceiptConflictError (''Broker receipt '' @ field @ '' conflicts with intent''))))"

text \<open>\<^verbatim>\<open>status not in {...}\<close>: a list or an object cannot be looked up in a set.\<close>

fun status_known :: "json \<Rightarrow> unit result" where
  "status_known (JStr s) =
     raise_if (s \<notin> set order_statuses) (PaperReceiptConflictError ''Unknown broker receipt status'')"
| "status_known (JArr _) = Inl (TypeError ''unhashable type'')"
| "status_known (JObj _) = Inl (TypeError ''unhashable type'')"
| "status_known _ = Inl (PaperReceiptConflictError ''Unknown broker receipt status'')"

definition quantity_exceeds :: "py_decimal \<Rightarrow> py_decimal \<Rightarrow> bool" where
  "quantity_exceeds quantity requested \<longleftrightarrow>
     (case (quantity, requested) of (Finite q, Finite r) \<Rightarrow> q < 0 \<or> r < q | _ \<Rightarrow> True)"

text \<open>The last test of \<^verbatim>\<open>validate_receipt\<close>, whose three exceptions become one.\<close>

definition observed_after :: "payload \<Rightarrow> instant \<Rightarrow> unit result" where
  "observed_after receipt t =
     rewrap lookup_or_value_error (PaperReceiptConflictError ''Targeted receipt requires valid observation time'')
       (rbind (rbind (jget receipt ''observed_at'') jdatetime) (\<lambda>o'.
        case o' of Naive _ \<Rightarrow> Inl (ValueError ''execution cannot occur after observation'')
        | Aware u \<Rightarrow> raise_if (u < t) (ValueError ''execution cannot occur after observation'')))"

definition journal_validate_receipt :: "journal_entry \<Rightarrow> payload \<Rightarrow> unit result" where
  "journal_validate_receipt e receipt =
     rbind (same_field receipt (je_intent e) ''client_order_id'') (\<lambda>_.
     rbind (same_field receipt (je_intent e) ''symbol'') (\<lambda>_.
     rbind (same_field receipt (je_intent e) ''side'') (\<lambda>_.
     rbind (jget receipt ''decision_id'') (\<lambda>did.
     rbind (if did \<noteq> JStr (je_decision_id e) then Inr JNull else jget receipt ''order_id'') (\<lambda>oid.
     rbind (raise_if (\<not> jtrue oid) (PaperReceiptConflictError ''Broker receipt identity missing or conflicting'')) (\<lambda>_.
     rbind (rbind (jget receipt ''status'') status_known) (\<lambda>_.
     rbind (rbind (jget receipt ''quantity'') decimal_ctor) (\<lambda>quantity.
     rbind (rbind (jget (je_intent e) ''quantity'') decimal_ctor) (\<lambda>requested.
     rbind (raise_if (quantity_exceeds quantity requested)
              (PaperReceiptConflictError ''Broker receipt quantity exceeds intent'')) (\<lambda>_.
     rbind (raise_if (is_filled receipt \<and> quantity \<noteq> requested)
              (PaperReceiptConflictError ''Terminal receipt must fill the complete intent'')) (\<lambda>_.
     rbind (rbind (jget receipt ''price'') (\<lambda>v. if v = JNull then Inr None
                                              else rbind (decimal_ctor v) (\<lambda>d. Inr (Some d)))) (\<lambda>price.
     rbind (raise_if (is_filled receipt \<and> (case price of None \<Rightarrow> True | Some d \<Rightarrow> not_positive d))
              (PaperReceiptConflictError ''Filled receipt requires a finite positive price'')) (\<lambda>_.
     rbind (rbind (jget receipt ''filled_at'') jdatetime) (\<lambda>timestamp.
     case timestamp of
       Naive _ \<Rightarrow> Inl (PaperReceiptConflictError ''Receipt timestamp requires timezone'')
     | Aware t \<Rightarrow>
         if map_of (je_intent e) ''position_operation'' \<noteq> None then observed_after receipt t
         else Inr ()))))))))))))))"

section \<open>Reading the journal\<close>

text \<open>\<^verbatim>\<open>datetime.fromisoformat(a) > datetime.fromisoformat(b)\<close>: a mixed comparison raises.\<close>

fun later :: "py_datetime \<Rightarrow> py_datetime \<Rightarrow> bool result" where
  "later (Aware a) (Aware b) = Inr (b < a)"
| "later (Naive a) (Naive b) = Inr (b < a)"
| "later _ _ = Inl (TypeError ''cannot compare offset-naive and offset-aware datetimes'')"

fun is_naive :: "py_datetime \<Rightarrow> bool" where
  "is_naive (Naive _) = True"
| "is_naive (Aware _) = False"

definition positive_field :: "payload \<Rightarrow> string \<Rightarrow> unit result" where
  "positive_field p field =
     rbind (rbind (jget p field) decimal_ctor) (\<lambda>d.
     raise_if (not_positive d) (ExecutionJournalIntegrityError ''Invalid simulated resolution value''))"

text \<open>\<^verbatim>\<open>_validate_simulated_resolution\<close>: the operation identity on success.\<close>

definition validate_simulated_resolution :: "(payload \<Rightarrow> string) \<Rightarrow> payload \<Rightarrow> string result" where
  "validate_simulated_resolution hash event =
     rbind (rbind (jget event ''resolution'') jobj) (\<lambda>p.
     rbind (rbind (jget p ''target_decision_id'') jstr) (\<lambda>target.
     rbind (rbind (jget p ''target_record_hash'') jstr) (\<lambda>th.
     rbind (new_position_operation
              \<lparr>po_action = ''close'', po_target_decision_id = target, po_target_record_hash = th,
               po_resolution = ''thesis_target''\<rparr>) (\<lambda>_.
     rbind (jget event ''checksum'') (\<lambda>sum'.
     rbind (if sum' \<noteq> JStr (hash p) then Inr JNull else jget p ''operation_id'') (\<lambda>op.
     rbind (raise_if (\<not> jtrue op)
              (ExecutionJournalIntegrityError ''Invalid simulated resolution identity/checksum'')) (\<lambda>_.
     rbind (positive_field p ''quantity'') (\<lambda>_.
     rbind (positive_field p ''price'') (\<lambda>_.
     rbind (raise_if (op \<noteq> JStr (''simulated-close-'' @ th))
              (ExecutionJournalIntegrityError ''Simulated close identity does not pin target'')) (\<lambda>_.
     rbind (rbind (jget p ''observed_at'') jdatetime) (\<lambda>observed.
     rbind (raise_if (is_naive observed)
              (ExecutionJournalIntegrityError ''Simulated resolution cannot precede observation evidence'')) (\<lambda>_.
     rbind (rbind (jget p ''resolved_at'') jdatetime) (\<lambda>resolved.
     rbind (later resolved observed) (\<lambda>bad.
     rbind (raise_if bad
              (ExecutionJournalIntegrityError ''Simulated resolution cannot precede observation evidence'')) (\<lambda>_.
     rbind (raise_if (is_naive resolved)
              (ExecutionJournalIntegrityError ''Simulated resolution requires timestamp'')) (\<lambda>_.
     rbind (rbind (jget p ''resolution'') (jenum closeout_resolution_of)) (\<lambda>_.
     rbind (jget p ''source'') (\<lambda>source.
     rbind (if source \<noteq> JStr ''simulated_candle_resolution'' then Inr JNull else jget p ''evidence'') (\<lambda>ev.
     rbind (raise_if (\<not> jtrue ev)
              (ExecutionJournalIntegrityError ''Simulated resolution requires explicit evidence'')) (\<lambda>_.
     Inr (''simulated-close-'' @ th)))))))))))))))))))))"

text \<open>The tests on a new intent; the record hash it pins.\<close>

definition read_intent :: "(payload \<Rightarrow> string) \<Rightarrow> payload \<Rightarrow> string \<Rightarrow> (payload \<times> json) result" where
  "read_intent hash event d =
     rbind (rbind (jget event ''intent'') jobj) (\<lambda>intent.
     rbind (order_intent_from_dict intent) (\<lambda>_.
     rbind (jget intent ''client_order_id'') (\<lambda>cid.
     rbind (jget intent ''side'') (\<lambda>side.
     rbind (raise_if (cid \<noteq> JStr d \<or> side \<notin> {JStr ''buy'', JStr ''sell''})
              (ValueError ''invalid intent identity or side'')) (\<lambda>_.
     rbind (rbind (jget intent ''quantity'') decimal_ctor) (\<lambda>quantity.
     rbind (raise_if (not_positive quantity) (ValueError ''invalid intent quantity'')) (\<lambda>_.
     rbind (jget intent ''symbol'') (\<lambda>symbol.
     rbind (jget intent ''order_type'') (\<lambda>order_type.
     rbind (jget intent ''reduce_only'') (\<lambda>reduce_only.
     rbind (raise_if (\<not> jtrue symbol \<or> order_type \<noteq> JStr ''market''
                      \<or> (reduce_only \<noteq> JBool False \<and> map_of intent ''position_operation'' = None))
              (ValueError ''unsupported paper entry intent'')) (\<lambda>_.
     rbind (jget event ''intent_hash'') (\<lambda>ih.
     rbind (raise_if (ih \<noteq> JStr (hash intent)) (ValueError ''intent hash mismatch'')) (\<lambda>_.
     rbind (jget event ''record_hash'') (\<lambda>rh.
     Inr (intent, rh)))))))))))))))"

type_synonym journal_state = "(string \<times> journal_entry) list \<times> string list"

text \<open>One event of the loop of \<^verbatim>\<open>entries\<close>: the entries by decision and the simulated identities.\<close>

definition journal_step :: "(payload \<Rightarrow> string) \<Rightarrow> journal_state \<Rightarrow> json \<Rightarrow> journal_state result" where
  "journal_step hash s j =
     rbind (jobj j) (\<lambda>event.
     rbind (jget event ''kind'') (\<lambda>kind.
     if kind = JStr ''simulated_resolution''
     then rbind (validate_simulated_resolution hash event) (\<lambda>op.
          rbind (raise_if (op \<in> set (snd s) \<or> map_of (fst s) op \<noteq> None)
                   (ValueError ''Duplicate simulated operation identity'')) (\<lambda>_.
          Inr (fst s, snd s @ [op])))
     else
     rbind (rbind (jget event ''decision_id'') jstr) (\<lambda>d.
     let current = map_of (fst s) d in
     if kind = JStr ''intent''
     then rbind (raise_if (current \<noteq> None \<or> d \<in> set (snd s)) (ValueError ''duplicate intent'')) (\<lambda>_.
          rbind (read_intent hash event d) (\<lambda>(intent, rh).
          Inr (AList.update d \<lparr>je_decision_id = d, je_record_hash = rh, je_intent = intent,
                 je_receipt = None, je_reconciled = False\<rparr> (fst s), snd s)))
     else if kind = JStr ''receipt''
     then (case current of
             None \<Rightarrow> Inl (ValueError ''receipt without unique pending intent'')
           | Some e \<Rightarrow>
               rbind (raise_if (je_receipt e \<noteq> None \<or> je_reconciled e)
                        (ValueError ''receipt without unique pending intent'')) (\<lambda>_.
               rbind (rbind (jget event ''receipt'') jobj) (\<lambda>receipt.
               rbind (jget event ''intent_hash'') (\<lambda>ih.
               rbind (jget event ''receipt_hash'') (\<lambda>rh.
               rbind (raise_if (ih \<noteq> JStr (hash (je_intent e)) \<or> rh \<noteq> JStr (hash receipt))
                        (ValueError ''receipt hash mismatch'')) (\<lambda>_.
               rbind (journal_validate_receipt e receipt) (\<lambda>_.
               Inr (AList.update d (e\<lparr>je_receipt := Some receipt\<rparr>) (fst s), snd s))))))))
     else if kind = JStr ''reconciled''
     then (case current of
             None \<Rightarrow> Inl (ValueError ''reconciliation without unique receipt'')
           | Some e \<Rightarrow>
               (case je_receipt e of
                  None \<Rightarrow> Inl (ValueError ''reconciliation without unique receipt'')
                | Some receipt \<Rightarrow>
                    rbind (raise_if (\<not> is_filled receipt \<or> je_reconciled e)
                             (ValueError ''reconciliation without unique receipt'')) (\<lambda>_.
                    rbind (jget event ''receipt_hash'') (\<lambda>rh.
                    rbind (raise_if (rh \<noteq> JStr (hash receipt)) (ValueError ''reconciled receipt hash mismatch'')) (\<lambda>_.
                    Inr (AList.update d (e\<lparr>je_reconciled := True\<rparr>) (fst s), snd s))))))
     else Inl (ValueError ''unknown journal event''))))"

text \<open>The exceptions \<^verbatim>\<open>entries\<close> turns into an integrity error; the integrity error itself passes.\<close>

fun journal_caught :: "py_error \<Rightarrow> bool" where
  "journal_caught (ArithmeticError _) = True"
| "journal_caught (PaperReceiptConflictError _) = True"
| "journal_caught e = lookup_or_value_error e"

definition journal_error :: py_error where
  "journal_error = ExecutionJournalIntegrityError ''Invalid paper execution journal''"

definition journal_read :: "(payload \<Rightarrow> string) \<Rightarrow> log_store \<Rightarrow> journal_state result" where
  "journal_read hash store =
     rbind (log_lines store None) (\<lambda>ls.
     rewrap journal_caught journal_error (read_log (journal_step hash) journal_error ([], []) ls))"

definition journal_entries :: "(payload \<Rightarrow> string) \<Rightarrow> log_store \<Rightarrow> (string \<times> journal_entry) list result" where
  "journal_entries hash store = rbind (journal_read hash store) (\<lambda>s. Inr (fst s))"

section \<open>Simulated resolutions\<close>

text \<open>One line of \<^verbatim>\<open>simulated_resolutions\<close>, after \<^verbatim>\<open>entries\<close> has validated the journal.\<close>

definition resolution_step :: "(string \<times> payload) list \<Rightarrow> json \<Rightarrow> (string \<times> payload) list result" where
  "resolution_step rs j =
     rbind (jobj j) (\<lambda>event.
     rbind (jget event ''kind'') (\<lambda>kind.
     if kind \<noteq> JStr ''simulated_resolution'' then Inr rs
     else rbind (rbind (jget event ''resolution'') jobj) (\<lambda>p.
          rbind (rbind (jget p ''operation_id'') jstr) (\<lambda>op.
          rbind (raise_if (map_of rs op \<noteq> None)
                   (ExecutionJournalIntegrityError ''Duplicate simulated resolution identity'')) (\<lambda>_.
          Inr (rs @ [(op, p)]))))))"

definition simulated_resolutions :: "(payload \<Rightarrow> string) \<Rightarrow> log_store \<Rightarrow> payload list result" where
  "simulated_resolutions hash store =
     rbind (journal_entries hash store) (\<lambda>_.
     rbind (log_lines store None) (\<lambda>ls.
     rbind (read_log resolution_step journal_error [] ls) (\<lambda>rs.
     Inr (map snd rs))))"

section \<open>Writers\<close>

definition record_intent ::
  "(payload \<Rightarrow> string) \<Rightarrow> log_store \<Rightarrow> string \<Rightarrow> string \<Rightarrow> payload \<Rightarrow> log_store result" where
  "record_intent hash store d rh intent =
     rbind (journal_entries hash store) (\<lambda>es.
     rbind (raise_if (map_of es d \<noteq> None)
              (ExecutionJournalIntegrityError ''Decision already has a durable intent'')) (\<lambda>_.
     let store' = log_append store
           [(''kind'', JStr ''intent''), (''decision_id'', JStr d), (''record_hash'', JStr rh),
            (''intent'', JObj intent), (''intent_hash'', JStr (hash intent))]
     in rbind (journal_entries hash store') (\<lambda>_. Inr store')))"

definition record_receipt ::
  "(payload \<Rightarrow> string) \<Rightarrow> log_store \<Rightarrow> string \<Rightarrow> payload \<Rightarrow> log_store result" where
  "record_receipt hash store d receipt =
     rbind (journal_entries hash store) (\<lambda>es.
     case map_of es d of
       None \<Rightarrow> Inl (ExecutionJournalIntegrityError ''Receipt has no durable intent'')
     | Some e \<Rightarrow>
         (case je_receipt e of
            Some r \<Rightarrow>
              if same_object r receipt then Inr store
              else Inl (ExecutionJournalIntegrityError ''Conflicting receipt for the same intent'')
          | None \<Rightarrow>
              rbind (journal_validate_receipt e receipt) (\<lambda>_.
              Inr (log_append store
                [(''kind'', JStr ''receipt''), (''decision_id'', JStr d),
                 (''intent_hash'', JStr (hash (je_intent e))), (''receipt_hash'', JStr (hash receipt)),
                 (''receipt'', JObj receipt)]))))"

definition mark_reconciled :: "(payload \<Rightarrow> string) \<Rightarrow> log_store \<Rightarrow> string \<Rightarrow> log_store result" where
  "mark_reconciled hash store d =
     rbind (journal_entries hash store) (\<lambda>es.
     case map_of es d of
       None \<Rightarrow> Inl (KeyError d)
     | Some e \<Rightarrow>
         if je_reconciled e then Inr store
         else (case je_receipt e of
                 None \<Rightarrow> Inl (ExecutionJournalIntegrityError ''Cannot reconcile without a terminal fill receipt'')
               | Some receipt \<Rightarrow>
                   if \<not> is_filled receipt
                   then Inl (ExecutionJournalIntegrityError ''Cannot reconcile without a terminal fill receipt'')
                   else Inr (log_append store
                     [(''kind'', JStr ''reconciled''), (''decision_id'', JStr d),
                      (''receipt_hash'', JStr (hash receipt))])))"

text \<open>\<^verbatim>\<open>existing["operation_id"] == payload["operation_id"]\<close> for the recorded resolutions, in order.\<close>

definition record_simulated_resolution ::
  "(payload \<Rightarrow> string) \<Rightarrow> log_store \<Rightarrow> payload \<Rightarrow> log_store result" where
  "record_simulated_resolution hash store p =
     rbind (simulated_resolutions hash store) (\<lambda>rs.
     rbind (if rs = [] then Inr JNull else jget p ''operation_id'') (\<lambda>op.
     case find (\<lambda>r. map_of r ''operation_id'' = Some op) rs of
       Some r \<Rightarrow>
         if same_object r p then Inr store
         else Inl (ExecutionJournalIntegrityError ''Conflicting simulated resolution'')
     | None \<Rightarrow>
         let event = [(''kind'', JStr ''simulated_resolution''), (''resolution'', JObj p),
                      (''checksum'', JStr (hash p))]
         in rbind (validate_simulated_resolution hash event) (\<lambda>_.
            Inr (log_append store event))))"

section \<open>The binding of an entry to its record\<close>

definition entry_side :: "trade_idea \<Rightarrow> order_side option" where
  "entry_side i =
     (let closing = ti_position_operation i \<noteq> None in
      case ti_direction i of
        LONG \<Rightarrow> Some (if closing then SELL else BUY)
      | SHORT \<Rightarrow> Some (if closing then BUY else SELL)
      | _ \<Rightarrow> None)"

definition bound_quantity :: "journal_entry \<Rightarrow> trade_idea \<Rightarrow> py_decimal option result" where
  "bound_quantity e i =
     (let quantity = map_option Finite (sr_quantity (ti_sizing i)) in
      case ti_position_operation i of
        Some p \<Rightarrow>
          if po_action p = ''close'' \<and> quantity = None
          then rbind (rbind (jget (je_intent e) ''quantity'') decimal_ctor) (\<lambda>q. Inr (Some q))
          else Inr quantity
      | None \<Rightarrow> Inr quantity)"

text \<open>\<^verbatim>\<open>validate_binding\<close>.\<close>

definition validate_binding :: "(trade_idea \<Rightarrow> string) \<Rightarrow> journal_entry \<Rightarrow> trade_idea \<Rightarrow> unit result" where
  "validate_binding rhash e i =
     rbind (bound_quantity e i) (\<lambda>quantity.
     case (entry_side i, quantity) of
       (Some side, Some q) \<Rightarrow>
         rbind (new_order_intent
           \<lparr>oi_client_order_id = ti_decision_id i, oi_symbol = ti_instrument i, oi_side = side,
            oi_order_type = MARKET, oi_quantity = q, oi_price = None, oi_stop_price = None,
            oi_tif = None, oi_reduce_only = (ti_position_operation i \<noteq> None), oi_leverage = None,
            oi_position_operation = ti_position_operation i\<rparr>) (\<lambda>expected.
         if je_record_hash e \<noteq> JStr (rhash i)
         then Inl (ExecutionJournalIntegrityError ''Execution intent conflicts with idea'')
         else rbind (order_intent_from_dict (je_intent e)) (\<lambda>intent.
              raise_if (intent \<noteq> expected)
                (ExecutionJournalIntegrityError ''Execution intent conflicts with idea'')))
     | _ \<Rightarrow> Inl (ExecutionJournalIntegrityError ''Execution intent conflicts with idea''))"

section \<open>The journal stays readable\<close>

text \<open>
  What a readable journal holds of an entry: its key, a valid intent, a validated receipt, and
  reconciliation only of a complete fill.
\<close>

definition entry_ok :: "string \<Rightarrow> journal_entry \<Rightarrow> bool" where
  "entry_ok d e \<longleftrightarrow>
     je_decision_id e = d
     \<and> (\<exists>i. order_intent_from_dict (je_intent e) = Inr i \<and> oi_client_order_id i = d
          \<and> oi_order_type i = MARKET)
     \<and> (\<forall>r. je_receipt e = Some r \<longrightarrow>
          journal_validate_receipt (e\<lparr>je_receipt := None, je_reconciled := False\<rparr>) r = Inr ())
     \<and> (je_reconciled e \<longrightarrow> (\<exists>r. je_receipt e = Some r \<and> is_filled r))"

definition journal_ok_state :: "journal_state \<Rightarrow> bool" where
  "journal_ok_state s \<longleftrightarrow>
     distinct (map fst (fst s)) \<and> distinct (snd s) \<and> set (map fst (fst s)) \<inter> set (snd s) = {}
     \<and> (\<forall>(d, e) \<in> set (fst s). entry_ok d e)"

lemma journal_validate_receipt_cong:
  assumes "je_decision_id e = je_decision_id e'" and "je_intent e = je_intent e'"
  shows "journal_validate_receipt e r = journal_validate_receipt e' r"
  unfolding journal_validate_receipt_def assms by (rule refl)

lemma new_order_intent_same: "new_order_intent i = Inr j \<Longrightarrow> i = j"
  by (auto simp: new_order_intent_def split: if_splits option.splits)

lemma order_intent_fields:
  assumes "order_intent_from_dict p = Inr i"
  shows "jget p ''client_order_id'' = Inr (JStr (oi_client_order_id i))"
    and "\<exists>s. jget p ''order_type'' = Inr (JStr s) \<and> order_type_of (str_upper s) = Inr (oi_order_type i)"
    and "rbind (jget p ''quantity'') jdecimal = Inr (oi_quantity i)"
proof -
  have str: "jstr v = Inr s \<longleftrightarrow> v = JStr s" for v s by (cases v) auto
  show "jget p ''client_order_id'' = Inr (JStr (oi_client_order_id i))"
    "\<exists>s. jget p ''order_type'' = Inr (JStr s) \<and> order_type_of (str_upper s) = Inr (oi_order_type i)"
    "rbind (jget p ''quantity'') jdecimal = Inr (oi_quantity i)"
    using assms by (auto simp: order_intent_from_dict_def str dest!: new_order_intent_same)
qed

lemma read_intent_Inr:
  assumes "read_intent hash event d = Inr (intent, rh)"
  shows "\<exists>i. order_intent_from_dict intent = Inr i \<and> oi_client_order_id i = d \<and> oi_order_type i = MARKET"
proof -
  from assms obtain i ot where f: "order_intent_from_dict intent = Inr i"
    "jget intent ''client_order_id'' = Inr (JStr d)" "jget intent ''order_type'' = Inr (JStr ''market'')"
    unfolding read_intent_def by auto
  have "order_type_of (str_upper ''market'') = Inr MARKET" by code_simp
  then show ?thesis using f order_intent_fields[OF f(1)] by auto
qed

lemma update_entries_ok:
  assumes "journal_ok_state (es, sims)" and "entry_ok d e" and "d \<notin> set sims"
  shows "journal_ok_state (AList.update d e es, sims)"
proof -
  have dis: "distinct (map fst (AList.update d e es))"
    using assms(1) by (simp add: journal_ok_state_def distinct_update)
  have "entry_ok k v" if "(k, v) \<in> set (AList.update d e es)" for k v
  proof -
    have "(map_of es)(d \<mapsto> e) = map_of (AList.update d e es)" by (rule update_conv'[symmetric])
    then have "((map_of es)(d \<mapsto> e)) k = Some v" using map_of_is_SomeI[OF dis that] by simp
    then show ?thesis using assms(1,2)
      by (auto simp: journal_ok_state_def split: if_splits dest!: map_of_SomeD)
  qed
  moreover have "fst ` set (AList.update d e es) = insert d (fst ` set es)"
    by (simp add: dom_update)
  ultimately show ?thesis using assms dis by (auto simp: journal_ok_state_def)
qed

lemma entries_lookup_ok:
  "journal_ok_state (es, sims) \<Longrightarrow> map_of es d = Some e \<Longrightarrow> entry_ok d e \<and> d \<notin> set sims"
  by (auto simp: journal_ok_state_def dest!: map_of_SomeD)

text \<open>The four kinds of events as moves of the read state.\<close>

inductive journal_move :: "journal_state \<Rightarrow> journal_state \<Rightarrow> bool" where
  move_intent: "\<lbrakk>map_of es d = None; d \<notin> set sims; je_decision_id e = d; je_receipt e = None; \<not> je_reconciled e;
      order_intent_from_dict (je_intent e) = Inr i; oi_client_order_id i = d; oi_order_type i = MARKET\<rbrakk>
    \<Longrightarrow> journal_move (es, sims) (AList.update d e es, sims)"
| move_receipt: "\<lbrakk>map_of es d = Some e; je_receipt e = None; \<not> je_reconciled e;
      journal_validate_receipt e r = Inr ()\<rbrakk>
    \<Longrightarrow> journal_move (es, sims) (AList.update d (e\<lparr>je_receipt := Some r\<rparr>) es, sims)"
| move_reconciled: "\<lbrakk>map_of es d = Some e; je_receipt e = Some r; is_filled r; \<not> je_reconciled e\<rbrakk>
    \<Longrightarrow> journal_move (es, sims) (AList.update d (e\<lparr>je_reconciled := True\<rparr>) es, sims)"
| move_simulated: "\<lbrakk>op \<notin> set sims; map_of es op = None\<rbrakk>
    \<Longrightarrow> journal_move (es, sims) (es, sims @ [op])"

lemma journal_move_ok:
  assumes "journal_move s s'" and "journal_ok_state s"
  shows "journal_ok_state s'"
  using assms
proof (induction rule: journal_move.induct)
  case (move_intent es d sims e i)
  then show ?case by (intro update_entries_ok) (auto simp: entry_ok_def)
next
  case (move_receipt es d e r sims)
  from entries_lookup_ok[OF move_receipt.prems move_receipt.hyps(1)]
  have e: "entry_ok d e" "d \<notin> set sims" by auto
  have "journal_validate_receipt (e\<lparr>je_receipt := None, je_reconciled := False\<rparr>) r = Inr ()"
    using move_receipt.hyps(4) journal_validate_receipt_cong[of e "e\<lparr>je_receipt := None, je_reconciled := False\<rparr>" r]
    by simp
  then have "entry_ok d (e\<lparr>je_receipt := Some r\<rparr>)"
    using e(1) move_receipt.hyps(3) by (simp add: entry_ok_def)
  then show ?case by (rule update_entries_ok[OF move_receipt.prems _ e(2)])
next
  case (move_reconciled es d e r sims)
  from entries_lookup_ok[OF move_reconciled.prems move_reconciled.hyps(1)]
  have e: "entry_ok d e" "d \<notin> set sims" by auto
  then have "entry_ok d (e\<lparr>je_reconciled := True\<rparr>)"
    using move_reconciled.hyps(2,3) by (simp add: entry_ok_def)
  then show ?case by (rule update_entries_ok[OF move_reconciled.prems _ e(2)])
next
  case (move_simulated op sims es)
  then show ?case by (auto simp: journal_ok_state_def map_of_eq_None_iff)
qed

lemma journal_step_move:
  assumes "journal_step hash s j = Inr s'"
  shows "journal_move s s'"
proof -
  obtain es sims where s: "s = (es, sims)" by (cases s)
  from assms obtain event kind where k: "j = JObj event" "jget event ''kind'' = Inr kind"
    by (cases j) (auto simp: journal_step_def)
  consider "kind = JStr ''simulated_resolution''" | "kind = JStr ''intent''" | "kind = JStr ''receipt''"
    | "kind = JStr ''reconciled''"
    using assms k by (auto simp: journal_step_def Let_def split: if_splits)
  then show ?thesis
  proof cases
    case 1
    then show ?thesis using assms k s by (auto simp: journal_step_def intro: journal_move.intros)
  next
    case 2
    with assms k s obtain d intent rh where f: "map_of es d = None" "d \<notin> set sims"
      "read_intent hash event d = Inr (intent, rh)"
      "s' = (AList.update d \<lparr>je_decision_id = d, je_record_hash = rh, je_intent = intent,
                 je_receipt = None, je_reconciled = False\<rparr> es, sims)"
      by (auto simp: journal_step_def Let_def)
    from read_intent_Inr[OF f(3)] f show ?thesis by (auto simp: s intro: move_intent)
  next
    case 3
    with assms k s obtain d e r where f: "map_of es d = Some e" "je_receipt e = None" "\<not> je_reconciled e"
      "journal_validate_receipt e r = Inr ()"
      "s' = (AList.update d (e\<lparr>je_receipt := Some r\<rparr>) es, sims)"
      by (auto simp: journal_step_def Let_def split: option.splits)
    then show ?thesis using f move_receipt[OF f(1-4)] by (simp add: s)
  next
    case 4
    with assms k s obtain d e r where f: "map_of es d = Some e" "je_receipt e = Some r" "is_filled r"
      "\<not> je_reconciled e" "s' = (AList.update d (e\<lparr>je_reconciled := True\<rparr>) es, sims)"
      by (auto simp: journal_step_def Let_def split: option.split_asm)
    then show ?thesis using move_reconciled[OF f(1-4)] by (simp add: s)
  qed
qed

lemma journal_read_ok:
  assumes "journal_read hash store = Inr s"
  shows "journal_ok_state s"
proof -
  from assms obtain ls where "read_log (journal_step hash) journal_error ([], []) ls = Inr s"
    by (auto simp: journal_read_def)
  moreover have "journal_ok_state ([], [])" by (simp add: journal_ok_state_def)
  ultimately show ?thesis
    by (rule read_log_invariant) (rule journal_move_ok[OF journal_step_move])
qed

text \<open>What reading sees after an append: one more step.\<close>

lemma journal_read_append:
  assumes "journal_read hash store = Inr s" and "journal_step hash s (JObj p) = Inr s'"
  shows "journal_read hash (log_append store p) = Inr s'"
proof -
  from assms(1) obtain ls where ls: "log_lines store None = Inr ls"
    "read_log (journal_step hash) journal_error ([], []) ls = Inr s" by (auto simp: journal_read_def)
  then show ?thesis
    using log_lines_append[OF ls(1)] read_log_snoc[OF ls(2)] assms(2) by (simp add: journal_read_def)
qed

lemma journal_read_appended:
  assumes "journal_read hash store = Inr s" and "journal_read hash (log_append store p) = Inr s'"
  shows "journal_step hash s (JObj p) = Inr s'"
proof -
  from assms(1) obtain ls where ls: "log_lines store None = Inr ls"
    "read_log (journal_step hash) journal_error ([], []) ls = Inr s" by (auto simp: journal_read_def)
  then show ?thesis
    using log_lines_append[OF ls(1)] read_log_snoc[OF ls(2)] assms(2) by (simp add: journal_read_def)
qed

section \<open>The writers as moves\<close>

lemma record_intent_move:
  assumes "journal_read hash store = Inr s" and "record_intent hash store d rh intent = Inr store'"
  shows "\<exists>e. map_of (fst s) d = None \<and> je_intent e = intent \<and> je_record_hash e = JStr rh \<and> je_receipt e = None
    \<and> journal_read hash store' = Inr (AList.update d e (fst s), snd s)
    \<and> journal_move s (AList.update d e (fst s), snd s)"
proof -
  let ?p = "[(''kind'', JStr ''intent''), (''decision_id'', JStr d), (''record_hash'', JStr rh),
            (''intent'', JObj intent), (''intent_hash'', JStr (hash intent))]"
  from assms obtain s' where new: "map_of (fst s) d = None" "store' = log_append store ?p"
    "journal_read hash store' = Inr s'"
    by (auto simp: record_intent_def journal_entries_def Let_def)
  have st: "journal_step hash s (JObj ?p) = Inr s'"
    using journal_read_appended[OF assms(1)] new(2,3) by simp
  then obtain i h where r: "read_intent hash ?p d = Inr (i, h)"
    "s' = (AList.update d \<lparr>je_decision_id = d, je_record_hash = h, je_intent = i,
                 je_receipt = None, je_reconciled = False\<rparr> (fst s), snd s)"
    by (auto simp: journal_step_def Let_def jget_def)
  have "i = intent \<and> h = JStr rh" using r(1) by (auto simp: read_intent_def jget_def)
  then show ?thesis using new r(2) journal_step_move[OF st]
    by (intro exI[of _ "\<lparr>je_decision_id = d, je_record_hash = JStr rh, je_intent = intent,
          je_receipt = None, je_reconciled = False\<rparr>"]) auto
qed

lemma record_receipt_move:
  assumes "journal_read hash store = Inr s" and "record_receipt hash store d r = Inr store'"
  shows "\<exists>e. map_of (fst s) d = Some e
    \<and> (case je_receipt e of
         Some r' \<Rightarrow> same_object r' r \<and> store' = store
       | None \<Rightarrow> journal_validate_receipt e r = Inr ()
           \<and> journal_read hash store' = Inr (AList.update d (e\<lparr>je_receipt := Some r\<rparr>) (fst s), snd s)
           \<and> journal_move s (AList.update d (e\<lparr>je_receipt := Some r\<rparr>) (fst s), snd s))"
proof -
  from assms obtain e where e: "map_of (fst s) d = Some e"
    by (auto simp: record_receipt_def journal_entries_def split: option.splits)
  show ?thesis
  proof (cases "je_receipt e")
    case (Some r')
    then show ?thesis using assms e by (auto simp: record_receipt_def journal_entries_def split: if_splits)
  next
    case None
    let ?p = "[(''kind'', JStr ''receipt''), (''decision_id'', JStr d),
                 (''intent_hash'', JStr (hash (je_intent e))), (''receipt_hash'', JStr (hash r)),
                 (''receipt'', JObj r)]"
    have v: "journal_validate_receipt e r = Inr ()" "store' = log_append store ?p"
      using assms e None by (auto simp: record_receipt_def journal_entries_def)
    have "entry_ok d e" using journal_read_ok[OF assms(1)] e entries_lookup_ok[of "fst s" "snd s"] by simp
    then have nr: "\<not> je_reconciled e" using None by (auto simp: entry_ok_def)
    have st: "journal_step hash s (JObj ?p) = Inr (AList.update d (e\<lparr>je_receipt := Some r\<rparr>) (fst s), snd s)"
      using e None nr v(1) by (simp add: journal_step_def Let_def jget_def)
    show ?thesis using e None v journal_read_append[OF assms(1) st] journal_step_move[OF st] by auto
  qed
qed

lemma mark_reconciled_move:
  assumes "journal_read hash store = Inr s" and "mark_reconciled hash store d = Inr store'"
  shows "\<exists>e. map_of (fst s) d = Some e
    \<and> (if je_reconciled e then store' = store
       else journal_read hash store' = Inr (AList.update d (e\<lparr>je_reconciled := True\<rparr>) (fst s), snd s)
           \<and> journal_move s (AList.update d (e\<lparr>je_reconciled := True\<rparr>) (fst s), snd s))"
proof -
  from assms obtain e where e: "map_of (fst s) d = Some e"
    by (auto simp: mark_reconciled_def journal_entries_def split: option.splits)
  show ?thesis
  proof (cases "je_reconciled e")
    case True
    then show ?thesis using assms e by (auto simp: mark_reconciled_def journal_entries_def)
  next
    case False
    then obtain r where r: "je_receipt e = Some r" "is_filled r"
      "store' = log_append store [(''kind'', JStr ''reconciled''), (''decision_id'', JStr d), (''receipt_hash'', JStr (hash r))]"
      using assms e by (auto simp: mark_reconciled_def journal_entries_def split: option.splits if_splits)
    have st: "journal_step hash s (JObj [(''kind'', JStr ''reconciled''), (''decision_id'', JStr d), (''receipt_hash'', JStr (hash r))])
        = Inr (AList.update d (e\<lparr>je_reconciled := True\<rparr>) (fst s), snd s)"
      using e r False by (simp add: journal_step_def Let_def jget_def)
    show ?thesis using e False r(3) journal_read_append[OF assms(1) st] journal_step_move[OF st] by auto
  qed
qed

lemma simulated_operation:
  assumes "validate_simulated_resolution hash event = Inr op"
  shows "\<exists>p. jget event ''resolution'' = Inr (JObj p) \<and> jget p ''operation_id'' = Inr (JStr op)"
proof -
  have obj: "jobj v = Inr p \<longleftrightarrow> v = JObj p" for v p by (cases v) auto
  show ?thesis using assms
    by (auto simp: validate_simulated_resolution_def obj split: if_splits)
qed

text \<open>The recorded resolutions are those whose identities \<^verbatim>\<open>entries\<close> has seen.\<close>

lemma resolutions_simulated:
  assumes "read_log (journal_step hash) g s ls = Inr s'" and "read_log resolution_step g' rs ls = Inr rs'"
    and "map fst rs = snd s" and "\<forall>(op, p) \<in> set rs. jget p ''operation_id'' = Inr (JStr op)"
  shows "map fst rs' = snd s' \<and> (\<forall>(op, p) \<in> set rs'. jget p ''operation_id'' = Inr (JStr op))"
  using assms
proof (induction ls arbitrary: s rs)
  case (Cons l ls)
  show ?case
  proof (cases l)
    case (JsonLine j)
    with Cons.prems obtain s1 rs1 where 1: "journal_step hash s j = Inr s1" "resolution_step rs j = Inr rs1"
      "read_log (journal_step hash) g s1 ls = Inr s'" "read_log resolution_step g' rs1 ls = Inr rs'" by auto
    obtain event kind where k: "j = JObj event" "jget event ''kind'' = Inr kind"
      using 1(1) by (cases j) (auto simp: journal_step_def)
    have "map fst rs1 = snd s1 \<and> (\<forall>(op, p) \<in> set rs1. jget p ''operation_id'' = Inr (JStr op))"
    proof (cases "kind = JStr ''simulated_resolution''")
      case True
      with 1(1) k obtain op where op: "validate_simulated_resolution hash event = Inr op" "s1 = (fst s, snd s @ [op])"
        by (auto simp: journal_step_def)
      from simulated_operation[OF op(1)] obtain p where "jget event ''resolution'' = Inr (JObj p)"
        "jget p ''operation_id'' = Inr (JStr op)" by blast
      then have "rs1 = rs @ [(op, p)]" using 1(2) k True by (auto simp: resolution_step_def)
      then show ?thesis using Cons.prems(3,4) op(2) \<open>jget p _ = _\<close> by auto
    next
      case False
      then have "rs1 = rs" using 1(2) k by (simp add: resolution_step_def)
      moreover have "snd s1 = snd s"
        using 1(1) k False by (auto simp: journal_step_def Let_def split: if_splits option.split_asm)
      ultimately show ?thesis using Cons.prems(3,4) by simp
    qed
    then show ?thesis using Cons.IH[OF 1(3,4)] by blast
  qed (use Cons in auto)
qed simp

lemma record_simulated_move:
  assumes "journal_read hash store = Inr s" and "record_simulated_resolution hash store p = Inr store'"
    and "\<And>op. map_of p ''operation_id'' = Some (JStr op) \<Longrightarrow> map_of (fst s) op = None"
  shows "store' = store \<or> (\<exists>op. map_of p ''operation_id'' = Some (JStr op)
    \<and> journal_read hash store' = Inr (fst s, snd s @ [op]) \<and> journal_move s (fst s, snd s @ [op]))"
proof (cases "store' = store")
  case False
  let ?e = "[(''kind'', JStr ''simulated_resolution''), (''resolution'', JObj p), (''checksum'', JStr (hash p))]"
  from assms(1) obtain ls where ls: "log_lines store None = Inr ls"
    "read_log (journal_step hash) journal_error ([], []) ls = Inr s" by (auto simp: journal_read_def)
  from assms(2) obtain rs op1 where r: "simulated_resolutions hash store = Inr rs"
    "(if rs = [] then Inr JNull else jget p ''operation_id'') = Inr op1"
    and body: "(case find (\<lambda>r. map_of r ''operation_id'' = Some op1) rs of
       Some r \<Rightarrow> if same_object r p then Inr store
         else Inl (ExecutionJournalIntegrityError ''Conflicting simulated resolution'')
     | None \<Rightarrow> rbind (validate_simulated_resolution hash ?e) (\<lambda>_. Inr (log_append store ?e))) = Inr store'"
    unfolding record_simulated_resolution_def Let_def rbind_Inr_iff[of "simulated_resolutions hash store"]
      rbind_Inr_iff[of "if _ then _ else _"] by blast
  have r3: "find (\<lambda>r. map_of r ''operation_id'' = Some op1) rs = None"
    using body False by (auto split: option.split_asm if_split_asm)
  with body have v: "is_ok (validate_simulated_resolution hash ?e)" "store' = log_append store ?e"
    by (auto simp: is_ok_iff)
  from v(1) obtain op where op: "validate_simulated_resolution hash ?e = Inr op" by (auto simp: is_ok_iff)
  have pid: "map_of p ''operation_id'' = Some (JStr op)"
    using simulated_operation[OF op] by (auto simp: jget_def split: option.splits)
  from r(1) ls(1) obtain rs' where rs': "read_log resolution_step journal_error [] ls = Inr rs'" "rs = map snd rs'"
    by (auto simp: simulated_resolutions_def)
  from resolutions_simulated[OF ls(2) rs'(1)]
  have sims: "map fst rs' = snd s" "\<forall>(o', q) \<in> set rs'. jget q ''operation_id'' = Inr (JStr o')" by auto
  have "op \<notin> set (snd s)"
  proof
    assume "op \<in> set (snd s)"
    then obtain q where q: "(op, q) \<in> set rs'" using sims(1) by (metis in_set_zip map_fst_zip_take nth_mem prod.exhaust_sel imageE list.set_map)
    then have "map_of q ''operation_id'' = Some (JStr op)" using sims(2)
      by (auto simp: jget_def split: option.splits)
    moreover have "op1 = JStr op"
      using r(2) pid q rs'(2) by (cases rs') (auto simp: jget_def)
    moreover have "q \<in> set rs" using q rs'(2) by force
    ultimately show False using r3 by (auto simp: find_None_iff)
  qed
  moreover have "map_of (fst s) op = None" by (rule assms(3)[OF pid])
  ultimately have st: "journal_step hash s (JObj ?e) = Inr (fst s, snd s @ [op])"
    using op by (simp add: journal_step_def jget_def)
  show ?thesis using pid v(2) journal_read_append[OF assms(1) st] journal_step_move[OF st] by blast
qed simp

section \<open>Properties\<close>

text \<open>
  The stores the writers build from an empty journal. A simulated resolution is recorded
  under an identity no intent carries.
\<close>

inductive journalled :: "(payload \<Rightarrow> string) \<Rightarrow> log_store \<Rightarrow> bool" for hash where
  journalled_new: "journalled hash (LogTable [])"
| journalled_intent: "journalled hash store \<Longrightarrow> record_intent hash store d rh intent = Inr store' \<Longrightarrow> journalled hash store'"
| journalled_receipt: "journalled hash store \<Longrightarrow> record_receipt hash store d r = Inr store' \<Longrightarrow> journalled hash store'"
| journalled_reconciled: "journalled hash store \<Longrightarrow> mark_reconciled hash store d = Inr store' \<Longrightarrow> journalled hash store'"
| journalled_simulated: "journalled hash store \<Longrightarrow> record_simulated_resolution hash store p = Inr store'
    \<Longrightarrow> journal_entries hash store = Inr es
    \<Longrightarrow> (\<And>op. map_of p ''operation_id'' = Some (JStr op) \<Longrightarrow> map_of es op = None) \<Longrightarrow> journalled hash store'"

lemma journalled_readable: "journalled hash store \<Longrightarrow> \<exists>s. journal_read hash store = Inr s"
proof (induction rule: journalled.induct)
  case journalled_new
  show ?case by (simp add: journal_read_def)
next
  case (journalled_intent store d rh intent store')
  then show ?case using record_intent_move by blast
next
  case (journalled_receipt store d r store')
  then obtain s where s: "journal_read hash store = Inr s" by blast
  from record_receipt_move[OF s journalled_receipt.hyps(2)] show ?case
    using s by (auto split: option.splits)
next
  case (journalled_reconciled store d store')
  then obtain s where s: "journal_read hash store = Inr s" by blast
  from mark_reconciled_move[OF s journalled_reconciled.hyps(2)] show ?case
    using s by (auto split: if_splits)
next
  case (journalled_simulated store p store' es)
  then obtain s where s: "journal_read hash store = Inr s" by blast
  then have "fst s = es" using journalled_simulated.hyps(3) by (simp add: journal_entries_def)
  then show ?case using record_simulated_move[OF s journalled_simulated.hyps(2)] journalled_simulated.hyps(4) s
    by auto
qed

lemma filled_complete:
  assumes "journal_validate_receipt e r = Inr ()" and "is_filled r"
  shows "\<exists>q. rbind (jget r ''quantity'') decimal_ctor = Inr q \<and> rbind (jget (je_intent e) ''quantity'') decimal_ctor = Inr q"
  using assms unfolding journal_validate_receipt_def rbind_Inr_iff raise_if_Inr_iff by blast


text \<open>
  C34: The writers refine the journal's life cycle. On a readable journal an accepted intent
  opens a fresh entry, an accepted receipt is a repetition of the recorded one or completes a
  pending entry, a reconciliation is a repetition or marks a filled entry, and each leaves
  every other entry as it was.
\<close>

theorem journal_refines:
  assumes "journal_read hash store = Inr (es, sims)"
  shows "(record_intent hash store d rh intent = Inr store' \<longrightarrow>
      (\<exists>e. map_of es d = None \<and> je_intent e = intent \<and> je_record_hash e = JStr rh \<and> je_receipt e = None
         \<and> journal_read hash store' = Inr (AList.update d e es, sims)))
    \<and> (record_receipt hash store d r = Inr store' \<longrightarrow>
      (\<exists>e. map_of es d = Some e \<and> (case je_receipt e of
         Some r' \<Rightarrow> same_object r' r \<and> store' = store
       | None \<Rightarrow> journal_read hash store' = Inr (AList.update d (e\<lparr>je_receipt := Some r\<rparr>) es, sims))))
    \<and> (mark_reconciled hash store d = Inr store' \<longrightarrow>
      (\<exists>e. map_of es d = Some e \<and> (if je_reconciled e then store' = store
       else journal_read hash store' = Inr (AList.update d (e\<lparr>je_reconciled := True\<rparr>) es, sims))))"
proof (intro conjI impI)
  assume "record_intent hash store d rh intent = Inr store'"
  from record_intent_move[OF assms this] show "\<exists>e. map_of es d = None \<and> je_intent e = intent
      \<and> je_record_hash e = JStr rh \<and> je_receipt e = None
      \<and> journal_read hash store' = Inr (AList.update d e es, sims)" by auto
next
  assume "record_receipt hash store d r = Inr store'"
  from record_receipt_move[OF assms this, unfolded fst_conv snd_conv] obtain e where e: "map_of es d = Some e"
    "case je_receipt e of Some r' \<Rightarrow> same_object r' r \<and> store' = store
       | None \<Rightarrow> journal_validate_receipt e r = Inr ()
           \<and> journal_read hash store' = Inr (AList.update d (e\<lparr>je_receipt := Some r\<rparr>) es, sims)
           \<and> journal_move (es, sims) (AList.update d (e\<lparr>je_receipt := Some r\<rparr>) es, sims)" by blast
  then show "\<exists>e. map_of es d = Some e \<and> (case je_receipt e of
         Some r' \<Rightarrow> same_object r' r \<and> store' = store
       | None \<Rightarrow> journal_read hash store' = Inr (AList.update d (e\<lparr>je_receipt := Some r\<rparr>) es, sims))"
    by (cases "je_receipt e") auto
next
  assume "mark_reconciled hash store d = Inr store'"
  from mark_reconciled_move[OF assms this, unfolded fst_conv snd_conv] obtain e where "map_of es d = Some e"
    "if je_reconciled e then store' = store
     else journal_read hash store' = Inr (AList.update d (e\<lparr>je_reconciled := True\<rparr>) es, sims)
       \<and> journal_move (es, sims) (AList.update d (e\<lparr>je_reconciled := True\<rparr>) es, sims)" by blast
  then show "\<exists>e. map_of es d = Some e \<and> (if je_reconciled e then store' = store
      else journal_read hash store' = Inr (AList.update d (e\<lparr>je_reconciled := True\<rparr>) es, sims))"
    by (cases "je_reconciled e") auto
qed

definition ex_order :: payload where
  "ex_order = order_intent_to_dict
     \<lparr>oi_client_order_id = ''trade-1'', oi_symbol = ''BTC-USD'', oi_side = BUY, oi_order_type = MARKET,
      oi_quantity = Finite 2, oi_price = None, oi_stop_price = None, oi_tif = None,
      oi_reduce_only = False, oi_leverage = None, oi_position_operation = None\<rparr>"

definition ex_receipt :: payload where
  "ex_receipt =
     [(''decision_id'', JStr ''trade-1''), (''client_order_id'', JStr ''trade-1''), (''symbol'', JStr ''BTC-USD''),
      (''side'', JStr ''buy''), (''order_id'', JStr ''paper-7''), (''status'', JStr ''filled''),
      (''quantity'', JDec (Finite 2)), (''price'', JDec (Finite 100)), (''filled_at'', JTime 0)]"

definition ex_hash :: "payload \<Rightarrow> string" where
  "ex_hash p = concat (map fst p)"

definition ex_journal_store :: log_store where
  "ex_journal_store =
     (case rbind (record_intent ex_hash (LogTable []) ''trade-1'' ''hash'' ex_order) (\<lambda>s1.
           rbind (record_receipt ex_hash s1 ''trade-1'' ex_receipt) (\<lambda>s2.
           mark_reconciled ex_hash s2 ''trade-1'')) of
        Inr s \<Rightarrow> s | Inl _ \<Rightarrow> LogTable [])"

lemma ex_journal_steps:
  "\<exists>s1 s2. record_intent ex_hash (LogTable []) ''trade-1'' ''hash'' ex_order = Inr s1
    \<and> record_receipt ex_hash s1 ''trade-1'' ex_receipt = Inr s2
    \<and> mark_reconciled ex_hash s2 ''trade-1'' = Inr ex_journal_store"
proof -
  have "is_ok (rbind (record_intent ex_hash (LogTable []) ''trade-1'' ''hash'' ex_order) (\<lambda>s1.
           rbind (record_receipt ex_hash s1 ''trade-1'' ex_receipt) (\<lambda>s2.
           mark_reconciled ex_hash s2 ''trade-1'')))" by code_simp
  then show ?thesis by (auto simp: is_ok_iff ex_journal_store_def)
qed

lemma ex_journalled: "journalled ex_hash ex_journal_store"
  using ex_journal_steps journalled.intros by metis


theorem journal_refines_witness:
  "\<exists>s1 e. map_of [] ''trade-1'' = (None :: journal_entry option) \<and> je_intent e = ex_order
    \<and> journal_read ex_hash s1 = Inr (AList.update ''trade-1'' e [], [])"
proof -
  have "journal_read ex_hash (LogTable []) = Inr ([], [])" by (simp add: journal_read_def)
  then show ?thesis
    using journal_refines[of ex_hash "LogTable []" "[]" "[]" "''trade-1''" "''hash''" ex_order] ex_journal_steps by blast
qed

text \<open>
  The guard of \<open>journalled_simulated\<close> is needed: \<^verbatim>\<open>record_simulated_resolution\<close> does not look
  for an intent under its identity and, unlike \<^verbatim>\<open>record_intent\<close>, does not validate what it has
  appended. A decision named like a simulated close makes the journal unreadable for good.
\<close>

definition ex_poison :: payload where
  "ex_poison =
     [(''operation_id'', JStr (''simulated-close-'' @ replicate 64 (CHR ''a''))),
      (''target_decision_id'', JStr ''trade-1''), (''target_record_hash'', JStr (replicate 64 (CHR ''a''))),
      (''quantity'', JDec (Finite 2)), (''price'', JDec (Finite 100)), (''resolved_at'', JTime 0),
      (''observed_at'', JTime 1), (''resolution'', JStr ''expiry''),
      (''source'', JStr ''simulated_candle_resolution''), (''evidence'', JArr [JStr ''candle''])]"

definition ex_named_intent :: payload where
  "ex_named_intent = map (\<lambda>(k, v). (k, if k = ''client_order_id''
     then JStr (''simulated-close-'' @ replicate 64 (CHR ''a'')) else v)) ex_order"

lemma simulated_close_poisons_journal:
  "\<exists>s1 s2. record_intent ex_hash (LogTable []) (''simulated-close-'' @ replicate 64 (CHR ''a'')) ''hash'' ex_named_intent = Inr s1
    \<and> record_simulated_resolution ex_hash s1 ex_poison = Inr s2
    \<and> \<not> is_ok (journal_entries ex_hash s2)"
proof -
  define d where "d = ''simulated-close-'' @ replicate 64 (CHR ''a'')"
  let ?r = "rbind (record_intent ex_hash (LogTable []) d ''hash'' ex_named_intent) (\<lambda>s1.
     rbind (record_simulated_resolution ex_hash s1 ex_poison) (\<lambda>s2. Inr (s1, s2)))"
  have "is_ok ?r \<and> \<not> is_ok (rbind ?r (\<lambda>(s1, s2). journal_entries ex_hash s2))"
    unfolding d_def by code_simp
  then obtain s1 s2 where "record_intent ex_hash (LogTable []) d ''hash'' ex_named_intent = Inr s1"
    "record_simulated_resolution ex_hash s1 ex_poison = Inr s2" "\<not> is_ok (journal_entries ex_hash s2)"
    by (auto simp: is_ok_iff)
  then show ?thesis unfolding d_def by blast
qed

end
