(* ===== verification/Idea_Repository.thy ===== *)
theory Idea_Repository
  imports Idea_Policy Idea_Journal
begin

text \<open>
  The transaction boundary of the trade ideas, \<^verbatim>\<open>StateRepository\<close> of
  \<^verbatim>\<open>src/gpt_trader/features/trade_ideas/persistence.py\<close>, and the record store over it,
  \<^verbatim>\<open>store.py\<close>. A repository is the three tables of the SQLite schema: \<^verbatim>\<open>versions\<close>, \<^verbatim>\<open>latest\<close> and
  \<^verbatim>\<open>events\<close>, whose rows carry their stream and are numbered from one by the column \<^verbatim>\<open>sequence\<close>.
  The database exists; the legacy files that it replaces are outside the model.

  An operation that reads the clock, draws an event identity, writes and may raise is an \<open>act\<close>:
  a function from the world to a result and the world it leaves, which keeps the writes made
  before an exception. \<open>run_write\<close> and \<open>run_admission\<close> are the transactions: a plain one rolls
  back on every exception, the admission one commits a refusal that wrote nothing but downward
  system entries of the autonomy log. A nested transaction is the body of the operation itself,
  as in the code.

  The lemmas give two logics of acts: \<open>grows\<close>, what every run does to the tables, and
  \<open>establishes\<close>, what a run that returns establishes.
\<close>

section \<open>Tables\<close>

datatype stream = AUDIT_LOG | BUDGET_LOG | AUTONOMY_LOG | CLOSEOUT_LOG | EXECUTION_LOG

record repo =
  rp_versions :: "((string \<times> string) \<times> payload) list"
  rp_latest :: "(string \<times> string) list"
  rp_events :: "(stream \<times> payload) list"

definition empty_repo :: repo where
  "empty_repo = \<lparr>rp_versions = [], rp_latest = [], rp_events = []\<rparr>"

definition repo_lines :: "stream \<Rightarrow> repo \<Rightarrow> payload list" where
  "repo_lines s r = map snd (filter (\<lambda>e. fst e = s) (rp_events r))"

definition stream_log :: "stream \<Rightarrow> repo \<Rightarrow> log_store" where
  "stream_log s r = LogTable (repo_lines s r)"

definition repo_append :: "stream \<Rightarrow> payload \<Rightarrow> repo \<Rightarrow> repo" where
  "repo_append s p r = r\<lparr>rp_events := rp_events r @ [(s, p)]\<rparr>"

definition latest_hash :: "repo \<Rightarrow> string \<Rightarrow> string option" where
  "latest_hash r d = map_of (rp_latest r) d"

definition repo_record :: "repo \<Rightarrow> string \<Rightarrow> string option \<Rightarrow> payload option" where
  "repo_record r d h =
     (case h of
        Some h \<Rightarrow> map_of (rp_versions r) (d, h)
      | None \<Rightarrow> (case map_of (rp_latest r) d of
                   None \<Rightarrow> None | Some h \<Rightarrow> map_of (rp_versions r) (d, h)))"

text \<open>\<^verbatim>\<open>SELECT decision_id FROM latest ORDER BY decision_id\<close>.\<close>

definition repo_records :: "repo \<Rightarrow> string list" where
  "repo_records r = sort (map fst (rp_latest r))"

definition save_record :: "string \<Rightarrow> string \<Rightarrow> payload \<Rightarrow> repo \<Rightarrow> repo result" where
  "save_record d h p r =
     (case map_of (rp_versions r) (d, h) of
        Some prior \<Rightarrow>
          if \<not> same_object prior p
          then Inl (ValueError ''Record hash collision or changed immutable version'')
          else Inr (r\<lparr>rp_latest := AList.update d h (rp_latest r)\<rparr>)
      | None \<Rightarrow>
          Inr (r\<lparr>rp_versions := rp_versions r @ [((d, h), p)],
                 rp_latest := AList.update d h (rp_latest r)\<rparr>))"

section \<open>Refusals that may commit\<close>

definition admission_revision :: "repo \<Rightarrow> (string \<times> string) list \<times> nat \<times> nat list" where
  "admission_revision r =
     (sort (rp_latest r), length (rp_versions r),
      map fst (filter (\<lambda>(i, e). fst e \<noteq> AUTONOMY_LOG) (enumerate 1 (rp_events r))))"

fun mode_rank :: "json option \<Rightarrow> int option" where
  "mode_rank (Some (JStr m)) =
     (if m = ''research_only'' then Some 0
      else if m = ''human_approved_execution'' then Some 1
      else if m = ''bounded_autonomy'' then Some 2 else None)"
| "mode_rank _ = None"

text \<open>The loop over the new entries; an exception of a malformed one is an unsafe tail too.\<close>

fun safe_tail :: "int \<Rightarrow> payload list \<Rightarrow> bool" where
  "safe_tail prior [] = True"
| "safe_tail prior (p # ps) =
     (case mode_rank (map_of p ''mode'') of
        None \<Rightarrow> False
      | Some rank \<Rightarrow>
          map_of p ''actor_type'' = Some (JStr ''system'') \<and> rank \<le> prior \<and> safe_tail rank ps)"

definition denial_autonomy_is_safe :: "payload list \<Rightarrow> repo \<Rightarrow> bool" where
  "denial_autonomy_is_safe before r =
     (let after = repo_lines AUTONOMY_LOG r in
      if take (length before) after \<noteq> before then False
      else if length after = length before then True
      else case (if before = [] then Some 1 else mode_rank (map_of (last before) ''mode'')) of
             None \<Rightarrow> False
           | Some prior \<Rightarrow> safe_tail prior (drop (length before) after))"

section \<open>Acts\<close>

text \<open>
  The world of an act: the tables, how often the clock was read and an identity drawn, and the
  orders the paper broker was asked for, which no rollback takes back.
\<close>

record world =
  wd_repo :: repo
  wd_clock :: nat
  wd_ids :: nat
  wd_orders :: "order_intent list"

type_synonym 'a act = "world \<Rightarrow> 'a result \<times> world"

definition areturn :: "'a \<Rightarrow> 'a act" where
  "areturn a = (\<lambda>w. (Inr a, w))"

definition araise :: "py_error \<Rightarrow> 'a act" where
  "araise e = (\<lambda>w. (Inl e, w))"

definition abind :: "'a act \<Rightarrow> ('a \<Rightarrow> 'b act) \<Rightarrow> 'b act" where
  "abind m f = (\<lambda>w. case m w of (Inl e, w') \<Rightarrow> (Inl e, w') | (Inr a, w') \<Rightarrow> f a w')"

definition aguard :: "bool \<Rightarrow> py_error \<Rightarrow> unit act" where
  "aguard c e = (if c then araise e else areturn ())"

text \<open>A read of the tables, and a value computed from them that may raise.\<close>

definition aread :: "(repo \<Rightarrow> 'a result) \<Rightarrow> 'a act" where
  "aread f = (\<lambda>w. (f (wd_repo w), w))"

text \<open>An append to a stream through the function of its log; the new rows get its name.\<close>

definition alog :: "stream \<Rightarrow> (log_store \<Rightarrow> ('a \<times> log_store) result) \<Rightarrow> 'a act" where
  "alog s f =
     (\<lambda>w. case f (stream_log s (wd_repo w)) of
            Inl e \<Rightarrow> (Inl e, w)
          | Inr (a, store) \<Rightarrow>
              (Inr a,
               (case store of
                  LogTable rows \<Rightarrow>
                    w\<lparr>wd_repo := foldl (\<lambda>r p. repo_append s p r) (wd_repo w)
                        (drop (length (repo_lines s (wd_repo w))) rows)\<rparr>
                | _ \<Rightarrow> w)))"

definition asave :: "(repo \<Rightarrow> repo result) \<Rightarrow> unit act" where
  "asave f = (\<lambda>w. case f (wd_repo w) of Inl e \<Rightarrow> (Inl e, w) | Inr r \<Rightarrow> (Inr (), w\<lparr>wd_repo := r\<rparr>))"

text \<open>\<^verbatim>\<open>try: m except caught: handler\<close>.\<close>

definition atry :: "'a act \<Rightarrow> (py_error \<Rightarrow> bool) \<Rightarrow> (py_error \<Rightarrow> 'a act) \<Rightarrow> 'a act" where
  "atry m caught handler =
     (\<lambda>w. case m w of
            (Inr a, w') \<Rightarrow> (Inr a, w')
          | (Inl e, w') \<Rightarrow> if caught e then handler e w' else (Inl e, w'))"

fun amap :: "('a \<Rightarrow> 'b act) \<Rightarrow> 'a list \<Rightarrow> 'b list act" where
  "amap f [] = areturn []"
| "amap f (x # xs) = abind (f x) (\<lambda>y. abind (amap f xs) (\<lambda>ys. areturn (y # ys)))"

text \<open>\<^verbatim>\<open>self._now()\<close> and \<^verbatim>\<open>new_event_id()\<close>: the readings of the clock and the identities, in order.\<close>

definition aclock :: "(nat \<Rightarrow> instant) \<Rightarrow> instant act" where
  "aclock now = (\<lambda>w. (Inr (now (wd_clock w)), w\<lparr>wd_clock := wd_clock w + 1\<rparr>))"

definition afresh :: "(nat \<Rightarrow> string) \<Rightarrow> string act" where
  "afresh ids = (\<lambda>w. (Inr (ids (wd_ids w)), w\<lparr>wd_ids := wd_ids w + 1\<rparr>))"

section \<open>Transactions\<close>

definition rolled_back :: "world \<Rightarrow> world \<Rightarrow> world" where
  "rolled_back w w' = w'\<lparr>wd_repo := wd_repo w\<rparr>"

definition run_write :: "'a act \<Rightarrow> 'a act" where
  "run_write m =
     (\<lambda>w. case m w of (Inr a, w') \<Rightarrow> (Inr a, w') | (Inl e, w') \<Rightarrow> (Inl e, rolled_back w w'))"

text \<open>
  \<^verbatim>\<open>admission_transaction(denial_types)\<close>: an exception of these types commits, when nothing was
  written but the system's lowering of the autonomy level.
\<close>

definition run_admission_denying :: "(py_error \<Rightarrow> bool) \<Rightarrow> 'a act \<Rightarrow> 'a act" where
  "run_admission_denying denial m =
     (\<lambda>w. case m w of
            (Inr a, w') \<Rightarrow> (Inr a, w')
          | (Inl e, w') \<Rightarrow>
              (Inl e,
               if denial e
                  \<and> admission_revision (wd_repo w') = admission_revision (wd_repo w)
                  \<and> denial_autonomy_is_safe (repo_lines AUTONOMY_LOG (wd_repo w)) (wd_repo w')
               then w' else rolled_back w w'))"

definition run_admission :: "'a act \<Rightarrow> 'a act" where
  "run_admission = run_admission_denying (\<lambda>e. e = PolicyViolationError)"

section \<open>The record store\<close>

definition store_exists :: "repo \<Rightarrow> string \<Rightarrow> bool" where
  "store_exists r d \<longleftrightarrow> repo_record r d None \<noteq> None"

definition store_save :: "(trade_idea \<Rightarrow> string) \<Rightarrow> trade_idea \<Rightarrow> repo \<Rightarrow> repo result" where
  "store_save rhash i = save_record (ti_decision_id i) (rhash i) (trade_idea_to_dict i)"

definition load_latest :: "repo \<Rightarrow> string \<Rightarrow> trade_idea option result" where
  "load_latest r d = ropt trade_idea_from_dict (repo_record r d None)"

definition load_version :: "repo \<Rightarrow> string \<Rightarrow> string \<Rightarrow> trade_idea option result" where
  "load_version r d h = ropt trade_idea_from_dict (repo_record r d (Some h))"

definition list_decision_ids :: "repo \<Rightarrow> string list" where
  "list_decision_ids r = repo_records r"

section \<open>The tables only grow\<close>

lemma stream_log_append:
  "stream_log s (repo_append t p r) = (if s = t then log_append (stream_log s r) p else stream_log s r)"
  by (simp add: stream_log_def repo_lines_def repo_append_def)

lemma repo_append_tables [simp]:
  "rp_versions (repo_append s p r) = rp_versions r" "rp_latest (repo_append s p r) = rp_latest r"
  "rp_events (repo_append s p r) = rp_events r @ [(s, p)]"
  by (simp_all add: repo_append_def)

lemma save_record_events: "save_record d h p r = Inr r' \<Longrightarrow> rp_events r' = rp_events r"
  by (auto simp: save_record_def split: option.splits if_splits)

lemma save_record_stream: "save_record d h p r = Inr r' \<Longrightarrow> stream_log s r' = stream_log s r"
  by (simp add: stream_log_def repo_lines_def save_record_events)

inductive repo_grows :: "repo \<Rightarrow> repo \<Rightarrow> bool" where
  grows_refl [intro!]: "repo_grows r r"
| grows_event: "repo_grows r r' \<Longrightarrow> s \<noteq> AUTONOMY_LOG \<Longrightarrow> repo_grows r (repo_append s p r')"
| grows_autonomy: "repo_grows r r' \<Longrightarrow> valid_entry e \<Longrightarrow> autonomy_append lock (stream_log AUTONOMY_LOG r') e = Inr st
    \<Longrightarrow> repo_grows r (repo_append AUTONOMY_LOG (autonomy_state_entry_to_dict e) r')"
| grows_save: "repo_grows r r' \<Longrightarrow> save_record d h p r' = Inr r'' \<Longrightarrow> repo_grows r r''"

lemma grows_trans: "repo_grows r' r'' \<Longrightarrow> repo_grows r r' \<Longrightarrow> repo_grows r r''"
  by (induction r' r'' rule: repo_grows.induct) (auto intro: repo_grows.intros)

text \<open>The rows and versions of a grown repository extend those it had.\<close>

lemma grows_extends:
  assumes "repo_grows r r'"
  shows "(\<exists>new. rp_events r' = rp_events r @ new) \<and> (\<exists>new. rp_versions r' = rp_versions r @ new)"
  using assms
proof induction
  case (grows_save r r' d h p r'')
  then show ?case by (auto simp: save_record_def split: option.splits if_splits)
qed auto

lemma grows_latest_distinct:
  assumes "repo_grows r r'" and "distinct (map fst (rp_latest r))"
  shows "distinct (map fst (rp_latest r'))"
  using assms
proof induction
  case (grows_save r r' d h p r'')
  then show ?case by (auto simp: save_record_def distinct_update split: option.splits if_splits)
qed auto

text \<open>The autonomy log stays readable: its entries are those it had and the appended ones.\<close>

lemma grows_autonomy_history:
  assumes "repo_grows r r'" and "autonomy_history (stream_log AUTONOMY_LOG r) = Inr es"
  shows "\<exists>new. autonomy_history (stream_log AUTONOMY_LOG r') = Inr (es @ new)"
  using assms
proof induction
  case (grows_autonomy r r' e lock st)
  then obtain new where h: "autonomy_history (stream_log AUTONOMY_LOG r') = Inr (es @ new)" by auto
  have st: "st = log_append (stream_log AUTONOMY_LOG r') (autonomy_state_entry_to_dict e)"
    using grows_autonomy.hyps unfolding autonomy_append_def versioned_append_Inr_iff by simp
  obtain es' where "autonomy_history (stream_log AUTONOMY_LOG r') = Inr es'"
      and "autonomy_history st = Inr (es' @ [e])"
    using autonomy_log.append_reads_back[OF grows_autonomy.hyps(2)
        grows_autonomy.hyps(3)[unfolded autonomy_append_def]]
    unfolding autonomy_history_def by blast
  then show ?case using h st by (auto simp: stream_log_append)
next
  case (grows_save r r' d h p r'')
  then show ?case by (simp add: save_record_stream)
qed (auto simp: stream_log_append)

text \<open>An unchanged revision: nothing but the autonomy log differs.\<close>

lemma revision_rows:
  "length (snd (snd (admission_revision r))) = length (filter (\<lambda>e. fst e \<noteq> AUTONOMY_LOG) (rp_events r))"
proof -
  have "length (filter (\<lambda>(i, e). P e) (enumerate n xs)) = length (filter P xs)"
    for P and n :: nat and xs :: "(stream \<times> payload) list"
    by (induction xs arbitrary: n) auto
  then show ?thesis by (simp add: admission_revision_def)
qed

lemma revision_unchanged:
  assumes g: "repo_grows r r'" and eq: "admission_revision r' = admission_revision r"
    and dist: "distinct (map fst (rp_latest r))"
  shows "rp_versions r' = rp_versions r"
    and "map_of (rp_latest r') = map_of (rp_latest r)"
    and "s \<noteq> AUTONOMY_LOG \<Longrightarrow> repo_lines s r' = repo_lines s r"
proof -
  obtain ev vs where ev: "rp_events r' = rp_events r @ ev" and vs: "rp_versions r' = rp_versions r @ vs"
    using grows_extends[OF g] by auto
  show "rp_versions r' = rp_versions r" using eq vs by (simp add: admission_revision_def)
  have "sort (rp_latest r') = sort (rp_latest r)" using eq by (simp add: admission_revision_def)
  then have "set (rp_latest r') = set (rp_latest r)" by (metis set_sort)
  then show "map_of (rp_latest r') = map_of (rp_latest r)"
    using dist grows_latest_distinct[OF g dist] by (metis map_of_inject_set)
  have "filter (\<lambda>e. fst e \<noteq> AUTONOMY_LOG) ev = []"
    using arg_cong[OF eq, of "\<lambda>v. length (snd (snd v))"] unfolding revision_rows ev by simp
  then show "repo_lines s r' = repo_lines s r" if "s \<noteq> AUTONOMY_LOG"
    using that by (auto simp: repo_lines_def ev filter_empty_conv)
qed

section \<open>What a run does to the tables\<close>

named_theorems grows_rules \<open>acts whose every run grows the repository\<close>
named_theorems establishes_rules \<open>rules for runs that return\<close>

definition grows :: "'a act \<Rightarrow> bool" where
  "grows m \<longleftrightarrow> (\<forall>w. repo_grows (wd_repo w) (wd_repo (snd (m w))))"

lemma grows_basic [grows_rules]:
  "grows (areturn a)" "grows (araise e)" "grows (aguard c e)" "grows (aread f)" "grows (aclock now)" "grows (afresh ids)"
  by (auto simp: grows_def areturn_def araise_def aguard_def aread_def aclock_def afresh_def)

lemma grows_abind [grows_rules]:
  assumes "grows m" and "\<And>a. grows (f a)"
  shows "grows (abind m f)"
proof -
  have "repo_grows (wd_repo w) (wd_repo (snd (abind m f w)))" for w
  proof (cases "m w")
    case (Pair r w')
    have "repo_grows (wd_repo w) (wd_repo w')" using assms(1) Pair by (metis grows_def snd_conv)
    then show ?thesis
      using assms(2) Pair by (cases r) (auto simp: abind_def grows_def intro: grows_trans)
  qed
  then show ?thesis by (simp add: grows_def)
qed

lemma grows_atry [grows_rules]:
  assumes "grows m" and "\<And>e. grows (h e)"
  shows "grows (atry m c h)"
proof -
  have "repo_grows (wd_repo w) (wd_repo (snd (atry m c h w)))" for w
  proof (cases "m w")
    case (Pair r w')
    have "repo_grows (wd_repo w) (wd_repo w')" using assms(1) Pair by (metis grows_def snd_conv)
    then show ?thesis
      using assms(2) Pair by (cases r) (auto simp: atry_def grows_def intro: grows_trans)
  qed
  then show ?thesis by (simp add: grows_def)
qed

lemma grows_amap [grows_rules]: "(\<And>x. grows (f x)) \<Longrightarrow> grows (amap f xs)"
  by (induction xs) (auto intro!: grows_rules)

lemma grows_if [grows_rules]: "grows m \<Longrightarrow> grows n \<Longrightarrow> grows (if c then m else n)"
  by simp

lemma grows_option [grows_rules]: "grows m \<Longrightarrow> (\<And>a. grows (f a)) \<Longrightarrow> grows (case x of None \<Rightarrow> m | Some a \<Rightarrow> f a)"
  by (cases x) auto

text \<open>An append through a log function that adds at most one row.\<close>

lemma alog_cases:
  assumes "f (stream_log s (wd_repo w)) = Inr (a, st)"
    and "st = stream_log s (wd_repo w) \<or> (\<exists>p. st = log_append (stream_log s (wd_repo w)) p)"
  shows "alog s f w = (Inr a, w) \<and> st = stream_log s (wd_repo w)
    \<or> (\<exists>p. st = log_append (stream_log s (wd_repo w)) p
           \<and> alog s f w = (Inr a, w\<lparr>wd_repo := repo_append s p (wd_repo w)\<rparr>))"
  using assms by (auto simp: alog_def stream_log_def)

lemma alog_error: "alog s f w = (Inl e, w') \<Longrightarrow> w' = w"
  by (auto simp: alog_def split: sum.splits prod.splits)

lemma grows_alog:
  assumes "s \<noteq> AUTONOMY_LOG"
    and "\<And>st a st'. f st = Inr (a, st') \<Longrightarrow> st' = st \<or> (\<exists>p. st' = log_append st p)"
  shows "grows (alog s f)"
proof -
  have "repo_grows (wd_repo w) (wd_repo (snd (alog s f w)))" for w
  proof (cases "f (stream_log s (wd_repo w))")
    case (Inl e)
    then show ?thesis by (auto simp: alog_def)
  next
    case (Inr x)
    then obtain a st where x: "f (stream_log s (wd_repo w)) = Inr (a, st)" by (cases x) auto
    from alog_cases[where f = f, OF x assms(2)[OF x]] show ?thesis
      using assms(1) by (auto intro: grows_event)
  qed
  then show ?thesis by (simp add: grows_def)
qed

definition aappend_autonomy :: "autonomy_state_entry \<Rightarrow> unit act" where
  "aappend_autonomy e =
     alog AUTONOMY_LOG (\<lambda>st. rbind (autonomy_append LockAcquired st e) (\<lambda>st'. Inr ((), st')))"

lemma grows_aappend_autonomy:
  assumes "valid_entry e"
  shows "grows (aappend_autonomy e)"
proof -
  have "repo_grows (wd_repo w) (wd_repo (snd (aappend_autonomy e w)))" for w
  proof (cases "autonomy_append LockAcquired (stream_log AUTONOMY_LOG (wd_repo w)) e")
    case (Inl x)
    then show ?thesis by (auto simp: alog_def aappend_autonomy_def)
  next
    case (Inr st)
    then have "st = log_append (stream_log AUTONOMY_LOG (wd_repo w)) (autonomy_state_entry_to_dict e)"
      unfolding autonomy_append_def versioned_append_Inr_iff by simp
    then have "snd (aappend_autonomy e w)
        = w\<lparr>wd_repo := repo_append AUTONOMY_LOG (autonomy_state_entry_to_dict e) (wd_repo w)\<rparr>"
      using Inr by (simp add: alog_def aappend_autonomy_def stream_log_def)
    then show ?thesis using grows_autonomy[OF grows_refl assms Inr] by simp
  qed
  then show ?thesis by (simp add: grows_def)
qed

lemma grows_store_save [grows_rules]: "grows (asave (store_save rhash i))"
  by (auto simp: grows_def asave_def store_save_def split: sum.splits intro: grows_save)

section \<open>What a returning run establishes\<close>

definition establishes :: "(repo \<Rightarrow> bool) \<Rightarrow> 'a act \<Rightarrow> ('a \<Rightarrow> repo \<Rightarrow> bool) \<Rightarrow> bool" where
  "establishes P m Q \<longleftrightarrow> (\<forall>w a w'. P (wd_repo w) \<longrightarrow> m w = (Inr a, w') \<longrightarrow> Q a (wd_repo w'))"

lemma establishes_abind [establishes_rules]:
  assumes "establishes P m Q" and "\<And>a. establishes (Q a) (f a) R"
  shows "establishes P (abind m f) R"
proof -
  have "R b (wd_repo w')" if "P (wd_repo w)" "abind m f w = (Inr b, w')" for w b w'
  proof -
    from that(2) obtain a v where a: "m w = (Inr a, v)" "f a v = (Inr b, w')"
      by (auto simp: abind_def split: prod.splits sum.splits)
    then have "Q a (wd_repo v)" using assms(1) that(1) unfolding establishes_def by blast
    then show ?thesis using assms(2) a(2) unfolding establishes_def by blast
  qed
  then show ?thesis by (simp add: establishes_def)
qed

lemma establishes_basic:
  "establishes P (areturn a) (\<lambda>b r. b = a \<and> P r)"
  "establishes P (araise e) Q"
  "establishes P (aguard c e) (\<lambda>_ r. \<not> c \<and> P r)"
  "establishes P (aread f) (\<lambda>a r. f r = Inr a \<and> P r)"
  "establishes P (aclock now) (\<lambda>_. P)"
  "establishes P (afresh ids) (\<lambda>_. P)"
  by (auto simp: establishes_def areturn_def araise_def aguard_def aread_def aclock_def afresh_def)

text \<open>The same rules where only a property of the tables is kept.\<close>

lemma establishes_keep [establishes_rules]:
  "establishes P (areturn a) (\<lambda>_. P)" "establishes P (araise e) (\<lambda>_. P)"
  "establishes P (aguard c e) (\<lambda>_. P)" "establishes P (aread f) (\<lambda>_. P)"
  "establishes P (aclock now) (\<lambda>_. P)" "establishes P (afresh ids) (\<lambda>_. P)"
  by (auto simp: establishes_def areturn_def araise_def aguard_def aread_def aclock_def afresh_def split: if_splits)

lemma establishes_amap [establishes_rules]:
  assumes "\<And>x. x \<in> set xs \<Longrightarrow> establishes P (f x) (\<lambda>_. P)"
  shows "establishes P (amap f xs) (\<lambda>_. P)"
  using assms by (induction xs) (auto intro!: establishes_rules)

lemma establishes_if [establishes_rules]:
  "establishes P m Q \<Longrightarrow> establishes P n Q \<Longrightarrow> establishes P (if c then m else n) Q"
  by simp

lemma establishes_option [establishes_rules]:
  "establishes P m Q \<Longrightarrow> (\<And>a. establishes P (f a) Q) \<Longrightarrow> establishes P (case x of None \<Rightarrow> m | Some a \<Rightarrow> f a) Q"
  by (cases x) auto

lemma establishes_weaken:
  "establishes P m Q \<Longrightarrow> (\<And>a r. Q a r \<Longrightarrow> Q' a r) \<Longrightarrow> establishes P m Q'"
  unfolding establishes_def by blast

text \<open>An act that leaves the tables alone when it raises; a handler then starts where it started.\<close>

definition clean :: "'a act \<Rightarrow> bool" where
  "clean m \<longleftrightarrow> (\<forall>w e w'. m w = (Inl e, w') \<longrightarrow> wd_repo w' = wd_repo w)"

lemma clean_append: "clean (abind (alog s f) (\<lambda>a. areturn (g a)))"
  by (auto simp: clean_def abind_def areturn_def alog_def split: prod.splits sum.splits)

lemma establishes_atry:
  assumes "establishes P m Q" and "clean m" and "\<And>e. establishes P (h e) Q"
  shows "establishes P (atry m c h) Q"
proof -
  have "Q a (wd_repo w')" if "P (wd_repo w)" "atry m c h w = (Inr a, w')" for w a w'
  proof (cases "m w")
    case (Pair r v)
    show ?thesis
    proof (cases r)
      case (Inl e)
      then have "h e v = (Inr a, w')" "wd_repo v = wd_repo w"
        using that(2) Pair assms(2) by (auto simp: atry_def clean_def split: if_splits)
      then show ?thesis using assms(3) that(1) unfolding establishes_def by metis
    next
      case (Inr b)
      then show ?thesis using assms(1) that Pair unfolding establishes_def atry_def by auto
    qed
  qed
  then show ?thesis by (simp add: establishes_def)
qed

section \<open>Transactions\<close>

definition preserves :: "(repo \<Rightarrow> bool) \<Rightarrow> 'a act \<Rightarrow> bool" where
  "preserves P m \<longleftrightarrow> (\<forall>w. P (wd_repo w) \<longrightarrow> P (wd_repo (snd (m w))))"

text \<open>
  An invariant of committed states. What an uncommitted intermediate state breaks is rolled
  back; a committed refusal has to leave the invariant as it was.
\<close>

locale transactional =
  fixes ok :: "repo \<Rightarrow> bool"
  assumes refusal_keeps: "ok r \<Longrightarrow> repo_grows r r' \<Longrightarrow> admission_revision r' = admission_revision r \<Longrightarrow> ok r'"
begin

lemma run_write_preserves: "establishes ok m (\<lambda>_. ok) \<Longrightarrow> preserves ok (run_write m)"
  by (auto simp: preserves_def establishes_def run_write_def rolled_back_def split: prod.splits sum.splits)

lemma run_admission_denying_preserves:
  assumes "establishes ok m (\<lambda>_. ok)" and "grows m"
  shows "preserves ok (run_admission_denying denial m)"
proof -
  have "ok (wd_repo (snd (run_admission_denying denial m w)))" if "ok (wd_repo w)" for w
  proof (cases "m w")
    case (Pair r w')
    have "repo_grows (wd_repo w) (wd_repo w')" using assms(2) Pair by (metis grows_def snd_conv)
    then show ?thesis
      using that assms(1) Pair refusal_keeps
      by (cases r) (auto simp: run_admission_denying_def establishes_def rolled_back_def)
  qed
  then show ?thesis by (simp add: preserves_def)
qed

lemma run_admission_preserves:
  "establishes ok m (\<lambda>_. ok) \<Longrightarrow> grows m \<Longrightarrow> preserves ok (run_admission m)"
  unfolding run_admission_def by (rule run_admission_denying_preserves)

end

text \<open>What a run that raised leaves behind.\<close>

lemma establishes_run_write [establishes_rules]: "establishes P m Q \<Longrightarrow> establishes P (run_write m) Q"
  by (auto simp: establishes_def run_write_def split: prod.split_asm sum.split_asm)

lemma grows_run_write [grows_rules]: "grows m \<Longrightarrow> grows (run_write m)"
  unfolding grows_def run_write_def rolled_back_def
  by (auto split: prod.split sum.split) (metis snd_conv)

lemma run_write_Inr [simp]: "run_write m w = (Inr a, v) \<longleftrightarrow> m w = (Inr a, v)"
  by (auto simp: run_write_def split: prod.split sum.split)

lemma run_write_error: "run_write m w = (Inl e, w') \<Longrightarrow> wd_repo w' = wd_repo w"
  by (auto simp: run_write_def rolled_back_def split: prod.splits sum.splits)

lemma run_admission_error:
  assumes "run_admission m w = (Inl e, w')" and "grows m"
  shows "wd_repo w' = wd_repo w
    \<or> e = PolicyViolationError \<and> repo_grows (wd_repo w) (wd_repo w')
      \<and> admission_revision (wd_repo w') = admission_revision (wd_repo w)
      \<and> denial_autonomy_is_safe (repo_lines AUTONOMY_LOG (wd_repo w)) (wd_repo w')"
proof (cases "m w")
  case (Pair r v)
  have "repo_grows (wd_repo w) (wd_repo v)" using assms(2) Pair by (metis grows_def snd_conv)
  then show ?thesis
    using assms(1) Pair by (cases r) (auto simp: run_admission_def run_admission_denying_def rolled_back_def split: if_splits)
qed

end
