(* ===== verification/Idea_Views.thy ===== *)
theory Idea_Views
  imports Trading_Calendar Idea_Accounting Idea_Repository
begin

text \<open>
  The read side of \<^verbatim>\<open>TradeIdeaService\<close> (\<^verbatim>\<open>src/gpt_trader/features/trade_ideas/service.py\<close>) and the
  read models of \<^verbatim>\<open>service_models.py\<close>: loading the record version an audit event names, the view
  of a decision with its validated closeout, the list query with its filters, order and page,
  the queue status, and the pages of audit events and closeouts. A read is a function of the
  tables.

  The record \<open>service_env\<close> holds what the service is given from outside: the readings of the clock
  and the fresh event identities, in order; the content hash of a record (\<open>en_rhash\<close>) and of a JSON
  object (\<open>en_phash\<close>); the injected \<^verbatim>\<open>calendar_resolver\<close>; \<^verbatim>\<open>datetime.fromisoformat\<close> on a text, the
  text of a Decimal and of a time, and the rendering of formatted evidence, because a Decimal is
  modelled by its value and not by the digits it prints; and the environment variable that enables the approval sweep.
\<close>

section \<open>The environment of the service\<close>

datatype evidence =
    BreachEvidence breach
  | AdmissionEvidence autonomy_resolution risk_budget approval_budget_context "dec option"
  | DenialEvidence autonomy_resolution risk_budget "violation list"
  | ExecutionDenialEvidence autonomy_resolution "violation list"
  | ReductionEvidence string dec dec dec string

record service_env =
  en_now :: "nat \<Rightarrow> instant"
  en_event_id :: "nat \<Rightarrow> string"
  en_rhash :: "trade_idea \<Rightarrow> string"
  en_phash :: "payload \<Rightarrow> string"
  en_calendar :: "string \<Rightarrow> trading_calendar result"
  en_fromiso :: "string \<Rightarrow> py_datetime option"
  en_decimal_text :: "dec \<Rightarrow> string"
  en_time_text :: "instant \<Rightarrow> string"
  en_text :: "evidence \<Rightarrow> string list"
  en_auto_approval :: bool

section \<open>Records and views\<close>

text \<open>\<^verbatim>\<open>ValueError\<close> with its subclass, and the exceptions of a malformed record.\<close>

fun value_error :: "py_error \<Rightarrow> bool" where
  "value_error (ValueError _) = True"
| "value_error (InstrumentParseError _) = True"
| "value_error _ = False"

fun record_error :: "py_error \<Rightarrow> bool" where
  "record_error (TypeError _) = True"
| "record_error e = (e = ArithmeticError ''InvalidOperation'' \<or> value_error e)"

fun version_error :: "py_error \<Rightarrow> bool" where
  "version_error (KeyError _) = True"
| "version_error e = record_error e"

definition load_record_version :: "service_env \<Rightarrow> repo \<Rightarrow> string \<Rightarrow> string \<Rightarrow> trade_idea result" where
  "load_record_version env r d h =
     rbind (rewrap version_error (AuditIntegrityError ''stored version is invalid'')
              (load_version r d h)) (\<lambda>found.
     case found of
       None \<Rightarrow> Inl (AuditIntegrityError ''missing audit record_hash'')
     | Some i \<Rightarrow>
         rbind (raise_if (ti_decision_id i \<noteq> d) (AuditIntegrityError ''stored version contains another decision_id'')) (\<lambda>_.
         rbind (raise_if (en_rhash env i \<noteq> h) (AuditIntegrityError ''stored version hashes to another value'')) (\<lambda>_.
         Inr i)))"

definition verify_latest_record_is_audited :: "service_env \<Rightarrow> repo \<Rightarrow> trade_idea \<Rightarrow> unit result" where
  "verify_latest_record_is_audited env r i =
     rbind (audit_read_events (stream_log AUDIT_LOG r) (Some (ti_decision_id i))) (\<lambda>events.
     raise_if (events \<noteq> [] \<and> en_rhash env i \<noteq> ae_record_hash (last events))
       (AuditIntegrityError ''latest record hash does not match latest audit record_hash''))"

definition require_idea :: "service_env \<Rightarrow> repo \<Rightarrow> string \<Rightarrow> trade_idea result" where
  "require_idea env r d =
     rbind (rewrap record_error (ValidationError ''stored trade idea is invalid'')
              (case latest_hash r d of
                 None \<Rightarrow> Inr None
               | Some h \<Rightarrow>
                   if h = [] then Inr None
                   else rbind (load_record_version env r d h) (\<lambda>i. Inr (Some i)))) (\<lambda>found.
     case found of
       None \<Rightarrow> Inl (UnknownTradeIdeaError d)
     | Some i \<Rightarrow> rbind (verify_latest_record_is_audited env r i) (\<lambda>_. Inr i))"

definition max_loss_snapshot_for :: "trade_idea \<Rightarrow> max_loss_snapshot" where
  "max_loss_snapshot_for i =
     \<lparr>ms_amount = ml_amount (ti_max_loss i),
      ms_percent_of_account = ml_percent_of_account (ti_max_loss i),
      ms_assumptions = ml_assumptions (ti_max_loss i)\<rparr>"

definition validated_closeout_attribution ::
  "repo \<Rightarrow> trade_idea \<Rightarrow> audit_event list \<Rightarrow> closeout_attribution option result" where
  "validated_closeout_attribution r i events =
     rbind (closeout_get (stream_log CLOSEOUT_LOG r) (ti_decision_id i)) (\<lambda>found.
     case found of
       None \<Rightarrow> Inr None
     | Some c \<Rightarrow>
         if events = [] then Inl IndexError
         else
           let current = last events in
           rbind (raise_if (ae_after_state current \<notin> set TERMINAL_STATES)
                    (CloseoutAttributionIntegrityError ''latest audit state is not terminal'')) (\<lambda>_.
           rbind (raise_if (co_terminal_event_id c \<noteq> ae_event_id current \<or> co_record_hash c \<noteq> ae_record_hash current)
                    (CloseoutAttributionIntegrityError ''does not match the current terminal audit event'')) (\<lambda>_.
           rbind (raise_if (co_max_loss c \<noteq> max_loss_snapshot_for i)
                    (CloseoutAttributionIntegrityError ''does not match the audited max-loss snapshot'')) (\<lambda>_.
           Inr (Some c)))))"

definition get_view :: "service_env \<Rightarrow> repo \<Rightarrow> string \<Rightarrow> trade_idea_view result" where
  "get_view env r d =
     rbind (require_idea env r d) (\<lambda>i.
     rbind (audit_read_events (stream_log AUDIT_LOG r) (Some d)) (\<lambda>events.
     rbind (raise_if (events = []) (AuditIntegrityError ''stored trade idea has no audit trail'')) (\<lambda>_.
     rbind (validated_closeout_attribution r i events) (\<lambda>closeout.
     Inr \<lparr>vw_idea = i, vw_state = ae_after_state (last events), vw_events = events, vw_closeout = closeout\<rparr>))))"

definition get_closeout_attribution :: "service_env \<Rightarrow> repo \<Rightarrow> string \<Rightarrow> closeout_attribution option result" where
  "get_closeout_attribution env r d = rbind (get_view env r d) (\<lambda>v. Inr (vw_closeout v))"

section \<open>The list query\<close>

datatype list_sort_key =
    SortDecisionId | SortState | SortInstrument | SortDirection | SortConfidence | SortMaxLossPct
  | SortExpiresAt | SortCreatedAt | SortUpdatedAt

record list_query =
  lq_state :: "trade_idea_state option"
  lq_instrument :: "string option"
  lq_decision_id :: "string option"
  lq_direction :: "trade_direction option"
  lq_min_confidence :: "confidence_label option"
  lq_max_confidence :: "confidence_label option"
  lq_updated_since :: "py_datetime option"
  lq_updated_until :: "py_datetime option"
  lq_sort_by :: "list_sort_key option"
  lq_descending :: bool
  lq_limit :: "int option"
  lq_offset :: int

definition default_query :: list_query where
  "default_query =
     \<lparr>lq_state = None, lq_instrument = None, lq_decision_id = None, lq_direction = None,
      lq_min_confidence = None, lq_max_confidence = None, lq_updated_since = None,
      lq_updated_until = None, lq_sort_by = None, lq_descending = False, lq_limit = None, lq_offset = 0\<rparr>"

record list_result =
  lr_views :: "trade_idea_view list"
  lr_total_count :: int
  lr_offset :: int
  lr_limit :: "int option"
  lr_has_more :: bool

fun CONFIDENCE_RANK :: "confidence_label \<Rightarrow> int" where
  "CONFIDENCE_RANK LOW = 0"
| "CONFIDENCE_RANK MEDIUM = 1"
| "CONFIDENCE_RANK HIGH = 2"

fun STATE_SORT_RANK :: "trade_idea_state \<Rightarrow> int" where
  "STATE_SORT_RANK PROPOSED = 0"
| "STATE_SORT_RANK NEEDS_CHANGES = 1"
| "STATE_SORT_RANK APPROVED = 2"
| "STATE_SORT_RANK _ = 9"

definition validate_query_timestamp :: "py_datetime option \<Rightarrow> unit result" where
  "validate_query_timestamp t =
     raise_if (case t of Some (Naive _) \<Rightarrow> True | _ \<Rightarrow> False)
       (ValidationError ''Trade idea list timestamp must include a timezone'')"

text \<open>\<^verbatim>\<open>a > b\<close> of two optional bounds, which are aware when the test is reached.\<close>

definition bounds_crossed :: "py_datetime option \<Rightarrow> py_datetime option \<Rightarrow> bool" where
  "bounds_crossed a b = (case (a, b) of (Some s, Some u) \<Rightarrow> as_utc u < as_utc s | _ \<Rightarrow> False)"

definition validate_list_query :: "list_query \<Rightarrow> unit result" where
  "validate_list_query q =
     rbind (raise_if (lq_offset q < 0) (ValidationError ''Trade idea list offset must be non-negative'')) (\<lambda>_.
     rbind (raise_if (case lq_limit q of None \<Rightarrow> False | Some l \<Rightarrow> l \<le> 0)
              (ValidationError ''Trade idea list limit must be positive'')) (\<lambda>_.
     rbind (raise_if (case (lq_min_confidence q, lq_max_confidence q) of
                        (Some a, Some b) \<Rightarrow> CONFIDENCE_RANK b < CONFIDENCE_RANK a | _ \<Rightarrow> False)
              (ValidationError ''Trade idea list min_confidence cannot be greater than max_confidence'')) (\<lambda>_.
     rbind (validate_query_timestamp (lq_updated_since q)) (\<lambda>_.
     rbind (validate_query_timestamp (lq_updated_until q)) (\<lambda>_.
     raise_if (bounds_crossed (lq_updated_since q) (lq_updated_until q))
       (ValidationError ''Trade idea list updated_since cannot be after updated_until''))))))"

text \<open>\<^verbatim>\<open>timestamp < since\<close> and \<^verbatim>\<open>timestamp > until\<close>: comparing a naive with an aware time raises.\<close>

definition before_bound :: "py_datetime \<Rightarrow> py_datetime option \<Rightarrow> bool result" where
  "before_bound t since = (case since of None \<Rightarrow> Inr False | Some s \<Rightarrow> datetime_less t s)"

definition after_bound :: "py_datetime \<Rightarrow> py_datetime option \<Rightarrow> bool result" where
  "after_bound t until = (case until of None \<Rightarrow> Inr False | Some u \<Rightarrow> datetime_less u t)"

definition timestamp_in_window :: "py_datetime \<Rightarrow> py_datetime option \<Rightarrow> py_datetime option \<Rightarrow> bool result" where
  "timestamp_in_window t since until =
     rbind (before_bound t since) (\<lambda>early. if early then Inr False
     else rbind (after_bound t until) (\<lambda>late. Inr (\<not> late)))"

text \<open>An optional text that is absent or empty filters nothing; \<open>str_lower\<close> is \<^verbatim>\<open>casefold\<close> on ASCII.\<close>

definition matches_list_query :: "list_query \<Rightarrow> trade_idea_view \<Rightarrow> bool result" where
  "matches_list_query q v =
     (let i = vw_idea v; rank = CONFIDENCE_RANK (cf_label (ti_confidence i)) in
      if (case lq_state q of None \<Rightarrow> False | Some s \<Rightarrow> vw_state v \<noteq> s)
         \<or> (case lq_instrument q of None \<Rightarrow> False
            | Some s \<Rightarrow> s \<noteq> [] \<and> str_lower (ti_instrument i) \<noteq> str_lower s)
         \<or> (case lq_decision_id q of None \<Rightarrow> False | Some d \<Rightarrow> d \<noteq> [] \<and> ti_decision_id i \<noteq> d)
         \<or> (case lq_direction q of None \<Rightarrow> False | Some d \<Rightarrow> ti_direction i \<noteq> d)
         \<or> (case lq_min_confidence q of None \<Rightarrow> False | Some c \<Rightarrow> rank < CONFIDENCE_RANK c)
         \<or> (case lq_max_confidence q of None \<Rightarrow> False | Some c \<Rightarrow> CONFIDENCE_RANK c < rank)
      then Inr False
      else timestamp_in_window (ae_timestamp (last (vw_events v))) (lq_updated_since q) (lq_updated_until q))"

text \<open>
  A sort value: the numbers compared first and the texts compared after them. A view without the
  value is put at the end.
\<close>

type_synonym sort_value = "rat list \<times> string list"

definition list_sort_value :: "list_sort_key \<Rightarrow> trade_idea_view \<Rightarrow> sort_value option" where
  "list_sort_value k v =
     (let i = vw_idea v; d = ti_decision_id i; expires = th_expires_at (ti_time_horizon i) in
      case k of
        SortDecisionId \<Rightarrow> Some ([], [d])
      | SortState \<Rightarrow>
          Some ([of_int (STATE_SORT_RANK (vw_state v)),
                 of_int (case expires of None \<Rightarrow> DATETIME_MAX | Some t \<Rightarrow> t)], [d])
      | SortInstrument \<Rightarrow> Some ([], [str_lower (ti_instrument i), d])
      | SortDirection \<Rightarrow> Some ([], [trade_direction_value (ti_direction i), d])
      | SortConfidence \<Rightarrow> Some ([of_int (CONFIDENCE_RANK (cf_label (ti_confidence i)))], [d])
      | SortMaxLossPct \<Rightarrow> map_option (\<lambda>p. ([p], [d])) (ml_percent_of_account (ti_max_loss i))
      | SortExpiresAt \<Rightarrow> map_option (\<lambda>t. ([of_int t], [d])) expires
      | SortCreatedAt \<Rightarrow> Some ([of_int (as_utc (ae_timestamp (hd (vw_events v))))], [d])
      | SortUpdatedAt \<Rightarrow> Some ([of_int (as_utc (ae_timestamp (last (vw_events v))))], [d]))"

text \<open>The event time a view is sorted by, where it is; naive and aware ones do not compare.\<close>

definition sort_time :: "list_sort_key \<Rightarrow> trade_idea_view \<Rightarrow> py_datetime option" where
  "sort_time k v =
     (case k of
        SortCreatedAt \<Rightarrow> Some (ae_timestamp (hd (vw_events v)))
      | SortUpdatedAt \<Rightarrow> Some (ae_timestamp (last (vw_events v)))
      | _ \<Rightarrow> None)"

definition mixed_times :: "py_datetime list \<Rightarrow> bool" where
  "mixed_times stamps \<longleftrightarrow>
     list_ex Idea_Accounting.is_naive stamps \<and> list_ex (\<lambda>t. \<not> Idea_Accounting.is_naive t) stamps"

definition sort_list_views :: "list_query \<Rightarrow> trade_idea_view list \<Rightarrow> trade_idea_view list result" where
  "sort_list_views q vs =
     (case lq_sort_by q of
        None \<Rightarrow> Inr vs
      | Some k \<Rightarrow>
          let keyed = filter (\<lambda>v. list_sort_value k v \<noteq> None) vs;
              missing = filter (\<lambda>v. list_sort_value k v = None) vs;
              key = (\<lambda>v. the (list_sort_value k v))
          in if mixed_times (List.map_filter (sort_time k) keyed)
             then Inl (TypeError ''can't compare offset-naive and offset-aware datetimes'')
             else Inr ((if lq_descending q then rev (sort_key key (rev keyed)) else sort_key key keyed) @ missing))"

fun rfilter :: "('a \<Rightarrow> bool result) \<Rightarrow> 'a list \<Rightarrow> 'a list result" where
  "rfilter f [] = Inr []"
| "rfilter f (x # xs) = rbind (f x) (\<lambda>b. rbind (rfilter f xs) (\<lambda>ys. Inr (if b then x # ys else ys)))"

definition list_view_result :: "service_env \<Rightarrow> repo \<Rightarrow> list_query \<Rightarrow> list_result result" where
  "list_view_result env r q =
     rbind (validate_list_query q) (\<lambda>_.
     rbind (rmap (get_view env r) (list_decision_ids r)) (\<lambda>views.
     rbind (rfilter (matches_list_query q) views) (\<lambda>filtered.
     rbind (sort_list_views q filtered) (\<lambda>ordered.
     let start = nat (lq_offset q);
         rest = drop start ordered;
         page = (case lq_limit q of None \<Rightarrow> rest | Some l \<Rightarrow> take (nat l) rest)
     in Inr \<lparr>lr_views = page, lr_total_count = int (length ordered), lr_offset = lq_offset q,
             lr_limit = lq_limit q, lr_has_more = start + length page < length ordered\<rparr>))))"

definition list_views :: "service_env \<Rightarrow> repo \<Rightarrow> trade_idea_state option \<Rightarrow> trade_idea_view list result" where
  "list_views env r state =
     rbind (list_view_result env r (default_query\<lparr>lq_state := state\<rparr>)) (\<lambda>res. Inr (lr_views res))"

section \<open>Histories and pages\<close>

text \<open>\<^verbatim>\<open>_review_started_at_from_events\<close>: the last proposal, while the idea waits for review.\<close>

definition review_started_at_from_events :: "audit_event list \<Rightarrow> py_datetime option" where
  "review_started_at_from_events events =
     (if events = [] \<or> ae_after_state (last events) \<noteq> PROPOSED then None
      else map_option ae_timestamp
             (find (\<lambda>e. ae_action e = ACT_PROPOSED \<and> ae_after_state e = PROPOSED) (rev events)))"

definition review_started_at :: "repo \<Rightarrow> string \<Rightarrow> py_datetime option result" where
  "review_started_at r d =
     rbind (audit_read_events (stream_log AUDIT_LOG r) (Some d)) (\<lambda>events.
     Inr (review_started_at_from_events events))"

text \<open>A dictionary from decisions to their last events, in the order of the first ones.\<close>

definition latest_audit_events_by_decision_id :: "repo \<Rightarrow> (string \<times> audit_event) list result" where
  "latest_audit_events_by_decision_id r =
     rbind (audit_read_events (stream_log AUDIT_LOG r) None) (\<lambda>events.
     Inr (foldl (\<lambda>m e. AList.update (ae_decision_id e) e m) [] events))"

definition count_approved :: "service_env \<Rightarrow> repo \<Rightarrow> (string \<times> audit_event) list \<Rightarrow> int result" where
  "count_approved env r latest =
     rbind (rmap (\<lambda>(d, e). require_idea env r d) (filter (\<lambda>(d, e). ae_after_state e = APPROVED) latest)) (\<lambda>ideas.
     Inr (int (length ideas)))"

definition open_approved_count :: "service_env \<Rightarrow> repo \<Rightarrow> int result" where
  "open_approved_count env r = rbind (latest_audit_events_by_decision_id r) (count_approved env r)"

definition open_approved_count_excluding :: "service_env \<Rightarrow> repo \<Rightarrow> string \<Rightarrow> int result" where
  "open_approved_count_excluding env r excluded =
     rbind (latest_audit_events_by_decision_id r) (\<lambda>latest.
     count_approved env r (filter (\<lambda>(d, e). d \<noteq> excluded) latest))"

record 'a query_page =
  qp_items :: "'a list"
  qp_total_count :: int
  qp_limit :: "int option"
  qp_offset :: int

definition page_items :: "'a list \<Rightarrow> int option \<Rightarrow> int \<Rightarrow> 'a query_page" where
  "page_items items limit offset =
     (let start = max offset 0; rest = drop (nat start) items in
      \<lparr>qp_items = (case limit of None \<Rightarrow> rest | Some l \<Rightarrow> take (nat (max l 0)) rest),
       qp_total_count = int (length items), qp_limit = limit, qp_offset = start\<rparr>)"

record audit_query =
  aq_decision_id :: "string option"
  aq_actor_id :: "string option"
  aq_actor_type :: "actor_type option"
  aq_action :: "audit_action option"
  aq_state :: "trade_idea_state option"
  aq_since :: "py_datetime option"
  aq_until :: "py_datetime option"
  aq_limit :: "int option"
  aq_offset :: int

definition wanted :: "'a option \<Rightarrow> 'a \<Rightarrow> bool" where
  "wanted want x = (case want of None \<Rightarrow> True | Some y \<Rightarrow> x = y)"

definition list_audit_events :: "repo \<Rightarrow> audit_query \<Rightarrow> audit_event query_page result" where
  "list_audit_events r q =
     rbind (audit_read_events (stream_log AUDIT_LOG r) (aq_decision_id q)) (\<lambda>events.
     rbind (rfilter (\<lambda>e. if wanted (aq_actor_id q) (ae_actor_id e) \<and> wanted (aq_actor_type q) (ae_actor_type e)
                           \<and> wanted (aq_action q) (ae_action e) \<and> wanted (aq_state q) (ae_after_state e)
                        then timestamp_in_window (ae_timestamp e) (aq_since q) (aq_until q)
                        else Inr False) events) (\<lambda>selected.
     Inr (page_items selected (aq_limit q) (aq_offset q))))"

definition every_audit_event :: audit_query where
  "every_audit_event =
     \<lparr>aq_decision_id = None, aq_actor_id = None, aq_actor_type = None, aq_action = None, aq_state = None,
      aq_since = None, aq_until = None, aq_limit = None, aq_offset = 0\<rparr>"

record closeout_query =
  cq_decision_id :: "string option"
  cq_actor_id :: "string option"
  cq_actor_type :: "actor_type option"
  cq_resolution :: "closeout_resolution option"
  cq_has_evidence :: "bool option"
  cq_since :: "py_datetime option"
  cq_until :: "py_datetime option"
  cq_limit :: "int option"
  cq_offset :: int

fun unknown_idea :: "py_error \<Rightarrow> bool" where
  "unknown_idea (UnknownTradeIdeaError _) = True"
| "unknown_idea _ = False"

definition queried_views :: "service_env \<Rightarrow> repo \<Rightarrow> string option \<Rightarrow> trade_idea_view list result" where
  "queried_views env r d =
     (case d of
        None \<Rightarrow> list_views env r None
      | Some d \<Rightarrow>
          (case get_view env r d of
             Inr v \<Rightarrow> Inr [v]
           | Inl e \<Rightarrow> if unknown_idea e then Inr [] else Inl e))"

definition query_closeout_records :: "service_env \<Rightarrow> repo \<Rightarrow> closeout_query \<Rightarrow> closeout_attribution query_page result" where
  "query_closeout_records env r q =
     rbind (queried_views env r (cq_decision_id q)) (\<lambda>views.
     rbind (rfilter (\<lambda>c. if wanted (cq_decision_id q) (co_decision_id c) \<and> wanted (cq_actor_id q) (co_actor_id c)
                           \<and> wanted (map_option actor_type_value (cq_actor_type q)) (co_actor_type c)
                           \<and> wanted (cq_resolution q) (co_resolution c)
                           \<and> wanted (cq_has_evidence q) (co_evidence c \<noteq> [])
                        then timestamp_in_window (Aware (co_timestamp c)) (cq_since q) (cq_until q)
                        else Inr False) (List.map_filter vw_closeout views)) (\<lambda>records.
     Inr (page_items (sort_key (\<lambda>c. (co_timestamp c, co_decision_id c)) records) (cq_limit q) (cq_offset q))))"

definition every_closeout :: closeout_query where
  "every_closeout =
     \<lparr>cq_decision_id = None, cq_actor_id = None, cq_actor_type = None, cq_resolution = None,
      cq_has_evidence = None, cq_since = None, cq_until = None, cq_limit = None, cq_offset = 0\<rparr>"

text \<open>\<^verbatim>\<open>closeout_terminal_times\<close>: the times of all events but fills, by event identity.\<close>

definition closeout_terminal_times :: "repo \<Rightarrow> (string \<rightharpoonup> py_datetime) result" where
  "closeout_terminal_times r =
     rbind (list_audit_events r every_audit_event) (\<lambda>page.
     Inr (map_of (rev (map (\<lambda>e. (ae_event_id e, ae_timestamp e))
                      (filter (\<lambda>e. ae_action e \<noteq> ACT_FILLED) (qp_items page))))))"

section \<open>Sessions and deadlines\<close>

text \<open>
  \<^verbatim>\<open>review_deadline\<close>: open time on the calendar of the instrument; wall-clock time for an instrument
  that cannot be classified; the start itself when the calendar fails.
\<close>

fun shift_time :: "py_datetime \<Rightarrow> int \<Rightarrow> py_datetime result" where
  "shift_time (Aware t) d = rbind (add_time t d) (\<lambda>u. Inr (Aware u))"
| "shift_time (Naive t) d = rbind (add_time t d) (\<lambda>u. Inr (Naive u))"

fun unparsed_instrument :: "py_error \<Rightarrow> bool" where
  "unparsed_instrument (InstrumentParseError _) = True"
| "unparsed_instrument _ = False"

definition review_deadline ::
  "service_env \<Rightarrow> trade_idea \<Rightarrow> py_datetime option \<Rightarrow> risk_budget \<Rightarrow> py_datetime option result" where
  "review_deadline env i started budget =
     (case started of
        None \<Rightarrow> Inr None
      | Some start \<Rightarrow>
          let window = hours (rk_max_review_latency_hours budget) in
          (case rbind (en_calendar env (ti_instrument i)) (\<lambda>c. advance_by_open_time c start window) of
             Inr t \<Rightarrow> Inr (Some (Aware t))
           | Inl e \<Rightarrow>
               if unparsed_instrument e then rbind (shift_time start window) (\<lambda>t. Inr (Some t))
               else if value_error e then Inr (Some start)
               else Inl e))"

definition session_is_open :: "service_env \<Rightarrow> trade_idea \<Rightarrow> instant \<Rightarrow> bool result" where
  "session_is_open env i moment =
     (case rbind (en_calendar env (ti_instrument i)) (\<lambda>c. tc_is_open c moment) of
        Inr b \<Rightarrow> Inr b
      | Inl e \<Rightarrow> if value_error e then Inr False else Inl e)"

definition same_accounting_session ::
  "service_env \<Rightarrow> trade_idea \<Rightarrow> instant \<Rightarrow> instant \<Rightarrow> (bool \<times> string) result" where
  "same_accounting_session env i first second =
     (case rbind (en_calendar env (ti_instrument i)) (\<lambda>c.
           rbind (tc_session_date c first) (\<lambda>a.
           rbind (tc_session_date c second) (\<lambda>b.
           Inr (a = b, tc_session_id c @ '':'' @ date_isoformat b)))) of
        Inr x \<Rightarrow> Inr x
      | Inl e \<Rightarrow>
          if value_error e then Inr (True, ''unresolved:'' @ date_isoformat (trading_day (Aware second)))
          else Inl e)"

section \<open>The queue\<close>

record queue_expiration =
  qe_decision_id :: string
  qe_state :: trade_idea_state
  qe_instrument :: string
  qe_expires_at :: instant
  qe_deadline_type :: string
  qe_seconds_until_expiry :: int

record queue_status =
  qs_as_of :: instant
  qs_warning_window_hours :: int
  qs_proposed_count :: int
  qs_needs_changes_count :: int
  qs_upcoming :: "queue_expiration list"

text \<open>The times the queue compares; a naive one raises when it meets the aware end of the window.\<close>

fun aware_or_type_error :: "py_datetime \<Rightarrow> instant result" where
  "aware_or_type_error (Aware t) = Inr t"
| "aware_or_type_error (Naive _) = Inl (TypeError ''can't compare offset-naive and offset-aware datetimes'')"

definition queue_expiration_of ::
  "trade_idea_view \<Rightarrow> instant \<Rightarrow> instant \<Rightarrow> risk_budget \<Rightarrow> py_datetime option \<Rightarrow> py_datetime option \<Rightarrow> bool \<Rightarrow>
   queue_expiration option result" where
  "queue_expiration_of v as_of window_end budget started deadline latency_applies =
     rbind (case (if latency_applies then started else None) of
              None \<Rightarrow> Inr None
            | Some start \<Rightarrow>
                rbind (case deadline of
                         Some t \<Rightarrow> Inr t
                       | None \<Rightarrow> shift_time start (hours (rk_max_review_latency_hours budget))) (\<lambda>t.
                rbind (aware_or_type_error t) (\<lambda>u. Inr (Some u)))) (\<lambda>review.
     let deadlines = (case th_expires_at (ti_time_horizon (vw_idea v)) of None \<Rightarrow> [] | Some t \<Rightarrow> [(t, ''time_horizon'')])
                     @ (case review of None \<Rightarrow> [] | Some t \<Rightarrow> [(t, ''review_latency'')]);
         upcoming = filter (\<lambda>(t, _). t \<le> window_end) deadlines
     in Inr (case sort upcoming of
               [] \<Rightarrow> None
             | (t, kind) # _ \<Rightarrow>
                 Some \<lparr>qe_decision_id = ti_decision_id (vw_idea v), qe_state = vw_state v,
                       qe_instrument = ti_instrument (vw_idea v), qe_expires_at = t, qe_deadline_type = kind,
                       qe_seconds_until_expiry = (if t < as_of then 0 else (t - as_of) div seconds 1)\<rparr>))"

definition peek_budget :: "repo \<Rightarrow> risk_budget result" where
  "peek_budget r =
     rbind (budget_current (stream_log BUDGET_LOG r)) (\<lambda>b.
     Inr (case b of None \<Rightarrow> DEFAULT_RISK_BUDGET | Some x \<Rightarrow> x))"

definition peek_autonomy :: "repo \<Rightarrow> autonomy_resolution result" where
  "peek_autonomy r = resolve_autonomy (stream_log AUTONOMY_LOG r)"

definition queue_status_at :: "service_env \<Rightarrow> repo \<Rightarrow> int \<Rightarrow> instant \<Rightarrow> queue_status result" where
  "queue_status_at env r warning_window_hours as_of =
     rbind (add_time as_of (hours warning_window_hours)) (\<lambda>window_end.
     rbind (peek_budget r) (\<lambda>budget.
     rbind (list_view_result env r
              (default_query\<lparr>lq_state := Some PROPOSED, lq_sort_by := Some SortExpiresAt\<rparr>)) (\<lambda>proposed.
     rbind (list_view_result env r
              (default_query\<lparr>lq_state := Some NEEDS_CHANGES, lq_sort_by := Some SortExpiresAt\<rparr>)) (\<lambda>needs.
     rbind (peek_autonomy r) (\<lambda>resolution.
     rbind (rmap (\<lambda>v.
              let started = review_started_at_from_events (vw_events v) in
              rbind (review_deadline env (vw_idea v) started budget) (\<lambda>deadline.
              queue_expiration_of v as_of window_end budget started deadline
                (review_latency_applies (ar_mode resolution)))) (lr_views proposed @ lr_views needs)) (\<lambda>found.
     Inr \<lparr>qs_as_of = as_of, qs_warning_window_hours = warning_window_hours,
          qs_proposed_count = int (length (lr_views proposed)),
          qs_needs_changes_count = int (length (lr_views needs)),
          qs_upcoming = sort_key (\<lambda>q. (qe_expires_at q, qe_decision_id q)) (List.map_filter id found)\<rparr>))))))"

definition queue_status :: "service_env \<Rightarrow> int \<Rightarrow> queue_status act" where
  "queue_status env warning_window_hours =
     abind (aguard (warning_window_hours < 0)
              (ValidationError ''Trade idea queue warning_window_hours must be non-negative'')) (\<lambda>_.
     abind (aclock (en_now env)) (\<lambda>as_of.
     aread (\<lambda>r. queue_status_at env r warning_window_hours as_of)))"

end
