(* ===== verification/Idea_Positions.thy ===== *)
theory Idea_Positions
  imports Idea_Views
begin

text \<open>
  Fill evidence and position operations: \<^verbatim>\<open>fill_evidence.py\<close> and \<^verbatim>\<open>position_operations.py\<close> of
  \<^verbatim>\<open>src/gpt_trader/features/trade_ideas\<close>. The facts of a fill are strings \<^verbatim>\<open>key=value\<close> on the
  audit event that records it; a position is projected from the entry fill, the confirmed
  receipts and the pending intents of the execution journal, and the simulated resolutions.

  The times of a receipt and of a resolution are aware and their quantities finite, which reading
  the journal has checked; a value that is not is a type or arithmetic error here.
\<close>

section \<open>Fill evidence\<close>

record recorded_fill =
  rf_filled_at :: "py_datetime option"
  rf_price :: "dec option"
  rf_quantity :: "dec option"
  rf_venue :: string
  rf_external_order_id :: string
  rf_source :: string
  rf_corrupt_keys :: "string list"

definition FILL_PRICE_EVIDENCE_KEY :: string where "FILL_PRICE_EVIDENCE_KEY = ''fill_price''"
definition FILL_QUANTITY_EVIDENCE_KEY :: string where "FILL_QUANTITY_EVIDENCE_KEY = ''fill_quantity''"
definition FILL_TIME_EVIDENCE_KEY :: string where "FILL_TIME_EVIDENCE_KEY = ''fill_time''"

definition encode_fill_evidence ::
  "service_env \<Rightarrow> dec option \<Rightarrow> dec option \<Rightarrow> py_datetime option \<Rightarrow> string list" where
  "encode_fill_evidence env price quantity filled_at =
     (case price of None \<Rightarrow> []
      | Some p \<Rightarrow> [FILL_PRICE_EVIDENCE_KEY @ ''='' @ en_decimal_text env p])
     @ (case quantity of None \<Rightarrow> []
        | Some q \<Rightarrow> [FILL_QUANTITY_EVIDENCE_KEY @ ''='' @ en_decimal_text env q])
     @ (case filled_at of None \<Rightarrow> []
        | Some t \<Rightarrow> [FILL_TIME_EVIDENCE_KEY @ ''='' @ en_time_text env (as_utc t)])"

definition filled_event :: "trade_idea_view \<Rightarrow> audit_event option" where
  "filled_event v = find (\<lambda>e. ae_action e = ACT_FILLED) (rev (vw_events v))"

text \<open>\<^verbatim>\<open>item.startswith(prefix)\<close> and \<^verbatim>\<open>item[len(prefix):]\<close> of the first item that does.\<close>

definition starts_with :: "string \<Rightarrow> string \<Rightarrow> bool" where
  "starts_with prefix item \<longleftrightarrow> take (length prefix) item = prefix"

definition evidence_value :: "audit_event \<Rightarrow> string \<Rightarrow> string option" where
  "evidence_value e key =
     (let prefix = key @ ''='' in
      map_option (drop (length prefix)) (find (starts_with prefix) (ae_evidence e)))"

text \<open>A decoded value and the keys found corrupt.\<close>

definition decimal_evidence :: "audit_event \<Rightarrow> string \<Rightarrow> dec option \<times> string list" where
  "decimal_evidence e key =
     (case evidence_value e key of
        None \<Rightarrow> (None, [])
      | Some raw \<Rightarrow>
          (case decimal_of_text raw of
             Some (Finite x) \<Rightarrow> (Some x, [])
           | _ \<Rightarrow> (None, [key])))"

definition datetime_evidence :: "service_env \<Rightarrow> audit_event \<Rightarrow> string \<Rightarrow> instant option \<times> string list" where
  "datetime_evidence env e key =
     (case evidence_value e key of
        None \<Rightarrow> (None, [])
      | Some raw \<Rightarrow>
          (case en_fromiso env raw of
             Some (Aware t) \<Rightarrow> (Some t, [])
           | _ \<Rightarrow> (None, [key])))"

definition recorded_fill_from_view :: "service_env \<Rightarrow> trade_idea_view \<Rightarrow> recorded_fill option" where
  "recorded_fill_from_view env v =
     map_option (\<lambda>e.
       case (decimal_evidence e FILL_PRICE_EVIDENCE_KEY, decimal_evidence e FILL_QUANTITY_EVIDENCE_KEY,
             datetime_evidence env e FILL_TIME_EVIDENCE_KEY) of
         ((price, c1), (quantity, c2), (filled_at, c3)) \<Rightarrow>
           \<lparr>rf_filled_at = Some (case filled_at of None \<Rightarrow> ae_timestamp e | Some t \<Rightarrow> Aware t),
            rf_price = price, rf_quantity = quantity, rf_venue = ae_venue e,
            rf_external_order_id = ae_external_order_id e,
            rf_source = (if price \<noteq> None \<or> quantity \<noteq> None \<or> filled_at \<noteq> None \<or> c1 @ c2 @ c3 \<noteq> []
                         then ''audit_evidence'' else ''audit_event''),
            rf_corrupt_keys = c1 @ c2 @ c3\<rparr>) (filled_event v)"

text \<open>\<^verbatim>\<open>fill is None or fill.quantity != ... or fill.filled_at != ...\<close> against a receipt.\<close>

definition fill_conflicts :: "recorded_fill option \<Rightarrow> payload \<Rightarrow> bool result" where
  "fill_conflicts fill receipt =
     (case fill of
        None \<Rightarrow> Inr True
      | Some f \<Rightarrow>
          rbind (rbind (jget receipt ''quantity'') decimal_ctor) (\<lambda>quantity.
          if map_option Finite (rf_quantity f) \<noteq> Some quantity then Inr True
          else rbind (rbind (jget receipt ''price'') decimal_ctor) (\<lambda>price.
          if map_option Finite (rf_price f) \<noteq> Some price then Inr True
          else rbind (jget receipt ''order_id'') (\<lambda>order.
          if JStr (rf_external_order_id f) \<noteq> order then Inr True
          else rbind (rbind (jget receipt ''filled_at'') jdatetime) (\<lambda>t.
          Inr (rf_filled_at f \<noteq> Some t))))))"

section \<open>Positions\<close>

record reduction_fact =
  rd_operation_id :: string
  rd_quantity :: dec
  rd_price :: dec
  rd_timestamp :: instant
  rd_source :: string
  rd_resolution :: closeout_resolution

record paper_position =
  pp_idea :: trade_idea
  pp_entry_quantity :: dec
  pp_entry_price :: dec
  pp_remaining :: dec
  pp_reserved :: dec
  pp_reductions :: "reduction_fact list"

definition available :: "paper_position \<Rightarrow> dec" where
  "available p = dsub (pp_remaining p) (pp_reserved p)"

definition realized_amount :: "paper_position \<Rightarrow> reduction_fact \<Rightarrow> dec" where
  "realized_amount p f =
     (let move = dsub (rd_price f) (pp_entry_price p) in
      dmul (rd_quantity f) (if ti_direction (pp_idea p) = LONG then move else dneg move))"

definition realized_total :: "paper_position \<Rightarrow> dec" where
  "realized_total p = dsum (map (realized_amount p) (pp_reductions p))"

record execution_snapshot =
  xs_entries :: "(string \<times> journal_entry) list"
  xs_resolutions :: "payload list"
  xs_views :: "(string \<times> trade_idea_view) list"

definition journal_integrity :: "string \<Rightarrow> py_error" where
  "journal_integrity m = ExecutionJournalIntegrityError m"

text \<open>The decisions that an operation or a resolution targets.\<close>

definition snapshot_targets :: "(string \<times> journal_entry) list \<Rightarrow> payload list \<Rightarrow> string list result" where
  "snapshot_targets entries resolutions =
     rbind (rmap (\<lambda>(d, e). rbind (order_intent_from_dict (je_intent e)) (\<lambda>i.
              Inr (map_option po_target_decision_id (oi_position_operation i)))) entries) (\<lambda>ops.
     rbind (rmap (\<lambda>p. rbind (jget p ''target_decision_id'') jstr) resolutions) (\<lambda>simulated.
     Inr (List.map_filter id ops @ simulated)))"

definition group_events :: "audit_event list \<Rightarrow> (string \<times> audit_event list) list" where
  "group_events events =
     foldl (\<lambda>m e. AList.update (ae_decision_id e)
                    ((case map_of m (ae_decision_id e) of None \<Rightarrow> [] | Some es \<Rightarrow> es) @ [e]) m) [] events"

definition targeted_entry :: "journal_entry \<Rightarrow> bool" where
  "targeted_entry e \<longleftrightarrow> map_of (je_intent e) ''position_operation'' \<noteq> None"

definition snapshot_view ::
  "service_env \<Rightarrow> repo \<Rightarrow> (string \<times> journal_entry) list \<Rightarrow> string list \<Rightarrow> string \<times> audit_event list \<Rightarrow>
   (string \<times> trade_idea_view) option result" where
  "snapshot_view env r entries targets x =
     (case x of (d, events) \<Rightarrow>
        rbind (load_record_version env r d (ae_record_hash (last events))) (\<lambda>i.
        let admitted = ti_position_operation i \<noteq> None
              \<and> list_ex (\<lambda>e. ae_action e \<in> {ACT_SUBMITTED, ACT_FILLED}) events;
            intended = (case map_of entries d of None \<Rightarrow> False | Some e \<Rightarrow> targeted_entry e)
        in if admitted \<or> intended \<or> d \<in> set targets
           then rbind (get_view env r d) (\<lambda>v. Inr (Some (d, v)))
           else Inr None))"

text \<open>The checks on a targeted view.\<close>

definition check_operation_view ::
  "service_env \<Rightarrow> (string \<times> journal_entry) list \<Rightarrow> trade_idea_view \<Rightarrow> unit result" where
  "check_operation_view env entries v =
     (if ti_position_operation (vw_idea v) = None then Inr ()
      else
        let submissions = filter (\<lambda>e. ae_action e = ACT_SUBMITTED) (vw_events v) in
        case map_of entries (ti_decision_id (vw_idea v)) of
          None \<Rightarrow>
            raise_if (submissions \<noteq> []) (journal_integrity ''Admitted reduction is missing its audit or journal intent'')
        | Some entry \<Rightarrow>
            rbind (raise_if (submissions = [])
                     (journal_integrity ''Admitted reduction is missing its audit or journal intent'')) (\<lambda>_.
            rbind (validate_binding (en_rhash env) entry (vw_idea v)) (\<lambda>_.
            rbind (case je_receipt entry of
                     None \<Rightarrow> Inr False
                   | Some receipt \<Rightarrow>
                       rbind (rbind (jget receipt ''filled_at'') jdatetime) (\<lambda>t.
                       datetime_less t (ae_timestamp (last submissions)))) (\<lambda>early.
            rbind (raise_if early (journal_integrity ''Reduction receipt precedes recorded submission'')) (\<lambda>_.
            if vw_state v = FILLED
            then rbind (case je_receipt entry of
                          None \<Rightarrow> Inr True
                        | Some receipt \<Rightarrow>
                            rbind (jget receipt ''status'') (\<lambda>status.
                            if status \<noteq> JStr ''filled'' then Inr True
                            else fill_conflicts (recorded_fill_from_view env v) receipt)) (\<lambda>conflict.
                 raise_if conflict (journal_integrity ''Audited reduction fill conflicts with durable receipt''))
            else raise_if (je_reconciled entry) (journal_integrity ''Reconciled reduction has no audited fill''))))))"

definition execution_snapshot_of :: "service_env \<Rightarrow> repo \<Rightarrow> string option \<Rightarrow> execution_snapshot result" where
  "execution_snapshot_of env r requested =
     rbind (journal_entries (en_phash env) (stream_log EXECUTION_LOG r)) (\<lambda>entries.
     rbind (simulated_resolutions (en_phash env) (stream_log EXECUTION_LOG r)) (\<lambda>resolutions.
     rbind (snapshot_targets entries resolutions) (\<lambda>targets0.
     let targets = targets0 @ (case requested of None \<Rightarrow> [] | Some t \<Rightarrow> [t]) in
     rbind (audit_read_events (stream_log AUDIT_LOG r) None) (\<lambda>events.
     rbind (rmap (snapshot_view env r entries targets) (group_events events)) (\<lambda>found.
     let views = List.map_filter id found in
     rbind (rmap (\<lambda>(d, v). check_operation_view env entries v) views) (\<lambda>_.
     rbind (rmap (\<lambda>(d, e). raise_if (targeted_entry e \<and> map_of views (je_decision_id e) = None)
                             (journal_integrity ''Reduction intent has no audited operation'')) entries) (\<lambda>_.
     Inr \<lparr>xs_entries = entries, xs_resolutions = resolutions, xs_views = views\<rparr>)))))))"

definition validate_target_identity :: "service_env \<Rightarrow> trade_idea \<Rightarrow> trade_idea \<Rightarrow> unit result" where
  "validate_target_identity env target operation_idea =
     raise_if (case ti_position_operation operation_idea of
                 None \<Rightarrow> True
               | Some p \<Rightarrow>
                   po_target_record_hash p \<noteq> en_rhash env target
                   \<or> po_target_decision_id p \<noteq> ti_decision_id target
                   \<or> ti_instrument operation_idea \<noteq> ti_instrument target
                   \<or> ti_product_type operation_idea \<noteq> ti_product_type target
                   \<or> ti_direction operation_idea \<noteq> ti_direction target)
       (journal_integrity ''Position operation conflicts with immutable target'')"

text \<open>A Decimal of the validated journal.\<close>

fun finite_decimal :: "py_decimal \<Rightarrow> dec result" where
  "finite_decimal (Finite x) = Inr x"
| "finite_decimal NonFinite = Inl (ArithmeticError ''InvalidOperation'')"

definition decimal_field :: "payload \<Rightarrow> string \<Rightarrow> dec result" where
  "decimal_field p k = rbind (rbind (jget p k) decimal_ctor) finite_decimal"

definition time_field :: "payload \<Rightarrow> string \<Rightarrow> instant result" where
  "time_field p k = rbind (rbind (jget p k) jdatetime) aware_or_type_error"

definition zero_fill_status :: "json \<Rightarrow> bool" where
  "zero_fill_status s \<longleftrightarrow> s \<in> {JStr ''rejected'', JStr ''cancelled'', JStr ''expired''}"

text \<open>One journal entry of the loop of \<^verbatim>\<open>_position_from_snapshot\<close>.\<close>

definition position_entry ::
  "service_env \<Rightarrow> execution_snapshot \<Rightarrow> trade_idea \<Rightarrow> reduction_fact list \<times> dec \<Rightarrow> string \<times> journal_entry \<Rightarrow>
   (reduction_fact list \<times> dec) result" where
  "position_entry env snapshot idea acc x =
     (case x of (_, entry) \<Rightarrow>
        rbind (order_intent_from_dict (je_intent entry)) (\<lambda>intent.
        case oi_position_operation intent of
          None \<Rightarrow> Inr acc
        | Some op \<Rightarrow>
            if po_target_decision_id op \<noteq> ti_decision_id idea then Inr acc
            else
              rbind (raise_if (po_target_record_hash op \<noteq> en_rhash env idea)
                       (journal_integrity ''Reduction target hash conflicts with entry'')) (\<lambda>_.
              rbind (case map_of (xs_views snapshot) (je_decision_id entry) of
                       None \<Rightarrow> Inl (KeyError (je_decision_id entry)) | Some v \<Rightarrow> Inr v) (\<lambda>v.
              rbind (validate_binding (en_rhash env) entry (vw_idea v)) (\<lambda>_.
              rbind (validate_target_identity env idea (vw_idea v)) (\<lambda>_.
              rbind (case je_receipt entry of
                       None \<Rightarrow> Inr None
                     | Some receipt \<Rightarrow> rbind (jget receipt ''status'') (\<lambda>s. Inr (Some (receipt, s)))) (\<lambda>settled.
              case settled of
                Some (receipt, status) \<Rightarrow>
                  if status = JStr ''filled''
                  then rbind (decimal_field receipt ''quantity'') (\<lambda>q.
                       rbind (decimal_field receipt ''price'') (\<lambda>price.
                       rbind (time_field receipt ''filled_at'') (\<lambda>t.
                       rbind (closeout_resolution_of (po_resolution op)) (\<lambda>res.
                       Inr (fst acc @ [\<lparr>rd_operation_id = je_decision_id entry, rd_quantity = q, rd_price = price,
                              rd_timestamp = t, rd_source = ''paper_broker_receipt'', rd_resolution = res\<rparr>], snd acc)))))
                  else if zero_fill_status status
                  then rbind (decimal_field receipt ''quantity'') (\<lambda>q.
                       if q = 0 then Inr acc
                       else rbind (finite_decimal (oi_quantity intent)) (\<lambda>want. Inr (fst acc, dadd (snd acc) want)))
                  else rbind (finite_decimal (oi_quantity intent)) (\<lambda>want. Inr (fst acc, dadd (snd acc) want))
              | None \<Rightarrow> rbind (finite_decimal (oi_quantity intent)) (\<lambda>want. Inr (fst acc, dadd (snd acc) want)))))))))"

definition position_resolution ::
  "service_env \<Rightarrow> trade_idea \<Rightarrow> reduction_fact list \<Rightarrow> payload \<Rightarrow> reduction_fact list result" where
  "position_resolution env idea facts p =
     rbind (jget p ''target_decision_id'') (\<lambda>target.
     if target \<noteq> JStr (ti_decision_id idea) then Inr facts
     else rbind (jget p ''target_record_hash'') (\<lambda>th.
          rbind (raise_if (th \<noteq> JStr (en_rhash env idea))
                   (journal_integrity ''Simulated resolution target hash conflicts'')) (\<lambda>_.
          rbind (rbind (jget p ''operation_id'') jstr) (\<lambda>op.
          rbind (decimal_field p ''quantity'') (\<lambda>q.
          rbind (decimal_field p ''price'') (\<lambda>price.
          rbind (time_field p ''resolved_at'') (\<lambda>t.
          rbind (rbind (jget p ''resolution'') (jenum closeout_resolution_of)) (\<lambda>res.
          Inr (facts @ [\<lparr>rd_operation_id = op, rd_quantity = q, rd_price = price, rd_timestamp = t,
                 rd_source = ''simulated_candle_resolution'', rd_resolution = res\<rparr>])))))))))"

definition latest_fact :: "reduction_fact list \<Rightarrow> instant result" where
  "latest_fact facts =
     (case map rd_timestamp facts of
        [] \<Rightarrow> Inl (ValueError ''max() arg is an empty sequence'')
      | t # rest \<Rightarrow> Inr (foldl max t rest))"

text \<open>The entry that a position needs: a confirmed fill of a directional entry.\<close>

definition entry_fill :: "service_env \<Rightarrow> trade_idea_view \<Rightarrow> (dec \<times> dec \<times> py_datetime) option" where
  "entry_fill env v =
     (case recorded_fill_from_view env v of
        None \<Rightarrow> None
      | Some f \<Rightarrow>
          (case (rf_quantity f, rf_price f, rf_filled_at f) of
             (Some q, Some p, Some t) \<Rightarrow>
               if vw_state v = FILLED \<and> ti_position_operation (vw_idea v) = None
                  \<and> ti_direction (vw_idea v) \<in> {LONG, SHORT} \<and> rf_corrupt_keys f = [] \<and> 0 < q \<and> 0 < p
               then Some (q, p, t) else None
           | _ \<Rightarrow> None))"

text \<open>The final attribution of the entry against the projected facts.\<close>

definition attributed_position :: "trade_idea_view \<Rightarrow> paper_position \<Rightarrow> paper_position result" where
  "attributed_position v projected =
     (case vw_closeout v of
        None \<Rightarrow> Inr projected
      | Some c \<Rightarrow>
          if pp_reductions projected \<noteq> [] \<or> pp_reserved projected \<noteq> 0
          then if pp_remaining projected \<noteq> 0 \<or> pp_reserved projected \<noteq> 0
                  \<or> co_realized_amount c \<noteq> Some (realized_total projected)
               then Inl (journal_integrity ''Final attribution conflicts with position facts'')
               else rbind (latest_fact (pp_reductions projected)) (\<lambda>t.
                    rbind (raise_if (co_timestamp c \<noteq> t)
                             (journal_integrity ''Final attribution conflicts with position facts'')) (\<lambda>_.
                    Inr projected))
          else Inr (projected\<lparr>pp_remaining := 0\<rparr>))"

definition position_from_snapshot ::
  "service_env \<Rightarrow> execution_snapshot \<Rightarrow> string \<Rightarrow> paper_position result" where
  "position_from_snapshot env snapshot target =
     (case map_of (xs_views snapshot) target of
        None \<Rightarrow> Inl (journal_integrity ''Admitted reduction target is missing'')
      | Some v \<Rightarrow>
          (case entry_fill env v of
             None \<Rightarrow> Inl (journal_integrity ''Target requires a confirmed entry quantity and basis'')
           | Some (entry_quantity, entry_price, filled_at) \<Rightarrow>
               rbind (rfold (position_entry env snapshot (vw_idea v)) ([], 0) (xs_entries snapshot)) (\<lambda>(facts0, reserved).
               rbind (rfold (position_resolution env (vw_idea v)) facts0 (xs_resolutions snapshot)) (\<lambda>facts.
               rbind (rmap (\<lambda>f. rbind (datetime_less (Aware (rd_timestamp f)) filled_at) (\<lambda>early.
                        raise_if early (journal_integrity ''Reduction precedes its target entry fill''))) facts) (\<lambda>_.
               let remaining = dsub entry_quantity (dsum (map rd_quantity facts));
                   projected = \<lparr>pp_idea = vw_idea v, pp_entry_quantity = entry_quantity, pp_entry_price = entry_price,
                                pp_remaining = remaining, pp_reserved = reserved, pp_reductions = facts\<rparr>
               in rbind (raise_if (remaining < 0 \<or> reserved < 0 \<or> remaining < reserved)
                           (journal_integrity ''Paper reductions exceed the target quantity'')) (\<lambda>_.
                  attributed_position v projected))))))"

definition position :: "service_env \<Rightarrow> repo \<Rightarrow> string \<Rightarrow> paper_position result" where
  "position env r target =
     rbind (execution_snapshot_of env r (Some target)) (\<lambda>snapshot.
     position_from_snapshot env snapshot target)"

definition positions :: "service_env \<Rightarrow> repo \<Rightarrow> (string \<times> paper_position) list result" where
  "positions env r =
     rbind (execution_snapshot_of env r None) (\<lambda>snapshot.
     rbind (snapshot_targets (xs_entries snapshot) (xs_resolutions snapshot)) (\<lambda>targets.
     rmap (\<lambda>t. rbind (position_from_snapshot env snapshot t) (\<lambda>p. Inr (t, p))) (sort (remdups targets))))"

section \<open>Operations on a target\<close>

fun direction_side :: "trade_direction \<Rightarrow> bool \<Rightarrow> order_side" where
  "direction_side d opening = (if (d = LONG) = opening then BUY else SELL)"

text \<open>The admission checks of a reduction; the quantity it may take.\<close>

definition reduction_quantity :: "service_env \<Rightarrow> repo \<Rightarrow> trade_idea \<Rightarrow> position_operation \<Rightarrow> dec result" where
  "reduction_quantity env r i op =
     rbind (rewrap unknown_idea (PositionOperationAdmissionError ''Reduction target is unknown'')
              (get_view env r (po_target_decision_id op))) (\<lambda>target.
     rbind (rewrap (\<lambda>_. True) (PositionOperationAdmissionError ''Position operation conflicts with immutable target'')
              (validate_target_identity env (vw_idea target) i)) (\<lambda>_.
     rbind (raise_if (vw_state target \<noteq> FILLED \<or> ti_position_operation (vw_idea target) \<noteq> None
                      \<or> (case recorded_fill_from_view env target of
                           None \<Rightarrow> True
                         | Some f \<Rightarrow> rf_price f = None \<or> rf_quantity f = None \<or> rf_filled_at f = None
                                     \<or> rf_corrupt_keys f \<noteq> []))
              (PositionOperationAdmissionError ''Target requires a confirmed entry quantity and basis'')) (\<lambda>_.
     rbind (raise_if (vw_closeout target \<noteq> None)
              (PositionOperationAdmissionError ''Position already has a final closeout'')) (\<lambda>_.
     rbind (position env r (po_target_decision_id op)) (\<lambda>projected.
     let requested = sr_quantity (ti_sizing i) in
     rbind (raise_if (po_action op = ''close'' \<and> requested \<noteq> None \<and> requested \<noteq> Some (available projected))
              (PositionOperationAdmissionError ''Close quantity must equal unreserved remainder'')) (\<lambda>_.
     case (if po_action op = ''close'' then Some (available projected) else requested) of
       None \<Rightarrow> Inl (PositionOperationAdmissionError ''Reduction exceeds unreserved target quantity'')
     | Some q \<Rightarrow>
         rbind (raise_if (q \<le> 0 \<or> available projected < q)
                  (PositionOperationAdmissionError ''Reduction exceeds unreserved target quantity'')) (\<lambda>_.
         Inr q)))))))"

definition intent_for_idea :: "service_env \<Rightarrow> repo \<Rightarrow> trade_idea \<Rightarrow> order_intent result" where
  "intent_for_idea env r i =
     rbind (case ti_position_operation i of
              None \<Rightarrow> Inr (sr_quantity (ti_sizing i))
            | Some op \<Rightarrow> rbind (reduction_quantity env r i op) (\<lambda>q. Inr (Some q))) (\<lambda>quantity.
     case quantity of
       None \<Rightarrow> Inl (PositionOperationAdmissionError ''Paper intent requires direction and quantity'')
     | Some q \<Rightarrow>
         rbind (raise_if (ti_direction i \<notin> {LONG, SHORT})
                  (PositionOperationAdmissionError ''Paper intent requires direction and quantity'')) (\<lambda>_.
         new_order_intent
           \<lparr>oi_client_order_id = ti_decision_id i, oi_symbol = ti_instrument i,
            oi_side = direction_side (ti_direction i) (ti_position_operation i = None),
            oi_order_type = MARKET, oi_quantity = Finite q, oi_price = None, oi_stop_price = None, oi_tif = None,
            oi_reduce_only = (ti_position_operation i \<noteq> None), oi_leverage = None,
            oi_position_operation = ti_position_operation i\<rparr>))"

text \<open>
  \<^verbatim>\<open>scaled_idea\<close>. The copy is validated again by the constructors; a non-negative ratio keeps every
  value they accept.
\<close>

definition scaled_idea :: "trade_idea \<Rightarrow> dec \<Rightarrow> trade_idea" where
  "scaled_idea i ratio =
     (let scaled = map_option (\<lambda>v. dmul v ratio) in
      i\<lparr>ti_max_loss := (ti_max_loss i)\<lparr>ml_amount := scaled (ml_amount (ti_max_loss i)),
           ml_percent_of_account := scaled (ml_percent_of_account (ti_max_loss i))\<rparr>,
        ti_sizing := (ti_sizing i)\<lparr>sr_quantity := scaled (sr_quantity (ti_sizing i)),
           sr_notional := scaled (sr_notional (ti_sizing i))\<rparr>\<rparr>)"

definition reduction_record :: "service_env \<Rightarrow> paper_position \<Rightarrow> reduction_fact \<Rightarrow> trade_idea \<times> closeout_attribution" where
  "reduction_record env p f =
     (let i = pp_idea p;
          portion = scaled_idea i (dquot (rd_quantity f) (pp_entry_quantity p))
      in (portion\<lparr>ti_sizing := (ti_sizing portion)\<lparr>sr_quantity := Some (rd_quantity f),
            sr_notional := Some (dmul (rd_quantity f) (pp_entry_price p))\<rparr>\<rparr>,
          \<lparr>co_decision_id = ti_decision_id i, co_timestamp = rd_timestamp f, co_actor_type = ''system'',
           co_actor_id = rd_source f, co_terminal_event_id = rd_operation_id f, co_record_hash = en_rhash env i,
           co_resolution = rd_resolution f, co_max_loss = max_loss_snapshot_for i,
           co_realized_amount = Some (realized_amount p f), co_realized_percent = None,
           co_unavailable_reason = [],
           co_evidence = en_text env (ReductionEvidence (rd_operation_id f) (rd_quantity f) (pp_entry_price p)
                           (rd_price f) (rd_source f))\<rparr>))"

definition reduction_records :: "service_env \<Rightarrow> repo \<Rightarrow> (trade_idea \<times> closeout_attribution) list result" where
  "reduction_records env r =
     rbind (positions env r) (\<lambda>ps.
     Inr (concat (map (\<lambda>(t, p). map (reduction_record env p) (pp_reductions p)) ps)))"

section \<open>Lemmas\<close>

lemma find_append: "find P (xs @ ys) = (case find P xs of None \<Rightarrow> find P ys | Some x \<Rightarrow> Some x)"
  by (induction xs) auto

lemma starts_with_append [simp]: "starts_with prefix (prefix @ rest)"
  by (simp add: starts_with_def)

text \<open>The three keys do not start one another.\<close>

lemma evidence_keys:
  "\<not> starts_with ''fill_quantity='' (''fill_price='' @ a)"
  "\<not> starts_with ''fill_time='' (''fill_price='' @ a)"
  "\<not> starts_with ''fill_time='' (''fill_quantity='' @ a)"
  "\<not> starts_with ''fill_price='' (''fill_quantity='' @ a)"
  "\<not> starts_with ''fill_price='' (''fill_time='' @ a)"
  "\<not> starts_with ''fill_quantity='' (''fill_time='' @ a)"
  by (simp_all add: starts_with_def)

lemmas evidence_key_defs = FILL_PRICE_EVIDENCE_KEY_def FILL_QUANTITY_EVIDENCE_KEY_def FILL_TIME_EVIDENCE_KEY_def

lemma evidence_value_encoded:
  assumes "ae_evidence e = encode_fill_evidence env price quantity filled_at @ extra"
    and "\<And>k x. k \<in> {FILL_PRICE_EVIDENCE_KEY, FILL_QUANTITY_EVIDENCE_KEY, FILL_TIME_EVIDENCE_KEY}
           \<Longrightarrow> x \<in> set extra \<Longrightarrow> \<not> starts_with (k @ ''='') x"
  shows "evidence_value e FILL_PRICE_EVIDENCE_KEY = map_option (en_decimal_text env) price"
    and "evidence_value e FILL_QUANTITY_EVIDENCE_KEY = map_option (en_decimal_text env) quantity"
    and "evidence_value e FILL_TIME_EVIDENCE_KEY = map_option (\<lambda>t. en_time_text env (as_utc t)) filled_at"
proof -
  have none: "find (starts_with (k @ ''='')) extra = None"
    if "k \<in> {FILL_PRICE_EVIDENCE_KEY, FILL_QUANTITY_EVIDENCE_KEY, FILL_TIME_EVIDENCE_KEY}" for k
    using assms(2)[OF that] by (simp add: find_None_iff)
  note none' = none[of FILL_PRICE_EVIDENCE_KEY] none[of FILL_QUANTITY_EVIDENCE_KEY] none[of FILL_TIME_EVIDENCE_KEY]
  show "evidence_value e FILL_PRICE_EVIDENCE_KEY = map_option (en_decimal_text env) price"
    and "evidence_value e FILL_QUANTITY_EVIDENCE_KEY = map_option (en_decimal_text env) quantity"
    and "evidence_value e FILL_TIME_EVIDENCE_KEY = map_option (\<lambda>t. en_time_text env (as_utc t)) filled_at"
    using none'
    by (cases price; cases quantity; cases filled_at;
        simp add: evidence_value_def assms(1) encode_fill_evidence_def evidence_key_defs
          evidence_keys[simplified] starts_with_def)+
qed

lemma decimal_evidence_encoded:
  assumes "evidence_value e key = map_option (en_decimal_text env) x"
    and "\<And>y. x = Some y \<Longrightarrow> decimal_of_text (en_decimal_text env y) = Some (Finite y)"
  shows "decimal_evidence e key = (x, [])"
  using assms by (cases x) (simp_all add: decimal_evidence_def)

lemma datetime_evidence_encoded:
  assumes "evidence_value e key = map_option (\<lambda>t. en_time_text env (as_utc t)) x"
    and "\<And>t. x = Some t \<Longrightarrow> en_fromiso env (en_time_text env (as_utc t)) = Some (Aware (as_utc t))"
  shows "datetime_evidence env e key = (map_option as_utc x, [])"
  using assms by (cases x) (simp_all add: datetime_evidence_def)

section \<open>The facts of a fill survive the audit log\<close>

text \<open>
  C39: The facts of a fill written as evidence on the audit event that records it are the facts
  that are read back: price, quantity and time, each exactly where it was known, whatever other
  evidence follows, and nothing is reported corrupt. A fact that was unknown stays unknown, and
  an unknown time is the time of the event. The hypotheses are that the text of each known Decimal
  parses to it and that the ISO text of the known time parses to it.
\<close>

theorem fill_evidence_roundtrip:
  assumes "filled_event v = Some e"
    and "ae_evidence e = encode_fill_evidence env price quantity filled_at @ extra"
    and "\<And>k x. k \<in> {FILL_PRICE_EVIDENCE_KEY, FILL_QUANTITY_EVIDENCE_KEY, FILL_TIME_EVIDENCE_KEY}
           \<Longrightarrow> x \<in> set extra \<Longrightarrow> \<not> starts_with (k @ ''='') x"
    and "\<And>x. x \<in> set_option price \<union> set_option quantity
           \<Longrightarrow> decimal_of_text (en_decimal_text env x) = Some (Finite x)"
    and "\<And>t. filled_at = Some t \<Longrightarrow> en_fromiso env (en_time_text env (as_utc t)) = Some (Aware (as_utc t))"
  shows "recorded_fill_from_view env v = Some
    \<lparr>rf_filled_at = Some (case filled_at of None \<Rightarrow> ae_timestamp e | Some t \<Rightarrow> Aware (as_utc t)),
     rf_price = price, rf_quantity = quantity, rf_venue = ae_venue e,
     rf_external_order_id = ae_external_order_id e,
     rf_source = (if price \<noteq> None \<or> quantity \<noteq> None \<or> filled_at \<noteq> None then ''audit_evidence'' else ''audit_event''),
     rf_corrupt_keys = []\<rparr>"
proof -
  note vals = evidence_value_encoded[OF assms(2,3)]
  have "decimal_evidence e FILL_PRICE_EVIDENCE_KEY = (price, [])"
    using decimal_evidence_encoded[OF vals(1)] assms(4) by auto
  moreover have "decimal_evidence e FILL_QUANTITY_EVIDENCE_KEY = (quantity, [])"
    using decimal_evidence_encoded[OF vals(2)] assms(4) by auto
  moreover have "datetime_evidence env e FILL_TIME_EVIDENCE_KEY = (map_option as_utc filled_at, [])"
    using datetime_evidence_encoded[OF vals(3)] assms(5) by auto
  ultimately show ?thesis
    by (cases filled_at) (simp_all add: recorded_fill_from_view_def assms(1))
qed

definition ex_env :: service_env where
  "ex_env =
     \<lparr>en_now = (\<lambda>n. hours (int n)), en_event_id = (\<lambda>n. ''event-'' @ replicate n (CHR ''x'')),
      en_rhash = (\<lambda>i. replicate 64 (CHR ''a'')), en_phash = (\<lambda>p. concat (map fst p)),
      en_calendar = get_calendar_for_instrument (\<lambda>_. ex_exchange),
      en_fromiso = (\<lambda>t. if t = ''1970-01-01T03:00:00+00:00'' then Some (Aware (hours 3)) else None),
      en_decimal_text = (\<lambda>x. if x = 3 / 2 then ''1.5'' else str_nat (nat \<lfloor>x\<rfloor>)),
      en_time_text = (\<lambda>t. ''1970-01-01T03:00:00+00:00''),
      en_text = (\<lambda>_. [''rendered'']), en_auto_approval = False\<rparr>"

definition ex_filled_event :: audit_event where
  "ex_filled_event =
     \<lparr>ae_event_id = ''e4'', ae_timestamp = Aware (hours 4), ae_decision_id = ''d'', ae_actor_type = VENUE,
      ae_actor_id = ''paper'', ae_action = ACT_FILLED, ae_before_state = Some SUBMITTED, ae_after_state = FILLED,
      ae_reason = ''fill'', ae_record_hash = ''h'',
      ae_evidence = encode_fill_evidence ex_env (Some (3 / 2)) (Some 2) (Some (Naive (hours 3))) @ [''venue=paper''],
      ae_venue = ''paper'', ae_external_order_id = ''order-1''\<rparr>"

definition ex_filled_view :: trade_idea_view where
  "ex_filled_view = \<lparr>vw_idea = ex_idea, vw_state = FILLED, vw_events = [ex_filled_event], vw_closeout = None\<rparr>"

theorem fill_evidence_roundtrip_witness:
  "map_option (\<lambda>f. (rf_price f, rf_quantity f, rf_filled_at f, rf_corrupt_keys f)) (recorded_fill_from_view ex_env ex_filled_view)
   = Some (Some (3 / 2), Some 2, Some (Aware (hours 3)), [])"
proof -
  have t: "decimal_of_text (en_decimal_text ex_env (3 / 2)) = Some (Finite (3 / 2))"
      "decimal_of_text (en_decimal_text ex_env 2) = Some (Finite 2)"
    by code_simp+
  have keys: "\<not> starts_with (k @ ''='') x"
    if "k \<in> {FILL_PRICE_EVIDENCE_KEY, FILL_QUANTITY_EVIDENCE_KEY, FILL_TIME_EVIDENCE_KEY}" "x \<in> set [''venue=paper'']" for k x
    using that by (auto simp: evidence_key_defs starts_with_def)
  have "recorded_fill_from_view ex_env ex_filled_view = Some
    \<lparr>rf_filled_at = Some (case Some (Naive (hours 3)) of None \<Rightarrow> ae_timestamp ex_filled_event | Some t \<Rightarrow> Aware (as_utc t)),
     rf_price = Some (3 / 2), rf_quantity = Some 2, rf_venue = ae_venue ex_filled_event,
     rf_external_order_id = ae_external_order_id ex_filled_event,
     rf_source = (if Some (3 / 2 :: dec) \<noteq> None \<or> Some (2 :: dec) \<noteq> None \<or> Some (Naive (hours 3)) \<noteq> None
        then ''audit_evidence'' else ''audit_event''),
     rf_corrupt_keys = []\<rparr>"
    by (rule fill_evidence_roundtrip[where extra = "[''venue=paper'']"])
      (use t keys in \<open>auto simp: filled_event_def ex_filled_view_def ex_filled_event_def ex_env_def\<close>)
  then show ?thesis by simp
qed

section \<open>A reduction stays within its position\<close>

text \<open>What a projected position satisfies.\<close>

lemma attributed_position_cases:
  assumes "attributed_position v p = Inr p'"
  shows "p' = p \<or> pp_reductions p = [] \<and> pp_reserved p = 0 \<and> p' = p\<lparr>pp_remaining := 0\<rparr>"
  using assms by (auto simp: attributed_position_def split: option.split_asm if_splits)

lemma position_from_snapshot_bounds:
  assumes "position_from_snapshot env snapshot target = Inr p"
  shows "0 \<le> pp_reserved p \<and> pp_reserved p \<le> pp_remaining p \<and> 0 < pp_entry_quantity p \<and> 0 < pp_entry_price p
    \<and> (pp_remaining p = dsub (pp_entry_quantity p) (dsum (map rd_quantity (pp_reductions p)))
       \<or> pp_remaining p = 0 \<and> pp_reductions p = [])"
proof -
  from assms obtain v where v: "map_of (xs_views snapshot) target = Some v"
    by (auto simp: position_from_snapshot_def split: option.split_asm)
  from assms v obtain q pr t where f: "entry_fill env v = Some (q, pr, t)"
    by (auto simp: position_from_snapshot_def split: option.split_asm)
  then have pos: "0 < q" "0 < pr"
    by (auto simp: entry_fill_def split: option.split_asm if_splits)
  from assms v f obtain facts reserved where
    ok: "\<not> (dsub q (dsum (map rd_quantity facts)) < 0 \<or> reserved < 0 \<or> dsub q (dsum (map rd_quantity facts)) < reserved)"
    and p: "attributed_position v \<lparr>pp_idea = vw_idea v, pp_entry_quantity = q, pp_entry_price = pr,
        pp_remaining = dsub q (dsum (map rd_quantity facts)), pp_reserved = reserved, pp_reductions = facts\<rparr> = Inr p"
    by (auto simp: position_from_snapshot_def Let_def)
  from attributed_position_cases[OF p] show ?thesis using ok pos by auto
qed

text \<open>
  C38: A reduction is admitted only within the position it targets. When \<^verbatim>\<open>intent_for_idea\<close> gives an
  order for an idea with a position operation, the target is a filled entry without final closeout,
  pinned by its record hash, with the same instrument and direction; the order is reduce-only and
  on the opposite side of the entry; its quantity is positive and at most what is neither sold nor
  reserved by pending intents, and all of that when the operation closes the position. What remains
  is the entry less every confirmed reduction, and the reservations never exceed it.
\<close>

theorem reduction_within_position:
  assumes "ti_position_operation i = Some op" and "intent_for_idea env r i = Inr intent"
  shows "\<exists>v p q. get_view env r (po_target_decision_id op) = Inr v
    \<and> vw_state v = FILLED \<and> vw_closeout v = None \<and> po_target_record_hash op = en_rhash env (vw_idea v)
    \<and> ti_instrument i = ti_instrument (vw_idea v) \<and> ti_direction i = ti_direction (vw_idea v)
    \<and> oi_reduce_only intent \<and> oi_side intent = (if ti_direction (vw_idea v) = LONG then SELL else BUY)
    \<and> position env r (po_target_decision_id op) = Inr p
    \<and> oi_quantity intent = Finite q \<and> 0 < q \<and> q \<le> available p
    \<and> (po_action op = ''close'' \<longrightarrow> q = available p)
    \<and> pp_remaining p = dsub (pp_entry_quantity p) (dsum (map rd_quantity (pp_reductions p)))
    \<and> 0 \<le> pp_reserved p \<and> pp_reserved p \<le> pp_remaining p"
proof -
  from assms obtain q where q: "reduction_quantity env r i op = Inr q" and
    intent: "new_order_intent
           \<lparr>oi_client_order_id = ti_decision_id i, oi_symbol = ti_instrument i,
            oi_side = direction_side (ti_direction i) False,
            oi_order_type = MARKET, oi_quantity = Finite q, oi_price = None, oi_stop_price = None, oi_tif = None,
            oi_reduce_only = True, oi_leverage = None, oi_position_operation = Some op\<rparr> = Inr intent"
    by (auto simp: intent_for_idea_def)
  have fields: "oi_reduce_only intent" "oi_quantity intent = Finite q" "oi_side intent = direction_side (ti_direction i) False"
    using new_order_intent_same[OF intent] by auto
  from q obtain v p where v: "get_view env r (po_target_decision_id op) = Inr v"
    and same: "validate_target_identity env (vw_idea v) i = Inr ()"
    and st: "vw_state v = FILLED" "vw_closeout v = None"
    and p: "position env r (po_target_decision_id op) = Inr p"
    and bounds: "0 < q" "q \<le> available p" "po_action op = ''close'' \<Longrightarrow> q = available p"
    unfolding reduction_quantity_def rbind_Inr_iff raise_if_Inr_iff rewrap_Inr_iff Let_def
    by (auto split: option.split_asm if_splits)
  have hash: "po_target_record_hash op = en_rhash env (vw_idea v)" "ti_instrument i = ti_instrument (vw_idea v)"
      "ti_direction i = ti_direction (vw_idea v)"
    using same assms(1) by (auto simp: validate_target_identity_def)
  have pos: "0 \<le> pp_reserved p \<and> pp_reserved p \<le> pp_remaining p
    \<and> (pp_remaining p = dsub (pp_entry_quantity p) (dsum (map rd_quantity (pp_reductions p))) \<or> pp_remaining p = 0)"
    using p position_from_snapshot_bounds by (auto simp: position_def)
  have "pp_remaining p \<noteq> 0"
  proof
    assume "pp_remaining p = 0"
    then have "available p \<le> 0" using pos by (simp add: available_def dsub_def)
    then show False using bounds by simp
  qed
  then show ?thesis using v st hash fields p bounds pos by auto
qed

definition ex_entry_idea :: trade_idea where
  "ex_entry_idea = ex_idea\<lparr>ti_broker_ticket := \<lparr>bt_venue = VENUE_NONE, bt_status = NOT_CREATED\<rparr>\<rparr>"

definition ex_event ::
  "string \<Rightarrow> audit_action \<Rightarrow> trade_idea_state option \<Rightarrow> trade_idea_state \<Rightarrow> string list \<Rightarrow> audit_event" where
  "ex_event eid act before after evidence =
     \<lparr>ae_event_id = eid, ae_timestamp = Aware (hours 1), ae_decision_id = ''trade-1'', ae_actor_type = HUMAN,
      ae_actor_id = ''desk'', ae_action = act, ae_before_state = before, ae_after_state = after,
      ae_reason = ''example'', ae_record_hash = en_rhash ex_env ex_entry_idea, ae_evidence = evidence,
      ae_venue = ''paper'', ae_external_order_id = ''order-1''\<rparr>"

definition ex_filled_repo :: repo where
  "ex_filled_repo =
     \<lparr>rp_versions = [((''trade-1'', en_rhash ex_env ex_entry_idea), trade_idea_to_dict ex_entry_idea)],
      rp_latest = [(''trade-1'', en_rhash ex_env ex_entry_idea)],
      rp_events = map (\<lambda>e. (AUDIT_LOG, audit_event_to_dict e))
        [ex_event ''e1'' ACT_PROPOSED None PROPOSED [],
         ex_event ''e2'' ACT_APPROVED (Some PROPOSED) APPROVED [],
         ex_event ''e3'' ACT_SUBMITTED (Some APPROVED) SUBMITTED [],
         ex_event ''e4'' ACT_FILLED (Some SUBMITTED) FILLED
           (encode_fill_evidence ex_env (Some (3 / 2)) (Some 2) (Some (Naive (hours 3))))]\<rparr>"

definition ex_reduction :: trade_idea where
  "ex_reduction = ex_entry_idea\<lparr>ti_decision_id := ''trade-2'',
     ti_sizing := \<lparr>sr_quantity = Some (3 / 2), sr_notional = None, sr_rationale = []\<rparr>,
     ti_position_operation := Some \<lparr>po_action = ''reduce'', po_target_decision_id = ''trade-1'',
       po_target_record_hash = en_rhash ex_env ex_entry_idea, po_resolution = ''thesis_target''\<rparr>\<rparr>"

theorem reduction_within_position_witness:
  "\<exists>intent. intent_for_idea ex_env ex_filled_repo ex_reduction = Inr intent
     \<and> (\<exists>p q. position ex_env ex_filled_repo ''trade-1'' = Inr p \<and> oi_quantity intent = Finite q
            \<and> 0 < q \<and> q \<le> available p \<and> pp_reserved p \<le> pp_remaining p)"
proof -
  obtain intent where i: "intent_for_idea ex_env ex_filled_repo ex_reduction = Inr intent"
  proof -
    have "is_ok (intent_for_idea ex_env ex_filled_repo ex_reduction)" by code_simp
    then show ?thesis using that by (auto simp: is_ok_iff)
  qed
  have op: "ti_position_operation ex_reduction = Some \<lparr>po_action = ''reduce'', po_target_decision_id = ''trade-1'',
       po_target_record_hash = en_rhash ex_env ex_entry_idea, po_resolution = ''thesis_target''\<rparr>"
    by (simp add: ex_reduction_def)
  show ?thesis using i reduction_within_position[OF op i] by auto
qed

end
