(* ===== verification/Idea_Exposure.thy ===== *)
theory Idea_Exposure
  imports Idea_Positions
begin

text \<open>
  The exposure the approval policy is judged on: \<^verbatim>\<open>approval_budget_context\<close> of
  \<^verbatim>\<open>src/gpt_trader/features/trade_ideas/service.py\<close> with its helpers, the headroom and the paper
  accounting over the audited trail. Open ideas are approved and submitted entries and filled ones
  without closeout, scaled by what confirmed reductions left; realized losses are the closeouts and
  reductions of the current session of each instrument. Each read takes the time it is evaluated at.
\<close>

section \<open>Losses and notionals\<close>

definition percent_of_amount :: "dec \<Rightarrow> dec \<Rightarrow> dec option" where
  "percent_of_amount amount equity =
     (if equity \<le> 0 then None else Some (fraction_to_pct_points (dquot amount equity)))"

definition equity_from_max_loss_amount_percent :: "dec option \<Rightarrow> dec option \<Rightarrow> dec option" where
  "equity_from_max_loss_amount_percent amount percent =
     (case (amount, percent) of
        (Some a, Some p) \<Rightarrow> if p \<le> 0 then None else Some (dquot (dmul a 100) p)
      | _ \<Rightarrow> None)"

definition closeout_loss_percent :: "closeout_attribution \<Rightarrow> dec option" where
  "closeout_loss_percent c =
     (case co_realized_percent c of
        Some p \<Rightarrow> Some (dabs (min p 0))
      | None \<Rightarrow>
          (case co_realized_amount c of
             None \<Rightarrow> None
           | Some amount \<Rightarrow>
               if 0 \<le> amount then Some 0
               else (case equity_from_max_loss_amount_percent (ms_amount (co_max_loss c))
                            (ms_percent_of_account (co_max_loss c)) of
                       None \<Rightarrow> None
                     | Some equity \<Rightarrow> percent_of_amount (dabs amount) equity)))"

definition closeout_has_realized_profit_loss :: "closeout_attribution \<Rightarrow> bool" where
  "closeout_has_realized_profit_loss c \<longleftrightarrow> co_realized_amount c \<noteq> None \<or> co_realized_percent c \<noteq> None"

definition absolute_notional :: "trade_idea \<Rightarrow> dec option" where
  "absolute_notional i = map_option dabs (sr_notional (ti_sizing i))"

text \<open>An amount and the number of values that were not available for it.\<close>

definition open_equity_notional :: "trade_idea \<Rightarrow> dec \<times> int" where
  "open_equity_notional i =
     (case instrument_info i of
        Inl _ \<Rightarrow> (0, 1)
      | Inr ins \<Rightarrow>
          if i_asset_class ins \<noteq> EQUITY then (0, 0)
          else (case absolute_notional i of None \<Rightarrow> (0, 1) | Some n \<Rightarrow> (n, 0)))"

definition unsettled_equity_proceeds :: "trade_idea \<Rightarrow> closeout_attribution \<Rightarrow> dec \<times> int" where
  "unsettled_equity_proceeds i c =
     (case instrument_info i of
        Inl _ \<Rightarrow> (0, 1)
      | Inr ins \<Rightarrow>
          if settlement_days ins \<le> 0 then (0, 0)
          else (case (absolute_notional i, co_realized_amount c) of
                  (Some n, Some a) \<Rightarrow> (max (dadd n a) 0, 0)
                | _ \<Rightarrow> (0, 1)))"

definition account_equity_snapshot ::
  "dec option \<Rightarrow> trade_idea list \<Rightarrow> closeout_attribution list \<Rightarrow> dec option" where
  "account_equity_snapshot budget_equity open_ideas closeouts =
     (case budget_equity of
        Some e \<Rightarrow> Some e
      | None \<Rightarrow>
          let known = List.map_filter (\<lambda>i. equity_from_max_loss_amount_percent (ml_amount (ti_max_loss i))
                        (ml_percent_of_account (ti_max_loss i))) open_ideas
                    @ List.map_filter (\<lambda>c. equity_from_max_loss_amount_percent (ms_amount (co_max_loss c))
                        (ms_percent_of_account (co_max_loss c))) closeouts
          in (case known of [] \<Rightarrow> None | e # _ \<Rightarrow> Some e))"

section \<open>The budget context\<close>

definition OPEN_BUDGET_EXPOSURE_STATES :: "trade_idea_state list" where
  "OPEN_BUDGET_EXPOSURE_STATES = [APPROVED, SUBMITTED]"

record exposure =
  xp_open_ideas :: "trade_idea list"
  xp_same_day :: "(trade_idea \<times> closeout_attribution) list"
  xp_session_dates :: "string list"

text \<open>One closeout or reduction of the session, if it is of the session.\<close>

definition add_same_day :: "service_env \<Rightarrow> instant \<Rightarrow> exposure \<Rightarrow> trade_idea \<times> closeout_attribution \<Rightarrow> exposure result" where
  "add_same_day env now x pair =
     (case pair of (i, c) \<Rightarrow>
        rbind (same_accounting_session env i (co_timestamp c) now) (\<lambda>(same, label).
        Inr (if same then x\<lparr>xp_same_day := xp_same_day x @ [(i, c)],
                            xp_session_dates := xp_session_dates x @ [label]\<rparr> else x)))"

text \<open>One decision of the loop over the latest events.\<close>

definition exposure_step ::
  "service_env \<Rightarrow> repo \<Rightarrow> string option \<Rightarrow> instant \<Rightarrow> string list \<Rightarrow> exposure \<Rightarrow> string \<times> audit_event \<Rightarrow>
   exposure result" where
  "exposure_step env r excluded now reduced x entry =
     (case entry of (d, event) \<Rightarrow>
        rbind (load_record_version env r d (ae_record_hash event)) (\<lambda>i.
        if ti_position_operation i \<noteq> None then Inr x
        else if ae_after_state event \<in> set OPEN_BUDGET_EXPOSURE_STATES
        then Inr (if Some d = excluded then x else x\<lparr>xp_open_ideas := xp_open_ideas x @ [i]\<rparr>)
        else if ae_after_state event \<notin> set TERMINAL_STATES then Inr x
        else
          rbind (audit_read_events (stream_log AUDIT_LOG r) (Some d)) (\<lambda>events.
          rbind (validated_closeout_attribution r i events) (\<lambda>closeout.
          if ae_after_state event = FILLED \<and> closeout = None \<and> Some d \<noteq> excluded
          then if d \<in> set reduced
               then rbind (position env r d) (\<lambda>p.
                    Inr (if 0 < pp_remaining p
                         then x\<lparr>xp_open_ideas := xp_open_ideas x
                                  @ [scaled_idea i (dquot (pp_remaining p) (pp_entry_quantity p))]\<rparr>
                         else x))
               else Inr (x\<lparr>xp_open_ideas := xp_open_ideas x @ [i]\<rparr>)
          else if d \<in> set reduced then Inr x
          else (case closeout of
                  None \<Rightarrow> Inr x
                | Some c \<Rightarrow>
                    if ae_after_state event = FILLED \<or> closeout_has_realized_profit_loss c
                    then add_same_day env now x (i, c)
                    else rbind (same_accounting_session env i (co_timestamp c) now) (\<lambda>_. Inr x))))))"

definition some_values :: "'a option list \<Rightarrow> 'a list" where
  "some_values xs = List.map_filter id xs"

definition missing_count :: "'a option list \<Rightarrow> int" where
  "missing_count xs = int (length (filter (\<lambda>x. x = None) xs))"

definition context_of :: "dec option \<Rightarrow> exposure \<Rightarrow> approval_budget_context" where
  "context_of budget_equity x =
     (let open_ideas = xp_open_ideas x;
          closeouts = map snd (xp_same_day x);
          losses = map closeout_loss_percent closeouts;
          at_risk = map (\<lambda>i. ml_percent_of_account (ti_max_loss i)) open_ideas;
          notionals = map absolute_notional open_ideas;
          equity_notionals = map open_equity_notional open_ideas;
          proceeds = map (\<lambda>(i, c). unsettled_equity_proceeds i c) (xp_same_day x)
      in \<lparr>cx_same_day_realized_loss_pct = dsum (some_values losses),
          cx_same_day_realized_loss_unavailable_count = missing_count losses,
          cx_daily_loss_session_dates = sort (remdups (xp_session_dates x)),
          cx_open_approved_at_risk_pct = dsum (some_values at_risk),
          cx_open_at_risk_unavailable_count = missing_count at_risk,
          cx_open_notional = dsum (some_values notionals),
          cx_open_notional_unavailable_count = missing_count notionals,
          cx_account_equity_snapshot = account_equity_snapshot budget_equity open_ideas closeouts,
          cx_open_equity_notional = dsum (map fst equity_notionals),
          cx_open_equity_notional_unavailable_count = sum_list (map snd equity_notionals),
          cx_unsettled_equity_proceeds = dsum (map fst proceeds),
          cx_unsettled_equity_proceeds_unavailable_count = sum_list (map snd proceeds)\<rparr>)"

definition approval_budget_context_at ::
  "service_env \<Rightarrow> repo \<Rightarrow> string option \<Rightarrow> instant \<Rightarrow> approval_budget_context result" where
  "approval_budget_context_at env r excluded now =
     rbind (latest_audit_events_by_decision_id r) (\<lambda>latest.
     rbind (reduction_records env r) (\<lambda>reductions.
     rbind (rfold (exposure_step env r excluded now (map (\<lambda>(i, c). co_decision_id c) reductions))
              \<lparr>xp_open_ideas = [], xp_same_day = [], xp_session_dates = []\<rparr> latest) (\<lambda>x.
     rbind (rfold (add_same_day env now) x reductions) (\<lambda>x'.
     rbind (peek_budget r) (\<lambda>budget.
     Inr (context_of (rk_account_equity budget) x'))))))"

section \<open>Headroom, accounting and monitors\<close>

record budget_headroom =
  hr_evaluated_at :: instant
  hr_context :: approval_budget_context
  hr_daily_loss_used_pct :: dec
  hr_daily_loss_headroom_pct :: dec
  hr_open_notional_pct :: "dec option"
  hr_open_notional_headroom :: "dec option"
  hr_open_notional_headroom_pct :: "dec option"

text \<open>\<^verbatim>\<open>open_notional_pct or Decimal("0")\<close> is the value itself, since zero is false and zero.\<close>

definition headroom_of :: "instant \<Rightarrow> risk_budget \<Rightarrow> approval_budget_context \<Rightarrow> budget_headroom" where
  "headroom_of now budget ctx =
     (let used = dadd (cx_same_day_realized_loss_pct ctx) (cx_open_approved_at_risk_pct ctx);
          equity = (case cx_account_equity_snapshot ctx of
                      None \<Rightarrow> None | Some e \<Rightarrow> if 0 < e then Some e else None);
          pct = (case equity of None \<Rightarrow> None | Some e \<Rightarrow> percent_of_amount (cx_open_notional ctx) e)
      in \<lparr>hr_evaluated_at = now, hr_context = ctx, hr_daily_loss_used_pct = used,
          hr_daily_loss_headroom_pct = max (dsub (rk_max_daily_loss_pct budget) used) 0,
          hr_open_notional_pct = pct,
          hr_open_notional_headroom =
            map_option (\<lambda>e. max (dsub (dmul e (pct_points_to_fraction (rk_max_open_notional_pct budget)))
                                   (cx_open_notional ctx)) 0) equity,
          hr_open_notional_headroom_pct =
            map_option (\<lambda>e. max (dsub (rk_max_open_notional_pct budget) (case pct of None \<Rightarrow> 0 | Some p \<Rightarrow> p)) 0) equity\<rparr>)"

definition budget_headroom_at :: "service_env \<Rightarrow> repo \<Rightarrow> instant \<Rightarrow> budget_headroom result" where
  "budget_headroom_at env r now =
     rbind (peek_budget r) (\<lambda>budget.
     rbind (approval_budget_context_at env r None now) (\<lambda>ctx.
     Inr (headroom_of now budget ctx)))"

definition accounting_closeouts :: "service_env \<Rightarrow> repo \<Rightarrow> closeout_attribution list result" where
  "accounting_closeouts env r =
     rbind (reduction_records env r) (\<lambda>pairs.
     let reductions = map snd pairs; targets = map co_decision_id reductions in
     rbind (query_closeout_records env r every_closeout) (\<lambda>page.
     Inr (filter (\<lambda>c. co_decision_id c \<notin> set targets) (qp_items page) @ reductions)))"

definition paper_accounting :: "service_env \<Rightarrow> repo \<Rightarrow> paper_accounting_summary result" where
  "paper_accounting env r =
     rbind (budget_history (stream_log BUDGET_LOG r)) (\<lambda>entries.
     rbind (accounting_closeouts env r) (\<lambda>closeouts.
     rbind (closeout_terminal_times r) (\<lambda>terminal_times.
     rbind (compute_paper_accounting entries closeouts terminal_times) (\<lambda>summary.
     rbind (query_closeout_records env r every_closeout) (\<lambda>page.
     Inr (summary\<lparr>ps_closeout_count := int (length (qp_items page))\<rparr>))))))"

definition equity_ledger_points :: "service_env \<Rightarrow> repo \<Rightarrow> equity_ledger_point list result" where
  "equity_ledger_points env r =
     rbind (budget_history (stream_log BUDGET_LOG r)) (\<lambda>entries.
     rbind (accounting_closeouts env r) (\<lambda>closeouts.
     rbind (closeout_terminal_times r) (\<lambda>terminal_times.
     equity_ledger entries closeouts terminal_times)))"

definition portfolio_monitors_at :: "service_env \<Rightarrow> repo \<Rightarrow> instant \<Rightarrow> portfolio_monitor_snapshot result" where
  "portfolio_monitors_at env r now =
     rbind (peek_budget r) (\<lambda>budget.
     rbind (paper_accounting env r) (\<lambda>accounting.
     rbind (approval_budget_context_at env r None now) (\<lambda>ctx.
     Inr (compute_portfolio_monitors (Aware now) budget accounting ctx))))"

section \<open>Operations on a position in the policy\<close>

fun admission_error :: "py_error \<Rightarrow> bool" where
  "admission_error (PositionOperationAdmissionError _) = True"
| "admission_error (KeyError _) = True"
| "admission_error e = value_error e"

definition position_operation_violations :: "service_env \<Rightarrow> repo \<Rightarrow> trade_idea \<Rightarrow> violation list result" where
  "position_operation_violations env r i =
     (if ti_position_operation i = None then Inr []
      else (case intent_for_idea env r i of
              Inr _ \<Rightarrow> Inr []
            | Inl e \<Rightarrow> if admission_error e then Inr [PositionOperationRefused ''position operation''] else Inl e))"

end
