(* ===== verification/Idea_Kernel.thy ===== *)
theory Idea_Kernel
  imports Idea_Exposure
begin

text \<open>
  The risk kernel, \<^verbatim>\<open>src/gpt_trader/features/trade_ideas/kernel.py\<close>, and the operations of the
  service it consults: the active budget with its seed, the active autonomy level with its seed,
  the ratchet at a decision boundary, and the append of an audit event. A check is an act, since
  it may seed a log or lower the level; its outcome \<open>kernel_check\<close> carries every violation.

  A reason that the code formats is a constant text here where only values are inserted; the
  evidence of an outcome is rendered by the environment.
\<close>

section \<open>Budget\<close>

fun budget_integrity :: "py_error \<Rightarrow> bool" where
  "budget_integrity (BudgetIntegrityError _) = True"
| "budget_integrity _ = False"

definition aappend_budget :: "budget_log_entry \<Rightarrow> unit act" where
  "aappend_budget e =
     alog BUDGET_LOG (\<lambda>st. rbind (budget_append LockAcquired st e) (\<lambda>st'. Inr ((), st')))"

definition current_budget :: "service_env \<Rightarrow> risk_budget act" where
  "current_budget env =
     abind (aread (\<lambda>r. budget_current (stream_log BUDGET_LOG r))) (\<lambda>found.
     case found of
       Some budget \<Rightarrow> areturn budget
     | None \<Rightarrow>
         abind (aclock (en_now env)) (\<lambda>now.
         atry (abind (aappend_budget \<lparr>be_timestamp = Aware now, be_actor_type = SYSTEM,
                        be_actor_id = ''seed-defaults'', be_budget = DEFAULT_RISK_BUDGET\<rparr>) (\<lambda>_.
               areturn DEFAULT_RISK_BUDGET))
           budget_integrity
           (\<lambda>e. abind (aread (\<lambda>r. budget_current (stream_log BUDGET_LOG r))) (\<lambda>again.
                case again of None \<Rightarrow> araise e | Some budget \<Rightarrow> areturn budget))))"

section \<open>Autonomy\<close>

fun autonomy_integrity :: "py_error \<Rightarrow> bool" where
  "autonomy_integrity (AutonomyIntegrityError _) = True"
| "autonomy_integrity _ = False"

text \<open>The constructor of an entry, and its append to the log.\<close>

definition enact :: "autonomy_state_entry \<Rightarrow> autonomy_state_entry act" where
  "enact e =
     (case new_autonomy_state_entry e of
        Inl x \<Rightarrow> araise x
      | Inr entry \<Rightarrow> abind (aappend_autonomy entry) (\<lambda>_. areturn entry))"

definition logged_resolution :: "autonomy_mode \<Rightarrow> int \<Rightarrow> autonomy_resolution" where
  "logged_resolution mode version =
     \<lparr>ar_mode = mode, ar_version = Some version, ar_source = AUTONOMY_SOURCE_LOG, ar_error = None\<rparr>"

definition current_autonomy :: "service_env \<Rightarrow> autonomy_resolution act" where
  "current_autonomy env =
     abind (aread peek_autonomy) (\<lambda>resolution.
     if ar_source resolution \<noteq> AUTONOMY_SOURCE_SEEDED_DEFAULT then areturn resolution
     else
       abind (aclock (en_now env)) (\<lambda>now.
       atry (abind (enact \<lparr>as_version = 1, as_timestamp = Aware now, as_mode = DEFAULT_AUTONOMY_MODE,
                      as_actor_type = SYSTEM, as_actor_id = ''seed-defaults'',
                      as_reason = ''Seeded default accepted in docs/decisions/persistent-autonomy-state.md: human approval required for every execution'',
                      as_evidence = []\<rparr>) (\<lambda>_.
             areturn (logged_resolution DEFAULT_AUTONOMY_MODE 1)))
         autonomy_integrity
         (\<lambda>e. abind (aread peek_autonomy) (\<lambda>again.
              if ar_source again \<noteq> AUTONOMY_SOURCE_LOG then araise e else areturn again))))"

definition next_version :: "autonomy_resolution \<Rightarrow> int" where
  "next_version resolution = (case ar_version resolution of None \<Rightarrow> 0 | Some v \<Rightarrow> v) + 1"

definition set_autonomy_mode ::
  "service_env \<Rightarrow> autonomy_mode \<Rightarrow> actor_type \<Rightarrow> string \<Rightarrow> string \<Rightarrow> string list \<Rightarrow> autonomy_state_entry act" where
  "set_autonomy_mode env mode actor actor_id reason evidence =
     abind (current_autonomy env) (\<lambda>resolution.
     abind (aguard (ar_source resolution = AUTONOMY_SOURCE_FAIL_CLOSED)
              (AutonomyIntegrityError ''Autonomy state log is unreadable or integrity-broken'')) (\<lambda>_.
     abind (aguard (autonomy_transition_violations (ar_mode resolution) mode actor \<noteq> [])
              PolicyViolationError) (\<lambda>_.
     abind (aclock (en_now env)) (\<lambda>now.
     enact \<lparr>as_version = next_version resolution, as_timestamp = Aware now, as_mode = mode,
            as_actor_type = actor, as_actor_id = actor_id, as_reason = reason, as_evidence = evidence\<rparr>))))"

text \<open>The breach that ratchets the level down, with the reason that is recorded.\<close>

definition ratchet_down ::
  "service_env \<Rightarrow> autonomy_resolution \<Rightarrow> instant \<Rightarrow> breach \<Rightarrow> string \<Rightarrow> autonomy_resolution act" where
  "ratchet_down env resolution now b reason =
     abind (enact \<lparr>as_version = next_version resolution, as_timestamp = Aware now,
              as_mode = HUMAN_APPROVED_EXECUTION, as_actor_type = SYSTEM, as_actor_id = RATCHET_ACTOR_ID,
              as_reason = reason, as_evidence = en_text env (BreachEvidence b)\<rparr>) (\<lambda>entry.
     areturn (logged_resolution (as_mode entry) (as_version entry)))"

definition decision_autonomy ::
  "service_env \<Rightarrow> instant \<Rightarrow> risk_budget option \<Rightarrow> approval_budget_context option \<Rightarrow> autonomy_resolution act" where
  "decision_autonomy env now budget ctx =
     abind (current_autonomy env) (\<lambda>resolution.
     if ar_source resolution = AUTONOMY_SOURCE_FAIL_CLOSED
        \<or> AUTONOMY_RANK (ar_mode resolution) \<le> AUTONOMY_RANK HUMAN_APPROVED_EXECUTION
     then areturn resolution
     else
       abind (case budget of Some b \<Rightarrow> areturn b | None \<Rightarrow> current_budget env) (\<lambda>active.
       abind (case ctx of Some c \<Rightarrow> areturn c
              | None \<Rightarrow> aread (\<lambda>r. approval_budget_context_at env r None now)) (\<lambda>context.
       case daily_loss_breach_evidence (cx_same_day_realized_loss_pct context) (rk_max_daily_loss_pct active)
              (rk_version active) (Aware now) (cx_daily_loss_session_dates context) of
         Some b \<Rightarrow> ratchet_down env resolution now b
                     ''Automatic ratchet-down: same-trading-day realized loss breached max_daily_loss_pct''
       | None \<Rightarrow>
           if rk_max_drawdown_from_peak_pct active = None then areturn resolution
           else
             abind (aread (paper_accounting env)) (\<lambda>accounting.
             case drawdown_from_peak_breach_evidence (ps_drawdown_percent accounting)
                    (rk_max_drawdown_from_peak_pct active) (rk_version active)
                    (ps_high_water_mark accounting) (ps_current_equity accounting) (Aware now) of
               Some b \<Rightarrow> ratchet_down env resolution now b
                           ''Automatic ratchet-down: drawdown-from-peak breached max_drawdown_from_peak_pct''
             | None \<Rightarrow> areturn resolution))))"

definition resolve_execution_autonomy :: "service_env \<Rightarrow> instant option \<Rightarrow> autonomy_resolution act" where
  "resolve_execution_autonomy env now =
     abind (case now of Some t \<Rightarrow> areturn t | None \<Rightarrow> aclock (en_now env)) (\<lambda>t.
     decision_autonomy env t None None)"

section \<open>The audit trail\<close>

definition append_audit ::
  "service_env \<Rightarrow> trade_idea \<Rightarrow> audit_action \<Rightarrow> trade_idea_state \<Rightarrow> actor_type \<Rightarrow> string \<Rightarrow> string \<Rightarrow>
   string list \<Rightarrow> string \<Rightarrow> string \<Rightarrow> unit act" where
  "append_audit env i action after actor actor_id reason evidence venue order_id =
     abind (afresh (en_event_id env)) (\<lambda>eid.
     abind (aclock (en_now env)) (\<lambda>now.
     abind (aread (\<lambda>r. current_state (stream_log AUDIT_LOG r) (ti_decision_id i))) (\<lambda>before.
     alog AUDIT_LOG (\<lambda>st.
       rbind (audit_append st
         \<lparr>ae_event_id = eid, ae_timestamp = Aware now, ae_decision_id = ti_decision_id i,
          ae_actor_type = actor, ae_actor_id = actor_id, ae_action = action, ae_before_state = before,
          ae_after_state = after, ae_reason = reason, ae_record_hash = en_rhash env i,
          ae_evidence = evidence, ae_venue = venue, ae_external_order_id = order_id\<rparr>) (\<lambda>st'.
       Inr ((), st'))))))"

section \<open>Checks\<close>

record kernel_check =
  kc_action :: audit_action
  kc_decision_id :: string
  kc_actor_type :: actor_type
  kc_evaluated_at :: instant
  kc_autonomy :: autonomy_resolution
  kc_violations :: "violation list"
  kc_budget :: "risk_budget option"
  kc_context :: "approval_budget_context option"
  kc_candidate_max_loss_pct :: "dec option"

definition admitted :: "kernel_check \<Rightarrow> bool" where
  "admitted check \<longleftrightarrow> kc_violations check = []"

definition require_approval_inputs :: "kernel_check \<Rightarrow> (risk_budget \<times> approval_budget_context) result" where
  "require_approval_inputs check =
     (case (kc_budget check, kc_context check) of
        (Some b, Some c) \<Rightarrow> Inr (b, c)
      | _ \<Rightarrow> Inl (ValueError ''Evidence for an approval outcome requires an approval check''))"

definition budget_version :: "kernel_check \<Rightarrow> int result" where
  "budget_version check = rbind (require_approval_inputs check) (\<lambda>(b, c). Inr (rk_version b))"

definition admission_evidence :: "service_env \<Rightarrow> kernel_check \<Rightarrow> string list result" where
  "admission_evidence env check =
     rbind (require_approval_inputs check) (\<lambda>(b, c).
     Inr (en_text env (AdmissionEvidence (kc_autonomy check) b c (kc_candidate_max_loss_pct check))))"

definition denial_evidence :: "service_env \<Rightarrow> kernel_check \<Rightarrow> string list result" where
  "denial_evidence env check =
     rbind (require_approval_inputs check) (\<lambda>(b, c).
     Inr (en_text env (DenialEvidence (kc_autonomy check) b (kc_violations check))))"

definition execution_denial_evidence :: "service_env \<Rightarrow> kernel_check \<Rightarrow> string list" where
  "execution_denial_evidence env check = en_text env (ExecutionDenialEvidence (kc_autonomy check) (kc_violations check))"

definition autonomy_resolution_violations :: "autonomy_resolution \<Rightarrow> violation list" where
  "autonomy_resolution_violations resolution =
     (if ar_source resolution \<noteq> AUTONOMY_SOURCE_FAIL_CLOSED then []
      else [ResolutionFailedClosed (ar_mode resolution) (ar_error resolution)])"

text \<open>
  The start and the deadline as the policy compares them: only an applicable deadline meets the
  aware time of the evaluation, and a naive one raises there.
\<close>

definition latency_times ::
  "autonomy_mode \<Rightarrow> py_datetime option \<Rightarrow> py_datetime option \<Rightarrow> (instant option \<times> instant option) result" where
  "latency_times mode started deadline =
     (case (started, deadline) of
        (Some s, Some d) \<Rightarrow>
          if review_latency_applies mode
          then rbind (aware_or_type_error d) (\<lambda>t. Inr (Some (as_utc s), Some t))
          else Inr (Some (as_utc s), Some (as_utc d))
      | _ \<Rightarrow> Inr (map_option as_utc started, None))"

text \<open>The violations of an approval evaluated from the tables.\<close>

definition approval_violations_at ::
  "service_env \<Rightarrow> repo \<Rightarrow> trade_idea \<Rightarrow> actor_type \<Rightarrow> autonomy_resolution \<Rightarrow> risk_budget \<Rightarrow> instant \<Rightarrow>
   approval_budget_context result \<Rightarrow> violation list result" where
  "approval_violations_at env r i actor resolution budget now context =
     rbind (review_started_at r (ti_decision_id i)) (\<lambda>started.
     rbind (position_operation_violations env r i) (\<lambda>position_violations.
     rbind (open_approved_count env r) (\<lambda>open_count.
     rbind (review_deadline env i started budget) (\<lambda>deadline.
     rbind context (\<lambda>ctx.
     rbind (latency_times (ar_mode resolution) started deadline) (\<lambda>(s, d).
     Inr (autonomy_resolution_violations resolution @ position_violations
          @ approval_violations (ar_mode resolution) i actor budget open_count now s d (Some ctx)
              (ti_position_operation i \<noteq> None \<and> position_violations = []))))))))"

text \<open>
  A check is not a transaction, but the two calls of the service in it that write are; inside a
  transaction they are a part of that one, which takes back what they wrote when they raise.
\<close>

definition check_approval ::
  "service_env \<Rightarrow> trade_idea \<Rightarrow> actor_type \<Rightarrow> instant option \<Rightarrow> kernel_check act" where
  "check_approval env i actor now =
     abind (case now of Some t \<Rightarrow> areturn t | None \<Rightarrow> aclock (en_now env)) (\<lambda>evaluated_at.
     abind (run_write (current_budget env)) (\<lambda>budget.
     abind (aread (\<lambda>r. approval_budget_context_at env r (Some (ti_decision_id i)) evaluated_at)) (\<lambda>ctx.
     abind (run_write (decision_autonomy env evaluated_at (Some budget) (Some ctx))) (\<lambda>resolution.
     abind (aread (\<lambda>r. approval_violations_at env r i actor resolution budget evaluated_at (Inr ctx))) (\<lambda>violations.
     areturn \<lparr>kc_action = ACT_APPROVED, kc_decision_id = ti_decision_id i, kc_actor_type = actor,
              kc_evaluated_at = evaluated_at, kc_autonomy = resolution, kc_violations = violations,
              kc_budget = Some budget, kc_context = Some ctx,
              kc_candidate_max_loss_pct = ml_percent_of_account (ti_max_loss i)\<rparr>)))))"

definition check_execution :: "service_env \<Rightarrow> string \<Rightarrow> actor_type \<Rightarrow> instant option \<Rightarrow> kernel_check act" where
  "check_execution env d actor now =
     abind (case now of Some t \<Rightarrow> areturn t | None \<Rightarrow> aclock (en_now env)) (\<lambda>evaluated_at.
     abind (run_write (decision_autonomy env evaluated_at None None)) (\<lambda>resolution.
     areturn \<lparr>kc_action = ACT_SUBMITTED, kc_decision_id = d, kc_actor_type = actor,
              kc_evaluated_at = evaluated_at, kc_autonomy = resolution,
              kc_violations = autonomy_resolution_violations resolution
                @ violated (ar_mode resolution \<noteq> BOUNDED_AUTONOMY)
                    (ExecutionNeedsBoundedAutonomy (ar_mode resolution) (ar_source resolution)),
              kc_budget = None, kc_context = None, kc_candidate_max_loss_pct = None\<rparr>))"

text \<open>\<^verbatim>\<open>approval_violations\<close> of the service, which reads the clock twice.\<close>

definition service_approval_violations :: "service_env \<Rightarrow> trade_idea \<Rightarrow> actor_type \<Rightarrow> violation list act" where
  "service_approval_violations env i actor =
     abind (current_autonomy env) (\<lambda>resolution.
     abind (current_budget env) (\<lambda>budget.
     abind (aclock (en_now env)) (\<lambda>now.
     abind (aclock (en_now env)) (\<lambda>exposure_time.
     aread (\<lambda>r. approval_violations_at env r i actor resolution budget now
                  (approval_budget_context_at env r (Some (ti_decision_id i)) exposure_time))))))"

definition peek_approval_violations :: "service_env \<Rightarrow> trade_idea \<Rightarrow> actor_type \<Rightarrow> violation list act" where
  "peek_approval_violations env i actor =
     abind (aread peek_autonomy) (\<lambda>resolution.
     abind (aread peek_budget) (\<lambda>budget.
     abind (aclock (en_now env)) (\<lambda>now.
     abind (aclock (en_now env)) (\<lambda>exposure_time.
     aread (\<lambda>r. approval_violations_at env r i actor resolution budget now
                  (approval_budget_context_at env r (Some (ti_decision_id i)) exposure_time))))))"

text \<open>The two outcomes that are recorded instead of raised.\<close>

definition record_denied_approval ::
  "service_env \<Rightarrow> trade_idea \<Rightarrow> kernel_check \<Rightarrow> string \<Rightarrow> string \<Rightarrow> unit act" where
  "record_denied_approval env i check actor_id reason =
     abind (aguard (admitted check) PolicyViolationError) (\<lambda>_.
     abind (aread (\<lambda>_. denial_evidence env check)) (\<lambda>evidence.
     append_audit env i ACT_AUTO_APPROVAL_SKIPPED PROPOSED (kc_actor_type check) actor_id reason evidence [] []))"

definition record_denied_execution ::
  "service_env \<Rightarrow> trade_idea \<Rightarrow> kernel_check \<Rightarrow> string \<Rightarrow> string \<Rightarrow> unit act" where
  "record_denied_execution env i check actor_id reason =
     abind (aguard (admitted check) PolicyViolationError) (\<lambda>_.
     append_audit env i ACT_AUTO_EXECUTION_SKIPPED APPROVED (kc_actor_type check) actor_id reason
       (execution_denial_evidence env check) [] [])"

end
