(* ===== verification/Idea_Service.thy ===== *)
theory Idea_Service
  imports Idea_Kernel
begin

text \<open>
  The operations of \<^verbatim>\<open>TradeIdeaService\<close> (\<^verbatim>\<open>src/gpt_trader/features/trade_ideas/service.py\<close>), the
  one audited path of every actor, with the recording operations of the kernel and the position
  operations that write. Each definition is the body of the operation; \<open>run_write\<close> or
  \<open>run_admission\<close> around it, as the decorator says, is what a caller outside a transaction runs.

  An approval is checked twice: by its client, and again by \<open>commit_approval\<close> in the transaction
  that records it, whose check alone decides.
\<close>

section \<open>Preconditions of proposals\<close>

definition require_default_preapproval_broker_ticket :: "trade_idea \<Rightarrow> unit result" where
  "require_default_preapproval_broker_ticket i =
     raise_if (bt_venue (ti_broker_ticket i) \<noteq> VENUE_NONE \<or> bt_status (ti_broker_ticket i) \<noteq> NOT_CREATED)
       PreApprovalBrokerTicketError"

definition require_new_decision_id :: "repo \<Rightarrow> string \<Rightarrow> unit result" where
  "require_new_decision_id r d =
     (if store_exists r d then Inl (DuplicateTradeIdeaError d)
      else rbind (current_state (stream_log AUDIT_LOG r) d) (\<lambda>state.
           raise_if (state \<noteq> None) (DuplicateTradeIdeaError d)))"

definition validate_new_proposal :: "repo \<Rightarrow> trade_idea \<Rightarrow> unit result" where
  "validate_new_proposal r i =
     rbind (require_default_preapproval_broker_ticket i) (\<lambda>_.
     require_new_decision_id r (ti_decision_id i))"

definition validate_new_proposals :: "repo \<Rightarrow> trade_idea list \<Rightarrow> unit result" where
  "validate_new_proposals r ideas =
     rbind (rfold (\<lambda>seen i.
        rbind (raise_if (ti_decision_id i \<in> set seen) (DuplicateTradeIdeaError (ti_decision_id i))) (\<lambda>_.
        rbind (validate_new_proposal r i) (\<lambda>_. Inr (ti_decision_id i # seen)))) [] ideas) (\<lambda>_. Inr ())"

definition validate_resubmission :: "service_env \<Rightarrow> repo \<Rightarrow> trade_idea \<Rightarrow> unit result" where
  "validate_resubmission env r i =
     rbind (require_default_preapproval_broker_ticket i) (\<lambda>_.
     rbind (require_idea env r (ti_decision_id i)) (\<lambda>_.
     rbind (current_state (stream_log AUDIT_LOG r) (ti_decision_id i)) (\<lambda>state.
     rbind (raise_if (state \<noteq> Some NEEDS_CHANGES) InvalidTransitionError) (\<lambda>_.
     validate_transition state PROPOSED))))"

section \<open>Lifecycle actions\<close>

text \<open>\<^verbatim>\<open>self._require_idea\<close>, an audit event, \<^verbatim>\<open>self.get\<close>: the shape of the simple actions.\<close>

definition audited_action ::
  "service_env \<Rightarrow> string \<Rightarrow> audit_action \<Rightarrow> trade_idea_state \<Rightarrow> actor_type \<Rightarrow> string \<Rightarrow> string \<Rightarrow> trade_idea_view act" where
  "audited_action env d action after actor actor_id reason =
     abind (aread (\<lambda>r. require_idea env r d)) (\<lambda>i.
     abind (append_audit env i action after actor actor_id reason [] [] []) (\<lambda>_.
     aread (\<lambda>r. get_view env r d)))"

definition propose ::
  "service_env \<Rightarrow> trade_idea \<Rightarrow> string \<Rightarrow> actor_type \<Rightarrow> string \<Rightarrow> string list \<Rightarrow> trade_idea_view act" where
  "propose env i actor_id actor reason evidence =
     abind (aread (\<lambda>r. validate_new_proposal r i)) (\<lambda>_.
     abind (asave (store_save (en_rhash env) i)) (\<lambda>_.
     abind (append_audit env i ACT_PROPOSED PROPOSED actor actor_id reason evidence [] []) (\<lambda>_.
     aread (\<lambda>r. get_view env r (ti_decision_id i)))))"

definition propose_batch ::
  "service_env \<Rightarrow> trade_idea list \<Rightarrow> string \<Rightarrow> actor_type \<Rightarrow> string \<Rightarrow> string list \<Rightarrow> trade_idea_view list act" where
  "propose_batch env ideas actor_id actor reason evidence =
     abind (aread (\<lambda>r. validate_new_proposals r ideas)) (\<lambda>_.
     amap (\<lambda>i. propose env i actor_id actor reason evidence) ideas)"

definition request_changes :: "service_env \<Rightarrow> string \<Rightarrow> string \<Rightarrow> string \<Rightarrow> trade_idea_view act" where
  "request_changes env d actor_id reason = audited_action env d ACT_CHANGED NEEDS_CHANGES HUMAN actor_id reason"

definition resubmit ::
  "service_env \<Rightarrow> trade_idea \<Rightarrow> string \<Rightarrow> actor_type \<Rightarrow> string \<Rightarrow> trade_idea_view act" where
  "resubmit env i actor_id actor reason =
     abind (aread (\<lambda>r. validate_resubmission env r i)) (\<lambda>_.
     abind (asave (store_save (en_rhash env) i)) (\<lambda>_.
     abind (append_audit env i ACT_PROPOSED PROPOSED actor actor_id reason [] [] []) (\<lambda>_.
     aread (\<lambda>r. get_view env r (ti_decision_id i)))))"

definition reject :: "service_env \<Rightarrow> string \<Rightarrow> string \<Rightarrow> string \<Rightarrow> actor_type \<Rightarrow> trade_idea_view act" where
  "reject env d actor_id reason actor = audited_action env d ACT_REJECTED REJECTED actor actor_id reason"

definition cancel :: "service_env \<Rightarrow> string \<Rightarrow> string \<Rightarrow> string \<Rightarrow> actor_type \<Rightarrow> trade_idea_view act" where
  "cancel env d actor_id reason actor = audited_action env d ACT_CANCELLED CANCELLED actor actor_id reason"

definition expire :: "service_env \<Rightarrow> string \<Rightarrow> string \<Rightarrow> string \<Rightarrow> actor_type \<Rightarrow> trade_idea_view act" where
  "expire env d actor_id reason actor = audited_action env d ACT_EXPIRED EXPIRED actor actor_id reason"

definition EXPIRABLE_STATES :: "trade_idea_state list" where
  "EXPIRABLE_STATES = [PROPOSED, NEEDS_CHANGES, APPROVED]"

text \<open>Whether the expiry sweep expires a view: due by its horizon or its review, in an open session.\<close>

definition expiry_due ::
  "service_env \<Rightarrow> autonomy_mode \<Rightarrow> risk_budget \<Rightarrow> instant \<Rightarrow> trade_idea_view \<Rightarrow> bool result" where
  "expiry_due env mode budget now v =
     (if vw_state v \<notin> set EXPIRABLE_STATES then Inr False
      else
        let i = vw_idea v; started = review_started_at_from_events (vw_events v);
            idea_expired = (case th_expires_at (ti_time_horizon i) of None \<Rightarrow> False | Some t \<Rightarrow> t \<le> now) in
        rbind (review_deadline env i started budget) (\<lambda>deadline.
        rbind (latency_times mode started deadline) (\<lambda>(s, d).
        if idea_expired \<or> review_latency_violation mode s budget now d \<noteq> None
        then session_is_open env i now else Inr False)))"

definition expire_due_ideas ::
  "service_env \<Rightarrow> string \<Rightarrow> string \<Rightarrow> actor_type \<Rightarrow> trade_idea_view list act" where
  "expire_due_ideas env actor_id reason actor =
     abind (aclock (en_now env)) (\<lambda>now.
     abind (aread peek_budget) (\<lambda>budget.
     abind (aread peek_autonomy) (\<lambda>resolution.
     abind (aread (\<lambda>r. list_views env r None)) (\<lambda>views.
     abind (amap (\<lambda>v.
        abind (aread (\<lambda>_. expiry_due env (ar_mode resolution) budget now v)) (\<lambda>due.
        if due then abind (expire env (ti_decision_id (vw_idea v)) actor_id reason actor) (\<lambda>x. areturn [x])
        else areturn [])) views) (\<lambda>xs.
     areturn (concat xs))))))"

section \<open>Approvals\<close>

definition commit_approval ::
  "service_env \<Rightarrow> trade_idea \<Rightarrow> kernel_check \<Rightarrow> string \<Rightarrow> string \<Rightarrow> string list \<Rightarrow> unit act" where
  "commit_approval env i check actor_id reason evidence =
     abind (aread (\<lambda>r. require_idea env r (ti_decision_id i))) (\<lambda>current.
     abind (aguard (en_rhash env current \<noteq> en_rhash env i \<or> kc_decision_id check \<noteq> ti_decision_id i)
              PolicyViolationError) (\<lambda>_.
     abind (check_approval env current (kc_actor_type check) None) (\<lambda>fresh.
     abind (aguard (\<not> admitted fresh) PolicyViolationError) (\<lambda>_.
     abind (aread (\<lambda>_. admission_evidence env check)) (\<lambda>preview.
     abind (aread (\<lambda>_. if evidence = preview then admission_evidence env fresh else Inr evidence)) (\<lambda>committed.
     append_audit env current ACT_APPROVED APPROVED (kc_actor_type fresh) actor_id reason committed [] []))))))"

text \<open>\<^verbatim>\<open>RiskKernel.record_approval\<close>.\<close>

definition record_approval ::
  "service_env \<Rightarrow> trade_idea \<Rightarrow> kernel_check \<Rightarrow> string \<Rightarrow> string \<Rightarrow> string list \<Rightarrow> unit act" where
  "record_approval env i check actor_id reason evidence =
     abind (aguard (\<not> admitted check) PolicyViolationError) (\<lambda>_.
     commit_approval env i check actor_id reason evidence)"

definition approve :: "service_env \<Rightarrow> string \<Rightarrow> string \<Rightarrow> string \<Rightarrow> trade_idea_view act" where
  "approve env d actor_id reason =
     abind (aread (\<lambda>r. require_idea env r d)) (\<lambda>i.
     abind (check_approval env i HUMAN None) (\<lambda>check.
     abind (aguard (\<not> admitted check) PolicyViolationError) (\<lambda>_.
     abind (record_approval env i check actor_id reason []) (\<lambda>_.
     aread (\<lambda>r. get_view env r d)))))"

record sweep_result =
  sw_evaluated_at :: instant
  sw_autonomy_mode :: autonomy_mode
  sw_autonomy_version :: "int option"
  sw_approved :: "trade_idea_view list"
  sw_skipped :: "(string \<times> violation list) list"

text \<open>The proposed ideas in the order of their last event and decision.\<close>

definition sweep_candidates :: "service_env \<Rightarrow> repo \<Rightarrow> trade_idea_view list result" where
  "sweep_candidates env r =
     rbind (list_views env r (Some PROPOSED)) (\<lambda>views.
     if mixed_times (map (\<lambda>v. ae_timestamp (last (vw_events v))) views)
     then Inl (TypeError ''can't compare offset-naive and offset-aware datetimes'')
     else Inr (sort_key (\<lambda>v. (as_utc (ae_timestamp (last (vw_events v))), ti_decision_id (vw_idea v))) views))"

text \<open>One candidate: approved, or skipped with its violations on the audit trail.\<close>

definition sweep_candidate ::
  "service_env \<Rightarrow> string \<Rightarrow> trade_idea_view \<Rightarrow> (trade_idea_view + string \<times> violation list) act" where
  "sweep_candidate env actor_id candidate =
     (let i = vw_idea candidate in
      abind (check_approval env i SYSTEM None) (\<lambda>check.
      if \<not> admitted check
      then abind (record_denied_approval env i check actor_id
                    ''auto-approval: skipped because approval-policy violations remain'') (\<lambda>_.
           areturn (Inr (ti_decision_id i, kc_violations check)))
      else
        abind (aread (\<lambda>_. budget_version check)) (\<lambda>version.
        abind (aread (\<lambda>_. admission_evidence env check)) (\<lambda>evidence.
        abind (record_approval env i check actor_id
                 (''auto-approval: zero approval-policy violations inside the budget envelope of risk budget version ''
                  @ str_int version) evidence) (\<lambda>_.
        abind (aread (\<lambda>r. get_view env r (ti_decision_id i))) (\<lambda>v.
        areturn (Inl v)))))))"

fun lefts :: "('a + 'b) list \<Rightarrow> 'a list" where
  "lefts [] = []"
| "lefts (Inl a # xs) = a # lefts xs"
| "lefts (Inr b # xs) = lefts xs"

fun rights :: "('a + 'b) list \<Rightarrow> 'b list" where
  "rights [] = []"
| "rights (Inl a # xs) = rights xs"
| "rights (Inr b # xs) = b # rights xs"

definition auto_approve_sweep :: "service_env \<Rightarrow> string \<Rightarrow> sweep_result act" where
  "auto_approve_sweep env actor_id =
     abind (aguard (\<not> en_auto_approval env) PolicyViolationError) (\<lambda>_.
     abind (aclock (en_now env)) (\<lambda>now.
     abind (decision_autonomy env now None None) (\<lambda>resolution.
     abind (aguard (autonomy_resolution_violations resolution \<noteq> [] \<or> ar_mode resolution \<noteq> BOUNDED_AUTONOMY)
              PolicyViolationError) (\<lambda>_.
     abind (aread (sweep_candidates env)) (\<lambda>candidates.
     abind (amap (sweep_candidate env actor_id) candidates) (\<lambda>outcomes.
     areturn \<lparr>sw_evaluated_at = now, sw_autonomy_mode = ar_mode resolution,
              sw_autonomy_version = ar_version resolution, sw_approved = lefts outcomes,
              sw_skipped = rights outcomes\<rparr>))))))"

section \<open>Budget changes\<close>

definition update_budget :: "service_env \<Rightarrow> risk_budget \<Rightarrow> actor_type \<Rightarrow> string \<Rightarrow> unit act" where
  "update_budget env budget actor actor_id =
     abind (aclock (en_now env)) (\<lambda>now.
     abind (decision_autonomy env now None None) (\<lambda>resolution.
     abind (aguard (autonomy_resolution_violations resolution @ budget_change_violations (ar_mode resolution) actor \<noteq> [])
              PolicyViolationError) (\<lambda>_.
     abind (current_budget env) (\<lambda>_.
     abind (aclock (en_now env)) (\<lambda>t.
     abind (aappend_budget \<lparr>be_timestamp = Aware t, be_actor_type = actor, be_actor_id = actor_id,
              be_budget = budget\<rparr>) (\<lambda>_.
     abind (decision_autonomy env now None None) (\<lambda>_.
     areturn ())))))))"

section \<open>Submissions and fills\<close>

text \<open>\<^verbatim>\<open>_validate_audit_venue\<close>.\<close>

definition validate_audit_venue :: "string \<Rightarrow> string result" where
  "validate_audit_venue venue =
     (case ticket_venue_of venue of
        Inl _ \<Rightarrow> Inl (ValidationError ''Unsupported trade-idea venue'')
      | Inr v \<Rightarrow>
          if v \<in> {COINBASE, MANUAL, PAPER} then Inr (ticket_venue_value v)
          else Inl (ValidationError ''Unsupported trade-idea venue''))"

definition journal_entry_of :: "service_env \<Rightarrow> repo \<Rightarrow> string \<Rightarrow> journal_entry option result" where
  "journal_entry_of env r d =
     rbind (journal_entries (en_phash env) (stream_log EXECUTION_LOG r)) (\<lambda>entries. Inr (map_of entries d))"

definition check_targeted_submission :: "service_env \<Rightarrow> string \<Rightarrow> trade_idea \<Rightarrow> repo \<Rightarrow> unit result" where
  "check_targeted_submission env venue i r =
     (if ti_position_operation i = None then Inr ()
      else rbind (journal_entry_of env r (ti_decision_id i)) (\<lambda>entry.
           case entry of
             None \<Rightarrow> Inl InvalidTransitionError
           | Some e \<Rightarrow>
               if venue \<noteq> ''paper'' then Inl InvalidTransitionError
               else validate_binding (en_rhash env) e i))"

definition record_submission ::
  "service_env \<Rightarrow> string \<Rightarrow> string \<Rightarrow> string \<Rightarrow> string \<Rightarrow> string \<Rightarrow> actor_type \<Rightarrow> string list \<Rightarrow> trade_idea_view act" where
  "record_submission env d actor_id venue0 order_id reason actor evidence =
     abind (aread (\<lambda>_. validate_audit_venue venue0)) (\<lambda>venue.
     abind (aread (\<lambda>r. require_idea env r d)) (\<lambda>i.
     abind (aread (check_targeted_submission env venue i)) (\<lambda>_.
     abind (append_audit env i ACT_SUBMITTED SUBMITTED actor actor_id reason evidence venue order_id) (\<lambda>_.
     aread (\<lambda>r. get_view env r d)))))"

text \<open>The receipt that a targeted fill needs, when the idea has an operation.\<close>

definition targeted_receipt :: "service_env \<Rightarrow> string \<Rightarrow> trade_idea \<Rightarrow> repo \<Rightarrow> payload option result" where
  "targeted_receipt env venue i r =
     (if ti_position_operation i = None then Inr None
      else rbind (journal_entry_of env r (ti_decision_id i)) (\<lambda>entry.
           if venue \<noteq> ''paper'' then Inl InvalidTransitionError
           else case entry of
                  None \<Rightarrow> Inl InvalidTransitionError
                | Some e \<Rightarrow>
                    (case je_receipt e of
                       None \<Rightarrow> Inl InvalidTransitionError
                     | Some receipt \<Rightarrow>
                         rbind (jget receipt ''status'') (\<lambda>status.
                         rbind (raise_if (status \<noteq> JStr ''filled'') InvalidTransitionError) (\<lambda>_.
                         rbind (validate_binding (en_rhash env) e i) (\<lambda>_.
                         Inr (Some receipt)))))))"

definition check_targeted_fill :: "service_env \<Rightarrow> payload option \<Rightarrow> trade_idea_view \<Rightarrow> unit result" where
  "check_targeted_fill env receipt v =
     (case receipt of
        None \<Rightarrow> Inr ()
      | Some p \<Rightarrow>
          rbind (fill_conflicts (recorded_fill_from_view env v) p) (\<lambda>conflict.
          raise_if conflict (journal_integrity ''Targeted audit fill conflicts with durable receipt'')))"

definition record_fill ::
  "service_env \<Rightarrow> string \<Rightarrow> string \<Rightarrow> string \<Rightarrow> string \<Rightarrow> string \<Rightarrow> actor_type \<Rightarrow> string list \<Rightarrow> trade_idea_view act" where
  "record_fill env d actor_id venue0 order_id reason actor evidence =
     abind (aread (\<lambda>_. validate_audit_venue venue0)) (\<lambda>venue.
     abind (aread (\<lambda>r. require_idea env r d)) (\<lambda>i.
     abind (aread (targeted_receipt env venue i)) (\<lambda>receipt.
     abind (append_audit env i ACT_FILLED FILLED actor actor_id reason evidence venue order_id) (\<lambda>_.
     abind (aread (\<lambda>r. get_view env r d)) (\<lambda>v.
     abind (aread (\<lambda>_. check_targeted_fill env receipt v)) (\<lambda>_.
     areturn v))))))"

section \<open>Closeouts\<close>

text \<open>The constructor call: the snapshot of the audited loss, the two amounts, the reason.\<close>

definition attribution_of ::
  "trade_idea_view \<Rightarrow> instant \<Rightarrow> actor_type \<Rightarrow> string \<Rightarrow> closeout_resolution \<Rightarrow> py_decimal option \<Rightarrow>
   py_decimal option \<Rightarrow> string \<Rightarrow> string list \<Rightarrow> closeout_attribution result" where
  "attribution_of v t actor actor_id resolution amount percent reason evidence =
     rbind (new_max_loss_snapshot (max_loss_snapshot_for (vw_idea v))) (\<lambda>snapshot.
     rbind (closeout_decimal_or_none ''realized_profit_loss_amount'' (map_option JDec amount)) (\<lambda>a.
     rbind (closeout_decimal_or_none ''realized_profit_loss_percent'' (map_option JDec percent)) (\<lambda>p.
     let e = last (vw_events v) in
     new_closeout_attribution
       \<lparr>co_decision_id = ti_decision_id (vw_idea v), co_timestamp = t, co_actor_type = actor_type_value actor,
        co_actor_id = actor_id, co_terminal_event_id = ae_event_id e, co_record_hash = ae_record_hash e,
        co_resolution = resolution, co_max_loss = snapshot, co_realized_amount = a, co_realized_percent = p,
        co_unavailable_reason = reason, co_evidence = evidence\<rparr>)))"

text \<open>The resolution time, and what reductions of the position demand of it and of the amount.\<close>

definition resolution_time ::
  "paper_position option \<Rightarrow> instant option \<Rightarrow> py_decimal option \<Rightarrow> instant option result" where
  "resolution_time projected resolved_at amount =
     (case projected of
        None \<Rightarrow> rbind (raise_if (resolved_at \<noteq> None) InvalidTransitionError) (\<lambda>_. Inr None)
      | Some p \<Rightarrow>
          rbind (raise_if (pp_reserved p \<noteq> 0) InvalidTransitionError) (\<lambda>_.
          if pp_reductions p = []
          then rbind (raise_if (resolved_at \<noteq> None) InvalidTransitionError) (\<lambda>_. Inr None)
          else rbind (latest_fact (pp_reductions p)) (\<lambda>t.
               rbind (raise_if (resolved_at \<noteq> None \<and> resolved_at \<noteq> Some t) InvalidTransitionError) (\<lambda>_.
               rbind (raise_if (pp_remaining p \<noteq> 0 \<or> amount \<noteq> Some (Finite (realized_total p)))
                        InvalidTransitionError) (\<lambda>_.
               Inr (Some t))))))"

definition record_closeout_attribution ::
  "service_env \<Rightarrow> string \<Rightarrow> string \<Rightarrow> closeout_resolution \<Rightarrow> py_decimal option \<Rightarrow> py_decimal option \<Rightarrow> string \<Rightarrow>
   string list \<Rightarrow> actor_type \<Rightarrow> instant option \<Rightarrow> closeout_attribution act" where
  "record_closeout_attribution env d actor_id resolution amount percent reason evidence actor resolved_at =
     abind (aread (\<lambda>r. get_view env r d)) (\<lambda>v.
     abind (aguard (vw_state v \<notin> set TERMINAL_STATES) InvalidTransitionError) (\<lambda>_.
     abind (aguard (ti_position_operation (vw_idea v) \<noteq> None) InvalidTransitionError) (\<lambda>_.
     abind (aread (positions env)) (\<lambda>ps.
     abind (aread (\<lambda>_. resolution_time (map_of ps d) resolved_at amount)) (\<lambda>time.
     abind (case time of Some t \<Rightarrow> areturn t | None \<Rightarrow> aclock (en_now env)) (\<lambda>t.
     abind (aread (\<lambda>_. attribution_of v t actor actor_id resolution amount percent reason evidence)) (\<lambda>c.
     alog CLOSEOUT_LOG (\<lambda>st. closeout_append st c))))))))"

definition auto_attribute_expired_ideas ::
  "service_env \<Rightarrow> string \<Rightarrow> string \<Rightarrow> string list \<Rightarrow> closeout_attribution list act" where
  "auto_attribute_expired_ideas env actor_id reason evidence =
     abind (aread (\<lambda>r. list_views env r (Some EXPIRED))) (\<lambda>views.
     amap (\<lambda>v. record_closeout_attribution env (ti_decision_id (vw_idea v)) actor_id EXPIRY None None reason
                  evidence SYSTEM None)
       (filter (\<lambda>v. ti_position_operation (vw_idea v) = None \<and> vw_closeout v = None) views))"

definition finalize_position ::
  "service_env \<Rightarrow> string \<Rightarrow> string \<Rightarrow> closeout_resolution \<Rightarrow> string list \<Rightarrow> closeout_attribution option act" where
  "finalize_position env target actor_id resolution evidence =
     abind (aread (\<lambda>r. position env r target)) (\<lambda>p.
     if pp_remaining p \<noteq> 0 \<or> pp_reserved p \<noteq> 0 then areturn None
     else
       abind (aread (\<lambda>r. get_view env r target)) (\<lambda>v.
       case vw_closeout v of
         Some c \<Rightarrow>
           if co_realized_amount c \<noteq> Some (realized_total p)
           then araise (journal_integrity ''Final closeout conflicts with reduction facts'')
           else areturn (Some c)
       | None \<Rightarrow>
           abind (aread (\<lambda>_. latest_fact (pp_reductions p))) (\<lambda>t.
           abind (record_closeout_attribution env target actor_id resolution (Some (Finite (realized_total p))) None []
                    (evidence @ map (\<lambda>f. ''position_reduction:'' @ rd_operation_id f) (pp_reductions p))
                    SYSTEM (Some t)) (\<lambda>c.
           areturn (Some c)))))"

text \<open>The event of a simulated close, and the test that a replay of it is the recorded one.\<close>

definition simulated_close_payload ::
  "service_env \<Rightarrow> trade_idea \<Rightarrow> string \<Rightarrow> dec \<Rightarrow> dec \<Rightarrow> py_datetime \<Rightarrow> py_datetime \<Rightarrow> closeout_resolution \<Rightarrow>
   string list \<Rightarrow> string \<Rightarrow> payload" where
  "simulated_close_payload env i target quantity price resolved_at observed_at resolution evidence actor_id =
     [(''operation_id'', JStr (''simulated-close-'' @ en_rhash env i)),
      (''target_decision_id'', JStr target), (''target_record_hash'', JStr (en_rhash env i)),
      (''quantity'', JDec (Finite quantity)), (''price'', JDec (Finite price)),
      (''resolved_at'', isoformat resolved_at), (''observed_at'', isoformat observed_at),
      (''resolution'', JStr (closeout_resolution_value resolution)),
      (''source'', JStr ''simulated_candle_resolution''), (''actor_id'', JStr actor_id),
      (''evidence'', JArr (map JStr evidence))]"

definition replayed_close ::
  "payload list \<Rightarrow> string \<Rightarrow> dec \<Rightarrow> dec \<Rightarrow> py_datetime \<Rightarrow> closeout_resolution \<Rightarrow> bool result" where
  "replayed_close resolutions target quantity price resolved_at resolution =
     (case find (\<lambda>p. map_of p ''target_decision_id'' = Some (JStr target)) resolutions of
        None \<Rightarrow> Inr False
      | Some p \<Rightarrow>
          rbind (rbind (jget p ''quantity'') decimal_ctor) (\<lambda>q.
          if q \<noteq> Finite quantity then Inr False
          else rbind (rbind (jget p ''price'') decimal_ctor) (\<lambda>pr.
          if pr \<noteq> Finite price then Inr False
          else rbind (rbind (jget p ''resolved_at'') jdatetime) (\<lambda>t.
          if t \<noteq> resolved_at then Inr False
          else rbind (jget p ''resolution'') (\<lambda>res.
          Inr (res = JStr (closeout_resolution_value resolution)))))))"

definition record_simulated_close ::
  "service_env \<Rightarrow> string \<Rightarrow> dec \<Rightarrow> dec \<Rightarrow> py_datetime \<Rightarrow> py_datetime \<Rightarrow> closeout_resolution \<Rightarrow> string list \<Rightarrow>
   string \<Rightarrow> closeout_attribution act" where
  "record_simulated_close env target quantity price resolved_at observed_at resolution evidence actor_id =
     abind (aread (\<lambda>r. get_view env r target)) (\<lambda>v.
     case vw_closeout v of
       Some c \<Rightarrow>
         abind (aread (\<lambda>r. rbind (simulated_resolutions (en_phash env) (stream_log EXECUTION_LOG r)) (\<lambda>rs.
                          replayed_close rs target quantity price resolved_at resolution))) (\<lambda>same.
         abind (aguard (\<not> same) (journal_integrity ''Conflicting replay of an already closed target'')) (\<lambda>_.
         areturn c))
     | None \<Rightarrow>
         abind (aread (\<lambda>r. position env r target)) (\<lambda>p.
         abind (aguard (pp_reserved p \<noteq> 0 \<or> quantity \<noteq> pp_remaining p \<or> quantity \<le> 0)
                  (journal_integrity ''Simulated close conflicts with remaining/reserved quantity'')) (\<lambda>_.
         abind (aguard (Idea_Accounting.is_naive resolved_at \<or> Idea_Accounting.is_naive observed_at
                        \<or> as_utc observed_at < as_utc resolved_at)
                  (journal_integrity ''Simulated close requires an observed resolution time'')) (\<lambda>_.
         abind (aguard (list_ex (\<lambda>f. as_utc resolved_at < rd_timestamp f) (pp_reductions p))
                  (journal_integrity ''Simulated close precedes a confirmed partial reduction'')) (\<lambda>_.
         abind (alog EXECUTION_LOG (\<lambda>st.
                  rbind (record_simulated_resolution (en_phash env) st
                           (simulated_close_payload env (pp_idea p) target quantity price resolved_at observed_at
                              resolution evidence actor_id)) (\<lambda>st'. Inr ((), st')))) (\<lambda>_.
         abind (finalize_position env target actor_id resolution evidence) (\<lambda>closed.
         case closed of
           None \<Rightarrow> araise (journal_integrity ''Simulated final close did not flatten its target'')
         | Some c \<Rightarrow> areturn c)))))))"

end
