(* ===== verification/Idea_Governance.thy ===== *)
theory Idea_Governance
  imports Idea_Service
begin

text \<open>
  What the operations of the trade-idea service keep, across
  \<^verbatim>\<open>src/gpt_trader/features/trade_ideas/service.py\<close>, \<^verbatim>\<open>kernel.py\<close>, \<^verbatim>\<open>position_operations.py\<close> and
  \<^verbatim>\<open>persistence.py\<close>. The invariant \<open>repo_ok\<close> of committed states says that the audit log verifies,
  that every version is the record its key names, that the latest version of a decision is the
  one its last audit event acted on, and that a closeout belongs to the current terminal event.
  Between the save of a record and its audit event the state is only \<open>staged\<close>; the transaction
  hides it.

  \<open>transactional\<close> is interpreted with this invariant, and \<open>governed\<close>, what the budget and autonomy
  operations keep, with it, with the staged state and with the tables alone. A lemma for each
  operation says that a run that returns keeps the invariant.
\<close>

section \<open>The invariant\<close>

definition last_event :: "audit_event list \<Rightarrow> string \<Rightarrow> audit_event option" where
  "last_event es d =
     (let own = filter (\<lambda>e. ae_decision_id e = d) es in if own = [] then None else Some (last own))"

definition versions_ok :: "service_env \<Rightarrow> repo \<Rightarrow> bool" where
  "versions_ok env r \<longleftrightarrow>
     (\<forall>d h p. map_of (rp_versions r) (d, h) = Some p \<longrightarrow>
        (\<exists>i. p = trade_idea_to_dict i \<and> valid_trade_idea i \<and> ti_decision_id i = d \<and> en_rhash env i = h))"

definition closeout_matches :: "repo \<Rightarrow> audit_event list \<Rightarrow> closeout_attribution \<Rightarrow> bool" where
  "closeout_matches r es c \<longleftrightarrow>
     (\<exists>e i. last_event es (co_decision_id c) = Some e \<and> ae_after_state e \<in> set TERMINAL_STATES
        \<and> co_terminal_event_id c = ae_event_id e \<and> co_record_hash c = ae_record_hash e
        \<and> map_of (rp_versions r) (co_decision_id c, ae_record_hash e) = Some (trade_idea_to_dict i)
        \<and> valid_trade_idea i \<and> co_max_loss c = max_loss_snapshot_for i)"

text \<open>The part of the invariant that holds with an uncommitted save of decision \<open>d\<close> as well.\<close>

definition trail_ok :: "service_env \<Rightarrow> repo \<Rightarrow> audit_event list \<Rightarrow> (string \<Rightarrow> bool) \<Rightarrow> bool" where
  "trail_ok env r es settled \<longleftrightarrow>
     distinct (map fst (rp_latest r)) \<and> versions_ok env r
     \<and> verify (stream_log AUDIT_LOG r) = Inr es
     \<and> (\<forall>d. settled d \<longrightarrow> latest_hash r d = map_option ae_record_hash (last_event es d))
     \<and> (\<forall>e \<in> set es. map_of (rp_versions r) (ae_decision_id e, ae_record_hash e) \<noteq> None)
     \<and> (\<exists>cs. closeout_log (stream_log CLOSEOUT_LOG r) cs \<and> (\<forall>c \<in> set cs. closeout_matches r es c))"

definition repo_ok :: "service_env \<Rightarrow> repo \<Rightarrow> bool" where
  "repo_ok env r \<longleftrightarrow> (\<exists>es. trail_ok env r es (\<lambda>_. True))"

text \<open>The record of \<open>i\<close> is stored and latest; only its own audit event may be missing.\<close>

definition staged :: "service_env \<Rightarrow> trade_idea \<Rightarrow> repo \<Rightarrow> bool" where
  "staged env i r \<longleftrightarrow>
     (\<exists>es. trail_ok env r es (\<lambda>d. d \<noteq> ti_decision_id i))
     \<and> latest_hash r (ti_decision_id i) = Some (en_rhash env i)
     \<and> map_of (rp_versions r) (ti_decision_id i, en_rhash env i) \<noteq> None"

text \<open>A predicate that the budget, autonomy and execution streams do not affect.\<close>

definition unaffected :: "(repo \<Rightarrow> bool) \<Rightarrow> bool" where
  "unaffected P \<longleftrightarrow>
     (\<forall>r s p. s \<in> {BUDGET_LOG, AUTONOMY_LOG, EXECUTION_LOG} \<longrightarrow> P r \<longrightarrow> P (repo_append s p r))"

section \<open>Histories\<close>

lemma last_event_Nil [simp]: "last_event [] d = None"
  by (simp add: last_event_def)

lemma last_event_snoc [simp]:
  "last_event (es @ [e]) d = (if ae_decision_id e = d then Some e else last_event es d)"
  by (simp add: last_event_def Let_def)

lemma last_state_event: "last_state es d = map_option ae_after_state (last_event es d)"
  by (simp add: last_state_def last_event_def Let_def)

lemma last_event_in: "last_event es d = Some e \<Longrightarrow> e \<in> set es \<and> ae_decision_id e = d"
proof -
  assume a: "last_event es d = Some e"
  then have ne: "filter (\<lambda>e. ae_decision_id e = d) es \<noteq> []" and e: "e = last (filter (\<lambda>e. ae_decision_id e = d) es)"
    by (auto simp: last_event_def Let_def split: if_splits)
  have "e \<in> set (filter (\<lambda>e. ae_decision_id e = d) es)" using last_in_set[OF ne] e by simp
  then show ?thesis by auto
qed

lemma events_of_decision:
  assumes "verify st = Inr es"
  shows "audit_read_events st (Some d) = Inr (filter (\<lambda>e. ae_decision_id e = d) es)"
proof -
  have "concerns (Some d) = (\<lambda>e. ae_decision_id e = d)" by (auto simp: concerns_def)
  then show ?thesis using read_events_verified[OF assms, of "Some d"] by simp
qed

lemma empty_repo_ok: "repo_ok env empty_repo"
proof -
  have "verify (stream_log AUDIT_LOG empty_repo) = Inr []"
    by (simp add: verify_def stream_log_def repo_lines_def empty_repo_def)
  moreover have "closeout_log (stream_log CLOSEOUT_LOG empty_repo) []"
    by (simp add: closeout_log_def stream_log_def repo_lines_def empty_repo_def)
  ultimately show ?thesis
    by (auto simp: repo_ok_def trail_ok_def versions_ok_def latest_hash_def empty_repo_def intro!: exI[of _ "[]"])
qed

section \<open>Reading committed states\<close>

lemma trail_load:
  assumes "trail_ok env r es s" and "map_of (rp_versions r) (d, h) = Some p"
  shows "\<exists>i. load_record_version env r d h = Inr i \<and> valid_trade_idea i \<and> ti_decision_id i = d \<and> en_rhash env i = h
    \<and> map_of (rp_versions r) (d, h) = Some (trade_idea_to_dict i)"
proof -
  obtain i where i: "p = trade_idea_to_dict i" "valid_trade_idea i" "ti_decision_id i = d" "en_rhash env i = h"
    using assms unfolding trail_ok_def versions_ok_def by blast
  then have "load_version r d h = Inr (Some i)"
    using assms(2) by (simp add: load_version_def repo_record_def trade_idea_roundtrip_lemma)
  then show ?thesis
    using i assms(2) by (auto simp: load_record_version_def rewrap_def)
qed

text \<open>What a loaded version is.\<close>

lemma load_record_version_Inr:
  assumes "load_record_version env r d h = Inr i"
  shows "ti_decision_id i = d \<and> en_rhash env i = h \<and> map_of (rp_versions r) (d, h) \<noteq> None"
  using assms
  by (auto simp: load_record_version_def load_version_def repo_record_def ropt_def split: option.split_asm)

lemma require_idea_Inr:
  assumes "require_idea env r d = Inr i"
  shows "ti_decision_id i = d \<and> latest_hash r d = Some (en_rhash env i)
    \<and> map_of (rp_versions r) (d, en_rhash env i) \<noteq> None"
proof -
  from assms obtain h where "latest_hash r d = Some h" "load_record_version env r d h = Inr i"
    by (auto simp: require_idea_def rewrap_def split: option.split_asm sum.split_asm if_splits)
  then show ?thesis using load_record_version_Inr by metis
qed

lemma require_idea_staged: "repo_ok env r \<Longrightarrow> require_idea env r d = Inr i \<Longrightarrow> staged env i r"
  using require_idea_Inr[of env r d i] by (auto simp: repo_ok_def staged_def trail_ok_def)

lemma closeout_read:
  assumes t: "trail_ok env r es s" and e: "last_event es d = Some e"
    and i: "map_of (rp_versions r) (d, ae_record_hash e) = Some (trade_idea_to_dict i)"
    and v: "valid_trade_idea i" and d: "ti_decision_id i = d"
  shows "\<exists>c. validated_closeout_attribution r i (filter (\<lambda>e. ae_decision_id e = d) es) = Inr c"
proof -
  from t obtain cs where cs: "closeout_log (stream_log CLOSEOUT_LOG r) cs" "\<forall>c \<in> set cs. closeout_matches r es c"
    by (auto simp: trail_ok_def)
  have own: "filter (\<lambda>e. ae_decision_id e = d) es \<noteq> []" "last (filter (\<lambda>e. ae_decision_id e = d) es) = e"
    using e by (auto simp: last_event_def Let_def split: if_splits)
  have get: "closeout_get (stream_log CLOSEOUT_LOG r) (ti_decision_id i) = Inr (List.find (\<lambda>c. co_decision_id c = d) cs)"
    using closeout_log_get[OF cs(1)] d by simp
  show ?thesis
  proof (cases "List.find (\<lambda>c. co_decision_id c = d) cs")
    case None
    then show ?thesis by (simp add: validated_closeout_attribution_def get)
  next
    case (Some c)
    then have "closeout_matches r es c" "co_decision_id c = d" using find_decision_Some[OF Some] cs(2) by auto
    then obtain j where "ae_after_state e \<in> set TERMINAL_STATES" "co_terminal_event_id c = ae_event_id e"
        "co_record_hash c = ae_record_hash e" "trade_idea_to_dict j = trade_idea_to_dict i" "valid_trade_idea j"
        "co_max_loss c = max_loss_snapshot_for j"
      using e i by (auto simp: closeout_matches_def)
    moreover from this have "j = i" using v by (metis sum.inject(2) trade_idea_roundtrip_lemma)
    ultimately show ?thesis using Some own by (simp add: validated_closeout_attribution_def get)
  qed
qed

text \<open>Every decision of a committed state has a view, and it is the state its history ends in.\<close>

lemma repo_ok_view:
  assumes ok: "trail_ok env r es (\<lambda>_. True)" and hash: "\<And>i. en_rhash env i \<noteq> []"
  shows "case last_event es d of
      None \<Rightarrow> get_view env r d = Inl (UnknownTradeIdeaError d)
    | Some e \<Rightarrow> \<exists>v. get_view env r d = Inr v \<and> vw_state v = ae_after_state e
        \<and> ti_decision_id (vw_idea v) = d \<and> en_rhash env (vw_idea v) = ae_record_hash e
        \<and> vw_events v = filter (\<lambda>e. ae_decision_id e = d) es"
proof (cases "last_event es d")
  case None
  then have "latest_hash r d = None" using ok by (simp add: trail_ok_def)
  then show ?thesis using None by (simp add: get_view_def require_idea_def rewrap_def)
next
  case (Some e)
  have lh: "latest_hash r d = Some (ae_record_hash e)" using ok Some by (simp add: trail_ok_def)
  have "e \<in> set es" "ae_decision_id e = d" using last_event_in[OF Some] by auto
  then obtain p where "map_of (rp_versions r) (d, ae_record_hash e) = Some p" using ok by (auto simp: trail_ok_def)
  from trail_load[OF ok this] obtain i where i: "load_record_version env r d (ae_record_hash e) = Inr i"
      "valid_trade_idea i" "ti_decision_id i = d" "en_rhash env i = ae_record_hash e"
      "map_of (rp_versions r) (d, ae_record_hash e) = Some (trade_idea_to_dict i)"
    by blast
  have own: "filter (\<lambda>e. ae_decision_id e = d) es \<noteq> []" "last (filter (\<lambda>e. ae_decision_id e = d) es) = e"
    using Some by (auto simp: last_event_def Let_def split: if_splits)
  have events: "audit_read_events (stream_log AUDIT_LOG r) (Some d) = Inr (filter (\<lambda>e. ae_decision_id e = d) es)"
    using ok events_of_decision by (simp add: trail_ok_def)
  have req: "require_idea env r d = Inr i"
    using lh i own events hash[of i]
    by (simp add: require_idea_def rewrap_def verify_latest_record_is_audited_def)
  obtain c where "validated_closeout_attribution r i (filter (\<lambda>e. ae_decision_id e = d) es) = Inr c"
    using closeout_read[OF ok Some i(5,2,3)] by blast
  then have "get_view env r d = Inr \<lparr>vw_idea = i, vw_state = ae_after_state e,
      vw_events = filter (\<lambda>e. ae_decision_id e = d) es, vw_closeout = c\<rparr>"
    using req events own by (simp add: get_view_def)
  then show ?thesis using Some i by simp
qed

section \<open>Writing\<close>

lemma trail_unaffected: "unaffected (\<lambda>r. trail_ok env r es s)"
  by (auto simp: unaffected_def trail_ok_def versions_ok_def closeout_matches_def latest_hash_def stream_log_append)

lemma unaffectedD:
  "unaffected P \<Longrightarrow> s \<in> {BUDGET_LOG, AUTONOMY_LOG, EXECUTION_LOG} \<Longrightarrow> P r \<Longrightarrow> P (repo_append s p r)"
  unfolding unaffected_def by blast

lemma repo_ok_unaffected: "unaffected (repo_ok env)"
  unfolding unaffected_def repo_ok_def using unaffectedD[OF trail_unaffected] by blast

lemma staged_unaffected: "unaffected (staged env i)"
  unfolding unaffected_def staged_def latest_hash_def repo_append_tables
  using unaffectedD[OF trail_unaffected] by blast

text \<open>An audit event of the staged record settles it.\<close>

lemma staged_append:
  assumes st: "staged env i r" and "audit_append (stream_log AUDIT_LOG r) e = Inr store"
    and e: "ae_decision_id e = ti_decision_id i" "ae_record_hash e = en_rhash env i"
  shows "repo_ok env (repo_append AUDIT_LOG (audit_event_to_dict e) r)"
proof -
  from st obtain es where t: "trail_ok env r es (\<lambda>d. d \<noteq> ti_decision_id i)"
    and lh: "latest_hash r (ti_decision_id i) = Some (en_rhash env i)"
    and ver: "map_of (rp_versions r) (ti_decision_id i, en_rhash env i) \<noteq> None"
    unfolding staged_def by blast
  let ?r = "repo_append AUDIT_LOG (audit_event_to_dict e) r"
  have v: "verify (stream_log AUDIT_LOG r) = Inr es" using t by (simp add: trail_ok_def)
  have legal: "legal_event es e" and store: "store = log_append (stream_log AUDIT_LOG r) (audit_event_to_dict e)"
    using assms(2) audit_append_verified[OF v] by auto
  have v': "verify (stream_log AUDIT_LOG ?r) = Inr (es @ [e])"
    using verify_append[OF v assms(2)] store by (simp add: stream_log_append)
  have lh': "latest_hash ?r d = map_option ae_record_hash (last_event (es @ [e]) d)" for d
    using t lh e by (auto simp: trail_ok_def latest_hash_def)
  have vers: "\<forall>x \<in> set (es @ [e]). map_of (rp_versions ?r) (ae_decision_id x, ae_record_hash x) \<noteq> None"
    using t ver e by (auto simp: trail_ok_def)
  from t obtain cs where cs: "closeout_log (stream_log CLOSEOUT_LOG r) cs" "\<forall>c \<in> set cs. closeout_matches r es c"
    unfolding trail_ok_def by blast
  have "closeout_matches ?r (es @ [e]) c" if "c \<in> set cs" for c
  proof -
    have m: "closeout_matches r es c" using cs(2) that by blast
    then obtain x where "last_event es (co_decision_id c) = Some x" "ae_after_state x \<in> set TERMINAL_STATES"
      by (auto simp: closeout_matches_def)
    then have "co_decision_id c \<noteq> ae_decision_id e"
      using legal terminal_no_event[of es e "ae_after_state x"] by (auto simp: last_state_event)
    then show ?thesis using m by (simp add: closeout_matches_def)
  qed
  then have "trail_ok env ?r (es @ [e]) (\<lambda>_. True)"
    using t v' lh' vers cs(1) unfolding trail_ok_def versions_ok_def
    by (simp add: stream_log_append) blast
  then show ?thesis by (auto simp: repo_ok_def)
qed

lemma save_staged:
  assumes ok: "repo_ok env r" and v: "valid_trade_idea i" and s: "store_save (en_rhash env) i r = Inr r'"
  shows "staged env i r'"
proof -
  from ok obtain es where t: "trail_ok env r es (\<lambda>_. True)" by (auto simp: repo_ok_def)
  let ?k = "(ti_decision_id i, en_rhash env i)"
  have streams: "stream_log x r' = stream_log x r" for x
    using s by (simp add: store_save_def save_record_stream)
  have latest: "rp_latest r' = AList.update (ti_decision_id i) (en_rhash env i) (rp_latest r)"
    and vers: "rp_versions r' = rp_versions r \<and> map_of (rp_versions r) ?k \<noteq> None
      \<or> rp_versions r' = rp_versions r @ [(?k, trade_idea_to_dict i)] \<and> map_of (rp_versions r) ?k = None"
    using s by (auto simp: store_save_def save_record_def split: option.splits if_splits)
  have keep: "map_of (rp_versions r') k = Some p" if "map_of (rp_versions r) k = Some p" for k p
    using vers that by (auto simp: map_add_def)
  have new: "map_of (rp_versions r') ?k \<noteq> None" using vers by (auto simp: map_add_def)
  have vok: "versions_ok env r'"
    using t vers v unfolding trail_ok_def versions_ok_def
    by (auto simp: map_add_def split: if_splits option.split_asm)
  have lh: "latest_hash r' d = (if d = ti_decision_id i then Some (en_rhash env i) else latest_hash r d)" for d
    by (simp add: latest_hash_def latest update_conv)
  from t obtain cs where cs: "closeout_log (stream_log CLOSEOUT_LOG r) cs" "\<forall>c \<in> set cs. closeout_matches r es c"
    unfolding trail_ok_def by blast
  have "\<forall>c \<in> set cs. closeout_matches r' es c"
    using cs(2) keep unfolding closeout_matches_def by blast
  moreover have "\<forall>e \<in> set es. map_of (rp_versions r') (ae_decision_id e, ae_record_hash e) \<noteq> None"
    using t keep unfolding trail_ok_def by blast
  ultimately have "trail_ok env r' es (\<lambda>d. d \<noteq> ti_decision_id i)"
    using t vok lh cs(1) unfolding trail_ok_def by (auto simp: streams latest distinct_update)
  then show ?thesis using lh new by (auto simp: staged_def)
qed

lemma trail_closeouts:
  assumes "trail_ok env r es s" and "closeout_log (stream_log CLOSEOUT_LOG (repo_append CLOSEOUT_LOG p r)) cs"
    and "\<forall>c \<in> set cs. closeout_matches (repo_append CLOSEOUT_LOG p r) es c"
  shows "trail_ok env (repo_append CLOSEOUT_LOG p r) es s"
proof -
  have "\<exists>cs. closeout_log (stream_log CLOSEOUT_LOG (repo_append CLOSEOUT_LOG p r)) cs
      \<and> (\<forall>c \<in> set cs. closeout_matches (repo_append CLOSEOUT_LOG p r) es c)"
    using assms(2,3) by blast
  then show ?thesis
    using assms(1) by (simp add: trail_ok_def versions_ok_def latest_hash_def stream_log_append)
qed

text \<open>A closeout of the terminal event that a view ends in.\<close>

lemma closeout_append_ok:
  assumes ok: "repo_ok env r" and view: "get_view env r d = Inr v" and ended: "vw_state v \<in> set TERMINAL_STATES"
    and c: "attribution_of v t actor aid res amount percent reason evidence = Inr c"
    and app: "closeout_append (stream_log CLOSEOUT_LOG r) c = Inr (c', store)"
  shows "store = stream_log CLOSEOUT_LOG r
    \<or> store = log_append (stream_log CLOSEOUT_LOG r) (closeout_attribution_to_dict c)
      \<and> repo_ok env (repo_append CLOSEOUT_LOG (closeout_attribution_to_dict c) r)"
proof -
  from ok obtain es where tr: "trail_ok env r es (\<lambda>_. True)" by (auto simp: repo_ok_def)
  from tr obtain cs where cs: "closeout_log (stream_log CLOSEOUT_LOG r) cs" "\<forall>c \<in> set cs. closeout_matches r es c"
    unfolding trail_ok_def by blast
  have "closeout_matches r es c \<and> valid_closeout c"
  proof -
    from view obtain i events where i: "require_idea env r d = Inr i" and v: "vw_idea v = i"
        "vw_events v = events" "events \<noteq> []" "vw_state v = ae_after_state (last events)"
      and ev: "audit_read_events (stream_log AUDIT_LOG r) (Some d) = Inr events"
      by (auto simp: get_view_def)
    have own: "events = filter (\<lambda>e. ae_decision_id e = d) es"
      using ev tr events_of_decision by (simp add: trail_ok_def)
    then have le: "last_event es d = Some (last events)" using v(3) by (auto simp: last_event_def Let_def)
    have id: "ti_decision_id i = d" "latest_hash r d = Some (en_rhash env i)"
        "map_of (rp_versions r) (d, en_rhash env i) \<noteq> None"
      using require_idea_Inr[OF i] by auto
    have h: "ae_record_hash (last events) = en_rhash env i" using tr id le by (simp add: trail_ok_def)
    obtain j where j: "load_record_version env r d (en_rhash env i) = Inr j" "valid_trade_idea j"
        "map_of (rp_versions r) (d, en_rhash env i) = Some (trade_idea_to_dict j)"
      using trail_load[OF tr] id(3) by blast
    have "load_record_version env r d (en_rhash env i) = Inr i"
      using i id(2) by (auto simp: require_idea_def rewrap_def split: option.split_asm sum.split_asm if_splits)
    then have "j = i" using j by simp
    have cf: "co_decision_id c = d" "co_terminal_event_id c = ae_event_id (last events)"
        "co_record_hash c = ae_record_hash (last events)" "co_max_loss c = max_loss_snapshot_for i"
        "new_closeout_attribution c = Inr c" "new_max_loss_snapshot (co_max_loss c) = Inr (co_max_loss c)"
      using c v id(1) by (auto simp: attribution_of_def new_max_loss_snapshot_def new_closeout_attribution_def Let_def)
    have "last_event es (co_decision_id c) = Some (last events) \<and> ae_after_state (last events) \<in> set TERMINAL_STATES
        \<and> co_terminal_event_id c = ae_event_id (last events) \<and> co_record_hash c = ae_record_hash (last events)
        \<and> map_of (rp_versions r) (co_decision_id c, ae_record_hash (last events)) = Some (trade_idea_to_dict i)
        \<and> valid_trade_idea i \<and> co_max_loss c = max_loss_snapshot_for i"
      using le ended v cf h j \<open>j = i\<close> by simp
    then show ?thesis using cf unfolding closeout_matches_def valid_closeout_def by blast
  qed
  then have m: "closeout_matches r es c" "valid_closeout c" by auto
  from closeout_append_cases[OF cs(1) app] show ?thesis
  proof (elim conjE disjE)
    assume a: "store = log_append (stream_log CLOSEOUT_LOG r) (closeout_attribution_to_dict c)"
      "co_decision_id c \<notin> co_decision_id ` set cs"
    let ?r = "repo_append CLOSEOUT_LOG (closeout_attribution_to_dict c) r"
    have "closeout_log (stream_log CLOSEOUT_LOG ?r) (cs @ [c])"
      using closeout_log_append[OF cs(1) m(2) a(2)] by (simp add: stream_log_append)
    moreover have "\<forall>x \<in> set (cs @ [c]). closeout_matches ?r es x"
      using cs(2) m(1) by (auto simp: closeout_matches_def)
    ultimately have "trail_ok env ?r es (\<lambda>_. True)" by (rule trail_closeouts[OF tr])
    then show ?thesis using a by (auto simp: repo_ok_def)
  qed simp
qed

section \<open>Acts\<close>

definition one_row :: "(log_store \<Rightarrow> ('a \<times> log_store) result) \<Rightarrow> bool" where
  "one_row f \<longleftrightarrow> (\<forall>st a st'. f st = Inr (a, st') \<longrightarrow> st' = st \<or> (\<exists>p. st' = log_append st p))"

lemma one_row_logs:
  "one_row (\<lambda>st. rbind (budget_append l st be) (\<lambda>st'. Inr (v, st')))"
  "one_row (\<lambda>st. rbind (autonomy_append l st ue) (\<lambda>st'. Inr (v, st')))"
  "one_row (\<lambda>st. rbind (audit_append st ae) (\<lambda>st'. Inr (v, st')))"
  "one_row (\<lambda>st. closeout_append st c)"
  by (auto simp: one_row_def budget_append_def autonomy_append_def versioned_append_Inr_iff audit_append_def
      closeout_append_def split: option.splits if_splits)

lemma one_row_resolution:
  "one_row (\<lambda>st. rbind (record_simulated_resolution h st p) (\<lambda>st'. Inr (v, st')))"
proof -
  have "st' = st \<or> (\<exists>q. st' = log_append st q)" if "record_simulated_resolution h st p = Inr st'" for st st'
    using that by (auto simp: record_simulated_resolution_def Let_def split: option.split_asm if_splits)
  then show ?thesis by (auto simp: one_row_def)
qed

lemma grows_one_row: "s \<noteq> AUTONOMY_LOG \<Longrightarrow> one_row f \<Longrightarrow> grows (alog s f)"
  by (rule grows_alog) (auto simp: one_row_def)

lemma alog_unaffected:
  assumes "unaffected P" and "s \<in> {BUDGET_LOG, AUTONOMY_LOG, EXECUTION_LOG}" and "one_row f"
  shows "establishes P (alog s f) (\<lambda>_. P)"
proof -
  have "P (wd_repo w')" if "P (wd_repo w)" "alog s f w = (Inr a, w')" for w a w'
  proof -
    from that(2) obtain st where f: "f (stream_log s (wd_repo w)) = Inr (a, st)"
      by (auto simp: alog_def split: sum.splits prod.splits)
    have "st = stream_log s (wd_repo w) \<or> (\<exists>p. st = log_append (stream_log s (wd_repo w)) p)"
      using f assms(3) unfolding one_row_def by blast
    from alog_cases[where f = f, OF f this] show ?thesis
      using that unaffectedD[OF assms(1,2)] by auto
  qed
  then show ?thesis by (simp add: establishes_def)
qed

text \<open>The kernel keeps what those streams do not affect, and only grows the tables.\<close>

lemma grows_budget [grows_rules]: "grows (aappend_budget e)" "grows (current_budget env)"
proof -
  show "grows (aappend_budget e)" for e
    unfolding aappend_budget_def by (rule grows_one_row[OF _ one_row_logs(1)]) simp
  then show "grows (current_budget env)"
    unfolding current_budget_def by (auto intro!: grows_rules)
qed

lemma grows_enact [grows_rules]: "grows (enact e)"
proof (cases "new_autonomy_state_entry e")
  case (Inl x)
  then show ?thesis by (auto simp: enact_def intro!: grows_rules)
next
  case (Inr entry)
  then have "valid_entry entry" by (auto simp: new_autonomy_state_entry_def valid_entry_def)
  then show ?thesis using Inr by (auto simp: enact_def intro!: grows_rules grows_aappend_autonomy)
qed

lemma grows_kernel [grows_rules]:
  "grows (current_autonomy env)" "grows (ratchet_down env res now b reason)" "grows (decision_autonomy env now bo co)"
  "grows (check_approval env i actor no)" "grows (check_execution env d actor no)"
  "grows (append_audit env i action after actor aid reason evidence venue order_id)"
  "grows (record_denied_approval env i check aid reason)" "grows (record_denied_execution env i check aid reason)"
proof -
  show ca: "grows (current_autonomy env)" for env unfolding current_autonomy_def by (auto intro!: grows_rules)
  show rd: "grows (ratchet_down env res now b reason)" for env res now b reason
    unfolding ratchet_down_def by (auto intro!: grows_rules)
  show da: "grows (decision_autonomy env now bo co)" for env now bo co
    unfolding decision_autonomy_def by (auto intro!: grows_rules ca rd)
  show "grows (check_approval env i actor no)" "grows (check_execution env d actor no)"
    unfolding check_approval_def check_execution_def by (auto intro!: grows_rules da)
  show aa: "grows (append_audit env i action after actor aid reason evidence venue order_id)"
    for env i action after actor aid reason evidence venue order_id
    unfolding append_audit_def by (auto intro!: grows_rules grows_one_row[OF _ one_row_logs(3)])
  show "grows (record_denied_approval env i check aid reason)" "grows (record_denied_execution env i check aid reason)"
    unfolding record_denied_approval_def record_denied_execution_def by (auto intro!: grows_rules aa)
qed

lemma grows_service [grows_rules]:
  "grows (commit_approval env i check aid reason evidence)" "grows (record_approval env i check aid reason evidence)"
  "grows (approve env d aid reason)" "grows (auto_approve_sweep env aid)"
  "grows (update_budget env budget actor aid)" "grows (set_autonomy_mode env mode actor aid reason evidence)"
proof -
  show ca: "grows (commit_approval env i check aid reason evidence)" for env i check aid reason evidence
    unfolding commit_approval_def by (auto intro!: grows_rules)
  then show ra: "grows (record_approval env i check aid reason evidence)" for env i check aid reason evidence
    unfolding record_approval_def by (auto intro!: grows_rules)
  show "grows (approve env d aid reason)" unfolding approve_def by (auto intro!: grows_rules ra)
  show "grows (auto_approve_sweep env aid)"
    unfolding auto_approve_sweep_def sweep_candidate_def Let_def by (auto intro!: grows_rules ra)
  show "grows (update_budget env budget actor aid)" unfolding update_budget_def by (auto intro!: grows_rules)
  show "grows (set_autonomy_mode env mode actor aid reason evidence)"
    unfolding set_autonomy_mode_def by (auto intro!: grows_rules)
qed

text \<open>What the budget and autonomy operations keep.\<close>

lemma establishes_then: "establishes P m (\<lambda>_. P) \<Longrightarrow> (\<And>a. establishes P (f a) Q) \<Longrightarrow> establishes P (abind m f) Q"
  by (rule establishes_abind)

locale governed =
  fixes P :: "repo \<Rightarrow> bool"
  assumes unaffected: "unaffected P"
begin

lemma keeps_logs:
  "establishes P (aappend_budget be) (\<lambda>_. P)" "establishes P (aappend_autonomy ue) (\<lambda>_. P)"
  unfolding aappend_budget_def aappend_autonomy_def
  by (rule alog_unaffected[OF unaffected _ one_row_logs(1)], simp)
     (rule alog_unaffected[OF unaffected _ one_row_logs(2)], simp)

lemma keeps_enact: "establishes P (enact e) (\<lambda>_. P)"
  unfolding enact_def
  by (cases "new_autonomy_state_entry e") (auto intro!: establishes_rules keeps_logs)

lemma clean_seed: "clean (abind (enact e) (\<lambda>_. areturn v))"
  by (auto simp: clean_def enact_def aappend_autonomy_def abind_def areturn_def araise_def alog_def
      split: prod.splits sum.splits)

lemma keeps_current_budget: "establishes P (current_budget env) (\<lambda>_. P)"
  unfolding current_budget_def aappend_budget_def
  by (intro establishes_then establishes_keep establishes_option establishes_atry clean_append
      keeps_logs(1)[unfolded aappend_budget_def])

lemma keeps_current_autonomy: "establishes P (current_autonomy env) (\<lambda>_. P)"
  unfolding current_autonomy_def
  by (intro establishes_then establishes_keep establishes_if establishes_atry clean_seed keeps_enact)

lemma keeps_ratchet: "establishes P (ratchet_down env res now b reason) (\<lambda>_. P)"
  unfolding ratchet_down_def by (intro establishes_then establishes_keep keeps_enact)

lemma keeps_decision_autonomy: "establishes P (decision_autonomy env now bo co) (\<lambda>_. P)"
  unfolding decision_autonomy_def
  by (intro establishes_then establishes_keep establishes_if establishes_option keeps_current_autonomy
      keeps_current_budget keeps_ratchet)

lemma keeps_checks:
  "establishes P (check_approval env i actor no) (\<lambda>_. P)" "establishes P (check_execution env d actor no) (\<lambda>_. P)"
  unfolding check_approval_def check_execution_def
  by (intro establishes_then establishes_keep establishes_option establishes_run_write keeps_current_budget
      keeps_decision_autonomy)+

lemma keeps_set_autonomy_mode: "establishes P (set_autonomy_mode env mode actor aid reason evidence) (\<lambda>_. P)"
  unfolding set_autonomy_mode_def
  by (intro establishes_then establishes_keep keeps_current_autonomy keeps_enact)

lemma keeps_update_budget: "establishes P (update_budget env budget actor aid) (\<lambda>_. P)"
  unfolding update_budget_def
  by (intro establishes_then establishes_keep keeps_current_budget keeps_decision_autonomy keeps_logs)

end

interpretation committed: governed "repo_ok env" for env
  by unfold_locales (rule repo_ok_unaffected)

interpretation saved: governed "staged env i" for env i
  by unfold_locales (rule staged_unaffected)

lemma repo_ok_refusal:
  assumes "repo_ok env r" and "repo_grows r r'" and "admission_revision r' = admission_revision r"
  shows "repo_ok env r'"
proof -
  from assms(1) obtain es where t: "trail_ok env r es (\<lambda>_. True)" by (auto simp: repo_ok_def)
  have dist: "distinct (map fst (rp_latest r))" using t by (simp add: trail_ok_def)
  note same = revision_unchanged[OF assms(2,3) dist]
  have st: "stream_log s r' = stream_log s r" if "s \<noteq> AUTONOMY_LOG" for s
    using same(3)[OF that] by (simp add: stream_log_def)
  have "trail_ok env r' es (\<lambda>_. True)"
    using t grows_latest_distinct[OF assms(2) dist]
    unfolding trail_ok_def versions_ok_def latest_hash_def closeout_matches_def
    by (simp add: same(1,2) st)
  then show ?thesis by (auto simp: repo_ok_def)
qed

interpretation service: transactional "repo_ok env" for env
  by unfold_locales (rule repo_ok_refusal)

section \<open>The operations keep the invariant\<close>

lemma append_audit_staged:
  "establishes (staged env i) (append_audit env i action after actor aid reason evidence venue order_id) (\<lambda>_. repo_ok env)"
proof -
  have "repo_ok env (wd_repo w')"
    if "staged env i (wd_repo w)" "ae_decision_id e = ti_decision_id i" "ae_record_hash e = en_rhash env i"
      "alog AUDIT_LOG (\<lambda>st. rbind (audit_append st e) (\<lambda>st'. Inr ((), st'))) w = (Inr u, w')" for w w' u e
  proof -
    from that(4) obtain st where st: "audit_append (stream_log AUDIT_LOG (wd_repo w)) e = Inr st"
      by (auto simp: alog_def split: sum.splits prod.splits)
    then have "st = log_append (stream_log AUDIT_LOG (wd_repo w)) (audit_event_to_dict e)"
      by (auto simp: audit_append_def)
    then have "wd_repo w' = repo_append AUDIT_LOG (audit_event_to_dict e) (wd_repo w)"
      using that(4) st by (auto simp: alog_def stream_log_def)
    then show ?thesis using staged_append[OF that(1) st that(2,3)] by simp
  qed
  then have "establishes (staged env i) (alog AUDIT_LOG (\<lambda>st. rbind (audit_append st e) (\<lambda>st'. Inr ((), st')))) (\<lambda>_. repo_ok env)"
    if "ae_decision_id e = ti_decision_id i" "ae_record_hash e = en_rhash env i" for e
    using that unfolding establishes_def by blast
  then show ?thesis
    unfolding append_audit_def by (intro establishes_then establishes_keep) simp_all
qed

text \<open>Reading a stored idea stages it again.\<close>

lemma read_idea: "establishes (repo_ok env) (aread (\<lambda>r. require_idea env r d)) (\<lambda>i. staged env i)"
  by (auto simp: establishes_def aread_def intro: require_idea_staged)

lemma audited_action_ok: "establishes (repo_ok env) (audited_action env d action after actor aid reason) (\<lambda>_. repo_ok env)"
  unfolding audited_action_def
  by (rule establishes_abind[OF read_idea], rule establishes_abind[OF append_audit_staged], rule establishes_keep)

lemma save_ok: "valid_trade_idea i \<Longrightarrow> establishes (repo_ok env) (asave (store_save (en_rhash env) i)) (\<lambda>_. staged env i)"
  by (auto simp: establishes_def asave_def split: sum.splits intro: save_staged)

lemma propose_ok: "valid_trade_idea i \<Longrightarrow> establishes (repo_ok env) (propose env i aid actor reason evidence) (\<lambda>_. repo_ok env)"
  unfolding propose_def
  by (rule establishes_then[OF establishes_keep(4)], rule establishes_abind[OF save_ok], assumption,
      rule establishes_abind[OF append_audit_staged], rule establishes_keep)

lemma resubmit_ok: "valid_trade_idea i \<Longrightarrow> establishes (repo_ok env) (resubmit env i aid actor reason) (\<lambda>_. repo_ok env)"
  unfolding resubmit_def
  by (rule establishes_then[OF establishes_keep(4)], rule establishes_abind[OF save_ok], assumption,
      rule establishes_abind[OF append_audit_staged], rule establishes_keep)

lemma propose_batch_ok:
  "\<forall>i \<in> set ideas. valid_trade_idea i \<Longrightarrow>
     establishes (repo_ok env) (propose_batch env ideas aid actor reason evidence) (\<lambda>_. repo_ok env)"
  unfolding propose_batch_def by (intro establishes_then establishes_keep establishes_amap propose_ok) simp

lemma simple_actions_ok:
  "establishes (repo_ok env) (request_changes env d aid reason) (\<lambda>_. repo_ok env)"
  "establishes (repo_ok env) (reject env d aid reason actor) (\<lambda>_. repo_ok env)"
  "establishes (repo_ok env) (cancel env d aid reason actor) (\<lambda>_. repo_ok env)"
  "establishes (repo_ok env) (expire env d aid reason actor) (\<lambda>_. repo_ok env)"
  unfolding request_changes_def reject_def cancel_def expire_def by (rule audited_action_ok)+

lemma expire_due_ok: "establishes (repo_ok env) (expire_due_ideas env aid reason actor) (\<lambda>_. repo_ok env)"
  unfolding expire_due_ideas_def
  by (intro establishes_then establishes_keep establishes_amap establishes_if simple_actions_ok)

lemma commit_approval_ok: "establishes (repo_ok env) (commit_approval env i check aid reason evidence) (\<lambda>_. repo_ok env)"
  unfolding commit_approval_def
  by (rule establishes_abind[OF read_idea])
    (intro establishes_then establishes_keep saved.keeps_checks append_audit_staged)

lemma record_approval_ok: "establishes (repo_ok env) (record_approval env i check aid reason evidence) (\<lambda>_. repo_ok env)"
  unfolding record_approval_def by (intro establishes_then establishes_keep commit_approval_ok)

lemma approve_ok: "establishes (repo_ok env) (approve env d aid reason) (\<lambda>_. repo_ok env)"
  unfolding approve_def
  by (intro establishes_then establishes_keep committed.keeps_checks record_approval_ok)

lemma record_submission_ok:
  "establishes (repo_ok env) (record_submission env d aid venue order_id reason actor evidence) (\<lambda>_. repo_ok env)"
  unfolding record_submission_def
  by (rule establishes_then[OF establishes_keep(4)], rule establishes_abind[OF read_idea])
    (intro establishes_then establishes_keep establishes_abind[OF append_audit_staged])

lemma record_fill_ok:
  "establishes (repo_ok env) (record_fill env d aid venue order_id reason actor evidence) (\<lambda>_. repo_ok env)"
  unfolding record_fill_def
  by (rule establishes_then[OF establishes_keep(4)], rule establishes_abind[OF read_idea],
      rule establishes_then[OF establishes_keep(4)], rule establishes_abind[OF append_audit_staged])
    (intro establishes_then establishes_keep)

lemma closeout_alog_ok:
  "establishes (\<lambda>r. attribution_of v t actor aid res amount percent reason evidence = Inr c
      \<and> \<not> vw_state v \<notin> set TERMINAL_STATES \<and> get_view env r d = Inr v \<and> repo_ok env r)
    (alog CLOSEOUT_LOG (\<lambda>st. closeout_append st c)) (\<lambda>_. repo_ok env)"
proof -
  have "repo_ok env (wd_repo w')"
    if "repo_ok env (wd_repo w)" "get_view env (wd_repo w) d = Inr v" "vw_state v \<in> set TERMINAL_STATES"
      "attribution_of v t actor aid res amount percent reason evidence = Inr c"
      "alog CLOSEOUT_LOG (\<lambda>st. closeout_append st c) w = (Inr c', w')" for w c' w'
  proof -
    from that(5) obtain st where st: "closeout_append (stream_log CLOSEOUT_LOG (wd_repo w)) c = Inr (c', st)"
      by (auto simp: alog_def split: sum.splits prod.splits)
    from closeout_append_ok[OF that(1-4) st] show ?thesis
      using that(1,5) st by (auto simp: alog_def stream_log_def)
  qed
  then show ?thesis unfolding establishes_def by blast
qed

lemma record_closeout_ok:
  "establishes (repo_ok env) (record_closeout_attribution env d aid res amount percent reason evidence actor resolved)
     (\<lambda>_. repo_ok env)"
  unfolding record_closeout_attribution_def
  by (rule establishes_abind[OF establishes_basic(4)], rule establishes_abind[OF establishes_basic(3)],
      rule establishes_then[OF establishes_keep(3)], rule establishes_then[OF establishes_keep(4)],
      rule establishes_then[OF establishes_keep(4)],
      rule establishes_then[OF establishes_option[OF establishes_keep(5) establishes_keep(1)]],
      rule establishes_abind[OF establishes_basic(4)], rule closeout_alog_ok)

lemma auto_attribute_ok:
  "establishes (repo_ok env) (auto_attribute_expired_ideas env aid reason evidence) (\<lambda>_. repo_ok env)"
  unfolding auto_attribute_expired_ideas_def
  by (intro establishes_then establishes_keep establishes_amap record_closeout_ok)

lemma finalize_position_ok:
  "establishes (repo_ok env) (finalize_position env target aid res evidence) (\<lambda>_. repo_ok env)"
  unfolding finalize_position_def
  by (intro establishes_then establishes_keep establishes_if establishes_option record_closeout_ok)

lemma record_simulated_close_ok:
  "establishes (repo_ok env) (record_simulated_close env target q p ra oa res evidence aid) (\<lambda>_. repo_ok env)"
  unfolding record_simulated_close_def
  by (intro establishes_then establishes_keep establishes_option finalize_position_ok
      alog_unaffected[OF repo_ok_unaffected _ one_row_resolution]) simp

text \<open>The execution journal's own writers append to a stream the invariant does not read.\<close>

definition journal_write :: "(log_store \<Rightarrow> log_store result) \<Rightarrow> unit act" where
  "journal_write f = alog EXECUTION_LOG (\<lambda>st. rbind (f st) (\<lambda>st'. Inr ((), st')))"

lemma one_row_journal:
  "one_row (\<lambda>st. rbind (record_intent h st d rh intent) (\<lambda>st'. Inr (v, st')))"
  "one_row (\<lambda>st. rbind (record_receipt h st d receipt) (\<lambda>st'. Inr (v, st')))"
  "one_row (\<lambda>st. rbind (mark_reconciled h st d) (\<lambda>st'. Inr (v, st')))"
proof -
  have "st' = st \<or> (\<exists>q. st' = log_append st q)" if "record_intent h st d rh intent = Inr st'" for st st'
    using that by (auto simp: record_intent_def Let_def)
  moreover have "st' = st \<or> (\<exists>q. st' = log_append st q)" if "record_receipt h st d receipt = Inr st'" for st st'
    using that by (auto simp: record_receipt_def split: option.split_asm if_splits)
  moreover have "st' = st \<or> (\<exists>q. st' = log_append st q)" if "mark_reconciled h st d = Inr st'" for st st'
    using that by (auto simp: mark_reconciled_def split: option.split_asm if_splits)
  ultimately show
    "one_row (\<lambda>st. rbind (record_intent h st d rh intent) (\<lambda>st'. Inr (v, st')))"
    "one_row (\<lambda>st. rbind (record_receipt h st d receipt) (\<lambda>st'. Inr (v, st')))"
    "one_row (\<lambda>st. rbind (mark_reconciled h st d) (\<lambda>st'. Inr (v, st')))"
    by (auto simp: one_row_def)
qed

lemma journal_write_ok:
  "establishes (repo_ok env) (journal_write (\<lambda>st. record_intent h st d rh intent)) (\<lambda>_. repo_ok env)"
  "establishes (repo_ok env) (journal_write (\<lambda>st. record_receipt h st d receipt)) (\<lambda>_. repo_ok env)"
  "establishes (repo_ok env) (journal_write (\<lambda>st. mark_reconciled h st d)) (\<lambda>_. repo_ok env)"
  unfolding journal_write_def
  by (rule alog_unaffected[OF repo_ok_unaffected _ one_row_journal(1)], simp)
     (rule alog_unaffected[OF repo_ok_unaffected _ one_row_journal(2)], simp,
      rule alog_unaffected[OF repo_ok_unaffected _ one_row_journal(3)], simp)

section \<open>The sweep\<close>

text \<open>
  The sweep reads its candidates once. No record is saved while it runs, so each candidate is
  still the latest record of its decision when its turn comes.
\<close>

definition tables :: "(string \<times> string) list \<Rightarrow> ((string \<times> string) \<times> payload) list \<Rightarrow> repo \<Rightarrow> bool" where
  "tables L V r \<longleftrightarrow> rp_latest r = L \<and> rp_versions r = V"

lemma tables_unaffected: "unaffected (tables L V)"
  by (auto simp: unaffected_def tables_def)

interpretation unsaved: governed "tables L V" for L V
  by unfold_locales (rule tables_unaffected)

lemma tables_alog:
  assumes "one_row f"
  shows "establishes (tables L V) (alog s f) (\<lambda>_. tables L V)"
proof -
  have "tables L V (wd_repo w')" if "tables L V (wd_repo w)" "alog s f w = (Inr a, w')" for w a w'
  proof -
    from that(2) obtain st where f: "f (stream_log s (wd_repo w)) = Inr (a, st)"
      by (auto simp: alog_def split: sum.splits prod.splits)
    have "st = stream_log s (wd_repo w) \<or> (\<exists>p. st = log_append (stream_log s (wd_repo w)) p)"
      using f assms unfolding one_row_def by blast
    from alog_cases[where f = f, OF f this] show ?thesis using that by (auto simp: tables_def)
  qed
  then show ?thesis by (simp add: establishes_def)
qed

lemma tables_append_audit:
  "establishes (tables L V) (append_audit env i action after actor aid reason evidence venue order_id) (\<lambda>_. tables L V)"
  unfolding append_audit_def by (intro establishes_then establishes_keep tables_alog one_row_logs)

lemma tables_record_approval:
  "establishes (tables L V) (record_approval env i check aid reason evidence) (\<lambda>_. tables L V)"
  unfolding record_approval_def commit_approval_def
  by (intro establishes_then establishes_keep unsaved.keeps_checks tables_append_audit)

lemma establishes_both:
  "establishes P m (\<lambda>_. Q) \<Longrightarrow> establishes P' m (\<lambda>_. Q') \<Longrightarrow>
     establishes (\<lambda>r. P r \<and> P' r) m (\<lambda>_ r. Q r \<and> Q' r)"
  unfolding establishes_def by blast

lemma establishes_pre: "(\<And>r. P r \<Longrightarrow> P' r) \<Longrightarrow> establishes P' m Q \<Longrightarrow> establishes P m Q"
  unfolding establishes_def by blast

definition current_in :: "service_env \<Rightarrow> (string \<times> string) list \<Rightarrow> ((string \<times> string) \<times> payload) list \<Rightarrow> trade_idea \<Rightarrow> bool" where
  "current_in env L V i \<longleftrightarrow>
     map_of L (ti_decision_id i) = Some (en_rhash env i) \<and> map_of V (ti_decision_id i, en_rhash env i) \<noteq> None"

lemma current_staged: "repo_ok env r \<Longrightarrow> tables L V r \<Longrightarrow> current_in env L V i \<Longrightarrow> staged env i r"
  by (auto simp: repo_ok_def staged_def trail_ok_def tables_def current_in_def latest_hash_def)

lemma record_denied_ok:
  assumes "current_in env L V i"
  shows "establishes (\<lambda>r. repo_ok env r \<and> tables L V r) (record_denied_approval env i check aid reason)
      (\<lambda>_ r. repo_ok env r \<and> tables L V r)"
proof -
  have "establishes (\<lambda>r. repo_ok env r \<and> tables L V r)
      (append_audit env i ACT_AUTO_APPROVAL_SKIPPED PROPOSED (kc_actor_type check) aid reason evidence [] [])
      (\<lambda>_ r. repo_ok env r \<and> tables L V r)" for evidence
    by (rule establishes_pre[OF _ establishes_both[OF append_audit_staged tables_append_audit]])
      (use current_staged assms in blast)
  then show ?thesis
    unfolding record_denied_approval_def by (intro establishes_then establishes_keep)
qed

lemma sweep_candidate_ok:
  assumes "current_in env L V (vw_idea v)"
  shows "establishes (\<lambda>r. repo_ok env r \<and> tables L V r) (sweep_candidate env aid v)
      (\<lambda>_ r. repo_ok env r \<and> tables L V r)"
  unfolding sweep_candidate_def Let_def
  by (intro establishes_then establishes_keep establishes_if record_denied_ok[OF assms]
      establishes_both[OF committed.keeps_checks(1) unsaved.keeps_checks(1)]
      establishes_both[OF record_approval_ok tables_record_approval])

lemma rfilter_subset: "rfilter f xs = Inr ys \<Longrightarrow> set ys \<subseteq> set xs"
  by (induction xs arbitrary: ys) (auto split: if_splits)

lemma sort_list_views_subset: "sort_list_views q vs = Inr ys \<Longrightarrow> set ys \<subseteq> set vs"
  by (auto simp: sort_list_views_def Let_def split: option.split_asm if_splits)

lemma list_views_get:
  assumes "list_views env r state = Inr vs" and "v \<in> set vs"
  shows "\<exists>d. get_view env r d = Inr v"
proof -
  from assms obtain views filtered ordered where
    views: "rmap (get_view env r) (list_decision_ids r) = Inr views" and
    filtered: "rfilter (matches_list_query (default_query\<lparr>lq_state := state\<rparr>)) views = Inr filtered" and
    ordered: "sort_list_views (default_query\<lparr>lq_state := state\<rparr>) filtered = Inr ordered" and
    v: "v \<in> set ordered"
    by (auto simp: list_views_def list_view_result_def default_query_def Let_def dest: in_set_dropD)
  have "v \<in> set views"
    using rfilter_subset[OF filtered] sort_list_views_subset[OF ordered] v by blast
  moreover have "list_all2 (\<lambda>d v. get_view env r d = Inr v) (list_decision_ids r) views"
    using views by (simp add: rmap_Inr_iff)
  ultimately show ?thesis by (auto simp: list_all2_conv_all_nth in_set_conv_nth)
qed

lemma get_view_current:
  assumes "get_view env r d = Inr v" and "tables L V r"
  shows "current_in env L V (vw_idea v)"
proof -
  from assms(1) have "require_idea env r d = Inr (vw_idea v)" by (auto simp: get_view_def)
  from require_idea_Inr[OF this] show ?thesis
    using assms(2) by (auto simp: current_in_def tables_def latest_hash_def)
qed

lemma sweep_candidates_current:
  assumes "sweep_candidates env r = Inr cs" and "tables L V r"
  shows "\<forall>v \<in> set cs. current_in env L V (vw_idea v)"
  using assms list_views_get get_view_current
  by (fastforce simp: sweep_candidates_def split: if_splits)

lemma sweep_ok: "establishes (repo_ok env) (auto_approve_sweep env aid) (\<lambda>_. repo_ok env)"
proof -
  have "establishes (\<lambda>r. sweep_candidates env r = Inr cs \<and> repo_ok env r)
      (amap (sweep_candidate env aid) cs) (\<lambda>_. repo_ok env)" for cs
  proof -
    have "repo_ok env (wd_repo w')" if "sweep_candidates env (wd_repo w) = Inr cs" "repo_ok env (wd_repo w)"
      "amap (sweep_candidate env aid) cs w = (Inr ys, w')" for w ys w'
    proof -
      let ?T = "tables (rp_latest (wd_repo w)) (rp_versions (wd_repo w))"
      have "?T (wd_repo w)" by (simp add: tables_def)
      then have "establishes (\<lambda>r. repo_ok env r \<and> ?T r) (amap (sweep_candidate env aid) cs)
          (\<lambda>_ r. repo_ok env r \<and> ?T r)"
        using sweep_candidates_current[OF that(1)] by (intro establishes_amap sweep_candidate_ok) blast
      then show ?thesis using that(2,3) \<open>?T (wd_repo w)\<close> unfolding establishes_def by blast
    qed
    then show ?thesis unfolding establishes_def by blast
  qed
  note candidates = this
  show ?thesis
    unfolding auto_approve_sweep_def
    apply (rule establishes_then[OF establishes_keep(3)])
    apply (rule establishes_then[OF establishes_keep(5)])
    apply (rule establishes_then[OF committed.keeps_decision_autonomy])
    apply (rule establishes_then[OF establishes_keep(3)])
    apply (rule establishes_abind[OF establishes_basic(4)])
    apply (rule establishes_abind[OF candidates])
    apply (rule establishes_keep)
    done
qed

end
