(* ===== verification/Idea_Requests.thy ===== *)
theory Idea_Requests
  imports Idea_Governance
begin

text \<open>
  Sequences of calls of the trade-idea service. A \<open>request\<close> is a call of one operation of
  \<^verbatim>\<open>src/gpt_trader/features/trade_ideas/service.py\<close>, \<^verbatim>\<open>kernel.py\<close> or \<^verbatim>\<open>position_operations.py\<close> that
  writes; \<open>serve\<close> runs it in the transaction its decorator \<^verbatim>\<open>state_transaction\<close> names, and \<open>serve_all\<close>
  runs a sequence, each call from what the one before left. A committed state is what a sequence
  leaves of an empty repository.

  The properties: every committed state can be read back completely; a call that raises leaves
  every record and log as it was, except that a refused admission may keep the system's own
  lowering of the autonomy level.
\<close>

section \<open>Calls\<close>

datatype request =
    ReqCurrentBudget
  | ReqCurrentAutonomy
  | ReqSetAutonomyMode autonomy_mode actor_type string string "string list"
  | ReqResolveExecutionAutonomy "instant option"
  | ReqApprovalViolations trade_idea actor_type
  | ReqDecisionAutonomy instant "risk_budget option" "approval_budget_context option"
  | ReqUpdateBudget risk_budget actor_type string
  | ReqPropose trade_idea string actor_type string "string list"
  | ReqProposeBatch "trade_idea list" string actor_type string "string list"
  | ReqRequestChanges string string string
  | ReqResubmit trade_idea string actor_type string
  | ReqCommitApproval trade_idea kernel_check string string "string list"
  | ReqRecordApproval trade_idea kernel_check string string "string list"
  | ReqApprove string string string
  | ReqAutoApproveSweep string
  | ReqDeniedApproval string kernel_check string string
  | ReqDeniedExecution string kernel_check string string
  | ReqReject string string string actor_type
  | ReqCancel string string string actor_type
  | ReqExpire string string string actor_type
  | ReqExpireDue string string actor_type
  | ReqRecordSubmission string string string string string actor_type "string list"
  | ReqRecordFill string string string string string actor_type "string list"
  | ReqRecordCloseout string string closeout_resolution "py_decimal option" "py_decimal option" string
      "string list" actor_type "instant option"
  | ReqAutoAttribute string string "string list"
  | ReqFinalizePosition string string closeout_resolution "string list"
  | ReqSimulatedClose string dec dec py_datetime py_datetime closeout_resolution "string list" string
  | ReqRecordIntent string string payload
  | ReqRecordReceipt string payload
  | ReqMarkReconciled string

text \<open>A caller that only looks at whether the call raised.\<close>

definition void :: "'a act \<Rightarrow> unit act" where
  "void m = abind m (\<lambda>_. areturn ())"

text \<open>
  The clients of the kernel that record a denial name the idea they have just read; the read and
  the event are one write here.
\<close>

definition denied_approval :: "service_env \<Rightarrow> string \<Rightarrow> kernel_check \<Rightarrow> string \<Rightarrow> string \<Rightarrow> unit act" where
  "denied_approval env d check actor_id reason =
     abind (aread (\<lambda>r. require_idea env r d)) (\<lambda>i. record_denied_approval env i check actor_id reason)"

definition denied_execution :: "service_env \<Rightarrow> string \<Rightarrow> kernel_check \<Rightarrow> string \<Rightarrow> string \<Rightarrow> unit act" where
  "denied_execution env d check actor_id reason =
     abind (aread (\<lambda>r. require_idea env r d)) (\<lambda>i. record_denied_execution env i check actor_id reason)"

fun serve :: "service_env \<Rightarrow> request \<Rightarrow> unit act" where
  "serve env ReqCurrentBudget = run_write (void (current_budget env))"
| "serve env ReqCurrentAutonomy = run_write (void (current_autonomy env))"
| "serve env (ReqSetAutonomyMode mode actor aid reason evidence) =
     run_admission (void (set_autonomy_mode env mode actor aid reason evidence))"
| "serve env (ReqResolveExecutionAutonomy now) = run_write (void (resolve_execution_autonomy env now))"
| "serve env (ReqApprovalViolations i actor) = run_write (void (service_approval_violations env i actor))"
| "serve env (ReqDecisionAutonomy now budget context) = run_write (void (decision_autonomy env now budget context))"
| "serve env (ReqUpdateBudget budget actor aid) = run_admission (update_budget env budget actor aid)"
| "serve env (ReqPropose i aid actor reason evidence) = run_write (void (propose env i aid actor reason evidence))"
| "serve env (ReqProposeBatch ideas aid actor reason evidence) =
     run_write (void (propose_batch env ideas aid actor reason evidence))"
| "serve env (ReqRequestChanges d aid reason) = run_write (void (request_changes env d aid reason))"
| "serve env (ReqResubmit i aid actor reason) = run_write (void (resubmit env i aid actor reason))"
| "serve env (ReqCommitApproval i check aid reason evidence) =
     run_admission (commit_approval env i check aid reason evidence)"
| "serve env (ReqRecordApproval i check aid reason evidence) =
     run_admission (record_approval env i check aid reason evidence)"
| "serve env (ReqApprove d aid reason) = run_admission (void (approve env d aid reason))"
| "serve env (ReqAutoApproveSweep aid) = run_admission (void (auto_approve_sweep env aid))"
| "serve env (ReqDeniedApproval d check aid reason) = run_write (denied_approval env d check aid reason)"
| "serve env (ReqDeniedExecution d check aid reason) = run_write (denied_execution env d check aid reason)"
| "serve env (ReqReject d aid reason actor) = run_write (void (reject env d aid reason actor))"
| "serve env (ReqCancel d aid reason actor) = run_write (void (cancel env d aid reason actor))"
| "serve env (ReqExpire d aid reason actor) = run_write (void (expire env d aid reason actor))"
| "serve env (ReqExpireDue aid reason actor) = run_write (void (expire_due_ideas env aid reason actor))"
| "serve env (ReqRecordSubmission d aid venue order_id reason actor evidence) =
     run_write (void (record_submission env d aid venue order_id reason actor evidence))"
| "serve env (ReqRecordFill d aid venue order_id reason actor evidence) =
     run_write (void (record_fill env d aid venue order_id reason actor evidence))"
| "serve env (ReqRecordCloseout d aid res amount percent reason evidence actor resolved) =
     run_write (void (record_closeout_attribution env d aid res amount percent reason evidence actor resolved))"
| "serve env (ReqAutoAttribute aid reason evidence) =
     run_write (void (auto_attribute_expired_ideas env aid reason evidence))"
| "serve env (ReqFinalizePosition target aid res evidence) =
     run_write (void (finalize_position env target aid res evidence))"
| "serve env (ReqSimulatedClose target q p resolved observed res evidence aid) =
     run_write (void (record_simulated_close env target q p resolved observed res evidence aid))"
| "serve env (ReqRecordIntent d h intent) =
     run_write (journal_write (\<lambda>st. record_intent (en_phash env) st d h intent))"
| "serve env (ReqRecordReceipt d receipt) =
     run_write (journal_write (\<lambda>st. record_receipt (en_phash env) st d receipt))"
| "serve env (ReqMarkReconciled d) =
     run_write (journal_write (\<lambda>st. mark_reconciled (en_phash env) st d))"

fun serve_all :: "service_env \<Rightarrow> request list \<Rightarrow> world \<Rightarrow> world" where
  "serve_all env [] w = w"
| "serve_all env (q # qs) w = serve_all env qs (snd (serve env q w))"

text \<open>Every \<^verbatim>\<open>TradeIdea\<close> that exists passed its constructor.\<close>

fun request_ideas :: "request \<Rightarrow> trade_idea list" where
  "request_ideas (ReqPropose i aid actor reason evidence) = [i]"
| "request_ideas (ReqProposeBatch ideas aid actor reason evidence) = ideas"
| "request_ideas (ReqResubmit i aid actor reason) = [i]"
| "request_ideas q = []"

definition well_typed :: "request \<Rightarrow> bool" where
  "well_typed q \<longleftrightarrow> (\<forall>i \<in> set (request_ideas q). valid_trade_idea i)"


section \<open>Committed states\<close>

lemma establishes_void: "establishes P m (\<lambda>_. Q) \<Longrightarrow> establishes P (void m) (\<lambda>_. Q)"
  unfolding void_def by (rule establishes_abind) (auto simp: establishes_def areturn_def)

lemma grows_void [grows_rules]: "grows m \<Longrightarrow> grows (void m)"
  unfolding void_def by (auto intro!: grows_rules)

lemma denied_ok:
  "establishes (repo_ok env) (denied_approval env d check aid reason) (\<lambda>_. repo_ok env)"
  "establishes (repo_ok env) (denied_execution env d check aid reason) (\<lambda>_. repo_ok env)"
  unfolding denied_approval_def denied_execution_def record_denied_approval_def record_denied_execution_def
  by (rule establishes_abind[OF read_idea], intro establishes_then establishes_keep append_audit_staged)+

lemma keeps_service_checks:
  "establishes (repo_ok env) (service_approval_violations env i actor) (\<lambda>_. repo_ok env)"
  "establishes (repo_ok env) (resolve_execution_autonomy env no) (\<lambda>_. repo_ok env)"
  unfolding service_approval_violations_def resolve_execution_autonomy_def
  by (intro establishes_then establishes_keep establishes_option committed.keeps_current_autonomy
      committed.keeps_current_budget committed.keeps_decision_autonomy)+

lemmas operations_ok =
  committed.keeps_current_budget committed.keeps_current_autonomy committed.keeps_set_autonomy_mode
  committed.keeps_decision_autonomy committed.keeps_checks committed.keeps_update_budget keeps_service_checks propose_ok propose_batch_ok
  resubmit_ok simple_actions_ok expire_due_ok commit_approval_ok record_approval_ok approve_ok sweep_ok denied_ok
  record_submission_ok record_fill_ok record_closeout_ok auto_attribute_ok finalize_position_ok
  record_simulated_close_ok journal_write_ok

lemma serve_ok:
  assumes "well_typed q"
  shows "preserves (repo_ok env) (serve env q)"
  using assms
  by (cases q)
    (auto simp: well_typed_def intro!: service.run_write_preserves service.run_admission_preserves
      establishes_void operations_ok grows_rules)

lemma serve_all_ok:
  "repo_ok env (wd_repo w) \<Longrightarrow> \<forall>q \<in> set qs. well_typed q \<Longrightarrow> repo_ok env (wd_repo (serve_all env qs w))"
  by (induction qs arbitrary: w) (auto simp: preserves_def dest: serve_ok[THEN preserves_def[THEN iffD1]])


section \<open>What a refusal leaves in the autonomy log\<close>

lemma autonomy_row_mode:
  assumes "autonomy_state_entry_from_dict (JObj p) = Inr e"
  shows "map_of p ''mode'' = Some (JStr (autonomy_mode_value (as_mode e)))"
proof -
  from assms obtain v where v: "jget p ''mode'' = Inr v" "jenum autonomy_mode_of v = Inr (as_mode e)"
    by (auto simp: autonomy_state_entry_from_dict_def new_autonomy_state_entry_def)
  then have "map_of p ''mode'' = Some v" by (auto simp: jget_def split: option.splits)
  moreover have "v = JStr (autonomy_mode_value (as_mode e))"
    using v(2) by (cases v) (auto simp: autonomy_mode_of_def enum_of_def split: if_splits)
  ultimately show ?thesis by simp
qed

text \<open>The rows of a readable log name the modes of its entries.\<close>

lemma autonomy_last_row:
  assumes "autonomy_history (LogTable (rows @ [p])) = Inr es"
  shows "\<exists>old e. es = old @ [e] \<and> map_of p ''mode'' = Some (JStr (autonomy_mode_value (as_mode e)))"
proof -
  from assms obtain old where "versioned_step as_version read_autonomy_line AutonomyIntegrityError old (JObj p) = Inr es"
    by (auto simp: autonomy_history_def versioned_history_def read_log_append split: sum.splits)
  then obtain e where "es = old @ [e]" "autonomy_state_entry_from_dict (JObj p) = Inr e"
    by (auto simp: versioned_step_def read_autonomy_line_def)
  then show ?thesis using autonomy_row_mode by blast
qed

lemma mode_rank_of_entry:
  "mode_rank (Some (JStr (autonomy_mode_value m))) = Some (AUTONOMY_RANK m)"
  by (cases m) simp_all

lemma entry_fields:
  "map_of (autonomy_state_entry_to_dict e) ''mode'' = Some (JStr (autonomy_mode_value (as_mode e)))"
  "map_of (autonomy_state_entry_to_dict e) ''actor_type'' = Some (JStr ''system'') \<longleftrightarrow> as_actor_type e = SYSTEM"
proof -
  have "actor_type_value a = ''system'' \<longleftrightarrow> a = SYSTEM" for a by (cases a) simp_all
  then show "map_of (autonomy_state_entry_to_dict e) ''actor_type'' = Some (JStr ''system'') \<longleftrightarrow> as_actor_type e = SYSTEM"
    by (simp add: autonomy_state_entry_to_dict_def)
qed (simp add: autonomy_state_entry_to_dict_def)

lemma safe_tail_entries:
  "safe_tail prior (map autonomy_state_entry_to_dict new) \<Longrightarrow>
     \<forall>e \<in> set new. as_actor_type e = SYSTEM \<and> AUTONOMY_RANK (as_mode e) \<le> prior"
proof (induction new arbitrary: prior)
  case (Cons e new)
  then have "safe_tail (AUTONOMY_RANK (as_mode e)) (map autonomy_state_entry_to_dict new)"
      "AUTONOMY_RANK (as_mode e) \<le> prior" "as_actor_type e = SYSTEM"
    by (simp_all add: entry_fields mode_rank_of_entry del: mode_rank.simps)
  then show ?case using Cons.IH by force
qed simp

text \<open>The entries a run appends are the rows it appends.\<close>

lemma grows_autonomy_rows:
  assumes "repo_grows r r'" and "autonomy_history (stream_log AUTONOMY_LOG r) = Inr es"
  shows "\<exists>new. autonomy_history (stream_log AUTONOMY_LOG r') = Inr (es @ new)
    \<and> repo_lines AUTONOMY_LOG r' = repo_lines AUTONOMY_LOG r @ map autonomy_state_entry_to_dict new"
  using assms
proof induction
  case (grows_autonomy r r' e lock st)
  then obtain new where h: "autonomy_history (stream_log AUTONOMY_LOG r') = Inr (es @ new)"
      "repo_lines AUTONOMY_LOG r' = repo_lines AUTONOMY_LOG r @ map autonomy_state_entry_to_dict new" by auto
  have st: "st = log_append (stream_log AUTONOMY_LOG r') (autonomy_state_entry_to_dict e)"
    using grows_autonomy.hyps unfolding autonomy_append_def versioned_append_Inr_iff by simp
  obtain es' where "autonomy_history (stream_log AUTONOMY_LOG r') = Inr es'"
      and "autonomy_history st = Inr (es' @ [e])"
    using autonomy_log.append_reads_back[OF grows_autonomy.hyps(2)
        grows_autonomy.hyps(3)[unfolded autonomy_append_def]]
    unfolding autonomy_history_def by blast
  then show ?case using h st
    by (auto simp: stream_log_append intro!: exI[of _ "new @ [e]"]) (simp add: repo_lines_def repo_append_def)
next
  case (grows_save r r' d h p r'')
  then show ?case by (auto simp: save_record_stream repo_lines_def save_record_events)
qed (auto simp: stream_log_append repo_lines_def)

lemma refusal_autonomy:
  assumes g: "repo_grows r r'" and safe: "denial_autonomy_is_safe (repo_lines AUTONOMY_LOG r) r'"
    and es: "autonomy_history (stream_log AUTONOMY_LOG r) = Inr es"
  shows "\<exists>new. autonomy_history (stream_log AUTONOMY_LOG r') = Inr (es @ new)
    \<and> (\<forall>e \<in> set new. as_actor_type e = SYSTEM
        \<and> AUTONOMY_RANK (as_mode e) \<le> AUTONOMY_RANK (if es = [] then DEFAULT_AUTONOMY_MODE else as_mode (last es)))"
proof -
  let ?rows = "repo_lines AUTONOMY_LOG r"
  obtain new where new: "autonomy_history (stream_log AUTONOMY_LOG r') = Inr (es @ new)"
      "repo_lines AUTONOMY_LOG r' = ?rows @ map autonomy_state_entry_to_dict new"
    using grows_autonomy_rows[OF g es] by blast
  show ?thesis
  proof (cases "new = []")
    case True
    then show ?thesis using new by auto
  next
    case False
    have prior: "(if ?rows = [] then Some 1 else mode_rank (map_of (last ?rows) ''mode''))
        = Some (AUTONOMY_RANK (if es = [] then DEFAULT_AUTONOMY_MODE else as_mode (last es)))"
    proof (cases ?rows rule: rev_cases)
      case Nil
      then show ?thesis using es
        by (simp add: stream_log_def autonomy_history_def versioned_history_def DEFAULT_AUTONOMY_MODE_def)
    next
      case (snoc rows p)
      then show ?thesis using autonomy_last_row[of rows p es] es
        by (auto simp: stream_log_def mode_rank_of_entry simp del: mode_rank.simps)
    qed
    have "safe_tail (AUTONOMY_RANK (if es = [] then DEFAULT_AUTONOMY_MODE else as_mode (last es)))
        (map autonomy_state_entry_to_dict new)"
      using safe False prior unfolding denial_autonomy_is_safe_def Let_def new(2)
      by (auto split: if_splits simp del: mode_rank.simps)
    from safe_tail_entries[OF this] show ?thesis using new(1) by blast
  qed
qed


lemma serve_error:
  assumes "serve env q w = (Inl e, w')"
  shows "wd_repo w' = wd_repo w
    \<or> e = PolicyViolationError \<and> repo_grows (wd_repo w) (wd_repo w')
      \<and> admission_revision (wd_repo w') = admission_revision (wd_repo w)
      \<and> denial_autonomy_is_safe (repo_lines AUTONOMY_LOG (wd_repo w)) (wd_repo w')"
proof -
  have "(\<exists>m. serve env q = run_write m) \<or> (\<exists>m. serve env q = run_admission m \<and> grows m)"
    by (cases q) (auto intro!: grows_rules)
  then show ?thesis using assms run_write_error run_admission_error by metis
qed

section \<open>Properties\<close>

text \<open>
  C5: Every committed state can be read back completely. Whatever calls are made of the service,
  in whatever order and whether they return or raise, the audit log of the state they leave
  verifies, and for every decision identity the service's \<^verbatim>\<open>get\<close> answers: an identity without
  audit events is unknown, and any other has a view, in the state its last event left, of the
  very record whose hash that event carries, with its own events and no other. The hash of a
  record is not the empty text.
\<close>

theorem committed_states_readable:
  assumes "wd_repo w = empty_repo" and "\<forall>q \<in> set qs. well_typed q" and "\<And>i. en_rhash env i \<noteq> []"
  shows "\<exists>es. verify (stream_log AUDIT_LOG (wd_repo (serve_all env qs w))) = Inr es
    \<and> (\<forall>d. case last_event es d of
          None \<Rightarrow> get_view env (wd_repo (serve_all env qs w)) d = Inl (UnknownTradeIdeaError d)
        | Some e \<Rightarrow> \<exists>v. get_view env (wd_repo (serve_all env qs w)) d = Inr v \<and> vw_state v = ae_after_state e
            \<and> ti_decision_id (vw_idea v) = d \<and> en_rhash env (vw_idea v) = ae_record_hash e
            \<and> vw_events v = filter (\<lambda>e. ae_decision_id e = d) es)"
proof -
  have "repo_ok env (wd_repo (serve_all env qs w))"
    using serve_all_ok assms(1,2) empty_repo_ok by metis
  then obtain es where es: "trail_ok env (wd_repo (serve_all env qs w)) es (\<lambda>_. True)"
    by (auto simp: repo_ok_def)
  have "verify (stream_log AUDIT_LOG (wd_repo (serve_all env qs w))) = Inr es"
    using es by (simp add: trail_ok_def)
  then show ?thesis using repo_ok_view[OF es assms(3)] by blast
qed

definition ex_start :: world where
  "ex_start = \<lparr>wd_repo = empty_repo, wd_clock = 0, wd_ids = 0, wd_orders = []\<rparr>"

abbreviation ex_calls :: "request list" where
  "ex_calls \<equiv> [ReqCurrentBudget, ReqPropose ex_entry_idea ''desk'' HUMAN ''momentum'' []]"

lemma ex_calls_typed: "\<forall>q \<in> set ex_calls. well_typed q"
proof -
  have "valid_trade_idea ex_entry_idea" by code_simp
  then show ?thesis by (simp add: well_typed_def)
qed

theorem committed_states_readable_witness:
  "\<exists>es. verify (stream_log AUDIT_LOG (wd_repo (serve_all ex_env ex_calls ex_start))) = Inr es
    \<and> (case last_event es ''trade-1'' of None \<Rightarrow> False
       | Some e \<Rightarrow> \<exists>v. get_view ex_env (wd_repo (serve_all ex_env ex_calls ex_start)) ''trade-1'' = Inr v
           \<and> vw_state v = ae_after_state e)"
proof -
  let ?r = "wd_repo (serve_all ex_env ex_calls ex_start)"
  have "\<exists>es. verify (stream_log AUDIT_LOG ?r) = Inr es
    \<and> (\<forall>d. case last_event es d of
          None \<Rightarrow> get_view ex_env ?r d = Inl (UnknownTradeIdeaError d)
        | Some e \<Rightarrow> \<exists>v. get_view ex_env ?r d = Inr v \<and> vw_state v = ae_after_state e
            \<and> ti_decision_id (vw_idea v) = d \<and> en_rhash ex_env (vw_idea v) = ae_record_hash e
            \<and> vw_events v = filter (\<lambda>e. ae_decision_id e = d) es)"
    by (rule committed_states_readable[OF _ ex_calls_typed]) (simp_all add: ex_start_def ex_env_def)
  moreover have "is_ok (get_view ex_env ?r ''trade-1'')" by code_simp
  ultimately show ?thesis by (fastforce simp: is_ok_iff split: option.splits)
qed

text \<open>
  C7: A call that raises takes nothing back and writes nothing, except that a refusal may lower
  the autonomy level. In a committed state, after a call that raised, the record versions, the
  latest version of every decision and the audit, budget, closeout and execution logs are what
  they were. So is the autonomy log, unless a policy refused: then it may have entries more, each
  made by the system and none above the level that was in force before.
\<close>

theorem raising_calls_leave_state:
  assumes "wd_repo w0 = empty_repo" and "\<forall>q \<in> set qs. well_typed q" and "w = serve_all env qs w0"
    and "serve env q w = (Inl e, w')"
  shows "rp_versions (wd_repo w') = rp_versions (wd_repo w)
    \<and> map_of (rp_latest (wd_repo w')) = map_of (rp_latest (wd_repo w))
    \<and> (\<forall>s. s \<noteq> AUTONOMY_LOG \<longrightarrow> repo_lines s (wd_repo w') = repo_lines s (wd_repo w))
    \<and> (repo_lines AUTONOMY_LOG (wd_repo w') \<noteq> repo_lines AUTONOMY_LOG (wd_repo w) \<longrightarrow> e = PolicyViolationError)
    \<and> (\<forall>es. autonomy_history (stream_log AUTONOMY_LOG (wd_repo w)) = Inr es \<longrightarrow>
         (\<exists>new. autonomy_history (stream_log AUTONOMY_LOG (wd_repo w')) = Inr (es @ new)
            \<and> (\<forall>x \<in> set new. as_actor_type x = SYSTEM
                \<and> AUTONOMY_RANK (as_mode x) \<le> AUTONOMY_RANK (if es = [] then DEFAULT_AUTONOMY_MODE else as_mode (last es)))))"
proof -
  have "repo_ok env (wd_repo w)" using serve_all_ok assms(1-3) empty_repo_ok by metis
  then have dist: "distinct (map fst (rp_latest (wd_repo w)))" by (auto simp: repo_ok_def trail_ok_def)
  from serve_error[OF assms(4)] show ?thesis
  proof (elim disjE conjE)
    assume "wd_repo w' = wd_repo w"
    then show ?thesis by auto
  next
    assume e: "e = PolicyViolationError"
      and g: "repo_grows (wd_repo w) (wd_repo w')"
      and rev: "admission_revision (wd_repo w') = admission_revision (wd_repo w)"
      and safe: "denial_autonomy_is_safe (repo_lines AUTONOMY_LOG (wd_repo w)) (wd_repo w')"
    show ?thesis
      using e revision_unchanged[OF g rev dist] refusal_autonomy[OF g safe] by blast
  qed
qed


theorem raising_calls_leave_state_witness:
  "\<exists>w'. serve ex_env (ReqApprove ''trade-1'' ''desk'' ''ok'') (serve_all ex_env ex_calls ex_start)
       = (Inl PolicyViolationError, w')
     \<and> repo_lines AUDIT_LOG (wd_repo w') = repo_lines AUDIT_LOG (wd_repo (serve_all ex_env ex_calls ex_start))
     \<and> length (repo_lines AUTONOMY_LOG (wd_repo w')) = 1"
proof -
  let ?q = "ReqApprove ''trade-1'' ''desk'' ''ok''" and ?w = "serve_all ex_env ex_calls ex_start"
  define out where "out = serve ex_env ?q ?w"
  have "(fst out, length (repo_lines AUTONOMY_LOG (wd_repo (snd out)))) = (Inl PolicyViolationError, 1)"
    unfolding out_def by code_simp
  then obtain w' where w': "serve ex_env ?q ?w = (Inl PolicyViolationError, w')"
      "length (repo_lines AUTONOMY_LOG (wd_repo w')) = 1"
    unfolding out_def by (cases "serve ex_env ?q ?w") auto
  show ?thesis
    using w' raising_calls_leave_state[OF _ ex_calls_typed refl w'(1)] by (simp add: ex_start_def)
qed

end
