(* ===== verification/Idea_Approvals.thy ===== *)
theory Idea_Approvals
  imports Idea_Requests
begin

text \<open>
  Where the \<^verbatim>\<open>approved\<close> rows of the audit trail come from
  (\<^verbatim>\<open>src/gpt_trader/features/trade_ideas/service.py\<close>, \<^verbatim>\<open>commit_approval\<close>). \<open>trail\<close> relates the rows of the
  logs before and after a run, in which an approval may only follow a check without
  violations that was made on the rows right before it; every operation of the service extends
  the logs this way, and the property states it for every call.
\<close>

section \<open>Rows behind a check\<close>

abbreviation trail_rows :: "world \<Rightarrow> (stream \<times> payload) list" where
  "trail_rows w \<equiv> rp_events (wd_repo w)"

definition approves :: "stream \<times> payload \<Rightarrow> bool" where
  "approves row \<longleftrightarrow> fst row = AUDIT_LOG \<and> map_of (snd row) ''action'' = Some (JStr ''approved'')"

text \<open>A clean check of the idea that a row names, that ended when the rows of all logs were \<open>base\<close>.\<close>

definition checked :: "service_env \<Rightarrow> (stream \<times> payload) list \<Rightarrow> stream \<times> payload \<Rightarrow> bool" where
  "checked env base row \<longleftrightarrow>
     (\<exists>i actor check w1 w2.
        require_idea env (wd_repo w1) (ti_decision_id i) = Inr i
        \<and> check_approval env i actor None w1 = (Inr check, w2) \<and> kc_violations check = []
        \<and> trail_rows w2 = base
        \<and> map_of (snd row) ''decision_id'' = Some (JStr (ti_decision_id i))
        \<and> map_of (snd row) ''record_hash'' = Some (JStr (en_rhash env i))
        \<and> map_of (snd row) ''actor_type'' = Some (JStr (actor_type_value actor)))"

inductive trail :: "service_env \<Rightarrow> (stream \<times> payload) list \<Rightarrow> (stream \<times> payload) list \<Rightarrow> bool" for env where
  trail_refl [intro!]: "trail env xs xs"
| trail_row: "trail env xs ys \<Longrightarrow> (approves p \<Longrightarrow> checked env ys p) \<Longrightarrow> trail env xs (ys @ [p])"

lemma trail_trans: "trail env ys zs \<Longrightarrow> trail env xs ys \<Longrightarrow> trail env xs zs"
  by (induction rule: trail.induct) (auto intro: trail_row)

lemma trail_checked:
  assumes "trail env xs ys"
  shows "take (length xs) ys = xs \<and>
    (\<forall>k. length xs \<le> k \<longrightarrow> k < length ys \<longrightarrow> approves (ys ! k) \<longrightarrow> checked env (take k ys) (ys ! k))"
  using assms
proof induction
  case (trail_row xs ys p)
  then have "length xs \<le> length ys" by (metis length_take min.absorb_iff2 nat_le_linear take_all)
  then show ?case using trail_row by (auto simp: nth_append less_Suc_eq)
qed simp

section \<open>Runs that extend the trail\<close>

named_theorems extends_rules \<open>acts that extend the audit trail\<close>

definition extends_at :: "service_env \<Rightarrow> world \<Rightarrow> 'a act \<Rightarrow> bool" where
  "extends_at env w m \<longleftrightarrow>
     trail env (trail_rows w) (trail_rows (snd (m w))) \<and> wd_orders (snd (m w)) = wd_orders w"

lemma extends_basic [extends_rules]:
  "extends_at env w (areturn a)" "extends_at env w (araise e)" "extends_at env w (aguard c e)"
  "extends_at env w (aread f)" "extends_at env w (aclock now)" "extends_at env w (afresh ids)"
  by (auto simp: extends_at_def areturn_def araise_def aguard_def aread_def aclock_def afresh_def)

lemma extends_abind:
  assumes "extends_at env w m" and "\<And>a v. m w = (Inr a, v) \<Longrightarrow> extends_at env v (f a)"
  shows "extends_at env w (abind m f)"
proof (cases "m w")
  case (Pair r v)
  then show ?thesis
    using assms by (cases r) (auto simp: extends_at_def abind_def intro: trail_trans)
qed

lemma extends_then [extends_rules]:
  "extends_at env w m \<Longrightarrow> (\<And>a v. extends_at env v (f a)) \<Longrightarrow> extends_at env w (abind m f)"
  by (rule extends_abind)

lemma extends_atry [extends_rules]:
  assumes "extends_at env w m" and "\<And>e v. extends_at env v (h e)"
  shows "extends_at env w (atry m c h)"
proof (cases "m w")
  case (Pair r v)
  then show ?thesis
    using assms by (cases r) (auto simp: extends_at_def atry_def intro: trail_trans)
qed

lemma extends_amap [extends_rules]: "(\<And>x v. extends_at env v (f x)) \<Longrightarrow> extends_at env w (amap f xs)"
  by (induction xs arbitrary: w) (auto intro!: extends_rules)

lemma extends_cases [extends_rules]:
  "extends_at env w m \<Longrightarrow> extends_at env w n \<Longrightarrow> extends_at env w (if c then m else n)"
  "extends_at env w m \<Longrightarrow> (\<And>a. extends_at env w (g a)) \<Longrightarrow> extends_at env w (case x of None \<Rightarrow> m | Some a \<Rightarrow> g a)"
  "(\<And>e. extends_at env w (h e)) \<Longrightarrow> (\<And>b. extends_at env w (k b)) \<Longrightarrow> extends_at env w (case s of Inl e \<Rightarrow> h e | Inr b \<Rightarrow> k b)"
  by (auto split: option.split sum.split)

lemma extends_runs [extends_rules]:
  "extends_at env w m \<Longrightarrow> extends_at env w (run_write m)"
  "extends_at env w m \<Longrightarrow> extends_at env w (run_admission_denying denial m)"
  "extends_at env w m \<Longrightarrow> extends_at env w (run_admission m)"
  "extends_at env w m \<Longrightarrow> extends_at env w (void m)"
  by (auto simp: extends_at_def run_write_def run_admission_def run_admission_denying_def rolled_back_def void_def abind_def areturn_def
      split: prod.split sum.split)

lemma extends_save [extends_rules]: "extends_at env w (asave (store_save h i))"
  by (auto simp: extends_at_def asave_def store_save_def save_record_events split: sum.split)

lemma alog_orders: "wd_orders (snd (alog s f w)) = wd_orders w"
  by (simp add: alog_def split: sum.split prod.split log_store.split)

lemma extends_other_stream:
  assumes "s \<noteq> AUDIT_LOG" and "one_row f"
  shows "extends_at env w (alog s f)"
proof (cases "f (stream_log s (wd_repo w))")
  case (Inr x)
  then obtain a st where f: "f (stream_log s (wd_repo w)) = Inr (a, st)" by (cases x) auto
  have "st = stream_log s (wd_repo w) \<or> (\<exists>p. st = log_append (stream_log s (wd_repo w)) p)"
    using f assms(2) unfolding one_row_def by blast
  from alog_cases[where f = f, OF f this] show ?thesis
    using assms(1) trail_row[OF trail_refl, where p = "(s, _)"] by (auto simp: extends_at_def approves_def)
qed (auto simp: extends_at_def alog_def)

text \<open>An audit event of any other action, and one of an approval behind its check.\<close>

lemma extends_append_audit:
  assumes "action = ACT_APPROVED \<Longrightarrow>
    \<exists>check w1 w2. require_idea env (wd_repo w1) (ti_decision_id i) = Inr i
      \<and> check_approval env i actor None w1 = (Inr check, w2) \<and> kc_violations check = []
      \<and> trail_rows w2 = trail_rows w"
  shows "extends_at env w (append_audit env i action after actor aid reason evidence venue order_id)"
proof -
  have row: "extends_at env v (alog AUDIT_LOG (\<lambda>st. rbind (audit_append st e) (\<lambda>st'. Inr ((), st'))))"
    if "trail_rows v = trail_rows w" "ae_decision_id e = ti_decision_id i" "ae_action e = action"
      "ae_actor_type e = actor" "ae_record_hash e = en_rhash env i" for v e
  proof (cases "audit_append (stream_log AUDIT_LOG (wd_repo v)) e")
    case (Inr st)
    then have "st = log_append (stream_log AUDIT_LOG (wd_repo v)) (audit_event_to_dict e)"
      by (auto simp: audit_append_def)
    then have rows: "trail_rows (snd (alog AUDIT_LOG (\<lambda>st. rbind (audit_append st e) (\<lambda>st'. Inr ((), st'))) v))
        = trail_rows v @ [(AUDIT_LOG, audit_event_to_dict e)]"
      using Inr by (simp add: alog_def stream_log_def)
    have "checked env (trail_rows v) (AUDIT_LOG, audit_event_to_dict e)" if "approves (AUDIT_LOG, audit_event_to_dict e)"
    proof -
      have "action = ACT_APPROVED"
        using that \<open>ae_action e = action\<close> by (cases action) (simp_all add: approves_def audit_event_to_dict_def)
      then show ?thesis
        using assms \<open>trail_rows v = _\<close> \<open>ae_decision_id e = _\<close> \<open>ae_actor_type e = _\<close> \<open>ae_record_hash e = _\<close>
        unfolding checked_def audit_event_to_dict_def by fastforce
    qed
    moreover have "wd_orders (snd (alog AUDIT_LOG (\<lambda>st. rbind (audit_append st e) (\<lambda>st'. Inr ((), st'))) v)) = wd_orders v"
      by (rule alog_orders)
    ultimately show ?thesis unfolding extends_at_def rows by (blast intro: trail_row)
  qed (auto simp: extends_at_def alog_def)
  show ?thesis
    unfolding append_audit_def
    by (intro extends_abind extends_basic row) (auto simp: afresh_def aclock_def aread_def)
qed

lemma extends_other_action [extends_rules]:
  "action \<noteq> ACT_APPROVED \<Longrightarrow> extends_at env w (append_audit env i action after actor aid reason evidence venue order_id)"
  by (rule extends_append_audit) simp


section \<open>The operations\<close>

lemma extends_kernel [extends_rules]:
  "extends_at env w (current_budget env)" "extends_at env w (enact e)" "extends_at env w (current_autonomy env)"
  "extends_at env w (ratchet_down env res now b reason)" "extends_at env w (decision_autonomy env now bo co)"
  "extends_at env w (check_approval env i actor no)" "extends_at env w (check_execution env d actor no)"
proof -
  show cb: "extends_at env w (current_budget env)" for w
    unfolding current_budget_def aappend_budget_def
    by (intro extends_rules extends_other_stream one_row_logs) simp_all
  show en: "extends_at env w (enact e)" for w e
    unfolding enact_def aappend_autonomy_def
    by (intro extends_rules extends_other_stream one_row_logs) simp_all
  show ca: "extends_at env w (current_autonomy env)" for w
    unfolding current_autonomy_def by (intro extends_rules en)
  show rd: "extends_at env w (ratchet_down env res now b reason)" for w res now b reason
    unfolding ratchet_down_def by (intro extends_rules en)
  show da: "extends_at env w (decision_autonomy env now bo co)" for w now bo co
    unfolding decision_autonomy_def by (intro extends_rules ca cb rd)
  show "extends_at env w (check_approval env i actor no)" "extends_at env w (check_execution env d actor no)"
    unfolding check_approval_def check_execution_def by (intro extends_rules cb da)+
qed

lemma extends_controls [extends_rules]:
  "extends_at env w (set_autonomy_mode env mode actor aid reason evidence)"
  "extends_at env w (resolve_execution_autonomy env no)"
  "extends_at env w (service_approval_violations env i actor)"
  unfolding set_autonomy_mode_def resolve_execution_autonomy_def service_approval_violations_def
  by (intro extends_rules)+

lemma extends_update_budget [extends_rules]: "extends_at env w (update_budget env budget actor aid)"
  unfolding update_budget_def aappend_budget_def
  by (intro extends_rules extends_other_stream one_row_logs) simp

lemma require_idea_names: "require_idea env r d = Inr i \<Longrightarrow> ti_decision_id i = d"
  by (simp add: require_idea_Inr)

lemma check_approval_actor: "check_approval env i actor no w = (Inr check, w') \<Longrightarrow> kc_actor_type check = actor"
  by (auto simp: check_approval_def abind_def areturn_def split: prod.split_asm sum.split_asm)

lemma read_Inr: "aread f w = (Inr a, v) \<longleftrightarrow> f (wd_repo w) = Inr a \<and> v = w"
  by (auto simp: aread_def)

lemma guard_Inr: "aguard c e w = (Inr u, v) \<longleftrightarrow> \<not> c \<and> v = w"
  by (auto simp: aguard_def areturn_def araise_def)

text \<open>The one place an approval is recorded: right behind the fresh check.\<close>

lemma extends_commit_approval [extends_rules]:
  "extends_at env w (commit_approval env i check aid reason evidence)"
  unfolding commit_approval_def
proof (intro extends_abind extends_basic extends_kernel, unfold read_Inr guard_Inr)
  fix current u v fresh x y preview z committed t
  assume "require_idea env (wd_repo w) (ti_decision_id i) = Inr current \<and> v = w"
    and "\<not> (en_rhash env current \<noteq> en_rhash env i \<or> kc_decision_id check \<noteq> ti_decision_id i) \<and> u = v"
    and "check_approval env current (kc_actor_type check) None u = (Inr fresh, x)"
    and "\<not> \<not> admitted fresh \<and> y = x"
    and "admission_evidence env check = Inr preview \<and> z = y"
    and "(if evidence = preview then admission_evidence env fresh else Inr evidence) = Inr committed \<and> t = z"
  moreover from this have "ti_decision_id current = ti_decision_id i" "kc_actor_type fresh = kc_actor_type check"
    using require_idea_names check_approval_actor by blast+
  ultimately show "extends_at env t (append_audit env current ACT_APPROVED APPROVED (kc_actor_type fresh) aid reason committed [] [])"
    by (intro extends_append_audit exI[of _ fresh] exI[of _ w] exI[of _ x]) (simp add: admitted_def)
qed

lemma extends_approvals [extends_rules]:
  "extends_at env w (record_approval env i check aid reason evidence)"
  "extends_at env w (approve env d aid reason)"
  "extends_at env w (denied_approval env d check aid reason)"
  "extends_at env w (denied_execution env d check aid reason)"
  "extends_at env w (sweep_candidate env aid v)"
  "extends_at env w (auto_approve_sweep env aid)"
  unfolding record_approval_def approve_def denied_approval_def denied_execution_def sweep_candidate_def Let_def
    auto_approve_sweep_def record_denied_approval_def record_denied_execution_def
  by (intro extends_rules | simp)+

lemma extends_lifecycle [extends_rules]:
  "extends_at env w (propose env i aid actor reason evidence)"
  "extends_at env w (propose_batch env ideas aid actor reason evidence)"
  "extends_at env w (resubmit env i aid actor reason)"
  "extends_at env w (request_changes env d aid reason)"
  "extends_at env w (reject env d aid reason actor)"
  "extends_at env w (cancel env d aid reason actor)"
  "extends_at env w (expire env d aid reason actor)"
  "extends_at env w (expire_due_ideas env aid reason actor)"
  "extends_at env w (record_submission env d aid venue order_id reason actor evidence)"
  "extends_at env w (record_fill env d aid venue order_id reason actor evidence)"
  unfolding propose_def propose_batch_def resubmit_def request_changes_def reject_def cancel_def expire_def
    expire_due_ideas_def record_submission_def record_fill_def audited_action_def
  by (intro extends_rules | simp)+

lemma extends_closeouts [extends_rules]:
  "extends_at env w (record_closeout_attribution env d aid res amount percent reason evidence actor resolved)"
  "extends_at env w (auto_attribute_expired_ideas env aid reason evidence)"
  "extends_at env w (finalize_position env target aid res evidence)"
  "extends_at env w (record_simulated_close env target q p ra oa res evidence aid)"
proof -
  show rc: "extends_at env w (record_closeout_attribution env d aid res amount percent reason evidence actor resolved)"
    for w d aid res amount percent reason evidence actor resolved
    unfolding record_closeout_attribution_def
    by (intro extends_rules extends_other_stream one_row_logs) simp
  show "extends_at env w (auto_attribute_expired_ideas env aid reason evidence)"
    unfolding auto_attribute_expired_ideas_def by (intro extends_rules rc)
  show fp: "extends_at env w (finalize_position env target aid res evidence)" for w
    unfolding finalize_position_def by (intro extends_rules rc)
  show "extends_at env w (record_simulated_close env target q p ra oa res evidence aid)"
    unfolding record_simulated_close_def
    by (intro extends_rules extends_other_stream one_row_resolution fp) simp
qed

lemma extends_journal [extends_rules]:
  "extends_at env w (journal_write (\<lambda>st. record_intent h st d rh intent))"
  "extends_at env w (journal_write (\<lambda>st. record_receipt h st d receipt))"
  "extends_at env w (journal_write (\<lambda>st. mark_reconciled h st d))"
  unfolding journal_write_def by (rule extends_other_stream, simp, rule one_row_journal)+

lemma extends_serve: "extends_at env w (serve env q)"
  by (cases q) (auto intro!: extends_rules)

section \<open>What a clean check says\<close>

definition admission_limits :: "service_env \<Rightarrow> repo \<Rightarrow> trade_idea \<Rightarrow> actor_type \<Rightarrow> kernel_check \<Rightarrow> bool" where
  "admission_limits env r i actor check \<longleftrightarrow>
     ar_mode (kc_autonomy check) \<noteq> RESEARCH_ONLY
     \<and> (actor = HUMAN \<or> actor = SYSTEM \<and> ar_mode (kc_autonomy check) = BOUNDED_AUTONOMY)
     \<and> evaluate_eligibility i = []
     \<and> (\<exists>budget n. kc_budget check = Some budget \<and> open_approved_count env r = Inr n
          \<and> n < rk_max_concurrent_approved_tickets budget
          \<and> (ti_position_operation i = None \<longrightarrow>
               (\<exists>pct. ml_percent_of_account (ti_max_loss i) = Some pct \<and> pct \<le> rk_max_loss_per_idea_pct budget)))"

lemma clean_check:
  assumes "check_approval env i actor None w1 = (Inr check, w2)" and "kc_violations check = []"
  shows "admission_limits env (wd_repo w2) i actor check"
proof -
  from assms obtain budget ctx s d now n validated where
    "kc_budget check = Some budget" and "open_approved_count env (wd_repo w2) = Inr n"
    and none: "approval_violations (ar_mode (kc_autonomy check)) i actor budget n now s d (Some ctx) validated = []"
    by (auto simp: check_approval_def abind_def areturn_def aread_def approval_violations_at_def
        split: prod.split_asm sum.split_asm)
  moreover note approval_violations_Nil(1,2,6,11)[OF none]
  ultimately show ?thesis
    by (auto simp: admission_limits_def actor_violations_Nil_iff loss_violations_Nil_iff reducing_def)
qed

section \<open>Properties\<close>

text \<open>
  C6: An approval enters the audit trail only behind a check without violations. Whatever call of
  the service is made, in whatever state, and whether it returns or raises: the rows of the logs
  stay, and before each new row with the action \<^verbatim>\<open>approved\<close> the kernel checked the idea that the
  row names, as stored at that moment, and found nothing; the check ended on exactly the rows
  that precede the approval. So the actor of the row is a human, or the system under bounded
  autonomy, the level is not research_only, the idea passes the eligibility rules, the open
  approved ideas are fewer than the budget's tickets, and an opening idea states a loss within
  the budget's cap per idea.
\<close>

theorem approvals_are_checked:
  assumes "snd (serve env q w) = w'"
  shows "take (length (rp_events (wd_repo w))) (rp_events (wd_repo w')) = rp_events (wd_repo w)
    \<and> (\<forall>k row. length (rp_events (wd_repo w)) \<le> k \<and> k < length (rp_events (wd_repo w'))
         \<and> rp_events (wd_repo w') ! k = (AUDIT_LOG, row) \<and> map_of row ''action'' = Some (JStr ''approved'') \<longrightarrow>
         (\<exists>i actor check w1 w2.
            require_idea env (wd_repo w1) (ti_decision_id i) = Inr i
            \<and> check_approval env i actor None w1 = (Inr check, w2) \<and> kc_violations check = []
            \<and> rp_events (wd_repo w2) = take k (rp_events (wd_repo w'))
            \<and> map_of row ''decision_id'' = Some (JStr (ti_decision_id i))
            \<and> map_of row ''record_hash'' = Some (JStr (en_rhash env i))
            \<and> map_of row ''actor_type'' = Some (JStr (actor_type_value actor))
            \<and> admission_limits env (wd_repo w2) i actor check))"
proof -
  have "trail env (trail_rows w) (trail_rows w')"
    using extends_serve[of env w q] assms by (simp add: extends_at_def)
  note rows = trail_checked[OF this]
  show ?thesis
    using rows clean_check unfolding approves_def checked_def by (metis (no_types, lifting) fst_conv snd_conv)
qed

definition ex_proposed_world :: world where
  "ex_proposed_world =
     \<lparr>wd_repo = ex_filled_repo\<lparr>rp_events :=
        [(BUDGET_LOG, budget_log_entry_to_dict
            \<lparr>be_timestamp = Aware 0, be_actor_type = HUMAN, be_actor_id = ''desk'',
             be_budget = DEFAULT_RISK_BUDGET\<lparr>rk_account_equity := Some 1000\<rparr>\<rparr>),
         (AUDIT_LOG, audit_event_to_dict (ex_event ''e1'' ACT_PROPOSED None PROPOSED []))]\<rparr>,
      wd_clock = 0, wd_ids = 0, wd_orders = []\<rparr>"

theorem approvals_are_checked_witness:
  "\<exists>i actor check w1 w2.
     check_approval ex_env i actor None w1 = (Inr check, w2) \<and> kc_violations check = []
     \<and> rp_events (wd_repo w2) =
         take 3 (rp_events (wd_repo (snd (serve ex_env (ReqApprove ''trade-1'' ''desk'' ''ok'') ex_proposed_world))))
     \<and> admission_limits ex_env (wd_repo w2) i actor check"
proof -
  define es where "es = rp_events (wd_repo (snd (serve ex_env (ReqApprove ''trade-1'' ''desk'' ''ok'') ex_proposed_world)))"
  have es: "map (\<lambda>(s, p). (s, map_of p ''action'')) es =
      [(BUDGET_LOG, None), (AUDIT_LOG, Some (JStr ''proposed'')), (AUTONOMY_LOG, None), (AUDIT_LOG, Some (JStr ''approved''))]"
    unfolding es_def by code_simp
  have two: "length (rp_events (wd_repo ex_proposed_world)) = 2" by (simp add: ex_proposed_world_def)
  obtain row where "es ! 3 = (AUDIT_LOG, row)" "map_of row ''action'' = Some (JStr ''approved'')" "length es = 4"
    using es by (auto simp: map_eq_Cons_conv)
  then show ?thesis
    using approvals_are_checked[OF refl, of ex_proposed_world ex_env "ReqApprove ''trade-1'' ''desk'' ''ok''",
        THEN conjunct2, folded es_def, rule_format, of 3 row] two
    unfolding es_def[symmetric] by (simp, blast)
qed

end
