(* ===== verification/Idea_Reconciliation.thy ===== *)
theory Idea_Reconciliation
  imports Idea_Service
begin

text \<open>
  The paper-fill reconciler, \<^verbatim>\<open>src/gpt_trader/features/trade_ideas/paper_reconciliation.py\<close>: it matches
  fills that were observed elsewhere to trade ideas and records them through the service. A pass
  is a loop over the fills whose state is the dictionary of views, the fills seen so far and the
  three lists of the report; each fill is matched by its decision identity, by its client order
  identity, or, when it has neither, by a unique symbol and side.
\<close>

section \<open>Fills and report entries\<close>

record fill_event =
  fe_order_id :: string
  fe_client_order_id :: string
  fe_symbol :: string
  fe_side :: string
  fe_quantity :: "dec option"
  fe_price :: "dec option"
  fe_status :: string
  fe_decision_id :: "string option"
  fe_source_index :: "int option"
  fe_filled_at :: "py_datetime option"

definition fe_external_order_id :: "fill_event \<Rightarrow> string" where
  "fe_external_order_id e = (if fe_order_id e \<noteq> [] then fe_order_id e else fe_client_order_id e)"

definition fill_event_to_dict :: "fill_event \<Rightarrow> payload" where
  "fill_event_to_dict e =
     [(''order_id'', JStr (fe_order_id e)), (''client_order_id'', JStr (fe_client_order_id e)),
      (''symbol'', JStr (fe_symbol e)), (''side'', JStr (fe_side e)),
      (''quantity'', jdec_option (map_option Finite (fe_quantity e))),
      (''price'', jdec_option (map_option Finite (fe_price e))),
      (''status'', JStr (fe_status e)), (''decision_id'', jstr_option (fe_decision_id e)),
      (''source_index'', (case fe_source_index e of None \<Rightarrow> JNull | Some n \<Rightarrow> JInt n)),
      (''filled_at'', (case fe_filled_at e of None \<Rightarrow> JNull | Some t \<Rightarrow> isoformat t))]"

record reconciliation_entry =
  re_event :: fill_event
  re_status :: string
  re_reason :: string
  re_decision_id :: "string option"
  re_match_method :: "string option"
  re_recorded_submission :: bool
  re_recorded_fill :: bool
  re_final_state :: "trade_idea_state option"
  re_context :: payload

record reconciliation_report =
  rr_mode :: string
  rr_matched :: "reconciliation_entry list"
  rr_unmatched :: "reconciliation_entry list"
  rr_skipped :: "reconciliation_entry list"

definition recorded_count :: "reconciliation_report \<Rightarrow> int" where
  "recorded_count r = int (length (filter re_recorded_fill (rr_matched r)))"

definition PAPER_RECONCILIATION_PROFILES :: "string list" where
  "PAPER_RECONCILIATION_PROFILES = [''dev'', ''mock'', ''paper'']"

definition validate_paper_reconciliation_profile :: "string \<Rightarrow> string result" where
  "validate_paper_reconciliation_profile profile =
     (let normalized = str_lower (strip profile) in
      if normalized \<in> set PAPER_RECONCILIATION_PROFILES then Inr normalized
      else Inl (ValidationError ''Paper fill reconciliation is available only for paper/dev/mock profiles''))"

section \<open>Fills in the rows of the event store\<close>

text \<open>
  \<^verbatim>\<open>str\<close> of a JSON value and \<^verbatim>\<open>Decimal\<close> of a text are parameters; \<^verbatim>\<open>Decimal\<close> gives none where it raises.
\<close>

definition value_at :: "payload \<Rightarrow> string \<Rightarrow> json" where
  "value_at p k = (case map_of p k of None \<Rightarrow> JNull | Some v \<Rightarrow> v)"

definition text_of :: "(json \<Rightarrow> string) \<Rightarrow> json \<Rightarrow> string" where
  "text_of str v = (if v = JNull then [] else strip (str v))"

text \<open>\<^verbatim>\<open>data.get(a) or data.get(b) or ...\<close>.\<close>

fun first_true :: "payload \<Rightarrow> string list \<Rightarrow> json" where
  "first_true p [] = JNull"
| "first_true p [k] = value_at p k"
| "first_true p (k # ks) = (if jtrue (value_at p k) then value_at p k else first_true p ks)"

definition optional_decimal :: "(json \<Rightarrow> string) \<Rightarrow> (string \<Rightarrow> py_decimal option) \<Rightarrow> json \<Rightarrow> dec option" where
  "optional_decimal str decimal v =
     (if v = JNull \<or> v = JStr [] \<or> v = JStr ''market'' then None
      else case decimal (str v) of Some (Finite x) \<Rightarrow> Some x | _ \<Rightarrow> None)"

fun first_datetime ::
  "(json \<Rightarrow> string) \<Rightarrow> (string \<Rightarrow> py_datetime option) \<Rightarrow> payload \<Rightarrow> string list \<Rightarrow> py_datetime option" where
  "first_datetime str fromiso p [] = None"
| "first_datetime str fromiso p (k # ks) =
     (let text = text_of str (value_at p k) in
      if text = [] then first_datetime str fromiso p ks
      else case fromiso text of
             None \<Rightarrow> first_datetime str fromiso p ks
           | Some t \<Rightarrow> Some (Aware (as_utc t)))"

definition safe_text_or_none :: "string option \<Rightarrow> string option" where
  "safe_text_or_none v =
     (case v of None \<Rightarrow> None | Some s \<Rightarrow> let t = strip s in if t = [] then None else Some t)"

definition fill_of_store_event ::
  "(json \<Rightarrow> string) \<Rightarrow> (string \<Rightarrow> py_decimal option) \<Rightarrow> (string \<Rightarrow> py_datetime option) \<Rightarrow> nat \<times> payload \<Rightarrow>
   fill_event option" where
  "fill_of_store_event str decimal fromiso row =
     (case row of (index, event) \<Rightarrow>
        if value_at event ''type'' \<noteq> JStr ''trade'' then None
        else case value_at event ''data'' of
          JObj data \<Rightarrow>
            let status = str_lower (text_of str (value_at data ''status'')) in
            if status \<noteq> ''filled'' then None
            else Some
              \<lparr>fe_order_id = text_of str (first_true data [''order_id'', ''id'']),
               fe_client_order_id = text_of str (first_true data [''client_order_id'', ''client_id'', ''clientOrderId'']),
               fe_symbol = text_of str (first_true data [''symbol'', ''product_id'']),
               fe_side = str_lower (text_of str (value_at data ''side'')),
               fe_quantity = optional_decimal str decimal (first_true data [''quantity'', ''filled_quantity'']),
               fe_price = optional_decimal str decimal (first_true data [''price'', ''avg_fill_price'', ''fill_price'']),
               fe_status = status,
               fe_decision_id = safe_text_or_none (Some (text_of str (value_at data ''decision_id''))),
               fe_source_index = Some (int index),
               fe_filled_at = first_datetime str fromiso data [''filled_at'', ''timestamp'', ''created_at'']\<rparr>
        | _ \<Rightarrow> None)"

definition paper_fill_events_from_store_events ::
  "(json \<Rightarrow> string) \<Rightarrow> (string \<Rightarrow> py_decimal option) \<Rightarrow> (string \<Rightarrow> py_datetime option) \<Rightarrow> payload list \<Rightarrow>
   fill_event list" where
  "paper_fill_events_from_store_events str decimal fromiso rows =
     List.map_filter (fill_of_store_event str decimal fromiso) (enumerate 0 rows)"

section \<open>Matching\<close>

text \<open>\<^verbatim>\<open>pattern in text\<close>.\<close>

fun has_infix :: "string \<Rightarrow> string \<Rightarrow> bool" where
  "has_infix [] pattern = (pattern = [])"
| "has_infix (c # s) pattern = (take (length pattern) (c # s) = pattern \<or> has_infix s pattern)"

definition ends_with :: "string \<Rightarrow> string \<Rightarrow> bool" where
  "ends_with suffix s \<longleftrightarrow> starts_with (rev suffix) (rev s)"

definition client_order_id_contains_decision_id :: "string \<Rightarrow> string \<Rightarrow> bool" where
  "client_order_id_contains_decision_id c d \<longleftrightarrow>
     c = d \<or> list_ex (\<lambda>sep. starts_with (d @ sep) c \<or> ends_with (sep @ d) c \<or> has_infix c (sep @ d @ sep))
               [''-'', ''_'', '':'']"

definition match_client_order_id :: "string \<Rightarrow> (string \<times> trade_idea_view) list \<Rightarrow> string option" where
  "match_client_order_id c views =
     (if c = [] then None
      else if safe_id c \<and> map_of views c \<noteq> None then Some c
      else case filter (client_order_id_contains_decision_id c) (map fst views) of
             [d] \<Rightarrow> Some d
           | _ \<Rightarrow> None)"

definition submitted_external_order_id :: "trade_idea_view \<Rightarrow> string option" where
  "submitted_external_order_id v =
     map_option ae_external_order_id
       (find (\<lambda>e. ae_action e = ACT_SUBMITTED \<and> ae_external_order_id e \<noteq> []) (rev (vw_events v)))"

definition submission_order_id_allows :: "trade_idea_view \<Rightarrow> fill_event \<Rightarrow> bool" where
  "submission_order_id_allows v e \<longleftrightarrow>
     (if vw_state v \<noteq> SUBMITTED then True
      else case submitted_external_order_id v of
             None \<Rightarrow> True
           | Some oid \<Rightarrow> fe_external_order_id e = oid)"

definition is_fill_of :: "string \<Rightarrow> audit_event \<Rightarrow> bool" where
  "is_fill_of oid e \<longleftrightarrow> ae_action e = ACT_FILLED \<and> ae_external_order_id e = oid"

definition audited_fill_order_ids :: "trade_idea_view list \<Rightarrow> string list" where
  "audited_fill_order_ids views =
     map ae_external_order_id
       (filter (\<lambda>e. ae_action e = ACT_FILLED \<and> ae_external_order_id e \<noteq> []) (concat (map vw_events views)))"

definition recordable :: "trade_idea_view \<Rightarrow> bool" where
  "recordable v \<longleftrightarrow> vw_state v = APPROVED \<or> vw_state v = SUBMITTED"

definition recordable_views :: "trade_idea_view list \<Rightarrow> string list \<Rightarrow> trade_idea_view list" where
  "recordable_views views previewed =
     filter (\<lambda>v. recordable v \<and> ti_decision_id (vw_idea v) \<notin> set previewed) views"

definition symbol_matches :: "trade_idea_view \<Rightarrow> fill_event \<Rightarrow> bool" where
  "symbol_matches v e \<longleftrightarrow> fe_symbol e \<noteq> [] \<and> str_upper (ti_instrument (vw_idea v)) = str_upper (fe_symbol e)"

fun opening_side :: "trade_direction \<Rightarrow> string option" where
  "opening_side LONG = Some ''buy''"
| "opening_side SHORT = Some ''sell''"
| "opening_side _ = None"

definition expected_side :: "trade_idea_view \<Rightarrow> string option" where
  "expected_side v =
     (let opening = opening_side (ti_direction (vw_idea v)) in
      if ti_position_operation (vw_idea v) = None then opening
      else if opening = Some ''buy'' then Some ''sell''
      else if opening = Some ''sell'' then Some ''buy''
      else None)"

definition side_matches :: "trade_idea_view \<Rightarrow> fill_event \<Rightarrow> bool" where
  "side_matches v e \<longleftrightarrow> expected_side v = Some (str_lower (fe_side e))"

definition matched_payload_conflict :: "trade_idea_view \<Rightarrow> fill_event \<Rightarrow> (string \<times> payload) option" where
  "matched_payload_conflict v e =
     (if fe_symbol e \<noteq> [] \<and> \<not> symbol_matches v e
      then Some (''fill symbol conflicts with matched trade idea'',
             [(''field'', JStr ''symbol''), (''event_symbol'', JStr (fe_symbol e)),
              (''idea_symbol'', JStr (ti_instrument (vw_idea v)))])
      else if fe_side e \<noteq> [] \<and> \<not> side_matches v e
      then Some (''fill side conflicts with matched trade idea'',
             [(''field'', JStr ''side''), (''event_side'', JStr (fe_side e)),
              (''idea_direction'', JStr (trade_direction_value (ti_direction (vw_idea v)))),
              (''expected_side'', jstr_option (expected_side v))])
      else None)"

text \<open>The matched decision with the method, or the reason why there is none.\<close>

definition match_event ::
  "(string \<times> trade_idea_view) list \<Rightarrow> trade_idea_view list \<Rightarrow> fill_event \<Rightarrow> string + string \<times> string" where
  "match_event views candidates e =
     (case safe_text_or_none (fe_decision_id e) of
        Some d \<Rightarrow>
          if map_of views d = None then Inl (''explicit decision_id not found: '' @ d) else Inr (d, ''decision_id'')
      | None \<Rightarrow>
          (case safe_text_or_none (Some (fe_client_order_id e)) of
             Some c \<Rightarrow>
               (case match_client_order_id (fe_client_order_id e) views of
                  Some d \<Rightarrow> Inr (d, ''client_order_id'')
                | None \<Rightarrow> Inl (''client_order_id did not match a known trade idea: '' @ c))
           | None \<Rightarrow>
               (case filter (\<lambda>v. symbol_matches v e \<and> side_matches v e \<and> submission_order_id_allows v e) candidates of
                  [] \<Rightarrow> Inl ''no approved idea matched fill''
                | [v] \<Rightarrow> Inr (ti_decision_id (vw_idea v), ''symbol_side'')
                | _ \<Rightarrow> Inl ''multiple approved ideas match symbol/side'')))"

definition already_reconciled :: "trade_idea_view \<Rightarrow> fill_event \<Rightarrow> string list \<Rightarrow> bool \<Rightarrow> bool" where
  "already_reconciled v e recorded legacy \<longleftrightarrow>
     (let oid = fe_external_order_id e in
      if oid = [] then vw_state v = FILLED
      else if legacy then oid \<in> set recorded
      else list_ex (is_fill_of oid) (vw_events v))"


section \<open>A pass\<close>

record reconciliation =
  rs_views :: "(string \<times> trade_idea_view) list"
  rs_previewed :: "string list"
  rs_recorded_ids :: "string list"
  rs_matched :: "reconciliation_entry list"
  rs_unmatched :: "reconciliation_entry list"
  rs_skipped :: "reconciliation_entry list"

definition entry_of ::
  "fill_event \<Rightarrow> string \<Rightarrow> string \<Rightarrow> string option \<Rightarrow> string option \<Rightarrow> trade_idea_state option \<Rightarrow> payload \<Rightarrow>
   reconciliation_entry" where
  "entry_of e status reason d method final context =
     \<lparr>re_event = e, re_status = status, re_reason = reason, re_decision_id = d, re_match_method = method,
      re_recorded_submission = False, re_recorded_fill = False, re_final_state = final, re_context = context\<rparr>"

definition unmatched :: "reconciliation \<Rightarrow> reconciliation_entry \<Rightarrow> reconciliation" where
  "unmatched s x = s\<lparr>rs_unmatched := rs_unmatched s @ [x]\<rparr>"

definition skipped :: "reconciliation \<Rightarrow> reconciliation_entry \<Rightarrow> reconciliation" where
  "skipped s x = s\<lparr>rs_skipped := rs_skipped s @ [x]\<rparr>"

text \<open>The tests before anything is recorded: the report without this fill, or that it may be recorded.\<close>

definition judge_fill ::
  "reconciliation \<Rightarrow> fill_event \<Rightarrow> reconciliation + string \<times> string \<times> trade_idea_view" where
  "judge_fill s e =
     (case match_event (rs_views s) (recordable_views (map snd (rs_views s)) (rs_previewed s)) e of
        Inl reason \<Rightarrow> Inl (unmatched s (entry_of e ''unmatched'' reason None None None []))
      | Inr (d, method) \<Rightarrow>
          let v = the (map_of (rs_views s) d);
              final = Some (vw_state v);
              conflict = (if method = ''decision_id'' \<or> method = ''client_order_id''
                          then matched_payload_conflict v e else None)
          in (case conflict of
                Some (reason, context) \<Rightarrow>
                  Inl (unmatched s (entry_of e ''unmatched'' reason (Some d) (Some method) final context))
              | None \<Rightarrow>
                  if d \<in> set (rs_previewed s)
                  then Inl (skipped s (entry_of e ''skipped'' ''trade idea is already terminal filled''
                              (Some d) (Some method) (Some FILLED) []))
                  else if already_reconciled v e (rs_recorded_ids s) (method = ''symbol_side'')
                  then Inl (skipped s (entry_of e ''skipped'' ''fill already recorded on trade-idea audit trail''
                              (Some d) (Some method) final []))
                  else if vw_state v = FILLED
                  then Inl (skipped s (entry_of e ''skipped'' ''trade idea is already terminal filled''
                              (Some d) (Some method) final []))
                  else if \<not> recordable v
                  then Inl (unmatched s (entry_of e ''unmatched''
                              (''trade idea state is '' @ trade_idea_state_value (vw_state v) @ '', not approved/submitted'')
                              (Some d) (Some method) final []))
                  else Inr (d, method, v)))"

text \<open>The calls of the service for a matched fill: the submission, if it is missing, and the fill.\<close>

definition record_match ::
  "service_env \<Rightarrow> string \<Rightarrow> string \<Rightarrow> string \<Rightarrow> trade_idea_view \<Rightarrow> fill_event \<Rightarrow> (bool \<times> trade_idea_view) act" where
  "record_match env actor_id venue d v e =
     abind (if vw_state v = APPROVED
            then run_write (record_submission env d actor_id venue (fe_external_order_id e)
                   (''Paper/mock order submitted during reconciliation ('' @ fe_external_order_id e @ '')'') SYSTEM [])
            else areturn v) (\<lambda>_.
     abind (run_write (record_fill env d actor_id venue (fe_external_order_id e)
              (''Paper/mock fill reconciled from order event ('' @ fe_external_order_id e @ '')'') VENUE
              (encode_fill_evidence env (fe_price e) (fe_quantity e) (fe_filled_at e)))) (\<lambda>filled.
     areturn (vw_state v = APPROVED, filled)))"

definition matched_entry ::
  "fill_event \<Rightarrow> string \<Rightarrow> string \<Rightarrow> bool \<Rightarrow> bool \<Rightarrow> trade_idea_state \<Rightarrow> reconciliation_entry" where
  "matched_entry e d method submission fill final =
     \<lparr>re_event = e, re_status = ''matched'',
      re_reason = (if fill then ''recorded paper/mock fill on trade-idea audit trail''
                   else ''would record paper/mock fill on trade-idea audit trail''),
      re_decision_id = Some d, re_match_method = Some method, re_recorded_submission = submission,
      re_recorded_fill = fill, re_final_state = Some final, re_context = []\<rparr>"

definition noted_id :: "fill_event \<Rightarrow> string list \<Rightarrow> string list" where
  "noted_id e ids = (if fe_external_order_id e = [] then ids else ids @ [fe_external_order_id e])"

definition reconcile_fill ::
  "service_env \<Rightarrow> string \<Rightarrow> string \<Rightarrow> bool \<Rightarrow> reconciliation \<Rightarrow> fill_event \<Rightarrow> reconciliation act" where
  "reconcile_fill env actor_id venue apply s e =
     (case judge_fill s e of
        Inl s' \<Rightarrow> areturn s'
      | Inr (d, method, v) \<Rightarrow>
          if apply
          then abind (record_match env actor_id venue d v e) (\<lambda>(submission, filled).
               areturn (s\<lparr>rs_views := AList.update d filled (rs_views s),
                         rs_matched := rs_matched s @ [matched_entry e d method submission True (vw_state filled)],
                         rs_recorded_ids := noted_id e (rs_recorded_ids s)\<rparr>))
          else areturn (s\<lparr>rs_previewed := rs_previewed s @ [d],
                         rs_matched := rs_matched s @ [matched_entry e d method False False FILLED],
                         rs_recorded_ids := noted_id e (rs_recorded_ids s)\<rparr>))"

fun afold :: "('s \<Rightarrow> 'a \<Rightarrow> 's act) \<Rightarrow> 's \<Rightarrow> 'a list \<Rightarrow> 's act" where
  "afold f s [] = areturn s"
| "afold f s (x # xs) = abind (f s x) (\<lambda>s'. afold f s' xs)"

definition reconcile_fills ::
  "service_env \<Rightarrow> string \<Rightarrow> string \<Rightarrow> bool \<Rightarrow> fill_event list \<Rightarrow> reconciliation_report act" where
  "reconcile_fills env actor_id venue apply fills =
     abind (aread (\<lambda>r. list_views env r None)) (\<lambda>views.
     abind (afold (reconcile_fill env actor_id venue apply)
              \<lparr>rs_views = map (\<lambda>v. (ti_decision_id (vw_idea v), v)) views, rs_previewed = [],
               rs_recorded_ids = audited_fill_order_ids views, rs_matched = [], rs_unmatched = [], rs_skipped = []\<rparr>
              fills) (\<lambda>s.
     areturn \<lparr>rr_mode = (if apply then ''apply'' else ''dry_run''), rr_matched = rs_matched s,
              rr_unmatched = rs_unmatched s, rr_skipped = rs_skipped s\<rparr>))"


definition reconcile_store_events ::
  "service_env \<Rightarrow> (json \<Rightarrow> string) \<Rightarrow> (string \<Rightarrow> py_decimal option) \<Rightarrow> string \<Rightarrow> string \<Rightarrow> bool \<Rightarrow> payload list \<Rightarrow>
   reconciliation_report act" where
  "reconcile_store_events env str decimal actor_id venue apply rows =
     reconcile_fills env actor_id venue apply (paper_fill_events_from_store_events str decimal (en_fromiso env) rows)"

end
