(* ===== verification/Idea_Executor.thy ===== *)
theory Idea_Executor
  imports Idea_Reconciliation Idea_Approvals
begin

text \<open>
  The paper executor, \<^verbatim>\<open>src/gpt_trader/features/idea_execution/executor.py\<close>, and the event-driven
  lane over it, \<^verbatim>\<open>event_lane.py\<close>. An execution is three parts: the admission, a transaction that
  records the submission and the intent; the order, one call of the broker; and the settlement,
  which makes the observed receipt durable before it reconciles it. A process may stop between any
  two of them, and \<open>recover_receipts\<close> goes on from the durable receipts alone.

  The record \<open>lane_env\<close> holds what the executor is given: the service's environment, the clock, the
  operator's switch for automatic execution, the resolver of session calendars, the type of the
  broker and its answer to the order of a given number, and the rendering of its evidence. The
  marks of the broker are part of its answers.
\<close>

section \<open>The environment of the lane\<close>

datatype broker_type = DeterministicBroker | HybridPaperBroker | AnotherBroker

record paper_order =
  br_id :: string
  br_client_id :: "string option"
  br_symbol :: string
  br_side :: order_side
  br_type :: order_type
  br_quantity :: py_decimal
  br_filled_quantity :: py_decimal
  br_avg_fill_price :: "py_decimal option"
  br_status :: order_status
  br_submitted_at :: "py_datetime option"
  br_updated_at :: "py_datetime option"

record lane_env =
  le_service :: service_env
  le_now :: "nat \<Rightarrow> instant"
  le_auto_execution :: bool
  le_calendar :: "string \<Rightarrow> trading_calendar result"
  le_broker :: broker_type
  le_answer :: "nat \<Rightarrow> order_intent \<Rightarrow> paper_order result"
  le_gate_text :: "audit_event \<Rightarrow> autonomy_resolution \<Rightarrow> string list"

definition PAPER_BROKER_TYPES :: "broker_type list" where
  "PAPER_BROKER_TYPES = [DeterministicBroker, HybridPaperBroker]"

definition require_paper_broker :: "broker_type \<Rightarrow> broker_type result" where
  "require_paper_broker b = (if b \<in> set PAPER_BROKER_TYPES then Inr b else Inl PaperOnlyLaneError)"

definition DEFAULT_PAPER_EXECUTION_ACTOR_ID :: string where
  "DEFAULT_PAPER_EXECUTION_ACTOR_ID = ''paper-idea-executor''"

definition EVENT_LANE_ACTOR_ID :: string where "EVENT_LANE_ACTOR_ID = ''event-idea-lane''"

definition SYSTEM_APPROVAL_ACTOR_IDS :: "string list" where
  "SYSTEM_APPROVAL_ACTOR_IDS = [''auto-approval-sweep'', EVENT_LANE_ACTOR_ID]"

text \<open>A call of the broker, which is remembered whatever it answers.\<close>

definition aorder :: "lane_env \<Rightarrow> order_intent \<Rightarrow> paper_order act" where
  "aorder env intent =
     (\<lambda>w. (le_answer env (length (wd_orders w)) intent, w\<lparr>wd_orders := wd_orders w @ [intent]\<rparr>))"

section \<open>Admission\<close>

definition latest_approval_event :: "trade_idea_view \<Rightarrow> audit_event option" where
  "latest_approval_event v = find (\<lambda>e. ae_action e = ACT_APPROVED) (rev (vw_events v))"

definition not_executable :: "string \<Rightarrow> py_error" where
  "not_executable m = IdeaNotExecutableError m"

definition paper_auto_execution_gate_evidence ::
  "lane_env \<Rightarrow> audit_event option \<Rightarrow> instant \<Rightarrow> string list option act" where
  "paper_auto_execution_gate_evidence env approval now =
     (case approval of
        None \<Rightarrow> areturn None
      | Some e \<Rightarrow>
          if ae_actor_type e \<noteq> SYSTEM \<or> ae_actor_id e \<notin> set SYSTEM_APPROVAL_ACTOR_IDS
             \<or> \<not> le_auto_execution env
          then areturn None
          else abind (check_execution (le_service env) (ae_decision_id e) SYSTEM (Some now)) (\<lambda>check.
               areturn (if admitted check then Some (le_gate_text env e (kc_autonomy check)) else None)))"

text \<open>Whether the session of the instrument is open; every way it is not refuses the idea.\<close>

definition open_session :: "lane_env \<Rightarrow> string \<Rightarrow> unit act" where
  "open_session env s =
     abind (aread (\<lambda>_. rewrap unparsed_instrument (not_executable ''instrument is not classifiable to a trading session'')
                         (le_calendar env s))) (\<lambda>c.
     abind (aclock (le_now env)) (\<lambda>now.
     abind (aread (\<lambda>_. rewrap value_error (not_executable ''session calendar cannot evaluate the time'')
              (rbind (tc_is_open c now) (\<lambda>is_open.
               if is_open then Inr True else rbind (tc_next_open c now) (\<lambda>_. Inr False))))) (\<lambda>is_open.
     aguard (\<not> is_open) (not_executable ''market closed''))))"

text \<open>The checks on an idea with a position operation, against the state of this moment.\<close>

definition operation_still_admitted ::
  "lane_env \<Rightarrow> trade_idea_view \<Rightarrow> actor_type \<Rightarrow> unit act" where
  "operation_still_admitted env v actor =
     (let senv = le_service env; i = vw_idea v in
      abind (aguard (le_broker env = HybridPaperBroker \<and> ti_direction i = SHORT)
               (not_executable ''HybridPaperBroker cannot reduce a short target'')) (\<lambda>_.
      abind (aclock (le_now env)) (\<lambda>evaluated_at.
      abind (current_budget senv) (\<lambda>budget.
      abind (aread (\<lambda>r. approval_budget_context_at senv r (Some (ti_decision_id i)) evaluated_at)) (\<lambda>ctx.
      abind (decision_autonomy senv evaluated_at (Some budget) (Some ctx)) (\<lambda>resolution.
      abind (aread (\<lambda>r. position_operation_violations senv r i)) (\<lambda>operation_violations.
      abind (aread (open_approved_count senv)) (\<lambda>n.
      aguard (operation_violations
              @ approval_violations (ar_mode resolution) i actor budget (max 0 (n - 1)) evaluated_at None None
                  (Some ctx) (operation_violations = []) \<noteq> [])
        (not_executable ''Position operation no longer admitted'')))))))))"

text \<open>\<^verbatim>\<open>_resolve_execution_admission\<close>: the view of an executable idea, with the evidence of the gate.\<close>

definition execution_admission :: "lane_env \<Rightarrow> string \<Rightarrow> (trade_idea_view \<times> string list) act" where
  "execution_admission env d =
     abind (aread (\<lambda>r. get_view (le_service env) r d)) (\<lambda>v.
     abind (aguard (vw_state v \<noteq> APPROVED) (not_executable ''state'')) (\<lambda>_.
     let approval = latest_approval_event v;
         by_human = (case approval of None \<Rightarrow> False | Some e \<Rightarrow> ae_actor_type e = HUMAN) in
     abind (if by_human then areturn []
            else abind (aclock (le_now env)) (\<lambda>now.
                 abind (paper_auto_execution_gate_evidence env approval now) (\<lambda>found.
                 let evidence = (case found of None \<Rightarrow> [] | Some x \<Rightarrow> x) in
                 abind (aguard (evidence = []) (not_executable ''paper execution requires human approval'')) (\<lambda>_.
                 areturn evidence)))) (\<lambda>evidence.
     abind (case th_expires_at (ti_time_horizon (vw_idea v)) of
              None \<Rightarrow> areturn ()
            | Some t \<Rightarrow> abind (aclock (le_now env)) (\<lambda>now. aguard (t \<le> now) (not_executable ''expired''))) (\<lambda>_.
     abind (if ti_position_operation (vw_idea v) = None then areturn ()
            else operation_still_admitted env v (case approval of None \<Rightarrow> SYSTEM | Some e \<Rightarrow> ae_actor_type e)) (\<lambda>_.
     abind (open_session env (ti_instrument (vw_idea v))) (\<lambda>_.
     areturn (v, evidence)))))))"

definition resolve_approved_idea :: "lane_env \<Rightarrow> string \<Rightarrow> trade_idea_view act" where
  "resolve_approved_idea env d = abind (execution_admission env d) (\<lambda>(v, _). areturn v)"

fun order_side_for :: "trade_direction \<Rightarrow> order_side result" where
  "order_side_for LONG = Inr BUY"
| "order_side_for SHORT = Inr SELL"
| "order_side_for _ = Inl (not_executable ''direction must be long or short'')"

definition order_quantity :: "trade_idea \<Rightarrow> dec result" where
  "order_quantity i =
     (case sr_quantity (ti_sizing i) of
        None \<Rightarrow> Inl (not_executable ''sizing_recommendation.quantity must be positive'')
      | Some q \<Rightarrow> if q \<le> 0 then Inl (not_executable ''sizing_recommendation.quantity must be positive'') else Inr q)"

definition entry_intent :: "string \<Rightarrow> trade_idea \<Rightarrow> order_intent result" where
  "entry_intent d i =
     rbind (order_side_for (ti_direction i)) (\<lambda>side.
     rbind (order_quantity i) (\<lambda>q.
     new_order_intent
       \<lparr>oi_client_order_id = d, oi_symbol = ti_instrument i, oi_side = side, oi_order_type = MARKET,
        oi_quantity = Finite q, oi_price = None, oi_stop_price = None, oi_tif = None, oi_reduce_only = False,
        oi_leverage = None, oi_position_operation = None\<rparr>))"

text \<open>
  The body of the admission transaction. The side is decided before the operation is looked at,
  as in the code; a reduction records its intent before the submission, an entry after it.
\<close>

definition admit_execution :: "lane_env \<Rightarrow> string \<Rightarrow> string \<Rightarrow> (trade_idea_view \<times> order_intent) act" where
  "admit_execution env d actor_id =
     (let senv = le_service env in
      abind (execution_admission env d) (\<lambda>(v, evidence).
      abind (aread (\<lambda>_. order_side_for (ti_direction (vw_idea v)))) (\<lambda>_.
      abind (aread (\<lambda>r. if ti_position_operation (vw_idea v) = None then entry_intent d (vw_idea v)
                        else intent_for_idea senv r (vw_idea v))) (\<lambda>intent.
      let save = journal_write (\<lambda>st. record_intent (en_phash senv) st d (en_rhash senv (vw_idea v))
                                       (order_intent_to_dict intent));
          reducing = (ti_position_operation (vw_idea v) \<noteq> None) in
      abind (if reducing then save else areturn ()) (\<lambda>_.
      abind (record_submission senv d actor_id ''paper'' d ''Paper executor submitting market order''
               SYSTEM evidence) (\<lambda>_.
      abind (if reducing then areturn () else save) (\<lambda>_.
      areturn (v, intent))))))))"

fun execution_denial :: "py_error \<Rightarrow> bool" where
  "execution_denial (IdeaNotExecutableError _) = True"
| "execution_denial e = (e = PolicyViolationError)"

definition admit :: "lane_env \<Rightarrow> string \<Rightarrow> string \<Rightarrow> (trade_idea_view \<times> order_intent) act" where
  "admit env d actor_id = run_admission_denying execution_denial (admit_execution env d actor_id)"

section \<open>Settlement\<close>

fun order_status_value :: "order_status \<Rightarrow> string" where
  "order_status_value PENDING = ''PENDING''"
| "order_status_value order_status.SUBMITTED = ''SUBMITTED''"
| "order_status_value PARTIALLY_FILLED = ''PARTIALLY_FILLED''"
| "order_status_value order_status.FILLED = ''FILLED''"
| "order_status_value order_status.CANCELLED = ''CANCELLED''"
| "order_status_value order_status.REJECTED = ''REJECTED''"
| "order_status_value order_status.EXPIRED = ''EXPIRED''"
| "order_status_value FAILED = ''FAILED''"

text \<open>What \<^verbatim>\<open>validate_receipt\<close> sees of an order; an \<^verbatim>\<open>Order\<close> has no attribute \<^verbatim>\<open>reduce_only\<close>.\<close>

definition observe :: "paper_order \<Rightarrow> receipt" where
  "observe o' =
     \<lparr>rc_client_id = br_client_id o', rc_symbol = Some (br_symbol o'), rc_side = Some (order_side_value (br_side o')),
      rc_type = Some (order_type_value (br_type o')), rc_quantity = Some (br_quantity o'), rc_reduce_only = None,
      rc_filled_quantity = Some (Parsed (br_filled_quantity o')),
      rc_status = Some (order_status_value (br_status o')),
      rc_avg_fill_price = map_option Parsed (br_avg_fill_price o')\<rparr>"

text \<open>A number that an accepted receipt has shown to be finite.\<close>

fun finite_number :: "py_decimal \<Rightarrow> dec option" where
  "finite_number (Finite x) = Some x"
| "finite_number NonFinite = None"

definition fill_of_order :: "string \<Rightarrow> py_datetime \<Rightarrow> paper_order \<Rightarrow> fill_event" where
  "fill_of_order d t o' =
     \<lparr>fe_order_id = br_id o',
      fe_client_order_id = (case br_client_id o' of None \<Rightarrow> d | Some c \<Rightarrow> if c = [] then d else c),
      fe_symbol = br_symbol o', fe_side = str_lower (order_side_value (br_side o')),
      fe_quantity = finite_number (br_filled_quantity o'),
      fe_price = (case br_avg_fill_price o' of None \<Rightarrow> None | Some p \<Rightarrow> finite_number p),
      fe_status = str_lower (order_status_value (br_status o')), fe_decision_id = Some d,
      fe_source_index = None, fe_filled_at = Some t\<rparr>"

text \<open>\<^verbatim>\<open>order.updated_at or order.submitted_at or self._now_factory()\<close>\<close>

definition execution_time :: "lane_env \<Rightarrow> paper_order \<Rightarrow> py_datetime act" where
  "execution_time env o' =
     (case br_updated_at o' of
        Some t \<Rightarrow> areturn t
      | None \<Rightarrow> (case br_submitted_at o' of
                   Some t \<Rightarrow> areturn t
                 | None \<Rightarrow> abind (aclock (le_now env)) (\<lambda>t. areturn (Aware t))))"

text \<open>A reduction cannot have been executed before its submission or after this moment.\<close>

definition execution_time_ok :: "py_datetime \<Rightarrow> instant \<Rightarrow> trade_idea_view \<Rightarrow> unit result" where
  "execution_time_ok t observed v =
     (let impossible = PaperExecutionError ''Targeted receipt has impossible execution time'' in
      case rev (vw_events v) of
        [] \<Rightarrow> Inl IndexError
      | e # _ \<Rightarrow>
          (case t of
             Naive _ \<Rightarrow> Inl impossible
           | Aware u \<Rightarrow>
               if observed < u then Inl impossible
               else rbind (later (ae_timestamp e) t) (\<lambda>early. raise_if early impossible)))"

definition receipt_payload :: "lane_env \<Rightarrow> string \<Rightarrow> trade_idea \<Rightarrow> py_datetime \<Rightarrow> fill_event \<Rightarrow> payload act" where
  "receipt_payload env d i t e =
     (if ti_position_operation i = None then areturn (fill_event_to_dict e)
      else
        abind (aclock (le_now env)) (\<lambda>observed.
        abind (aread (\<lambda>r. get_view (le_service env) r d)) (\<lambda>v.
        abind (aread (\<lambda>_. execution_time_ok t observed v)) (\<lambda>_.
        areturn (fill_event_to_dict e @ [(''observed_at'', isoformat (Aware observed))])))))"

fun receipt_conflict :: "py_error \<Rightarrow> bool" where
  "receipt_conflict (PaperReceiptConflictError _) = True"
| "receipt_conflict _ = False"

definition make_durable :: "lane_env \<Rightarrow> string \<Rightarrow> payload \<Rightarrow> unit act" where
  "make_durable env d p =
     atry (run_write (journal_write (\<lambda>st. record_receipt (en_phash (le_service env)) st d p)))
       receipt_conflict (\<lambda>_. araise (PaperExecutionError ''Paper fill was not recorded''))"

text \<open>
  \<^verbatim>\<open>_reconcile_receipt\<close>, in one write transaction. The two disagreements of an audited fill with the
  receipt that \<open>fill_conflicts\<close> finds are tested in another order here; a receipt of the journal has
  every field, so that the order shows in nothing.
\<close>

definition fill_of_receipt :: "service_env \<Rightarrow> string \<Rightarrow> payload \<Rightarrow> fill_event result" where
  "fill_of_receipt env d p =
     rbind (rbind (jget p ''order_id'') jstr) (\<lambda>oid.
     rbind (rbind (jget p ''client_order_id'') jstr) (\<lambda>cid.
     rbind (rbind (jget p ''symbol'') jstr) (\<lambda>symbol.
     rbind (rbind (jget p ''side'') jstr) (\<lambda>side.
     rbind (rbind (jget p ''quantity'') decimal_ctor) (\<lambda>quantity.
     rbind (rbind (jget p ''price'') decimal_ctor) (\<lambda>price.
     rbind (rbind (jget p ''status'') jstr) (\<lambda>status.
     rbind (rbind (jget p ''filled_at'') jdatetime) (\<lambda>t.
     Inr \<lparr>fe_order_id = oid, fe_client_order_id = cid, fe_symbol = symbol, fe_side = side,
          fe_quantity = finite_number quantity, fe_price = finite_number price, fe_status = status,
          fe_decision_id = Some d, fe_source_index = None, fe_filled_at = Some t\<rparr>))))))))"

definition pending_receipt :: "service_env \<Rightarrow> string \<Rightarrow> repo \<Rightarrow> (journal_entry \<times> payload) result" where
  "pending_receipt env d r =
     rbind (journal_entries (en_phash env) (stream_log EXECUTION_LOG r)) (\<lambda>es.
     case map_of es d of
       None \<Rightarrow> Inl (KeyError d)
     | Some e \<Rightarrow>
         (case je_receipt e of
            None \<Rightarrow> Inl (PaperExecutionError ''No terminal fill receipt available'')
          | Some p \<Rightarrow>
              if is_filled p then Inr (e, p)
              else Inl (PaperExecutionError ''No terminal fill receipt available'')))"

definition reconcile_receipt_body ::
  "service_env \<Rightarrow> string \<Rightarrow> string \<Rightarrow> reconciliation_entry act" where
  "reconcile_receipt_body env d actor_id =
     abind (aread (pending_receipt env d)) (\<lambda>(entry, p).
     abind (aread (\<lambda>r. get_view env r d)) (\<lambda>v.
     abind (aread (\<lambda>_. validate_binding (en_rhash env) entry (vw_idea v))) (\<lambda>_.
     abind (aread (\<lambda>_. if vw_state v = FILLED then fill_conflicts (recorded_fill_from_view env v) p
                       else Inr False)) (\<lambda>conflicting.
     abind (aguard conflicting (journal_integrity ''Audited fill conflicts with durable broker receipt'')) (\<lambda>_.
     abind (aread (\<lambda>_. fill_of_receipt env d p)) (\<lambda>event.
     abind (reconcile_fills env actor_id ''paper'' True [event]) (\<lambda>report.
     abind (aguard (rr_unmatched report \<noteq> [] \<or> rr_matched report = [] \<and> rr_skipped report = [])
              (journal_integrity ''Durable receipt cannot reconcile with current workflow'')) (\<lambda>_.
     abind (aread (\<lambda>r. get_view env r d)) (\<lambda>after.
     abind (aguard (vw_state after \<noteq> FILLED)
              (journal_integrity ''Reconciliation did not produce an audited fill'')) (\<lambda>_.
     abind (journal_write (\<lambda>st. mark_reconciled (en_phash env) st d)) (\<lambda>_.
     abind (case ti_position_operation (vw_idea v) of
              None \<Rightarrow> areturn None
            | Some op \<Rightarrow>
                abind (aread (\<lambda>_. closeout_resolution_of (po_resolution op))) (\<lambda>resolution.
                finalize_position env (po_target_decision_id op) actor_id resolution [])) (\<lambda>_.
     areturn (hd (if rr_matched report \<noteq> [] then rr_matched report else rr_skipped report))))))))))))))"

definition reconcile_receipt :: "service_env \<Rightarrow> string \<Rightarrow> string \<Rightarrow> reconciliation_entry act" where
  "reconcile_receipt env d actor_id = run_write (reconcile_receipt_body env d actor_id)"

record execution_result =
  xr_decision_id :: string
  xr_client_order_id :: string
  xr_order_id :: string
  xr_symbol :: string
  xr_side :: order_side
  xr_quantity :: py_decimal
  xr_fill_price :: "py_decimal option"
  xr_final_state :: trade_idea_state
  xr_reconciliation :: reconciliation_entry

text \<open>Everything \<^verbatim>\<open>execute\<close> does with the answer of the broker.\<close>

definition settle :: "lane_env \<Rightarrow> string \<Rightarrow> string \<Rightarrow> trade_idea_view \<Rightarrow> order_intent \<Rightarrow> paper_order \<Rightarrow> execution_result act" where
  "settle env d actor_id v intent o' =
     abind (aread (\<lambda>_. rewrap value_error (PaperExecutionError ''receipt conflicts with admitted intent'')
                         (validate_receipt intent (Some (observe o'))))) (\<lambda>_.
     abind (execution_time env o') (\<lambda>t.
     abind (receipt_payload env d (vw_idea v) t (fill_of_order d t o')) (\<lambda>p.
     abind (make_durable env d p) (\<lambda>_.
     abind (aguard (br_status o' \<noteq> order_status.FILLED) (PaperExecutionError ''Paper broker did not fill order'')) (\<lambda>_.
     abind (reconcile_receipt (le_service env) d actor_id) (\<lambda>entry.
     abind (aread (\<lambda>r. get_view (le_service env) r d)) (\<lambda>final.
     areturn
       \<lparr>xr_decision_id = d, xr_client_order_id = d, xr_order_id = br_id o', xr_symbol = br_symbol o',
        xr_side = oi_side intent, xr_quantity = br_filled_quantity o', xr_fill_price = br_avg_fill_price o',
        xr_final_state = vw_state final, xr_reconciliation = entry\<rparr>)))))))"

definition execute :: "lane_env \<Rightarrow> string \<Rightarrow> string \<Rightarrow> execution_result act" where
  "execute env d actor_id =
     abind (admit env d actor_id) (\<lambda>(v, intent).
     abind (aorder env intent) (\<lambda>o'.
     settle env d actor_id v intent o'))"

section \<open>Recovery\<close>

definition recoverable :: "string \<times> journal_entry \<Rightarrow> bool" where
  "recoverable e \<longleftrightarrow>
     \<not> je_reconciled (snd e) \<and> (case je_receipt (snd e) of None \<Rightarrow> False | Some p \<Rightarrow> is_filled p)"

definition unresolved_reason :: "(string \<times> journal_entry) list \<Rightarrow> trade_idea_view \<Rightarrow> string \<times> json option" where
  "unresolved_reason es v =
     (let d = ti_decision_id (vw_idea v) in
      (d, case map_of es d of
            None \<Rightarrow> None
          | Some e \<Rightarrow> (case je_receipt e of None \<Rightarrow> None | Some p \<Rightarrow> map_of p ''status'')))"

text \<open>The decisions recovered, and the submissions that wait with the status of their receipt.\<close>

definition recover_receipts :: "service_env \<Rightarrow> string \<Rightarrow> (string list \<times> (string \<times> json option) list) act" where
  "recover_receipts env actor_id =
     abind (aread (\<lambda>r. journal_entries (en_phash env) (stream_log EXECUTION_LOG r))) (\<lambda>es.
     abind (amap (\<lambda>e. abind (reconcile_receipt env (je_decision_id (snd e)) actor_id) (\<lambda>result.
                      areturn (if re_recorded_fill result then [je_decision_id (snd e)] else [])))
              (filter recoverable es)) (\<lambda>recovered.
     abind (aread (\<lambda>r. list_views env r (Some SUBMITTED))) (\<lambda>waiting.
     areturn (concat recovered, map (unresolved_reason es) waiting))))"

end
