(* ===== verification/Idea_Lane.thy ===== *)
theory Idea_Lane
  imports Idea_Executor
begin

text \<open>
  The event-driven lane, \<^verbatim>\<open>src/gpt_trader/features/idea_execution/event_lane.py\<close>, over the executor
  and the deterministic broker, \<^verbatim>\<open>src/gpt_trader/features/brokerages/mock/deterministic.py\<close>, whose
  orders it prices. Behind it, what any interleaving of the lanes and of the service's clients
  keeps: a run is a sequence of the transactions and of the calls of the broker, in which a process
  may stop between its admission and its order; no idea is ordered twice.
\<close>

section \<open>The deterministic broker\<close>

text \<open>
  \<^verbatim>\<open>place_order\<close> for the keywords of an intent; the digest of the client identity and the
  clock are arguments. An intent has a client identity and a positive quantity, so that the
  counter and the default quantity stay unused.
\<close>

definition set_mark :: "string \<Rightarrow> dec \<Rightarrow> (string \<times> dec) list \<Rightarrow> (string \<times> dec) list" where
  "set_mark = AList.update"

definition fill_price :: "(string \<times> dec) list \<Rightarrow> order_intent \<Rightarrow> py_decimal" where
  "fill_price marks i =
     (case map_of marks (oi_symbol i) of
        Some m \<Rightarrow> Finite m
      | None \<Rightarrow> (case oi_price i of
                   None \<Rightarrow> Finite 50000
                 | Some p \<Rightarrow> if p = Finite 0 then Finite 50000 else p))"

definition place_order ::
  "(string \<Rightarrow> string) \<Rightarrow> (string \<times> dec) list \<Rightarrow> instant \<Rightarrow> order_intent \<Rightarrow> paper_order" where
  "place_order digest marks now i =
     \<lparr>br_id = ''MOCK_'' @ digest (oi_client_order_id i), br_client_id = Some (oi_client_order_id i),
      br_symbol = oi_symbol i, br_side = (if oi_side i = BUY then BUY else SELL),
      br_type = (if oi_order_type i = MARKET then MARKET else LIMIT), br_quantity = oi_quantity i,
      br_filled_quantity = oi_quantity i, br_avg_fill_price = Some (fill_price marks i),
      br_status = order_status.FILLED, br_submitted_at = Some (Aware now), br_updated_at = Some (Aware now)\<rparr>"

section \<open>The event-driven lane\<close>

datatype event_lane_stage =
  QUEUED | APPROVAL_DENIED | LANE_APPROVED | EXECUTION_DENIED | EXECUTION_REFUSED | EXECUTED

record event_lane_outcome =
  eo_decision_id :: string
  eo_stage :: event_lane_stage
  eo_violations :: "violation list"
  eo_execution :: "execution_result option"

fun execution_refusal :: "py_error \<Rightarrow> bool" where
  "execution_refusal (IdeaNotExecutableError _) = True"
| "execution_refusal (PaperExecutionError _) = True"
| "execution_refusal _ = False"

text \<open>The lane's executor prices the order from the event's own mark.\<close>

definition priced :: "(string \<Rightarrow> string) \<Rightarrow> (nat \<Rightarrow> instant) \<Rightarrow> (string \<times> dec) list \<Rightarrow> lane_env \<Rightarrow> lane_env" where
  "priced digest clock marks env =
     env\<lparr>le_broker := DeterministicBroker,
         le_answer := (\<lambda>n i. Inr (place_order digest marks (clock n) i))\<rparr>"

text \<open>
  \<^verbatim>\<open>process\<close>: the idea is that of the given view, and \<open>marks\<close> are the broker's before the event.
  The violations of a policy that changed before the commit are those of the exception, which the
  model leaves out.
\<close>

definition process ::
  "(string \<Rightarrow> string) \<Rightarrow> (nat \<Rightarrow> instant) \<Rightarrow> lane_env \<Rightarrow> (string \<times> dec) list \<Rightarrow> string \<Rightarrow> trade_idea \<Rightarrow> dec \<Rightarrow>
   event_lane_outcome act" where
  "process digest clock env marks actor_id i mark =
     (let senv = le_service env; d = ti_decision_id i;
          outcome = (\<lambda>stage violations result.
            \<lparr>eo_decision_id = d, eo_stage = stage, eo_violations = violations, eo_execution = result\<rparr>)
      in if \<not> en_auto_approval senv then areturn (outcome QUEUED [] None)
      else
        abind (check_approval senv i SYSTEM None) (\<lambda>approval_check.
        if \<not> admitted approval_check
        then abind (run_write (record_denied_approval senv i approval_check actor_id
                ''event-driven lane: skipped because approval-policy violations remain'')) (\<lambda>_.
             areturn (outcome APPROVAL_DENIED (kc_violations approval_check) None))
        else
          abind (aread (\<lambda>_. admission_evidence senv approval_check)) (\<lambda>evidence.
          abind (atry (abind (run_admission (record_approval senv i approval_check actor_id
                    ''event-driven lane: zero approval-policy violations inside the current budget envelope''
                    evidence)) (\<lambda>_. areturn True))
                  (\<lambda>e. e = PolicyViolationError) (\<lambda>_. areturn False)) (\<lambda>approved.
          if \<not> approved then areturn (outcome APPROVAL_DENIED [] None)
          else if \<not> le_auto_execution env then areturn (outcome LANE_APPROVED [] None)
          else
            abind (check_execution senv d SYSTEM None) (\<lambda>execution_check.
            if \<not> admitted execution_check
            then abind (run_write (record_denied_execution senv i execution_check actor_id
                    ''event-driven lane: execution denied at the execution gate of the kernel'')) (\<lambda>_.
                 areturn (outcome EXECUTION_DENIED (kc_violations execution_check) None))
            else
              atry (abind (execute (priced digest clock (set_mark (ti_instrument i) mark marks) env) d actor_id)
                     (\<lambda>result. areturn (outcome EXECUTED [] (Some result))))
                execution_refusal (\<lambda>_. areturn (outcome EXECUTION_REFUSED [] None)))))))"

section \<open>Runs of the lanes\<close>

text \<open>
  The reachable situations: the admitted intents whose order is still to be placed, and the world.
  Clients call the service; an executor admits an idea, or is refused; it places the order of an
  intent it admitted, once, or is stopped before; it settles an answer, any answer; and a recovery
  runs. Executors may differ in everything but the service.
\<close>

inductive executing :: "service_env \<Rightarrow> (string \<times> order_intent) list \<Rightarrow> world \<Rightarrow> bool" for senv where
  begun: "wd_repo w = empty_repo \<Longrightarrow> wd_orders w = [] \<Longrightarrow> executing senv [] w"
| served: "executing senv fs w \<Longrightarrow> well_typed q \<Longrightarrow> executing senv fs (snd (serve senv q w))"
| admitting: "executing senv fs w \<Longrightarrow> le_service env = senv \<Longrightarrow> admit env d actor_id w = (Inr (v, intent), w')
    \<Longrightarrow> executing senv ((d, intent) # fs) w'"
| refused: "executing senv fs w \<Longrightarrow> le_service env = senv \<Longrightarrow> admit env d actor_id w = (Inl e, w')
    \<Longrightarrow> executing senv fs w'"
| ordering: "executing senv (xs @ (d, intent) # ys) w \<Longrightarrow> executing senv (xs @ ys) (snd (aorder env intent w))"
| stopped: "executing senv (xs @ f # ys) w \<Longrightarrow> executing senv (xs @ ys) w"
| settling: "executing senv fs w \<Longrightarrow> le_service env = senv
    \<Longrightarrow> executing senv fs (snd (settle env d actor_id v intent o' w))"
| recovering: "executing senv fs w \<Longrightarrow> executing senv fs (snd (recover_receipts senv actor_id w))"

text \<open>An execution, whatever it returns or raises, is such a run.\<close>

lemma executing_execute:
  assumes "executing senv fs w" and "le_service env = senv"
  shows "executing senv fs (snd (execute env d actor_id w))"
proof (cases "admit env d actor_id w")
  case (Pair r w1)
  show ?thesis
  proof (cases r)
    case (Inl e)
    then have "executing senv fs w1" using refused[OF assms] Pair by simp
    then show ?thesis using Pair Inl by (simp add: execute_def abind_def)
  next
    case (Inr a)
    obtain v intent where a: "a = (v, intent)" by (cases a)
    have "executing senv ((d, intent) # fs) w1" using admitting[OF assms] Pair Inr a by simp
    then have placed: "executing senv fs (snd (aorder env intent w1))"
      using ordering[of senv "[]" d intent fs] by simp
    show ?thesis
    proof (cases "le_answer env (length (wd_orders w1)) intent")
      case (Inl e)
      then show ?thesis using placed Pair Inr a by (simp add: execute_def abind_def aorder_def)
    next
      case (Inr order)
      then show ?thesis
        using settling[OF placed assms(2)] Pair \<open>r = Inr a\<close> a by (simp add: execute_def abind_def aorder_def)
    qed
  qed
qed

section \<open>What the writes of an executor keep\<close>

lemma extends_afold [extends_rules]:
  "(\<And>s x v. extends_at env v (f s x)) \<Longrightarrow> extends_at env w (afold f s xs)"
  by (induction xs arbitrary: s w) (auto intro!: extends_rules)

lemma extends_reconcile [extends_rules]: "extends_at env w (reconcile_fills env aid venue apply fills)"
proof -
  have "extends_at env w (reconcile_fill env aid venue apply s e)" for w s e
    unfolding reconcile_fill_def record_match_def
    by (auto intro!: extends_rules split: sum.split prod.split)
  then show ?thesis unfolding reconcile_fills_def by (intro extends_rules)
qed

lemma extends_receipts [extends_rules]:
  "extends_at env w (reconcile_receipt env d aid)" "extends_at env w (recover_receipts env aid)"
proof -
  show rr: "extends_at env w (reconcile_receipt env d aid)" for w d
    unfolding reconcile_receipt_def reconcile_receipt_body_def
    by (auto intro!: extends_rules split: prod.split)
  show "extends_at env w (recover_receipts env aid)"
    unfolding recover_receipts_def by (intro extends_rules rr)
qed

lemma extends_settle: "extends_at (le_service env) w (settle env d aid v intent o')"
  unfolding settle_def execution_time_def receipt_payload_def make_durable_def
  by (auto intro!: extends_rules)

text \<open>Sequences of transactions, each of which keeps the invariant whatever it answers.\<close>

named_theorems preserves_rules \<open>acts that keep an invariant, whether they return or raise\<close>

lemma preserves_basic [preserves_rules]:
  "preserves P (areturn a)" "preserves P (araise e)" "preserves P (aguard c e)" "preserves P (aread f)"
  "preserves P (aclock now)"
  by (auto simp: preserves_def areturn_def araise_def aguard_def aread_def aclock_def)

lemma preserves_abind [preserves_rules]:
  assumes "preserves P m" and "\<And>a. preserves P (f a)"
  shows "preserves P (abind m f)"
proof -
  have "P (wd_repo (snd (abind m f w)))" if "P (wd_repo w)" for w
  proof (cases "m w")
    case (Pair r v)
    then have "P (wd_repo v)" using assms(1) that by (metis preserves_def snd_conv)
    then show ?thesis using assms(2) Pair by (cases r) (auto simp: abind_def preserves_def)
  qed
  then show ?thesis by (simp add: preserves_def)
qed

lemma preserves_atry [preserves_rules]:
  assumes "preserves P m" and "\<And>e. preserves P (h e)"
  shows "preserves P (atry m c h)"
proof -
  have "P (wd_repo (snd (atry m c h w)))" if "P (wd_repo w)" for w
  proof (cases "m w")
    case (Pair r v)
    then have "P (wd_repo v)" using assms(1) that by (metis preserves_def snd_conv)
    then show ?thesis using assms(2) Pair by (cases r) (auto simp: atry_def preserves_def)
  qed
  then show ?thesis by (simp add: preserves_def)
qed

lemma preserves_amap [preserves_rules]: "(\<And>x. preserves P (f x)) \<Longrightarrow> preserves P (amap f xs)"
  by (induction xs) (auto intro!: preserves_rules)

lemma preserves_cases [preserves_rules]:
  "preserves P m \<Longrightarrow> preserves P n \<Longrightarrow> preserves P (if c then m else n)"
  "preserves P m \<Longrightarrow> (\<And>a. preserves P (g a)) \<Longrightarrow> preserves P (case x of None \<Rightarrow> m | Some a \<Rightarrow> g a)"
  by (auto split: option.split)

lemma establishes_afold:
  "(\<And>s x. establishes P (f s x) (\<lambda>_. P)) \<Longrightarrow> establishes P (afold f s xs) (\<lambda>_. P)"
  by (induction xs arbitrary: s) (auto intro!: establishes_rules establishes_then)

lemma reconcile_fills_ok:
  "establishes (repo_ok env) (reconcile_fills env aid venue apply fills) (\<lambda>_. repo_ok env)"
proof -
  have "establishes (repo_ok env) (reconcile_fill env aid venue apply s e) (\<lambda>_. repo_ok env)" for s e
    unfolding reconcile_fill_def record_match_def
    by (auto intro!: establishes_then establishes_keep establishes_if establishes_run_write record_submission_ok
        record_fill_ok split: sum.split prod.split)
  then show ?thesis
    unfolding reconcile_fills_def by (intro establishes_then establishes_keep establishes_afold)
qed

lemma reconcile_receipt_ok [preserves_rules]: "preserves (repo_ok env) (reconcile_receipt env d aid)"
  unfolding reconcile_receipt_def reconcile_receipt_body_def
  by (rule service.run_write_preserves)
    (auto intro!: establishes_then establishes_keep establishes_option reconcile_fills_ok journal_write_ok
      finalize_position_ok split: prod.split)

lemma recover_receipts_ok: "preserves (repo_ok env) (recover_receipts env aid)"
  unfolding recover_receipts_def by (intro preserves_rules)

lemma settle_ok: "preserves (repo_ok (le_service env)) (settle env d aid v intent o')"
  unfolding settle_def execution_time_def receipt_payload_def make_durable_def
  by (auto intro!: preserves_rules service.run_write_preserves journal_write_ok)

section \<open>Admission\<close>

lemma admission_parts:
  "establishes (repo_ok (le_service env)) (execution_admission env d) (\<lambda>_. repo_ok (le_service env))"
  "grows (execution_admission env d)"
  "extends_at (le_service env) w (execution_admission env d)"
proof -
  note parts = operation_still_admitted_def open_session_def paper_auto_execution_gate_evidence_def
  show "establishes (repo_ok (le_service env)) (execution_admission env d) (\<lambda>_. repo_ok (le_service env))"
    unfolding execution_admission_def parts Let_def
    by (auto intro!: establishes_then establishes_keep establishes_if establishes_option committed.keeps_checks
        committed.keeps_current_budget committed.keeps_decision_autonomy)
  show "grows (execution_admission env d)"
    unfolding execution_admission_def parts Let_def by (auto intro!: grows_rules)
  show "extends_at (le_service env) w (execution_admission env d)"
    unfolding execution_admission_def parts Let_def by (auto intro!: extends_rules)
qed

lemma admission_ok:
  "establishes (repo_ok (le_service env)) (admit_execution env d aid) (\<lambda>_. repo_ok (le_service env))"
  "grows (admit_execution env d aid)"
  "extends_at (le_service env) w (admit_execution env d aid)"
proof -
  show "establishes (repo_ok (le_service env)) (admit_execution env d aid) (\<lambda>_. repo_ok (le_service env))"
    unfolding admit_execution_def Let_def
    by (auto intro!: establishes_then establishes_keep establishes_if journal_write_ok record_submission_ok
        admission_parts split: prod.split)
  show "grows (admit_execution env d aid)"
    unfolding admit_execution_def Let_def
    by (auto simp: record_submission_def journal_write_def intro!: grows_rules admission_parts
        grows_one_row[OF _ one_row_journal(1)] split: prod.split)
  show "extends_at (le_service env) w (admit_execution env d aid)"
    unfolding admit_execution_def Let_def
    by (auto intro!: extends_rules admission_parts split: prod.split)
qed

lemma admit_ok: "preserves (repo_ok (le_service env)) (admit env d aid)"
  unfolding admit_def by (intro service.run_admission_denying_preserves admission_ok)

lemma abind_Inr: "abind m f w = (Inr b, w') \<longleftrightarrow> (\<exists>a v. m w = (Inr a, v) \<and> f a v = (Inr b, w'))"
  by (auto simp: abind_def split: prod.split sum.split)

definition submitted :: "repo \<Rightarrow> string \<Rightarrow> bool" where
  "submitted r d \<longleftrightarrow>
     (\<exists>p. (AUDIT_LOG, p) \<in> set (rp_events r) \<and> map_of p ''decision_id'' = Some (JStr d)
        \<and> map_of p ''action'' = Some (JStr (audit_action_value ACT_SUBMITTED)))"

lemma submitted_stays:
  assumes "extends_at env w m" and "m w = (a, w')" and "submitted (wd_repo w) d"
  shows "submitted (wd_repo w') d"
proof -
  have "take (length (trail_rows w)) (trail_rows w') = trail_rows w"
    using assms(1,2) trail_checked unfolding extends_at_def by (metis snd_conv)
  then have "set (trail_rows w) \<subseteq> set (trail_rows w')" by (metis set_take_subset)
  then show ?thesis using assms(3) unfolding submitted_def by blast
qed

lemma append_audit_submitted:
  assumes "append_audit env i ACT_SUBMITTED after actor aid reason evidence venue order_id w = (Inr u, w')"
  shows "submitted (wd_repo w') (ti_decision_id i)"
proof -
  from assms obtain v eid now before where
    "alog AUDIT_LOG (\<lambda>st. rbind (audit_append st
         \<lparr>ae_event_id = eid, ae_timestamp = Aware now, ae_decision_id = ti_decision_id i,
          ae_actor_type = actor, ae_actor_id = aid, ae_action = ACT_SUBMITTED, ae_before_state = before,
          ae_after_state = after, ae_reason = reason, ae_record_hash = en_rhash env i,
          ae_evidence = evidence, ae_venue = venue, ae_external_order_id = order_id\<rparr>) (\<lambda>st'. Inr ((), st'))) v
     = (Inr u, w')"
    by (auto simp: append_audit_def abind_Inr)
  then obtain e where e: "ae_decision_id e = ti_decision_id i" "ae_action e = ACT_SUBMITTED"
    and w': "alog AUDIT_LOG (\<lambda>st. rbind (audit_append st e) (\<lambda>st'. Inr ((), st'))) v = (Inr u, w')"
    by (metis audit_event.select_convs(3,6))
  then obtain st where "audit_append (stream_log AUDIT_LOG (wd_repo v)) e = Inr st"
    by (auto simp: alog_def split: sum.splits prod.splits)
  moreover from this have "st = log_append (stream_log AUDIT_LOG (wd_repo v)) (audit_event_to_dict e)"
    by (auto simp: audit_append_def)
  ultimately have "wd_repo w' = repo_append AUDIT_LOG (audit_event_to_dict e) (wd_repo v)"
    using w' by (auto simp: alog_def stream_log_def)
  then show ?thesis
    using e unfolding submitted_def by (intro exI[of _ "audit_event_to_dict e"]) (simp add: repo_append_def audit_event_to_dict_def)
qed

lemma record_submission_submitted:
  assumes "record_submission env d aid venue order_id reason actor evidence w = (Inr u, w')"
  shows "submitted (wd_repo w') d"
proof -
  from assms obtain i x y where i: "require_idea env (wd_repo w) d = Inr i"
    and a: "append_audit env i ACT_SUBMITTED SUBMITTED actor aid reason evidence x order_id w = (Inr y, w')"
    by (auto simp: record_submission_def abind_Inr read_Inr)
  show ?thesis using append_audit_submitted[OF a] require_idea_names[OF i] by simp
qed

lemma get_view_names: "get_view env r d = Inr v \<Longrightarrow> ti_decision_id (vw_idea v) = d"
  by (auto simp: get_view_def dest: require_idea_names)

lemma execution_admission_Inr:
  assumes "execution_admission env d w = (Inr (v, evidence), w')"
  shows "get_view (le_service env) (wd_repo w) d = Inr v \<and> vw_state v = APPROVED"
  using assms by (auto simp: execution_admission_def abind_Inr read_Inr guard_Inr Let_def areturn_def)

lemma admitted_intent_names:
  "entry_intent d i = Inr x \<Longrightarrow> oi_client_order_id x = d"
  "intent_for_idea env r i = Inr x \<Longrightarrow> oi_client_order_id x = ti_decision_id i"
  by (auto simp: entry_intent_def intent_for_idea_def dest!: new_order_intent_same split: option.split_asm if_splits)

text \<open>An admission finds the idea approved and leaves it submitted, with an intent of its name.\<close>

lemma admit_Inr:
  assumes "admit env d aid w = (Inr (v, intent), w')"
  shows "get_view (le_service env) (wd_repo w) d = Inr v \<and> vw_state v = APPROVED
    \<and> oi_client_order_id intent = d \<and> submitted (wd_repo w') d \<and> wd_orders w' = wd_orders w"
proof -
  have a: "admit_execution env d aid w = (Inr (v, intent), w')"
    using assms by (auto simp: admit_def run_admission_denying_def split: prod.split_asm sum.split_asm)
  have orders: "wd_orders w' = wd_orders w"
    using admission_ok(3)[of env w d aid] a by (simp add: extends_at_def)
  from a obtain evidence w1 x1 x2 w2 w3 u where
      adm: "execution_admission env d w = (Inr (v, evidence), w1)"
    and int: "(if ti_position_operation (vw_idea v) = None then entry_intent d (vw_idea v)
               else intent_for_idea (le_service env) (wd_repo w1) (vw_idea v)) = Inr intent"
    and sub: "record_submission (le_service env) d aid ''paper'' d ''Paper executor submitting market order''
               SYSTEM evidence w2 = (Inr u, w3)"
    and rest: "(if ti_position_operation (vw_idea v) \<noteq> None then areturn ()
        else journal_write (\<lambda>st. record_intent (en_phash (le_service env)) st d (en_rhash (le_service env) (vw_idea v))
                              (order_intent_to_dict intent))) w3 = (Inr x1, w')"
    by (auto simp: admit_execution_def abind_Inr read_Inr areturn_def Let_def)
  have view: "get_view (le_service env) (wd_repo w) d = Inr v \<and> vw_state v = APPROVED"
    by (rule execution_admission_Inr[OF adm])
  moreover have "oi_client_order_id intent = d"
    using int admitted_intent_names get_view_names view by (auto split: if_splits)
  moreover have "submitted (wd_repo w') d"
    by (rule submitted_stays[where env = "le_service env" and a = "Inr x1" and w = w3
             and m = "if ti_position_operation (vw_idea v) \<noteq> None then areturn () else _",
             OF _ rest record_submission_submitted[OF sub]])
       (auto intro!: extends_rules)
  ultimately show ?thesis using orders by blast
qed

section \<open>A submitted idea is approved no more\<close>

lemma audited_submitted:
  assumes "audited es" and "e \<in> set es" and "ae_action e = ACT_SUBMITTED"
  shows "last_state es (ae_decision_id e) \<in> {Some SUBMITTED, Some FILLED, Some CANCELLED}"
  using assms(1,2)
proof (induction rule: audited.induct)
  case (audited_snoc es x)
  show ?case
  proof (cases "ae_decision_id x = ae_decision_id e \<and> x \<noteq> e")
    case True
    then have "last_state es (ae_decision_id e) \<in> {Some SUBMITTED, Some FILLED, Some CANCELLED}"
      using audited_snoc by auto
    then show ?thesis using audited_snoc(2) True by (auto simp: legal_event_def)
  next
    case False
    then show ?thesis using audited_snoc assms(3) by (cases "x = e") (auto simp: legal_event_def)
  qed
qed simp

lemma submitted_after_approval:
  assumes "audited (xs @ e # ys)" and "ae_action e = ACT_SUBMITTED"
  shows "\<exists>a \<in> set xs. ae_decision_id a = ae_decision_id e \<and> ae_after_state a = APPROVED"
proof -
  have "legal_event xs e" by (rule audited_event[OF assms(1)])
  then have "last_state xs (ae_decision_id e) = Some APPROVED"
    using assms(2)
    by (cases "last_state xs (ae_decision_id e)"; cases "the (last_state xs (ae_decision_id e))")
       (auto simp: legal_event_def)
  then show ?thesis using audited_approval[OF audited_prefix[OF assms(1)]] by simp
qed

text \<open>The rows of a table that verifies are the events, one by one.\<close>

lemma verify_rows:
  assumes "verify (LogTable rows) = Inr es"
  shows "list_all2 (\<lambda>p e. audit_event_from_dict (JObj p) = Inr e) rows es"
  using assms
proof (induction rows arbitrary: es rule: rev_induct)
  case Nil
  then show ?case by (simp add: verify_def)
next
  case (snoc p rows)
  from snoc.prems obtain s where
      s: "read_log verify_step (AuditIntegrityError ''line is malformed'') ([], Map.empty) (map (JsonLine \<circ> JObj) rows) = Inr s"
    and p: "verify_step s (JObj p) = Inr (es, last_state es)"
    by (auto simp: verify_Inr_iff read_log_append)
  have "snd s = last_state (fst s)" using verify_lines[OF s] by blast
  then obtain e where e: "audit_event_from_dict (JObj p) = Inr e" "es = fst s @ [e]"
    using p by (cases s) (auto simp: verify_step_Inr_iff)
  have "verify (LogTable rows) = Inr (fst s)" using s by (simp add: verify_def)
  then show ?case using snoc.IH e by (simp add: list_all2_appendI)
qed

lemma from_dict_action:
  assumes "audit_event_from_dict (JObj p) = Inr e"
  shows "map_of p ''action'' = Some (JStr (audit_action_value (ae_action e)))"
proof -
  from assms obtain v where v: "jget p ''action'' = Inr v" "jenum audit_action_of v = Inr (ae_action e)"
    unfolding audit_event_from_dict_def json.case rbind_Inr_iff sum.inject
    by (elim exE conjE) (erule that, hypsubst, simp)
  then have "v = JStr (audit_action_value (ae_action e))"
    by (cases v) (auto simp: audit_action_of_def enum_of_def split: if_splits)
  then show ?thesis using v(1) by (auto simp: jget_def split: option.splits)
qed

lemma submitted_event:
  assumes "submitted r d" and "verify (stream_log AUDIT_LOG r) = Inr es"
  shows "\<exists>e \<in> set es. ae_decision_id e = d \<and> ae_action e = ACT_SUBMITTED"
proof -
  from assms(1) obtain p where p: "p \<in> set (repo_lines AUDIT_LOG r)" "map_of p ''decision_id'' = Some (JStr d)"
      "map_of p ''action'' = Some (JStr (audit_action_value ACT_SUBMITTED))"
    by (force simp: submitted_def repo_lines_def)
  have rows: "list_all2 (\<lambda>p e. audit_event_from_dict (JObj p) = Inr e) (repo_lines AUDIT_LOG r) es"
    using verify_rows assms(2) by (simp add: stream_log_def)
  obtain n where n: "n < length (repo_lines AUDIT_LOG r)" "repo_lines AUDIT_LOG r ! n = p"
    using p(1) by (auto simp: in_set_conv_nth)
  then obtain e where e: "e \<in> set es" "audit_event_from_dict (JObj p) = Inr e"
    using list_all2_nthD[OF rows] list_all2_lengthD[OF rows] nth_mem by metis
  have "ae_decision_id e = d" using from_dict_decision[OF e(2)] p(2) by simp
  moreover have "ae_action e = ACT_SUBMITTED"
    using from_dict_action[OF e(2)] p(3) by (cases "ae_action e") simp_all
  ultimately show ?thesis using e(1) by blast
qed

lemma submitted_not_approved:
  assumes "repo_ok env r" and "submitted r d" and "get_view env r d = Inr v"
  shows "vw_state v \<noteq> APPROVED"
proof -
  from assms(1) obtain es where v: "verify (stream_log AUDIT_LOG r) = Inr es" by (auto simp: repo_ok_def trail_ok_def)
  obtain e where e: "e \<in> set es" "ae_decision_id e = d" "ae_action e = ACT_SUBMITTED"
    using submitted_event[OF assms(2) v] by blast
  have "last_state es d \<in> {Some SUBMITTED, Some FILLED, Some CANCELLED}"
    using audited_submitted[OF verify_audited[OF v] e(1,3)] e(2) by simp
  moreover have "last_state es d = Some (vw_state v)"
    using assms(3) events_of_decision[OF v, of d] by (auto simp: get_view_def last_state_def Let_def)
  ultimately show ?thesis by auto
qed

section \<open>No idea is ordered twice\<close>

definition lane_ok :: "service_env \<Rightarrow> (string \<times> order_intent) list \<Rightarrow> world \<Rightarrow> bool" where
  "lane_ok env fs w \<longleftrightarrow>
     repo_ok env (wd_repo w)
     \<and> distinct (map oi_client_order_id (map snd fs @ wd_orders w))
     \<and> (\<forall>intent \<in> set (map snd fs @ wd_orders w). submitted (wd_repo w) (oi_client_order_id intent))"

lemma lane_ok_quiet:
  assumes "lane_ok env fs w" and "extends_at env w m" and "preserves (repo_ok env) m"
  shows "lane_ok env fs (snd (m w))"
  using assms submitted_stays[OF assms(2), of "fst (m w)" "snd (m w)"]
  by (simp add: lane_ok_def extends_at_def preserves_def)

lemma admit_extends: "extends_at (le_service env) w (admit env d aid)"
  unfolding admit_def by (intro extends_rules admission_ok)

lemma executing_ok: "executing senv fs w \<Longrightarrow> lane_ok senv fs w"
proof (induction rule: executing.induct)
  case (begun w)
  then show ?case by (simp add: lane_ok_def empty_repo_ok)
next
  case (served fs w q)
  then show ?case by (intro lane_ok_quiet extends_serve serve_ok)
next
  case (admitting fs w env d actor_id v intent w')
  have senv: "senv = le_service env" using admitting.hyps by simp
  note a = admit_Inr[OF admitting.hyps(3)]
  have ok: "lane_ok senv fs w'"
    using lane_ok_quiet[OF admitting.IH, of "admit env d actor_id"] admit_extends admit_ok admitting.hyps(3)
    unfolding senv by (metis snd_conv)
  have "\<not> submitted (wd_repo w) d"
    using submitted_not_approved[of senv "wd_repo w" d v] a admitting.IH senv by (auto simp: lane_ok_def)
  then have "d \<notin> set (map oi_client_order_id (map snd fs @ wd_orders w))"
    using admitting.IH by (auto simp: lane_ok_def)
  then show ?case using ok a by (auto simp: lane_ok_def)
next
  case (refused fs w env d actor_id e w')
  then show ?case
    using lane_ok_quiet[of senv fs w "admit env d actor_id"] admit_extends admit_ok by (metis snd_conv)
next
  case (ordering xs d intent ys w env)
  then show ?case by (auto simp: lane_ok_def aorder_def)
next
  case (stopped xs f ys w)
  then show ?case by (auto simp: lane_ok_def)
next
  case (settling fs w env d actor_id v intent o')
  then show ?case using lane_ok_quiet extends_settle settle_ok by metis
next
  case (recovering fs w actor_id)
  then show ?case by (intro lane_ok_quiet extends_receipts recover_receipts_ok)
qed


text \<open>An idea is proposed and approved by a human under a stated account equity, and executed.\<close>

definition ex_lane :: lane_env where
  "ex_lane =
     priced (\<lambda>t. t) (\<lambda>n. hours 3) [(''BTC-USD'', 100)]
       \<lparr>le_service = ex_env, le_now = en_now ex_env, le_auto_execution = False, le_calendar = en_calendar ex_env,
        le_broker = DeterministicBroker, le_answer = (\<lambda>_ _. Inl OSError), le_gate_text = (\<lambda>_ _. [])\<rparr>"

definition ex_approved_calls :: "request list" where
  "ex_approved_calls =
     [ReqUpdateBudget (DEFAULT_RISK_BUDGET\<lparr>rk_account_equity := Some 1000, rk_version := 2\<rparr>) HUMAN ''desk'',
      ReqPropose ex_entry_idea ''desk'' HUMAN ''momentum'' [], ReqApprove ''trade-1'' ''desk'' ''ok'']"

definition ex_approved_world :: world where
  "ex_approved_world =
     \<lparr>wd_repo = ex_filled_repo\<lparr>rp_events :=
        [(AUTONOMY_LOG, autonomy_state_entry_to_dict
            \<lparr>as_version = 1, as_timestamp = Aware (hours 1), as_mode = DEFAULT_AUTONOMY_MODE, as_actor_type = SYSTEM,
             as_actor_id = ''seed-defaults'', as_reason = ''Seeded default accepted in docs/decisions/persistent-autonomy-state.md: human approval required for every execution'', as_evidence = []\<rparr>),
         (BUDGET_LOG, budget_log_entry_to_dict
            \<lparr>be_timestamp = Aware (hours 2), be_actor_type = SYSTEM, be_actor_id = ''seed-defaults'',
             be_budget = DEFAULT_RISK_BUDGET\<rparr>),
         (BUDGET_LOG, budget_log_entry_to_dict
            \<lparr>be_timestamp = Aware (hours 3), be_actor_type = HUMAN, be_actor_id = ''desk'',
             be_budget = DEFAULT_RISK_BUDGET\<lparr>rk_account_equity := Some 1000, rk_version := 2\<rparr>\<rparr>),
         (AUDIT_LOG, audit_event_to_dict (Idea_Positions.ex_event ''event-'' ACT_PROPOSED None PROPOSED []
            \<lparr>ae_timestamp := Aware (hours 4), ae_reason := ''momentum'', ae_venue := [], ae_external_order_id := []\<rparr>)),
         (AUDIT_LOG, audit_event_to_dict (Idea_Positions.ex_event ''event-x'' ACT_APPROVED (Some PROPOSED) APPROVED []
            \<lparr>ae_timestamp := Aware (hours 7), ae_reason := ''ok'', ae_venue := [], ae_external_order_id := []\<rparr>))]\<rparr>,
      wd_clock = 8, wd_ids = 2, wd_orders = []\<rparr>"

lemma ex_approved_reached: "serve_all ex_env ex_approved_calls ex_start = ex_approved_world"
  by code_simp

lemma executing_serve_all:
  "executing senv fs w \<Longrightarrow> \<forall>q \<in> set qs. well_typed q \<Longrightarrow> executing senv fs (serve_all senv qs w)"
  by (induction qs arbitrary: w) (auto intro: served)

lemma ex_approved_executing: "executing ex_env [] ex_approved_world"
  unfolding ex_approved_reached[symmetric]
  by (rule executing_serve_all[OF begun])
    (use ex_calls_typed in \<open>auto simp: ex_start_def ex_approved_calls_def well_typed_def\<close>)

definition ex_admission :: "(trade_idea_view \<times> string list) result \<times> world" where
  "ex_admission = execution_admission ex_lane ''trade-1'' ex_approved_world"

definition ex_submission :: "trade_idea_view result \<times> world" where
  "ex_submission = record_submission ex_env ''trade-1'' ''lane'' ''paper'' ''trade-1''
     ''Paper executor submitting market order'' SYSTEM [] (ex_approved_world\<lparr>wd_clock := 10\<rparr>)"

definition ex_order :: order_intent where
  "ex_order = projr (entry_intent ''trade-1'' ex_entry_idea)"

lemma ex_admission_parts:
  "map_sum id (\<lambda>(v, evidence). (vw_idea v = ex_entry_idea, evidence)) (fst ex_admission) = Inr (True, [])"
  "snd ex_admission = ex_approved_world\<lparr>wd_clock := 10\<rparr>"
  by code_simp+

lemma ex_submission_parts: "(is_ok (fst ex_submission), repo_lines EXECUTION_LOG (wd_repo (snd ex_submission))) = (True, [])"
  by code_simp

lemma ex_order_parts:
  "entry_intent ''trade-1'' ex_entry_idea = Inr ex_order"
  "is_ok (record_intent (en_phash ex_env) (LogTable []) ''trade-1'' (en_rhash ex_env ex_entry_idea)
            (order_intent_to_dict ex_order))"
  by code_simp+

lemma ex_lane_admits:
  "\<exists>v w'. admit ex_lane ''trade-1'' ''lane'' ex_approved_world = (Inr (v, ex_order), w')"
proof -
  obtain v w1 where a: "execution_admission ex_lane ''trade-1'' ex_approved_world = (Inr (v, []), w1)"
    and v: "vw_idea v = ex_entry_idea" and w1: "snd ex_admission = w1"
    using ex_admission_parts(1) by (cases ex_admission; cases "fst ex_admission") (auto simp: ex_admission_def)
  obtain u w2 where s: "record_submission ex_env ''trade-1'' ''lane'' ''paper'' ''trade-1''
      ''Paper executor submitting market order'' SYSTEM [] w1 = (Inr u, w2)" and w2: "snd ex_submission = w2"
    using ex_submission_parts ex_admission_parts(2) w1 by (cases ex_submission) (auto simp: ex_submission_def is_ok_iff)
  obtain x w3 where j: "journal_write (\<lambda>st. record_intent (en_phash ex_env) st ''trade-1'' (en_rhash ex_env ex_entry_idea)
                               (order_intent_to_dict ex_order)) w2 = (Inr x, w3)"
    using ex_order_parts(2) ex_submission_parts w2
    by (auto simp: journal_write_def alog_def stream_log_def is_ok_iff)
  have idea: "ti_position_operation ex_entry_idea = None" "order_side_for (ti_direction ex_entry_idea) = Inr BUY"
    by code_simp+
  have "le_service ex_lane = ex_env" by (simp add: ex_lane_def priced_def)
  then have "admit_execution ex_lane ''trade-1'' ''lane'' ex_approved_world = (Inr (v, ex_order), w3)"
    using a s j idea ex_order_parts(1) v
    by (simp add: admit_execution_def abind_Inr read_Inr areturn_def Let_def)
  then show ?thesis by (simp add: admit_def run_admission_denying_def)
qed


end
