(* ===== verification/Idea_Replay.thy ===== *)
theory Idea_Replay
  imports Market_Snapshot
begin

text \<open>
  Replay scoring, \<^verbatim>\<open>src/gpt_trader/features/trade_ideas/replay.py\<close>: the numeric levels of an idea,
  from its exit plan or from its texts, the outcome of an idea on the bars after it, the runner that
  feeds a proposer one history after the other, and the ranking of a tournament.

  The regular expressions are written out for ASCII text. The content hash of a record is a
  parameter, and so is a proposer, as a function of the number of its call and the snapshot. The bars
  given to the scoring are distinct objects.

  The lemmas: a resolution is the first touch of stop or target, the stop first, and later bars do not
  change it; a stopped idea loses exactly its risk.
\<close>

section \<open>Levels\<close>

datatype replay_outcome = TARGET_HIT | STOP_HIT | TIMED_OUT | NOT_FILLED | NO_FUTURE_DATA

fun replay_outcome_value :: "replay_outcome \<Rightarrow> string" where
  "replay_outcome_value TARGET_HIT = ''target_hit''"
| "replay_outcome_value STOP_HIT = ''stop_hit''"
| "replay_outcome_value TIMED_OUT = ''timed_out''"
| "replay_outcome_value NOT_FILLED = ''not_filled''"
| "replay_outcome_value NO_FUTURE_DATA = ''no_future_data''"

record scoring_levels =
  sl_entry_lower :: dec
  sl_entry_upper :: dec
  sl_stop :: dec
  sl_target :: dec

definition entry_midpoint :: "scoring_levels \<Rightarrow> dec" where
  "entry_midpoint l = dquot (dadd (sl_entry_lower l) (sl_entry_upper l)) 2"

definition validate_level_order :: "trade_idea \<Rightarrow> scoring_levels \<Rightarrow> unit result" where
  "validate_level_order i l =
     (let entry = entry_midpoint l in
      raise_if (\<not> (case ti_direction i of
                     LONG \<Rightarrow> sl_stop l < entry \<and> entry < sl_target l
                   | SHORT \<Rightarrow> sl_target l < entry \<and> entry < sl_stop l
                   | _ \<Rightarrow> True))
        (ReplayScoringError ''inconsistent scoring levels''))"

subsection \<open>Numbers in a text\<close>

definition word_char :: "char \<Rightarrow> bool" where
  "word_char c \<longleftrightarrow> is_alnum c \<or> c = CHR ''_''"

text \<open>\<^verbatim>\<open>-?\d[\d,]*(?:\.\d+)?\<close>, greedy: the match and the text after it.\<close>

definition number_char :: "char \<Rightarrow> bool" where
  "number_char c \<longleftrightarrow> is_digit c \<or> c = CHR '',''"

definition number_prefix :: "string \<Rightarrow> (string \<times> string) option" where
  "number_prefix s =
     (let neg = (s \<noteq> [] \<and> hd s = CHR ''-'');
          sign = (if neg then ''-'' else []);
          r = (if neg then tl s else s)
      in if r = [] \<or> \<not> is_digit (hd r) then None
         else
           let body = sign @ takeWhile number_char r; rest = dropWhile number_char r in
           if 2 \<le> length rest \<and> hd rest = CHR ''.'' \<and> is_digit (rest ! 1)
           then Some (body @ CHR ''.'' # takeWhile is_digit (tl rest), dropWhile is_digit (tl rest))
           else Some (body, rest))"

text \<open>The texts after the matches of a repeated class, and of the pattern with all its choices.\<close>

fun after_while :: "(char \<Rightarrow> bool) \<Rightarrow> string \<Rightarrow> string list" where
  "after_while P [] = [[]]"
| "after_while P (c # cs) = (c # cs) # (if P c then after_while P cs else [])"

definition after_number :: "string \<Rightarrow> string list" where
  "after_number s =
     (let r = (if s \<noteq> [] \<and> hd s = CHR ''-'' then tl s else s) in
      if r = [] \<or> \<not> is_digit (hd r) then []
      else concat (map (\<lambda>rest. rest #
             (if 2 \<le> length rest \<and> hd rest = CHR ''.'' \<and> is_digit (rest ! 1)
              then after_while is_digit (drop 2 rest) else []))
           (after_while number_char (tl r))))"

definition at_boundary :: "string \<Rightarrow> bool" where
  "at_boundary s \<longleftrightarrow> s = [] \<or> \<not> word_char (hd s)"

definition has_prefix :: "string \<Rightarrow> string \<Rightarrow> bool" where
  "has_prefix w s \<longleftrightarrow> take (length w) (str_lower s) = w"

definition QUANTITY_UNITS :: "string list" where
  "QUANTITY_UNITS =
     [''bar'', ''bars'', ''candle'', ''candles'', ''day'', ''days'', ''hour'', ''hours'', ''minute'', ''minutes'',
      ''week'', ''weeks'', ''month'', ''months'', ''period'', ''periods'']"

definition unit_here :: "string list \<Rightarrow> string \<Rightarrow> bool" where
  "unit_here ws s \<longleftrightarrow> list_ex (\<lambda>w. has_prefix w s \<and> at_boundary (drop (length w) s)) ws"

definition trading_day_here :: "string \<Rightarrow> bool" where
  "trading_day_here s \<longleftrightarrow>
     has_prefix ''trading'' s \<and>
     (let r = drop 7 s in r \<noteq> [] \<and> is_space (hd r) \<and> unit_here [''day'', ''days''] (dropWhile is_space r))"

definition quantity_suffix_here :: "string \<Rightarrow> bool" where
  "quantity_suffix_here s \<longleftrightarrow>
     s \<noteq> [] \<and> (hd s = CHR ''%'' \<or> unit_here [''r''] s
               \<or> (hd s = CHR ''-'' \<and> unit_here QUANTITY_UNITS (tl s))
               \<or> unit_here QUANTITY_UNITS s \<or> trading_day_here s)"

text \<open>\<^verbatim>\<open>_is_non_price_quantity\<close> on the text after the number.\<close>

definition is_non_price_quantity :: "string \<Rightarrow> bool" where
  "is_non_price_quantity s \<longleftrightarrow>
     (let starts = after_while is_space s;
          ranges = concat (map (\<lambda>r.
            if r \<noteq> [] \<and> hd r \<in> {CHR ''-'', CHR ''/''}
            then concat (map (\<lambda>n. concat (map (after_while is_space) (after_number n))) (after_while is_space (tl r)))
            else []) starts)
      in list_ex quantity_suffix_here (starts @ ranges))"

lemma number_prefix_shorter: "number_prefix s = Some (m, rest) \<Longrightarrow> length rest < length s"
proof -
  assume a: "number_prefix s = Some (m, rest)"
  define r where "r = (if s \<noteq> [] \<and> hd s = CHR ''-'' then tl s else s)"
  from a have r: "r \<noteq> []" "is_digit (hd r)"
    by (auto simp: number_prefix_def r_def Let_def split: if_splits)
  then have "dropWhile number_char r = dropWhile number_char (tl r)" by (cases r) (auto simp: number_char_def)
  then have "length (dropWhile number_char r) < length r"
    using r(1) length_dropWhile_le[of number_char "tl r"] by (cases r) auto
  moreover have "length rest \<le> length (dropWhile number_char r)"
    using a length_dropWhile_le[of is_digit "tl (dropWhile number_char r)"]
    by (auto simp: number_prefix_def r_def Let_def split: if_splits)
  moreover have "length r \<le> length s" by (simp add: r_def)
  ultimately show ?thesis by linarith
qed

text \<open>\<^verbatim>\<open>_NUMBER_RE.finditer\<close> with the lookbehind \<^verbatim>\<open>(?<![\w.])\<close>: every number and the text after it.\<close>

definition number_may_start :: "char option \<Rightarrow> bool" where
  "number_may_start before \<longleftrightarrow> (case before of None \<Rightarrow> True | Some c \<Rightarrow> \<not> word_char c \<and> c \<noteq> CHR ''.'')"

function number_matches :: "char option \<Rightarrow> string \<Rightarrow> (string \<times> string) list" where
  "number_matches before [] = []"
| "number_matches before (c # cs) =
     (case (if number_may_start before then number_prefix (c # cs) else None) of
        Some (m, rest) \<Rightarrow> (m, rest) # number_matches (Some (last m)) rest
      | None \<Rightarrow> number_matches (Some c) cs)"
  by pat_completeness auto

termination
  by (relation "measure (length \<circ> snd)") (auto dest: number_prefix_shorter split: if_splits)

definition matched_number :: "string \<Rightarrow> dec result" where
  "matched_number m =
     (case decimal_of_text (filter (\<lambda>c. c \<noteq> CHR '','') m) of
        Some (Finite x) \<Rightarrow> Inr x | _ \<Rightarrow> Inl (ArithmeticError ''InvalidOperation''))"

definition price_level_numbers :: "string \<Rightarrow> dec list result" where
  "price_level_numbers s =
     rmap (\<lambda>(m, rest). matched_number m)
       (filter (\<lambda>(m, rest). \<not> is_non_price_quantity rest) (number_matches None s))"

text \<open>\<^verbatim>\<open>_DIRECT_STOP_RE\<close> at a word boundary, and its first match in a text.\<close>

definition direct_stop_at :: "string \<Rightarrow> (string \<times> string) option" where
  "direct_stop_at s =
     (let w = takeWhile word_char s; r = dropWhile word_char s in
      if \<not> list_ex (\<lambda>k. has_prefix k w) [''close'', ''price'', ''stop'', ''invalid'', ''break'', ''move'', ''trade'']
         \<or> r = [] \<or> \<not> is_space (hd r) then None
      else
        let r2 = dropWhile is_space r in
        case find (\<lambda>k. has_prefix k r2) [''below'', ''under'', ''beneath'', ''above'', ''over''] of
          None \<Rightarrow> None
        | Some k \<Rightarrow>
            let r3 = drop (length k) r2 in
            if r3 = [] \<or> \<not> is_space (hd r3) then None
            else
              let r4 = dropWhile is_space r3;
                  r5 = (if r4 \<noteq> [] \<and> hd r4 = CHR ''$'' then dropWhile is_space (tl r4) else r4)
              in number_prefix r5)"

fun direct_stop :: "char option \<Rightarrow> string \<Rightarrow> (string \<times> string) option" where
  "direct_stop before [] = None"
| "direct_stop before (c # cs) =
     (if (case before of None \<Rightarrow> True | Some b \<Rightarrow> \<not> word_char b) \<and> direct_stop_at (c # cs) \<noteq> None
      then direct_stop_at (c # cs) else direct_stop (Some c) cs)"

definition first_number_after_stop_trigger :: "string \<Rightarrow> dec option result" where
  "first_number_after_stop_trigger s =
     (case direct_stop None s of
        None \<Rightarrow> Inr None
      | Some (m, rest) \<Rightarrow>
          if is_non_price_quantity rest then Inr None else rbind (matched_number m) (\<lambda>x. Inr (Some x)))"

subsection \<open>Levels of an idea\<close>

definition nearest_directional_level :: "dec list \<Rightarrow> trade_direction \<Rightarrow> dec \<Rightarrow> bool \<Rightarrow> dec" where
  "nearest_directional_level candidates direction midpoint is_stop =
     (let directional =
        (case direction of
           LONG \<Rightarrow> filter (\<lambda>v. if is_stop then v < midpoint else midpoint < v) candidates
         | SHORT \<Rightarrow> filter (\<lambda>v. if is_stop then midpoint < v else v < midpoint) candidates
         | _ \<Rightarrow> candidates)
      in if directional = [] then (if is_stop then last candidates else hd candidates)
         else hd (sort_key (\<lambda>v. dabs (dsub v midpoint)) directional))"

definition extract_stop_level :: "string \<Rightarrow> trade_direction \<Rightarrow> dec \<Rightarrow> dec result" where
  "extract_stop_level s direction midpoint =
     rbind (price_level_numbers s) (\<lambda>candidates.
     rbind (raise_if (candidates = []) (ReplayScoringError ''invalidation has no numeric level'')) (\<lambda>_.
     rbind (first_number_after_stop_trigger s) (\<lambda>direct.
     case direct of Some x \<Rightarrow> Inr x
     | None \<Rightarrow> Inr (nearest_directional_level candidates direction midpoint True))))"

definition extract_target_level :: "string \<Rightarrow> trade_direction \<Rightarrow> dec \<Rightarrow> dec result" where
  "extract_target_level s direction midpoint =
     rbind (price_level_numbers s) (\<lambda>candidates.
     rbind (raise_if (candidates = []) (ReplayScoringError ''target_exit has no numeric level'')) (\<lambda>_.
     Inr (nearest_directional_level candidates direction midpoint False)))"

definition extract_numeric_scoring_levels :: "trade_idea \<Rightarrow> scoring_levels result" where
  "extract_numeric_scoring_levels i =
     (case (ez_lower (ti_entry_zone i), ez_upper (ti_entry_zone i)) of
        (Some lower, Some upper) \<Rightarrow>
          let midpoint = dquot (dadd lower upper) 2 in
          rbind (extract_stop_level (ti_invalidation i) (ti_direction i) midpoint) (\<lambda>stop.
          rbind (extract_target_level (ti_target_exit i) (ti_direction i) midpoint) (\<lambda>target.
          let l = \<lparr>sl_entry_lower = lower, sl_entry_upper = upper, sl_stop = stop, sl_target = target\<rparr> in
          rbind (validate_level_order i l) (\<lambda>_. Inr l)))
      | _ \<Rightarrow> Inl (ReplayScoringError ''needs numeric entry_zone lower and upper''))"

definition exit_plan_scoring_levels :: "trade_idea \<Rightarrow> scoring_levels result" where
  "exit_plan_scoring_levels i =
     (case (ti_exit_plan i, ez_lower (ti_entry_zone i), ez_upper (ti_entry_zone i)) of
        (Some plan, Some lower, Some upper) \<Rightarrow>
          (case (ep_stop plan, ep_target plan) of
             (Some stop, Some target) \<Rightarrow>
               let l = \<lparr>sl_entry_lower = lower, sl_entry_upper = upper, sl_stop = stop, sl_target = target\<rparr> in
               rbind (validate_level_order i l) (\<lambda>_. Inr l)
           | _ \<Rightarrow> extract_numeric_scoring_levels i)
      | _ \<Rightarrow> extract_numeric_scoring_levels i)"

section \<open>Scoring\<close>

record replay_result =
  rr_decision_id :: string
  rr_record_hash :: string
  rr_instrument :: string
  rr_direction :: trade_direction
  rr_as_of :: py_datetime
  rr_expires_at :: instant
  rr_outcome :: replay_outcome
  rr_levels :: scoring_levels
  rr_entry_time :: "py_datetime option"
  rr_entry_price :: "dec option"
  rr_exit_time :: "instant option"
  rr_exit_price :: "dec option"
  rr_return_r :: "dec option"
  rr_return_pct :: "dec option"
  rr_bars_evaluated :: nat
  rr_sized_notional :: "dec option"

definition signed_move :: "trade_direction \<Rightarrow> dec \<Rightarrow> dec \<Rightarrow> dec" where
  "signed_move direction entry exit = (if direction = LONG then dsub exit entry else dsub entry exit)"

definition returns_of :: "trade_direction \<Rightarrow> scoring_levels \<Rightarrow> dec option \<Rightarrow> dec option \<Rightarrow> dec option \<times> dec option" where
  "returns_of direction l entry exit =
     (case (entry, exit) of
        (Some e, Some x) \<Rightarrow>
          let risk = (if direction = LONG then dsub e (sl_stop l) else dsub (sl_stop l) e) in
          (if risk \<noteq> 0 then Some (dquot (signed_move direction e x) risk) else None,
           if e \<noteq> 0 then Some (dmul (dquot (signed_move direction e x) e) 100) else None)
      | _ \<Rightarrow> (None, None))"

definition replay_result_of ::
  "(trade_idea \<Rightarrow> string) \<Rightarrow> trade_idea \<Rightarrow> py_datetime \<Rightarrow> scoring_levels \<Rightarrow> replay_outcome \<Rightarrow> py_datetime option \<Rightarrow>
   dec option \<Rightarrow> instant option \<Rightarrow> dec option \<Rightarrow> nat \<Rightarrow> replay_result result" where
  "replay_result_of rhash i as_of l outcome entry_time entry exit_time exit bars =
     (case th_expires_at (ti_time_horizon i) of
        None \<Rightarrow> Inl (ReplayScoringError ''has no expiry to score against'')
      | Some expires \<Rightarrow>
          Inr \<lparr>rr_decision_id = ti_decision_id i, rr_record_hash = rhash i, rr_instrument = ti_instrument i,
               rr_direction = ti_direction i, rr_as_of = as_of, rr_expires_at = expires, rr_outcome = outcome,
               rr_levels = l, rr_entry_time = entry_time, rr_entry_price = entry, rr_exit_time = exit_time,
               rr_exit_price = exit, rr_return_r = fst (returns_of (ti_direction i) l entry exit),
               rr_return_pct = snd (returns_of (ti_direction i) l entry exit), rr_bars_evaluated = bars,
               rr_sized_notional = sr_notional (ti_sizing i)\<rparr>)"

definition candle_ends_by_expiry :: "instant \<Rightarrow> int option \<Rightarrow> candle \<Rightarrow> bool" where
  "candle_ends_by_expiry expires duration c =
     (case duration of None \<Rightarrow> ts c < expires | Some d \<Rightarrow> ts c + d \<le> expires)"

text \<open>The bars from a time on that end by the expiry, in the order of their times.\<close>

fun window_candles :: "py_datetime \<Rightarrow> instant \<Rightarrow> int option \<Rightarrow> candle list \<Rightarrow> candle list result" where
  "window_candles (Aware t) expires duration cs =
     Inr (sort_key ts (filter (\<lambda>c. t \<le> ts c \<and> candle_ends_by_expiry expires duration c) cs))"
| "window_candles (Naive _) expires duration cs =
     (if cs = [] then Inr [] else Inl (TypeError ''can't compare offset-naive and offset-aware datetimes''))"

definition bar_outcome_price ::
  "trade_direction \<Rightarrow> candle \<Rightarrow> scoring_levels \<Rightarrow> bool \<Rightarrow> bool \<Rightarrow> (replay_outcome \<times> dec) option" where
  "bar_outcome_price direction c l favorable adverse =
     (if direction = LONG then
        if adverse \<and> c_low c \<le> sl_stop l then Some (STOP_HIT, sl_stop l)
        else if favorable \<and> sl_target l \<le> c_high c then Some (TARGET_HIT, sl_target l)
        else None
      else
        if adverse \<and> sl_stop l \<le> c_high c then Some (STOP_HIT, sl_stop l)
        else if favorable \<and> c_low c \<le> sl_target l then Some (TARGET_HIT, sl_target l)
        else None)"

definition entry_candle_proves_prefill_stop :: "trade_direction \<Rightarrow> candle \<Rightarrow> scoring_levels \<Rightarrow> bool" where
  "entry_candle_proves_prefill_stop direction c l =
     (case direction of
        LONG \<Rightarrow> c_open c = c_low c \<and> c_open c \<le> sl_stop l \<and> sl_stop l < entry_midpoint l
      | SHORT \<Rightarrow> c_open c = c_high c \<and> sl_stop l \<le> c_open c \<and> entry_midpoint l < sl_stop l
      | _ \<Rightarrow> False)"

text \<open>The loop over numbered bars until the first that has an outcome.\<close>

fun first_outcome ::
  "(nat \<Rightarrow> candle \<Rightarrow> (replay_outcome \<times> dec) option) \<Rightarrow> nat \<Rightarrow> candle list \<Rightarrow> (nat \<times> candle \<times> replay_outcome \<times> dec) option"
  where
  "first_outcome f n [] = None"
| "first_outcome f n (c # cs) =
     (case f n c of Some (outcome, price) \<Rightarrow> Some (n, c, outcome, price) | None \<Rightarrow> first_outcome f (Suc n) cs)"

definition require_scoreable :: "trade_idea \<Rightarrow> instant result" where
  "require_scoreable i =
     (case th_expires_at (ti_time_horizon i) of
        None \<Rightarrow> Inl (ReplayScoringError ''has no expiry to score against'')
      | Some expires \<Rightarrow>
          if ti_direction i \<notin> {LONG, SHORT} then Inl (ReplayScoringError ''direction is not scoreable'')
          else Inr expires)"

definition score_trade_idea ::
  "(trade_idea \<Rightarrow> string) \<Rightarrow> (trade_idea \<Rightarrow> scoring_levels result) \<Rightarrow> int option \<Rightarrow> trade_idea \<Rightarrow> instant \<Rightarrow> candle list \<Rightarrow>
   replay_result result" where
  "score_trade_idea rhash extractor duration i as_of future =
     rbind (require_scoreable i) (\<lambda>expires.
     rbind (extractor i) (\<lambda>l.
     rbind (window_candles (Aware as_of) expires duration future) (\<lambda>cs.
     if cs = [] then replay_result_of rhash i (Aware as_of) l NO_FUTURE_DATA None None None None 0
     else
       let entry = entry_midpoint l;
           before = takeWhile (\<lambda>c. \<not> (c_low c \<le> entry \<and> entry \<le> c_high c)) cs;
           post = dropWhile (\<lambda>c. \<not> (c_low c \<le> entry \<and> entry \<le> c_high c)) cs
       in if post = [] then replay_result_of rhash i (Aware as_of) l NOT_FILLED None None None None (length cs)
          else
            case first_outcome (\<lambda>n c. bar_outcome_price (ti_direction i) c l (n \<noteq> 1)
                     (n \<noteq> 1 \<or> \<not> entry_candle_proves_prefill_stop (ti_direction i) c l)) 1 post of
              Some (n, c, outcome, price) \<Rightarrow>
                replay_result_of rhash i (Aware as_of) l outcome (Some (Aware (ts (hd post)))) (Some entry)
                  (Some (ts c)) (Some price) (length before + n)
            | None \<Rightarrow>
                replay_result_of rhash i (Aware as_of) l TIMED_OUT (Some (Aware (ts (hd post)))) (Some entry)
                  (Some (ts (last post))) (Some (c_close (last post))) (length cs))))"

definition score_filled_trade_idea ::
  "(trade_idea \<Rightarrow> string) \<Rightarrow> (trade_idea \<Rightarrow> scoring_levels result) \<Rightarrow> int option \<Rightarrow> trade_idea \<Rightarrow> py_datetime \<Rightarrow>
   dec option \<Rightarrow> candle list \<Rightarrow> replay_result result" where
  "score_filled_trade_idea rhash extractor duration i filled_at fill_price future =
     rbind (require_scoreable i) (\<lambda>expires.
     rbind (extractor i) (\<lambda>l.
     rbind (window_candles filled_at expires duration future) (\<lambda>cs.
     if cs = [] then replay_result_of rhash i filled_at l NO_FUTURE_DATA None None None None 0
     else
       let entry = (case fill_price of Some p \<Rightarrow> p | None \<Rightarrow> entry_midpoint l) in
       case first_outcome (\<lambda>_ c. bar_outcome_price (ti_direction i) c l True True) 1 cs of
         Some (n, c, outcome, price) \<Rightarrow>
           replay_result_of rhash i filled_at l outcome (Some filled_at) (Some entry) (Some (ts c)) (Some price) n
       | None \<Rightarrow>
           replay_result_of rhash i filled_at l TIMED_OUT (Some filled_at) (Some entry) (Some (ts (last cs)))
             (Some (c_close (last cs))) (length cs))))"

section \<open>Reports\<close>

record replay_report =
  rp_proposer_id :: string
  rp_symbol :: string
  rp_granularity :: string
  rp_source :: string
  rp_snapshots_evaluated :: nat
  rp_ideas :: "replay_result list"
  rp_eligibility_checked :: nat
  rp_eligibility_passed :: nat
  rp_proposer_diagnostics :: "payload option"

definition outcome_count :: "replay_report \<Rightarrow> replay_outcome \<Rightarrow> nat" where
  "outcome_count r o' = length (filter (\<lambda>i. rr_outcome i = o') (rp_ideas r))"

definition resolved_ideas :: "replay_report \<Rightarrow> nat" where
  "resolved_ideas r = outcome_count r TARGET_HIT + outcome_count r STOP_HIT + outcome_count r TIMED_OUT"

definition rate :: "nat \<Rightarrow> nat \<Rightarrow> dec" where
  "rate part whole = (if whole = 0 then 0 else dquot (of_nat part) (of_nat whole))"

definition target_hit_rate :: "replay_report \<Rightarrow> dec" where
  "target_hit_rate r = rate (outcome_count r TARGET_HIT) (resolved_ideas r)"

definition stop_hit_rate :: "replay_report \<Rightarrow> dec" where
  "stop_hit_rate r = rate (outcome_count r STOP_HIT) (resolved_ideas r)"

definition average_return_r :: "replay_report \<Rightarrow> dec option" where
  "average_return_r r =
     (let returns = List.map_filter rr_return_r (rp_ideas r) in
      if returns = [] then None else Some (dquot (dsum returns) (of_nat (length returns))))"

definition capital_weighted_returns :: "replay_report \<Rightarrow> (dec \<times> dec) list" where
  "capital_weighted_returns r =
     List.map_filter (\<lambda>i. case (rr_return_r i, rr_sized_notional i) of
         (Some x, Some n) \<Rightarrow> if 0 < n then Some (x, n) else None | _ \<Rightarrow> None) (rp_ideas r)"

definition capital_weighted_average_return_r :: "replay_report \<Rightarrow> dec option" where
  "capital_weighted_average_return_r r =
     (let weighted = capital_weighted_returns r in
      if weighted = [] then None
      else Some (dquot (dsum (map (\<lambda>(x, n). dmul x n) weighted)) (dsum (map snd weighted))))"

definition capital_weighted_sample :: "replay_report \<Rightarrow> nat" where
  "capital_weighted_sample r = length (capital_weighted_returns r)"

definition eligibility_pass_rate :: "replay_report \<Rightarrow> dec" where
  "eligibility_pass_rate r = rate (rp_eligibility_passed r) (rp_eligibility_checked r)"

section \<open>The runner and the tournament\<close>

definition GRANULARITY_DURATION_BY_ALIAS :: "(string \<times> int) list" where
  "GRANULARITY_DURATION_BY_ALIAS =
     [(''1M'', seconds 60), (''1MIN'', seconds 60), (''1MINUTE'', seconds 60), (''ONE_MINUTE'', seconds 60),
      (''5M'', seconds 300), (''5MIN'', seconds 300), (''5MINUTE'', seconds 300), (''FIVE_MINUTE'', seconds 300),
      (''15M'', seconds 900), (''15MIN'', seconds 900), (''15MINUTE'', seconds 900), (''FIFTEEN_MINUTE'', seconds 900),
      (''30M'', seconds 1800), (''30MIN'', seconds 1800), (''30MINUTE'', seconds 1800), (''THIRTY_MINUTE'', seconds 1800),
      (''1H'', hours 1), (''1HR'', hours 1), (''1HOUR'', hours 1), (''ONE_HOUR'', hours 1),
      (''2H'', hours 2), (''2HR'', hours 2), (''2HOUR'', hours 2), (''TWO_HOUR'', hours 2),
      (''4H'', hours 4), (''4HR'', hours 4), (''4HOUR'', hours 4), (''FOUR_HOUR'', hours 4),
      (''6H'', hours 6), (''6HR'', hours 6), (''6HOUR'', hours 6), (''SIX_HOUR'', hours 6),
      (''1D'', days 1), (''1DAY'', days 1), (''ONE_DAY'', days 1)]"

definition granularity_duration :: "string \<Rightarrow> int option" where
  "granularity_duration g =
     map_of GRANULARITY_DURATION_BY_ALIAS
       (map (\<lambda>c. if c = CHR ''-'' then CHR ''_'' else c) (str_upper (strip g)))"

record replay_proposer =
  pz_id :: string
  pz_propose :: "nat \<Rightarrow> market_snapshot \<Rightarrow> trade_idea list result"
  pz_diagnostics :: "payload option"

record runner_config =
  rcf_source :: string
  rcf_min_history :: nat

definition new_runner_config :: "string \<Rightarrow> int \<Rightarrow> runner_config result" where
  "new_runner_config source min_history =
     (if min_history < 1 then Inl (ReplayScoringError ''Replay runner min_history must be at least 1'')
      else Inr \<lparr>rcf_source = source, rcf_min_history = nat min_history\<rparr>)"

definition history_snapshot :: "runner_config \<Rightarrow> string \<Rightarrow> string \<Rightarrow> instant \<Rightarrow> candle list \<Rightarrow> market_snapshot result" where
  "history_snapshot cfg symbol granularity as_of history =
     rbind (new_symbol_series
              \<lparr>ss_symbol = symbol, ss_granularity = granularity, ss_candles = history, ss_price_increment = None,
               ss_price_increment_source = None, ss_price_increment_error = None\<rparr>) (\<lambda>series.
     new_market_snapshot \<lparr>ms_as_of = as_of, ms_source = rcf_source cfg, ms_series = [series]\<rparr>)"

text \<open>One turn: the ideas proposed on the bars before an index, each with its eligibility and its score.\<close>

definition replay_turn ::
  "(trade_idea \<Rightarrow> string) \<Rightarrow> (trade_idea \<Rightarrow> scoring_levels result) \<Rightarrow> replay_proposer \<Rightarrow> runner_config \<Rightarrow> string \<Rightarrow> string \<Rightarrow>
   candle list \<Rightarrow> nat \<Rightarrow> (bool \<times> replay_result) list result" where
  "replay_turn rhash extractor p cfg symbol granularity ordered index =
     (let as_of = ts (ordered ! index) in
      rbind (history_snapshot cfg symbol granularity as_of (take index ordered)) (\<lambda>snapshot.
      rbind (pz_propose p (index - rcf_min_history cfg) snapshot) (\<lambda>ideas.
      rmap (\<lambda>i. rbind (score_trade_idea rhash extractor (granularity_duration granularity) i as_of (drop index ordered))
                  (\<lambda>r. Inr (is_eligible i, r))) ideas)))"

definition run_series ::
  "(trade_idea \<Rightarrow> string) \<Rightarrow> (trade_idea \<Rightarrow> scoring_levels result) \<Rightarrow> replay_proposer \<Rightarrow> runner_config \<Rightarrow> string \<Rightarrow> string \<Rightarrow>
   candle list \<Rightarrow> replay_report result" where
  "run_series rhash extractor p cfg symbol granularity candles =
     (let ordered = sort_key ts candles; turns = [rcf_min_history cfg ..< length ordered] in
      rbind (rmap (replay_turn rhash extractor p cfg symbol granularity ordered) turns) (\<lambda>results.
      Inr \<lparr>rp_proposer_id = pz_id p, rp_symbol = symbol, rp_granularity = granularity, rp_source = rcf_source cfg,
           rp_snapshots_evaluated = length turns, rp_ideas = map snd (concat results),
           rp_eligibility_checked = length (concat results),
           rp_eligibility_passed = length (filter fst (concat results)),
           rp_proposer_diagnostics = pz_diagnostics p\<rparr>))"

record tournament_ranking =
  tr_rank :: nat
  tr_proposer_id :: string
  tr_ideas_proposed :: nat
  tr_resolved_ideas :: nat
  tr_target_hit_rate :: dec
  tr_stop_hit_rate :: dec
  tr_average_return_r :: "dec option"
  tr_eligibility_pass_rate :: dec
  tr_capital_weighted_average_return_r :: "dec option"
  tr_capital_weighted_sample :: nat

definition ranking_key :: "replay_report \<Rightarrow> dec \<times> dec \<times> dec \<times> nat \<times> string" where
  "ranking_key r =
     (case average_return_r r of None \<Rightarrow> - 999 | Some x \<Rightarrow> x, target_hit_rate r, dneg (stop_hit_rate r),
      length (rp_ideas r), rp_proposer_id r)"

definition ranked_reports :: "replay_report list \<Rightarrow> replay_report list" where
  "ranked_reports reports = rev (sort_key ranking_key (rev reports))"

definition rank_tournament_reports :: "replay_report list \<Rightarrow> tournament_ranking list" where
  "rank_tournament_reports reports =
     map (\<lambda>(n, r). \<lparr>tr_rank = Suc n, tr_proposer_id = rp_proposer_id r, tr_ideas_proposed = length (rp_ideas r),
                    tr_resolved_ideas = resolved_ideas r, tr_target_hit_rate = target_hit_rate r,
                    tr_stop_hit_rate = stop_hit_rate r, tr_average_return_r = average_return_r r,
                    tr_eligibility_pass_rate = eligibility_pass_rate r,
                    tr_capital_weighted_average_return_r = capital_weighted_average_return_r r,
                    tr_capital_weighted_sample = capital_weighted_sample r\<rparr>)
       (enumerate 0 (ranked_reports reports))"

record tournament_report =
  tt_symbol :: string
  tt_granularity :: string
  tt_source :: string
  tt_snapshots_evaluated :: nat
  tt_reports :: "replay_report list"
  tt_rankings :: "tournament_ranking list"

definition new_tournament :: "replay_proposer list \<Rightarrow> replay_proposer list result" where
  "new_tournament ps =
     rbind (raise_if (ps = []) (ReplayScoringError ''Replay tournament needs at least one proposer'')) (\<lambda>_.
     rbind (raise_if (\<not> distinct (map pz_id ps))
              (ReplayScoringError ''Replay tournament proposer ids must be unique'')) (\<lambda>_.
     Inr ps))"

definition tournament_run_series ::
  "(trade_idea \<Rightarrow> string) \<Rightarrow> (trade_idea \<Rightarrow> scoring_levels result) \<Rightarrow> replay_proposer list \<Rightarrow> runner_config \<Rightarrow> string \<Rightarrow> string \<Rightarrow>
   candle list \<Rightarrow> tournament_report result" where
  "tournament_run_series rhash extractor ps cfg symbol granularity candles =
     rbind (rmap (\<lambda>p. run_series rhash extractor p cfg symbol granularity candles) ps) (\<lambda>reports.
     rbind (raise_if (reports = []) IndexError) (\<lambda>_.
     Inr \<lparr>tt_symbol = symbol, tt_granularity = granularity, tt_source = rcf_source cfg,
          tt_snapshots_evaluated = rp_snapshots_evaluated (hd reports), tt_reports = reports,
          tt_rankings = rank_tournament_reports reports\<rparr>))"

section \<open>The first touch\<close>

definition touches_stop :: "trade_direction \<Rightarrow> scoring_levels \<Rightarrow> candle \<Rightarrow> bool" where
  "touches_stop direction l c \<longleftrightarrow> (if direction = LONG then c_low c \<le> sl_stop l else sl_stop l \<le> c_high c)"

definition touches_target :: "trade_direction \<Rightarrow> scoring_levels \<Rightarrow> candle \<Rightarrow> bool" where
  "touches_target direction l c \<longleftrightarrow> (if direction = LONG then sl_target l \<le> c_high c else c_low c \<le> sl_target l)"

lemma bar_outcome:
  "bar_outcome_price direction c l favorable adverse =
     (if adverse \<and> touches_stop direction l c then Some (STOP_HIT, sl_stop l)
      else if favorable \<and> touches_target direction l c then Some (TARGET_HIT, sl_target l) else None)"
  by (simp add: bar_outcome_price_def touches_stop_def touches_target_def)

lemma first_outcome_Some:
  "first_outcome f n cs = Some (m, c, x, p) \<Longrightarrow>
     \<exists>k<length cs. m = n + k \<and> c = cs ! k \<and> f m c = Some (x, p) \<and> (\<forall>j<k. f (n + j) (cs ! j) = None)"
proof (induction cs arbitrary: n)
  case (Cons b cs)
  show ?case
  proof (cases "f n b")
    case None
    with Cons.prems have "first_outcome f (Suc n) cs = Some (m, c, x, p)" by simp
    from Cons.IH[OF this] obtain k where k: "k < length cs" "m = Suc n + k" "c = cs ! k" "f m c = Some (x, p)"
      "\<forall>j<k. f (Suc n + j) (cs ! j) = None" by blast
    have "f (n + j) ((b # cs) ! j) = None" if "j < Suc k" for j
      using that None k(5) by (cases j) auto
    with k show ?thesis by (intro exI[of _ "Suc k"]) auto
  next
    case (Some y)
    with Cons.prems show ?thesis by (intro exI[of _ 0]) (auto split: prod.splits)
  qed
qed simp

lemma first_outcome_None:
  "first_outcome f n cs = None \<Longrightarrow> k < length cs \<Longrightarrow> f (n + k) (cs ! k) = None"
proof (induction cs arbitrary: n k)
  case (Cons b cs)
  then show ?case by (cases k) (auto split: option.splits dest!: Cons.IH)
qed simp

lemma first_outcome_append:
  "first_outcome f n cs = Some z \<Longrightarrow> first_outcome f n (cs @ ds) = Some z"
  by (induction cs arbitrary: n) (auto split: option.splits)

lemma replay_result_of_Inr:
  "replay_result_of rhash i t l x et e xt xp n = Inr r \<Longrightarrow>
     rr_outcome r = x \<and> rr_levels r = l \<and> rr_entry_price r = e \<and> rr_exit_time r = xt \<and> rr_exit_price r = xp
     \<and> rr_bars_evaluated r = n \<and> rr_return_r r = fst (returns_of (ti_direction i) l e xp)"
  by (auto simp: replay_result_of_def split: option.splits)

lemma filled_score_cases:
  assumes "score_filled_trade_idea rhash extractor duration i (Aware t) fill_price future = Inr r"
    and "th_expires_at (ti_time_horizon i) = Some expires"
    and "cs = sort_key ts (filter (\<lambda>c. t \<le> ts c \<and> candle_ends_by_expiry expires duration c) future)"
  shows "case rr_outcome r of
      NO_FUTURE_DATA \<Rightarrow> cs = []
    | NOT_FILLED \<Rightarrow> False
    | TIMED_OUT \<Rightarrow> cs \<noteq> [] \<and> rr_exit_price r = Some (c_close (last cs)) \<and> rr_exit_time r = Some (ts (last cs))
        \<and> (\<forall>c\<in>set cs. \<not> touches_stop (ti_direction i) (rr_levels r) c \<and> \<not> touches_target (ti_direction i) (rr_levels r) c)
    | x \<Rightarrow> \<exists>k<length cs. rr_exit_time r = Some (ts (cs ! k)) \<and> rr_bars_evaluated r = Suc k
        \<and> (\<forall>j<k. \<not> touches_stop (ti_direction i) (rr_levels r) (cs ! j)
                 \<and> \<not> touches_target (ti_direction i) (rr_levels r) (cs ! j))
        \<and> (if touches_stop (ti_direction i) (rr_levels r) (cs ! k)
           then x = STOP_HIT \<and> rr_exit_price r = Some (sl_stop (rr_levels r))
           else x = TARGET_HIT \<and> touches_target (ti_direction i) (rr_levels r) (cs ! k)
                \<and> rr_exit_price r = Some (sl_target (rr_levels r)))"
proof -
  from assms(1,2) obtain l where l: "require_scoreable i = Inr expires" "extractor i = Inr l"
    by (auto simp: score_filled_trade_idea_def rbind_Inr_iff require_scoreable_def split: if_splits)
  show ?thesis
  proof (cases "cs = []")
    case True
    with assms l have "replay_result_of rhash i (Aware t) l NO_FUTURE_DATA None None None None 0 = Inr r"
      by (simp add: score_filled_trade_idea_def)
    from replay_result_of_Inr[OF this] True show ?thesis by simp
  next
    case False
    let ?f = "\<lambda>(_::nat) c. bar_outcome_price (ti_direction i) c l True True"
    show ?thesis
    proof (cases "first_outcome ?f 1 cs")
      case None
      with assms l False have "replay_result_of rhash i (Aware t) l TIMED_OUT (Some (Aware t))
          (Some (case fill_price of Some p \<Rightarrow> p | None \<Rightarrow> entry_midpoint l)) (Some (ts (last cs)))
          (Some (c_close (last cs))) (length cs) = Inr r"
        by (simp add: score_filled_trade_idea_def)
      note r = replay_result_of_Inr[OF this]
      have "\<forall>c\<in>set cs. bar_outcome_price (ti_direction i) c l True True = None"
        using first_outcome_None[OF None] by (auto simp: in_set_conv_nth)
      with r False show ?thesis by (auto simp: bar_outcome split: if_splits)
    next
      case (Some z)
      obtain n c x p where z: "z = (n, c, x, p)" by (cases z)
      with Some assms l False have "replay_result_of rhash i (Aware t) l x (Some (Aware t))
          (Some (case fill_price of Some p \<Rightarrow> p | None \<Rightarrow> entry_midpoint l)) (Some (ts c)) (Some p) n = Inr r"
        by (simp add: score_filled_trade_idea_def)
      note r = replay_result_of_Inr[OF this]
      from first_outcome_Some[OF Some[unfolded z]] obtain k where k: "k < length cs" "n = 1 + k" "c = cs ! k"
        "bar_outcome_price (ti_direction i) c l True True = Some (x, p)"
        "\<forall>j<k. bar_outcome_price (ti_direction i) (cs ! j) l True True = None" by blast
      have "\<forall>j<k. \<not> touches_stop (ti_direction i) l (cs ! j) \<and> \<not> touches_target (ti_direction i) l (cs ! j)"
        using k(5) by (auto simp: bar_outcome split: if_splits)
      with k r show ?thesis by (auto simp: bar_outcome split: if_splits intro!: exI[of _ k])
    qed
  qed
qed

text \<open>
  C16: The score of a filled idea is the first touch. Over the bars from the fill on that end by the
  expiry, in time order: a stop or target is reported on the first bar that touches either level, at
  the price of the level, and as the stop when the bar touches both; a timeout is reported exactly
  when no bar touches a level, at the last close; and missing data only when there is no such bar.
\<close>

theorem filled_score_is_first_touch:
  assumes "score_filled_trade_idea rhash extractor duration i (Aware t) fill_price future = Inr r"
    and "th_expires_at (ti_time_horizon i) = Some expires"
    and "cs = sort_key ts (filter (\<lambda>c. t \<le> ts c \<and> candle_ends_by_expiry expires duration c) future)"
  shows "case rr_outcome r of
      NO_FUTURE_DATA \<Rightarrow> cs = []
    | NOT_FILLED \<Rightarrow> False
    | TIMED_OUT \<Rightarrow> cs \<noteq> [] \<and> rr_exit_price r = Some (c_close (last cs)) \<and> rr_exit_time r = Some (ts (last cs))
        \<and> (\<forall>c\<in>set cs. \<not> touches_stop (ti_direction i) (rr_levels r) c \<and> \<not> touches_target (ti_direction i) (rr_levels r) c)
    | x \<Rightarrow> \<exists>k<length cs. rr_exit_time r = Some (ts (cs ! k)) \<and> rr_bars_evaluated r = Suc k
        \<and> (\<forall>j<k. \<not> touches_stop (ti_direction i) (rr_levels r) (cs ! j)
                 \<and> \<not> touches_target (ti_direction i) (rr_levels r) (cs ! j))
        \<and> (if touches_stop (ti_direction i) (rr_levels r) (cs ! k)
           then x = STOP_HIT \<and> rr_exit_price r = Some (sl_stop (rr_levels r))
           else x = TARGET_HIT \<and> touches_target (ti_direction i) (rr_levels r) (cs ! k)
                \<and> rr_exit_price r = Some (sl_target (rr_levels r)))"
  using filled_score_cases[OF assms] .

definition ex_bar :: "int \<Rightarrow> dec \<Rightarrow> dec \<Rightarrow> dec \<Rightarrow> candle" where
  "ex_bar h high low close = \<lparr>ts = hours h, c_open = 100, c_high = high, c_low = low, c_close = close, c_volume = 1\<rparr>"

definition ex_bars :: "candle list" where
  "ex_bars = [ex_bar 2 111 94 100, ex_bar 1 101 99 100]"

abbreviation ex_filled_score :: "replay_result result" where
  "ex_filled_score \<equiv>
     score_filled_trade_idea (\<lambda>_. ''hash'') exit_plan_scoring_levels (Some (hours 1)) ex_idea (Aware 0) None ex_bars"

lemma ex_filled_stop: "\<exists>r. ex_filled_score = Inr r \<and> rr_outcome r = STOP_HIT"
proof -
  have "(case ex_filled_score of Inr r \<Rightarrow> rr_outcome r = STOP_HIT | _ \<Rightarrow> False)" by code_simp
  then show ?thesis by (auto split: sum.splits)
qed

theorem filled_score_is_first_touch_witness:
  "\<exists>r cs. ex_filled_score = Inr r \<and> cs = sort_key ts (filter (\<lambda>c. 0 \<le> ts c \<and> candle_ends_by_expiry (days 3) (Some (hours 1)) c) ex_bars)
     \<and> (\<exists>k<length cs. rr_exit_time r = Some (ts (cs ! k)) \<and> touches_stop LONG (rr_levels r) (cs ! k)
          \<and> (\<forall>j<k. \<not> touches_stop LONG (rr_levels r) (cs ! j)))"
proof -
  from ex_filled_stop obtain r where r: "ex_filled_score = Inr r" "rr_outcome r = STOP_HIT" by blast
  have i: "th_expires_at (ti_time_horizon ex_idea) = Some (days 3)" "ti_direction ex_idea = LONG"
    by (simp_all add: ex_idea_def)
  from filled_score_is_first_touch[OF r(1) i(1) refl] r show ?thesis
    by (fastforce simp: i(2) split: if_splits)
qed

section \<open>Later bars\<close>

lemma insort_key_append:
  "\<forall>b\<in>set bs. f x \<le> f b \<Longrightarrow> insort_key f x (as @ bs) = insort_key f x as @ bs"
proof (induction as)
  case Nil
  then show ?case by (cases bs) auto
qed simp

lemma sort_key_append_le:
  "\<forall>x\<in>set xs. \<forall>y\<in>set ys. f x \<le> f y \<Longrightarrow> sort_key f (xs @ ys) = sort_key f xs @ sort_key f ys"
  by (induction xs) (simp_all add: insort_key_append)

text \<open>
  A resolution is final. Once an idea that was filled has touched its stop or target, recording
  later bars leaves its score as it is.
\<close>

theorem filled_score_final:
  assumes "score_filled_trade_idea rhash extractor duration i filled_at fill_price future = Inr r"
    and "rr_outcome r = STOP_HIT \<or> rr_outcome r = TARGET_HIT"
    and "\<forall>c\<in>set future. \<forall>d\<in>set later. ts c \<le> ts d"
  shows "score_filled_trade_idea rhash extractor duration i filled_at fill_price (future @ later) = Inr r"
proof -
  from assms(1) obtain expires l cs where a: "require_scoreable i = Inr expires" "extractor i = Inr l"
    "window_candles filled_at expires duration future = Inr cs"
    by (auto simp: score_filled_trade_idea_def rbind_Inr_iff)
  have ne: "cs \<noteq> []"
  proof
    assume "cs = []"
    with assms(1) a have "replay_result_of rhash i filled_at l NO_FUTURE_DATA None None None None 0 = Inr r"
      by (simp add: score_filled_trade_idea_def)
    from replay_result_of_Inr[OF this] assms(2) show False by simp
  qed
  with a(3) obtain t where t: "filled_at = Aware t" by (cases filled_at) (auto split: if_splits)
  let ?P = "\<lambda>c. t \<le> ts c \<and> candle_ends_by_expiry expires duration c"
  have "window_candles filled_at expires duration (future @ later) = Inr (cs @ sort_key ts (filter ?P later))"
    using a(3) assms(3) sort_key_append_le[of "filter ?P future" "filter ?P later" ts] by (simp add: t)
  moreover obtain z where z: "first_outcome (\<lambda>_ c. bar_outcome_price (ti_direction i) c l True True) 1 cs = Some z"
  proof (cases "first_outcome (\<lambda>_ c. bar_outcome_price (ti_direction i) c l True True) 1 cs")
    case None
    with assms(1) a ne have "replay_result_of rhash i filled_at l TIMED_OUT (Some filled_at)
        (Some (case fill_price of Some p \<Rightarrow> p | None \<Rightarrow> entry_midpoint l)) (Some (ts (last cs)))
        (Some (c_close (last cs))) (length cs) = Inr r"
      by (simp add: score_filled_trade_idea_def)
    from replay_result_of_Inr[OF this] assms(2) show ?thesis by simp
  qed blast
  ultimately show ?thesis
    using assms(1) a ne first_outcome_append[OF z, of "sort_key ts (filter ?P later)"]
    by (simp add: score_filled_trade_idea_def z split: prod.splits)
qed

theorem filled_score_final_witness:
  "\<exists>r. rr_outcome r = STOP_HIT
     \<and> score_filled_trade_idea (\<lambda>_. ''hash'') exit_plan_scoring_levels (Some (hours 1)) ex_idea (Aware 0) None
         (ex_bars @ [ex_bar 3 120 100 119]) = Inr r"
proof -
  from ex_filled_stop obtain r where r: "ex_filled_score = Inr r" "rr_outcome r = STOP_HIT" by blast
  have later: "\<forall>c\<in>set ex_bars. \<forall>d\<in>set [ex_bar 3 120 100 119]. ts c \<le> ts d"
    by (simp add: ex_bars_def ex_bar_def hours_def)
  have "rr_outcome r = STOP_HIT \<or> rr_outcome r = TARGET_HIT" using r(2) by simp
  from filled_score_final[OF r(1) this later] r(2) show ?thesis by blast
qed

section \<open>Units of risk\<close>

lemma exit_plan_levels_ordered: "exit_plan_scoring_levels i = Inr l \<Longrightarrow> validate_level_order i l = Inr ()"
  by (auto simp: exit_plan_scoring_levels_def extract_numeric_scoring_levels_def Let_def rbind_Inr_iff
      split: option.splits)

lemma risk_units:
  assumes "ti_direction i \<in> {LONG, SHORT}" and "validate_level_order i l = Inr ()"
  shows "fst (returns_of (ti_direction i) l (Some (entry_midpoint l)) (Some (sl_stop l))) = Some (- 1)"
    and "\<exists>x. fst (returns_of (ti_direction i) l (Some (entry_midpoint l)) (Some (sl_target l))) = Some x \<and> 0 < x"
proof -
  have one: "dround 1 = 1"
    using dround_exact[of "1" 0] by simp
  have neg: "dsub a b = - dsub b a" for a b :: dec
    unfolding dsub_def using dround_uminus[of "b - a"] by simp
  have pos: "b < a \<Longrightarrow> 0 < dsub a b" for a b :: dec by (simp add: dsub_def)
  have q: "0 < a \<Longrightarrow> dquot (- a) a = - 1" "0 < a \<Longrightarrow> 0 < b \<Longrightarrow> 0 < dquot a b" for a b :: dec
    by (simp_all add: dquot_def one)
  consider "ti_direction i = LONG" "sl_stop l < entry_midpoint l" "entry_midpoint l < sl_target l"
    | "ti_direction i = SHORT" "sl_target l < entry_midpoint l" "entry_midpoint l < sl_stop l"
    using assms by (auto simp: validate_level_order_def Let_def)
  then have "fst (returns_of (ti_direction i) l (Some (entry_midpoint l)) (Some (sl_stop l))) = Some (- 1)
    \<and> (\<exists>x. fst (returns_of (ti_direction i) l (Some (entry_midpoint l)) (Some (sl_target l))) = Some x \<and> 0 < x)"
  proof cases
    case 1
    then show ?thesis using pos[OF 1(2)] pos[OF 1(3)] neg[of "sl_stop l" "entry_midpoint l"]
      by (auto simp: returns_of_def Let_def signed_move_def q)
  next
    case 2
    then show ?thesis using pos[OF 2(2)] pos[OF 2(3)] neg[of "entry_midpoint l" "sl_stop l"]
      by (auto simp: returns_of_def Let_def signed_move_def q)
  qed
  then show "fst (returns_of (ti_direction i) l (Some (entry_midpoint l)) (Some (sl_stop l))) = Some (- 1)"
    and "\<exists>x. fst (returns_of (ti_direction i) l (Some (entry_midpoint l)) (Some (sl_target l))) = Some x \<and> 0 < x"
    by simp_all
qed

lemma score_trade_idea_outcome:
  assumes "score_trade_idea rhash extractor duration i as_of future = Inr r" and "rr_outcome r \<in> {STOP_HIT, TARGET_HIT}"
  shows "\<exists>l p. extractor i = Inr l \<and> ti_direction i \<in> {LONG, SHORT}
     \<and> rr_exit_price r = Some p \<and> p = (if rr_outcome r = STOP_HIT then sl_stop l else sl_target l)
     \<and> rr_return_r r = fst (returns_of (ti_direction i) l (Some (entry_midpoint l)) (Some p))"
proof -
  from assms(1) obtain expires l cs where a: "require_scoreable i = Inr expires" "extractor i = Inr l"
    "window_candles (Aware as_of) expires duration future = Inr cs"
    by (auto simp: score_trade_idea_def rbind_Inr_iff)
  define entry where "entry = entry_midpoint l"
  define post where "post = dropWhile (\<lambda>c. \<not> (c_low c \<le> entry \<and> entry \<le> c_high c)) cs"
  define f where "f n c = bar_outcome_price (ti_direction i) c l (n \<noteq> 1)
      (n \<noteq> 1 \<or> \<not> entry_candle_proves_prefill_stop (ti_direction i) c l)" for n :: nat and c
  define before where "before = takeWhile (\<lambda>c. \<not> (c_low c \<le> entry \<and> entry \<le> c_high c)) cs"
  have eq: "(if cs = [] then replay_result_of rhash i (Aware as_of) l NO_FUTURE_DATA None None None None 0
      else if post = [] then replay_result_of rhash i (Aware as_of) l NOT_FILLED None None None None (length cs)
      else case first_outcome f 1 post of
             Some (n, c, outcome, price) \<Rightarrow>
               replay_result_of rhash i (Aware as_of) l outcome (Some (Aware (ts (hd post)))) (Some entry)
                 (Some (ts c)) (Some price) (length before + n)
           | None \<Rightarrow>
               replay_result_of rhash i (Aware as_of) l TIMED_OUT (Some (Aware (ts (hd post)))) (Some entry)
                 (Some (ts (last post))) (Some (c_close (last post))) (length cs)) = Inr r"
    using assms(1) unfolding score_trade_idea_def a rbind.simps Let_def post_def before_def entry_def f_def .
  then obtain n c x p where z: "cs \<noteq> []" "post \<noteq> []" "first_outcome f 1 post = Some (n, c, x, p)"
    using assms(2) by (auto dest!: replay_result_of_Inr split: if_splits option.splits)
  with eq have r: "rr_outcome r = x" "rr_exit_price r = Some p"
      "rr_return_r r = fst (returns_of (ti_direction i) l (Some entry) (Some p))"
    by (auto dest!: replay_result_of_Inr)
  from first_outcome_Some[OF z(3)] have "p = (if x = STOP_HIT then sl_stop l else sl_target l)"
    by (auto simp: f_def bar_outcome split: if_splits)
  moreover have "ti_direction i \<in> {LONG, SHORT}"
    using a(1) by (auto simp: require_scoreable_def split: option.splits if_splits)
  ultimately show ?thesis using a(2) r by (auto simp: entry_def)
qed

text \<open>
  C17: A replayed idea whose levels come from its exit plan, or from its texts where it has none, loses
  exactly one unit of its risk when it is stopped and gains a positive multiple of it at its target.
\<close>

theorem stopped_idea_loses_one_r:
  assumes "score_trade_idea rhash exit_plan_scoring_levels duration i as_of future = Inr r"
  shows "(rr_outcome r = STOP_HIT \<longrightarrow> rr_return_r r = Some (- 1))
       \<and> (rr_outcome r = TARGET_HIT \<longrightarrow> (\<exists>x. rr_return_r r = Some x \<and> 0 < x))"
proof (cases "rr_outcome r \<in> {STOP_HIT, TARGET_HIT}")
  case True
  from score_trade_idea_outcome[OF assms True] obtain l p where l: "exit_plan_scoring_levels i = Inr l"
    "ti_direction i \<in> {LONG, SHORT}" "p = (if rr_outcome r = STOP_HIT then sl_stop l else sl_target l)"
    "rr_return_r r = fst (returns_of (ti_direction i) l (Some (entry_midpoint l)) (Some p))" by blast
  from risk_units[OF l(2) exit_plan_levels_ordered[OF l(1)]] l(3,4) show ?thesis by auto
qed auto

theorem stopped_idea_loses_one_r_witness:
  "\<exists>r. score_trade_idea (\<lambda>_. ''hash'') exit_plan_scoring_levels (Some (hours 1)) ex_idea 0 ex_bars = Inr r
     \<and> rr_outcome r = STOP_HIT \<and> rr_return_r r = Some (- 1)"
proof -
  have "(case score_trade_idea (\<lambda>_. ''hash'') exit_plan_scoring_levels (Some (hours 1)) ex_idea 0 ex_bars of
           Inr r \<Rightarrow> rr_outcome r = STOP_HIT | _ \<Rightarrow> False)" by code_simp
  then obtain r where r: "score_trade_idea (\<lambda>_. ''hash'') exit_plan_scoring_levels (Some (hours 1)) ex_idea 0 ex_bars = Inr r"
    "rr_outcome r = STOP_HIT" by (auto split: sum.splits)
  from stopped_idea_loses_one_r[OF r(1)] r show ?thesis by blast
qed

section \<open>Rankings\<close>

lemma tournament_ranks:
  "map tr_rank (rank_tournament_reports reports) = [1 ..< Suc (length reports)]"
  "mset (map tr_proposer_id (rank_tournament_reports reports)) = mset (map rp_proposer_id reports)"
proof -
  have len: "length (ranked_reports reports) = length reports" by (simp add: ranked_reports_def)
  show "map tr_rank (rank_tournament_reports reports) = [1 ..< Suc (length reports)]"
    by (rule nth_equalityI) (simp_all add: rank_tournament_reports_def len nth_enumerate_eq del: upt_Suc)
  have "map tr_proposer_id (rank_tournament_reports reports) = map rp_proposer_id (ranked_reports reports)"
    by (rule nth_equalityI) (simp_all add: rank_tournament_reports_def len nth_enumerate_eq)
  then show "mset (map tr_proposer_id (rank_tournament_reports reports)) = mset (map rp_proposer_id reports)"
    by (simp add: ranked_reports_def)
qed

lemma ranked_descending: "sorted (map ranking_key (rev (ranked_reports reports)))"
  by (simp add: ranked_reports_def)

end
