(* ===== verification/Idea_Exit_Monitor.thy ===== *)
theory Idea_Exit_Monitor
  imports Idea_Lane Idea_Replay
begin

text \<open>
  The exit monitor, \<^verbatim>\<open>src/gpt_trader/features/idea_execution/exit_monitor.py\<close>: a pass over the filled
  ideas that closes those whose bars show an exit. An idea is first judged on what is recorded
  (\<open>exit_decision\<close>); only an exit reaches the ledger, through the closeout of the service or, for an
  idea with a reducible position, through a simulated close, each in its own transaction.

  The lemmas: the ledger changes only for an exit that is justified by a touch of the plan or by the
  expiry, and a pass keeps every committed state readable.
\<close>

section \<open>What a pass reports\<close>

datatype skip_reason = Unclassifiable | CannotEvaluate string | MarketClosed string "instant option"

record exit_monitor_pass =
  xp_recorded :: "closeout_attribution list"
  xp_skipped_closed_sessions :: "(string \<times> string \<times> skip_reason) list"
  xp_unresolved :: "(string \<times> string \<times> string) list"

fun OUTCOME_TO_RESOLUTION :: "replay_outcome \<Rightarrow> closeout_resolution option" where
  "OUTCOME_TO_RESOLUTION TARGET_HIT = Some THESIS_TARGET"
| "OUTCOME_TO_RESOLUTION STOP_HIT = Some INVALIDATION"
| "OUTCOME_TO_RESOLUTION TIMED_OUT = Some EXPIRY"
| "OUTCOME_TO_RESOLUTION _ = None"

text \<open>\<open>None\<close> when the session is open at \<open>now\<close>.\<close>

definition closed_session_skip ::
  "(string \<Rightarrow> trading_calendar result) \<Rightarrow> instant \<Rightarrow> trade_idea_view \<Rightarrow> (string \<times> string \<times> skip_reason) option result" where
  "closed_session_skip resolver now v =
     (let i = vw_idea v; entry = (\<lambda>reason. Some (ti_decision_id i, ti_instrument i, reason)) in
      case resolver (ti_instrument i) of
        Inl e \<Rightarrow> if unparsed_instrument e then Inr (entry Unclassifiable) else Inl e
      | Inr c \<Rightarrow>
          (case rbind (tc_is_open c now) (\<lambda>open'.
                  if open' then Inr None
                  else rbind (tc_next_open c now) (\<lambda>t. Inr (entry (MarketClosed (tc_session_id c) t)))) of
             Inr skip \<Rightarrow> Inr skip
           | Inl e \<Rightarrow> if value_error e then Inr (entry (CannotEvaluate (tc_session_id c))) else Inl e))"

section \<open>Judging one position\<close>

definition fill_price_and_source :: "recorded_fill \<Rightarrow> recorded_fill option \<Rightarrow> dec option \<times> string" where
  "fill_price_and_source f fallback =
     (case rf_price f of
        Some p \<Rightarrow> (Some p, ''recorded_fill'')
      | None \<Rightarrow>
          (case fallback of
             Some g \<Rightarrow> (case rf_price g of Some p \<Rightarrow> (Some p, rf_source g) | None \<Rightarrow> (None, ''planned_zone_midpoint''))
           | None \<Rightarrow> (None, ''planned_zone_midpoint'')))"

definition fill_quantity :: "trade_idea_view \<Rightarrow> recorded_fill \<Rightarrow> recorded_fill option \<Rightarrow> dec option" where
  "fill_quantity v f fallback =
     (case rf_quantity f of
        Some q \<Rightarrow> Some q
      | None \<Rightarrow>
          (case fallback of
             Some g \<Rightarrow> (case rf_quantity g of Some q \<Rightarrow> Some q | None \<Rightarrow> sr_quantity (ti_sizing (vw_idea v)))
           | None \<Rightarrow> sr_quantity (ti_sizing (vw_idea v))))"

definition exit_amount :: "trade_direction \<Rightarrow> dec \<Rightarrow> dec \<Rightarrow> dec \<Rightarrow> dec" where
  "exit_amount direction quantity entry exit = dmul quantity (signed_move direction entry exit)"

text \<open>\<^verbatim>\<open>max(filled_at, *timestamps)\<close>\<close>

fun latest_time :: "py_datetime \<Rightarrow> instant list \<Rightarrow> py_datetime result" where
  "latest_time t [] = Inr t"
| "latest_time (Aware t) ts' = Inr (Aware (foldl max t ts'))"
| "latest_time (Naive t) _ = Inl (TypeError ''can't compare offset-naive and offset-aware datetimes'')"

record exit_order =
  xo_quantity :: dec
  xo_fill_price :: "dec option"
  xo_filled_at :: py_datetime
  xo_source :: string
  xo_result :: replay_result
  xo_resolution :: closeout_resolution
  xo_projected :: bool
  xo_corrupt_keys :: "string list"

datatype exit_decision = Waiting | Blocked string | Exit exit_order

fun replay_scoring_error :: "py_error \<Rightarrow> bool" where
  "replay_scoring_error (ReplayScoringError _) = True"
| "replay_scoring_error _ = False"

text \<open>The score of a position, and what it means at \<open>now\<close>.\<close>

definition judge_score ::
  "service_env \<Rightarrow> trade_idea \<Rightarrow> bool \<Rightarrow> candle list \<Rightarrow> recorded_fill \<Rightarrow> dec option \<times> string \<Rightarrow> dec \<Rightarrow> py_datetime \<Rightarrow> bool \<Rightarrow>
   exit_decision result" where
  "judge_score env i expired candles f entry quantity filled_at projected =
     (case score_filled_trade_idea (en_rhash env) exit_plan_scoring_levels None i filled_at (fst entry) candles of
        Inl e \<Rightarrow> if replay_scoring_error e then Inr (Blocked ''exit levels not scoreable'') else Inl e
      | Inr r \<Rightarrow>
          (case OUTCOME_TO_RESOLUTION (rr_outcome r) of
             None \<Rightarrow>
               Inr (if expired then Blocked ''no post-fill candles inside the idea's horizon are available'' else Waiting)
           | Some resolution \<Rightarrow>
               if rr_outcome r = TIMED_OUT \<and> \<not> expired then Inr Waiting
               else if rr_entry_price r = None \<or> rr_exit_price r = None
               then Inr (Blocked ''scoring produced no entry/exit price'')
               else if projected \<and> rr_exit_time r = None
               then Inr (Blocked ''scoring produced no resolution timestamp'')
               else Inr (Exit \<lparr>xo_quantity = quantity, xo_fill_price = fst entry, xo_filled_at = filled_at,
                               xo_source = snd entry, xo_result = r, xo_resolution = resolution,
                               xo_projected = projected, xo_corrupt_keys = rf_corrupt_keys f\<rparr>)))"

definition exit_decision_of ::
  "service_env \<Rightarrow> (string \<times> candle list) list \<Rightarrow> instant \<Rightarrow> recorded_fill option \<Rightarrow> trade_idea_view \<Rightarrow> repo \<Rightarrow>
   exit_decision result" where
  "exit_decision_of env candles_by_instrument now fallback v repo =
     (let i = vw_idea v;
          candles = (case map_of candles_by_instrument (str_lower (ti_instrument i)) of None \<Rightarrow> [] | Some cs \<Rightarrow> cs)
      in case recorded_fill_from_view env v of
        None \<Rightarrow> Inr (Blocked ''no recorded fill event to anchor exit evaluation'')
      | Some f \<Rightarrow>
          (case rf_filled_at f of
             None \<Rightarrow> Inr (Blocked ''no recorded fill event to anchor exit evaluation'')
           | Some filled_at \<Rightarrow>
               (case th_expires_at (ti_time_horizon i) of
                  None \<Rightarrow> Inr (Blocked ''idea has no expiry, so exit monitoring can never time it out'')
                | Some expires \<Rightarrow>
                    let expired = (expires \<le> now) in
                    if candles = []
                    then Inr (if expired then Blocked ''no candles for instrument in this turn's snapshot'' else Waiting)
                    else
                      (case fill_quantity v f fallback of
                         None \<Rightarrow> Inr (Blocked ''no fill or sizing quantity recorded; realized P&L cannot be computed'')
                       | Some quantity \<Rightarrow>
                           if rf_price f \<noteq> None \<and> rf_quantity f \<noteq> None \<and> rf_corrupt_keys f = [] then
                             rbind (position env repo (ti_decision_id i)) (\<lambda>p.
                             if pp_reserved p \<noteq> 0
                             then Inr (Blocked ''pending reduction reserves quantity; no simulated close before receipt resolution'')
                             else rbind (latest_time filled_at (map rd_timestamp (pp_reductions p))) (\<lambda>t.
                                  judge_score env i expired candles f (fill_price_and_source f fallback)
                                    (pp_remaining p) t True))
                           else judge_score env i expired candles f (fill_price_and_source f fallback)
                                  quantity filled_at False))))"

section \<open>Recording an exit\<close>

definition datetime_text :: "service_env \<Rightarrow> py_datetime \<Rightarrow> string" where
  "datetime_text env t = en_time_text env (as_utc t)"

definition price_text :: "service_env \<Rightarrow> dec option \<Rightarrow> string" where
  "price_text env x = (case x of None \<Rightarrow> ''None'' | Some d \<Rightarrow> en_decimal_text env d)"

fun joined :: "string list \<Rightarrow> string" where
  "joined [] = []"
| "joined [k] = k"
| "joined (k # ks) = k @ '','' @ joined ks"

definition exit_evidence :: "service_env \<Rightarrow> instant \<Rightarrow> exit_order \<Rightarrow> string list" where
  "exit_evidence env as_of x =
     (let r = xo_result x in
      [''exit_monitor:'' @ replay_outcome_value (rr_outcome r),
       ''entry_price='' @ price_text env (rr_entry_price r),
       ''entry_price_source='' @ xo_source x,
       ''fill_time='' @ datetime_text env (xo_filled_at x),
       ''exit_price='' @ price_text env (rr_exit_price r),
       ''quantity='' @ en_decimal_text env (xo_quantity x),
       ''snapshot_as_of='' @ en_time_text env as_of]
      @ (if xo_corrupt_keys x = [] then [] else [''evidence_corrupt_keys='' @ joined (xo_corrupt_keys x)]))"

definition record_exit :: "service_env \<Rightarrow> instant \<Rightarrow> instant \<Rightarrow> string \<Rightarrow> trade_idea \<Rightarrow> exit_order \<Rightarrow> closeout_attribution act" where
  "record_exit env as_of now actor_id i x =
     (case (rr_entry_price (xo_result x), rr_exit_price (xo_result x), rr_exit_time (xo_result x)) of
        (Some entry, Some exit, Some t) \<Rightarrow>
          if xo_projected x
          then run_write (record_simulated_close env (ti_decision_id i) (xo_quantity x) exit (Aware t) (Aware now)
                            (xo_resolution x) (exit_evidence env as_of x) actor_id)
          else run_write (record_closeout_attribution env (ti_decision_id i) actor_id (xo_resolution x)
                            (Some (Finite (exit_amount (ti_direction i) (xo_quantity x) entry exit))) None []
                            (exit_evidence env as_of x) SYSTEM None)
      | _ \<Rightarrow> araise AssertionError)"

definition resolve_one ::
  "service_env \<Rightarrow> (string \<times> candle list) list \<Rightarrow> instant \<Rightarrow> instant \<Rightarrow> string \<Rightarrow> recorded_fill option \<Rightarrow> trade_idea_view \<Rightarrow>
   (closeout_attribution option \<times> string option) act" where
  "resolve_one env candles_by_instrument as_of now actor_id fallback v =
     abind (aread (exit_decision_of env candles_by_instrument now fallback v)) (\<lambda>d.
     case d of
       Waiting \<Rightarrow> areturn (None, None)
     | Blocked reason \<Rightarrow> areturn (None, Some reason)
     | Exit x \<Rightarrow> abind (record_exit env as_of now actor_id (vw_idea v) x) (\<lambda>c. areturn (Some c, None)))"

section \<open>The pass\<close>

datatype turn_outcome =
    Recorded closeout_attribution
  | SkippedClosed "string \<times> string \<times> skip_reason"
  | Unresolved "string \<times> string \<times> string"
  | Quiet

definition resolve_view ::
  "service_env \<Rightarrow> (string \<Rightarrow> trading_calendar result) \<Rightarrow> (string \<times> candle list) list \<Rightarrow> instant \<Rightarrow> instant \<Rightarrow> string \<Rightarrow>
   (string \<times> recorded_fill) list \<Rightarrow> trade_idea_view \<Rightarrow> turn_outcome act" where
  "resolve_view env resolver candles_by_instrument as_of now actor_id fallbacks v =
     (if ti_position_operation (vw_idea v) \<noteq> None \<or> vw_closeout v \<noteq> None then areturn Quiet
      else
        abind (aread (\<lambda>_. closed_session_skip resolver now v)) (\<lambda>skip.
        case skip of
          Some s \<Rightarrow> areturn (SkippedClosed s)
        | None \<Rightarrow>
            abind (resolve_one env candles_by_instrument as_of now actor_id
                     (map_of fallbacks (ti_decision_id (vw_idea v))) v) (\<lambda>(c, reason).
            areturn (case c of
                Some a \<Rightarrow> Recorded a
              | None \<Rightarrow> (case reason of
                    None \<Rightarrow> Quiet
                  | Some why \<Rightarrow> Unresolved (ti_decision_id (vw_idea v), ti_instrument (vw_idea v), why))))))"

text \<open>\<^verbatim>\<open>{series.symbol.casefold(): series.candles ...}\<close>: a later series takes the place of an earlier one.\<close>

definition snapshot_candles :: "market_snapshot \<Rightarrow> (string \<times> candle list) list" where
  "snapshot_candles m =
     rev (map (\<lambda>s. (str_lower (ss_symbol s), ss_candles s)) (filter (\<lambda>s. ss_candles s \<noteq> []) (ms_series m)))"

definition resolve_filled_ideas ::
  "service_env \<Rightarrow> (string \<Rightarrow> trading_calendar result) \<Rightarrow> market_snapshot \<Rightarrow> instant \<Rightarrow> string \<Rightarrow> (string \<times> recorded_fill) list \<Rightarrow>
   exit_monitor_pass act" where
  "resolve_filled_ideas env resolver snapshot now actor_id fallbacks =
     abind (aread (\<lambda>r. list_views env r (Some FILLED))) (\<lambda>views.
     abind (amap (resolve_view env resolver (snapshot_candles snapshot) (ms_as_of snapshot) now actor_id fallbacks) views) (\<lambda>outs.
     areturn \<lparr>xp_recorded = List.map_filter (\<lambda>x. case x of Recorded c \<Rightarrow> Some c | _ \<Rightarrow> None) outs,
              xp_skipped_closed_sessions = List.map_filter (\<lambda>x. case x of SkippedClosed s \<Rightarrow> Some s | _ \<Rightarrow> None) outs,
              xp_unresolved = List.map_filter (\<lambda>x. case x of Unresolved u \<Rightarrow> Some u | _ \<Rightarrow> None) outs\<rparr>))"

section \<open>Only an exit writes\<close>

lemma aread_world: "aread f w = (f (wd_repo w), w)"
  by (simp add: aread_def)

lemma resolve_one_waits:
  assumes "\<And>x. exit_decision_of env bars now fallback v (wd_repo w) \<noteq> Inr (Exit x)"
  shows "snd (resolve_one env bars as_of now aid fallback v w) = w"
  using assms
  by (auto simp: resolve_one_def abind_def aread_world areturn_def split: sum.split exit_decision.split)

text \<open>Inverting a decision to exit: the fill that anchors it, and the score of the bars of its window.\<close>

definition justified_exit :: "service_env \<Rightarrow> trade_idea \<Rightarrow> candle list \<Rightarrow> instant \<Rightarrow> exit_order \<Rightarrow> bool" where
  "justified_exit env i bars now x \<longleftrightarrow>
     (\<exists>expires. th_expires_at (ti_time_horizon i) = Some expires
        \<and> score_filled_trade_idea (en_rhash env) exit_plan_scoring_levels None i (xo_filled_at x)
            (xo_fill_price x) bars = Inr (xo_result x)
        \<and> OUTCOME_TO_RESOLUTION (rr_outcome (xo_result x)) = Some (xo_resolution x)
        \<and> (rr_outcome (xo_result x) = TIMED_OUT \<longrightarrow> expires \<le> now) \<and> bars \<noteq> [])"

lemma judge_score_exit:
  assumes "judge_score env i (expires \<le> now) bars f entry quantity t projected = Inr (Exit x)"
    and "th_expires_at (ti_time_horizon i) = Some expires" and "bars \<noteq> []"
  shows "justified_exit env i bars now x"
  using assms
  by (auto simp: judge_score_def justified_exit_def split: sum.splits option.splits if_splits)

lemma exit_decision_exit:
  assumes "exit_decision_of env table now fallback v repo = Inr (Exit x)"
  shows "\<exists>bars. map_of table (str_lower (ti_instrument (vw_idea v))) = Some bars
            \<and> justified_exit env (vw_idea v) bars now x"
  using assms
  by (cases "map_of table (str_lower (ti_instrument (vw_idea v)))")
    (auto simp: exit_decision_of_def Let_def rbind_Inr_iff intro: judge_score_exit split: option.splits if_splits)


text \<open>A fill recorded at four, without a quantity, and two bars of which the later reaches the stop.\<close>

definition ex_open_view :: trade_idea_view where
  "ex_open_view =
     \<lparr>vw_idea = ex_idea, vw_state = FILLED, vw_events = [ex_filled_event\<lparr>ae_evidence := []\<rparr>], vw_closeout = None\<rparr>"

definition ex_exit_table :: "(string \<times> candle list) list" where
  "ex_exit_table = [(''btc-usd'', [ex_bar 6 105 94 95, ex_bar 5 101 99 100])]"

abbreviation ex_exit :: "exit_decision result" where
  "ex_exit \<equiv> exit_decision_of ex_env ex_exit_table (hours 7) None ex_open_view (wd_repo ex_start)"

lemma ex_exit_stopped: "\<exists>x. ex_exit = Inr (Exit x) \<and> xo_resolution x = INVALIDATION"
proof -
  have "(case ex_exit of Inr (Exit x) \<Rightarrow> xo_resolution x = INVALIDATION | _ \<Rightarrow> False)" by code_simp
  then show ?thesis by (auto split: sum.splits exit_decision.splits)
qed


section \<open>A pass keeps the committed state readable\<close>

lemma record_exit_ok: "preserves (repo_ok env) (record_exit env as_of now aid i x)"
  unfolding record_exit_def
  by (auto intro!: preserves_rules service.run_write_preserves record_simulated_close_ok record_closeout_ok
      split: option.split)

lemma resolve_one_ok: "preserves (repo_ok env) (resolve_one env table as_of now aid fallback v)"
  unfolding resolve_one_def
  by (auto intro!: preserves_rules record_exit_ok split: exit_decision.split)

lemma exit_pass_ok: "preserves (repo_ok env) (resolve_filled_ideas env resolver snapshot now aid fallbacks)"
  unfolding resolve_filled_ideas_def resolve_view_def
  by (auto intro!: preserves_rules resolve_one_ok split: prod.split option.split)

end
