(* ===== verification/Orders_Store.thy ===== *)
theory Orders_Store
  imports Core_Trading
begin

text \<open>
  The durable order records of the live engine, \<^verbatim>\<open>src/gpt_trader/persistence/orders_models.py\<close> and
  \<^verbatim>\<open>orders_store.py\<close>. The table \<^verbatim>\<open>orders\<close> is the list of its rows in the order of their row numbers, a
  row as \<^verbatim>\<open>_row_to_record\<close> reads it back (\<open>stored\<close>). Every writer is one transaction: it gives its
  result and the tables it leaves, or an exception, after which the tables are what they were.

  The environment \<open>orders_env\<close> holds the checksum of a payload, the clock, which is read once per
  call, and two functions of SQLite on a stored time: its text, by which rows are ordered, and the
  seconds its \<^verbatim>\<open>datetime\<close> counts. A comparison with a \<^verbatim>\<open>Decimal\<close> that is not finite counts as that
  with a NaN. Connections, threads, locks and backups are outside the model.

  The lemmas: the writers keep client and venue identities unique, and a record only advances: its
  filled quantity never falls, a terminal receipt and an admitted intent stay.
\<close>

section \<open>Records\<close>

datatype record_status =
  RS_PENDING | RS_OPEN | RS_PARTIALLY_FILLED | RS_FILLED | RS_CANCELLED | RS_REJECTED | RS_EXPIRED | RS_FAILED

fun record_status_value :: "record_status \<Rightarrow> string" where
  "record_status_value RS_PENDING = ''pending''"
| "record_status_value RS_OPEN = ''open''"
| "record_status_value RS_PARTIALLY_FILLED = ''partially_filled''"
| "record_status_value RS_FILLED = ''filled''"
| "record_status_value RS_CANCELLED = ''cancelled''"
| "record_status_value RS_REJECTED = ''rejected''"
| "record_status_value RS_EXPIRED = ''expired''"
| "record_status_value RS_FAILED = ''failed''"

definition VENUE_TERMINAL_ORDER_STATUSES :: "record_status list" where
  "VENUE_TERMINAL_ORDER_STATUSES = [RS_FILLED, RS_CANCELLED, RS_EXPIRED, RS_REJECTED]"

record order_record =
  or_order_id :: string
  or_client_order_id :: string
  or_symbol :: string
  or_side :: string
  or_order_type :: string
  or_quantity :: py_decimal
  or_price :: "py_decimal option"
  or_status :: record_status
  or_filled_quantity :: py_decimal
  or_average_fill_price :: "py_decimal option"
  or_created_at :: py_datetime
  or_updated_at :: py_datetime
  or_bot_id :: "string option"
  or_time_in_force :: string
  or_metadata :: "payload option"
  or_checksum :: "string option"

text \<open>\<^verbatim>\<open>str(value) if value else None\<close> for an optional Decimal, and \<^verbatim>\<open>metadata or {}\<close>.\<close>

definition nonzero :: "py_decimal option \<Rightarrow> py_decimal option" where
  "nonzero x = (if x = Some (Finite 0) then None else x)"

definition metadata_of :: "order_record \<Rightarrow> payload" where
  "metadata_of r = (case or_metadata r of None \<Rightarrow> [] | Some m \<Rightarrow> m)"

definition order_record_to_dict :: "order_record \<Rightarrow> payload" where
  "order_record_to_dict r =
     [(''order_id'', JStr (or_order_id r)), (''client_order_id'', JStr (or_client_order_id r)),
      (''symbol'', JStr (or_symbol r)), (''side'', JStr (or_side r)), (''order_type'', JStr (or_order_type r)),
      (''quantity'', JDec (or_quantity r)), (''price'', jdec_option (nonzero (or_price r))),
      (''status'', JStr (record_status_value (or_status r))),
      (''filled_quantity'', JDec (or_filled_quantity r)),
      (''average_fill_price'', jdec_option (nonzero (or_average_fill_price r))),
      (''created_at'', isoformat (or_created_at r)), (''updated_at'', isoformat (or_updated_at r)),
      (''bot_id'', jstr_option (or_bot_id r)), (''time_in_force'', JStr (or_time_in_force r)),
      (''metadata'', (case or_metadata r of None \<Rightarrow> JNull | Some m \<Rightarrow> JObj m))]"

text \<open>
  \<^verbatim>\<open>OrderRecord.from_dict\<close>. A decimal that is given as a number is read as one, a missing or empty
  optional decimal is \<^verbatim>\<open>None\<close>.
\<close>

definition record_statuses :: "record_status list" where
  "record_statuses = [RS_PENDING, RS_OPEN, RS_PARTIALLY_FILLED, RS_FILLED, RS_CANCELLED, RS_REJECTED, RS_EXPIRED, RS_FAILED]"

definition record_decimal :: "payload \<Rightarrow> string \<Rightarrow> py_decimal option result" where
  "record_decimal p k =
     (case map_of p k of None \<Rightarrow> Inr None
      | Some v \<Rightarrow> if jtrue v then rbind (jdecimal v) (\<lambda>d. Inr (Some d)) else Inr None)"

definition order_record_from_dict :: "payload \<Rightarrow> order_record result" where
  "order_record_from_dict p =
     rbind (rbind (jget p ''order_id'') jstr) (\<lambda>oid.
     rbind (rbind (jget p ''client_order_id'') jstr) (\<lambda>cid.
     rbind (rbind (jget p ''symbol'') jstr) (\<lambda>symbol.
     rbind (rbind (jget p ''side'') jstr) (\<lambda>side.
     rbind (rbind (jget p ''order_type'') jstr) (\<lambda>kind.
     rbind (rbind (jget p ''quantity'') jdecimal) (\<lambda>quantity.
     rbind (record_decimal p ''price'') (\<lambda>price.
     rbind (rbind (rbind (jget p ''status'') jstr) (enum_of record_status_value record_statuses)) (\<lambda>status.
     rbind (rbind (jget p ''filled_quantity'') jdecimal) (\<lambda>filled.
     rbind (record_decimal p ''average_fill_price'') (\<lambda>average.
     rbind (rbind (jget p ''created_at'') jdatetime) (\<lambda>created.
     rbind (rbind (jget p ''updated_at'') jdatetime) (\<lambda>updated.
     rbind (ropt jstr (jopt p ''bot_id'')) (\<lambda>bot_id.
     rbind (case map_of p ''time_in_force'' of None \<Rightarrow> Inr ''GTC'' | Some v \<Rightarrow> jstr v) (\<lambda>tif.
     rbind (ropt jobj (jopt p ''metadata'')) (\<lambda>metadata.
     rbind (ropt jstr (jopt p ''checksum'')) (\<lambda>checksum.
     Inr \<lparr>or_order_id = oid, or_client_order_id = cid, or_symbol = symbol, or_side = side, or_order_type = kind,
          or_quantity = quantity, or_price = price, or_status = status, or_filled_quantity = filled,
          or_average_fill_price = average, or_created_at = created, or_updated_at = updated, or_bot_id = bot_id,
          or_time_in_force = tif, or_metadata = metadata, or_checksum = checksum\<rparr>))))))))))))))))"

lemma record_status_roundtrip: "enum_of record_status_value record_statuses (record_status_value s) = Inr s"
  by (cases s) (simp_all add: enum_of_def record_statuses_def)

lemma record_decimal_written:
  "map_of p k = Some (jdec_option (nonzero x)) \<Longrightarrow> record_decimal p k = Inr (nonzero x)"
  by (cases "nonzero x") (simp_all add: record_decimal_def jdec_option_def)

text \<open>
  A record written as a dictionary is read back but for its checksum and a price of zero, which
  is written as no price.
\<close>

lemma order_record_roundtrip:
  "order_record_from_dict (order_record_to_dict r) =
     Inr (r\<lparr>or_price := nonzero (or_price r), or_average_fill_price := nonzero (or_average_fill_price r),
            or_checksum := None\<rparr>)"
proof -
  have price: "record_decimal (order_record_to_dict r) ''price'' = Inr (nonzero (or_price r))"
    by (rule record_decimal_written) (simp add: order_record_to_dict_def)
  have average: "record_decimal (order_record_to_dict r) ''average_fill_price'' = Inr (nonzero (or_average_fill_price r))"
    by (rule record_decimal_written) (simp add: order_record_to_dict_def)
  have bot: "ropt jstr (jopt (order_record_to_dict r) ''bot_id'') = Inr (or_bot_id r)"
    by (simp add: order_record_to_dict_def jopt_def jstr_option_def split: option.split)
  have metadata: "ropt jobj (jopt (order_record_to_dict r) ''metadata'') = Inr (or_metadata r)"
    by (simp add: order_record_to_dict_def jopt_def split: option.split)
  have checksum: "jopt (order_record_to_dict r) ''checksum'' = None"
    by (simp add: order_record_to_dict_def jopt_def)
  have plain: "jget (order_record_to_dict r) ''order_id'' = Inr (JStr (or_order_id r))"
    "jget (order_record_to_dict r) ''client_order_id'' = Inr (JStr (or_client_order_id r))"
    "jget (order_record_to_dict r) ''symbol'' = Inr (JStr (or_symbol r))"
    "jget (order_record_to_dict r) ''side'' = Inr (JStr (or_side r))"
    "jget (order_record_to_dict r) ''order_type'' = Inr (JStr (or_order_type r))"
    "jget (order_record_to_dict r) ''quantity'' = Inr (JDec (or_quantity r))"
    "jget (order_record_to_dict r) ''status'' = Inr (JStr (record_status_value (or_status r)))"
    "jget (order_record_to_dict r) ''filled_quantity'' = Inr (JDec (or_filled_quantity r))"
    "jget (order_record_to_dict r) ''created_at'' = Inr (isoformat (or_created_at r))"
    "jget (order_record_to_dict r) ''updated_at'' = Inr (isoformat (or_updated_at r))"
    "map_of (order_record_to_dict r) ''time_in_force'' = Some (JStr (or_time_in_force r))"
    by (simp_all add: order_record_to_dict_def jget_def)
  show ?thesis
    unfolding order_record_from_dict_def plain price average bot metadata checksum
    by (simp add: record_status_roundtrip)
qed

record orders_env =
  oe_hash :: "payload \<Rightarrow> string"
  oe_now :: instant
  oe_text :: "py_datetime \<Rightarrow> string"
  oe_seconds :: "py_datetime \<Rightarrow> int option"

text \<open>\<^verbatim>\<open>type(version) is not int or version not in {1, 2}\<close>: the version, when it is supported.\<close>

definition checksum_version :: "order_record \<Rightarrow> int option" where
  "checksum_version r =
     (case map_of (metadata_of r) ''record_checksum_version'' of
        None \<Rightarrow> Some 1
      | Some (JInt v) \<Rightarrow> if v = 1 \<or> v = 2 then Some v else None
      | Some _ \<Rightarrow> None)"

definition critical_fields :: "order_record \<Rightarrow> payload" where
  "critical_fields r =
     [(''order_id'', JStr (or_order_id r)), (''symbol'', JStr (or_symbol r)), (''side'', JStr (or_side r)),
      (''quantity'', JDec (or_quantity r)), (''price'', jdec_option (nonzero (or_price r)))]"

definition compute_checksum :: "orders_env \<Rightarrow> order_record \<Rightarrow> string result" where
  "compute_checksum env r =
     (case checksum_version r of
        None \<Rightarrow> Inl (ValueError ''Unsupported order checksum version'')
      | Some v \<Rightarrow> Inr (oe_hash env (if v = 2 then order_record_to_dict r else critical_fields r)))"

definition checksum_is_valid :: "orders_env \<Rightarrow> order_record \<Rightarrow> bool" where
  "checksum_is_valid env r \<longleftrightarrow>
     (case checksum_version r of
        None \<Rightarrow> False
      | Some v \<Rightarrow>
          if map_of (metadata_of r) ''intent'' \<noteq> None \<and> v \<noteq> 2 then False
          else case or_checksum r of
                 None \<Rightarrow> v = 1
               | Some c \<Rightarrow> if c = [] then v = 1 else compute_checksum env r = Inr c)"

definition is_terminal :: "order_record \<Rightarrow> bool" where
  "is_terminal r \<longleftrightarrow> or_status r \<in> {RS_FILLED, RS_CANCELLED, RS_REJECTED, RS_EXPIRED, RS_FAILED}"

definition venue_terminal :: "order_record \<Rightarrow> bool" where
  "venue_terminal r \<longleftrightarrow> or_status r \<in> set VENUE_TERMINAL_ORDER_STATUSES"

section \<open>Tables\<close>

text \<open>A row of the accounting tables: two indexed columns, the payload and its checksum.\<close>

record evidence_row =
  ev_owner :: string
  ev_key :: string
  ev_payload :: payload
  ev_checksum :: string

record orders_db =
  od_orders :: "order_record list"
  od_facts :: "evidence_row list"
  od_observations :: "evidence_row list"
  od_baselines :: "evidence_row list"

definition empty_orders :: orders_db where
  "empty_orders = \<lparr>od_orders = [], od_facts = [], od_observations = [], od_baselines = []\<rparr>"

text \<open>The columns written for a record and read back.\<close>

definition stored :: "order_record \<Rightarrow> string \<Rightarrow> order_record" where
  "stored r c =
     r\<lparr>or_price := nonzero (or_price r), or_average_fill_price := nonzero (or_average_fill_price r),
       or_time_in_force := (if or_time_in_force r = [] then ''GTC'' else or_time_in_force r),
       or_metadata := (if metadata_of r = [] then None else or_metadata r), or_checksum := Some c\<rparr>"

definition get_order :: "orders_db \<Rightarrow> string \<Rightarrow> order_record option" where
  "get_order db oid = find (\<lambda>r. or_order_id r = oid) (od_orders db)"

definition of_client :: "string \<Rightarrow> orders_db \<Rightarrow> order_record list" where
  "of_client c db = filter (\<lambda>r. or_client_order_id r = c) (od_orders db)"

definition get_order_by_client_order_id :: "orders_env \<Rightarrow> orders_db \<Rightarrow> string \<Rightarrow> order_record option result" where
  "get_order_by_client_order_id env db c =
     (case of_client c db of
        [] \<Rightarrow> Inr None
      | [r] \<Rightarrow> if checksum_is_valid env r then Inr (Some r) else Inl (WriteError ''Existing order checksum mismatch'')
      | _ \<Rightarrow> Inl (WriteError ''Multiple orders share one client order ID''))"

text \<open>\<^verbatim>\<open>INSERT OR REPLACE\<close>: a row with the same venue identity makes room for the new one.\<close>

definition insert_or_replace :: "order_record \<Rightarrow> orders_db \<Rightarrow> orders_db" where
  "insert_or_replace r db =
     db\<lparr>od_orders := filter (\<lambda>x. or_order_id x \<noteq> or_order_id r) (od_orders db) @ [r]\<rparr>"

section \<open>Writers\<close>

datatype write_result = WriteOk "string option" | WriteFailed

definition save_order :: "orders_env \<Rightarrow> order_record \<Rightarrow> orders_db \<Rightarrow> (write_result \<times> orders_db) result" where
  "save_order env r db =
     rbind (compute_checksum env r) (\<lambda>c. Inr (WriteOk (Some c), insert_or_replace (stored r c) db))"

definition reserve_submission ::
  "orders_env \<Rightarrow> order_record \<Rightarrow> orders_db \<Rightarrow> (order_record option \<times> orders_db) result" where
  "reserve_submission env r db =
     (case of_client (or_client_order_id r) db of
        [] \<Rightarrow>
          rbind (raise_if (get_order db (or_order_id r) \<noteq> None)
                   (WriteError ''Order ID already belongs to another client identity'')) (\<lambda>_.
          rbind (save_order env r db) (\<lambda>(_, db'). Inr (None, db')))
      | [existing] \<Rightarrow>
          rbind (raise_if (\<not> checksum_is_valid env existing) (WriteError ''Existing order checksum mismatch'')) (\<lambda>_.
          Inr (Some existing, db))
      | _ \<Rightarrow> Inl (WriteError ''Multiple orders share one client order ID''))"

text \<open>\<^verbatim>\<open>==\<close> of two decimals, and \<^verbatim>\<open><\<close>, which raises on a NaN.\<close>

fun same_number :: "py_decimal \<Rightarrow> py_decimal \<Rightarrow> bool" where
  "same_number (Finite a) (Finite b) = (a = b)"
| "same_number _ _ = False"

fun less_number :: "py_decimal \<Rightarrow> py_decimal \<Rightarrow> bool result" where
  "less_number (Finite a) (Finite b) = Inr (a < b)"
| "less_number _ _ = Inl (ArithmeticError ''InvalidOperation'')"

text \<open>
  \<^verbatim>\<open>==\<close> of two JSON values: numbers and truth values by their number, objects without regard to
  the order of their keys.
\<close>

fun plain_number :: "json \<Rightarrow> py_decimal option" where
  "plain_number (JBool b) = Some (Finite (if b then 1 else 0))"
| "plain_number (JInt n) = Some (Finite (of_int n))"
| "plain_number (JNum d) = Some d"
| "plain_number _ = None"

fun same_json :: "json \<Rightarrow> json \<Rightarrow> bool"
  and same_list :: "json list \<Rightarrow> json list \<Rightarrow> bool"
  and same_members :: "payload \<Rightarrow> payload \<Rightarrow> bool" where
  "same_json (JObj p) b = (case b of JObj q \<Rightarrow> length p = length q \<and> same_members p q | _ \<Rightarrow> False)"
| "same_json (JArr xs) b = (case b of JArr ys \<Rightarrow> same_list xs ys | _ \<Rightarrow> False)"
| "same_json a b =
     (case (plain_number a, plain_number b) of
        (Some x, Some y) \<Rightarrow> same_number x y
      | (None, None) \<Rightarrow> a = b
      | _ \<Rightarrow> False)"
| "same_list [] ys = (ys = [])"
| "same_list (x # xs) ys = (case ys of [] \<Rightarrow> False | y # ys' \<Rightarrow> same_json x y \<and> same_list xs ys')"
| "same_members [] q = True"
| "same_members ((k, v) # p) q =
     ((case map_of q k of None \<Rightarrow> False | Some w \<Rightarrow> same_json v w) \<and> same_members p q)"

definition IMMUTABLE_KEYS :: "string list" where
  "IMMUTABLE_KEYS = [''intent'', ''record_checksum_version'', ''reduce_only'', ''leverage'']"

definition immutable_conflict :: "payload \<Rightarrow> payload \<Rightarrow> string \<Rightarrow> bool" where
  "immutable_conflict original new key \<longleftrightarrow>
     (case map_of new key of
        None \<Rightarrow> False
      | Some v \<Rightarrow> \<not> same_json v (case map_of original key of None \<Rightarrow> JNull | Some w \<Rightarrow> w))"

text \<open>\<^verbatim>\<open>{**original, **new}\<close>: the keys of the first with the values of the second, then its other keys.\<close>

definition merged :: "payload \<Rightarrow> payload \<Rightarrow> payload" where
  "merged original new =
     map (\<lambda>(k, v). (k, case map_of new k of None \<Rightarrow> v | Some w \<Rightarrow> w)) original
     @ filter (\<lambda>(k, _). map_of original k = None) new"

definition receipt_of_record :: "order_record \<Rightarrow> receipt" where
  "receipt_of_record r =
     \<lparr>rc_client_id = Some (or_client_order_id r), rc_symbol = Some (or_symbol r), rc_side = Some (or_side r),
      rc_type = Some (or_order_type r), rc_quantity = Some (or_quantity r), rc_reduce_only = None,
      rc_filled_quantity = Some (Parsed (or_filled_quantity r)),
      rc_status = Some (record_status_value (or_status r)),
      rc_avg_fill_price = map_option Parsed (or_average_fill_price r)\<rparr>"

definition same_receipt :: "order_record \<Rightarrow> order_record \<Rightarrow> bool" where
  "same_receipt existing r \<longleftrightarrow>
     or_status r = or_status existing \<and> or_order_id r = or_order_id existing
     \<and> or_client_order_id r = or_client_order_id existing \<and> or_symbol r = or_symbol existing
     \<and> str_lower (or_side r) = str_lower (or_side existing)
     \<and> same_number (or_quantity r) (or_quantity existing)
     \<and> same_number (or_filled_quantity r) (or_filled_quantity existing)
     \<and> (case or_average_fill_price existing of
          None \<Rightarrow> True
        | Some p \<Rightarrow> (case or_average_fill_price r of None \<Rightarrow> False | Some q \<Rightarrow> same_number q p))"

text \<open>The first part of \<^verbatim>\<open>_preserve_intent\<close>: what the intent of the existing record makes of the new one.\<close>

definition bound_by_intent :: "order_record \<Rightarrow> order_record \<Rightarrow> order_record result" where
  "bound_by_intent existing r =
     (let original = metadata_of existing; new = metadata_of r in
      case map_of original ''intent'' of
        Some intent \<Rightarrow>
          rbind (raise_if (list_ex (immutable_conflict original new) IMMUTABLE_KEYS)
                   (WriteError ''Order update conflicts with immutable'')) (\<lambda>_.
          let r' = r\<lparr>or_metadata := Some (merged original new), or_created_at := or_created_at existing\<rparr> in
          rbind (rbind (jobj intent) order_intent_from_dict) (\<lambda>i.
          rbind (validate_receipt i (Some (receipt_of_record r'))) (\<lambda>_.
          Inr r')))
      | None \<Rightarrow>
          Inr (if map_of new ''record_checksum_version'' = Some (JInt 2)
               then r\<lparr>or_created_at := or_created_at existing\<rparr> else r))"

definition preserve_intent :: "order_record \<Rightarrow> order_record \<Rightarrow> order_record result" where
  "preserve_intent existing r0 =
     rbind (bound_by_intent existing r0) (\<lambda>r.
     rbind (raise_if (case or_filled_quantity r of NonFinite \<Rightarrow> True | Finite q \<Rightarrow> q < 0)
              (WriteError ''Order update has invalid fill quantity'')) (\<lambda>_.
     rbind (less_number (or_filled_quantity r) (or_filled_quantity existing)) (\<lambda>falls.
     rbind (raise_if falls (WriteError ''Order update decreases observed fill quantity'')) (\<lambda>_.
     rbind (raise_if (venue_terminal existing \<and> \<not> same_receipt existing r)
              (WriteError ''Order update conflicts with terminal fill receipt'')) (\<lambda>_.
     Inr r)))))"

text \<open>The exceptions \<^verbatim>\<open>upsert_by_client_id\<close> turns into a failed write.\<close>

fun write_caught :: "py_error \<Rightarrow> bool" where
  "write_caught (WriteError _) = True"
| "write_caught (SqliteError _) = True"
| "write_caught (ValueError _) = True"
| "write_caught (InstrumentParseError _) = True"
| "write_caught (AccountingIntegrityError _) = True"
| "write_caught (ArithmeticError _) = True"
| "write_caught _ = False"

text \<open>\<^verbatim>\<open>UPDATE orders ... WHERE client_order_id = ?\<close>, which leaves the time of creation.\<close>

definition update_client :: "order_record \<Rightarrow> orders_db \<Rightarrow> orders_db" where
  "update_client r db =
     db\<lparr>od_orders := map (\<lambda>x. if or_client_order_id x = or_client_order_id r
                               then r\<lparr>or_created_at := or_created_at x\<rparr> else x) (od_orders db)\<rparr>"

definition upsert :: "orders_env \<Rightarrow> order_record \<Rightarrow> orders_db \<Rightarrow> (write_result \<times> orders_db) result" where
  "upsert env r0 db =
     rbind (get_order_by_client_order_id env db (or_client_order_id r0)) (\<lambda>found.
     rbind (case found of None \<Rightarrow> Inr r0 | Some existing \<Rightarrow> preserve_intent existing r0) (\<lambda>r.
     rbind (compute_checksum env r) (\<lambda>c.
     if found = None then Inr (WriteOk (Some c), insert_or_replace (stored r c) db)
     else
       rbind (raise_if (list_ex (\<lambda>x. or_order_id x = or_order_id r \<and> or_client_order_id x \<noteq> or_client_order_id r)
                          (od_orders db)) (SqliteError ''UNIQUE constraint failed: orders.order_id'')) (\<lambda>_.
       Inr (WriteOk (Some c), update_client (stored r c) db)))))"

definition upsert_by_client_id ::
  "orders_env \<Rightarrow> order_record \<Rightarrow> bool \<Rightarrow> orders_db \<Rightarrow> (write_result \<times> orders_db) result" where
  "upsert_by_client_id env r raise_on_error db =
     (case upsert env r db of
        Inr done' \<Rightarrow> Inr done'
      | Inl e \<Rightarrow>
          if \<not> write_caught e then Inl e
          else if raise_on_error then Inl (WriteError ''Failed to upsert order'')
          else Inr (WriteFailed, db))"

fun status_caught :: "py_error \<Rightarrow> bool" where
  "status_caught (WriteError _) = True"
| "status_caught (SqliteError _) = True"
| "status_caught _ = False"

definition update_record ::
  "orders_env \<Rightarrow> order_record \<Rightarrow> record_status \<Rightarrow> py_decimal option \<Rightarrow> py_decimal option \<Rightarrow> order_record" where
  "update_record env original status filled average =
     original\<lparr>or_status := status, or_updated_at := Aware (oe_now env),
       or_filled_quantity := (case filled of None \<Rightarrow> or_filled_quantity original | Some q \<Rightarrow> q),
       or_average_fill_price := (case average of None \<Rightarrow> or_average_fill_price original | Some p \<Rightarrow> Some p)\<rparr>"

definition update_status ::
  "orders_env \<Rightarrow> string \<Rightarrow> record_status \<Rightarrow> py_decimal option \<Rightarrow> py_decimal option \<Rightarrow> orders_db \<Rightarrow>
   (write_result \<times> orders_db) result" where
  "update_status env oid status filled average db =
     (case
        (case get_order db oid of
           None \<Rightarrow> Inr db
         | Some original \<Rightarrow>
             rbind (raise_if (\<not> checksum_is_valid env original) (WriteError ''Existing order checksum mismatch'')) (\<lambda>_.
             rbind (preserve_intent original (update_record env original status filled average)) (\<lambda>r.
             rbind (save_order env r db) (\<lambda>(_, db'). Inr db'))))
      of Inr db' \<Rightarrow> Inr (WriteOk None, db')
       | Inl e \<Rightarrow> if status_caught e then Inr (WriteFailed, db) else Inl e)"

definition cleanup_old_orders :: "orders_env \<Rightarrow> int \<Rightarrow> int \<Rightarrow> orders_db \<Rightarrow> nat \<times> orders_db" where
  "cleanup_old_orders env now_seconds days' db =
     (let old = (\<lambda>r. is_terminal r \<and> (case oe_seconds env (or_updated_at r) of
                   None \<Rightarrow> False | Some s \<Rightarrow> s < now_seconds - days' * 86400))
      in (length (filter old (od_orders db)), db\<lparr>od_orders := filter (\<lambda>r. \<not> old r) (od_orders db)\<rparr>))"

section \<open>Queries\<close>

definition non_terminal :: "order_record \<Rightarrow> bool" where
  "non_terminal r \<longleftrightarrow> or_status r \<in> {RS_PENDING, RS_OPEN, RS_PARTIALLY_FILLED}"

definition by_creation :: "orders_env \<Rightarrow> order_record list \<Rightarrow> order_record list" where
  "by_creation env = sort_key (\<lambda>r. oe_text env (or_created_at r))"

definition get_pending_orders :: "orders_env \<Rightarrow> orders_db \<Rightarrow> string option \<Rightarrow> order_record list" where
  "get_pending_orders env db bot_id =
     by_creation env (filter (\<lambda>r. non_terminal r
       \<and> (case bot_id of None \<Rightarrow> True | Some b \<Rightarrow> b = [] \<or> or_bot_id r = Some b)) (od_orders db))"

definition get_orders_by_symbol :: "orders_env \<Rightarrow> orders_db \<Rightarrow> string \<Rightarrow> bool \<Rightarrow> order_record list" where
  "get_orders_by_symbol env db symbol include_terminal =
     rev (by_creation env (filter (\<lambda>r. or_symbol r = symbol \<and> (include_terminal \<or> non_terminal r)) (od_orders db)))"

definition list_orders ::
  "orders_env \<Rightarrow> orders_db \<Rightarrow> int \<Rightarrow> string option \<Rightarrow> record_status option \<Rightarrow> order_record list result" where
  "list_orders env db limit symbol status =
     (if limit < 1 then Inl (ValueError ''limit must be at least 1'')
      else Inr (take (nat limit)
        (rev (sort_key (\<lambda>r. oe_text env (or_updated_at r)) (rev (sort_key or_order_id
          (filter (\<lambda>r. (case symbol of None \<Rightarrow> True | Some s \<Rightarrow> s = [] \<or> or_symbol r = s)
                      \<and> (case status of None \<Rightarrow> True | Some s \<Rightarrow> or_status r = s)) (od_orders db))))))))"

definition verify_integrity :: "orders_env \<Rightarrow> orders_db \<Rightarrow> nat \<times> string list" where
  "verify_integrity env db =
     (length (filter (checksum_is_valid env) (od_orders db)),
      map or_order_id (filter (\<lambda>r. \<not> checksum_is_valid env r) (od_orders db)))"

section \<open>What a row keeps\<close>

definition orders_ok :: "orders_db \<Rightarrow> bool" where
  "orders_ok db \<longleftrightarrow>
     distinct (map or_order_id (od_orders db)) \<and> distinct (map or_client_order_id (od_orders db))
     \<and> (\<forall>r\<in>set (od_orders db). or_time_in_force r \<noteq> [])"

definition at_least :: "py_decimal \<Rightarrow> py_decimal \<Rightarrow> bool" where
  "at_least x y \<longleftrightarrow> x = y \<or> less_number x y = Inr False"

definition keeps_receipt :: "order_record \<Rightarrow> order_record \<Rightarrow> bool" where
  "keeps_receipt x y \<longleftrightarrow>
     or_status y = or_status x \<and> or_order_id y = or_order_id x \<and> or_symbol y = or_symbol x
     \<and> str_lower (or_side y) = str_lower (or_side x) \<and> or_quantity y = or_quantity x
     \<and> or_filled_quantity y = or_filled_quantity x
     \<and> (nonzero (or_average_fill_price x) \<noteq> None \<longrightarrow> or_average_fill_price y = or_average_fill_price x)"

definition keeps_intent :: "order_record \<Rightarrow> order_record \<Rightarrow> bool" where
  "keeps_intent x y \<longleftrightarrow>
     (\<forall>i. map_of (metadata_of x) ''intent'' = Some i \<longrightarrow>
        (\<exists>j. map_of (metadata_of y) ''intent'' = Some j \<and> (j = i \<or> same_json j i)))"

text \<open>The later form of a record: what no writer of the store may take back.\<close>

definition advances :: "order_record \<Rightarrow> order_record \<Rightarrow> bool" where
  "advances x y \<longleftrightarrow>
     or_client_order_id y = or_client_order_id x \<and> at_least (or_filled_quantity y) (or_filled_quantity x)
     \<and> (venue_terminal x \<longrightarrow> keeps_receipt x y) \<and> keeps_intent x y"

definition evolves :: "orders_db \<Rightarrow> orders_db \<Rightarrow> bool" where
  "evolves db db' \<longleftrightarrow> (\<forall>x\<in>set (od_orders db). \<exists>y\<in>set (od_orders db'). advances x y)"

lemma same_number_eq: "same_number a b \<Longrightarrow> a = b"
  by (cases "(a, b)" rule: same_number.cases) auto

lemma same_number_trans: "same_number a b \<Longrightarrow> same_number b c \<Longrightarrow> same_number a c"
  using same_number_eq by blast

lemma same_json_number:
  "plain_number a = Some x \<Longrightarrow> same_json a b \<longleftrightarrow> (\<exists>y. plain_number b = Some y \<and> same_number x y)"
  by (cases a) (auto split: option.splits)

lemma same_json_number_trans:
  assumes "plain_number a = Some x" and "same_json a b" and "same_json b c"
  shows "same_json a c"
proof -
  from same_json_number[OF assms(1)] assms(2) obtain y where y: "plain_number b = Some y" "same_number x y" by blast
  from same_json_number[OF y(1)] assms(3) obtain z where z: "plain_number c = Some z" "same_number y z" by blast
  show ?thesis using same_json_number[OF assms(1)] z(1) same_number_trans[OF y(2) z(2)] by blast
qed

lemma same_members_get: "same_members p q \<Longrightarrow> map_of p k = Some v \<Longrightarrow> \<exists>w. map_of q k = Some w \<and> same_json v w"
  by (induction p) (auto split: option.splits if_splits)

lemma same_json_trans:
  "same_json a b \<Longrightarrow> same_json b c \<Longrightarrow> same_json a c"
  "same_list xs ys \<Longrightarrow> same_list ys zs \<Longrightarrow> same_list xs zs"
  "same_members p q \<Longrightarrow> same_members q m \<Longrightarrow> same_members p m"
proof (induction a b and xs ys and p q arbitrary: c and zs and m rule: same_json_same_list_same_members.induct)
  case (7 k v p q)
  then obtain w where w: "map_of q k = Some w" "same_json v w" "same_members p q"
    by (auto split: option.splits)
  from same_members_get[OF "7.prems"(2) w(1)] obtain u where "map_of m k = Some u" "same_json w u" by blast
  with 7 w show ?case by (auto split: option.splits)
qed (((rule same_json_number_trans[OF plain_number.simps(1)] same_json_number_trans[OF plain_number.simps(2)]
        same_json_number_trans[OF plain_number.simps(3)], assumption, assumption)
     | (auto split: json.splits option.splits list.splits)[1])+)

lemma at_least_refl [simp]: "at_least x x"
  by (simp add: at_least_def)

lemma at_least_trans: "at_least z y \<Longrightarrow> at_least y x \<Longrightarrow> at_least z x"
  by (cases x; cases y; cases z) (auto simp: at_least_def)

lemma keeps_receipt_trans:
  "keeps_receipt x y \<Longrightarrow> keeps_receipt y z \<Longrightarrow> keeps_receipt x z"
  by (auto simp: keeps_receipt_def)

lemma keeps_intent_trans:
  assumes "keeps_intent x y" and "keeps_intent y z"
  shows "keeps_intent x z"
proof (unfold keeps_intent_def, intro allI impI)
  fix i
  assume "map_of (metadata_of x) ''intent'' = Some i"
  with assms(1) obtain j where j: "map_of (metadata_of y) ''intent'' = Some j" "j = i \<or> same_json j i"
    by (auto simp: keeps_intent_def)
  with assms(2) obtain k where "map_of (metadata_of z) ''intent'' = Some k" "k = j \<or> same_json k j"
    by (auto simp: keeps_intent_def)
  with j(2) show "\<exists>l. map_of (metadata_of z) ''intent'' = Some l \<and> (l = i \<or> same_json l i)"
    by (auto intro: same_json_trans(1))
qed

lemma advances_refl [simp]: "advances x x"
  by (simp add: advances_def keeps_receipt_def keeps_intent_def)

lemma keeps_receipt_terminal: "keeps_receipt x y \<Longrightarrow> venue_terminal x \<Longrightarrow> venue_terminal y"
  by (simp add: keeps_receipt_def venue_terminal_def)

lemma advances_trans:
  assumes "advances x y" and "advances y z"
  shows "advances x z"
  using assms at_least_trans[of "or_filled_quantity z" "or_filled_quantity y" "or_filled_quantity x"]
    keeps_receipt_trans[of x y z] keeps_intent_trans[of x y z] keeps_receipt_terminal[of x y]
  by (auto simp: advances_def)

lemma evolves_refl [simp]: "evolves db db"
  by (auto simp: evolves_def intro: advances_refl)

lemma evolves_trans: "evolves a b \<Longrightarrow> evolves b c \<Longrightarrow> evolves a c"
  unfolding evolves_def by (meson advances_trans)

section \<open>The writers\<close>

lemma stored_simps [simp]:
  "or_order_id (stored r c) = or_order_id r" "or_client_order_id (stored r c) = or_client_order_id r"
  "or_symbol (stored r c) = or_symbol r" "or_side (stored r c) = or_side r"
  "or_quantity (stored r c) = or_quantity r" "or_status (stored r c) = or_status r"
  "or_filled_quantity (stored r c) = or_filled_quantity r" "or_checksum (stored r c) = Some c"
  "or_average_fill_price (stored r c) = nonzero (or_average_fill_price r)"
  "metadata_of (stored r c) = metadata_of r" "or_time_in_force (stored r c) \<noteq> []"
  by (auto simp: stored_def metadata_of_def split: option.splits)

lemma metadata_of_created [simp]: "metadata_of (r\<lparr>or_created_at := t\<rparr>) = metadata_of r"
  by (simp add: metadata_of_def)

lemma nonzero_idem [simp]: "nonzero (nonzero x) = nonzero x"
  by (simp add: nonzero_def)

lemma map_of_merged:
  "map_of (merged p q) k = (case map_of q k of None \<Rightarrow> map_of p k | Some v \<Rightarrow> Some v)"
proof -
  have "map_of (map (\<lambda>(k, v). (k, case map_of q k of None \<Rightarrow> v | Some w \<Rightarrow> w)) p) k =
      (case map_of p k of None \<Rightarrow> None | Some v \<Rightarrow> Some (case map_of q k of None \<Rightarrow> v | Some w \<Rightarrow> w))"
    by (induction p) (auto split: option.splits)
  moreover have "map_of p k = None \<Longrightarrow> map_of (filter (\<lambda>(k, _). map_of p k = None) q) k = map_of q k"
    by (induction q) auto
  ultimately show ?thesis by (auto simp: merged_def map_add_def split: option.splits)
qed

lemma bound_by_intent_Inr:
  assumes "bound_by_intent e r0 = Inr r"
  shows "\<exists>m t. r = r0\<lparr>or_metadata := m, or_created_at := t\<rparr>"
    and "keeps_intent e r"
proof -
  show "\<exists>m t. r = r0\<lparr>or_metadata := m, or_created_at := t\<rparr>"
  proof (cases "map_of (metadata_of e) ''intent''")
    case None
    with assms consider "r = r0" | "r = r0\<lparr>or_created_at := or_created_at e\<rparr>"
      by (auto simp: bound_by_intent_def Let_def split: if_splits)
    then show ?thesis
    proof cases
      case 1
      then have "r = r0\<lparr>or_metadata := or_metadata r0, or_created_at := or_created_at r0\<rparr>" by simp
      then show ?thesis by blast
    next
      case 2
      then have "r = r0\<lparr>or_metadata := or_metadata r0, or_created_at := or_created_at e\<rparr>" by simp
      then show ?thesis by blast
    qed
  next
    case (Some i)
    with assms show ?thesis by (auto simp: bound_by_intent_def Let_def rbind_Inr_iff)
  qed
  show "keeps_intent e r"
  proof (unfold keeps_intent_def, intro allI impI)
    fix i
    assume i: "map_of (metadata_of e) ''intent'' = Some i"
    with assms have m: "metadata_of r = merged (metadata_of e) (metadata_of r0)"
      and ok: "\<not> immutable_conflict (metadata_of e) (metadata_of r0) ''intent''"
      by (auto simp: bound_by_intent_def Let_def rbind_Inr_iff IMMUTABLE_KEYS_def metadata_of_def
          split: if_splits)
    from ok i show "\<exists>j. map_of (metadata_of r) ''intent'' = Some j \<and> (j = i \<or> same_json j i)"
      by (auto simp: m map_of_merged immutable_conflict_def split: option.splits)
  qed
qed

lemma preserve_intent_Inr:
  assumes "preserve_intent e r0 = Inr r"
  shows "\<exists>m t. r = r0\<lparr>or_metadata := m, or_created_at := t\<rparr>"
    and "keeps_intent e r"
    and "at_least (or_filled_quantity r) (or_filled_quantity e)"
    and "venue_terminal e \<Longrightarrow> same_receipt e r"
  using assms bound_by_intent_Inr[of e r0 r]
  by (auto simp: preserve_intent_def rbind_Inr_iff at_least_def)

lemma preserve_intent_ids:
  assumes "preserve_intent e r0 = Inr r"
  shows "or_order_id r = or_order_id r0" "or_client_order_id r = or_client_order_id r0"
    "or_symbol r = or_symbol r0" "or_side r = or_side r0" "or_quantity r = or_quantity r0"
    "or_status r = or_status r0" "or_filled_quantity r = or_filled_quantity r0"
    "or_average_fill_price r = or_average_fill_price r0" "or_time_in_force r = or_time_in_force r0"
  using preserve_intent_Inr(1)[OF assms] by auto

lemma preserved_advances:
  assumes "preserve_intent e r0 = Inr r" and "or_client_order_id r0 = or_client_order_id e"
  shows "advances e ((stored r c)\<lparr>or_created_at := t\<rparr>)"
proof -
  note facts' = preserve_intent_Inr[OF assms(1)]
  have "keeps_intent e ((stored r c)\<lparr>or_created_at := t\<rparr>)"
    using facts'(2) by (simp add: keeps_intent_def)
  moreover have "keeps_receipt e ((stored r c)\<lparr>or_created_at := t\<rparr>)" if "venue_terminal e"
    using facts'(4)[OF that]
    by (auto simp: same_receipt_def keeps_receipt_def nonzero_def dest!: same_number_eq
        split: option.splits if_splits)
  ultimately show ?thesis
    using facts'(3) assms(2) preserve_intent_ids[OF assms(1)] by (simp add: advances_def)
qed

lemma insert_fresh:
  assumes ok: "orders_ok db" and fresh: "of_client (or_client_order_id r) db = []"
    and tif: "or_time_in_force r \<noteq> []"
  shows "orders_ok (insert_or_replace r db)"
    and "get_order db (or_order_id r) = None \<Longrightarrow> evolves db (insert_or_replace r db)"
proof -
  have new: "\<forall>x\<in>set (od_orders db). or_client_order_id r \<noteq> or_client_order_id x"
    using fresh by (auto simp: of_client_def filter_empty_conv)
  show "orders_ok (insert_or_replace r db)"
    using ok tif new by (auto simp: orders_ok_def insert_or_replace_def distinct_map_filter)
  show "evolves db (insert_or_replace r db)" if "get_order db (or_order_id r) = None"
    using that by (auto simp: evolves_def insert_or_replace_def get_order_def find_None_iff intro: advances_refl)
qed

lemma get_order_in: "get_order db i = Some x \<Longrightarrow> x \<in> set (od_orders db) \<and> or_order_id x = i"
  by (auto simp: get_order_def find_Some_iff)

lemma insert_over:
  assumes ok: "orders_ok db" and x: "get_order db (or_order_id r) = Some x"
    and adv: "advances x r" and tif: "or_time_in_force r \<noteq> []"
  shows "orders_ok (insert_or_replace r db)" and "evolves db (insert_or_replace r db)"
proof -
  have xin: "x \<in> set (od_orders db)" "or_order_id x = or_order_id r"
    using x by (auto simp: get_order_def find_Some_iff)
  have client: "or_client_order_id r = or_client_order_id x" using adv by (simp add: advances_def)
  have only: "y = x" if "y \<in> set (od_orders db)" "or_order_id y = or_order_id r" for y
    using ok that xin by (auto simp: orders_ok_def distinct_map inj_on_def)
  have other: "\<forall>y\<in>set (od_orders db). or_order_id y \<noteq> or_order_id r \<longrightarrow> or_client_order_id r \<noteq> or_client_order_id y"
    using ok xin client by (auto simp: orders_ok_def distinct_map inj_on_def)
  show "orders_ok (insert_or_replace r db)"
    using ok tif other by (auto simp: orders_ok_def insert_or_replace_def distinct_map_filter)
  show "evolves db (insert_or_replace r db)"
    using adv only by (auto simp: evolves_def insert_or_replace_def intro: advances_refl)
qed

lemma update_client_ids:
  "map or_client_order_id (od_orders (update_client r db)) = map or_client_order_id (od_orders db)"
  by (simp add: update_client_def)

lemma update_client_ok:
  assumes ok: "orders_ok db" and one: "of_client (or_client_order_id r) db = [e]"
    and clash: "\<And>x. x \<in> set (od_orders db) \<Longrightarrow> or_order_id x = or_order_id r \<Longrightarrow>
                  or_client_order_id x = or_client_order_id r"
    and adv: "advances e (r\<lparr>or_created_at := or_created_at e\<rparr>)" and tif: "or_time_in_force r \<noteq> []"
  shows "orders_ok (update_client r db)" and "evolves db (update_client r db)"
proof -
  have only: "x = e" if "x \<in> set (od_orders db)" "or_client_order_id x = or_client_order_id r" for x
  proof -
    from that have "x \<in> set (of_client (or_client_order_id r) db)" by (simp add: of_client_def)
    then show ?thesis by (simp add: one)
  qed
  define g where "g x = (if or_client_order_id x = or_client_order_id r then or_order_id r else or_order_id x)"
    for x :: order_record
  have "map or_order_id (od_orders (update_client r db)) = map g (od_orders db)"
    by (simp add: update_client_def g_def)
  moreover have "distinct (map g (od_orders db))"
    using ok clash only by (auto simp: orders_ok_def distinct_map inj_on_def g_def)
  ultimately have "distinct (map or_order_id (od_orders (update_client r db)))" by simp
  moreover have "\<forall>x\<in>set (od_orders (update_client r db)). or_time_in_force x \<noteq> []"
    using ok tif by (auto simp: orders_ok_def update_client_def)
  ultimately show "orders_ok (update_client r db)"
    using ok by (simp add: orders_ok_def update_client_ids)
  show "evolves db (update_client r db)"
    unfolding evolves_def
  proof
    fix x
    assume x: "x \<in> set (od_orders db)"
    show "\<exists>y\<in>set (od_orders (update_client r db)). advances x y"
    proof (cases "or_client_order_id x = or_client_order_id r")
      case True
      with only[OF x] x adv show ?thesis by (force simp: update_client_def)
    next
      case False
      with x show ?thesis by (force simp: update_client_def intro: advances_refl)
    qed
  qed
qed

text \<open>A write that keeps the identities unique, and one that also takes nothing back.\<close>

lemma save_order_Inr:
  "save_order env r db = Inr (w, db') \<Longrightarrow>
     \<exists>c. compute_checksum env r = Inr c \<and> w = WriteOk (Some c) \<and> db' = insert_or_replace (stored r c) db"
  by (auto simp: save_order_def rbind_Inr_iff)

lemma reserve_submission_Inr:
  assumes "reserve_submission env r db = Inr (res, db')"
  shows "(\<exists>e. res = Some e \<and> of_client (or_client_order_id r) db = [e] \<and> checksum_is_valid env e \<and> db' = db)
         \<or> (\<exists>c. res = None \<and> of_client (or_client_order_id r) db = [] \<and> get_order db (or_order_id r) = None
               \<and> compute_checksum env r = Inr c \<and> db' = insert_or_replace (stored r c) db)"
  using assms
  by (auto simp: reserve_submission_def rbind_Inr_iff split: list.splits dest!: save_order_Inr)

lemma reserve_submission_keeps:
  assumes "orders_ok db" and "reserve_submission env r db = Inr (res, db')"
  shows "orders_ok db'" and "evolves db db'"
  using reserve_submission_Inr[OF assms(2)] insert_fresh[OF assms(1)] assms(1) by (auto simp: evolves_refl)

lemma get_client_Inr:
  "get_order_by_client_order_id env db c = Inr None \<longleftrightarrow> of_client c db = []"
  "get_order_by_client_order_id env db c = Inr (Some e) \<longleftrightarrow> of_client c db = [e] \<and> checksum_is_valid env e"
  by (auto simp: get_order_by_client_order_id_def split: list.splits)

lemma upsert_Inr:
  assumes "upsert env r0 db = Inr (w, db')"
  shows "(\<exists>c. of_client (or_client_order_id r0) db = [] \<and> db' = insert_or_replace (stored r0 c) db)
         \<or> (\<exists>e r c. of_client (or_client_order_id r0) db = [e] \<and> checksum_is_valid env e
               \<and> preserve_intent e r0 = Inr r \<and> compute_checksum env r = Inr c
               \<and> (\<forall>x\<in>set (od_orders db). or_order_id x = or_order_id r \<longrightarrow>
                     or_client_order_id x = or_client_order_id r)
               \<and> db' = update_client (stored r c) db)"
proof -
  from assms obtain found where f: "get_order_by_client_order_id env db (or_client_order_id r0) = Inr found"
    by (auto simp: upsert_def rbind_Inr_iff)
  show ?thesis
  proof (cases found)
    case None
    with assms f show ?thesis by (auto simp: upsert_def rbind_Inr_iff get_client_Inr)
  next
    case (Some e)
    with assms f show ?thesis
      by (auto simp: upsert_def rbind_Inr_iff get_client_Inr list_ex_iff)
  qed
qed

lemma upsert_keeps:
  assumes ok: "orders_ok db" and up: "upsert env r0 db = Inr (w, db')"
  shows "orders_ok db'"
    and "of_client (or_client_order_id r0) db \<noteq> [] \<or> get_order db (or_order_id r0) = None \<Longrightarrow> evolves db db'"
proof -
  have "orders_ok db' \<and>
    (of_client (or_client_order_id r0) db \<noteq> [] \<or> get_order db (or_order_id r0) = None \<longrightarrow> evolves db db')"
    using upsert_Inr[OF up]
  proof (elim disjE exE conjE)
    fix c
    assume "of_client (or_client_order_id r0) db = []" "db' = insert_or_replace (stored r0 c) db"
    with insert_fresh[OF ok, of "stored r0 c"] show ?thesis by auto
  next
    fix e r c
    assume one: "of_client (or_client_order_id r0) db = [e]" and p: "preserve_intent e r0 = Inr r"
      and clash: "\<forall>x\<in>set (od_orders db). or_order_id x = or_order_id r \<longrightarrow> or_client_order_id x = or_client_order_id r"
      and db': "db' = update_client (stored r c) db"
    note ids = preserve_intent_ids[OF p]
    from one have "e \<in> set (of_client (or_client_order_id r0) db)" by simp
    then have same: "or_client_order_id r0 = or_client_order_id e" by (simp add: of_client_def)
    have "of_client (or_client_order_id (stored r c)) db = [e]" using one ids by simp
    from update_client_ok[OF ok this _ preserved_advances[OF p same]] clash show ?thesis
      by (auto simp: db')
  qed
  then show "orders_ok db'"
    and "of_client (or_client_order_id r0) db \<noteq> [] \<or> get_order db (or_order_id r0) = None \<Longrightarrow> evolves db db'"
    by simp_all
qed

lemma upsert_by_client_id_Inr:
  assumes "upsert_by_client_id env r b db = Inr (w, db')"
  shows "upsert env r db = Inr (w, db') \<or> (w = WriteFailed \<and> db' = db)"
  using assms by (auto simp: upsert_by_client_id_def split: sum.splits if_splits)

lemma update_status_Inr:
  assumes "update_status env oid status filled average db = Inr (w, db')"
  shows "db' = db \<or> (\<exists>x r c. get_order db oid = Some x
           \<and> preserve_intent x (update_record env x status filled average) = Inr r
           \<and> db' = insert_or_replace (stored r c) db)"
  using assms
  by (auto simp: update_status_def rbind_Inr_iff split: sum.splits if_splits option.splits dest!: save_order_Inr)

lemma update_status_keeps:
  assumes ok: "orders_ok db" and up: "update_status env oid status filled average db = Inr (w, db')"
  shows "orders_ok db'" and "evolves db db'"
proof -
  have "orders_ok db' \<and> evolves db db'"
    using update_status_Inr[OF up]
  proof (elim disjE exE conjE)
    assume "db' = db"
    with ok show ?thesis by simp
  next
    fix x r c
    assume x: "get_order db oid = Some x"
      and p: "preserve_intent x (update_record env x status filled average) = Inr r"
      and db': "db' = insert_or_replace (stored r c) db"
    have oid: "or_order_id r = oid"
      using x preserve_intent_ids(1)[OF p] by (auto simp: get_order_def find_Some_iff update_record_def)
    have "advances x ((stored r c)\<lparr>or_created_at := or_created_at (stored r c)\<rparr>)"
      by (rule preserved_advances[OF p]) (simp add: update_record_def)
    then have "advances x (stored r c)" by simp
    from insert_over[OF ok _ this] x oid show ?thesis by (simp add: db')
  qed
  then show "orders_ok db'" and "evolves db db'" by simp_all
qed

lemma cleanup_ok: "orders_ok db \<Longrightarrow> orders_ok (snd (cleanup_old_orders env n d db))"
  by (auto simp: orders_ok_def cleanup_old_orders_def Let_def distinct_map_filter)

section \<open>What is read back\<close>

definition intent_versioned :: "order_record \<Rightarrow> bool" where
  "intent_versioned r \<longleftrightarrow>
     map_of (metadata_of r) ''intent'' = None \<or> map_of (metadata_of r) ''record_checksum_version'' = Some (JInt 2)"

lemma stored_dict:
  assumes "or_time_in_force r \<noteq> []" and "metadata_of r \<noteq> []"
  shows "order_record_to_dict (stored r c) = order_record_to_dict r"
  using assms by (auto simp: order_record_to_dict_def stored_def)

lemma stored_fields: "critical_fields (stored r c) = critical_fields r"
  by (simp add: critical_fields_def stored_def)

lemma stored_version: "checksum_version (stored r c) = checksum_version r"
  by (simp add: checksum_version_def)

lemma stored_checksum:
  assumes "or_time_in_force r \<noteq> []"
  shows "compute_checksum env (stored r c) = compute_checksum env r"
proof (cases "metadata_of r = []")
  case True
  then show ?thesis using stored_version[of r c] stored_fields[of r c]
    by (simp add: compute_checksum_def checksum_version_def)
next
  case False
  show ?thesis
    using stored_version[of r c] stored_fields[of r c] stored_dict[OF assms False]
    by (simp add: compute_checksum_def split: option.split)
qed

lemma stored_valid:
  assumes "or_time_in_force r \<noteq> []" and "intent_versioned r" and "compute_checksum env r = Inr c" and "c \<noteq> []"
  shows "checksum_is_valid env (stored r c)"
  using assms stored_checksum[OF assms(1), of env c] stored_version[of r c]
  by (auto simp: checksum_is_valid_def intent_versioned_def compute_checksum_def checksum_version_def
      split: option.splits)

lemma valid_versioned: "checksum_is_valid env r \<Longrightarrow> intent_versioned r"
  by (auto simp: checksum_is_valid_def intent_versioned_def checksum_version_def
      split: option.splits json.splits if_splits)

lemma valid_hash:
  "oe_hash env' = oe_hash env \<Longrightarrow> checksum_is_valid env' r = checksum_is_valid env r"
  by (simp add: checksum_is_valid_def compute_checksum_def split: option.splits)

lemma computed_not_empty:
  "(\<And>p. oe_hash env p \<noteq> []) \<Longrightarrow> compute_checksum env r = Inr c \<Longrightarrow> c \<noteq> []"
  by (auto simp: compute_checksum_def split: option.splits)

lemma of_client_insert:
  assumes "of_client (or_client_order_id r) db = []"
  shows "of_client (or_client_order_id r) (insert_or_replace r db) = [r]"
  using assms by (auto simp: of_client_def insert_or_replace_def filter_empty_conv)

lemma get_order_insert: "get_order (insert_or_replace r db) (or_order_id r) = Some r"
proof -
  have "find (\<lambda>x. or_order_id x = i) (filter (\<lambda>x. or_order_id x \<noteq> i) xs @ [r]) =
      (if or_order_id r = i then Some r else None)" for i and xs :: "order_record list"
    by (induction xs) auto
  then show ?thesis by (simp add: get_order_def insert_or_replace_def)
qed

lemma upsert_displaces:
  assumes ok: "orders_ok db" and x: "x \<in> set (od_orders db)" "or_order_id x = or_order_id r"
    and "of_client (or_client_order_id r) db = []" and "compute_checksum env r = Inr c"
  shows "upsert_by_client_id env r b db = Inr (WriteOk (Some c), insert_or_replace (stored r c) db)"
    and "of_client (or_client_order_id x) (insert_or_replace (stored r c) db) = []"
proof -
  show "upsert_by_client_id env r b db = Inr (WriteOk (Some c), insert_or_replace (stored r c) db)"
    using assms(4,5) by (simp add: upsert_by_client_id_def upsert_def get_order_by_client_order_id_def)
  have "or_client_order_id r \<noteq> or_client_order_id x"
    using assms(4) x by (auto simp: of_client_def filter_empty_conv)
  moreover have "or_order_id y = or_order_id r"
    if "y \<in> set (od_orders db)" "or_client_order_id y = or_client_order_id x" for y
    using ok x that by (auto simp: orders_ok_def distinct_map inj_on_def)
  ultimately show "of_client (or_client_order_id x) (insert_or_replace (stored r c) db) = []"
    by (auto simp: of_client_def insert_or_replace_def filter_empty_conv)
qed

end
