(* ===== verification/Orders_Accounting.thy ===== *)
theory Orders_Accounting
  imports Orders_Store Fill_Accounting
begin

text \<open>
  The fill evidence in the database of the orders, \<^verbatim>\<open>src/gpt_trader/persistence/orders_accounting.py\<close>:
  identified fills, cumulative observations of an order and opening baselines, each a row with a
  payload and its checksum, and the projection of the positions from all of them. A method that
  writes is one transaction. The creation of the schema and its version marker are outside the model.
\<close>

section \<open>Payloads\<close>

abbreviation integrity :: "string \<Rightarrow> py_error" where
  "integrity \<equiv> AccountingIntegrityError"

text \<open>What \<^verbatim>\<open>decimal_value\<close> and \<^verbatim>\<open>aware_time\<close> see of a JSON value.\<close>

fun raw_of_json :: "json \<Rightarrow> raw_decimal" where
  "raw_of_json (JDec d) = Parsed d"
| "raw_of_json (JInt n) = Parsed (Finite (of_int n))"
| "raw_of_json (JNum d) = Parsed d"
| "raw_of_json (JStr s) = (case decimal_of_text s of None \<Rightarrow> Unparsable | Some d \<Rightarrow> Parsed d)"
| "raw_of_json _ = Unparsable"

definition json_number :: "bool \<Rightarrow> json \<Rightarrow> dec result" where
  "json_number positive v = decimal_value positive (raw_of_json v)"

fun json_time :: "json \<Rightarrow> instant result" where
  "json_time (JTime t) = Inr t"
| "json_time _ = Inl (AccountingIntegrityError ''Invalid accounting timestamp'')"

definition jdec_of :: "dec option \<Rightarrow> json" where
  "jdec_of x = jdec_option (map_option Finite x)"

definition fill_fact_to_dict :: "fill_fact \<Rightarrow> payload" where
  "fill_fact_to_dict f =
     [(''fill_id'', JStr (ff_fill_id f)), (''order_id'', JStr (ff_order_id f)),
      (''client_order_id'', JStr (ff_client_order_id f)), (''symbol'', JStr (ff_symbol f)),
      (''side'', JStr (ff_side f)), (''quantity'', JDec (Finite (ff_quantity f))),
      (''price'', JDec (Finite (ff_price f))), (''executed_at'', JTime (ff_executed_at f)),
      (''fee'', jdec_of (ff_fee f)), (''fee_currency'', jstr_option (ff_fee_currency f))]"

text \<open>\<^verbatim>\<open>FillFact(**payload)\<close> and \<^verbatim>\<open>PositionBaseline(**payload)\<close>: an unknown keyword raises.\<close>

definition known_keywords :: "string list \<Rightarrow> payload \<Rightarrow> unit result" where
  "known_keywords names p =
     raise_if (\<not> set (map fst p) \<subseteq> set names) (TypeError ''unexpected keyword argument'')"

definition keyword :: "payload \<Rightarrow> string \<Rightarrow> json result" where
  "keyword p k = (case map_of p k of None \<Rightarrow> Inl (TypeError ''missing required argument'') | Some v \<Rightarrow> Inr v)"

definition fill_fact_of_dict :: "payload \<Rightarrow> fill_fact result" where
  "fill_fact_of_dict p =
     rbind (known_keywords [''fill_id'', ''order_id'', ''client_order_id'', ''symbol'', ''side'', ''quantity'', ''price'',
                            ''executed_at'', ''fee'', ''fee_currency''] p) (\<lambda>_.
     rbind (rbind (keyword p ''fill_id'') jstr) (\<lambda>fid.
     rbind (rbind (keyword p ''order_id'') jstr) (\<lambda>oid.
     rbind (rbind (keyword p ''client_order_id'') jstr) (\<lambda>cid.
     rbind (rbind (keyword p ''symbol'') jstr) (\<lambda>symbol.
     rbind (rbind (keyword p ''side'') jstr) (\<lambda>side.
     rbind (keyword p ''quantity'') (\<lambda>quantity.
     rbind (keyword p ''price'') (\<lambda>price.
     rbind (rbind (keyword p ''executed_at'') json_time) (\<lambda>t.
     rbind (ropt jstr (jopt p ''fee_currency'')) (\<lambda>currency.
     new_fill_fact fid oid cid symbol side (raw_of_json quantity) (raw_of_json price) (Aware t)
       (map_option raw_of_json (jopt p ''fee'')) currency))))))))))"

definition position_baseline_to_dict :: "position_baseline \<Rightarrow> payload" where
  "position_baseline_to_dict b =
     [(''symbol'', JStr (pb_symbol b)), (''effective_at'', JTime (pb_effective_at b)),
      (''quantity'', JDec (Finite (pb_quantity b))), (''entry_price'', jdec_of (pb_entry_price b)),
      (''evidence'', JStr (pb_evidence b)), (''actor_id'', JStr (pb_actor_id b)),
      (''covered_order_ids'', JArr (map JStr (pb_covered_order_ids b)))]"

fun json_texts :: "json \<Rightarrow> string list result" where
  "json_texts (JArr vs) = rmap jstr vs"
| "json_texts _ = Inl (TypeError ''not iterable'')"

definition position_baseline_of_dict :: "payload \<Rightarrow> position_baseline result" where
  "position_baseline_of_dict p =
     rbind (known_keywords [''symbol'', ''effective_at'', ''quantity'', ''entry_price'', ''evidence'', ''actor_id'',
                            ''covered_order_ids''] p) (\<lambda>_.
     rbind (rbind (keyword p ''symbol'') jstr) (\<lambda>symbol.
     rbind (rbind (keyword p ''effective_at'') json_time) (\<lambda>t.
     rbind (keyword p ''quantity'') (\<lambda>quantity.
     rbind (keyword p ''entry_price'') (\<lambda>price.
     rbind (rbind (keyword p ''evidence'') jstr) (\<lambda>evidence.
     rbind (rbind (keyword p ''actor_id'') jstr) (\<lambda>actor.
     rbind (case map_of p ''covered_order_ids'' of None \<Rightarrow> Inr [] | Some v \<Rightarrow> json_texts v) (\<lambda>covered.
     new_position_baseline symbol (Aware t) (raw_of_json quantity)
       (if price = JNull then None else Some (raw_of_json price)) evidence actor covered))))))))"

section \<open>Rows\<close>

text \<open>\<^verbatim>\<open>_read\<close>\<close>

definition read_row :: "orders_env \<Rightarrow> evidence_row \<Rightarrow> payload result" where
  "read_row env row =
     (if ev_checksum row = [] \<or> oe_hash env (ev_payload row) \<noteq> ev_checksum row
      then Inl (integrity ''Accounting row checksum/shape mismatch'') else Inr (ev_payload row))"

definition evidence :: "orders_env \<Rightarrow> string \<Rightarrow> string \<Rightarrow> payload \<Rightarrow> evidence_row" where
  "evidence env owner key p = \<lparr>ev_owner = owner, ev_key = key, ev_payload = p, ev_checksum = oe_hash env p\<rparr>"

definition require_observed_time :: "orders_env \<Rightarrow> instant \<Rightarrow> unit result" where
  "require_observed_time env t =
     raise_if (oe_now env < t) (integrity ''Future accounting evidence cannot describe current inventory'')"

definition fact_of_row :: "orders_env \<Rightarrow> evidence_row \<Rightarrow> fill_fact result" where
  "fact_of_row env row =
     rbind (read_row env row) (\<lambda>p.
     rbind (fill_fact_of_dict p) (\<lambda>f.
     rbind (require_observed_time env (ff_executed_at f)) (\<lambda>_.
     rbind (raise_if (ff_order_id f \<noteq> ev_owner row \<or> ff_fill_id f \<noteq> ev_key row)
              (integrity ''Fill index conflicts with payload'')) (\<lambda>_.
     Inr f))))"

definition facts_of :: "orders_env \<Rightarrow> string option \<Rightarrow> orders_db \<Rightarrow> fill_fact list result" where
  "facts_of env oid db =
     rmap (fact_of_row env)
       (filter (\<lambda>row. case oid of None \<Rightarrow> True | Some d \<Rightarrow> ev_owner row = d) (od_facts db))"

definition observation_of_row :: "orders_env \<Rightarrow> evidence_row \<Rightarrow> payload result" where
  "observation_of_row env row =
     rbind (read_row env row) (\<lambda>p.
     rbind (jget p ''order_id'') (\<lambda>oid.
     rbind (raise_if (oid \<noteq> JStr (ev_owner row) \<or> ev_key row \<noteq> ev_checksum row)
              (integrity ''Observation index conflicts with payload'')) (\<lambda>_.
     rbind (rbind (jget p ''quantity'') (json_number True)) (\<lambda>_.
     rbind (rbind (jget p ''notional'') (\<lambda>v. if v = JNull then Inr 0 else json_number True v)) (\<lambda>_.
     rbind (rbind (jget p ''observed_at'') json_time) (\<lambda>_.
     Inr p))))))"

definition observations_of :: "orders_env \<Rightarrow> orders_db \<Rightarrow> payload list result" where
  "observations_of env db = rmap (observation_of_row env) (od_observations db)"

definition baseline_row :: "orders_db \<Rightarrow> string \<Rightarrow> evidence_row option" where
  "baseline_row db symbol = find (\<lambda>row. ev_owner row = symbol) (od_baselines db)"

definition baseline_of_row :: "orders_env \<Rightarrow> evidence_row \<Rightarrow> (position_baseline \<times> payload) result" where
  "baseline_of_row env row =
     rbind (read_row env row) (\<lambda>p.
     rbind (rbind (rbind (jget p ''baseline'') jobj) position_baseline_of_dict) (\<lambda>b.
     Inr (b, p)))"

section \<open>Observations\<close>

definition record_observation :: "orders_env \<Rightarrow> order_record \<Rightarrow> string \<Rightarrow> orders_db \<Rightarrow> orders_db result" where
  "record_observation env r source db =
     rbind (decimal_value False (Parsed (or_filled_quantity r))) (\<lambda>quantity.
     if quantity \<le> 0 then Inr db
     else
       rbind (ropt (decimal_value True) (map_option Parsed (or_average_fill_price r))) (\<lambda>price.
       let p = [(''order_id'', JStr (or_order_id r)), (''client_order_id'', JStr (or_client_order_id r)),
                (''symbol'', JStr (or_symbol r)), (''side'', JStr (str_lower (or_side r))),
                (''quantity'', JDec (Finite quantity)),
                (''notional'', jdec_of (map_option (dmul quantity) price)),
                (''average_price'', jdec_of price), (''observed_at'', isoformat (or_updated_at r)),
                (''source'', JStr source)];
           row = evidence env (or_order_id r) (oe_hash env p) p;
           db' = (if list_ex (\<lambda>x. ev_owner x = ev_owner row \<and> ev_key x = ev_key row) (od_observations db) then db
                  else db\<lparr>od_observations := od_observations db @ [row]\<rparr>)
       in rbind (observations_of env db') (\<lambda>_. Inr db')))"

section \<open>Fills\<close>

text \<open>The order a fill belongs to, and the tests that it may.\<close>

definition order_of_fill :: "orders_env \<Rightarrow> orders_db \<Rightarrow> fill_fact \<Rightarrow> order_record option result" where
  "order_of_fill env db f =
     (case get_order db (ff_order_id f) of
        Some r \<Rightarrow> Inr (Some r)
      | None \<Rightarrow> if ff_client_order_id f = [] then Inr None
                else get_order_by_client_order_id env db (ff_client_order_id f))"

definition fill_matches_order :: "orders_env \<Rightarrow> order_record \<Rightarrow> fill_fact \<Rightarrow> unit result" where
  "fill_matches_order env r f =
     rbind (raise_if (or_order_id r \<noteq> ff_order_id f
                      \<and> (or_order_id r \<noteq> or_client_order_id r \<or> or_status r \<noteq> RS_PENDING))
              (integrity ''Fill conflicts with acknowledged venue order ID'')) (\<lambda>_.
     rbind (raise_if (\<not> checksum_is_valid env r) (integrity ''Order checksum mismatch during fill admission'')) (\<lambda>_.
     raise_if (or_symbol r \<noteq> ff_symbol f \<or> str_lower (or_side r) \<noteq> ff_side f
               \<or> (ff_client_order_id f \<noteq> [] \<and> ff_client_order_id f \<noteq> or_client_order_id r))
       (integrity ''Fill conflicts with order identity'')))"

definition check_baseline_coverage :: "orders_env \<Rightarrow> orders_db \<Rightarrow> fill_fact \<Rightarrow> unit result" where
  "check_baseline_coverage env db f =
     (case baseline_row db (ff_symbol f) of
        None \<Rightarrow> Inr ()
      | Some row \<Rightarrow>
          rbind (baseline_of_row env row) (\<lambda>(b, _).
          raise_if (ff_order_id f \<in> set (pb_covered_order_ids b) \<and> pb_effective_at b < ff_executed_at f)
            (integrity ''Fill execution conflicts with explicit baseline coverage'')))"

definition total_quantity :: "fill_fact list \<Rightarrow> dec" where
  "total_quantity fs = dsum (map ff_quantity fs)"

definition total_notional :: "fill_fact list \<Rightarrow> dec" where
  "total_notional fs = dsum (map (\<lambda>f. dmul (ff_quantity f) (ff_price f)) fs)"

definition has_intent :: "order_record \<Rightarrow> bool" where
  "has_intent r \<longleftrightarrow> (case map_of (metadata_of r) ''intent'' of None \<Rightarrow> False | Some v \<Rightarrow> jtrue v)"

text \<open>The order after its fills, when they say more than it does.\<close>

definition filled_record :: "orders_env \<Rightarrow> order_record \<Rightarrow> fill_fact \<Rightarrow> dec \<Rightarrow> dec \<Rightarrow> order_record" where
  "filled_record env r f quantity notional =
     r\<lparr>or_order_id := ff_order_id f, or_filled_quantity := Finite quantity,
       or_average_fill_price := Some (Finite (dquot notional quantity)),
       or_status := (if same_number (Finite quantity) (or_quantity r) then RS_FILLED else RS_PARTIALLY_FILLED),
       or_updated_at := Aware (oe_now env)\<rparr>"

definition advance_order ::
  "orders_env \<Rightarrow> order_record option \<Rightarrow> fill_fact \<Rightarrow> dec \<Rightarrow> dec \<Rightarrow> orders_db \<Rightarrow> orders_db result" where
  "advance_order env existing f quantity notional db =
     (case existing of
        None \<Rightarrow> Inr db
      | Some r \<Rightarrow>
          rbind (less_number (or_filled_quantity r) (Finite quantity)) (\<lambda>more.
          if \<not> more then Inr db
          else
            rbind (raise_if (venue_terminal r) (integrity ''Identified fills exceed terminal receipt'')) (\<lambda>_.
            rbind (upsert_by_client_id env (filled_record env r f quantity notional) True db) (\<lambda>(_, db').
            Inr db'))))"

definition record_fill :: "orders_env \<Rightarrow> fill_fact \<Rightarrow> orders_db \<Rightarrow> (bool \<times> orders_db) result" where
  "record_fill env f db =
     rbind (require_observed_time env (ff_executed_at f)) (\<lambda>_.
     rbind (order_of_fill env db f) (\<lambda>existing.
     rbind (case existing of None \<Rightarrow> Inr () | Some r \<Rightarrow> fill_matches_order env r f) (\<lambda>_.
     rbind (facts_of env (Some (ff_order_id f)) db) (\<lambda>facts.
     case find (\<lambda>x. ff_fill_id x = ff_fill_id f) facts of
       Some duplicate \<Rightarrow>
         if duplicate \<noteq> f then Inl (integrity ''Fill ID reused with different payload'') else Inr (False, db)
     | None \<Rightarrow>
         rbind (check_baseline_coverage env db f) (\<lambda>_.
         rbind (raise_if (list_ex (\<lambda>x. ff_symbol x \<noteq> ff_symbol f \<or> ff_side x \<noteq> ff_side f) facts)
                  (integrity ''Order fill facts conflict'')) (\<lambda>_.
         let quantity = total_quantity (facts @ [f]); notional = total_notional (facts @ [f]) in
         rbind (case existing of
                  None \<Rightarrow> Inr False
                | Some r \<Rightarrow> if has_intent r then less_number (or_quantity r) (Finite quantity) else Inr False) (\<lambda>exceeds.
         rbind (raise_if exceeds (integrity ''Identified fills exceed admitted order'')) (\<lambda>_.
         rbind (advance_order env existing f quantity notional
                  (db\<lparr>od_facts := od_facts db @ [evidence env (ff_order_id f) (ff_fill_id f) (fill_fact_to_dict f)]\<rparr>)) (\<lambda>db'.
         Inr (True, db'))))))))))"

section \<open>Baselines\<close>

definition receipt_binding :: "order_record \<Rightarrow> payload" where
  "receipt_binding r =
     [(''order_id'', JStr (or_order_id r)), (''client_order_id'', JStr (or_client_order_id r)),
      (''symbol'', JStr (or_symbol r)), (''side'', JStr (or_side r)), (''quantity'', JDec (or_quantity r)),
      (''filled_quantity'', JDec (or_filled_quantity r)),
      (''average_fill_price'', jdec_option (or_average_fill_price r)),
      (''status'', JStr (record_status_value (or_status r))),
      (''intent'', (case map_of (metadata_of r) ''intent'' of None \<Rightarrow> JNull | Some v \<Rightarrow> v))]"

definition covered_receipt :: "orders_env \<Rightarrow> orders_db \<Rightarrow> position_baseline \<Rightarrow> string \<Rightarrow> (string \<times> json) result" where
  "covered_receipt env db b oid =
     (case get_order db oid of
        None \<Rightarrow> Inl (integrity ''Baseline can cover only a matching complete order receipt'')
      | Some r \<Rightarrow>
          if or_symbol r \<noteq> pb_symbol b \<or> \<not> venue_terminal r \<or> \<not> checksum_is_valid env r
          then Inl (integrity ''Baseline can cover only a matching complete order receipt'')
          else Inr (oid, JObj (receipt_binding r)))"

definition record_baseline :: "orders_env \<Rightarrow> position_baseline \<Rightarrow> orders_db \<Rightarrow> orders_db result" where
  "record_baseline env b db =
     rbind (require_observed_time env (pb_effective_at b)) (\<lambda>_.
     rbind (rmap (covered_receipt env db b) (pb_covered_order_ids b)) (\<lambda>bindings.
     let p = [(''baseline'', JObj (position_baseline_to_dict b)), (''covered_receipts'', JObj bindings)] in
     case baseline_row db (pb_symbol b) of
       Some row \<Rightarrow>
         rbind (read_row env row) (\<lambda>q.
         if oe_hash env q \<noteq> oe_hash env p then Inl (integrity ''Opening baseline is immutable'') else Inr db)
     | None \<Rightarrow>
         rbind (facts_of env None db) (\<lambda>facts.
         rbind (raise_if (list_ex (\<lambda>f. ff_order_id f \<in> set (pb_covered_order_ids b)
                                       \<and> pb_effective_at b < ff_executed_at f) facts)
                  (integrity ''Baseline conflicts with identified later execution'')) (\<lambda>_.
         Inr (db\<lparr>od_baselines := od_baselines db @ [evidence env (pb_symbol b) [] p]\<rparr>)))))"

section \<open>Projections\<close>

text \<open>An observation of a covered order against the receipt that the baseline binds.\<close>

definition observation_fits ::
  "position_baseline \<Rightarrow> payload \<Rightarrow> payload \<Rightarrow> unit result" where
  "observation_fits b binding obs =
     rbind (rbind (jget obs ''quantity'') (json_number False)) (\<lambda>observed.
     rbind (rbind (jget binding ''filled_quantity'') (json_number False)) (\<lambda>bound.
     rbind (jget obs ''symbol'') (\<lambda>symbol.
     rbind (jget obs ''side'') (\<lambda>side.
     rbind (jget binding ''side'') (\<lambda>bound_side.
     rbind (raise_if (bound < observed \<or> symbol \<noteq> JStr (pb_symbol b) \<or> side \<noteq> bound_side)
              (integrity ''Observation conflicts with baseline receipt'')) (\<lambda>_.
     rbind (jget binding ''average_fill_price'') (\<lambda>bound_price.
     case jopt obs ''average_price'' of
       None \<Rightarrow> Inr ()
     | Some v \<Rightarrow>
         if observed \<noteq> bound \<or> bound_price = JNull then Inr ()
         else
           rbind (json_number False v) (\<lambda>x.
           rbind (json_number False bound_price) (\<lambda>y.
           raise_if (x \<noteq> y) (integrity ''Observation notional differs from baseline receipt''))))))))))"

definition binding_holds ::
  "orders_env \<Rightarrow> orders_db \<Rightarrow> payload list \<Rightarrow> position_baseline \<Rightarrow> string \<times> json \<Rightarrow> unit result" where
  "binding_holds env db observations b entry =
     (case entry of (oid, v) \<Rightarrow>
        rbind (jobj v) (\<lambda>binding.
        case get_order db oid of
          None \<Rightarrow> Inl (integrity ''Baseline covered receipt changed'')
        | Some r \<Rightarrow>
            if oe_hash env (receipt_binding r) \<noteq> oe_hash env binding
            then Inl (integrity ''Baseline covered receipt changed'')
            else rbind (rmap (observation_fits b binding)
                   (filter (\<lambda>obs. map_of obs ''order_id'' = Some (JStr oid)) observations)) (\<lambda>_. Inr ())))"

definition projected_baseline ::
  "orders_env \<Rightarrow> orders_db \<Rightarrow> payload list \<Rightarrow> evidence_row \<Rightarrow> position_baseline result" where
  "projected_baseline env db observations row =
     rbind (baseline_of_row env row) (\<lambda>(b, p).
     rbind (require_observed_time env (pb_effective_at b)) (\<lambda>_.
     rbind (rbind (jget p ''covered_receipts'') jobj) (\<lambda>bindings.
     rbind (raise_if (set (map fst bindings) \<noteq> set (pb_covered_order_ids b))
              (integrity ''Baseline receipt binding is incomplete'')) (\<lambda>_.
     rbind (rmap (binding_holds env db observations b) bindings) (\<lambda>_.
     rbind (raise_if (pb_symbol b \<noteq> ev_owner row) (integrity ''Baseline index conflicts with payload'')) (\<lambda>_.
     Inr b))))))"

text \<open>What is known of an order beside its fills: a quantity and perhaps an average price.\<close>

definition order_evidence :: "payload list \<Rightarrow> order_record option \<Rightarrow> string \<Rightarrow> (json \<times> json) list" where
  "order_evidence observations r oid =
     map (\<lambda>obs. (case map_of obs ''quantity'' of None \<Rightarrow> JNull | Some v \<Rightarrow> v,
                 case jopt obs ''average_price'' of None \<Rightarrow> JNull | Some v \<Rightarrow> v))
       (filter (\<lambda>obs. map_of obs ''order_id'' = Some (JStr oid)) observations)
     @ (case r of None \<Rightarrow> []
        | Some x \<Rightarrow> [(JDec (or_filled_quantity x), jdec_option (or_average_fill_price x))])"

definition notional_unverified :: "dec \<Rightarrow> dec \<Rightarrow> dec \<times> json \<Rightarrow> bool result" where
  "notional_unverified held cost e =
     (case e of (quantity, price) \<Rightarrow>
        if quantity \<noteq> held \<or> price = JNull \<or> held \<le> 0 then Inr False
        else rbind (json_number False price) (\<lambda>x. Inr (x \<noteq> dquot cost held)))"

definition order_id_reasons ::
  "payload list \<Rightarrow> order_record list \<Rightarrow> fill_fact list \<Rightarrow> string \<Rightarrow> string list result" where
  "order_id_reasons observations orders facts oid =
     (let recorded = filter (\<lambda>f. ff_order_id f = oid) facts;
          held = total_quantity recorded; cost = total_notional recorded;
          r = find (\<lambda>x. or_order_id x = oid) orders;
          known = order_evidence observations r oid
      in if known = [] then Inr []
         else
           rbind (rmap (\<lambda>(q, p). rbind (json_number False q) (\<lambda>x. Inr (x, p))) known) (\<lambda>items.
           let latest = Max (set (map fst items));
               mismatch = (if held < latest then [''identified_fills_missing:'' @ oid]
                           else if latest < held \<and> (case r of None \<Rightarrow> False | Some x \<Rightarrow> venue_terminal x)
                           then [''fill_receipt_conflict:'' @ oid] else [])
           in rbind (rmap (notional_unverified held cost) items) (\<lambda>bad.
              Inr (mismatch @ concat (map (\<lambda>b. if b then [''fill_notional_unverified:'' @ oid] else []) bad)))))"

definition unresolved_order :: "order_record \<Rightarrow> bool" where
  "unresolved_order r \<longleftrightarrow> or_status r = RS_PENDING \<or> or_status r = RS_FAILED"

definition positive_fill :: "order_record \<Rightarrow> bool result" where
  "positive_fill r = less_number (Finite 0) (or_filled_quantity r)"

definition symbol_projection ::
  "payload list \<Rightarrow> order_record list \<Rightarrow> string list \<Rightarrow> fill_fact list \<Rightarrow> position_baseline option \<Rightarrow> string \<Rightarrow>
   (string \<times> position_projection) result" where
  "symbol_projection observations orders filled_ids facts baseline symbol =
     (let own = filter (\<lambda>f. ff_symbol f = symbol) facts;
          pending = map (\<lambda>r. ''pending_submission_unresolved:'' @ or_order_id r)
                      (filter (\<lambda>r. or_symbol r = symbol \<and> unresolved_order r) orders);
          covered = (case baseline of None \<Rightarrow> [] | Some b \<Rightarrow> pb_covered_order_ids b);
          ids = filter (\<lambda>oid. oid \<notin> set covered)
                  (remdups (map ff_order_id own
                     @ map or_order_id (filter (\<lambda>r. or_symbol r = symbol \<and> or_order_id r \<in> set filled_ids) orders)))
      in rbind (rmap (order_id_reasons observations orders own) ids) (\<lambda>reasons.
         rbind (project_position symbol own baseline (pending @ concat reasons)) (\<lambda>p.
         Inr (symbol, p))))"

definition projections :: "orders_env \<Rightarrow> orders_db \<Rightarrow> (string \<times> position_projection) list result" where
  "projections env db =
     rbind (facts_of env None db) (\<lambda>facts.
     rbind (observations_of env db) (\<lambda>observations.
     rbind (rmap (projected_baseline env db observations) (od_baselines db)) (\<lambda>baselines.
     let orders = od_orders db in
     rbind (raise_if (\<not> list_all (checksum_is_valid env) orders)
              (integrity ''Order checksum mismatch in projection'')) (\<lambda>_.
     rbind (rmap (\<lambda>r. rbind (positive_fill r) (\<lambda>b. Inr (r, b))) orders) (\<lambda>marked.
     let filled = map fst (filter snd marked);
         symbols = sort (remdups (map pb_symbol baselines @ map ff_symbol facts
                     @ map or_symbol (filter (\<lambda>r. r \<in> set filled \<or> unresolved_order r) orders)))
     in rmap (\<lambda>s. symbol_projection observations orders (map or_order_id filled) facts
                    (find (\<lambda>b. pb_symbol b = s) baselines) s) symbols)))))"

section \<open>Codecs and rows\<close>

definition fact_ok :: "fill_fact \<Rightarrow> bool" where
  "fact_ok f \<longleftrightarrow> fill_ok f \<and> ff_fill_id f \<noteq> [] \<and> ff_order_id f \<noteq> [] \<and> ff_symbol f \<noteq> []"

lemma new_fill_fact_accepts: "new_fill_fact a b c d e q p t g h = Inr f \<Longrightarrow> fact_ok f"
  using new_fill_fact_ok[of a b c d e q p t g h f]
  by (auto simp: fact_ok_def new_fill_fact_def rbind_Inr_iff)

lemma fill_fact_roundtrip:
  assumes "fact_ok f"
  shows "fill_fact_of_dict (fill_fact_to_dict f) = Inr f"
proof -
  have "map_option raw_of_json (jopt (fill_fact_to_dict f) ''fee'') = map_option (\<lambda>x. Parsed (Finite x)) (ff_fee f)"
    by (simp add: fill_fact_to_dict_def jopt_def jdec_of_def jdec_option_def split: option.split)
  moreover have "ropt jstr (jopt (fill_fact_to_dict f) ''fee_currency'') = Inr (ff_fee_currency f)"
    by (simp add: fill_fact_to_dict_def jopt_def jstr_option_def split: option.split)
  ultimately show ?thesis
    using assms
    by (cases "ff_fee f")
      (auto simp: fill_fact_of_dict_def known_keywords_def keyword_def new_fill_fact_def fact_ok_def fill_ok_def
        fill_fact_to_dict_def)
qed

lemma evidence_simps [simp]:
  "ev_owner (evidence env i j p) = i" "ev_key (evidence env i j p) = j"
  "ev_payload (evidence env i j p) = p" "ev_checksum (evidence env i j p) = oe_hash env p"
  by (simp_all add: evidence_def)

lemma read_evidence:
  "oe_hash env p \<noteq> [] \<Longrightarrow> oe_hash env' = oe_hash env \<Longrightarrow> read_row env' (evidence env i j p) = Inr p"
  by (simp add: read_row_def)

lemma fact_row_roundtrip:
  assumes "fact_ok f" and "oe_hash env (fill_fact_to_dict f) \<noteq> []" and "oe_hash env' = oe_hash env"
    and "ff_executed_at f \<le> oe_now env'"
  shows "fact_of_row env' (evidence env (ff_order_id f) (ff_fill_id f) (fill_fact_to_dict f)) = Inr f"
  using assms read_evidence[of env "fill_fact_to_dict f" env']
  by (simp add: fact_of_row_def fill_fact_roundtrip require_observed_time_def)

lemma fact_of_row_later:
  "fact_of_row env row = Inr f \<Longrightarrow> oe_hash env' = oe_hash env \<Longrightarrow> oe_now env \<le> oe_now env' \<Longrightarrow>
   fact_of_row env' row = Inr f"
  by (auto simp: fact_of_row_def rbind_Inr_iff read_row_def require_observed_time_def split: if_splits)

lemma rmap_later:
  "rmap f xs = Inr ys \<Longrightarrow> (\<And>x y. x \<in> set xs \<Longrightarrow> f x = Inr y \<Longrightarrow> g x = Inr y) \<Longrightarrow> rmap g xs = Inr ys"
  by (induction xs arbitrary: ys) (auto simp: rbind_Inr_iff)

lemma rmap_append_Inr:
  "rmap f xs = Inr ys \<Longrightarrow> rmap f zs = Inr us \<Longrightarrow> rmap f (xs @ zs) = Inr (ys @ us)"
  by (induction xs arbitrary: ys) (auto simp: rbind_Inr_iff)

lemma facts_of_later:
  "facts_of env i db = Inr fs \<Longrightarrow> oe_hash env' = oe_hash env \<Longrightarrow> oe_now env \<le> oe_now env' \<Longrightarrow>
   facts_of env' i db = Inr fs"
  unfolding facts_of_def by (erule rmap_later) (rule fact_of_row_later)

lemma facts_of_append:
  assumes "facts_of env (Some (ev_owner row)) db = Inr fs" and "fact_of_row env row = Inr f"
    and "od_facts db' = od_facts db @ [row]"
  shows "facts_of env (Some (ev_owner row)) db' = Inr (fs @ [f])"
  using assms by (auto simp: facts_of_def intro: rmap_append_Inr)

section \<open>Recording\<close>

lemma orders_only:
  assumes "od_orders db' = od_orders db"
  shows "orders_ok db' = orders_ok db" "evolves db db'" "get_order db' i = get_order db i"
    "of_client c db' = of_client c db" "order_of_fill env db' f = order_of_fill env db f"
  using assms
  by (auto simp: orders_ok_def evolves_def get_order_def of_client_def order_of_fill_def
      get_order_by_client_order_id_def intro: advances_refl split: option.splits)

lemma record_observation_orders:
  "record_observation env r src db = Inr db' \<Longrightarrow> od_orders db' = od_orders db \<and> od_facts db' = od_facts db"
  by (auto simp: record_observation_def rbind_Inr_iff Let_def split: if_splits)

lemma record_baseline_orders:
  "record_baseline env b db = Inr db' \<Longrightarrow> od_orders db' = od_orders db \<and> od_facts db' = od_facts db"
  by (auto simp: record_baseline_def rbind_Inr_iff Let_def split: if_splits option.splits)

lemma advance_order_Inr:
  assumes "advance_order env existing f q n db = Inr db'"
  shows "db' = db \<or> (\<exists>r w. existing = Some r \<and> less_number (or_filled_quantity r) (Finite q) = Inr True
                       \<and> upsert env (filled_record env r f q n) db = Inr (w, db'))"
  using assms
  by (auto simp: advance_order_def rbind_Inr_iff split: option.splits if_splits dest!: upsert_by_client_id_Inr)

lemma order_of_fill_in:
  "order_of_fill env db f = Inr (Some r) \<Longrightarrow> r \<in> set (od_orders db)"
proof -
  assume a: "order_of_fill env db f = Inr (Some r)"
  show "r \<in> set (od_orders db)"
  proof (cases "get_order db (ff_order_id f)")
    case None
    with a have "of_client (ff_client_order_id f) db = [r]"
      by (auto simp: order_of_fill_def get_client_Inr split: if_splits)
    then have "r \<in> set (of_client (ff_client_order_id f) db)" by simp
    then show ?thesis by (simp add: of_client_def)
  next
    case (Some x)
    with a show ?thesis by (auto simp: order_of_fill_def dest: get_order_in)
  qed
qed

lemma record_fill_Inr:
  assumes "record_fill env f db = Inr (b, db')"
  shows "\<exists>existing facts. order_of_fill env db f = Inr existing \<and> facts_of env (Some (ff_order_id f)) db = Inr facts
     \<and> ff_executed_at f \<le> oe_now env
     \<and> (\<forall>r. existing = Some r \<longrightarrow> fill_matches_order env r f = Inr ())
     \<and> (if b
        then (\<forall>x\<in>set facts. ff_fill_id x \<noteq> ff_fill_id f)
          \<and> (\<forall>r. existing = Some r \<and> has_intent r \<longrightarrow>
                less_number (or_quantity r) (Finite (total_quantity (facts @ [f]))) = Inr False)
          \<and> advance_order env existing f (total_quantity (facts @ [f])) (total_notional (facts @ [f]))
              (db\<lparr>od_facts := od_facts db @ [evidence env (ff_order_id f) (ff_fill_id f) (fill_fact_to_dict f)]\<rparr>) = Inr db'
        else f \<in> set facts \<and> db' = db)"
proof -
  from assms obtain existing facts where a: "order_of_fill env db f = Inr existing"
    "facts_of env (Some (ff_order_id f)) db = Inr facts" "ff_executed_at f \<le> oe_now env"
    "\<forall>r. existing = Some r \<longrightarrow> fill_matches_order env r f = Inr ()"
    by (fastforce simp: record_fill_def rbind_Inr_iff require_observed_time_def)
  show ?thesis
  proof (cases "find (\<lambda>x. ff_fill_id x = ff_fill_id f) facts")
    case None
    with assms a have "b" "\<forall>r. existing = Some r \<and> has_intent r \<longrightarrow>
                less_number (or_quantity r) (Finite (total_quantity (facts @ [f]))) = Inr False"
      "advance_order env existing f (total_quantity (facts @ [f])) (total_notional (facts @ [f]))
              (db\<lparr>od_facts := od_facts db @ [evidence env (ff_order_id f) (ff_fill_id f) (fill_fact_to_dict f)]\<rparr>) = Inr db'"
      by (auto simp: record_fill_def rbind_Inr_iff Let_def split: option.splits if_splits)
    with None a show ?thesis by (auto simp: find_None_iff)
  next
    case (Some d)
    with assms a have "\<not> b" "db' = db" "d = f"
      by (auto simp: record_fill_def rbind_Inr_iff split: if_splits)
    moreover from Some have "d \<in> set facts" by (auto simp: find_Some_iff)
    ultimately show ?thesis using a by auto
  qed
qed

lemma record_fill_keeps:
  assumes ok: "orders_ok db" and rec: "record_fill env f db = Inr (b, db')"
  shows "orders_ok db'" and "evolves db db'"
proof -
  define db1 where "db1 = db\<lparr>od_facts := od_facts db @ [evidence env (ff_order_id f) (ff_fill_id f) (fill_fact_to_dict f)]\<rparr>"
  have same: "od_orders db1 = od_orders db" by (simp add: db1_def)
  have "orders_ok db' \<and> evolves db1 db'"
  proof (cases b)
    case False
    with record_fill_Inr[OF rec] have "db' = db" by auto
    with ok orders_only(2)[of db db1] show ?thesis by (simp add: same)
  next
    case True
    with record_fill_Inr[OF rec] obtain existing q n where a: "order_of_fill env db f = Inr existing"
      "advance_order env existing f q n db1 = Inr db'" by (auto simp: db1_def)
    from advance_order_Inr[OF a(2)] show ?thesis
    proof (elim disjE exE conjE)
      assume "db' = db1"
      with ok show ?thesis by (simp add: orders_only(1)[OF same])
    next
      fix r w
      assume r: "existing = Some r" and up: "upsert env (filled_record env r f q n) db1 = Inr (w, db')"
      have "r \<in> set (od_orders db)" using order_of_fill_in a(1) r by simp
      then have "of_client (or_client_order_id (filled_record env r f q n)) db1 \<noteq> []"
        by (auto simp: of_client_def filled_record_def same filter_empty_conv)
      with upsert_keeps[OF _ up] ok show ?thesis by (simp add: orders_only(1)[OF same])
    qed
  qed
  then show "orders_ok db'" and "evolves db db'"
    using evolves_trans[OF orders_only(2)[OF same]] by blast+
qed

text \<open>The record a fill has advanced, as it is read back.\<close>

lemma advanced_row:
  assumes ok: "orders_ok db" and r: "r \<in> set (od_orders db)"
    and up: "upsert env (filled_record env r f q n) db = Inr (w, db')"
    and hash: "\<And>p. oe_hash env p \<noteq> []"
  obtains y where "get_order db' (ff_order_id f) = Some y" "checksum_is_valid env y"
    "or_order_id y = ff_order_id f" "or_symbol y = or_symbol r" "or_side y = or_side r"
    "or_client_order_id y = or_client_order_id r" "or_filled_quantity y = Finite q"
proof -
  have "r \<in> set (of_client (or_client_order_id r) db)" using r by (simp add: of_client_def)
  with upsert_Inr[OF up] obtain r' c where one: "of_client (or_client_order_id r) db = [r]"
    and valid: "checksum_is_valid env r"
    and p: "preserve_intent r (filled_record env r f q n) = Inr r'" and c: "compute_checksum env r' = Inr c"
    and db': "db' = update_client (stored r' c) db"
    by (auto simp: filled_record_def)
  note ids = preserve_intent_ids[OF p, unfolded filled_record_def, simplified]
  have created: "or_created_at r' = or_created_at r"
    using p by (auto simp: preserve_intent_def bound_by_intent_def Let_def rbind_Inr_iff filled_record_def
        split: option.splits if_splits)
  have versioned: "intent_versioned r'"
  proof -
    from p have "metadata_of r' = metadata_of r \<or> metadata_of r' = merged (metadata_of r) (metadata_of r)"
      by (auto simp: preserve_intent_def bound_by_intent_def Let_def rbind_Inr_iff filled_record_def metadata_of_def
          split: option.splits if_splits)
    then have "map_of (metadata_of r') k = map_of (metadata_of r) k" for k
      by (auto simp: map_of_merged split: option.split)
    then show ?thesis using valid_versioned[OF valid] by (simp add: intent_versioned_def)
  qed
  have tif: "or_time_in_force r' \<noteq> []" using ok r ids(9) by (auto simp: orders_ok_def)
  define y where "y = stored r' c"
  have "checksum_is_valid env y"
    unfolding y_def by (rule stored_valid[OF tif versioned c computed_not_empty[OF hash c]])
  moreover have yin: "y \<in> set (od_orders db')"
  proof -
    have "y = y\<lparr>or_created_at := or_created_at r\<rparr>" using created by (simp add: y_def stored_def)
    with r ids(2) show ?thesis by (force simp: db' update_client_def y_def)
  qed
  moreover have "get_order db' (ff_order_id f) = Some y"
  proof -
    have "orders_ok db'" by (rule upsert_keeps(1)[OF ok up])
    with yin ids(1) have "\<And>x. x \<in> set (od_orders db') \<Longrightarrow> or_order_id x = ff_order_id f \<Longrightarrow> x = y"
      by (auto simp: orders_ok_def distinct_map inj_on_def y_def)
    moreover have "get_order db' (ff_order_id f) \<noteq> None"
      using yin ids(1) by (auto simp: get_order_def find_None_iff y_def)
    ultimately show ?thesis using get_order_in by fastforce
  qed
  ultimately show thesis using that[of y] ids by (simp add: y_def)
qed

text \<open>The state of the tables after a fill that was new.\<close>

lemma record_fill_new:
  assumes ok: "orders_ok db" and fact: "fact_ok f" and hash: "\<And>p. oe_hash env p \<noteq> []"
    and rec: "record_fill env f db = Inr (True, db')"
  obtains existing facts where "order_of_fill env db f = Inr existing"
    and "facts_of env (Some (ff_order_id f)) db = Inr facts" "\<forall>x\<in>set facts. ff_fill_id x \<noteq> ff_fill_id f"
    and "facts_of env (Some (ff_order_id f)) db' = Inr (facts @ [f])"
    and "\<And>r. existing = Some r \<Longrightarrow> has_intent r \<Longrightarrow>
           less_number (or_quantity r) (Finite (total_quantity (facts @ [f]))) = Inr False"
    and "order_of_fill env db' f = Inr None \<and> existing = None
         \<or> (\<exists>r y. existing = Some r \<and> order_of_fill env db' f = Inr (Some y) \<and> fill_matches_order env y f = Inr ()
              \<and> or_client_order_id y = or_client_order_id r
              \<and> less_number (or_filled_quantity y) (Finite (total_quantity (facts @ [f]))) = Inr False)"
proof -
  define row where "row = evidence env (ff_order_id f) (ff_fill_id f) (fill_fact_to_dict f)"
  define db1 where "db1 = db\<lparr>od_facts := od_facts db @ [row]\<rparr>"
  from record_fill_Inr[OF rec] obtain existing facts where a: "order_of_fill env db f = Inr existing"
    "facts_of env (Some (ff_order_id f)) db = Inr facts" "ff_executed_at f \<le> oe_now env"
    "\<And>r. existing = Some r \<Longrightarrow> fill_matches_order env r f = Inr ()"
    "\<forall>x\<in>set facts. ff_fill_id x \<noteq> ff_fill_id f"
    "\<And>r. existing = Some r \<Longrightarrow> has_intent r \<Longrightarrow>
       less_number (or_quantity r) (Finite (total_quantity (facts @ [f]))) = Inr False"
    "advance_order env existing f (total_quantity (facts @ [f])) (total_notional (facts @ [f])) db1 = Inr db'"
    by (auto simp: db1_def row_def)
  have same: "od_orders db1 = od_orders db" by (simp add: db1_def)
  have kept: "od_facts db' = od_facts db @ [row]"
    using advance_order_Inr[OF a(7)] 
    by (auto simp: db1_def insert_or_replace_def update_client_def dest!: upsert_Inr)
  have "fact_of_row env row = Inr f"
    unfolding row_def by (rule fact_row_roundtrip[OF fact hash refl a(3)])
  from facts_of_append[OF _ this kept] a(2) have facts': "facts_of env (Some (ff_order_id f)) db' = Inr (facts @ [f])"
    by (simp add: row_def)
  have "order_of_fill env db' f = Inr None \<and> existing = None
         \<or> (\<exists>r y. existing = Some r \<and> order_of_fill env db' f = Inr (Some y) \<and> fill_matches_order env y f = Inr ()
              \<and> or_client_order_id y = or_client_order_id r
              \<and> less_number (or_filled_quantity y) (Finite (total_quantity (facts @ [f]))) = Inr False)"
  proof (cases existing)
    case None
    with a(7) have "db' = db1" by (simp add: advance_order_def)
    with None a(1) show ?thesis by (simp add: orders_only(5)[OF same])
  next
    case (Some r)
    show ?thesis
    proof (cases "less_number (or_filled_quantity r) (Finite (total_quantity (facts @ [f])))")
      case (Inl e)
      with a(7) Some show ?thesis by (simp add: advance_order_def)
    next
      case (Inr more)
      show ?thesis
      proof (cases more)
        case False
        with a(7) Some Inr have "db' = db1" by (simp add: advance_order_def)
        with a(1,4) Some Inr False show ?thesis by (simp add: orders_only(5)[OF same])
      next
        case True
        with a(7) Some Inr obtain w where
          up: "upsert env (filled_record env r f (total_quantity (facts @ [f])) (total_notional (facts @ [f]))) db1
                 = Inr (w, db')"
          by (auto simp: advance_order_def rbind_Inr_iff upsert_by_client_id_def split: sum.splits if_splits)
        have "orders_ok db1" "r \<in> set (od_orders db1)"
          using ok a(1) Some order_of_fill_in by (simp_all add: orders_only(1)[OF same] same)
        from advanced_row[OF this up hash] obtain y where y: "get_order db' (ff_order_id f) = Some y"
          "checksum_is_valid env y" "or_order_id y = ff_order_id f" "or_symbol y = or_symbol r"
          "or_side y = or_side r" "or_client_order_id y = or_client_order_id r"
          "or_filled_quantity y = Finite (total_quantity (facts @ [f]))" by blast
        have "fill_matches_order env y f = Inr ()"
          using a(4)[OF Some] y by (auto simp: fill_matches_order_def rbind_Inr_iff)
        with y Some show ?thesis by (auto simp: order_of_fill_def)
      qed
    qed
  qed
  with a facts' show thesis using that by blast
qed

end
