(* ===== verification/Orders_History.thy ===== *)
theory Orders_History
  imports Orders_Accounting
begin

text \<open>
  Histories of the order database: the requests of its public methods, one after the other, each
  with the time and the hash of its own environment. A request that raises leaves the tables as
  they were. The lemmas: identities stay unique in every history; a history that removes no
  record only advances the records it finds; a submission is reserved once and a fill counted
  once; and a projection is complete only when every order of its symbol is settled and filled
  by identified fills or by the covering baseline.
\<close>

section \<open>Requests\<close>

datatype order_request =
    Reserve order_record
  | Upsert order_record bool
  | UpdateStatus string record_status "py_decimal option" "py_decimal option"
  | Observe order_record string
  | RecordFill fill_fact
  | RecordBaseline position_baseline
  | Cleanup int int

fun apply_request :: "orders_env \<Rightarrow> order_request \<Rightarrow> orders_db \<Rightarrow> orders_db result" where
  "apply_request env (Reserve r) db = rbind (reserve_submission env r db) (\<lambda>(_, db'). Inr db')"
| "apply_request env (Upsert r b) db = rbind (upsert_by_client_id env r b db) (\<lambda>(_, db'). Inr db')"
| "apply_request env (UpdateStatus i s q p) db = rbind (update_status env i s q p db) (\<lambda>(_, db'). Inr db')"
| "apply_request env (Observe r src) db = record_observation env r src db"
| "apply_request env (RecordFill f) db = rbind (record_fill env f db) (\<lambda>(_, db'). Inr db')"
| "apply_request env (RecordBaseline b) db = record_baseline env b db"
| "apply_request env (Cleanup n d) db = Inr (snd (cleanup_old_orders env n d db))"

definition handle :: "orders_env \<Rightarrow> order_request \<Rightarrow> orders_db \<Rightarrow> orders_db" where
  "handle env q db = (case apply_request env q db of Inl _ \<Rightarrow> db | Inr db' \<Rightarrow> db')"

text \<open>
  The requests that may remove a record: a cleanup, and an upsert that brings a new client
  identity under a venue identity that another record has.
\<close>

fun may_remove :: "order_request \<Rightarrow> orders_db \<Rightarrow> bool" where
  "may_remove (Cleanup _ _) db = True"
| "may_remove (Upsert r _) db = (of_client (or_client_order_id r) db = [] \<and> get_order db (or_order_id r) \<noteq> None)"
| "may_remove _ db = False"

inductive order_run :: "bool \<Rightarrow> orders_db \<Rightarrow> orders_db \<Rightarrow> bool" for removing :: bool and db :: orders_db where
  start: "order_run removing db db"
| request: "order_run removing db db' \<Longrightarrow> removing \<or> \<not> may_remove q db' \<Longrightarrow>
            order_run removing db (handle env q db')"

inductive_cases order_runE: "order_run removing db db'"

lemma handle_keeps:
  assumes ok: "orders_ok db"
  shows "orders_ok (handle env q db)" and "\<not> may_remove q db \<Longrightarrow> evolves db (handle env q db)"
proof -
  have "orders_ok (handle env q db) \<and> (\<not> may_remove q db \<longrightarrow> evolves db (handle env q db))"
  proof (cases "apply_request env q db")
    case (Inl e)
    with ok show ?thesis by (simp add: handle_def)
  next
    case (Inr db')
    then have "orders_ok db' \<and> (\<not> may_remove q db \<longrightarrow> evolves db db')"
    proof (cases q)
      case (Reserve r)
      with Inr show ?thesis using reserve_submission_keeps[OF ok] by (fastforce simp: rbind_Inr_iff)
    next
      case (Upsert r b)
      with Inr obtain w where "upsert env r db = Inr (w, db') \<or> db' = db"
        by (fastforce simp: rbind_Inr_iff dest: upsert_by_client_id_Inr)
      with Upsert ok upsert_keeps[OF ok] show ?thesis by auto
    next
      case (UpdateStatus i s a p)
      with Inr show ?thesis using update_status_keeps[OF ok] by (fastforce simp: rbind_Inr_iff)
    next
      case (Observe r src)
      with Inr ok show ?thesis using record_observation_orders[of env r src db db'] orders_only(1,2)[of db' db] by simp
    next
      case (RecordFill f)
      with Inr show ?thesis using record_fill_keeps[OF ok] by (fastforce simp: rbind_Inr_iff)
    next
      case (RecordBaseline b)
      with Inr ok show ?thesis using record_baseline_orders[of env b db db'] orders_only(1,2)[of db' db] by simp
    next
      case (Cleanup n d)
      with Inr ok show ?thesis using cleanup_ok[OF ok, of env n d] by simp
    qed
    with Inr show ?thesis by (simp add: handle_def)
  qed
  then show "orders_ok (handle env q db)" and "\<not> may_remove q db \<Longrightarrow> evolves db (handle env q db)"
    by simp_all
qed

lemma run_keeps:
  assumes "order_run removing db db'" and "orders_ok db"
  shows "orders_ok db' \<and> (\<not> removing \<longrightarrow> evolves db db')"
  using assms
proof induction
  case (request db' q env)
  then show ?case using handle_keeps(1)[of db' env q] handle_keeps(2)[of db' q env] evolves_trans[of db db' "handle env q db'"] by auto
qed simp

lemma empty_orders_ok: "orders_ok empty_orders"
  by (simp add: orders_ok_def empty_orders_def)

lemma fill_recorded_once:
  assumes "orders_ok db" and "fact_ok f" and hash: "\<And>p. oe_hash env p \<noteq> []"
    and "record_fill env f db = Inr (True, db')"
    and env: "oe_hash env' = oe_hash env" "oe_now env \<le> oe_now env'"
  shows "record_fill env' f db' = Inr (False, db')"
proof -
  from record_fill_Inr[OF assms(4)] have t: "ff_executed_at f \<le> oe_now env" by auto
  have same: "order_of_fill env' db' f = order_of_fill env db' f"
    by (simp add: order_of_fill_def get_order_by_client_order_id_def valid_hash[OF env(1)] split: option.splits list.splits)
  have matches: "fill_matches_order env' y f = fill_matches_order env y f" for y
    by (simp add: fill_matches_order_def valid_hash[OF env(1)])
  obtain facts where new: "\<forall>x\<in>set facts. ff_fill_id x \<noteq> ff_fill_id f"
    and facts: "facts_of env (Some (ff_order_id f)) db' = Inr (facts @ [f])"
    and ord: "order_of_fill env db' f = Inr None
       \<or> (\<exists>y. order_of_fill env db' f = Inr (Some y) \<and> fill_matches_order env y f = Inr ())"
    by (rule record_fill_new[OF assms(1-4)]) blast
  have "find (\<lambda>x. ff_fill_id x = ff_fill_id f) (facts @ [f]) = Some f"
    using new by (induction facts) auto
  with facts_of_later[OF facts env] ord t env(2) show ?thesis
    by (auto simp: record_fill_def require_observed_time_def same matches)
qed

lemma fills_within_order:
  assumes "orders_ok db" and "fact_ok f" and "\<And>p. oe_hash env p \<noteq> []"
    and "record_fill env f db = Inr (True, db')"
    and "order_of_fill env db f = Inr (Some r)" and "has_intent r"
  shows "\<exists>fs y. facts_of env (Some (ff_order_id f)) db' = Inr fs \<and> f \<in> set fs
           \<and> at_least (or_quantity r) (Finite (total_quantity fs))
           \<and> order_of_fill env db' f = Inr (Some y) \<and> or_client_order_id y = or_client_order_id r
           \<and> at_least (or_filled_quantity y) (Finite (total_quantity fs))"
proof -
  obtain existing facts where a: "order_of_fill env db f = Inr existing"
      "facts_of env (Some (ff_order_id f)) db' = Inr (facts @ [f])"
      "\<And>r. existing = Some r \<Longrightarrow> has_intent r \<Longrightarrow>
         less_number (or_quantity r) (Finite (total_quantity (facts @ [f]))) = Inr False"
      "order_of_fill env db' f = Inr None \<and> existing = None
       \<or> (\<exists>r y. existing = Some r \<and> order_of_fill env db' f = Inr (Some y) \<and> fill_matches_order env y f = Inr ()
            \<and> or_client_order_id y = or_client_order_id r
            \<and> less_number (or_filled_quantity y) (Finite (total_quantity (facts @ [f]))) = Inr False)"
    by (rule record_fill_new[OF assms(1-4)]) blast
  from a(1) assms(5) have "existing = Some r" by simp
  with a assms(6) obtain y where "facts_of env (Some (ff_order_id f)) db' = Inr (facts @ [f])"
      "less_number (or_quantity r) (Finite (total_quantity (facts @ [f]))) = Inr False"
      "order_of_fill env db' f = Inr (Some y)" "or_client_order_id y = or_client_order_id r"
      "less_number (or_filled_quantity y) (Finite (total_quantity (facts @ [f]))) = Inr False"
    by auto
  then show ?thesis by (intro exI[of _ "facts @ [f]"] exI[of _ y]) (simp add: at_least_def)
qed

section \<open>Complete projections\<close>

lemma complete_no_reasons:
  assumes "project_position s fs b reasons = Inr p" and "complete p"
  shows "reasons = []"
proof -
  have r: "sort (remdups xs) = [] \<longleftrightarrow> xs = []" for xs :: "string list"
    by (metis remdups_eq_nil_iff sort_key_simps(1) set_empty set_sort)
  show ?thesis using assms
    by (auto simp: project_position_def Let_def unknown_projection_def complete_def r rbind_Inr_iff
        split: if_splits option.splits)
qed

lemma rmap_in:
  "rmap f xs = Inr ys \<Longrightarrow> y \<in> set ys \<Longrightarrow> \<exists>x\<in>set xs. f x = Inr y"
  "rmap f xs = Inr ys \<Longrightarrow> x \<in> set xs \<Longrightarrow> \<exists>y\<in>set ys. f x = Inr y"
  by (induction xs arbitrary: ys) (auto simp: rbind_Inr_iff)

lemma order_id_reasons_empty:
  assumes "order_id_reasons observations orders facts i = Inr []" and "find (\<lambda>x. or_order_id x = i) orders = Some r"
  shows "\<exists>q. or_filled_quantity r = Finite q \<and> q \<le> total_quantity (filter (\<lambda>f. ff_order_id f = i) facts)"
proof -
  let ?known = "order_evidence observations (Some r) i"
  let ?held = "total_quantity (filter (\<lambda>f. ff_order_id f = i) facts)"
  have last: "(JDec (or_filled_quantity r), jdec_option (or_average_fill_price r)) \<in> set ?known"
    by (simp add: order_evidence_def)
  then have "?known \<noteq> []" by auto
  with assms obtain items where items: "rmap (\<lambda>(q, p). rbind (json_number False q) (\<lambda>x. Inr (x, p))) ?known = Inr items"
    and le: "\<not> ?held < Max (set (map fst items))"
    by (auto simp: order_id_reasons_def Let_def rbind_Inr_iff simp del: map_map split: if_splits)
  from rmap_in(2)[OF items last] obtain q where "json_number False (JDec (or_filled_quantity r)) = Inr q"
    "q \<in> set (map fst items)" by (force simp: rbind_Inr_iff)
  moreover from this(1) have "or_filled_quantity r = Finite q"
    by (cases "or_filled_quantity r") (auto simp: json_number_def)
  moreover from \<open>q \<in> set (map fst items)\<close> have "q \<le> Max (set (map fst items))"
    by (rule Max_ge[OF finite_set])
  moreover have "Max (set (map fst items)) \<le> ?held" using le by simp
  ultimately show ?thesis using order_trans by blast
qed

lemma find_order:
  assumes "orders_ok db" and "r \<in> set (od_orders db)"
  shows "find (\<lambda>x. or_order_id x = or_order_id r) (od_orders db) = Some r"
proof -
  have "find (\<lambda>x. or_order_id x = or_order_id r) (od_orders db) \<noteq> None"
    using assms(2) by (auto simp: find_None_iff)
  then obtain x where x: "find (\<lambda>x. or_order_id x = or_order_id r) (od_orders db) = Some x" by blast
  then have "x \<in> set (od_orders db)" "or_order_id x = or_order_id r" by (auto simp: find_Some_iff)
  with assms x show ?thesis by (auto simp: orders_ok_def distinct_map inj_on_def)
qed

lemma symbol_projection_settled:
  assumes ok: "orders_ok db" and r: "r \<in> set (od_orders db)" "or_symbol r = s"
    and proj: "symbol_projection observations (od_orders db) filled facts b s = Inr (t, p)" and c: "complete p"
  shows "\<not> unresolved_order r"
    and "or_order_id r \<in> set filled \<Longrightarrow>
      (\<exists>x. b = Some x \<and> or_order_id r \<in> set (pb_covered_order_ids x))
      \<or> (\<exists>q. or_filled_quantity r = Finite q
            \<and> q \<le> total_quantity (filter (\<lambda>f. ff_order_id f = or_order_id r \<and> ff_symbol f = s) facts))"
proof -
  let ?own = "filter (\<lambda>f. ff_symbol f = s) facts"
  let ?covered = "case b of None \<Rightarrow> [] | Some x \<Rightarrow> pb_covered_order_ids x"
  define ids where "ids = filter (\<lambda>oid. oid \<notin> set ?covered)
                  (remdups (map ff_order_id ?own
                     @ map or_order_id (filter (\<lambda>r. or_symbol r = s \<and> or_order_id r \<in> set filled) (od_orders db))))"
  from proj obtain reasons where rs: "rmap (order_id_reasons observations (od_orders db) ?own) ids = Inr reasons"
    and p: "project_position s ?own b (map (\<lambda>r. ''pending_submission_unresolved:'' @ or_order_id r)
                      (filter (\<lambda>r. or_symbol r = s \<and> unresolved_order r) (od_orders db)) @ concat reasons) = Inr p"
    unfolding symbol_projection_def Let_def ids_def by (auto simp: rbind_Inr_iff)
  from complete_no_reasons[OF p c] have none: "filter (\<lambda>r. or_symbol r = s \<and> unresolved_order r) (od_orders db) = []"
    "\<forall>x\<in>set reasons. x = []" by auto
  from none(1) r show "\<not> unresolved_order r" by (auto simp: filter_empty_conv)
  assume f: "or_order_id r \<in> set filled"
  show "(\<exists>x. b = Some x \<and> or_order_id r \<in> set (pb_covered_order_ids x))
      \<or> (\<exists>q. or_filled_quantity r = Finite q
            \<and> q \<le> total_quantity (filter (\<lambda>f. ff_order_id f = or_order_id r \<and> ff_symbol f = s) facts))"
  proof (cases "or_order_id r \<in> set ?covered")
    case True
    then show ?thesis by (auto split: option.splits)
  next
    case False
    with r f have "or_order_id r \<in> set ids" by (auto simp: ids_def)
    from rmap_in(2)[OF rs this] none(2) have "order_id_reasons observations (od_orders db) ?own (or_order_id r) = Inr []"
      by auto
    from order_id_reasons_empty[OF this find_order[OF ok r(1)]] show ?thesis by (auto simp: conj_commute)
  qed
qed

lemma projections_Inr:
  assumes "projections env db = Inr ps" and "(s, p) \<in> set ps"
  shows "\<exists>facts observations baselines filled.
     facts_of env None db = Inr facts \<and> rmap (projected_baseline env db observations) (od_baselines db) = Inr baselines
     \<and> (\<forall>r\<in>set (od_orders db). positive_fill r = Inr True \<longrightarrow> or_order_id r \<in> set filled)
     \<and> symbol_projection observations (od_orders db) filled facts (find (\<lambda>b. pb_symbol b = s) baselines) s = Inr (s, p)"
proof -
  from assms(1) obtain facts observations baselines marked where a: "facts_of env None db = Inr facts"
    "rmap (projected_baseline env db observations) (od_baselines db) = Inr baselines"
    "rmap (\<lambda>r. rbind (positive_fill r) (\<lambda>b. Inr (r, b))) (od_orders db) = Inr marked"
    and ps: "\<exists>symbols. rmap (\<lambda>s. symbol_projection observations (od_orders db)
        (map or_order_id (map fst (filter snd marked))) facts (find (\<lambda>b. pb_symbol b = s) baselines) s) symbols = Inr ps"
    unfolding projections_def Let_def rbind_Inr_iff by blast
  have "\<forall>r\<in>set (od_orders db). positive_fill r = Inr True \<longrightarrow> or_order_id r \<in> set (map or_order_id (map fst (filter snd marked)))"
    using rmap_in(2)[OF a(3)] by (force simp: rbind_Inr_iff)
  moreover from ps rmap_in(1)[OF _ assms(2)] obtain t where
    t: "symbol_projection observations (od_orders db) (map or_order_id (map fst (filter snd marked))) facts
       (find (\<lambda>b. pb_symbol b = t) baselines) t = Inr (s, p)" by blast
  moreover from t have "t = s" by (auto simp: symbol_projection_def Let_def rbind_Inr_iff)
  ultimately show ?thesis using a by blast
qed

lemma projected_baseline_covers:
  "projected_baseline env db observations row = Inr b \<Longrightarrow> \<exists>q. baseline_of_row env row = Inr (b, q)"
  by (auto simp: projected_baseline_def rbind_Inr_iff)

definition covered_by_baseline :: "orders_env \<Rightarrow> orders_db \<Rightarrow> string \<Rightarrow> string \<Rightarrow> bool" where
  "covered_by_baseline env db symbol oid \<longleftrightarrow>
     (\<exists>row\<in>set (od_baselines db). \<exists>b q. baseline_of_row env row = Inr (b, q)
        \<and> pb_symbol b = symbol \<and> oid \<in> set (pb_covered_order_ids b))"

definition ex_orders_env :: "instant \<Rightarrow> orders_env" where
  "ex_orders_env now =
     \<lparr>oe_hash = (\<lambda>p. CHR ''h'' # concat (map fst p)), oe_now = now, oe_text = (\<lambda>_. []), oe_seconds = (\<lambda>_. None)\<rparr>"

definition ex_reserved :: order_record where
  "ex_reserved =
     \<lparr>or_order_id = ''client-1'', or_client_order_id = ''client-1'', or_symbol = ''BTC-USD'', or_side = ''sell'',
      or_order_type = ''limit'', or_quantity = Finite 2, or_price = Some (Finite 100), or_status = RS_PENDING,
      or_filled_quantity = Finite 0, or_average_fill_price = None, or_created_at = Aware 0, or_updated_at = Aware 0,
      or_bot_id = None, or_time_in_force = ''GTC'',
      or_metadata = Some [(''intent'', JObj (order_intent_to_dict ex_intent)), (''record_checksum_version'', JInt 2)],
      or_checksum = None\<rparr>"

definition ex_venue_fill :: fill_fact where
  "ex_venue_fill =
     \<lparr>ff_fill_id = ''fill-1'', ff_order_id = ''venue-1'', ff_client_order_id = ''client-1'', ff_symbol = ''BTC-USD'',
      ff_side = ''sell'', ff_quantity = 1, ff_price = 100, ff_executed_at = 5, ff_fee = None, ff_fee_currency = None\<rparr>"

definition ex_pending_db :: orders_db where
  "ex_pending_db = handle (ex_orders_env 0) (Reserve ex_reserved) empty_orders"

definition ex_filled_db :: orders_db where
  "ex_filled_db = handle (ex_orders_env 10) (RecordFill ex_venue_fill) ex_pending_db"

definition ex_opening :: position_baseline where
  "ex_opening =
     \<lparr>pb_symbol = ''BTC-USD'', pb_effective_at = 1, pb_quantity = 5, pb_entry_price = Some 90,
      pb_evidence = ''statement'', pb_actor_id = ''operator'', pb_covered_order_ids = []\<rparr>"

definition ex_projected_db :: orders_db where
  "ex_projected_db = handle (ex_orders_env 10) (RecordBaseline ex_opening) ex_filled_db"

lemma ex_pending_run: "order_run removing empty_orders ex_pending_db"
  unfolding ex_pending_db_def by (intro order_run.intros) simp

lemma ex_fill_run: "order_run False ex_pending_db ex_filled_db"
  unfolding ex_filled_db_def by (intro order_run.intros) simp

lemma ex_filled_run: "order_run True empty_orders ex_filled_db"
  unfolding ex_filled_db_def using ex_pending_run[of True] by (intro order_run.intros) simp_all

lemma ex_projected_run: "order_run True empty_orders ex_projected_db"
  unfolding ex_projected_db_def using ex_filled_run by (intro order_run.intros) simp_all

lemma ex_fact_ok: "fact_ok ex_venue_fill"
  by code_simp

lemma ex_hash_nonempty: "oe_hash (ex_orders_env n) p \<noteq> []"
  by (simp add: ex_orders_env_def)

lemma ex_fill_recorded: "record_fill (ex_orders_env 10) ex_venue_fill ex_pending_db = Inr (True, ex_filled_db)"
proof -
  have "(case record_fill (ex_orders_env 10) ex_venue_fill ex_pending_db of Inr (b, db) \<Rightarrow> b | _ \<Rightarrow> False)"
    by code_simp
  then show ?thesis by (auto simp: ex_filled_db_def handle_def split: sum.splits)
qed

lemma ex_projection:
  "case projections (ex_orders_env 20) ex_projected_db of
     Inr ps \<Rightarrow> map fst ps = [''BTC-USD''] \<and> list_all (\<lambda>(s, p). complete p \<and> pp_quantity p = Some 4) ps
   | _ \<Rightarrow> False"
  by code_simp

section \<open>Properties\<close>











text \<open>
  C12: A projection of a symbol that claims to be complete leaves no order of the symbol open to
  doubt: none is pending or failed, and every order with a positive filled quantity either is
  covered by the symbol's opening baseline or has identified fills of at least that quantity.
\<close>

theorem complete_projection_settled:
  assumes "order_run True empty_orders db" and "projections env db = Inr ps" and "(s, p) \<in> set ps" and "complete p"
    and "r \<in> set (od_orders db)" and "or_symbol r = s"
  shows "\<not> unresolved_order r
    \<and> (positive_fill r = Inr True \<longrightarrow>
         covered_by_baseline env db s (or_order_id r)
         \<or> (\<exists>facts q. facts_of env None db = Inr facts \<and> or_filled_quantity r = Finite q
              \<and> q \<le> total_quantity (filter (\<lambda>f. ff_order_id f = or_order_id r \<and> ff_symbol f = s) facts)))"
proof -
  have ok: "orders_ok db" using run_keeps[OF assms(1) empty_orders_ok] by simp
  from projections_Inr[OF assms(2,3)] obtain facts observations baselines filled where
    facts: "facts_of env None db = Inr facts"
    and bs: "rmap (projected_baseline env db observations) (od_baselines db) = Inr baselines"
    and filled: "\<forall>r\<in>set (od_orders db). positive_fill r = Inr True \<longrightarrow> or_order_id r \<in> set filled"
    and proj: "symbol_projection observations (od_orders db) filled facts (find (\<lambda>b. pb_symbol b = s) baselines) s
                 = Inr (s, p)" by blast
  note settled = symbol_projection_settled[OF ok assms(5,6) proj assms(4)]
  have "covered_by_baseline env db s i"
    if "find (\<lambda>b. pb_symbol b = s) baselines = Some b" "i \<in> set (pb_covered_order_ids b)" for b i
  proof -
    from that(1) have b: "b \<in> set baselines" "pb_symbol b = s" by (auto simp: find_Some_iff)
    from rmap_in(1)[OF bs b(1)] obtain row where "row \<in> set (od_baselines db)"
      "projected_baseline env db observations row = Inr b" by blast
    with projected_baseline_covers[of env db observations row b] b(2) that(2) show ?thesis
      unfolding covered_by_baseline_def by blast
  qed
  with settled filled assms(5) facts show ?thesis by blast
qed

theorem complete_projection_settled_witness:
  "\<exists>r. od_orders ex_projected_db = [r] \<and> positive_fill r = Inr True \<and> \<not> unresolved_order r
     \<and> (positive_fill r = Inr True \<longrightarrow>
         covered_by_baseline (ex_orders_env 20) ex_projected_db ''BTC-USD'' (or_order_id r)
         \<or> (\<exists>facts q. facts_of (ex_orders_env 20) None ex_projected_db = Inr facts \<and> or_filled_quantity r = Finite q
              \<and> q \<le> total_quantity (filter (\<lambda>f. ff_order_id f = or_order_id r \<and> ff_symbol f = ''BTC-USD'') facts)))"
proof -
  from ex_projection obtain p where p: "projections (ex_orders_env 20) ex_projected_db = Inr [(''BTC-USD'', p)]" "complete p"
    by (auto split: sum.splits)
  have "(case od_orders ex_projected_db of [r] \<Rightarrow> positive_fill r = Inr True \<and> or_symbol r = ''BTC-USD'' | _ \<Rightarrow> False)"
    by code_simp
  then obtain r where r: "od_orders ex_projected_db = [r]" "positive_fill r = Inr True" "or_symbol r = ''BTC-USD''"
    by (auto split: list.splits)
  from complete_projection_settled[OF ex_projected_run p(1) _ p(2) _ r(3)] r show ?thesis by simp
qed

end
