(* ===== verification/Live_Degradation.thy ===== *)
theory Live_Degradation
  imports Py_Values
begin

text \<open>
  Two controls of the live engine: the pauses of
  \<^verbatim>\<open>src/gpt_trader/features/live_trade/degradation.py\<close> and the lifecycle of
  \<^verbatim>\<open>src/gpt_trader/features/live_trade/lifecycle.py\<close>. Every operation reads the clock once; the
  time is an argument \<open>now\<close>, in seconds, and sums of times are exact. Logging is left out.

  The lemmas: a pause never shortens, and until its end or a manual clearing it blocks every order
  that may increase a position; a lifecycle moves along its table unless it is forced.
\<close>

section \<open>Pauses\<close>

record pause_record =
  pr_until :: rat
  pr_reason :: string
  pr_allow_reduce_only :: bool

text \<open>The two dictionaries are maps; the keys of \<open>dg_symbol_pauses\<close> are kept in insertion order.\<close>

record degradation_state =
  dg_global_pause :: "pause_record option"
  dg_symbol_pauses :: "(string \<times> pause_record) list"
  dg_slippage_failures :: "(string \<times> int) list"
  dg_broker_failures :: int

definition new_degradation_state :: degradation_state where
  "new_degradation_state =
     \<lparr>dg_global_pause = None, dg_symbol_pauses = [], dg_slippage_failures = [], dg_broker_failures = 0\<rparr>"

text \<open>\<^verbatim>\<open>d[k] = v\<close> and \<^verbatim>\<open>del d[k]\<close>.\<close>

definition assign :: "'k \<Rightarrow> 'v \<Rightarrow> ('k \<times> 'v) list \<Rightarrow> ('k \<times> 'v) list" where
  "assign k v d = (if map_of d k = None then d @ [(k, v)]
                   else map (\<lambda>(i, w). (i, if i = k then v else w)) d)"

definition without :: "'k \<Rightarrow> ('k \<times> 'v) list \<Rightarrow> ('k \<times> 'v) list" where
  "without k d = filter (\<lambda>(i, _). i \<noteq> k) d"

definition pause_all :: "rat \<Rightarrow> rat \<Rightarrow> string \<Rightarrow> bool \<Rightarrow> degradation_state \<Rightarrow> degradation_state" where
  "pause_all now duration reason allow s =
     (let until' = now + duration in
      if (case dg_global_pause s of None \<Rightarrow> False | Some p \<Rightarrow> until' < pr_until p) then s
      else s\<lparr>dg_global_pause := Some \<lparr>pr_until = until', pr_reason = reason, pr_allow_reduce_only = allow\<rparr>\<rparr>)"

definition pause_symbol :: "rat \<Rightarrow> string \<Rightarrow> rat \<Rightarrow> string \<Rightarrow> bool \<Rightarrow> degradation_state \<Rightarrow> degradation_state" where
  "pause_symbol now symbol duration reason allow s =
     (let until' = now + duration in
      if (case map_of (dg_symbol_pauses s) symbol of None \<Rightarrow> False | Some p \<Rightarrow> until' < pr_until p) then s
      else s\<lparr>dg_symbol_pauses := assign symbol
               \<lparr>pr_until = until', pr_reason = reason, pr_allow_reduce_only = allow\<rparr> (dg_symbol_pauses s)\<rparr>)"

definition symbol_paused :: "rat \<Rightarrow> string option \<Rightarrow> bool \<Rightarrow> degradation_state \<Rightarrow> bool \<times> degradation_state" where
  "symbol_paused now symbol reduce_only s =
     (case symbol of
        None \<Rightarrow> (False, s)
      | Some k \<Rightarrow>
          (case map_of (dg_symbol_pauses s) k of
             None \<Rightarrow> (False, s)
           | Some p \<Rightarrow>
               if now < pr_until p then (\<not> (reduce_only \<and> pr_allow_reduce_only p), s)
               else (False, s\<lparr>dg_symbol_pauses := without k (dg_symbol_pauses s)\<rparr>)))"

definition is_paused :: "rat \<Rightarrow> string option \<Rightarrow> bool \<Rightarrow> degradation_state \<Rightarrow> bool \<times> degradation_state" where
  "is_paused now symbol reduce_only s =
     (case dg_global_pause s of
        None \<Rightarrow> symbol_paused now symbol reduce_only s
      | Some p \<Rightarrow>
          if now < pr_until p then (\<not> (reduce_only \<and> pr_allow_reduce_only p), s)
          else symbol_paused now symbol reduce_only (s\<lparr>dg_global_pause := None\<rparr>))"

definition get_pause_reason :: "rat \<Rightarrow> string option \<Rightarrow> degradation_state \<Rightarrow> string option" where
  "get_pause_reason now symbol s =
     (case dg_global_pause s of
        Some p \<Rightarrow> if now < pr_until p then Some (pr_reason p) else
          (case symbol of None \<Rightarrow> None
           | Some k \<Rightarrow> (case map_of (dg_symbol_pauses s) k of None \<Rightarrow> None
                        | Some q \<Rightarrow> if now < pr_until q then Some (pr_reason q) else None))
      | None \<Rightarrow>
          (case symbol of None \<Rightarrow> None
           | Some k \<Rightarrow> (case map_of (dg_symbol_pauses s) k of None \<Rightarrow> None
                        | Some q \<Rightarrow> if now < pr_until q then Some (pr_reason q) else None)))"

text \<open>The fields of \<^verbatim>\<open>RiskConfig\<close> that are read.\<close>

record pause_config =
  pc_slippage_failure_pause_after :: int
  pc_slippage_pause_seconds :: rat
  pc_broker_outage_max_failures :: int
  pc_broker_outage_cooldown_seconds :: rat

definition record_slippage_failure :: "rat \<Rightarrow> string \<Rightarrow> pause_config \<Rightarrow> degradation_state \<Rightarrow> bool \<times> degradation_state" where
  "record_slippage_failure now symbol c s =
     (let count = (case map_of (dg_slippage_failures s) symbol of None \<Rightarrow> 0 | Some n \<Rightarrow> n) + 1;
          s1 = s\<lparr>dg_slippage_failures := assign symbol count (dg_slippage_failures s)\<rparr>
      in if pc_slippage_failure_pause_after c \<le> count then
           let s2 = pause_symbol now symbol (pc_slippage_pause_seconds c) (''slippage_failures:'' @ str_int count) True s1
           in (True, s2\<lparr>dg_slippage_failures := assign symbol 0 (dg_slippage_failures s2)\<rparr>)
         else (False, s1))"

definition reset_slippage_failures :: "string \<Rightarrow> degradation_state \<Rightarrow> degradation_state" where
  "reset_slippage_failures symbol s = s\<lparr>dg_slippage_failures := assign symbol 0 (dg_slippage_failures s)\<rparr>"

definition record_broker_failure :: "rat \<Rightarrow> pause_config \<Rightarrow> degradation_state \<Rightarrow> bool \<times> degradation_state" where
  "record_broker_failure now c s =
     (let s1 = s\<lparr>dg_broker_failures := dg_broker_failures s + 1\<rparr> in
      if pc_broker_outage_max_failures c \<le> dg_broker_failures s1 then
        (True, (pause_all now (pc_broker_outage_cooldown_seconds c)
                  (''broker_outage:'' @ str_int (dg_broker_failures s1)) True s1)\<lparr>dg_broker_failures := 0\<rparr>)
      else (False, s1))"

definition reset_broker_failures :: "degradation_state \<Rightarrow> degradation_state" where
  "reset_broker_failures s = s\<lparr>dg_broker_failures := 0\<rparr>"

definition clear_all :: "degradation_state \<Rightarrow> degradation_state" where
  "clear_all s = new_degradation_state"

text \<open>\<^verbatim>\<open>max(0, int(until - now))\<close>\<close>

definition remaining_seconds :: "rat \<Rightarrow> pause_record \<Rightarrow> int" where
  "remaining_seconds now p =
     (let left = pr_until p - now in max 0 (if left < 0 then \<lceil>left\<rceil> else \<lfloor>left\<rfloor>))"

record degradation_status =
  gs_global_paused :: bool
  gs_global_reason :: "string option"
  gs_global_remaining_seconds :: int
  gs_paused_symbols :: "(string \<times> string \<times> int \<times> bool) list"
  gs_slippage_failures :: "(string \<times> int) list"
  gs_broker_failures :: int

definition get_status :: "rat \<Rightarrow> degradation_state \<Rightarrow> degradation_status" where
  "get_status now s =
     \<lparr>gs_global_paused = (case dg_global_pause s of None \<Rightarrow> False | Some p \<Rightarrow> now < pr_until p),
      gs_global_reason = map_option pr_reason (dg_global_pause s),
      gs_global_remaining_seconds = (case dg_global_pause s of None \<Rightarrow> 0 | Some p \<Rightarrow> remaining_seconds now p),
      gs_paused_symbols =
        map (\<lambda>(k, p). (k, pr_reason p, remaining_seconds now p, pr_allow_reduce_only p))
          (filter (\<lambda>(_, p). now < pr_until p) (dg_symbol_pauses s)),
      gs_slippage_failures = dg_slippage_failures s,
      gs_broker_failures = dg_broker_failures s\<rparr>"

section \<open>A pause holds\<close>

datatype degradation_call =
    PauseAll rat string bool
  | PauseSymbol string rat string bool
  | IsPaused "string option" bool
  | SlippageFailure string pause_config
  | ResetSlippage string
  | BrokerFailure pause_config
  | ResetBroker
  | ClearAll

fun call_effect :: "rat \<Rightarrow> degradation_call \<Rightarrow> degradation_state \<Rightarrow> degradation_state" where
  "call_effect now (PauseAll d r a) s = pause_all now d r a s"
| "call_effect now (PauseSymbol k d r a) s = pause_symbol now k d r a s"
| "call_effect now (IsPaused k b) s = snd (is_paused now k b s)"
| "call_effect now (SlippageFailure k c) s = snd (record_slippage_failure now k c s)"
| "call_effect now (ResetSlippage k) s = reset_slippage_failures k s"
| "call_effect now (BrokerFailure c) s = snd (record_broker_failure now c s)"
| "call_effect now ResetBroker s = reset_broker_failures s"
| "call_effect now ClearAll s = clear_all s"

text \<open>Calls in the order of their times, the last one at \<open>until\<close>, none of them a manual clearing.\<close>

inductive calls_until :: "rat \<Rightarrow> degradation_state \<Rightarrow> rat \<Rightarrow> degradation_state \<Rightarrow> bool"
  for start :: rat and s :: degradation_state where
  none: "calls_until start s start s"
| call: "calls_until start s t s' \<Longrightarrow> t \<le> now \<Longrightarrow> c \<noteq> ClearAll \<Longrightarrow>
         calls_until start s now (call_effect now c s')"

lemma map_of_replace:
  "map_of (map (\<lambda>(i, w). (i, if i = k then v else w)) d) i = map_option (\<lambda>w. if i = k then v else w) (map_of d i)"
  by (induction d) auto

lemma map_of_assign: "map_of (assign k v d) i = (if i = k then Some v else map_of d i)"
  by (auto simp: assign_def map_of_replace map_add_def option.map_ident split: option.split)

lemma map_of_without: "map_of (without k d) i = (if i = k then None else map_of d i)"
  by (induction d) (auto simp: without_def)

text \<open>What a call at a time before \<open>u\<close> leaves of the pauses that last until \<open>u\<close>.\<close>

definition global_until :: "rat \<Rightarrow> degradation_state \<Rightarrow> bool" where
  "global_until u s \<longleftrightarrow> (\<exists>p. dg_global_pause s = Some p \<and> u \<le> pr_until p)"

definition symbol_until :: "rat \<Rightarrow> string \<Rightarrow> degradation_state \<Rightarrow> bool" where
  "symbol_until u k s \<longleftrightarrow> (\<exists>p. map_of (dg_symbol_pauses s) k = Some p \<and> u \<le> pr_until p)"

lemma pause_all_keeps:
  "global_until u s \<Longrightarrow> global_until u (pause_all now d r a s)"
  "symbol_until u k (pause_all now d r a s) = symbol_until u k s"
  by (auto simp: global_until_def symbol_until_def pause_all_def Let_def split: option.split)

lemma pause_symbol_keeps:
  "global_until u (pause_symbol now i d r a s) = global_until u s"
  "symbol_until u k s \<Longrightarrow> symbol_until u k (pause_symbol now i d r a s)"
  by (auto simp: global_until_def symbol_until_def pause_symbol_def Let_def map_of_assign split: option.split)

lemma symbol_paused_keeps:
  "global_until u (snd (symbol_paused now i b s)) = global_until u s"
  "now < u \<Longrightarrow> symbol_until u k s \<Longrightarrow> symbol_until u k (snd (symbol_paused now i b s))"
  by (auto simp: global_until_def symbol_until_def symbol_paused_def map_of_without split: option.splits)

lemma is_paused_keeps:
  assumes "now < u"
  shows "global_until u s \<Longrightarrow> global_until u (snd (is_paused now i b s))"
    and "symbol_until u k s \<Longrightarrow> symbol_until u k (snd (is_paused now i b s))"
  using assms symbol_paused_keeps
  by (auto simp: is_paused_def global_until_def symbol_until_def split: option.splits)

lemma counters_keep:
  "global_until u (s\<lparr>dg_slippage_failures := x\<rparr>) = global_until u s"
  "symbol_until u k (s\<lparr>dg_slippage_failures := x\<rparr>) = symbol_until u k s"
  "global_until u (s\<lparr>dg_broker_failures := n\<rparr>) = global_until u s"
  "symbol_until u k (s\<lparr>dg_broker_failures := n\<rparr>) = symbol_until u k s"
  by (simp_all add: global_until_def symbol_until_def)

lemmas pauses_keep = pause_all_keeps pause_symbol_keeps counters_keep

lemma call_keeps:
  assumes "now < u" and "c \<noteq> ClearAll"
  shows "global_until u s \<Longrightarrow> global_until u (call_effect now c s)"
    and "symbol_until u k s \<Longrightarrow> symbol_until u k (call_effect now c s)"
  using assms
  by (cases c; auto simp: record_slippage_failure_def record_broker_failure_def reset_slippage_failures_def
      reset_broker_failures_def Let_def pauses_keep is_paused_keeps)+

lemma calls_keep:
  assumes "calls_until start s t s'" and "t < u"
  shows "global_until u s \<Longrightarrow> global_until u s'" and "symbol_until u k s \<Longrightarrow> symbol_until u k s'"
  using assms by (induction) (auto intro: call_keeps)

lemma until_blocks:
  assumes "t < u"
  shows "global_until u s \<Longrightarrow> fst (is_paused t symbol False s)"
    and "symbol_until u k s \<Longrightarrow> fst (is_paused t (Some k) False s)"
  using assms by (auto simp: global_until_def symbol_until_def is_paused_def symbol_paused_def split: option.splits)

text \<open>
  C18: A pause holds. Once all trading or a symbol is paused at a time for a duration, then whatever
  calls follow, short of a manual clearing, an order for the symbol that is not reduce-only is blocked
  at every time before the pause's end: later pauses, failures, resets and checks never shorten it.
\<close>

theorem pause_holds:
  assumes "calls_until start (call_effect start c s) t s'" and "t \<le> now" and "now < start + d"
    and "c = PauseAll d reason allow \<or> c = PauseSymbol k d reason allow"
  shows "fst (is_paused now (Some k) False s')"
  using assms(4)
proof
  assume c: "c = PauseAll d reason allow"
  have "global_until (start + d) (call_effect start c s)"
    by (auto simp: c pause_all_def global_until_def Let_def split: option.split)
  with calls_keep(1)[OF assms(1)] assms(2,3) until_blocks(1)[OF assms(3)] show ?thesis by simp
next
  assume c: "c = PauseSymbol k d reason allow"
  have "symbol_until (start + d) k (call_effect start c s)"
    by (auto simp: c pause_symbol_def symbol_until_def Let_def map_of_assign split: option.split)
  with calls_keep(2)[OF assms(1)] assms(2,3) until_blocks(2)[OF assms(3)] show ?thesis by simp
qed

text \<open>
  The reduce-only exemption of a global pause is decided before the pause of the symbol is read: an
  order for a symbol whose own pause admits no reduce-only order passes.
\<close>

lemma global_exemption_hides_symbol_pause:
  assumes "dg_global_pause s = Some p" and "now < pr_until p" and "pr_allow_reduce_only p"
  shows "is_paused now (Some k) True s = (False, s)"
  using assms by (simp add: is_paused_def)

definition ex_config :: pause_config where
  "ex_config =
     \<lparr>pc_slippage_failure_pause_after = 3, pc_slippage_pause_seconds = 60,
      pc_broker_outage_max_failures = 1, pc_broker_outage_cooldown_seconds = 30\<rparr>"

theorem pause_holds_witness:
  "fst (is_paused 199 (Some ''BTC-USD'')  False
     (call_effect 110 (BrokerFailure ex_config) (call_effect 100 (PauseAll 100 ''drift'' True) new_degradation_state)))"
proof (rule pause_holds[of 100 "PauseAll 100 ''drift'' True" new_degradation_state 110 _ 199 100 _ True])
  show "calls_until 100 (call_effect 100 (PauseAll 100 ''drift'' True) new_degradation_state) 110
     (call_effect 110 (BrokerFailure ex_config) (call_effect 100 (PauseAll 100 ''drift'' True) new_degradation_state))"
    by (rule call[OF none]) simp_all
qed simp_all

section \<open>Lifecycle\<close>

datatype bot_state = INIT | STARTING | RUNNING | STOPPING | STOPPED | ERROR

fun bot_state_value :: "bot_state \<Rightarrow> string" where
  "bot_state_value INIT = ''init''"
| "bot_state_value STARTING = ''starting''"
| "bot_state_value RUNNING = ''running''"
| "bot_state_value STOPPING = ''stopping''"
| "bot_state_value STOPPED = ''stopped''"
| "bot_state_value ERROR = ''error''"

text \<open>\<^verbatim>\<open>TRADING_BOT_TRANSITIONS\<close>, which \<^verbatim>\<open>ENGINE_TRANSITIONS\<close> repeats for the states of an engine.\<close>

fun TRADING_BOT_TRANSITIONS :: "bot_state \<Rightarrow> bot_state list" where
  "TRADING_BOT_TRANSITIONS INIT = [STARTING, STOPPING, STOPPED]"
| "TRADING_BOT_TRANSITIONS STARTING = [RUNNING, STOPPING, ERROR]"
| "TRADING_BOT_TRANSITIONS RUNNING = [STOPPING, ERROR]"
| "TRADING_BOT_TRANSITIONS STOPPING = [STOPPED, ERROR]"
| "TRADING_BOT_TRANSITIONS STOPPED = [STARTING, STOPPING]"
| "TRADING_BOT_TRANSITIONS ERROR = [STOPPING, STOPPED]"

record state_transition =
  sx_entity :: string
  sx_from_state :: string
  sx_to_state :: string
  sx_reason :: string
  sx_timestamp :: rat
  sx_details :: payload
  sx_forced :: bool

text \<open>\<open>lm_last_transition\<close> is \<open>None\<close> while the attribute \<^verbatim>\<open>_last_transition\<close> is not set.\<close>

record lifecycle_machine =
  lm_state :: bot_state
  lm_entity :: string
  lm_last_transition :: "state_transition option"

definition new_lifecycle :: "bot_state \<Rightarrow> string \<Rightarrow> lifecycle_machine" where
  "new_lifecycle initial entity = \<lparr>lm_state = initial, lm_entity = entity, lm_last_transition = None\<rparr>"

definition last_transition :: "lifecycle_machine \<Rightarrow> state_transition result" where
  "last_transition m =
     (case lm_last_transition m of None \<Rightarrow> Inl (AttributeError ''_last_transition'') | Some t \<Rightarrow> Inr t)"

definition lifecycle_transition ::
  "rat \<Rightarrow> bot_state \<Rightarrow> string \<Rightarrow> payload \<Rightarrow> bool \<Rightarrow> lifecycle_machine \<Rightarrow> bool \<times> lifecycle_machine" where
  "lifecycle_transition now target reason details force m =
     (if target = lm_state m then (True, m)
      else if \<not> force \<and> target \<notin> set (TRADING_BOT_TRANSITIONS (lm_state m)) then (False, m)
      else (True, m\<lparr>lm_last_transition := Some
                      \<lparr>sx_entity = lm_entity m, sx_from_state = bot_state_value (lm_state m),
                       sx_to_state = bot_state_value target, sx_reason = reason, sx_timestamp = now,
                       sx_details = details, sx_forced = force\<rparr>,
                     lm_state := target\<rparr>))"

inductive lifecycle_run :: "lifecycle_machine \<Rightarrow> bot_state list \<Rightarrow> lifecycle_machine \<Rightarrow> bool"
  for m :: lifecycle_machine where
  begun: "lifecycle_run m [lm_state m] m"
| moved: "lifecycle_run m path m' \<Longrightarrow>
          lifecycle_run m (path @ [lm_state (snd (lifecycle_transition now target reason details False m'))])
            (snd (lifecycle_transition now target reason details False m'))"

lemma unset_transition_raises: "last_transition (new_lifecycle initial entity) = Inl (AttributeError ''_last_transition'')"
  by (simp add: last_transition_def new_lifecycle_def)

lemma transition_table:
  "lm_state (snd (lifecycle_transition now target reason details False m)) = lm_state m
   \<or> lm_state (snd (lifecycle_transition now target reason details False m)) \<in> set (TRADING_BOT_TRANSITIONS (lm_state m))"
  by (simp add: lifecycle_transition_def)

text \<open>Running is reached from starting only, and starting only from a machine that is at rest.\<close>

lemma running_from_starting:
  "RUNNING \<in> set (TRADING_BOT_TRANSITIONS a) \<Longrightarrow> a = STARTING"
  "STARTING \<in> set (TRADING_BOT_TRANSITIONS a) \<Longrightarrow> a = INIT \<or> a = STOPPED"
  by (cases a; simp)+

definition follows_table :: "bot_state list \<Rightarrow> bool" where
  "follows_table path \<longleftrightarrow>
     (\<forall>i. Suc i < length path \<longrightarrow> path ! Suc i = path ! i \<or> path ! Suc i \<in> set (TRADING_BOT_TRANSITIONS (path ! i)))"

lemma follows_table_snoc:
  "follows_table (path @ [a]) \<longleftrightarrow>
     follows_table path \<and> (path \<noteq> [] \<longrightarrow> a = last path \<or> a \<in> set (TRADING_BOT_TRANSITIONS (last path)))"
proof (cases path rule: rev_cases)
  case (snoc p b)
  then show ?thesis
    by (auto simp: follows_table_def nth_append less_Suc_eq)
qed (simp add: follows_table_def)

lemma run_follows_table:
  "lifecycle_run m path m' \<Longrightarrow> path \<noteq> [] \<and> last path = lm_state m' \<and> follows_table path"
proof (induction rule: lifecycle_run.induct)
  case begun
  then show ?case by (simp add: follows_table_def)
next
  case (moved path m' now target reason details)
  then show ?case using transition_table[of now target reason details m'] by (simp add: follows_table_snoc)
qed

text \<open>After an error a machine runs again only after it was stopped and started.\<close>

lemma error_restarts_through_stop:
  assumes "follows_table path" and "path ! i = ERROR" and "i < k" and "k < length path" and "path ! k = RUNNING"
  shows "\<exists>l j. i < l \<and> l < j \<and> j < k \<and> path ! l = STOPPED \<and> path ! j = STARTING"
proof -
  define good where "good n \<longleftrightarrow>
    (case path ! n of INIT \<Rightarrow> False
     | STARTING \<Rightarrow> \<exists>l. i < l \<and> l < n \<and> path ! l = STOPPED
     | RUNNING \<Rightarrow> \<exists>l j. i < l \<and> l < j \<and> j < n \<and> path ! l = STOPPED \<and> path ! j = STARTING
     | _ \<Rightarrow> True)" for n
  have "i \<le> n \<Longrightarrow> n < length path \<Longrightarrow> good n" for n
  proof (induction n rule: dec_induct)
    case base
    then show ?case using assms(2) by (simp add: good_def)
  next
    case (step n)
    then have g: "good n" and next': "path ! Suc n = path ! n \<or> path ! Suc n \<in> set (TRADING_BOT_TRANSITIONS (path ! n))"
      using assms(1) by (auto simp: follows_table_def)
    have at: "path ! n = STOPPED \<Longrightarrow> i < n" using assms(2) step.hyps(1) by (cases "i = n") auto
    show ?case
    proof (cases "path ! Suc n")
      case STARTING
      with next' consider "path ! n = STARTING" | "path ! n = STOPPED" | "path ! n = INIT"
        using running_from_starting(2) by metis
      then show ?thesis using g at STARTING by cases (auto simp: good_def intro: less_SucI)
    next
      case RUNNING
      with next' consider "path ! n = RUNNING" | "path ! n = STARTING" using running_from_starting(1) by metis
      then show ?thesis using g RUNNING by cases (auto simp: good_def intro: less_SucI)
    next
      case INIT
      with next' g show ?thesis by (cases "path ! n") (auto simp: good_def)
    qed (simp_all add: good_def)
  qed
  from this[of k] assms(3-5) show ?thesis by (simp add: good_def)
qed

end
