(* ===== verification/Spec2Isabelle.thy ===== *)
theory Spec2Isabelle
  imports Exp_Properties Idea_Approvals Idea_Exit_Monitor Orders_History Live_Degradation
begin

text \<open>
  Verification of GPT-Trader: the paper experiment, the trade-idea ledger and the order store.

  The program. GPT-Trader records trade ideas, lets a policy and a human approve them, and
  accounts for what is executed; its experiment runs one channel (rule benchmarks, a
  scheduled rulebook, or a language model) over recorded hourly bars in a paper account with
  a hash-chained journal. The parts modelled here are the ones that carry this logic, under
  \<^verbatim>\<open>src/src/gpt_trader\<close>:

  \<^item> \<^verbatim>\<open>core/\<close>: order intents and receipts, instruments, ticks, risk units (Core_Trading), the
    position reducer \<^verbatim>\<open>project_position\<close> (Fill_Accounting) and \<^verbatim>\<open>trading_calendar.py\<close>
    (Trading_Calendar).
  \<^item> \<^verbatim>\<open>features/experiment/\<close>: \<^verbatim>\<open>inputs.py\<close> (Exp_Inputs), \<^verbatim>\<open>rulebook.py\<close> (Exp_Inputs for the schema,
    Exp_Rules for \<^verbatim>\<open>evaluate\<close>), \<^verbatim>\<open>trade_manager.py\<close> (Exp_Manager), \<^verbatim>\<open>engine.py\<close> (Exp_Engine, and
    the loop \<^verbatim>\<open>run_experiment\<close> in Exp_Ledger), \<^verbatim>\<open>ledger.py\<close> (Exp_Ledger).
  \<^item> \<^verbatim>\<open>features/trade_ideas/\<close>: \<^verbatim>\<open>models.py\<close> and \<^verbatim>\<open>eligibility.py\<close> (Idea_Models), \<^verbatim>\<open>snapshot.py\<close>
    (Market_Snapshot), \<^verbatim>\<open>workflow.py\<close> and \<^verbatim>\<open>audit.py\<close> (Idea_Audit), \<^verbatim>\<open>budget.py\<close> (Idea_Budget),
    \<^verbatim>\<open>autonomy.py\<close> (Idea_Autonomy), \<^verbatim>\<open>policy.py\<close> (Idea_Policy), \<^verbatim>\<open>closeout.py\<close> and \<^verbatim>\<open>lifecycle.py\<close>
    (Idea_Closeout), \<^verbatim>\<open>accounting.py\<close> and \<^verbatim>\<open>monitors.py\<close> (Idea_Accounting),
    \<^verbatim>\<open>execution_journal.py\<close> (Idea_Journal), \<^verbatim>\<open>fill_evidence.py\<close> and \<^verbatim>\<open>position_operations.py\<close>
    (Idea_Positions; what they write is in Idea_Service), \<^verbatim>\<open>persistence.py\<close> and \<^verbatim>\<open>store.py\<close> (Jsonl_Log for
    the logs, Idea_Repository for the tables and transactions), \<^verbatim>\<open>kernel.py\<close> (Idea_Kernel) and
    \<^verbatim>\<open>service.py\<close> with \<^verbatim>\<open>service_models.py\<close>: reads in Idea_Views, budget exposure in Idea_Exposure,
    budget, autonomy and audit in Idea_Kernel, the other writes in Idea_Service; and
    \<^verbatim>\<open>paper_reconciliation.py\<close> (Idea_Reconciliation), and \<^verbatim>\<open>replay.py\<close> (Idea_Replay).
  \<^item> \<^verbatim>\<open>features/idea_execution/\<close>: \<^verbatim>\<open>executor.py\<close> (Idea_Executor) and \<^verbatim>\<open>event_lane.py\<close> with the orders
    of \<^verbatim>\<open>brokerages/mock/deterministic.py\<close> (Idea_Lane), and \<^verbatim>\<open>exit_monitor.py\<close> (Idea_Exit_Monitor).
  \<^item> \<^verbatim>\<open>persistence/\<close>: \<^verbatim>\<open>orders_models.py\<close> and \<^verbatim>\<open>orders_store.py\<close> (Orders_Store), \<^verbatim>\<open>orders_accounting.py\<close>
    (Orders_Accounting); histories of their calls are in Orders_History.
  \<^item> \<^verbatim>\<open>features/live_trade/\<close>: \<^verbatim>\<open>degradation.py\<close> and \<^verbatim>\<open>lifecycle.py\<close> (Live_Degradation).

  How they interact. An accepted input fixes candles, settings, channel and schedule. For
  every bar \<^verbatim>\<open>advance\<close> serves a requested exit, fills the pending entry, settles stop, target
  and expiry, marks the account and asks the channel for a decision; \<^verbatim>\<open>run_experiment\<close> commits
  the event with the checksum of its predecessor and, before every bar, reads all rows back,
  replays them and reconciles the account with the position reducer of \<^verbatim>\<open>core/\<close>. A trade
  idea walks the state machine of \<^verbatim>\<open>workflow.py\<close>; every step is an event of the audit log;
  approval asks the policy, which reads the risk budget and the autonomy level, themselves
  versioned logs; closeouts feed the paper accountant, whose ledger the monitors and the
  autonomy ratchet read. The service is the one way to all of these: it reads the latest record
  of a decision only together with its audit events, asks the kernel for a check, and records the
  outcome in one transaction, which a raised exception rolls back. The executor takes an approved
  idea, records its submission and its intent in one transaction, asks the broker, makes the answer
  durable in the execution journal and has the reconciler record the fill; recovery goes on from
  the journal alone. The exit monitor scores every filled idea on the bars since its fill, as a replay
  scores a proposed one, and closes it through the service. The live engine keeps its orders in the order store: a client identity is reserved
  before anything is sent, updates and identified fills advance the record, and the position of a symbol
  is projected from an opening baseline and the fills, with reasons for whatever is not settled.

  The model. Decimals are rationals rounded by \<open>dround\<close> to 28 significant digits, half to even
  (Decimal28: the default context of \<^verbatim>\<open>decimal\<close>), so every \<open>dadd\<close>, \<open>dmul\<close>, \<open>dquot\<close> is the
  rounded operation of the code; exponent range and signed zeros are not modelled. JSON values
  and Python's typed leaves are the datatype \<open>json\<close> (Py_Values), instants are microseconds.
  Exceptions are values of \<open>py_error\<close> and fallible code returns \<open>'a result\<close>; message texts that
  name a value are shortened to their constant part. State is passed explicitly: \<open>account\<close> is
  the experiment's state dictionary, \<open>log_store\<close> an append-only log, \<open>repo\<close> the tables of the
  trade-idea database, and an operation of the service is an \<open>act\<close>: a function of a \<open>world\<close>, which
  holds the tables and the readings of the clock and of fresh identities, to a result and a world
  (Idea_Repository); \<open>run_write\<close> and \<open>run_admission\<close> are its two transactions, and a \<open>request\<close>
  (Idea_Requests) is a call in its transaction. Parameters stand for code
  outside the repository or for hash functions: the checksum of an event or a payload, the JSON
  parser, the model transport, and the two rule proposers behind \<^verbatim>\<open>benchmarks.propose\<close>, so that
  the theorems hold for whatever they return; the environment \<open>service_env\<close> of the service holds the
  clock, the identities, the record hash, the exchange calendars and the texts of numbers and times;
  \<open>orders_env\<close> of the order store holds its hash and clock. The tables of the order store are the
  record \<open>orders_db\<close>, a record of it what \<^verbatim>\<open>_row_to_record\<close> reads back.

  What is shown.
  \<^item> The journal (Spec2Isabelle, Exp_Journal, Exp_Reconcile): every run the engine can make
    reconciles; what a run commits is read back, and only that; an unlimited run completes.
    \<open>reached\<close> is the step relation of runs with arbitrary transports, \<open>committed\<close> that of the
    stored rows; invariants are proved by rule induction over both.
  \<^item> The bar (Exp_Properties over Exp_Engine, Exp_Limits, Exp_Sizing, Exp_Lookahead,
    Exp_Liveness): the books, the entry limits with an explicit bound on the rounding error, the
    exits, the drawdown halt, the absence of look-ahead, and progress of the rulebook channel.
  \<^item> Inputs and replies (Exp_Inputs, Exp_Manager): accepted values are well formed.
  \<^item> The reducer (Fill_Accounting): total on accepted fills and independent of their order.
  \<^item> Serialization (Idea_Models, Core_Trading): \<^verbatim>\<open>from_dict\<close> inverts \<^verbatim>\<open>to_dict\<close>.
  \<^item> The ledgers (Jsonl_Log's locale \<open>versioned_log\<close>, interpreted for budgets and autonomy;
    Idea_Audit, Idea_Closeout): appended entries are read back in sequence, a verified audit
    log only contains walks of the state machine, a decision has one closeout.
  \<^item> Policy and accounting (Idea_Policy, Idea_Autonomy, Idea_Accounting): what an admitted
    approval satisfies, that the autonomy level fails closed and only a human raises it, and
    that the two folds of the accountant and the monitors agree with the ratchet triggers.
  \<^item> The service (Idea_Governance, Idea_Requests, Idea_Approvals): \<open>repo_ok\<close> is the invariant of its
    committed states, kept by every operation through the rules of \<open>establishes\<close> and the locales
    \<open>governed\<close> and \<open>transactional\<close>; so every such state reads back completely, an approval is
    recorded only behind a clean check, and an exception leaves everything but a lowered autonomy
    level as it was. Reductions stay within their position (Idea_Positions), and a review window
    is spent in open market time (Trading_Calendar).
  \<^item> The executor (Idea_Lane): \<open>executing\<close> is the step relation of service calls, admissions, orders,
    settlements, recoveries and stops in any interleaving; \<open>lane_ok\<close> is its invariant, over the
    rules of \<open>extends_at\<close> (rows stay) and \<open>preserves\<close>; no idea is ordered twice.
  \<^item> Outcomes (Idea_Replay, Idea_Exit_Monitor): a score is the first touch of stop or target, later bars do
    not change it, a stopped idea loses one unit of risk, and the exit monitor closes an idea only so, or
    past its expiry; a pass keeps \<open>repo_ok\<close>.
  \<^item> The order store (Orders_History): \<open>order_run\<close> is the relation of histories, \<open>orders_ok\<close> its invariant and
    \<open>advances\<close> the order in which a record may change; reservations and fills count once, fills stay
    within the admitted order, and a complete projection has no unsettled order.
  \<^item> Live controls (Live_Degradation): a pause is never shortened, and a lifecycle follows its table.

  Bounds and fuel. \<open>run_bars\<close> takes the number of bars plus one as fuel for a run without a
  limit: every iteration commits a bar or breaks at the last one, which
  \<open>unlimited_run_completes\<close> proves enough. All other loops are structural recursion over
  lists. The decimal theorems that need exact arithmetic take \<open>precise\<close>: amounts that fit 28
  digits on a common grid; without it the code's own exact comparison can fail, because
  addition of rounded decimals is not associative.

  Not modelled. The command line, web and monitoring layers, brokers and their transports,
  SQLite connections with their locks and nested transactions, backups and schema creation of the order store, migrations, file locking, the model
  HTTP transport and credentials are input and output. The backtester, strategies, live trading engines (beside the two controls above), intelligence and
  recorder packages are further subsystems that the parts above do not call. Of the trade
  ideas, the export of a broker ticket (it renders and writes nothing), the files of an inactive
  repository, scorecards, reports and the rendering of replay results are left out, and so is the
  timer-driven cycle of idea execution.
\<close>

section \<open>The experiment as a whole\<close>

text \<open>
  C1: Every journal the engine can write reconciles. For a well-formed input, any sequence of
  bars advanced by the engine, with any transport and any proposer, and amounts that 28 digits
  hold exactly on a common grid, the independent derivation of \<^verbatim>\<open>reconcile\<close> (cash from the
  fills, inventory and profit from the shared position reducer) agrees with the account the
  engine kept, and cash is not negative.
\<close>

theorem journal_reconciles:
  assumes "reached ext x st evs" and "wf_input x" and "precise k kp x evs"
  shows "(\<exists>r. reconcile x evs = Inr r) \<and> 0 \<le> st_cash st"
proof
  show "\<exists>r. reconcile x evs = Inr r" using reached_reconciles[OF assms] by (simp add: is_ok_iff)
  have "journal_state x evs = st" using reached_state[OF assms(1)] by simp
  then have "precise_fills k kp x (journal_fills evs)"
    using assms(2,3) by (auto simp: precise_def Let_def precise_fills_def sized_def wf_input_def wf_settings_def)
  then show "0 \<le> st_cash st" by (rule reached_cash_nonneg[OF assms(1,2)])
qed

theorem journal_reconciles_witness:
  "length (journal_fills ex_journal) = 1 \<and> (\<exists>r. reconcile ex_input ex_journal = Inr r) \<and> 0 \<le> st_cash ex_st2"
  using journal_reconciles[OF ex_reached ex_wf ex_precise]
  by (simp add: ex_journal_def ex_ev0_def ex_ev1_def journal_fills_def)

text \<open>
  C2: What a run commits can always be read back. Whatever the sequence of runs, resumed or
  interrupted, whatever the model replied, the stored rows pass every check of
  \<^verbatim>\<open>read_events\<close>: the hash chain, the checksums and the deterministic replay of each bar, in
  which a committed model turn is answered from its record. The events read back are one per
  row and form a journal the engine can write.
\<close>

theorem committed_rows_replay:
  assumes "committed ext checksum x rows"
  shows "\<exists>evs. read_events ext checksum x rows = Inr evs \<and> length evs = length rows
    \<and> length rows \<le> length (x_candles x) \<and> reached ext x (journal_state x evs) evs"
proof -
  from committed_readable[OF assms] obtain evs where
    e: "read_events ext checksum x rows = Inr evs" "length evs = length rows" "length rows \<le> length (x_candles x)"
    by blast
  then show ?thesis using read_rows_reached[OF read_events_rows[OF e(1)]] by blast
qed

lemma ex_reconcile0: "is_ok (reconcile ex_input [])"
  by code_simp

definition ex_rows :: "row list" where
  "ex_rows = [(0, hd ex_journal, ex_checksum (hd ex_journal))]"

lemma ex_committed: "committed ex_ext ex_checksum ex_input ex_rows"
proof -
  have r: "read_events ex_ext ex_checksum ex_input [] = Inr []" by (simp add: read_events_def)
  have s: "journal_state ex_input [] = initial_state ex_input" by (simp add: journal_state_def)
  have h: "hd ex_journal = ex_ev0\<lparr>ev_previous := x_identity ex_input\<rparr>" by (simp add: ex_journal_def)
  have "is_ok (reconcile ex_input [hd ex_journal])" unfolding h by code_simp
  then have "run_bar ex_ext ex_checksum ex_input None []
      = Inr (Some ex_rows)"
    using ex_reconcile0 ex_advance0 by (auto simp: run_bar_def Let_def r s h is_ok_iff ex_bar1 ex_rows_def)
  then show ?thesis
    using committed_bar[OF committed_new, of None] by (simp add: transport_ok_def)
qed

theorem committed_rows_replay_witness:
  "\<exists>evs. read_events ex_ext ex_checksum ex_input ex_rows = Inr evs
    \<and> length evs = length ex_rows
    \<and> length ex_rows \<le> length (x_candles ex_input)
    \<and> reached ex_ext ex_input (journal_state ex_input evs) evs"
  by (rule committed_rows_replay[OF ex_committed])

text \<open>
  C3: \<^verbatim>\<open>read_events\<close> accepts nothing else. Any rows it accepts are exactly the events of a
  journal the engine itself can write on this input, in sequence, each stored with its own
  checksum: an edited amount, a dropped or reordered row or a changed model reply is refused.
\<close>

theorem accepted_rows_are_replays:
  assumes "read_events ext checksum x rows = Inr evs"
  shows "rows = map (\<lambda>ev. (ev_sequence ev, ev, checksum ev)) evs
    \<and> reached ext x (journal_state x evs) evs"
  using read_rows_reached[OF read_events_rows[OF assms]] by blast

theorem accepted_rows_are_replays_witness:
  "\<exists>evs. ex_rows = map (\<lambda>ev. (ev_sequence ev, ev, ex_checksum ev)) evs
    \<and> reached ex_ext ex_input (journal_state ex_input evs) evs"
  using committed_readable[OF ex_committed] accepted_rows_are_replays by metis

text \<open>
  C4: A run without a bar limit ends, and ends complete: \<^verbatim>\<open>run_experiment\<close> on the rows of an
  earlier run either stops with an exception or has committed one row for every bar.
\<close>

theorem unlimited_run_completes:
  assumes "committed ext checksum x rows" and "transport_ok tp"
    and "run_experiment ext checksum x None benchmark tp rows = (rows', None)"
  shows "length rows' = length (x_candles x)"
  using assms by (rule run_experiment_complete)


definition ex_one :: experiment_input where
  "ex_one = ex_input\<lparr>x_candles := [ex_candle 0 100 101 99 100]\<rparr>"

definition ex_one_event :: event where
  "ex_one_event = ex_ev0\<lparr>ev_previous := x_identity ex_one\<rparr>"

lemma ex_one_run: "snd (run_experiment ex_ext ex_checksum ex_one None None None []) = None"
proof -
  let ?rows = "[(0, ex_one_event, ex_checksum ex_one_event)]"
  have a: "advance ex_ext ex_one 0 (initial_state ex_one) None = Inr ex_ev0" by code_simp
  have m: "\<not> managed ex_one" "length (x_candles ex_one) = 1" "x_candles ex_one ! 0 = ev_bar ex_one_event"
    "ev_sequence ex_one_event = 0" "ev_previous ex_one_event = x_identity ex_one"
    by code_simp+
  have r0: "is_ok (reconcile ex_one [])" and r1: "is_ok (reconcile ex_one [ex_one_event])" by code_simp+
  have e0: "read_events ex_ext ex_checksum ex_one [] = Inr []" by (simp add: read_events_def)
  have s: "journal_state ex_one [] = initial_state ex_one" by (simp add: journal_state_def)
  have b0: "run_bar ex_ext ex_checksum ex_one None [] = Inr (Some ?rows)"
    using r0 r1 by (auto simp: run_bar_def Let_def e0 s a m is_ok_iff ex_one_event_def)
  have e1: "read_events ex_ext ex_checksum ex_one ?rows = Inr [ex_one_event]"
    using m by (simp add: read_events_def Exp_Ledger.read_row_def s a ex_one_event_def)
  have b1: "run_bar ex_ext ex_checksum ex_one None ?rows = Inr None"
    using r1 by (auto simp: run_bar_def Let_def e1 m is_ok_iff)
  show ?thesis by (simp add: run_experiment_def m b0 b1 numeral_2_eq_2)
qed

theorem unlimited_run_completes_witness:
  "length (fst (run_experiment ex_ext ex_checksum ex_one None None None [])) = length (x_candles ex_one)"
proof (rule unlimited_run_completes)
  show "committed ex_ext ex_checksum ex_one []" by (rule committed_new)
  show "transport_ok None" by (simp add: transport_ok_def)
  show "run_experiment ex_ext ex_checksum ex_one None None None []
      = (fst (run_experiment ex_ext ex_checksum ex_one None None None []), None)"
    using ex_one_run by (metis prod.collapse)
qed

end
